(* ===== verification/Prelude.thy ===== *)
theory Prelude
  imports Complex_Main "HOL-Library.Word" "HOL-Library.Sublist"
begin

text \<open>
  Shared base of the development: the machine types of the C++ sources, faults
  (assertions, null dereferences, out-of-range accesses) as values, and the intrusive
  BSD list (\<^verbatim>\<open>LIST_HEAD\<close>, \<^verbatim>\<open>LIST_INSERT_HEAD\<close> of ns-2.29-ori/lib/bsd-list.h) in which the
  MIPv6, SIP and application tables are kept, with pointers into it.
\<close>

unbundle bit_operations_syntax

section \<open>Machine types\<close>

text \<open>
  An \<^verbatim>\<open>int\<close> that holds an address, an identifier or a port is a 32 bit word (the code masks
  it and compares it for equality); the marker \<^verbatim>\<open>-1\<close> of an unset address is the word
  \<open>- 1\<close>. Sizes, sequence numbers and counters are mathematical integers, times
  (\<^verbatim>\<open>double\<close>) are reals.
\<close>

type_synonym addr = "32 word"
type_synonym time = real

text \<open>Nodes and agents are referred to by a name; a C++ pointer to one is an option.\<close>

type_synonym node_ref = nat
type_synonym nemo_ref = nat
type_synonym mac_ref = nat

named_theorems lookup_simps \<open>evaluation of the table lookups\<close>
named_theorems wf_intros \<open>operations keep the well-formedness of their component\<close>

section \<open>Faults\<close>

datatype fault = AssertFail | NullPtr | OutOfRange | DivByZero | ExitProcess | Uninitialised | Abort | NoReturn | BadShift

type_synonym 'a res = "fault + 'a"

text \<open>\<open>need e x k\<close> continues with the object that \<open>x\<close> points to and faults with \<open>e\<close> on NULL.\<close>

fun need :: "fault \<Rightarrow> 'a option \<Rightarrow> ('a \<Rightarrow> 'b res) \<Rightarrow> 'b res" where
  "need e None k = Inl e"
| "need e (Some x) k = k x"

definition check :: "fault \<Rightarrow> bool \<Rightarrow> 'b res \<Rightarrow> 'b res" where
  "check e b k = (if b then k else Inl e)"

fun bind_res :: "'a res \<Rightarrow> ('a \<Rightarrow> 'b res) \<Rightarrow> 'b res" where
  "bind_res (Inl e) k = Inl e"
| "bind_res (Inr x) k = k x"

text \<open>\<open>iter_res n f\<close> runs \<open>f\<close> \<open>n\<close> times, stopping at the first fault.\<close>

fun iter_res :: "nat \<Rightarrow> ('a \<Rightarrow> 'a res) \<Rightarrow> 'a \<Rightarrow> 'a res" where
  "iter_res 0 f x = Inr x"
| "iter_res (Suc n) f x = bind_res (f x) (iter_res n f)"

lemma need_Inr [simp]: "need e x k = Inr y \<longleftrightarrow> (\<exists>v. x = Some v \<and> k v = Inr y)"
  by (cases x) auto

lemma need_InrE:
  assumes "need e x k = Inr y"
  obtains v where "x = Some v" and "k v = Inr y"
  using assms by auto

lemma check_Inr [simp]: "check e b k = Inr y \<longleftrightarrow> b \<and> k = Inr y"
  by (simp add: check_def)

lemma check_True [simp]: "check e True k = k"
  by (simp add: check_def)

lemma check_False [simp]: "check e False k = Inl e"
  by (simp add: check_def)

lemma check_Inl: "check e b k = Inl f \<longleftrightarrow> (if b then k = Inl f else e = f)"
  by (simp add: check_def)

lemma need_Inl:
  "need e x k = Inl f \<longleftrightarrow> (case x of None \<Rightarrow> e = f | Some v \<Rightarrow> k v = Inl f)"
  by (cases x) auto

lemma bind_res_Inr [simp]: "bind_res m k = Inr y \<longleftrightarrow> (\<exists>x. m = Inr x \<and> k x = Inr y)"
  by (cases m) auto

lemma bind_res_Inl:
  "bind_res m k = Inl f \<longleftrightarrow> m = Inl f \<or> (\<exists>x. m = Inr x \<and> k x = Inl f)"
  by (cases m) auto

lemma need_cong [cong]:
  "x = x' \<Longrightarrow> (\<And>v. x' = Some v \<Longrightarrow> k v = k' v) \<Longrightarrow> need e x k = need e x' k'"
  by (cases x') auto

text \<open>\<open>ensures P m\<close>: when \<open>m\<close> does not fault, its result satisfies \<open>P\<close>.\<close>

definition ensures :: "('a \<Rightarrow> bool) \<Rightarrow> 'a res \<Rightarrow> bool" where
  "ensures P m \<longleftrightarrow> (\<forall>x. m = Inr x \<longrightarrow> P x)"

lemma ensuresD: "ensures P m \<Longrightarrow> m = Inr x \<Longrightarrow> P x"
  by (simp add: ensures_def)

lemma ensures_Inr [simp]: "ensures P (Inr x) \<longleftrightarrow> P x"
  by (simp add: ensures_def)

lemma ensures_Inl [simp]: "ensures P (Inl e)"
  by (simp add: ensures_def)

lemma ensures_bind [simp]: "ensures P (bind_res m k) \<longleftrightarrow> ensures (\<lambda>x. ensures P (k x)) m"
  by (cases m) auto

lemma ensures_need [simp]: "ensures P (need e x k) \<longleftrightarrow> (\<forall>v. x = Some v \<longrightarrow> ensures P (k v))"
  by (cases x) auto

lemma ensures_check [simp]: "ensures P (check e b m) \<longleftrightarrow> (b \<longrightarrow> ensures P m)"
  by (simp add: check_def)

lemma ensures_mono: "ensures P m \<Longrightarrow> (\<And>x. P x \<Longrightarrow> Q x) \<Longrightarrow> ensures Q m"
  by (simp add: ensures_def)

lemma ensures_all: "(\<And>x. P x) \<Longrightarrow> ensures P m"
  by (simp add: ensures_def)

section \<open>Intrusive BSD lists\<close>

text \<open>
  A \<^verbatim>\<open>LIST_HEAD\<close> list is modelled head first. No table of the modelled agents ever unlinks
  an entry, they only use \<^verbatim>\<open>LIST_INSERT_HEAD\<close>; so a pointer to an entry is the number of
  entries behind it, which insertion at the head leaves valid.
\<close>

type_synonym ptr = nat

fun entry_at :: "'e list \<Rightarrow> ptr \<Rightarrow> 'e option" where
  "entry_at [] r = None"
| "entry_at (e # es) r = (if r = length es then Some e else entry_at es r)"

text \<open>The traversals \<^verbatim>\<open>for(;bu;bu=bu->next_entry()) if(...) return bu; return NULL;\<close>\<close>

fun first_ptr :: "('e \<Rightarrow> bool) \<Rightarrow> 'e list \<Rightarrow> ptr option" where
  "first_ptr P [] = None"
| "first_ptr P (e # es) = (if P e then Some (length es) else first_ptr P es)"

fun all_ptrs :: "('e \<Rightarrow> bool) \<Rightarrow> 'e list \<Rightarrow> ptr list" where
  "all_ptrs P [] = []"
| "all_ptrs P (e # es) = (if P e then length es # all_ptrs P es else all_ptrs P es)"

text \<open>Assignment through a pointer.\<close>

fun upd_at :: "ptr \<Rightarrow> ('e \<Rightarrow> 'e) \<Rightarrow> 'e list \<Rightarrow> 'e list" where
  "upd_at r f [] = []"
| "upd_at r f (e # es) = (if r = length es then f e # es else e # upd_at r f es)"

lemma length_upd_at [simp]: "length (upd_at r f es) = length es"
  by (induction es) auto

lemma entry_at_Some_lt: "entry_at es r = Some e \<Longrightarrow> r < length es"
  by (induction es) (auto split: if_splits)

lemma entry_at_None_iff [simp]: "entry_at es r = None \<longleftrightarrow> length es \<le> r"
  by (induction es) auto

lemma entry_at_in_set: "entry_at es r = Some e \<Longrightarrow> e \<in> set es"
  by (induction es) (auto split: if_splits)

lemma in_set_entry_at: "e \<in> set es \<Longrightarrow> \<exists>r. entry_at es r = Some e"
proof (induction es)
  case (Cons a es)
  show ?case
  proof (cases "e = a")
    case True
    then show ?thesis by (intro exI [of _ "length es"]) simp
  next
    case False
    with Cons obtain r where r: "entry_at es r = Some e" by auto
    from entry_at_Some_lt [OF r] have "r \<noteq> length es" by simp
    with r show ?thesis by (intro exI [of _ r]) simp
  qed
qed simp

lemma entry_at_Cons_old: "r < length es \<Longrightarrow> entry_at (e # es) r = entry_at es r"
  by simp

lemma entry_at_upd_at:
  "entry_at (upd_at r f es) r' = (if r' = r then map_option f (entry_at es r) else entry_at es r')"
  by (induction es) auto

lemma entry_at_eq_nth: "r < length es \<Longrightarrow> entry_at es r = Some (es ! (length es - Suc r))"
proof (induction es)
  case (Cons e es)
  show ?case
  proof (cases "r = length es")
    case False
    with Cons.prems have "r < length es" by simp
    then have "length es - r = Suc (length es - Suc r)" by arith
    with Cons.IH \<open>r < length es\<close> show ?thesis by simp
  qed simp
qed simp

lemma entry_at_map: "entry_at (map g es) r = map_option g (entry_at es r)"
  by (induction es) auto

lemma entry_at_append: "r < length ys \<Longrightarrow> entry_at (xs @ ys) r = entry_at ys r"
  by (induction xs) auto

text \<open>Whatever is put in front of a list, its pointers stay valid.\<close>

lemma entry_at_suffix:
  assumes "suffix (map g es) (map g es')" and "entry_at es r = Some e"
  shows "\<exists>e'. entry_at es' r = Some e' \<and> g e' = g e"
proof -
  from assms(1) obtain xs where "map g es' = xs @ map g es" by (auto simp: suffix_def)
  then have "entry_at (map g es') r = entry_at (map g es) r"
    using entry_at_Some_lt [OF assms(2)] by (simp add: entry_at_append)
  with assms(2) show ?thesis by (auto simp: entry_at_map map_option_eq_Some)
qed

lemma first_ptr_SomeD:
  "first_ptr P es = Some r \<Longrightarrow> \<exists>e. entry_at es r = Some e \<and> P e"
proof (induction es)
  case (Cons e es)
  then show ?case
    by (auto split: if_splits) (metis entry_at_Some_lt nat_less_le)+
qed simp

lemma first_ptr_lt: "first_ptr P es = Some r \<Longrightarrow> r < length es"
  by (auto dest!: first_ptr_SomeD entry_at_Some_lt)

lemma first_ptr_None [simp]: "first_ptr P es = None \<longleftrightarrow> (\<forall>e \<in> set es. \<not> P e)"
  by (induction es) auto

text \<open>The pointer found is the one nearest the head: every entry in front of it fails the test.\<close>

lemma first_ptr_newest:
  "first_ptr P es = Some r \<Longrightarrow> entry_at es r' = Some e \<Longrightarrow> P e \<Longrightarrow> r' \<le> r"
proof (induction es)
  case (Cons a es)
  show ?case
  proof (cases "P a")
    case True
    with Cons.prems(1) entry_at_Some_lt [OF Cons.prems(2)] show ?thesis by simp
  next
    case False
    with Cons.prems have "first_ptr P es = Some r" and "r' \<noteq> length es" by auto
    with Cons.prems have "entry_at es r' = Some e" by simp
    with \<open>first_ptr P es = Some r\<close> Cons show ?thesis by blast
  qed
qed simp

lemma first_ptr_cong:
  "(\<And>e. e \<in> set es \<Longrightarrow> P e = Q e) \<Longrightarrow> first_ptr P es = first_ptr Q es"
  by (induction es) auto

lemma first_ptr_upd_at:
  assumes "\<And>e. entry_at es r = Some e \<Longrightarrow> P (f e) = P e"
  shows "first_ptr P (upd_at r f es) = first_ptr P es"
  using assms by (induction es) auto

lemma all_ptrs_set: "r \<in> set (all_ptrs P es) \<longleftrightarrow> (\<exists>e. entry_at es r = Some e \<and> P e)"
  by (induction es) (auto dest: entry_at_Some_lt)

lemma all_ptrs_lt: "r \<in> set (all_ptrs P es) \<Longrightarrow> r < length es"
  by (auto simp: all_ptrs_set dest: entry_at_Some_lt)

lemma distinct_all_ptrs [simp]: "distinct (all_ptrs P es)"
  by (induction es) (auto dest: all_ptrs_lt)

lemma all_ptrs_Nil_iff: "all_ptrs P es = [] \<longleftrightarrow> (\<forall>e \<in> set es. \<not> P e)"
  by (induction es) auto

lemma first_ptr_hd_all_ptrs:
  "first_ptr P es = (case all_ptrs P es of [] \<Rightarrow> None | r # _ \<Rightarrow> Some r)"
  by (induction es) auto

lemma all_ptrs_upd_at:
  assumes "\<And>e. entry_at es r = Some e \<Longrightarrow> P (f e) = P e"
  shows "all_ptrs P (upd_at r f es) = all_ptrs P es"
  using assms by (induction es) auto

lemma set_upd_at_subset: "set (upd_at r f es) \<subseteq> set es \<union> f ` set es"
  by (induction es) auto

lemma map_upd_at:
  assumes "\<And>e. g (f e) = g e"
  shows "map g (upd_at r f es) = map g es"
  using assms by (induction es) auto

text \<open>Dereferencing the result of a lookup.\<close>

definition lookup_entry :: "('e \<Rightarrow> bool) \<Rightarrow> 'e list \<Rightarrow> 'e option" where
  "lookup_entry P es = Option.bind (first_ptr P es) (entry_at es)"

lemma lookup_entry_Cons:
  "lookup_entry P (e # es) = (if P e then Some e else lookup_entry P es)"
proof (cases "first_ptr P es")
  case (Some r)
  then show ?thesis using first_ptr_lt [OF Some] by (simp add: lookup_entry_def)
qed (simp add: lookup_entry_def del: first_ptr_None)

lemma lookup_entry_Nil [simp]: "lookup_entry P [] = None"
  by (simp add: lookup_entry_def)

lemma lookup_entry_find [lookup_simps]: "lookup_entry P es = find P es"
  by (induction es) (simp_all add: lookup_entry_Cons)

lemma lookup_entry_first_ptr:
  "first_ptr P es = Some r \<Longrightarrow> lookup_entry P es = entry_at es r"
  by (simp add: lookup_entry_def)

lemma lookup_entry_None_iff: "lookup_entry P es = None \<longleftrightarrow> (\<forall>e \<in> set es. \<not> P e)"
  by (auto simp: lookup_simps find_None_iff)

lemma find_SomeD: "find P es = Some e \<Longrightarrow> e \<in> set es \<and> P e"
  by (auto simp: find_Some_iff)

lemma find_unique_key: "distinct (map g es) \<Longrightarrow> e \<in> set es \<Longrightarrow> find (\<lambda>x. g x = g e) es = Some e"
  by (induction es) (auto simp: rev_image_eqI)

lemma find_upd_at:
  assumes "\<And>e. P (f e) = P e"
  shows "find P (upd_at r f es) = (if first_ptr P es = Some r then map_option f (find P es) else find P es)"
proof (induction es)
  case (Cons e es)
  show ?case
  proof (cases "P e")
    case True
    then show ?thesis using assms by auto
  next
    case False
    have "first_ptr P es = Some r \<Longrightarrow> r \<noteq> length es" using first_ptr_lt by fastforce
    with Cons False assms show ?thesis by auto
  qed
qed simp

text \<open>With unique keys, an entry found by another criterion is the one that its key names.\<close>

lemma first_ptr_unique:
  assumes "distinct (map g es)" and "find P es = Some e" 
  shows "first_ptr P es = first_ptr (\<lambda>x. g x = g e) es"
  using assms
proof (induction es)
  case (Cons a es)
  show ?case
  proof (cases "P a")
    case False
    with Cons.prems have "find P es = Some e" by simp
    then have "e \<in> set es" by (auto dest: find_SomeD)
    with Cons.prems have "g a \<noteq> g e" by (auto simp: rev_image_eqI)
    with Cons False show ?thesis by simp
  qed (use Cons.prems in auto)
qed simp

text \<open>
  The update pattern of the registration handlers: look an entry up, create and insert it
  when it is missing, and go on with the pointer.
\<close>

definition find_or_insert :: "('e \<Rightarrow> bool) \<Rightarrow> 'e \<Rightarrow> 'e list \<Rightarrow> ptr \<times> 'e list" where
  "find_or_insert P e es =
     (case first_ptr P es of Some r \<Rightarrow> (r, es) | None \<Rightarrow> (length es, e # es))"

lemma find_or_insert_entry:
  "find_or_insert P e es = (r, es') \<Longrightarrow> P e \<Longrightarrow> \<exists>e'. entry_at es' r = Some e' \<and> P e'"
  by (auto simp: find_or_insert_def split: option.splits dest: first_ptr_SomeD)

lemma find_or_insert_first:
  "find_or_insert P e es = (r, es') \<Longrightarrow> P e \<Longrightarrow> first_ptr P es' = Some r"
  by (auto simp: find_or_insert_def split: option.splits)

lemma find_or_insert_other:
  "find_or_insert P e es = (r, es') \<Longrightarrow> \<not> Q e \<Longrightarrow> first_ptr Q es' = first_ptr Q es"
  by (auto simp: find_or_insert_def split: option.splits)

section \<open>Integer division of C++\<close>

text \<open>Division truncates towards zero; a zero divisor has to be excluded by the caller.\<close>

definition c_div :: "int \<Rightarrow> int \<Rightarrow> int" where
  "c_div a b = sgn a * sgn b * (\<bar>a\<bar> div \<bar>b\<bar>)"

definition c_mod :: "int \<Rightarrow> int \<Rightarrow> int" where
  "c_mod a b = a - c_div a b * b"

lemma c_div_nonneg [simp]: "0 \<le> a \<Longrightarrow> 0 < b \<Longrightarrow> c_div a b = a div b"
  by (cases "a = 0") (auto simp: c_div_def)

lemma c_mod_nonneg [simp]: "0 \<le> a \<Longrightarrow> 0 < b \<Longrightarrow> c_mod a b = a mod b"
  by (simp add: c_mod_def minus_div_mult_eq_mod)

section \<open>Lists\<close>

lemma sum_list_replicate_int: "sum_list (replicate n (c :: int)) = int n * c"
  by (simp add: sum_list_replicate)

lemma nth_mod_mem: "xs \<noteq> [] \<Longrightarrow> xs ! (k mod length xs) \<in> set xs"
  by simp

section \<open>Masks\<close>

text \<open>
  The network part of an address, \<^verbatim>\<open>a & 0xFFFFF800\<close>, and its host part \<^verbatim>\<open>a & 0x7FF\<close>.
\<close>

definition net_mask :: addr where "net_mask = 0xFFFFF800"

definition host_mask :: addr where "host_mask = 0x7FF"

definition prefix_of :: "addr \<Rightarrow> addr" where "prefix_of a = a AND net_mask"

lemma host_mask_mask: "host_mask = mask 11"
  by (simp add: host_mask_def mask_eq_exp_minus_1)

lemma net_mask_not: "net_mask = NOT host_mask"
  by (simp add: host_mask_def net_mask_def)

lemma prefix_of_idem [simp]: "prefix_of (prefix_of a) = prefix_of a"
  by (simp add: prefix_of_def and.assoc)

lemma host_prefix_disjoint [simp]: "prefix_of a AND host_mask = 0"
  by (simp add: prefix_of_def net_mask_not and.assoc)

lemma bit_prefix_of: "bit (prefix_of a) n \<longleftrightarrow> 11 \<le> n \<and> bit a n"
  by (auto simp: prefix_of_def net_mask_not host_mask_mask bit_and_iff bit_not_iff bit_mask_iff
      dest: bit_imp_le_length)

section \<open>Runs\<close>

text \<open>
  A component handles a list of inputs one after the other; \<open>steps_ok\<close> says that the surroundings respect
  their side of the contract, \<open>ok\<close>, at every step of the run.
\<close>

fun run_steps :: "('s \<Rightarrow> 'i \<Rightarrow> ('s \<times> 'o) res) \<Rightarrow> 's \<Rightarrow> 'i list \<Rightarrow> ('s \<times> 'o list) res" where
  "run_steps step s [] = Inr (s, [])"
| "run_steps step s (i # is) =
     bind_res (step s i) (\<lambda>(s1, x). bind_res (run_steps step s1 is) (\<lambda>(s2, xs). Inr (s2, x # xs)))"

fun steps_ok :: "('s \<Rightarrow> 'i \<Rightarrow> ('s \<times> 'o) res) \<Rightarrow> ('s \<Rightarrow> 'i \<Rightarrow> bool) \<Rightarrow> 's \<Rightarrow> 'i list \<Rightarrow> bool" where
  "steps_ok step ok s [] = True"
| "steps_ok step ok s (i # is) = (ok s i \<and> (case step s i of Inr (s1, _) \<Rightarrow> steps_ok step ok s1 is | Inl _ \<Rightarrow> True))"

text \<open>
  A component whose steps, under the contract, never fault, keep an invariant and follow the steps of
  an abstract specification.
\<close>

locale simulation =
  fixes step :: "'s \<Rightarrow> 'i \<Rightarrow> ('s \<times> 'o) res"
    and ok :: "'s \<Rightarrow> 'i \<Rightarrow> bool"
    and inv :: "'s \<Rightarrow> bool"
    and abs :: "'s \<Rightarrow> 'a"
    and astep :: "'i \<Rightarrow> 'a \<Rightarrow> 'a"
  assumes simulates: "inv s \<Longrightarrow> ok s i \<Longrightarrow> \<exists>s' x. step s i = Inr (s', x) \<and> inv s' \<and> abs s' = astep i (abs s)"
begin

lemma run_simulates:
  "inv s \<Longrightarrow> steps_ok step ok s is \<Longrightarrow>
     \<exists>s' xs. run_steps step s is = Inr (s', xs) \<and> length xs = length is \<and> inv s' \<and> abs s' = fold astep is (abs s)"
proof (induction "is" arbitrary: s)
  case (Cons i "is")
  then obtain s1 x where 1: "step s i = Inr (s1, x)" "inv s1" "abs s1 = astep i (abs s)" using simulates by fastforce
  with Cons obtain s2 xs where "run_steps step s1 is = Inr (s2, xs)" "length xs = length is" "inv s2"
    "abs s2 = fold astep is (abs s1)" by fastforce
  with 1 show ?case by simp
qed simp

lemma run_inv:
  assumes "inv s" and "steps_ok step ok s is" and "run_steps step s is = Inr (s', xs)"
  shows "inv s'" "abs s' = fold astep is (abs s)"
  using run_simulates [OF assms(1,2)] assms(3) by auto

end

text \<open>
  The steps of a data structure with their results, and a structure that refines them: related
  states give the same results and stay related.
\<close>

fun spec_run :: "('i \<Rightarrow> 'a \<Rightarrow> 'a \<times> 'o) \<Rightarrow> 'a \<Rightarrow> 'i list \<Rightarrow> 'a \<times> 'o list" where
  "spec_run astep a [] = (a, [])"
| "spec_run astep a (i # is) = (let (a1, x) = astep i a; (a2, xs) = spec_run astep a1 is in (a2, x # xs))"

fun spec_ok :: "('i \<Rightarrow> 'a \<Rightarrow> 'a \<times> 'o) \<Rightarrow> ('a \<Rightarrow> 'i \<Rightarrow> bool) \<Rightarrow> 'a \<Rightarrow> 'i list \<Rightarrow> bool" where
  "spec_ok astep ok a [] = True"
| "spec_ok astep ok a (i # is) = (ok a i \<and> spec_ok astep ok (fst (astep i a)) is)"

locale data_refinement =
  fixes step :: "'s \<Rightarrow> 'i \<Rightarrow> ('s \<times> 'o) res"
    and rel :: "'s \<Rightarrow> 'a \<Rightarrow> bool"
    and astep :: "'i \<Rightarrow> 'a \<Rightarrow> 'a \<times> 'o"
    and ok :: "'a \<Rightarrow> 'i \<Rightarrow> bool"
  assumes refines: "rel s a \<Longrightarrow> ok a i \<Longrightarrow> \<exists>s'. step s i = Inr (s', snd (astep i a)) \<and> rel s' (fst (astep i a))"
begin

lemma run_refines:
  "rel s a \<Longrightarrow> spec_ok astep ok a is \<Longrightarrow>
     \<exists>s'. run_steps step s is = Inr (s', snd (spec_run astep a is)) \<and> rel s' (fst (spec_run astep a is))"
proof (induction "is" arbitrary: s a)
  case (Cons i "is")
  then obtain s1 where 1: "step s i = Inr (s1, snd (astep i a))" "rel s1 (fst (astep i a))" using refines by fastforce
  moreover from Cons 1(2) obtain s2 where "run_steps step s1 is = Inr (s2, snd (spec_run astep (fst (astep i a)) is))"
    "rel s2 (fst (spec_run astep (fst (astep i a)) is))" by fastforce
  ultimately show ?case by (simp add: case_prod_unfold Let_def)
qed simp

end

end
