(* ===== verification/Addresses.thy ===== *)
theory Addresses
  imports Prelude
begin

text \<open>
  The hierarchical node addresses of ns-2.29-ori/routing/address.cc: an address is a word in
  which every level owns a bit field. A dotted address text such as \<^verbatim>\<open>8.0.1\<close> is modelled by
  the list of its decimal components.
\<close>

section \<open>The Address singleton\<close>

record addr_level =
  NodeShift :: nat
  NodeMask :: addr
  bpl :: nat

type_synonym address = "addr_level list"

definition set_word_field :: "addr \<Rightarrow> addr \<Rightarrow> nat \<Rightarrow> addr \<Rightarrow> addr" where
  "set_word_field w field sh m = push_bit sh (field AND m) OR (NOT (push_bit sh m) AND w)"

definition print_level :: "address \<Rightarrow> addr \<Rightarrow> addr_level \<Rightarrow> int" where
  "print_level A a l =
     (let x = signed_drop_bit (NodeShift l) a
      in sint (if 1 < length A then x AND NodeMask l else x))"

definition print_nodeaddr :: "address \<Rightarrow> addr \<Rightarrow> int list res" where
  "print_nodeaddr A a = check OutOfRange (A \<noteq> []) (Inr (map (print_level A a) A))"

fun str2addr_levels :: "address \<Rightarrow> int list \<Rightarrow> addr \<Rightarrow> addr res" where
  "str2addr_levels [] fs w = Inr w"
| "str2addr_levels (l # ls) [] w = Inl OutOfRange"
| "str2addr_levels (l # ls) (f # fs) w =
     check AssertFail (0 \<le> f)
       (check ExitProcess (f \<le> 2 ^ bpl l)
         (str2addr_levels ls fs (set_word_field w (word_of_int f) (NodeShift l) (NodeMask l))))"

definition str2addr :: "address \<Rightarrow> int list \<Rightarrow> addr res" where
  "str2addr A fs =
     (if length A < 2 then
        (case (A, fs) of
           (l # _, tmp # _) \<Rightarrow>
             (if tmp < 0 then Inr (word_of_int tmp)
              else check ExitProcess (tmp \<le> 2 ^ bpl l) (Inr (word_of_int tmp)))
         | _ \<Rightarrow> Inl OutOfRange)
      else str2addr_levels A fs 0)"

definition get_nodeaddr :: "address \<Rightarrow> addr \<Rightarrow> addr res" where
  "get_nodeaddr A a = bind_res (print_nodeaddr A a) (str2addr A)"

definition hier_addr :: "address \<Rightarrow> addr \<Rightarrow> nat \<Rightarrow> addr" where
  "hier_addr A a level =
     (if 1 \<le> level \<and> level \<le> length A
      then signed_drop_bit (NodeShift (A ! (level - 1))) a AND NodeMask (A ! (level - 1))
      else - 1)"

section \<open>Layouts\<close>

text \<open>
  A level is well formed when its mask is the mask of its width and the field lies in the
  word below the sign bit of \<^verbatim>\<open>int\<close>. A layout covers a bit when some level owns it.
\<close>

definition wf_level :: "addr_level \<Rightarrow> bool" where
  "wf_level l \<longleftrightarrow> NodeMask l = mask (bpl l) \<and> bpl l < 32 \<and> NodeShift l + bpl l \<le> 32"

definition owned :: "address \<Rightarrow> addr" where
  "owned A = foldr (\<lambda>l w. push_bit (NodeShift l) (NodeMask l) OR w) A 0"

definition covers :: "address \<Rightarrow> bool" where
  "covers A \<longleftrightarrow> owned A = - 1"

text \<open>The layout the simulations run with: three levels of 10, 11 and 11 bits.\<close>

definition default_layout :: address where
  "default_layout =
     [\<lparr>NodeShift = 22, NodeMask = 0x3FF, bpl = 10\<rparr>,
      \<lparr>NodeShift = 11, NodeMask = 0x7FF, bpl = 11\<rparr>,
      \<lparr>NodeShift = 0, NodeMask = 0x7FF, bpl = 11\<rparr>]"

lemma default_layout_wf: "list_all wf_level default_layout"
  by (simp add: default_layout_def wf_level_def mask_eq_exp_minus_1)

lemma default_layout_covers: "covers default_layout"
  by (simp add: default_layout_def covers_def owned_def)

section \<open>Printing and parsing\<close>

lemma sint_and_mask:
  assumes "n < 32"
  shows "sint (a AND mask n :: addr) = take_bit n (uint a)"
proof -
  have le: "take_bit n (uint a) < 2 ^ n" by simp
  have "(2::int) ^ n \<le> 2 ^ 31" by (rule power_increasing) (use assms in auto)
  with le have "take_bit n (uint a) < 2 ^ 31" by linarith
  moreover have "uint (a AND mask n) = take_bit n (uint a)"
    by (simp add: unsigned_take_bit_eq flip: take_bit_eq_mask)
  ultimately have "uint (a AND mask n) < 2 ^ (LENGTH(32) - 1)" by simp
  moreover have "- (2 ^ (LENGTH(32) - 1)) \<le> uint (a AND mask n)"
    by (rule order_trans [of _ 0]) simp_all
  ultimately have "sint (a AND mask n) = uint (a AND mask n)"
    by (simp only: sint_uint signed_take_bit_int_eq_self_iff) simp
  with \<open>uint (a AND mask n) = take_bit n (uint a)\<close> show ?thesis by simp
qed

lemma print_level_range:
  assumes "wf_level l" and "1 < length A"
  shows "0 \<le> print_level A a l" and "print_level A a l \<le> 2 ^ bpl l"
    and "word_of_int (print_level A a l) = signed_drop_bit (NodeShift l) a AND NodeMask l"
proof -
  let ?x = "signed_drop_bit (NodeShift l) a"
  have eq: "print_level A a l = take_bit (bpl l) (uint ?x)"
    using assms by (simp add: print_level_def wf_level_def sint_and_mask)
  show "0 \<le> print_level A a l" by (simp add: eq)
  show "print_level A a l \<le> 2 ^ bpl l"
    using take_bit_int_less_exp [of "bpl l" "uint ?x"] by (simp add: eq less_imp_le)
  show "word_of_int (print_level A a l) = ?x AND NodeMask l"
    using assms by (simp add: print_level_def)
qed

lemma bit_field:
  "bit (push_bit sh (signed_drop_bit sh a) :: addr) n \<longleftrightarrow> sh \<le> n \<and> bit a n"
  by (auto simp: bit_push_bit_iff bit_signed_drop_bit_iff dest: bit_imp_le_length)

lemma bit_push_bit_le: "bit (push_bit sh m :: addr) n \<Longrightarrow> sh \<le> n"
  by (simp add: bit_push_bit_iff)

text \<open>Writing the field read from \<open>a\<close> replaces exactly the bits that the level owns.\<close>

lemma bit_set_word_field:
  "bit (set_word_field w (signed_drop_bit sh a AND m) sh m) n \<longleftrightarrow>
     (if bit (push_bit sh m) n then bit a n else bit w n)"
proof -
  have split: "push_bit sh (signed_drop_bit sh a AND m AND m)
      = push_bit sh (signed_drop_bit sh a) AND push_bit sh m"
    by (simp add: and.assoc push_bit_and)
  show ?thesis
  proof (cases "n < 32")
    case True
    with bit_push_bit_le [of sh m n] show ?thesis
      unfolding set_word_field_def split by (auto simp: bit_or_iff bit_and_iff bit_not_iff bit_field)
  next
    case False
    then have "\<not> bit x n" for x :: addr
      using bit_imp_le_length [of x n] by auto
    then show ?thesis by simp
  qed
qed

lemma owned_Cons: "owned (l # ls) = push_bit (NodeShift l) (NodeMask l) OR owned ls"
  by (simp add: owned_def)

lemma str2addr_levels_print:
  assumes "list_all wf_level ls" and "1 < length A"
  shows "\<exists>r. str2addr_levels ls (map (print_level A a) ls) w = Inr r \<and>
    (\<forall>n. bit r n \<longleftrightarrow> (if bit (owned ls) n then bit a n else bit w n))"
  using assms(1)
proof (induction ls arbitrary: w)
  case (Cons l ls)
  let ?w = "set_word_field w (signed_drop_bit (NodeShift l) a AND NodeMask l) (NodeShift l) (NodeMask l)"
  from Cons.prems have l: "wf_level l" and ls: "list_all wf_level ls" by simp_all
  from Cons.IH [OF ls, of ?w] obtain r where
    r: "str2addr_levels ls (map (print_level A a) ls) ?w = Inr r"
      "\<forall>n. bit r n \<longleftrightarrow> (if bit (owned ls) n then bit a n else bit ?w n)"
    by blast
  have "bit r n \<longleftrightarrow> (if bit (owned (l # ls)) n then bit a n else bit w n)" for n
    using r(2) by (simp only: owned_Cons bit_or_iff bit_set_word_field) auto
  with r(1) show ?case
    by (intro exI [of _ r]) (simp add: print_level_range [OF l assms(2)])
qed (simp add: owned_def)

lemma get_nodeaddr_owned:
  assumes "list_all wf_level A" and "1 < length A"
  shows "get_nodeaddr A a = Inr (a AND owned A)"
proof -
  obtain r where r: "str2addr_levels A (map (print_level A a) A) 0 = Inr r"
      "\<forall>n. bit r n \<longleftrightarrow> (if bit (owned A) n then bit a n else bit (0::addr) n)"
    using str2addr_levels_print [OF assms, where w = 0] by blast
  then have "r = a AND owned A"
    by (intro bit_eqI) (simp add: bit_and_iff)
  with r(1) assms show ?thesis
    by (auto simp: get_nodeaddr_def print_nodeaddr_def str2addr_def)
qed

definition wf_layout :: "address \<Rightarrow> bool" where
  "wf_layout A \<longleftrightarrow> list_all wf_level A \<and> 1 < length A \<and> covers A"

lemma default_layout_wf_layout: "wf_layout default_layout"
  using default_layout_wf default_layout_covers by (simp add: wf_layout_def default_layout_def)

lemma get_nodeaddr_id: "wf_layout A \<Longrightarrow> get_nodeaddr A a = Inr a"
  by (simp add: wf_layout_def get_nodeaddr_owned covers_def)

text \<open>
  parsing the printed form of any address gives the address back, for every layout of
  at least two levels whose fields together own all 32 bits: \<^verbatim>\<open>get_nodeaddr\<close>, which runs
  every address through text, is the identity.
\<close>

theorem get_nodeaddr_roundtrip:
  assumes "list_all wf_level A" and "1 < length A" and "covers A"
  shows "bind_res (print_nodeaddr A a) (str2addr A) = Inr a \<and> get_nodeaddr A a = Inr a"
  using get_nodeaddr_owned [OF assms(1,2), of a] assms(3)
  by (simp add: covers_def get_nodeaddr_def)

theorem get_nodeaddr_roundtrip_witness:
  "bind_res (print_nodeaddr default_layout 0x02000801) (str2addr default_layout) = Inr 0x02000801
   \<and> get_nodeaddr default_layout 0x02000801 = Inr 0x02000801
   \<and> print_nodeaddr default_layout 0x02000801 = Inr [8, 1, 1]"
proof -
  have "1 < length default_layout" by (simp add: default_layout_def)
  from get_nodeaddr_roundtrip [OF default_layout_wf this default_layout_covers, of "0x02000801"]
  show ?thesis
    by (simp add: print_nodeaddr_def print_level_def default_layout_def)
qed

end
