(* ===== verification/Packets.thy ===== *)
theory Packets
  imports Addresses
begin

text \<open>
  Packets, their headers and the agents that allocate them: \<^verbatim>\<open>hdr_cmn\<close>, \<^verbatim>\<open>hdr_ip\<close> and
  \<^verbatim>\<open>Agent::allocpkt\<close> of ns-2.29-ori/common, \<^verbatim>\<open>hdr_tunnel\<close> and \<^verbatim>\<open>hdr_nemo\<close> of nist-2/hsntg/mip6.h,
  \<^verbatim>\<open>hdr_mysip\<close> of nist-2/sip/udp-mysip.h; the encapsulation operations of \<^verbatim>\<open>MIPV6Agent\<close>, which
  work on packets only; and the actions an agent performs on the network.
  Header fields that no modelled code reads (uid, timestamp, ttl, flow id, the congestion
  flags) are left out. \<^verbatim>\<open>Packet::copy\<close> copies the header bytes, so it is the identity here.
\<close>

section \<open>Constants\<close>

definition IPv6_ADDR_SIZE :: int where "IPv6_ADDR_SIZE = 16"
definition IPv6_HEADER_SIZE :: int where "IPv6_HEADER_SIZE = 2 * IPv6_ADDR_SIZE + 8"
definition BU_OPT_SIZE :: int where "BU_OPT_SIZE = 10"
definition BU_ACK_OPT_SIZE :: int where "BU_ACK_OPT_SIZE = 13"
definition HOME_OPT_SIZE :: int where "HOME_OPT_SIZE = 18"
definition DEST_HDR_PREFIX_SIZE :: int where "DEST_HDR_PREFIX_SIZE = 2"

definition BU_SIZE :: int where
  "BU_SIZE = DEST_HDR_PREFIX_SIZE + BU_OPT_SIZE + HOME_OPT_SIZE"

definition BACK_SIZE :: int where
  "BACK_SIZE = DEST_HDR_PREFIX_SIZE + BU_ACK_OPT_SIZE"

definition TIME_INFINITY :: time where "TIME_INFINITY = 0x0fffffff"

definition ON :: int where "ON = 1"
definition OFF :: int where "OFF = 0"

lemmas size_defs = IPv6_ADDR_SIZE_def IPv6_HEADER_SIZE_def BU_OPT_SIZE_def BU_ACK_OPT_SIZE_def
  HOME_OPT_SIZE_def DEST_HDR_PREFIX_SIZE_def BU_SIZE_def BACK_SIZE_def

section \<open>Headers\<close>

datatype packet_t =
  PT_UDP | PT_NEMO | PT_RRED | PT_FREQ | PT_FRES | PT_HAND | PT_RADS | PT_RSOL |
  PT_DSR | PT_MESSAGE | PT_TORA | PT_AODV | PT_MIH | PT_OTHER

datatype Mipv6NodeType = MN | MN_HA | MR | MR_HA | CN | MR_BS

datatype Mipv6RegType =
  BREQ | BU | BACK | REHOME | BU_HA | BU_BS | BU_CN | BU_RP | BU_MN |
  BS_ADS | BS_SOL | BU_MR | REHOME_MR_HA | BU_MR_HA

record tunnel =
  t_saddr :: addr
  t_sport :: addr
  t_daddr :: addr
  t_dport :: addr

record hdr_nemo =
  nh_type :: Mipv6RegType
  nh_A :: int
  nh_H :: int
  nh_R :: int
  nh_seqno :: int
  nh_lifetime :: time
  nh_nemo_prefix :: addr
  nh_haddr :: addr
  nh_coa :: addr

record hdr_mysip =
  mh_type :: int
  ack :: int
  seq :: int
  nbytes :: int
  mtime :: time
  scale :: int
  mmethod :: int
  requestURL_id :: addr
  requestURL :: addr
  From_id :: addr
  From :: addr
  To_id :: addr
  To :: addr
  CSeq :: int
  CallID :: int
  contact_id :: addr
  contact :: addr
  refer_id :: addr
  refer :: addr
  cip :: addr
  cport :: addr

text \<open>The fields of a router advertisement (nd.h) that the neighbour discovery agents set.\<close>

record hdr_rtads =
  router_lifetime :: time
  valid_lifetime :: "32 word"
  preferred_lifetime :: "32 word"
  ra_prefix :: addr
  advertisement_interval :: "32 word"

record packet =
  ptype :: packet_t
  psize :: int
  saddr :: addr
  sport :: addr
  daddr :: addr
  dport :: addr
  prio :: int
  rtp_flags :: int
  rtp_seqno :: int
  tunnels :: "tunnel list"
  nh :: hdr_nemo
  mh :: hdr_mysip
  ra_hdr :: hdr_rtads

text \<open>\<^verbatim>\<open>Packet::alloc\<close> zeroes the header bytes.\<close>

definition zero_nemo :: hdr_nemo where
  "zero_nemo = \<lparr>nh_type = BREQ, nh_A = 0, nh_H = 0, nh_R = 0, nh_seqno = 0, nh_lifetime = 0,
     nh_nemo_prefix = 0, nh_haddr = 0, nh_coa = 0\<rparr>"

definition zero_mysip :: hdr_mysip where
  "zero_mysip = \<lparr>mh_type = 0, ack = 0, seq = 0, nbytes = 0, mtime = 0, scale = 0, mmethod = 0,
     requestURL_id = 0, requestURL = 0, From_id = 0, From = 0, To_id = 0, To = 0, CSeq = 0,
     CallID = 0, contact_id = 0, contact = 0, refer_id = 0, refer = 0, cip = 0, cport = 0\<rparr>"

definition zero_rtads :: hdr_rtads where
  "zero_rtads = \<lparr>router_lifetime = 0, valid_lifetime = 0, preferred_lifetime = 0, ra_prefix = 0,
     advertisement_interval = 0\<rparr>"

section \<open>Agents\<close>

record agent =
  here_addr :: addr
  here_port :: addr
  dst_addr :: addr
  dst_port :: addr
  ag_type :: packet_t
  ag_size :: int
  ag_prio :: int

definition allocpkt :: "'a agent_scheme \<Rightarrow> packet" where
  "allocpkt a = \<lparr>ptype = ag_type a, psize = ag_size a,
     saddr = here_addr a, sport = here_port a, daddr = dst_addr a, dport = dst_port a,
     prio = ag_prio a, rtp_flags = 0, rtp_seqno = 0, tunnels = [], nh = zero_nemo, mh = zero_mysip,
     ra_hdr = zero_rtads\<rparr>"

text \<open>
  What an agent does to the network: \<^verbatim>\<open>send(p,0)\<close> on its own target, \<^verbatim>\<open>send(p,0)\<close> on the target
  of a NEMO agent, \<^verbatim>\<open>Scheduler::schedule\<close> of a packet on the entry of a node, and the calls
  up into the application and across to the neighbour discovery agent of a node. \<open>ByMip\<close> marks
  what the MIPv6 agent does when the SIP agent of the node hands it a packet.
\<close>

datatype action =
    Send packet
  | SendVia nemo_ref packet
  | Schedule node_ref packet time
  | AppRecvMsg int hdr_mysip
  | AppRecv int
  | AppResume
  | AppSendInvite
  | ByMip action
  | NdAddPrefix node_ref addr time

section \<open>The IP header\<close>

text \<open>
  The routing agent of a wireless node (\<^verbatim>\<open>DSDV_Agent::recv\<close>) adds the IP header to a packet that the node itself sends. A wired node has no such agent.
\<close>

definition IP_HDR_LEN :: int where "IP_HDR_LEN = 20"

definition add_ip_header :: "packet \<Rightarrow> packet" where
  "add_ip_header p = p\<lparr>psize := psize p + IP_HDR_LEN\<rparr>"

section \<open>Encapsulation\<close>

definition top_tunnel :: "packet \<Rightarrow> tunnel" where
  "top_tunnel p = \<lparr>t_saddr = saddr p, t_sport = sport p, t_daddr = daddr p, t_dport = dport p\<rparr>"

definition add_tunnel :: "packet \<Rightarrow> packet" where
  "add_tunnel p = p\<lparr>psize := psize p + IPv6_HEADER_SIZE, tunnels := tunnels p @ [top_tunnel p]\<rparr>"

definition delete_tunnel :: "packet \<Rightarrow> packet res" where
  "delete_tunnel p =
     check AssertFail (tunnels p \<noteq> [])
       (let t = last (tunnels p)
        in Inr (p\<lparr>psize := psize p - IPv6_HEADER_SIZE,
                  daddr := t_daddr t, dport := t_dport t, saddr := t_saddr t, sport := t_sport t,
                  tunnels := butlast (tunnels p)\<rparr>))"

definition size_tunnel :: "packet \<Rightarrow> nat" where
  "size_tunnel p = length (tunnels p)"

text \<open>
  The outer header of a packet that travels in a tunnel is rewritten at every hop. \<open>readdress\<close>
  is any such rewriting.
\<close>

definition readdress :: "addr \<Rightarrow> addr \<Rightarrow> addr \<Rightarrow> addr \<Rightarrow> packet \<Rightarrow> packet" where
  "readdress sa sp da dp p = p\<lparr>saddr := sa, sport := sp, daddr := da, dport := dp\<rparr>"

subsection \<open>The contract of an encapsulation\<close>

text \<open>
  A tunnel is a stack of outer headers over a payload: \<open>enc\<close> pushes the current outer header
  \<open>hd_of\<close>, \<open>route\<close> replaces it and leaves the stack, and \<open>dec\<close> undoes the last \<open>enc\<close>. What
  travels inside is not touched by routing, however often it happens.
\<close>

locale encapsulation =
  fixes enc :: "'p \<Rightarrow> 'p"
    and dec :: "'p \<Rightarrow> 'p res"
    and route :: "'h \<Rightarrow> 'p \<Rightarrow> 'p"
    and depth :: "'p \<Rightarrow> nat"
  assumes dec_route_enc: "dec (route h (enc p)) = Inr p"
    and route_route: "route h (route h' p) = route h p"
    and dec_enc: "dec (enc p) = Inr p"
    and depth_enc: "depth (enc p) = Suc (depth p)"
    and depth_route: "depth (route h p) = depth p"
    and dec_zero: "depth p = 0 \<Longrightarrow> dec p = Inl AssertFail"
begin

lemma depth_encs: "depth (fold (\<lambda>h. route h \<circ> enc) hs p) = length hs + depth p"
  by (induction hs arbitrary: p) (auto simp: depth_enc depth_route)

lemma decs_encs: "iter_res (length hs) dec (fold (\<lambda>h. route h \<circ> enc) hs p) = Inr p"
proof (induction hs arbitrary: p rule: rev_induct)
  case (snoc h hs)
  then show ?case by (simp add: dec_route_enc)
qed simp

lemma decs_encs_rerouted:
  assumes "hs \<noteq> []"
  shows "iter_res (length hs) dec (route h (fold (\<lambda>h. route h \<circ> enc) hs p)) = Inr p"
proof -
  from assms obtain h' hs' where hs: "hs = hs' @ [h']" by (cases hs rule: rev_cases) auto
  show ?thesis by (simp add: hs route_route dec_route_enc decs_encs)
qed

lemma decs_too_deep:
  assumes "depth p = 0"
  shows "iter_res (Suc (length hs)) dec (fold (\<lambda>h. route h \<circ> enc) hs p) = Inl AssertFail"
proof (induction hs rule: rev_induct)
  case (snoc h hs)
  then show ?case by (simp add: dec_route_enc)
qed (simp add: dec_zero assms)

end

lemma delete_add_tunnel [simp]: "delete_tunnel (add_tunnel p) = Inr p"
  by (simp add: delete_tunnel_def add_tunnel_def top_tunnel_def)

lemma add_tunnel_simps [simp]:
  "ptype (add_tunnel p) = ptype p" "saddr (add_tunnel p) = saddr p" "sport (add_tunnel p) = sport p"
  "daddr (add_tunnel p) = daddr p" "dport (add_tunnel p) = dport p" "prio (add_tunnel p) = prio p"
  "nh (add_tunnel p) = nh p" "mh (add_tunnel p) = mh p"
  "tunnels (add_tunnel p) = tunnels p @ [top_tunnel p]"
  "psize (add_tunnel p) = psize p + IPv6_HEADER_SIZE"
  "rtp_flags (add_tunnel p) = rtp_flags p" "rtp_seqno (add_tunnel p) = rtp_seqno p"
  by (simp_all add: add_tunnel_def)

lemma delete_tunnel_readdress [simp]: "delete_tunnel (readdress sa sp da dp (add_tunnel p)) = Inr p"
  by (simp add: delete_tunnel_def add_tunnel_def top_tunnel_def readdress_def)

lemma delete_tunnel_Inl [simp]: "delete_tunnel p = Inl e \<longleftrightarrow> tunnels p = [] \<and> e = AssertFail"
  by (auto simp: delete_tunnel_def check_def Let_def)

text \<open>Only the outer addresses are lost when a header is put back.\<close>

lemma delete_tunnel_cong:
  assumes "tunnels p = ts @ [t]"
  shows "delete_tunnel p = Inr (p\<lparr>psize := psize p - IPv6_HEADER_SIZE, saddr := t_saddr t,
    sport := t_sport t, daddr := t_daddr t, dport := t_dport t, tunnels := ts\<rparr>)"
  using assms by (simp add: delete_tunnel_def)

lemma allocpkt_simps [simp]:
  "ptype (allocpkt a) = ag_type a" "psize (allocpkt a) = ag_size a"
  "saddr (allocpkt a) = here_addr a" "sport (allocpkt a) = here_port a"
  "daddr (allocpkt a) = dst_addr a" "dport (allocpkt a) = dst_port a"
  "prio (allocpkt a) = ag_prio a" "tunnels (allocpkt a) = []"
  "nh (allocpkt a) = zero_nemo" "mh (allocpkt a) = zero_mysip"
  by (simp_all add: allocpkt_def)

lemma delete_rerouted [simp]:
  "delete_tunnel ((add_tunnel p)\<lparr>daddr := d\<rparr>) = Inr p"
  "delete_tunnel ((add_tunnel p)\<lparr>dport := dp\<rparr>) = Inr p"
  "delete_tunnel ((add_tunnel p)\<lparr>daddr := d, dport := dp\<rparr>) = Inr p"
  "delete_tunnel ((add_tunnel p)\<lparr>saddr := sa, daddr := d, dport := dp\<rparr>) = Inr p"
  "delete_tunnel ((add_tunnel p)\<lparr>daddr := d, dport := dp, saddr := sa\<rparr>) = Inr p"
  by (simp_all add: delete_tunnel_def add_tunnel_def top_tunnel_def)

text \<open>An outer header as a tuple, for a whole path of them.\<close>

definition route_to :: "addr \<times> addr \<times> addr \<times> addr \<Rightarrow> packet \<Rightarrow> packet" where
  "route_to h p = (case h of (sa, sp, da, dp) \<Rightarrow> readdress sa sp da dp p)"

interpretation tun: encapsulation add_tunnel delete_tunnel route_to size_tunnel
proof unfold_locales
  fix p :: packet
  assume "size_tunnel p = 0"
  then show "delete_tunnel p = Inl AssertFail" by (simp add: size_tunnel_def)
qed (simp_all add: size_tunnel_def route_to_def readdress_def split: prod.splits
    add: delete_tunnel_readdress [unfolded readdress_def])

text \<open>
  C3: nested encapsulation is undone exactly. Whatever outer headers \<open>hs\<close> a packet is given
  on its way in, and however the outermost header is rewritten while it travels, as many
  \<^verbatim>\<open>delete_tunnel\<close> as there were \<^verbatim>\<open>add_tunnel\<close> give back the packet that was sent: addresses,
  ports, size, headers and the tunnels it had before. One \<^verbatim>\<open>delete_tunnel\<close> more on a packet
  that had no tunnel of its own fails the assertion of the code.
\<close>

theorem tunnel_nesting_roundtrip:
  assumes "hs \<noteq> []"
  shows "iter_res (length hs) delete_tunnel
      (readdress sa sp da dp (fold (\<lambda>h. route_to h \<circ> add_tunnel) hs p)) = Inr p
    \<and> size_tunnel (fold (\<lambda>h. route_to h \<circ> add_tunnel) hs p) = length hs + size_tunnel p
    \<and> (size_tunnel p = 0 \<longrightarrow>
        iter_res (Suc (length hs)) delete_tunnel (fold (\<lambda>h. route_to h \<circ> add_tunnel) hs p)
        = Inl AssertFail)"
  using tun.decs_encs_rerouted [OF assms, of "(sa, sp, da, dp)" p] tun.decs_too_deep [of p hs]
    tun.depth_encs [of hs p]
  by (simp add: route_to_def [of "(sa, sp, da, dp)"])

theorem tunnel_nesting_roundtrip_witness:
  "iter_res 2 delete_tunnel
     (readdress 7 0 9 0 (fold (\<lambda>h. route_to h \<circ> add_tunnel) [(1, 0, 2, 0), (3, 0, 4, 0)]
     (allocpkt \<lparr>here_addr = 5, here_port = 1, dst_addr = 6, dst_port = 2, ag_type = PT_UDP,
       ag_size = 100, ag_prio = 0\<rparr>)))
   = Inr (allocpkt \<lparr>here_addr = 5, here_port = 1, dst_addr = 6, dst_port = 2, ag_type = PT_UDP,
       ag_size = 100, ag_prio = 0\<rparr>)"
  using tunnel_nesting_roundtrip [of "[(1, 0, 2, 0), (3, 0, 4, 0)]" 7 0 9 0
      "allocpkt \<lparr>here_addr = 5, here_port = 1, dst_addr = 6, dst_port = 2, ag_type = PT_UDP,
       ag_size = 100, ag_prio = 0\<rparr>"]
  by (simp only: list.size numeral_2_eq_2 One_nat_def simp_thms list.distinct add_0_right add_Suc_right)

end
