(* ===== verification/Nemo.thy ===== *)
theory Nemo
  imports Packets
begin

text \<open>
  The NEMO agent (nist-2/nemo/nemo.cc), the interface through which the MIPv6 and SIP agents
  of a mobile router send, and the store of the objects that the agents point to: nodes with
  their current address and base station, NEMO agents with the node they are connected to.
\<close>

record nemo_agent = agent +
  nemo_iface :: "node_ref option"

record net =
  node_addr :: "node_ref \<Rightarrow> addr"
  base_stn :: "node_ref \<Rightarrow> addr"
  nemos :: "nemo_ref \<Rightarrow> nemo_agent"
  layout :: address

datatype tcl_result = TCL_OK | TCL_ERROR

text \<open>\<^verbatim>\<open>connect-interface\<close>: \<^verbatim>\<open>iface_\<close> is assigned before it is tested.\<close>

definition nemo_connect_interface :: "nemo_agent \<Rightarrow> node_ref option \<Rightarrow> nemo_agent \<times> tcl_result" where
  "nemo_connect_interface a i =
     (let a' = a\<lparr>nemo_iface := i\<rparr>
      in case i of None \<Rightarrow> (a', TCL_ERROR) | Some _ \<Rightarrow> (a', TCL_OK))"

text \<open>\<^verbatim>\<open>NEMOAgent::recv\<close> only logs; the packet is dropped.\<close>

definition nemo_recv :: "nemo_agent \<Rightarrow> packet \<Rightarrow> nemo_agent \<times> action list" where
  "nemo_recv a p = (a, [])"

definition nemo_send_bu_ack :: "net \<Rightarrow> nemo_ref \<Rightarrow> packet \<Rightarrow> action list" where
  "nemo_send_bu_ack n a p =
     (let ag = nemos n a; p_ack = allocpkt ag
      in [SendVia a (p_ack\<lparr>
            nh := (nh p_ack)\<lparr>nh_type := BACK, nh_lifetime := 0, nh_seqno := nh_seqno (nh p)\<rparr>,
            saddr := here_addr ag,
            daddr := saddr p,
            dport := sport p,
            ptype := PT_NEMO,
            psize := IPv6_HEADER_SIZE + BACK_SIZE\<rparr>)])"

definition nemo_send_bu_ha :: "nemo_ref \<Rightarrow> packet \<Rightarrow> action list" where
  "nemo_send_bu_ha a p = [SendVia a p]"

text \<open>\<^verbatim>\<open>agent->get_iface()->address()\<close>\<close>

definition iface_address :: "net \<Rightarrow> nemo_ref \<Rightarrow> addr option" where
  "iface_address n a = map_option (node_addr n) (nemo_iface (nemos n a))"

section \<open>A sample network\<close>

definition demo_agent :: "addr \<Rightarrow> agent" where
  "demo_agent a = \<lparr>here_addr = a, here_port = 1, dst_addr = 0, dst_port = 0, ag_type = PT_UDP,
     ag_size = 1000, ag_prio = 0\<rparr>"

definition demo_net :: net where
  "demo_net = \<lparr>node_addr = (\<lambda>i. 0x1801), base_stn = (\<lambda>i. 0x1800),
     nemos = (\<lambda>a. agent.extend (demo_agent 0x1801) \<lparr>nemo_iface = Some a\<rparr>), layout = default_layout\<rparr>"

end
