(* ===== verification/Bindings.thy ===== *)
theory Bindings
  imports Prelude
begin

text \<open>
  The contract that the binding tables of the MIPv6 agents (\<^verbatim>\<open>BUEntry\<close> list, keyed by home
  address), of the SIP agents (\<^verbatim>\<open>SIPEntry\<close> list, keyed by URL id) and of the SIP application
  (\<^verbatim>\<open>URLIPtable\<close>) share: a registration makes its key resolve to the registered contact and
  leaves every other key alone, whatever else the table holds.
\<close>

definition resolve :: "('e \<Rightarrow> 'k) \<Rightarrow> ('e \<Rightarrow> 'v) \<Rightarrow> 'e list \<Rightarrow> 'k \<Rightarrow> 'v option" where
  "resolve key val es k = map_option val (lookup_entry (\<lambda>e. key e = k) es)"

lemma resolve_Nil [simp]: "resolve key val [] k = None"
  by (simp add: resolve_def)

lemma resolve_Cons:
  "resolve key val (e # es) k = (if key e = k then Some (val e) else resolve key val es k)"
  by (simp add: resolve_def lookup_entry_Cons)

lemma resolve_None_iff: "resolve key val es k = None \<longleftrightarrow> k \<notin> key ` set es"
  by (auto simp: resolve_def lookup_entry_None_iff)

text \<open>Writing the value of the first entry of a key redirects this key only.\<close>

lemma resolve_upd_first:
  assumes "first_ptr (\<lambda>e. key e = k) es = Some r"
    and "\<And>e. key (f e) = key e" and "\<And>e. val (f e) = v"
  shows "resolve key val (upd_at r f es) = (resolve key val es)(k \<mapsto> v)"
  using assms(1)
proof (induction es)
  case (Cons e es)
  show ?case
  proof (cases "key e = k")
    case True
    with Cons.prems have "r = length es" by simp
    with True assms(2,3) show ?thesis by (auto simp: resolve_Cons)
  next
    case False
    with Cons.prems have r: "first_ptr (\<lambda>e. key e = k) es = Some r" by simp
    then have "r \<noteq> length es" using first_ptr_lt by fastforce
    with Cons.IH [OF r] False show ?thesis by (auto simp: resolve_Cons fun_eq_iff)
  qed
qed simp

lemma resolve_find_or_insert:
  assumes "find_or_insert (\<lambda>e. key e = k) new es = (r, es')" and "key new = k"
    and "\<And>e. key (f e) = key e" and "\<And>e. val (f e) = v"
  shows "resolve key val (upd_at r f es') = (resolve key val es)(k \<mapsto> v)"
proof -
  have "first_ptr (\<lambda>e. key e = k) es' = Some r"
    using assms(1,2) by (rule find_or_insert_first)
  then have *: "resolve key val (upd_at r f es') = (resolve key val es')(k \<mapsto> v)"
    using assms(3,4) by (rule resolve_upd_first)
  have "resolve key val es' k' = resolve key val es k'" if "k' \<noteq> k" for k'
    using assms(1,2) that by (auto simp: find_or_insert_def resolve_Cons split: option.splits)
  with * show ?thesis by (auto simp: fun_eq_iff)
qed

lemma distinct_find_or_insert:
  assumes "find_or_insert (\<lambda>e. key e = k) new es = (r, es')" and "key new = k"
    and "\<And>e. key (f e) = key e" and "distinct (map key es)"
  shows "distinct (map key (upd_at r f es'))"
  using assms by (fastforce simp: find_or_insert_def map_upd_at split: option.splits)

locale binding_table =
  fixes key :: "'e \<Rightarrow> 'k"
    and val :: "'e \<Rightarrow> 'v"
    and reg :: "'x \<Rightarrow> 'k \<Rightarrow> 'v \<Rightarrow> 'e list \<Rightarrow> 'e list"
  assumes resolve_reg: "resolve key val (reg x k v es) = (resolve key val es)(k \<mapsto> v)"
begin

text \<open>A sequence of registrations, oldest first.\<close>

definition regs :: "('x \<times> 'k \<times> 'v) list \<Rightarrow> 'e list \<Rightarrow> 'e list" where
  "regs ms = fold (\<lambda>(x, k, v). reg x k v) ms"

lemma resolve_regs:
  "resolve key val (regs ms es) = resolve key val es ++ map_of (rev (map snd ms))"
proof (induction ms arbitrary: es)
  case (Cons m ms)
  obtain x k v where m: "m = (x, k, v)" by (cases m)
  have "resolve key val (regs (m # ms) es) = resolve key val (regs ms (reg x k v es))"
    by (simp add: regs_def m)
  also have "\<dots> = (resolve key val es)(k \<mapsto> v) ++ map_of (rev (map snd ms))"
    by (simp only: Cons.IH resolve_reg)
  also have "\<dots> = resolve key val es ++ map_of (rev (map snd (m # ms)))"
    by (simp add: m map_add_def fun_eq_iff split: option.splits)
  finally show ?case .
qed (simp add: regs_def)

lemma resolve_last_wins:
  assumes "\<forall>m \<in> set ms'. fst (snd m) \<noteq> k"
  shows "resolve key val (regs (ms @ (x, k, v) # ms') es) k = Some v"
proof -
  have "map_of (rev (map snd ms')) k = None"
    using assms by (auto simp: map_of_eq_None_iff)
  then show ?thesis by (simp add: resolve_regs map_add_Some_iff)
qed

lemma reg_idem: "resolve key val (reg x k v (reg y k v es)) = resolve key val (reg x k v es)"
  by (simp add: resolve_reg)

lemma reg_commute:
  "k \<noteq> k' \<Longrightarrow> resolve key val (reg x k v (reg y k' v' es))
     = resolve key val (reg y k' v' (reg x k v es))"
  by (simp add: resolve_reg fun_upd_twist)

end

text \<open>A table that never holds two entries for one key.\<close>

locale unique_binding_table = binding_table +
  assumes distinct_reg: "distinct (map key es) \<Longrightarrow> distinct (map key (reg x k v es))"
begin

lemma distinct_regs: "distinct (map key es) \<Longrightarrow> distinct (map key (regs ms es))"
  unfolding regs_def by (induction ms arbitrary: es) (auto intro: distinct_reg)

lemma resolve_unique:
  "distinct (map key es) \<Longrightarrow> e \<in> set es \<Longrightarrow> resolve key val es (key e) = Some (val e)"
  by (induction es) (auto simp: resolve_Cons rev_image_eqI)

lemma regs_entry:
  assumes "distinct (map key es)" and "e \<in> set (regs ms es)"
  shows "resolve key val (regs ms es) (key e) = Some (val e)"
  using assms by (intro resolve_unique distinct_regs)

end

end
