(* ===== verification/Mip6_State.thy ===== *)
theory Mip6_State
  imports Nemo Bindings
begin

text \<open>
  The state of \<^verbatim>\<open>MIPV6Agent\<close> (nist-2/hsntg/mip6.h): the binding update list, the list of
  prefixes behind a router base station, the lookups over them and \<^verbatim>\<open>registration\<close>, the only
  operation by which received messages create bindings.
\<close>

section \<open>Binding update entries\<close>

record BUEntry =
  bu_type :: Mipv6NodeType
  bu_addr :: addr
  bu_haddr :: addr
  bu_caddr :: addr
  bu_bid :: addr
  bu_prefix :: addr
  bu_eface :: "nemo_ref option"
  bu_iface :: "nemo_ref option"

definition new_BUEntry :: "Mipv6NodeType \<Rightarrow> BUEntry" where
  "new_BUEntry t = \<lparr>bu_type = t, bu_addr = - 1, bu_haddr = - 1, bu_caddr = - 1, bu_bid = - 1,
     bu_prefix = - 1, bu_eface = None, bu_iface = None\<rparr>"

text \<open>The overloads of \<^verbatim>\<open>update_entry\<close>, by their parameters.\<close>

definition update_entry_addr_haddr :: "addr \<Rightarrow> addr \<Rightarrow> BUEntry \<Rightarrow> BUEntry" where
  "update_entry_addr_haddr a h e = e\<lparr>bu_addr := a, bu_haddr := h\<rparr>"

definition update_entry_haddr_caddr :: "addr \<Rightarrow> addr \<Rightarrow> addr \<Rightarrow> BUEntry \<Rightarrow> BUEntry" where
  "update_entry_haddr_caddr h c pfx e = e\<lparr>bu_haddr := h, bu_caddr := c, bu_prefix := pfx\<rparr>"

definition update_entry_eface :: "addr \<Rightarrow> addr \<Rightarrow> nemo_ref option \<Rightarrow> BUEntry \<Rightarrow> BUEntry" where
  "update_entry_eface a h ef e = e\<lparr>bu_addr := a, bu_haddr := h, bu_eface := ef\<rparr>"

definition update_entry_faces ::
  "addr \<Rightarrow> addr \<Rightarrow> addr \<Rightarrow> nemo_ref option \<Rightarrow> nemo_ref option \<Rightarrow> BUEntry \<Rightarrow> BUEntry" where
  "update_entry_faces a h pfx ef nf e =
     e\<lparr>bu_addr := a, bu_haddr := h, bu_prefix := pfx, bu_eface := ef, bu_iface := nf\<rparr>"

definition set_mface :: "addr \<Rightarrow> nemo_ref option \<Rightarrow> BUEntry \<Rightarrow> BUEntry" where
  "set_mface pfx nf e = e\<lparr>bu_prefix := pfx, bu_iface := nf\<rparr>"

definition set_mface_2 :: "addr \<Rightarrow> addr \<Rightarrow> nemo_ref option \<Rightarrow> BUEntry \<Rightarrow> BUEntry" where
  "set_mface_2 neighbor_mr pfx nf e =
     e\<lparr>bu_haddr := neighbor_mr, bu_prefix := pfx, bu_iface := nf\<rparr>"

definition set_mr_bs :: "nemo_ref option \<Rightarrow> nemo_ref option \<Rightarrow> BUEntry \<Rightarrow> BUEntry" where
  "set_mr_bs ef nf e = e\<lparr>bu_eface := ef, bu_iface := nf\<rparr>"

record BSEntry =
  bs_prefix :: addr
  bs_time :: time

section \<open>The agent\<close>

record mip6 = agent +
  node_type :: Mipv6NodeType
  bulist :: "BUEntry list"
  bslist :: "BSEntry list"
  mr_bs_daddr :: addr
  ms_bs_enable :: int
  mn_flag :: int
  mip_exp :: int
  exp_mr :: int

text \<open>
  The constructor; the agent fields and the bound variables \<^verbatim>\<open>exp_\<close> and \<^verbatim>\<open>exp_mr_\<close> come from
  the script, \<^verbatim>\<open>node_type_\<close> is not initialised and is set by \<^verbatim>\<open>set-node-type\<close>.
\<close>

definition new_mip6 :: "agent \<Rightarrow> Mipv6NodeType \<Rightarrow> int \<Rightarrow> int \<Rightarrow> mip6" where
  "new_mip6 a t e em = agent.extend a
     \<lparr>node_type = t, bulist = [], bslist = [], mr_bs_daddr = - 1, ms_bs_enable = 0, mn_flag = 0,
      mip_exp = e, exp_mr = em\<rparr>"

text \<open>Reading and writing through a \<^verbatim>\<open>BUEntry*\<close>; inserting at the head of the list.\<close>

definition bu_at :: "mip6 \<Rightarrow> ptr \<Rightarrow> BUEntry option" where
  "bu_at s r = entry_at (bulist s) r"

definition bu_write :: "ptr \<Rightarrow> (BUEntry \<Rightarrow> BUEntry) \<Rightarrow> mip6 \<Rightarrow> mip6" where
  "bu_write r f s = s\<lparr>bulist := upd_at r f (bulist s)\<rparr>"

definition bu_insert :: "BUEntry \<Rightarrow> mip6 \<Rightarrow> mip6" where
  "bu_insert e s = s\<lparr>bulist := e # bulist s\<rparr>"

definition bu_find :: "(BUEntry \<Rightarrow> bool) \<Rightarrow> mip6 \<Rightarrow> BUEntry option" where
  "bu_find P s = lookup_entry P (bulist s)"

section \<open>Lookups\<close>

text \<open>
  A lookup whose result is only read returns the entry; one whose result is written through
  returns the pointer (suffix \<open>_ptr\<close>).
\<close>

definition get_iface_agent_by_prefix :: "mip6 \<Rightarrow> addr \<Rightarrow> nemo_ref option" where
  "get_iface_agent_by_prefix s pfx = Option.bind (bu_find (\<lambda>e. bu_prefix e = pfx) s) bu_iface"

definition get_eface_agent_by_prefix :: "mip6 \<Rightarrow> addr \<Rightarrow> nemo_ref option" where
  "get_eface_agent_by_prefix s pfx = Option.bind (bu_find (\<lambda>e. bu_prefix e = pfx) s) bu_eface"

text \<open>\<^verbatim>\<open>bu->eface()!=NULL && bu->eface()->get_iface()==iface\<close> and its negation on the right.\<close>

definition eface_is :: "net \<Rightarrow> node_ref \<Rightarrow> nemo_ref option \<Rightarrow> bool" where
  "eface_is n i ef = (case ef of None \<Rightarrow> False | Some a \<Rightarrow> nemo_iface (nemos n a) = Some i)"

definition eface_is_not :: "net \<Rightarrow> node_ref \<Rightarrow> nemo_ref option \<Rightarrow> bool" where
  "eface_is_not n i ef = (case ef of None \<Rightarrow> False | Some a \<Rightarrow> nemo_iface (nemos n a) \<noteq> Some i)"

definition get_entry_by_iface_ptr :: "net \<Rightarrow> mip6 \<Rightarrow> node_ref \<Rightarrow> ptr option" where
  "get_entry_by_iface_ptr n s i = first_ptr (\<lambda>e. eface_is n i (bu_eface e)) (bulist s)"

definition get_entry_by_prefix :: "mip6 \<Rightarrow> addr \<Rightarrow> BUEntry option" where
  "get_entry_by_prefix s pfx = bu_find (\<lambda>e. bu_prefix e = pfx) s"

definition get_entry_by_haddr :: "mip6 \<Rightarrow> addr \<Rightarrow> BUEntry option" where
  "get_entry_by_haddr s h = bu_find (\<lambda>e. bu_haddr e = h) s"

definition get_entry_by_haddr_ptr :: "mip6 \<Rightarrow> addr \<Rightarrow> ptr option" where
  "get_entry_by_haddr_ptr s h = first_ptr (\<lambda>e. bu_haddr e = h) (bulist s)"

definition get_entry_by_caddr :: "mip6 \<Rightarrow> addr \<Rightarrow> BUEntry option" where
  "get_entry_by_caddr s c = bu_find (\<lambda>e. bu_caddr e = c) s"

definition get_entry_by_addr :: "mip6 \<Rightarrow> addr \<Rightarrow> BUEntry option" where
  "get_entry_by_addr s a = bu_find (\<lambda>e. bu_addr e = a) s"

definition get_entry_by_type :: "mip6 \<Rightarrow> Mipv6NodeType \<Rightarrow> BUEntry option" where
  "get_entry_by_type s t = bu_find (\<lambda>e. bu_type e = t) s"

definition get_entry_by_type_ptr :: "mip6 \<Rightarrow> Mipv6NodeType \<Rightarrow> ptr option" where
  "get_entry_by_type_ptr s t = first_ptr (\<lambda>e. bu_type e = t) (bulist s)"

definition get_mr_ha_entry_by_caddr :: "mip6 \<Rightarrow> addr \<Rightarrow> BUEntry option" where
  "get_mr_ha_entry_by_caddr s c = bu_find (\<lambda>e. bu_type e = MR_HA \<and> bu_caddr e = c) s"

definition get_mr_ha_entry_by_iface_ptr :: "net \<Rightarrow> mip6 \<Rightarrow> node_ref \<Rightarrow> ptr option" where
  "get_mr_ha_entry_by_iface_ptr n s i =
     first_ptr (\<lambda>e. bu_type e = MR_HA \<and> eface_is n i (bu_eface e)) (bulist s)"

definition get_mr_ha_entry_without_iface :: "net \<Rightarrow> mip6 \<Rightarrow> node_ref \<Rightarrow> BUEntry option" where
  "get_mr_ha_entry_without_iface n s i =
     bu_find (\<lambda>e. bu_type e = MR_HA \<and> eface_is_not n i (bu_eface e)) s"

definition get_mr_entry_by_prefix_ptr :: "mip6 \<Rightarrow> addr \<Rightarrow> ptr option" where
  "get_mr_entry_by_prefix_ptr s pfx =
     first_ptr (\<lambda>e. bu_type e = MR \<and> bu_prefix e = pfx) (bulist s)"

definition get_mr_ha_entry_by_prefix :: "mip6 \<Rightarrow> addr \<Rightarrow> BUEntry option" where
  "get_mr_ha_entry_by_prefix s pfx = bu_find (\<lambda>e. bu_type e = MR_HA \<and> bu_prefix e = pfx) s"

definition get_mr_entry :: "mip6 \<Rightarrow> BUEntry option" where
  "get_mr_entry s = bu_find (\<lambda>e. bu_type e = MR \<and> bu_addr e \<noteq> 0) s"

definition get_mr_entry_ptr :: "mip6 \<Rightarrow> ptr option" where
  "get_mr_entry_ptr s = first_ptr (\<lambda>e. bu_type e = MR \<and> bu_addr e \<noteq> 0) (bulist s)"

definition get_mr_ha_entry_on :: "mip6 \<Rightarrow> BUEntry option" where
  "get_mr_ha_entry_on s = bu_find (\<lambda>e. bu_type e = MR_HA \<and> bu_caddr e \<noteq> - 1) s"

definition get_mr_ha_entry_off :: "mip6 \<Rightarrow> BUEntry option" where
  "get_mr_ha_entry_off s = bu_find (\<lambda>e. bu_type e = MR_HA \<and> bu_caddr e = - 1) s"

definition get_mr_bs_entry :: "mip6 \<Rightarrow> BUEntry option" where
  "get_mr_bs_entry s = bu_find (\<lambda>e. bu_type e = MR_BS) s"

definition get_mr_bs_entry_by_mface :: "net \<Rightarrow> mip6 \<Rightarrow> node_ref \<Rightarrow> BUEntry option" where
  "get_mr_bs_entry_by_mface n s i = bu_find (\<lambda>e. bu_type e = MR_BS \<and> eface_is n i (bu_eface e)) s"

text \<open>\<^verbatim>\<open>get_mr_ha_entry_dead\<close> dereferences the interface of every candidate.\<close>

fun entries_dead :: "net \<Rightarrow> BUEntry list \<Rightarrow> BUEntry list res" where
  "entries_dead n [] = Inr []"
| "entries_dead n (e # es) =
     (case (bu_type e, bu_eface e) of
        (MR_HA, Some a) \<Rightarrow>
          need NullPtr (iface_address n a) (\<lambda>i.
            bind_res (entries_dead n es) (\<lambda>rest. Inr (if i \<noteq> bu_caddr e then e # rest else rest)))
      | _ \<Rightarrow> entries_dead n es)"

definition get_mr_ha_entry_dead :: "net \<Rightarrow> mip6 \<Rightarrow> BUEntry list res" where
  "get_mr_ha_entry_dead n s = entries_dead n (bulist s)"

definition add_mr_bs_prefix :: "addr \<Rightarrow> time \<Rightarrow> mip6 \<Rightarrow> mip6" where
  "add_mr_bs_prefix pfx lifetime s = s\<lparr>bslist := \<lparr>bs_prefix = pfx, bs_time = lifetime\<rparr> # bslist s\<rparr>"

definition is_daddr_mr_bs_prefix :: "mip6 \<Rightarrow> addr \<Rightarrow> bool" where
  "is_daddr_mr_bs_prefix s d = list_ex (\<lambda>b. bs_prefix b = d) (bslist s)"

lemmas bu_lookup_defs = get_iface_agent_by_prefix_def get_eface_agent_by_prefix_def
  get_entry_by_iface_ptr_def get_entry_by_prefix_def get_entry_by_haddr_def
  get_entry_by_haddr_ptr_def get_entry_by_caddr_def get_entry_by_addr_def get_entry_by_type_def
  get_entry_by_type_ptr_def get_mr_ha_entry_by_caddr_def get_mr_ha_entry_by_iface_ptr_def
  get_mr_ha_entry_without_iface_def get_mr_entry_by_prefix_ptr_def get_mr_ha_entry_by_prefix_def
  get_mr_entry_def get_mr_entry_ptr_def get_mr_ha_entry_on_def get_mr_ha_entry_off_def
  get_mr_bs_entry_def get_mr_bs_entry_by_mface_def bu_find_def lookup_entry_find

section \<open>Registration\<close>

definition register_MR :: "addr \<Rightarrow> addr \<Rightarrow> addr \<Rightarrow> BUEntry list \<Rightarrow> BUEntry list" where
  "register_MR pfx h c es =
     (let (r, es') = find_or_insert (\<lambda>e. bu_haddr e = h)
            (update_entry_haddr_caddr h c pfx (new_BUEntry MR)) es
      in upd_at r (bu_caddr_update (\<lambda>_. c)) es')"

definition register_MN :: "addr \<Rightarrow> addr \<Rightarrow> addr \<Rightarrow> BUEntry list \<Rightarrow> BUEntry list" where
  "register_MN sa h c es =
     (let (r, es') = find_or_insert (\<lambda>e. bu_haddr e = h)
            ((new_BUEntry MN)\<lparr>bu_addr := sa, bu_haddr := h, bu_caddr := c\<rparr>) es
      in upd_at r (bu_caddr_update (\<lambda>_. c)) es')"

definition registration :: "packet \<Rightarrow> Mipv6NodeType \<Rightarrow> mip6 \<Rightarrow> mip6" where
  "registration p t s =
     (case t of
        MR \<Rightarrow> s\<lparr>bulist := register_MR (nh_nemo_prefix (nh p)) (nh_haddr (nh p)) (nh_coa (nh p)) (bulist s)\<rparr>
      | MN \<Rightarrow> s\<lparr>bulist := register_MN (saddr p) (nh_haddr (nh p)) (nh_coa (nh p)) (bulist s)\<rparr>
      | _ \<Rightarrow> s)"

text \<open>The bindings of an agent: home address to care-of address.\<close>

definition bindings :: "mip6 \<Rightarrow> addr \<Rightarrow> addr option" where
  "bindings s = resolve bu_haddr bu_caddr (bulist s)"

lemma bindings_get_entry_by_haddr:
  "bindings s h = map_option bu_caddr (get_entry_by_haddr s h)"
  by (simp add: bindings_def resolve_def get_entry_by_haddr_def bu_find_def)

lemma get_entry_by_haddr_ptr_entry:
  "get_entry_by_haddr_ptr s h = Some r \<Longrightarrow>
     \<exists>e. entry_at (bulist s) r = Some e \<and> bu_haddr e = h \<and> get_entry_by_haddr s h = Some e"
  by (auto simp: get_entry_by_haddr_ptr_def get_entry_by_haddr_def bu_find_def
      lookup_entry_first_ptr dest: first_ptr_SomeD)

interpretation mip_mr: unique_binding_table bu_haddr bu_caddr register_MR
proof unfold_locales
  show "resolve bu_haddr bu_caddr (register_MR x k v es) = (resolve bu_haddr bu_caddr es)(k \<mapsto> v)"
    for x k v es
    by (auto simp: register_MR_def update_entry_haddr_caddr_def split: prod.splits
        intro!: resolve_find_or_insert)
  show "distinct (map bu_haddr (register_MR x k v es))" if "distinct (map bu_haddr es)" for x k v es
    using that by (auto simp: register_MR_def update_entry_haddr_caddr_def split: prod.splits
        intro!: distinct_find_or_insert)
qed

interpretation mip_mn: unique_binding_table bu_haddr bu_caddr register_MN
proof unfold_locales
  show "resolve bu_haddr bu_caddr (register_MN x k v es) = (resolve bu_haddr bu_caddr es)(k \<mapsto> v)"
    for x k v es
    by (auto simp: register_MN_def split: prod.splits intro!: resolve_find_or_insert)
  show "distinct (map bu_haddr (register_MN x k v es))" if "distinct (map bu_haddr es)" for x k v es
    using that by (auto simp: register_MN_def split: prod.splits intro!: distinct_find_or_insert)
qed

lemma bindings_registration:
  "t = MR \<or> t = MN \<Longrightarrow>
     bindings (registration p t s) = (bindings s)(nh_haddr (nh p) \<mapsto> nh_coa (nh p))"
  by (auto simp: bindings_def registration_def mip_mr.resolve_reg mip_mn.resolve_reg)

lemma registration_simps [simp]:
  "node_type (registration p t s) = node_type s" "bslist (registration p t s) = bslist s"
  "mr_bs_daddr (registration p t s) = mr_bs_daddr s" "exp_mr (registration p t s) = exp_mr s"
  "here_addr (registration p t s) = here_addr s" "here_port (registration p t s) = here_port s"
  "ms_bs_enable (registration p t s) = ms_bs_enable s" "mn_flag (registration p t s) = mn_flag s"
  "mip_exp (registration p t s) = mip_exp s"
  by (cases t; simp add: registration_def split: prod.splits)+

end
