(* ===== verification/Mip6_Send.thy ===== *)
theory Mip6_Send
  imports Mip6_State
begin

text \<open>
  The messages that \<^verbatim>\<open>MIPV6Agent\<close> originates (nist-2/hsntg/mip6.cc): binding updates and their
  acknowledgements, the updates sent when an interface is lost (\<^verbatim>\<open>re_homing\<close>) or a neighbour
  router appears (\<^verbatim>\<open>process_mr\<close>), the care-of address computation and the configuration
  commands. A handler returns the new agent state and the actions in the order they are taken.
\<close>

type_synonym mip_result = "(mip6 \<times> action list) res"

text \<open>
  \<^verbatim>\<open>if(mr_bs_daddr!=-1) { add_tunnel(p); iph->daddr() = mr_bs_daddr; }\<close>, which precedes every
  transmission towards a node behind a router base station.
\<close>

definition via_mr_bs :: "mip6 \<Rightarrow> packet \<Rightarrow> packet" where
  "via_mr_bs s p = (if mr_bs_daddr s \<noteq> - 1 then (add_tunnel p)\<lparr>daddr := mr_bs_daddr s\<rparr> else p)"

section \<open>Care-of addresses\<close>

definition new_address :: "addr \<Rightarrow> addr \<Rightarrow> addr" where
  "new_address old_address pfx = (old_address AND 0x7FF) OR (pfx AND 0xFFFFF800)"

definition compute_new_address :: "net \<Rightarrow> mip6 \<Rightarrow> addr \<Rightarrow> node_ref \<Rightarrow> (addr \<times> net) res" where
  "compute_new_address n s pfx i =
     (let na = new_address (node_addr n i) pfx;
          bst = (if exp_mr s = 9 then (if mr_bs_daddr s \<noteq> - 1 then mr_bs_daddr s else pfx)
                 else if mr_bs_daddr s = - 1 then pfx else base_stn n i)
      in bind_res (get_nodeaddr (layout n) na) (\<lambda>a.
           Inr (na, n\<lparr>node_addr := (node_addr n)(i := a), base_stn := (base_stn n)(i := bst)\<rparr>)))"

section \<open>Binding updates\<close>

text \<open>\<^verbatim>\<open>send_bu_msg()\<close>, for a node with a fixed interface.\<close>

definition send_bu_msg_fixed :: "mip6 \<Rightarrow> mip_result" where
  "send_bu_msg_fixed s =
     need AssertFail (case bulist s of [] \<Rightarrow> None | e # _ \<Rightarrow> Some e) (\<lambda>bu.
       let p = (allocpkt s)\<lparr>
             nh := zero_nemo\<lparr>nh_haddr := bu_haddr bu, nh_coa := here_addr s, nh_H := ON, nh_A := ON,
                     nh_type := BU, nh_lifetime := TIME_INFINITY, nh_seqno := 0\<rparr>,
             saddr := here_addr s, daddr := bu_addr bu, dport := here_port s,
             ptype := PT_NEMO, psize := IPv6_HEADER_SIZE + BU_SIZE\<rparr>
       in Inr (s, [Send (add_tunnel p)]))"

text \<open>
  \<^verbatim>\<open>send_bu_msg(prefix, iface)\<close>. The branch for a node without an entry is behind
  \<^verbatim>\<open>assert(bu!=NULL)\<close> and cannot be taken.
\<close>

definition send_bu_msg :: "net \<Rightarrow> mip6 \<Rightarrow> addr \<Rightarrow> node_ref \<Rightarrow> mip_result" where
  "send_bu_msg n s pfx i =
     need AssertFail (get_entry_by_iface_ptr n s i) (\<lambda>r.
       let s1 = bu_write r (bu_caddr_update (\<lambda>_. node_addr n i)) s
       in need NullPtr (bu_at s1 r) (\<lambda>bu.
         let p = (allocpkt s1)\<lparr>
               nh := zero_nemo\<lparr>nh_coa := node_addr n i, nh_haddr := bu_haddr bu, nh_H := ON, nh_A := ON,
                       nh_type := BU, nh_lifetime := TIME_INFINITY, nh_seqno := 0\<rparr>,
               saddr := node_addr n i, daddr := bu_addr bu, dport := here_port s1,
               ptype := PT_NEMO, psize := IPv6_HEADER_SIZE + BU_SIZE\<rparr>
         in if node_type s1 = MR then
              Inr (s1, [Schedule i (add_tunnel
                (p\<lparr>nh := (nh p)\<lparr>nh_nemo_prefix := bu_prefix bu\<rparr>\<rparr>)) (1 / 10)])
            else
              need NullPtr (bu_eface bu) (\<lambda>a.
                Inr (s1, [SendVia a (via_mr_bs s1 ((add_tunnel p)\<lparr>daddr := pfx\<rparr>))]))))"

definition send_bu_ack :: "mip6 \<Rightarrow> packet \<Rightarrow> action list" where
  "send_bu_ack s p =
     (let p_ack = p\<lparr>
            nh := (nh p)\<lparr>nh_type := BACK, nh_lifetime := 0, nh_seqno := nh_seqno (nh p)\<rparr>,
            saddr := here_addr s, daddr := nh_coa (nh p), dport := here_port s,
            ptype := PT_NEMO, psize := IPv6_HEADER_SIZE + BACK_SIZE\<rparr>
      in [Send (if saddr p \<noteq> nh_coa (nh p) then (add_tunnel p_ack)\<lparr>daddr := saddr p\<rparr> else p_ack)])"

definition recv_bu_ack :: "mip6 \<Rightarrow> packet \<Rightarrow> mip_result" where
  "recv_bu_ack s p = check AssertFail (ptype p = PT_NEMO) (Inr (s, []))"

definition mn_send_bu_cn :: "mip6 \<Rightarrow> mip_result" where
  "mn_send_bu_cn s =
     (case get_entry_by_type s MN of
        None \<Rightarrow> Inr (s, [])
      | Some cn \<Rightarrow>
          need NullPtr (get_entry_by_type s MN_HA) (\<lambda>bu.
            let p = (allocpkt s)\<lparr>
                  nh := zero_nemo\<lparr>nh_coa := bu_caddr bu, nh_haddr := bu_haddr bu, nh_H := ON, nh_A := ON,
                          nh_type := BU_MN, nh_lifetime := TIME_INFINITY\<rparr>,
                  saddr := bu_caddr bu, daddr := bu_caddr cn, dport := here_port s,
                  ptype := PT_NEMO, psize := IPv6_HEADER_SIZE + BU_SIZE\<rparr>
            in need NullPtr (bu_eface bu) (\<lambda>a.
                 Inr (s, [SendVia a (via_mr_bs s ((add_tunnel p)\<lparr>daddr := prefix_of (bu_caddr bu)\<rparr>))]))))"

section \<open>Neighbour routers and lost interfaces\<close>

text \<open>The message \<^verbatim>\<open>BU_MR\<close> by which a router announces itself to a neighbour router.\<close>

definition bu_mr_packet :: "mip6 \<Rightarrow> addr \<Rightarrow> addr \<Rightarrow> packet" where
  "bu_mr_packet s da sa = (allocpkt s)\<lparr>
     nh := zero_nemo\<lparr>nh_type := BU_MR\<rparr>, daddr := da, dport := here_port s, saddr := sa,
     ptype := PT_NEMO, psize := IPv6_HEADER_SIZE + BU_SIZE\<rparr>"

text \<open>\<^verbatim>\<open>process_mr\<close> of an agent without a SIP agent.\<close>

definition process_mr_mip :: "net \<Rightarrow> mip6 \<Rightarrow> addr \<Rightarrow> node_ref \<Rightarrow> mip_result" where
  "process_mr_mip n s pfx i =
     (case get_mr_entry_by_prefix_ptr s (node_addr n i) of
        None \<Rightarrow>
          Inr (bu_insert ((new_BUEntry MR)\<lparr>bu_addr := pfx, bu_prefix := node_addr n i\<rparr>) s, [])
      | Some r \<Rightarrow>
          (let s1 = bu_write r (bu_addr_update (\<lambda>_. pfx)) s
           in need NullPtr (bu_at s1 r) (\<lambda>bu.
             Inr (s1, case bu_iface bu of
                        None \<Rightarrow> []
                      | Some a \<Rightarrow> [SendVia a (bu_mr_packet s1 pfx (node_addr n i))]))))"

text \<open>\<^verbatim>\<open>re_homing\<close> with \<^verbatim>\<open>exp_mr_ != 0\<close>: several mobile routers.\<close>

definition re_homing_routers :: "net \<Rightarrow> mip6 \<Rightarrow> node_ref \<Rightarrow> mip_result" where
  "re_homing_routers n s i =
     need AssertFail (get_mr_ha_entry_by_iface_ptr n s i) (\<lambda>r_break.
     need AssertFail (get_entry_by_type_ptr s MN) (\<lambda>r_mn.
     need NullPtr (bu_at s r_break) (\<lambda>bu_break.
       if bu_caddr bu_break = - 1 then Inr (s, [])
       else need NullPtr (get_mr_entry s) (\<lambda>bu_mr.
         let s1 = bu_write r_break (bu_caddr_update (\<lambda>_. - 1)) s;
             s2 = bu_write r_mn (bu_caddr_update (\<lambda>_. bu_addr bu_mr)) s1;
             p1 = (allocpkt s2)\<lparr>
               nh := zero_nemo\<lparr>nh_coa := bu_addr bu_mr, nh_haddr := bu_haddr bu_break, nh_H := ON,
                       nh_A := ON, nh_type := REHOME_MR_HA\<rparr>,
               saddr := bu_addr bu_mr, daddr := bu_addr bu_break, dport := here_port s2,
               ptype := PT_NEMO, psize := IPv6_HEADER_SIZE + BU_SIZE\<rparr>;
             p2 = (add_tunnel p1)\<lparr>daddr := bu_addr bu_mr\<rparr>;
             p3 = (add_tunnel p2)\<lparr>daddr := mr_bs_daddr s2\<rparr>
         in if exp_mr s = 3 \<or> exp_mr s = 4 then
              need NullPtr (bu_iface bu_mr) (\<lambda>a. Inr (s2, [SendVia a p3]))
            else if exp_mr s = 5 \<or> exp_mr s = 6 \<or> exp_mr s = 7 \<or> exp_mr s = 8 then
              need NullPtr (bu_iface bu_mr) (\<lambda>a.
                Inr (s2, [SendVia a (bu_mr_packet s2 (bu_haddr bu_mr) (bu_prefix bu_mr))]))
            else Inr (s2, [])))))"

text \<open>\<^verbatim>\<open>re_homing\<close> with \<^verbatim>\<open>exp_mr_ == 0\<close>: one router with a second interface.\<close>

definition re_homing_interfaces :: "net \<Rightarrow> mip6 \<Rightarrow> node_ref \<Rightarrow> mip_result" where
  "re_homing_interfaces n s i =
     need AssertFail (get_mr_ha_entry_by_iface_ptr n s i) (\<lambda>r_break.
     need AssertFail (get_mr_ha_entry_without_iface n s i) (\<lambda>bu_new.
     need AssertFail (get_entry_by_type_ptr s MN) (\<lambda>r_mn.
     need NullPtr (bu_at s r_break) (\<lambda>bu_break.
       let s1 = bu_write r_mn (bu_caddr_update (\<lambda>_. bu_caddr bu_new)) s;
           q = (allocpkt s1)\<lparr>dport := here_port s1, ptype := PT_NEMO,
                 psize := IPv6_HEADER_SIZE + BU_SIZE, daddr := bu_addr bu_break\<rparr>;
           p = (if mip_exp s = 4 then
                  (add_tunnel (q\<lparr>
                    nh := zero_nemo\<lparr>nh_coa := bu_haddr bu_new, nh_haddr := bu_haddr bu_break,
                            nh_H := ON, nh_A := ON, nh_type := REHOME\<rparr>,
                    saddr := bu_addr bu_new\<rparr>))
                  \<lparr>saddr := bu_caddr bu_new, daddr := bu_addr bu_break, dport := here_port s1\<rparr>
                else
                  add_tunnel (q\<lparr>
                    nh := zero_nemo\<lparr>nh_coa := bu_caddr bu_new, nh_haddr := bu_haddr bu_break,
                            nh_H := ON, nh_A := ON, nh_type := BU\<rparr>,
                    saddr := bu_caddr bu_new\<rparr>))
       in need NullPtr (bu_eface bu_new) (\<lambda>a. Inr (s1, [SendVia a p]))))))"

definition re_homing :: "net \<Rightarrow> mip6 \<Rightarrow> node_ref \<Rightarrow> mip_result" where
  "re_homing n s i = (if exp_mr s \<noteq> 0 then re_homing_routers n s i else re_homing_interfaces n s i)"

definition set_mr_bs_prefix :: "net \<Rightarrow> mip6 \<Rightarrow> addr \<Rightarrow> node_ref \<Rightarrow> time \<Rightarrow> mip_result" where
  "set_mr_bs_prefix n s pfx i lifetime =
     (let s1 = add_mr_bs_prefix pfx lifetime s
      in need AssertFail (get_mr_bs_entry_by_mface n s1 i) (\<lambda>bu.
         need NullPtr (Option.bind (bu_iface bu) (\<lambda>a. nemo_iface (nemos n a))) (\<lambda>j.
           Inr (s1, [NdAddPrefix j pfx lifetime]))))"

section \<open>Configuration commands\<close>

text \<open>
  The OTcl commands after their arguments have been parsed (\<^verbatim>\<open>str2addr\<close>, \<^verbatim>\<open>atoi\<close>,
  \<^verbatim>\<open>TclObject::lookup\<close>); an object that is not found is \<open>None\<close>.
\<close>

datatype mip_cmd =
    Binding
  | SetNodeType int
  | SetMrBsDaddr addr
  | SetCn addr addr
  | SetMface addr "nemo_ref option"
  | SetMrBs "nemo_ref option" "nemo_ref option"
  | SetMfaceNeighbor addr addr "nemo_ref option"
  | SetMn addr addr "nemo_ref option"
  | SetMr addr addr addr "nemo_ref option" "nemo_ref option"

definition node_types :: "Mipv6NodeType list" where
  "node_types = [MN, MN_HA, MR, MR_HA, CN, MR_BS]"

fun mip_command :: "mip6 \<Rightarrow> mip_cmd \<Rightarrow> (mip6 \<times> action list \<times> tcl_result) res" where
  "mip_command s Binding =
     bind_res (send_bu_msg_fixed s) (\<lambda>(s', out). Inr (s', out, TCL_OK))"
| "mip_command s (SetNodeType k) =
     (if 0 \<le> k \<and> k < 6 then Inr (s\<lparr>node_type := node_types ! nat k\<rparr>, [], TCL_OK)
      else Inr (s, [], TCL_ERROR))"
| "mip_command s (SetMrBsDaddr a) = Inr (s\<lparr>mr_bs_daddr := a\<rparr>, [], TCL_OK)"
| "mip_command s (SetCn ha hoa) =
     Inr (bu_insert (update_entry_addr_haddr ha hoa (new_BUEntry MN_HA)) s, [], TCL_OK)"
| "mip_command s (SetMface pfx nf) =
     Inr (bu_insert (set_mface pfx nf (new_BUEntry MR)) s, [], TCL_OK)"
| "mip_command s (SetMrBs ef nf) =
     Inr (bu_insert (set_mr_bs ef nf (new_BUEntry MR_BS)) s, [], TCL_OK)"
| "mip_command s (SetMfaceNeighbor mr pfx nf) =
     Inr (bu_insert (set_mface_2 mr pfx nf (new_BUEntry MR)) s, [], TCL_OK)"
| "mip_command s (SetMn ha hoa ef) =
     (if ef = None then Inr (s, [], TCL_ERROR)
      else Inr (bu_insert (update_entry_eface ha hoa ef (new_BUEntry MN_HA)) s, [], TCL_OK))"
| "mip_command s (SetMr ha hoa pfx ef nf) =
     (if ef = None \<and> nf = None then Inr (s, [], TCL_ERROR)
      else Inr (bu_insert (update_entry_faces ha hoa pfx ef nf (new_BUEntry MR_HA)) s, [], TCL_OK))"

end
