(* ===== verification/Mip6_Recv.thy ===== *)
theory Mip6_Recv
  imports Mip6_Send
begin

text \<open>
  \<^verbatim>\<open>MIPV6Agent::recv_nemo\<close> (nist-2/hsntg/mip6.cc): what each kind of node does with each
  mobility message. One definition per node type and message type of the dispatch, composed
  by \<open>recv_nemo\<close> as the code composes them. The packet belongs to the receiver, which frees
  it afterwards, so only the state and the actions remain.
\<close>

section \<open>Mobile router\<close>

text \<open>\<^verbatim>\<open>get_iface_agent_by_prefix(prefix)->send(p,0)\<close>\<close>

definition send_iface :: "mip6 \<Rightarrow> addr \<Rightarrow> packet \<Rightarrow> mip_result" where
  "send_iface s pfx p = need NullPtr (get_iface_agent_by_prefix s pfx) (\<lambda>a. Inr (s, [SendVia a p]))"

text \<open>\<^verbatim>\<open>bu->eface()->send(p,0)\<close> and \<^verbatim>\<open>bu->iface()->send(p,0)\<close>\<close>

definition send_eface :: "mip6 \<Rightarrow> BUEntry \<Rightarrow> packet \<Rightarrow> mip_result" where
  "send_eface s bu p = need NullPtr (bu_eface bu) (\<lambda>a. Inr (s, [SendVia a p]))"

definition send_mface :: "mip6 \<Rightarrow> BUEntry \<Rightarrow> packet \<Rightarrow> mip_result" where
  "send_mface s bu p = need NullPtr (bu_iface bu) (\<lambda>a. Inr (s, [SendVia a p]))"

text \<open>A binding update with a home agent, that no entry has as its destination.\<close>

definition mr_recv_BU_home :: "mip6 \<Rightarrow> packet \<Rightarrow> mip_result" where
  "mr_recv_BU_home s p =
     (let h = nh_haddr (nh p);
          s1 = (case get_entry_by_haddr s h of None \<Rightarrow> registration p MN s | Some _ \<Rightarrow> s)
      in need AssertFail (get_mr_ha_entry_by_prefix s1 (prefix_of (saddr p))) (\<lambda>bu.
         need NullPtr (get_entry_by_haddr_ptr s1 h) (\<lambda>mn.
           send_eface (bu_write mn (\<lambda>e. e\<lparr>bu_caddr := bu_caddr bu, bu_eface := bu_eface bu\<rparr>) s1)
             bu ((add_tunnel p)\<lparr>daddr := bu_addr bu\<rparr>))))"

definition mr_recv_BU :: "net \<Rightarrow> mip6 \<Rightarrow> packet \<Rightarrow> mip_result" where
  "mr_recv_BU n s p0 =
     bind_res (delete_tunnel p0) (\<lambda>p.
       case get_entry_by_addr s (daddr p) of
         None \<Rightarrow>
           (if nh_H (nh p) = ON then mr_recv_BU_home s p
            else
              (let s1 = registration p MN s
               in if nh_A (nh p) = ON then
                    need NullPtr (get_iface_agent_by_prefix s1 (prefix_of (saddr p))) (\<lambda>a.
                      Inr (s1, nemo_send_bu_ack n a (via_mr_bs s1 p)))
                  else Inr (s1, [])))
       | Some bu \<Rightarrow> send_iface s (prefix_of (daddr p)) (via_mr_bs s p))"

definition mr_recv_BACK :: "mip6 \<Rightarrow> packet \<Rightarrow> mip_result" where
  "mr_recv_BACK s p =
     (case get_entry_by_caddr s (daddr p) of
        None \<Rightarrow> need NullPtr (get_entry_by_addr s (saddr p)) (\<lambda>bu. send_eface s bu p)
      | Some bu \<Rightarrow>
          (if size_tunnel p = 0 then recv_bu_ack s p
           else bind_res (delete_tunnel p) (\<lambda>p1.
                  send_iface s (prefix_of (daddr p1)) (via_mr_bs s p1))))"

text \<open>A neighbour router announces itself: answer it once, and recover a lost home agent through it.\<close>

definition mr_recv_BU_MR :: "mip6 \<Rightarrow> packet \<Rightarrow> mip_result" where
  "mr_recv_BU_MR s p =
     need NullPtr (get_mr_entry_ptr s) (\<lambda>r. need NullPtr (bu_at s r) (\<lambda>mr0.
       bind_res
         (if bu_addr mr0 = - 1 then
            (let s1 = bu_write r (bu_addr_update (\<lambda>_. saddr p)) s
             in send_mface s1 mr0 (bu_mr_packet s1 (bu_haddr mr0) (bu_prefix mr0)))
          else Inr (s, []))
         (\<lambda>(s1, out).
           need NullPtr (bu_at s1 r) (\<lambda>mr.
             case get_mr_ha_entry_off s1 of
               None \<Rightarrow> Inr (s1, out)
             | Some brk \<Rightarrow>
                 (let q = (allocpkt s1)\<lparr>
                        nh := zero_nemo\<lparr>nh_coa := bu_addr mr, nh_haddr := bu_haddr brk, nh_H := ON,
                                nh_A := ON, nh_type := BU_MR_HA\<rparr>,
                        saddr := bu_addr mr, daddr := bu_addr brk, dport := here_port s1,
                        ptype := PT_NEMO, psize := IPv6_HEADER_SIZE + BU_SIZE\<rparr>
                  in bind_res (send_mface s1 mr ((add_tunnel q)\<lparr>daddr := bu_addr mr\<rparr>))
                       (\<lambda>(s2, out2). Inr (s2, out @ out2)))))))"

definition mr_recv_REHOME_MR_HA :: "mip6 \<Rightarrow> packet \<Rightarrow> mip_result" where
  "mr_recv_REHOME_MR_HA s p0 =
     bind_res (delete_tunnel p0) (\<lambda>p.
       let s1 = registration p MN s
       in need AssertFail (get_mr_ha_entry_by_prefix s1 (prefix_of (saddr p))) (\<lambda>bu.
          need NullPtr (get_entry_by_haddr_ptr s1 (nh_haddr (nh p))) (\<lambda>mn.
            let s2 = bu_write mn (\<lambda>e. e\<lparr>bu_caddr := bu_caddr bu, bu_eface := bu_eface bu\<rparr>) s1;
                q = p\<lparr>nh := (nh p)\<lparr>nh_coa := bu_haddr bu\<rparr>,
                      saddr := (if exp_mr s = 4 then bu_addr bu else bu_caddr bu)\<rparr>
            in send_eface s2 bu ((add_tunnel q)\<lparr>daddr := bu_addr bu\<rparr>))))"

definition mr_recv_BU_MR_HA :: "mip6 \<Rightarrow> packet \<Rightarrow> mip_result" where
  "mr_recv_BU_MR_HA s p0 =
     bind_res (delete_tunnel p0) (\<lambda>p.
       need AssertFail (get_mr_ha_entry_on s) (\<lambda>bu.
         let q = p\<lparr>nh := (nh p)\<lparr>nh_type := REHOME_MR_HA, nh_coa := bu_haddr bu\<rparr>,
                   saddr := (if exp_mr s = 8 then bu_addr bu else bu_caddr bu)\<rparr>
         in send_eface s bu ((add_tunnel q)\<lparr>daddr := bu_addr bu\<rparr>)))"

definition mr_recv_BU_MN :: "mip6 \<Rightarrow> packet \<Rightarrow> mip_result" where
  "mr_recv_BU_MN s p0 =
     bind_res (delete_tunnel p0) (\<lambda>p.
       let s1 = (case get_entry_by_haddr s (nh_haddr (nh p)) of
                   None \<Rightarrow> registration p MN s | Some _ \<Rightarrow> s);
           s2 = bu_insert ((new_BUEntry MN)\<lparr>bu_addr := daddr p\<rparr>) s1
       in need NullPtr (get_mr_ha_entry_on s2) (\<lambda>bu.
            send_eface s2 bu ((add_tunnel (p\<lparr>saddr := bu_addr bu\<rparr>))\<lparr>daddr := bu_addr bu\<rparr>)))"

definition recv_nemo_MR :: "net \<Rightarrow> mip6 \<Rightarrow> packet \<Rightarrow> mip_result" where
  "recv_nemo_MR n s p =
     (case nh_type (nh p) of
        BU \<Rightarrow> mr_recv_BU n s p
      | BACK \<Rightarrow> mr_recv_BACK s p
      | BU_MR \<Rightarrow> mr_recv_BU_MR s p
      | REHOME_MR_HA \<Rightarrow> mr_recv_REHOME_MR_HA s p
      | BU_MR_HA \<Rightarrow> mr_recv_BU_MR_HA s p
      | BU_MN \<Rightarrow> mr_recv_BU_MN s p
      | _ \<Rightarrow> Inr (s, []))"

section \<open>Home agent of a mobile router\<close>

text \<open>\<^verbatim>\<open>str2addr("8.0.1")\<close>, the destination that \<^verbatim>\<open>MR_HA\<close> ignores.\<close>

definition ignored_addr :: "net \<Rightarrow> addr res" where
  "ignored_addr n = str2addr (layout n) [8, 0, 1]"

definition mr_ha_forward_BU :: "mip6 \<Rightarrow> packet \<Rightarrow> packet res" where
  "mr_ha_forward_BU s p =
     (case get_entry_by_prefix s (prefix_of (daddr p)) of
        None \<Rightarrow>
          (if size_tunnel p = 0 then Inr (p\<lparr>saddr := here_addr s\<rparr>)
           else bind_res (delete_tunnel p) (\<lambda>q.
                  Inr ((add_tunnel (q\<lparr>saddr := here_addr s\<rparr>))\<lparr>daddr := daddr p\<rparr>)))
      | Some bu \<Rightarrow> Inr ((add_tunnel p)\<lparr>daddr := bu_caddr bu\<rparr>))"

definition mr_ha_recv_BU :: "net \<Rightarrow> mip6 \<Rightarrow> packet \<Rightarrow> mip_result" where
  "mr_ha_recv_BU n s p0 =
     bind_res (delete_tunnel p0) (\<lambda>p.
       if daddr p = here_addr s then
         (let s1 = registration p MR s
          in Inr (s1, if nh_A (nh p) = ON then send_bu_ack s1 p else []))
       else
         bind_res (mr_ha_forward_BU s p) (\<lambda>q.
           bind_res (ignored_addr n) (\<lambda>a.
             Inr (s, if a = daddr q then [] else [Send q]))))"

definition mr_ha_recv_BACK :: "mip6 \<Rightarrow> packet \<Rightarrow> mip_result" where
  "mr_ha_recv_BACK s p =
     (if daddr p = here_addr s then
        (if size_tunnel p = 0 then recv_bu_ack s p
         else bind_res (delete_tunnel p) (\<lambda>q.
                need NullPtr (get_entry_by_prefix s (prefix_of (daddr q))) (\<lambda>bu.
                  Inr (s, [Send ((add_tunnel q)\<lparr>daddr := bu_caddr bu\<rparr>)]))))
      else Inr (s, [Send p]))"

text \<open>
  Re-homing at the old home agent: the old home address is bound to the new home address, and
  the new home address to the source of the message.
\<close>

definition mr_ha_rehome :: "mip6 \<Rightarrow> packet \<Rightarrow> mip_result" where
  "mr_ha_rehome s p =
     need AssertFail (get_entry_by_haddr_ptr s (nh_haddr (nh p))) (\<lambda>r.
       let s1 = bu_write r (bu_caddr_update (\<lambda>_. nh_coa (nh p))) s;
           q = p\<lparr>nh := (nh p)\<lparr>nh_haddr := nh_coa (nh p), nh_coa := saddr p\<rparr>\<rparr>
       in Inr (registration q MR s1, []))"

definition mr_ha_recv_REHOME :: "mip6 \<Rightarrow> packet \<Rightarrow> mip_result" where
  "mr_ha_recv_REHOME s p0 = bind_res (delete_tunnel p0) (mr_ha_rehome s)"

definition mr_ha_recv_REHOME_MR_HA :: "mip6 \<Rightarrow> packet \<Rightarrow> mip_result" where
  "mr_ha_recv_REHOME_MR_HA s p0 =
     bind_res (delete_tunnel p0) (\<lambda>p.
       if daddr p = here_addr s then mr_ha_rehome s p
       else Inr (s, [Send (add_tunnel p)]))"

definition mr_ha_recv_BU_MN :: "mip6 \<Rightarrow> packet \<Rightarrow> mip_result" where
  "mr_ha_recv_BU_MN s p0 = bind_res (delete_tunnel p0) (\<lambda>p. Inr (s, [Send p]))"

definition recv_nemo_MR_HA :: "net \<Rightarrow> mip6 \<Rightarrow> packet \<Rightarrow> mip_result" where
  "recv_nemo_MR_HA n s p =
     (case nh_type (nh p) of
        BU \<Rightarrow> mr_ha_recv_BU n s p
      | BACK \<Rightarrow> mr_ha_recv_BACK s p
      | REHOME \<Rightarrow> mr_ha_recv_REHOME s p
      | REHOME_MR_HA \<Rightarrow> mr_ha_recv_REHOME_MR_HA s p
      | BU_MN \<Rightarrow> mr_ha_recv_BU_MN s p
      | _ \<Rightarrow> Inr (s, []))"

section \<open>Home agent of a mobile node, mobile node, correspondent node, router base station\<close>

definition recv_nemo_MN_HA :: "mip6 \<Rightarrow> packet \<Rightarrow> mip_result" where
  "recv_nemo_MN_HA s p =
     (case nh_type (nh p) of
        BU \<Rightarrow>
          (let s1 = (if nh_H (nh p) = ON then registration p MN s else s)
           in Inr (s1, if nh_A (nh p) = ON then send_bu_ack s1 p else []))
      | BACK \<Rightarrow> recv_bu_ack s p
      | _ \<Rightarrow> Inr (s, []))"

definition recv_nemo_MN :: "mip6 \<Rightarrow> packet \<Rightarrow> mip_result" where
  "recv_nemo_MN s p =
     (case nh_type (nh p) of
        BU \<Rightarrow> Inr (if nh_H (nh p) = ON then registration p MN s else s, [])
      | BACK \<Rightarrow> recv_bu_ack s p
      | _ \<Rightarrow> Inr (s, []))"

definition recv_nemo_CN :: "mip6 \<Rightarrow> packet \<Rightarrow> mip_result" where
  "recv_nemo_CN s p =
     (case nh_type (nh p) of
        BU \<Rightarrow>
          (let s1 = (if nh_H (nh p) = ON then registration p MN s else s)
           in Inr (s1, if nh_A (nh p) = ON then send_bu_ack s1 p else []))
      | BACK \<Rightarrow> recv_bu_ack s p
      | BU_MN \<Rightarrow>
          need NullPtr (get_entry_by_type_ptr s MN) (\<lambda>r.
            Inr (bu_write r (\<lambda>e. e\<lparr>bu_addr := saddr p, bu_caddr := nh_coa (nh p)\<rparr>) s, []))
      | _ \<Rightarrow> Inr (s, []))"

definition mr_bs_relay :: "mip6 \<Rightarrow> packet \<Rightarrow> mip_result" where
  "mr_bs_relay s p0 =
     bind_res (delete_tunnel p0) (\<lambda>p.
       need NullPtr (get_mr_bs_entry s) (\<lambda>bu.
         if is_daddr_mr_bs_prefix s (daddr p) then send_eface s bu p else send_mface s bu p))"

definition recv_nemo :: "net \<Rightarrow> mip6 \<Rightarrow> packet \<Rightarrow> mip_result" where
  "recv_nemo n s p =
     (case node_type s of
        MR \<Rightarrow> recv_nemo_MR n s p
      | MR_HA \<Rightarrow> recv_nemo_MR_HA n s p
      | MN_HA \<Rightarrow> recv_nemo_MN_HA s p
      | MN \<Rightarrow> recv_nemo_MN s p
      | CN \<Rightarrow> recv_nemo_CN s p
      | MR_BS \<Rightarrow> mr_bs_relay s p)"

end
