(* ===== verification/Mip6_Tunnel.thy ===== *)
theory Mip6_Tunnel
  imports Mip6_Recv
begin

text \<open>
  \<^verbatim>\<open>MIPV6Agent::tunneling\<close> (nist-2/hsntg/mip6.cc): the data path. One definition per node type,
  and the mobile router split by the experiment modes (\<^verbatim>\<open>exp_mr_\<close>) that the code distinguishes.
\<close>

section \<open>Mobile router\<close>

text \<open>\<^verbatim>\<open>exp_mr_\<close> 1, 3, 4, 6, 7, 8, 9: tunnel in tunnel.\<close>

definition mr_out_via_mface :: "mip6 \<Rightarrow> packet \<Rightarrow> mip_result" where
  "mr_out_via_mface s p =
     need NullPtr (get_mr_entry s) (\<lambda>mr.
       if bu_addr mr = - 1 then Inr (s, [])
       else need NullPtr (get_mr_ha_entry_off s) (\<lambda>out_old.
         let q1 = (add_tunnel p)\<lparr>daddr := bu_addr out_old, dport := here_port s\<rparr>;
             q2 = (add_tunnel q1)\<lparr>daddr := bu_addr mr, dport := here_port s, saddr := bu_prefix mr\<rparr>
         in send_mface s mr (add_tunnel q2)))"

definition mr_out_via_eface :: "mip6 \<Rightarrow> addr \<Rightarrow> packet \<Rightarrow> mip_result" where
  "mr_out_via_eface s c p =
     need NullPtr (get_mr_ha_entry_by_caddr s c) (\<lambda>out.
       let q = p\<lparr>saddr := bu_haddr out\<rparr>;
           q' = (if exp_mr s = 3 \<or> exp_mr s = 4 then q\<lparr>nh := (nh q)\<lparr>nh_coa := bu_haddr out\<rparr>\<rparr> else q)
       in send_eface s out ((add_tunnel q')\<lparr>daddr := bu_addr out, dport := here_port s\<rparr>))"

definition mr_out_tunnel_in_tunnel :: "net \<Rightarrow> mip6 \<Rightarrow> BUEntry \<Rightarrow> packet \<Rightarrow> mip_result" where
  "mr_out_tunnel_in_tunnel n s bu p =
     (if bu_type bu = MR then
        need NullPtr (get_mr_ha_entry_on s) (\<lambda>out.
          send_eface s out (p\<lparr>saddr := bu_haddr out, daddr := bu_addr out, dport := here_port s\<rparr>))
      else
        need NullPtr (Option.bind (bu_eface bu) (iface_address n)) (\<lambda>x.
          if bu_caddr bu \<noteq> x then mr_out_via_mface s p
          else mr_out_via_eface s (bu_caddr bu) p))"

text \<open>\<^verbatim>\<open>exp_mr_\<close> 2, 5: two tunnels.\<close>

definition mr_out_two_tunnels :: "net \<Rightarrow> mip6 \<Rightarrow> BUEntry \<Rightarrow> packet \<Rightarrow> mip_result" where
  "mr_out_two_tunnels n s bu p =
     (if bu_type bu = MR then
        need NullPtr (get_mr_ha_entry_on s) (\<lambda>out.
          send_eface s out ((add_tunnel (p\<lparr>saddr := bu_haddr out\<rparr>))
            \<lparr>daddr := bu_addr out, dport := here_port s\<rparr>))
      else
        need NullPtr (Option.bind (bu_eface bu) (iface_address n)) (\<lambda>x.
          if bu_caddr bu \<noteq> x then
            need NullPtr (get_mr_entry s) (\<lambda>mr.
              if bu_addr mr = - 1 then Inr (s, [])
              else send_mface s mr ((add_tunnel (p\<lparr>saddr := bu_prefix mr\<rparr>))
                     \<lparr>daddr := bu_addr mr, dport := here_port s\<rparr>))
          else
            need NullPtr (get_mr_ha_entry_by_caddr s (bu_caddr bu)) (\<lambda>out.
              send_eface s out ((add_tunnel (p\<lparr>saddr := bu_haddr out\<rparr>))
                \<lparr>daddr := bu_addr out, dport := here_port s\<rparr>))))"

text \<open>
  \<^verbatim>\<open>exp_mr_\<close> 0: one router. When the interface of the node's entry is not the one its care-of
  address names, the packet first goes to the home agent of that interface.
\<close>

definition mr_out_original :: "net \<Rightarrow> mip6 \<Rightarrow> BUEntry \<Rightarrow> packet \<Rightarrow> mip_result" where
  "mr_out_original n s bu p =
     need NullPtr (Option.bind (bu_eface bu) (iface_address n)) (\<lambda>x.
       bind_res
         (if bu_caddr bu \<noteq> x then
            need NullPtr (get_mr_ha_entry_by_caddr s x) (\<lambda>tunnel.
              Inr ((add_tunnel p)\<lparr>daddr := bu_addr tunnel, dport := here_port s\<rparr>))
          else Inr p)
         (\<lambda>q. need NullPtr (get_mr_ha_entry_by_caddr s (bu_caddr bu)) (\<lambda>out.
            send_eface s out ((add_tunnel (q\<lparr>saddr := bu_haddr out\<rparr>))
              \<lparr>daddr := bu_addr out, dport := here_port s\<rparr>))))"

definition mr_out :: "net \<Rightarrow> mip6 \<Rightarrow> packet \<Rightarrow> mip_result" where
  "mr_out n s p =
     (case get_entry_by_addr s (saddr p) of
        None \<Rightarrow> Inr (s, [])
      | Some bu \<Rightarrow>
          (if exp_mr s \<in> {1, 3, 4, 6, 7, 8, 9} then mr_out_tunnel_in_tunnel n s bu p
           else if exp_mr s \<in> {2, 5} then mr_out_two_tunnels n s bu p
           else mr_out_original n s bu p))"

definition tunneling_MR :: "net \<Rightarrow> mip6 \<Rightarrow> packet \<Rightarrow> mip_result" where
  "tunneling_MR n s p0 =
     bind_res (delete_tunnel p0) (\<lambda>p.
       case get_entry_by_addr s (daddr p) of
         None \<Rightarrow>
           (if exp_mr s \<in> {3, 4, 7, 8} then
              need NullPtr (get_mr_entry s) (\<lambda>mr.
                if bu_addr mr = prefix_of (daddr p) then
                  send_mface s mr ((add_tunnel p)\<lparr>daddr := bu_addr mr, dport := here_port s\<rparr>)
                else mr_out n s p)
            else mr_out n s p)
       | Some bu \<Rightarrow>
           (if bu_type bu = MR then Inr (s, [])
            else send_iface s (prefix_of (daddr p)) (via_mr_bs s ((add_tunnel p)\<lparr>dport := here_port s\<rparr>))))"

section \<open>Mobile node\<close>

text \<open>A packet of the node itself.\<close>

definition mn_tunnel_out :: "mip6 \<Rightarrow> BUEntry \<Rightarrow> packet \<Rightarrow> packet" where
  "mn_tunnel_out s bu p =
     (let p1 = add_tunnel p;
          p2 = (case get_entry_by_caddr s (daddr p1) of
                  None \<Rightarrow> p1\<lparr>nh := (nh p1)\<lparr>nh_haddr := bu_haddr bu, nh_coa := bu_caddr bu\<rparr>,
                             daddr := bu_addr bu, dport := here_port s\<rparr>
                | Some dest \<Rightarrow> p1\<lparr>daddr := bu_addr dest, dport := here_port s\<rparr>);
          p3 = (add_tunnel p2)\<lparr>daddr := prefix_of (saddr p2), dport := here_port s\<rparr>;
          p4 = via_mr_bs s p3
      in p4\<lparr>psize := psize p4 - 20\<rparr>)"

text \<open>The binding update that answers the first packet from an unknown correspondent.\<close>

definition mn_answer_bu :: "mip6 \<Rightarrow> addr \<Rightarrow> addr \<Rightarrow> addr \<Rightarrow> BUEntry \<Rightarrow> packet" where
  "mn_answer_bu s my_addr mn_addr mr_ha_addr bu =
     (let p = (allocpkt s)\<lparr>
            nh := zero_nemo\<lparr>nh_coa := my_addr, nh_haddr := bu_haddr bu, nh_H := ON, nh_A := ON,
                    nh_type := BU, nh_lifetime := TIME_INFINITY, nh_seqno := 0\<rparr>,
            saddr := my_addr, sport := here_port s, daddr := mn_addr, dport := here_port s,
            ptype := PT_NEMO, psize := IPv6_HEADER_SIZE + BU_SIZE\<rparr>
      in via_mr_bs s ((add_tunnel ((add_tunnel p)\<lparr>daddr := mr_ha_addr\<rparr>))\<lparr>daddr := prefix_of my_addr\<rparr>))"

text \<open>\<^verbatim>\<open>delete_tunnel(p); if(size_tunnel(p)>0) delete_tunnel(p);\<close>\<close>

definition strip_tunnels :: "packet \<Rightarrow> packet res" where
  "strip_tunnels p0 =
     bind_res (delete_tunnel p0) (\<lambda>p. if size_tunnel p > 0 then delete_tunnel p else Inr p)"

definition mn_tunnel_in :: "net \<Rightarrow> mip6 \<Rightarrow> packet \<Rightarrow> mip_result" where
  "mn_tunnel_in n s p0 =
     bind_res (strip_tunnels p0) (\<lambda>p2.
       let mr_ha_addr = saddr p0; mn_addr = saddr p2; p3 = p2\<lparr>saddr := mr_ha_addr\<rparr>
       in bind_res
            (case get_entry_by_caddr s mn_addr of
               Some _ \<Rightarrow> Inr (s, [])
             | None \<Rightarrow>
                 (let s1 = registration p3 MN s
                  in need NullPtr (get_entry_by_type s1 MN_HA) (\<lambda>bu.
                     need NullPtr (Option.bind (bu_eface bu) (iface_address n)) (\<lambda>my_addr.
                       send_eface s1 bu (mn_answer_bu s1 my_addr mn_addr mr_ha_addr bu)))))
            (\<lambda>(s1, out). Inr (s1, out @ [Send (p3\<lparr>daddr := here_addr s1\<rparr>)])))"

definition tunneling_MN :: "net \<Rightarrow> mip6 \<Rightarrow> packet \<Rightarrow> mip_result" where
  "tunneling_MN n s p =
     need NullPtr (get_entry_by_type s MN_HA) (\<lambda>bu.
     need NullPtr (Option.bind (bu_eface bu) (iface_address n)) (\<lambda>my_addr.
       if saddr p = my_addr then send_eface s bu (mn_tunnel_out s bu p)
       else mn_tunnel_in n s p))"

section \<open>Home agents\<close>

definition tunneling_MR_HA :: "mip6 \<Rightarrow> packet \<Rightarrow> mip_result" where
  "tunneling_MR_HA s p0 =
     bind_res (delete_tunnel p0) (\<lambda>p.
       let mr_ha_addr = saddr p0
       in case get_entry_by_prefix s (prefix_of (daddr p)) of
            None \<Rightarrow>
              (case get_entry_by_haddr s (nh_haddr (nh p)) of
                 None \<Rightarrow>
                   Inr (s, [Send ((if daddr p \<noteq> here_addr s then add_tunnel p else p)
                     \<lparr>dport := here_port s, saddr := here_addr s\<rparr>)])
               | Some bu \<Rightarrow>
                   Inr (s, [Send ((add_tunnel p)
                     \<lparr>daddr := bu_caddr bu, dport := here_port s, saddr := here_addr s\<rparr>)]))
          | Some bu \<Rightarrow>
              (let q = (if saddr p \<noteq> mr_ha_addr then (add_tunnel p)\<lparr>saddr := mr_ha_addr\<rparr> else p)
               in case get_entry_by_haddr s (bu_caddr bu) of
                    None \<Rightarrow>
                      Inr (s, [Send ((add_tunnel q)\<lparr>daddr := bu_caddr bu, dport := here_port s\<rparr>)])
                  | Some other_ha \<Rightarrow>
                      Inr (s, [Send ((add_tunnel (q\<lparr>nh := (nh q)\<lparr>nh_haddr := bu_haddr other_ha\<rparr>\<rparr>))
                        \<lparr>daddr := bu_caddr other_ha, dport := here_port s\<rparr>)])))"

definition tunneling_MN_HA :: "mip6 \<Rightarrow> packet \<Rightarrow> mip_result" where
  "tunneling_MN_HA s p0 =
     bind_res (delete_tunnel p0) (\<lambda>p1.
     bind_res (if size_tunnel p1 > 0
               then bind_res (delete_tunnel p1) (\<lambda>q. Inr (q, True))
               else Inr (p1, False)) (\<lambda>(p, mr_ha_flag).
       need AssertFail (get_entry_by_haddr s (daddr p)) (\<lambda>bu.
         let q = (add_tunnel (p\<lparr>daddr := bu_caddr bu\<rparr>))\<lparr>daddr := bu_addr bu, dport := here_port s\<rparr>
         in Inr (s, [Send (if mr_ha_flag then q\<lparr>saddr := saddr p0\<rparr> else q)]))))"

section \<open>Correspondent node\<close>

definition cn_answer_bu :: "mip6 \<Rightarrow> addr \<Rightarrow> addr \<Rightarrow> BUEntry \<Rightarrow> packet" where
  "cn_answer_bu s sa mr_ha_addr bu =
     (let p = (allocpkt s)\<lparr>
            nh := zero_nemo\<lparr>nh_coa := here_addr s, nh_haddr := bu_haddr bu, nh_H := ON, nh_A := ON,
                    nh_type := BU, nh_lifetime := TIME_INFINITY, nh_seqno := 0\<rparr>,
            saddr := here_addr s, sport := here_port s, daddr := sa, dport := here_port s,
            ptype := PT_NEMO, psize := IPv6_HEADER_SIZE + BU_SIZE\<rparr>
      in (add_tunnel p)\<lparr>daddr := mr_ha_addr\<rparr>)"

definition cn_tunnel_in :: "mip6 \<Rightarrow> packet \<Rightarrow> mip_result" where
  "cn_tunnel_in s p0 =
     bind_res (strip_tunnels p0) (\<lambda>p2.
       let mr_ha_addr = saddr p0; sa = saddr p2;
           p3 = p2\<lparr>saddr := mr_ha_addr,
                   nh := (if exp_mr s \<in> {3, 4, 6}
                          then (nh p2)\<lparr>nh_haddr := nh_coa (nh p2), nh_coa := sa\<rparr> else nh p2)\<rparr>
       in bind_res
            (case get_entry_by_addr s (saddr p3) of
               Some _ \<Rightarrow> Inr (s, [])
             | None \<Rightarrow>
                 (case get_entry_by_caddr s sa of
                    Some _ \<Rightarrow> Inr (s, [])
                  | None \<Rightarrow>
                      (let s1 = registration p3 MN s
                       in need NullPtr (get_entry_by_type s1 MN_HA) (\<lambda>bu.
                            Inr (s1, [Send (cn_answer_bu s1 sa (saddr p3) bu)])))))
            (\<lambda>(s1, out). Inr (s1, out @ [Send (p3\<lparr>daddr := here_addr s1\<rparr>)])))"

text \<open>
  The three ways a correspondent addresses its peer: through the home agent of the mobile
  node, to the address it is bound to, or (\<^verbatim>\<open>exp_mr_ == 9\<close>) by the binding of the first \<^verbatim>\<open>MN\<close> entry.
\<close>

definition cn_stamp :: "mip6 \<Rightarrow> BUEntry \<Rightarrow> packet \<Rightarrow> packet" where
  "cn_stamp s bu p = p\<lparr>daddr := bu_addr bu, dport := here_port s,
     nh := (nh p)\<lparr>nh_haddr := bu_haddr bu, nh_coa := here_addr s\<rparr>\<rparr>"

definition cn_tunnel_out :: "mip6 \<Rightarrow> packet \<Rightarrow> mip_result" where
  "cn_tunnel_out s p =
     (let p1 = add_tunnel p; bu = get_entry_by_caddr s (daddr p1)
      in if bu = None \<and> mn_flag s = 0 then
           need NullPtr (get_entry_by_type s MN_HA) (\<lambda>ha.
             Inr (if exp_mr s = 9 then s\<lparr>mn_flag := 1\<rparr> else s, [Send (cn_stamp s ha p1)]))
         else if exp_mr s = 9 then
           need NullPtr (get_entry_by_type s MN) (\<lambda>mn.
             bind_res (delete_tunnel p1) (\<lambda>q.
               Inr (s, [Send (cn_stamp s mn (add_tunnel (q\<lparr>daddr := bu_caddr mn\<rparr>)))])))
         else need NullPtr bu (\<lambda>b. Inr (s, [Send (cn_stamp s b p1)])))"

definition tunneling_CN :: "mip6 \<Rightarrow> packet \<Rightarrow> mip_result" where
  "tunneling_CN s p = (if daddr p = here_addr s then cn_tunnel_in s p else cn_tunnel_out s p)"

section \<open>Dispatch\<close>

definition tunneling :: "net \<Rightarrow> mip6 \<Rightarrow> packet \<Rightarrow> mip_result" where
  "tunneling n s p =
     (case node_type s of
        MR \<Rightarrow> tunneling_MR n s p
      | MN \<Rightarrow> tunneling_MN n s p
      | MR_HA \<Rightarrow> tunneling_MR_HA s p
      | MN_HA \<Rightarrow> tunneling_MN_HA s p
      | CN \<Rightarrow> tunneling_CN s p
      | MR_BS \<Rightarrow> mr_bs_relay s p)"

end
