(* ===== verification/Mip6_Invariants.thy ===== *)
theory Mip6_Invariants
  imports Mip6_Tunnel
begin

text \<open>
  What every operation of the MIPv6 agent keeps. The agent as a state machine: its inputs, one
  step per input and runs over input sequences; a locale for the relations between the state
  before and after that the primitive updates respect, in which every handler is shown to
  respect them; and its two instances, the stability of table entries and the uniqueness of home
  addresses.
\<close>

section \<open>The agent as a state machine\<close>

datatype mip_input =
    RecvNemo packet
  | RecvData packet
  | SendBU addr node_ref
  | SendBU_fixed
  | SendBU_CN
  | NeighbourMR addr node_ref
  | LostIface node_ref
  | NewBsPrefix addr node_ref time

fun mip_handle :: "net \<Rightarrow> mip6 \<Rightarrow> mip_input \<Rightarrow> mip_result" where
  "mip_handle n s (RecvNemo p) = recv_nemo n s p"
| "mip_handle n s (RecvData p) = tunneling n s p"
| "mip_handle n s (SendBU pfx i) = send_bu_msg n s pfx i"
| "mip_handle n s SendBU_fixed = send_bu_msg_fixed s"
| "mip_handle n s SendBU_CN = mn_send_bu_cn s"
| "mip_handle n s (NeighbourMR pfx i) = process_mr_mip n s pfx i"
| "mip_handle n s (LostIface i) = re_homing n s i"
| "mip_handle n s (NewBsPrefix pfx i l) = set_mr_bs_prefix n s pfx i l"

text \<open>A run handles a sequence of inputs, each in the network of its moment.\<close>

inductive mip_run :: "mip6 \<Rightarrow> (net \<times> mip_input) list \<Rightarrow> action list \<Rightarrow> mip6 \<Rightarrow> bool" where
  mip_run_Nil: "mip_run s [] [] s"
| mip_run_Cons: "mip_handle n s i = Inr (s1, out) \<Longrightarrow> mip_run s1 is outs s2 \<Longrightarrow>
     mip_run s ((n, i) # is) (out @ outs) s2"

text \<open>Runs are the graph of a function.\<close>

fun mip_exec :: "mip6 \<Rightarrow> (net \<times> mip_input) list \<Rightarrow> mip_result" where
  "mip_exec s [] = Inr (s, [])"
| "mip_exec s ((n, i) # is) =
     bind_res (mip_handle n s i) (\<lambda>(s1, out).
     bind_res (mip_exec s1 is) (\<lambda>(s2, outs). Inr (s2, out @ outs)))"

lemma mip_run_exec: "mip_run s is outs s' \<longleftrightarrow> mip_exec s is = Inr (s', outs)"
proof
  show "mip_run s is outs s' \<Longrightarrow> mip_exec s is = Inr (s', outs)"
    by (induction rule: mip_run.induct) auto
  show "mip_exec s is = Inr (s', outs) \<Longrightarrow> mip_run s is outs s'"
    by (induction "is" arbitrary: s outs) (fastforce intro: mip_run.intros)+
qed

text \<open>Two inputs insert an entry without looking for an existing one; the others are plain.\<close>

fun plain_input :: "Mipv6NodeType \<Rightarrow> mip_input \<Rightarrow> bool" where
  "plain_input t (NeighbourMR pfx i) = False"
| "plain_input t (RecvNemo p) = (t \<noteq> MR \<or> nh_type (nh p) \<noteq> BU_MN)"
| "plain_input t i = True"

section \<open>Relations that the primitive updates respect\<close>

text \<open>
  The fields of an entry that no handler assigns: its type, its home address, its prefix and
  its internal interface.
\<close>

definition bu_key :: "BUEntry \<Rightarrow> Mipv6NodeType \<times> addr \<times> addr \<times> nemo_ref option" where
  "bu_key e = (bu_type e, bu_haddr e, bu_prefix e, bu_iface e)"

lemma bu_key_writes [simp]:
  "bu_key (e\<lparr>bu_caddr := c\<rparr>) = bu_key e" "bu_key (e\<lparr>bu_addr := a\<rparr>) = bu_key e"
  "bu_key (e\<lparr>bu_eface := ef\<rparr>) = bu_key e"
  by (simp_all add: bu_key_def)

locale handler_relation =
  fixes R :: "mip6 \<Rightarrow> mip6 \<Rightarrow> bool"
  assumes R_refl: "R s s"
    and R_trans: "R s t \<Longrightarrow> R t u \<Longrightarrow> R s u"
    and R_write: "(\<And>e. bu_key (f e) = bu_key e) \<Longrightarrow> R s (bu_write r f s)"
    and R_registration: "R s (registration p k s)"
    and R_mn_flag: "R s (s\<lparr>mn_flag := b\<rparr>)"
    and R_prefix: "R s (add_mr_bs_prefix a l s)"
begin

definition kept :: "mip6 \<Rightarrow> mip_result \<Rightarrow> bool" where
  "kept s m \<longleftrightarrow> ensures (\<lambda>(s', out). R s s') m"

lemma R_write': "(\<And>e. bu_key (f e) = bu_key e) \<Longrightarrow> R s t \<Longrightarrow> R s (bu_write r f t)"
  using R_trans R_write by blast

lemma R_registration': "R s t \<Longrightarrow> R s (registration p k t)"
  using R_trans R_registration by blast

lemmas R_intros = R_refl R_write' R_registration' R_mn_flag R_prefix

lemma kept_simps [simp]:
  "kept s (Inr (s', out)) \<longleftrightarrow> R s s'"
  "kept s (Inl e)"
  "kept s (need e x k) \<longleftrightarrow> (\<forall>v. x = Some v \<longrightarrow> kept s (k v))"
  "kept s (check e b m) \<longleftrightarrow> (b \<longrightarrow> kept s m)"
  "kept s (send_iface t a p) \<longleftrightarrow> get_iface_agent_by_prefix t a = None \<or> R s t"
  "kept s (send_eface t bu p) \<longleftrightarrow> bu_eface bu = None \<or> R s t"
  "kept s (send_mface t bu p) \<longleftrightarrow> bu_iface bu = None \<or> R s t"
  "kept s (recv_bu_ack t p) \<longleftrightarrow> ptype p \<noteq> PT_NEMO \<or> R s t"
  by (auto simp: kept_def send_iface_def send_eface_def send_mface_def recv_bu_ack_def)

lemma kept_bind: "(\<And>x. kept s (k x)) \<Longrightarrow> kept s (bind_res m k)"
  by (cases m) (auto simp: kept_def)

lemma kept_seq:
  "kept s m \<Longrightarrow> (\<And>s1 out1. R s s1 \<Longrightarrow> kept s (k (s1, out1))) \<Longrightarrow> kept s (bind_res m k)"
  by (cases m) (auto simp: kept_def)

lemma mr_recv_BU_kept: "kept s (mr_recv_BU n s p)"
  unfolding mr_recv_BU_def mr_recv_BU_home_def Let_def
  by (auto intro!: kept_bind R_intros split: option.splits)

lemma mr_recv_BACK_kept: "kept s (mr_recv_BACK s p)"
  unfolding mr_recv_BACK_def by (auto intro!: kept_bind R_intros split: option.splits)

lemma mr_recv_BU_MR_kept: "kept s (mr_recv_BU_MR s p)"
  unfolding mr_recv_BU_MR_def Let_def by (auto intro!: kept_seq R_intros split: option.splits)

lemma mr_recv_REHOME_MR_HA_kept: "kept s (mr_recv_REHOME_MR_HA s p)"
  unfolding mr_recv_REHOME_MR_HA_def Let_def by (auto intro!: kept_bind R_intros)

lemma mr_recv_BU_MR_HA_kept: "kept s (mr_recv_BU_MR_HA s p)"
  unfolding mr_recv_BU_MR_HA_def Let_def by (auto intro!: kept_bind R_intros)

lemma recv_nemo_MR_kept: "nh_type (nh p) \<noteq> BU_MN \<Longrightarrow> kept s (recv_nemo_MR n s p)"
  unfolding recv_nemo_MR_def
  by (cases "nh_type (nh p)") (simp_all add: mr_recv_BU_kept mr_recv_BACK_kept mr_recv_BU_MR_kept
      mr_recv_REHOME_MR_HA_kept mr_recv_BU_MR_HA_kept R_refl)

lemma recv_nemo_MR_HA_kept: "kept s (recv_nemo_MR_HA n s p)"
  unfolding recv_nemo_MR_HA_def mr_ha_recv_BU_def mr_ha_recv_BACK_def mr_ha_recv_REHOME_def
    mr_ha_recv_REHOME_MR_HA_def mr_ha_recv_BU_MN_def mr_ha_rehome_def Let_def
  by (auto intro!: kept_bind R_intros split: Mipv6RegType.splits)

lemma mr_bs_relay_kept: "kept s (mr_bs_relay s p)"
  unfolding mr_bs_relay_def by (auto intro!: kept_bind R_intros)

lemma recv_nemo_kept:
  "node_type s \<noteq> MR \<or> nh_type (nh p) \<noteq> BU_MN \<Longrightarrow> kept s (recv_nemo n s p)"
  unfolding recv_nemo_def recv_nemo_MN_HA_def recv_nemo_MN_def recv_nemo_CN_def Let_def
  by (auto intro!: R_intros recv_nemo_MR_kept recv_nemo_MR_HA_kept mr_bs_relay_kept
      split: Mipv6RegType.splits Mipv6NodeType.splits)

lemma mr_out_kept: "kept s (mr_out n s p)"
  unfolding mr_out_def mr_out_tunnel_in_tunnel_def mr_out_via_mface_def mr_out_via_eface_def
    mr_out_two_tunnels_def mr_out_original_def Let_def
  by (auto intro!: kept_bind R_intros split: option.splits)

lemma tunneling_MR_kept: "kept s (tunneling_MR n s p)"
  unfolding tunneling_MR_def by (auto intro!: kept_bind mr_out_kept R_intros split: option.splits)

lemma mn_tunnel_in_kept: "kept s (mn_tunnel_in n s p)"
  unfolding mn_tunnel_in_def Let_def
  by (rule kept_bind) (auto intro!: kept_seq R_intros split: option.splits)

lemma tunneling_MN_kept: "kept s (tunneling_MN n s p)"
  unfolding tunneling_MN_def by (auto intro: mn_tunnel_in_kept R_refl)

lemma tunneling_MR_HA_kept: "kept s (tunneling_MR_HA s p)"
  unfolding tunneling_MR_HA_def Let_def by (auto intro!: kept_bind R_intros split: option.splits)

lemma tunneling_MN_HA_kept: "kept s (tunneling_MN_HA s p)"
  unfolding tunneling_MN_HA_def Let_def by (auto intro!: kept_bind R_intros)

lemma cn_tunnel_in_kept: "kept s (cn_tunnel_in s p)"
  unfolding cn_tunnel_in_def Let_def
  by (rule kept_bind) (auto intro!: kept_seq R_intros split: option.splits)

lemma cn_tunnel_out_kept: "kept s (cn_tunnel_out s p)"
  unfolding cn_tunnel_out_def Let_def by (auto intro!: kept_bind R_intros)

lemma tunneling_kept: "kept s (tunneling n s p)"
  unfolding tunneling_def tunneling_CN_def
  by (cases "node_type s") (simp_all add: tunneling_MR_kept tunneling_MN_kept tunneling_MR_HA_kept
      tunneling_MN_HA_kept cn_tunnel_in_kept cn_tunnel_out_kept mr_bs_relay_kept)

lemma send_bu_msg_kept: "kept s (send_bu_msg n s pfx i)"
  unfolding send_bu_msg_def Let_def by (auto intro!: R_intros)

lemma re_homing_kept: "kept s (re_homing n s i)"
  unfolding re_homing_def re_homing_routers_def re_homing_interfaces_def Let_def
  by (auto intro!: R_intros)

lemma originated_kept:
  "kept s (send_bu_msg_fixed s)" "kept s (mn_send_bu_cn s)"
  "kept s (set_mr_bs_prefix n s pfx i l)"
  unfolding send_bu_msg_fixed_def mn_send_bu_cn_def set_mr_bs_prefix_def Let_def
  by (auto intro!: R_intros split: option.splits)

lemma mip_handle_kept: "plain_input (node_type s) i \<Longrightarrow> kept s (mip_handle n s i)"
  by (cases i) (auto simp del: kept_simps intro: recv_nemo_kept
      tunneling_kept send_bu_msg_kept re_homing_kept originated_kept)

lemma mip_handle_R: "plain_input (node_type s) i \<Longrightarrow> mip_handle n s i = Inr (s', out) \<Longrightarrow> R s s'"
  using mip_handle_kept [of s i n] by simp

end

text \<open>A relation that insertion respects too holds for every input.\<close>

locale handler_relation_insert = handler_relation +
  assumes R_insert: "R s (bu_insert e s)"
begin

lemma R_insert': "R s t \<Longrightarrow> R s (bu_insert e t)"
  using R_trans R_insert by blast

lemma mr_recv_BU_MN_kept: "kept s (mr_recv_BU_MN s p)"
  unfolding mr_recv_BU_MN_def Let_def
  by (auto intro!: kept_bind R_intros R_insert' split: option.splits)

lemma process_mr_mip_kept: "kept s (process_mr_mip n s pfx i)"
  unfolding process_mr_mip_def Let_def by (auto intro!: R_intros R_insert split: option.splits)

lemma mip_handle_R_all:
  assumes "mip_handle n s i = Inr (s', out)"
  shows "R s s'"
proof (cases "plain_input (node_type s) i")
  case True
  then show ?thesis using assms by (rule mip_handle_R)
next
  case False
  then have "kept s (mip_handle n s i)"
    by (cases i) (auto simp: recv_nemo_def recv_nemo_MR_def simp del: kept_simps
        intro: mr_recv_BU_MN_kept process_mr_mip_kept)
  with assms show ?thesis by simp
qed

lemma mip_run_R: "mip_run s is outs s' \<Longrightarrow> R s s'"
proof (induction rule: mip_run.induct)
  case (mip_run_Cons n s i s1 out "is" outs s2)
  from mip_run_Cons.hyps(1) have "R s s1" by (rule mip_handle_R_all)
  then show ?case using mip_run_Cons.IH by (rule R_trans)
qed (rule R_refl)

end

section \<open>A sample run\<close>

text \<open>Small agents on which the hypotheses of the theorems are exercised.\<close>

definition demo_bu :: "addr \<Rightarrow> addr \<Rightarrow> packet" where
  "demo_bu h c = (allocpkt (demo_agent c))\<lparr>ptype := PT_NEMO,
     nh := zero_nemo\<lparr>nh_type := BU, nh_haddr := h, nh_coa := c, nh_H := ON, nh_A := ON\<rparr>\<rparr>"

definition demo_ha :: mip6 where
  "demo_ha = (new_mip6 (demo_agent 0x2001) MN_HA 0 0)
     \<lparr>bulist := [(new_BUEntry MN)\<lparr>bu_addr := 0x3001, bu_haddr := 0x2005, bu_caddr := 0x3005\<rparr>]\<rparr>"

lemmas demo_defs = demo_agent_def demo_net_def demo_bu_def demo_ha_def new_mip6_def new_BUEntry_def
  agent.defs

lemma demo_ha_run:
  "mip_run demo_ha [(demo_net, RecvNemo (demo_bu 0x2005 0x1801))]
     (send_bu_ack demo_ha (demo_bu 0x2005 0x1801)) (registration (demo_bu 0x2005 0x1801) MN demo_ha)"
proof -
  have "mip_handle demo_net demo_ha (RecvNemo (demo_bu 0x2005 0x1801)) =
    Inr (registration (demo_bu 0x2005 0x1801) MN demo_ha, send_bu_ack demo_ha (demo_bu 0x2005 0x1801))"
    by (simp add: recv_nemo_def recv_nemo_MN_HA_def demo_defs send_bu_ack_def registration_def)
  then show ?thesis using mip_run_Cons mip_run_Nil by fastforce
qed

section \<open>Stability of the table\<close>

definition stable :: "mip6 \<Rightarrow> mip6 \<Rightarrow> bool" where
  "stable s s' \<longleftrightarrow> suffix (map bu_key (bulist s)) (map bu_key (bulist s'))
     \<and> suffix (bslist s) (bslist s')
     \<and> agent.truncate s' = agent.truncate s \<and> node_type s' = node_type s
     \<and> mr_bs_daddr s' = mr_bs_daddr s \<and> ms_bs_enable s' = ms_bs_enable s
     \<and> mip_exp s' = mip_exp s \<and> exp_mr s' = exp_mr s"

lemma stable_bulist:
  "suffix (map bu_key (bulist s)) (map bu_key es) \<Longrightarrow> stable s (s\<lparr>bulist := es\<rparr>)"
  by (simp add: stable_def agent.truncate_def)

lemma suffix_find_or_insert:
  "find_or_insert P e es = (r, es') \<Longrightarrow> suffix (map g es) (map g es')"
  by (auto simp: find_or_insert_def suffix_def split: option.splits)

lemma stable_registration: "stable s (registration p k s)"
  by (cases k) (auto simp: registration_def register_MR_def register_MN_def map_upd_at
      split: prod.splits intro!: stable_bulist dest: suffix_find_or_insert,
      simp_all add: stable_def)

interpretation stab: handler_relation_insert stable
proof unfold_locales
  show "stable s u" if "stable s t" "stable t u" for s t u
    using that by (auto simp: stable_def intro: suffix_order.trans)
  show "stable s (bu_write r f s)" if "\<And>e. bu_key (f e) = bu_key e" for f s r
    using that by (auto simp: bu_write_def map_upd_at intro!: stable_bulist)
  show "stable s (bu_insert e s)" for s e
    by (auto simp: bu_insert_def suffix_def intro!: stable_bulist)
  show "stable s (registration p k s)" for s p k
    by (rule stable_registration)
qed (auto simp: stable_def agent.truncate_def add_mr_bs_prefix_def suffix_def)



section \<open>Uniqueness of home addresses\<close>

definition keeps_unique :: "mip6 \<Rightarrow> mip6 \<Rightarrow> bool" where
  "keeps_unique s s' \<longleftrightarrow>
     (distinct (map bu_haddr (bulist s)) \<longrightarrow> distinct (map bu_haddr (bulist s')))"

interpretation uniq: handler_relation keeps_unique
proof unfold_locales
  show "keeps_unique s (bu_write r f s)" if "\<And>e. bu_key (f e) = bu_key e" for f s r
    using that by (auto simp: keeps_unique_def bu_write_def map_upd_at bu_key_def)
  show "keeps_unique s (registration p k s)" for s p k
    by (cases k) (auto simp: keeps_unique_def registration_def
        intro: mip_mr.distinct_reg mip_mn.distinct_reg)
qed (auto simp: keeps_unique_def add_mr_bs_prefix_def)

lemma mip_run_plain_unique:
  "mip_run s is outs s' \<Longrightarrow> \<forall>(n, i) \<in> set is. plain_input (node_type s) i \<Longrightarrow> keeps_unique s s'"
proof (induction rule: mip_run.induct)
  case (mip_run_Cons n s i s1 out "is" outs s2)
  have "keeps_unique s s1" using mip_run_Cons.prems mip_run_Cons.hyps(1)
    by (auto intro: uniq.mip_handle_R)
  moreover have "node_type s1 = node_type s"
    using stab.mip_handle_R_all [OF mip_run_Cons.hyps(1)] by (simp add: stable_def)
  ultimately show ?case using mip_run_Cons by (auto intro: uniq.R_trans)
qed (simp add: uniq.R_refl)

text \<open>
  an agent that starts with one entry per home address keeps it so over every run in which no
  neighbour router is announced to it and, if it is a mobile router, no \<^verbatim>\<open>BU_MN\<close> arrives. Its table
  then is a map: the care-of address it looks up for the home address of any entry is the one
  that entry holds.
\<close>

theorem mip_run_home_addresses_unique:
  assumes "mip_run s is outs s'" and "distinct (map bu_haddr (bulist s))"
    and "\<forall>(n, i) \<in> set is. plain_input (node_type s) i"
  shows "distinct (map bu_haddr (bulist s'))
    \<and> (\<forall>e \<in> set (bulist s'). get_entry_by_haddr s' (bu_haddr e) = Some e)"
proof -
  from assms have d: "distinct (map bu_haddr (bulist s'))"
    using mip_run_plain_unique [OF assms(1)] by (simp add: keeps_unique_def)
  moreover have "get_entry_by_haddr s' (bu_haddr e) = Some e" if "e \<in> set (bulist s')" for e
    using d that by (simp add: bu_lookup_defs find_unique_key)
  ultimately show ?thesis by blast
qed

theorem mip_run_home_addresses_unique_witness:
  "distinct (map bu_haddr (bulist (registration (demo_bu 0x2005 0x1801) MN demo_ha)))"
  using mip_run_home_addresses_unique [OF demo_ha_run] by (simp add: demo_defs)

end
