(* ===== verification/Mip6_Props.thy ===== *)
theory Mip6_Props
  imports Mip6_Invariants
begin

text \<open>
  What the operations of the MIPv6 agent do: the table as a location service, the
  acknowledgement of a binding update, the care-of address, the relay through a router base
  station and the purity of the data path.
\<close>

section \<open>The location service\<close>

text \<open>A binding update for a home registration.\<close>

definition is_home_reg :: "packet \<Rightarrow> bool" where
  "is_home_reg p \<longleftrightarrow> nh_type (nh p) = BU \<and> nh_H (nh p) = ON"

lemma recv_nemo_home_reg:
  assumes "node_type s \<in> {MN_HA, MN, CN}" and "is_home_reg p"
  shows "recv_nemo n s p = Inr (registration p MN s,
    if node_type s \<noteq> MN \<and> nh_A (nh p) = ON then send_bu_ack s p else [])"
  using assms by (auto simp: recv_nemo_def recv_nemo_MN_HA_def recv_nemo_MN_def recv_nemo_CN_def
      is_home_reg_def Let_def send_bu_ack_def registration_def)

lemma exec_home_regs:
  assumes "node_type s \<in> {MN_HA, MN, CN}" and "\<forall>p \<in> set ps. is_home_reg p"
  shows "\<exists>outs. mip_exec s (map (\<lambda>p. (n, RecvNemo p)) ps) =
     Inr (s\<lparr>bulist := mip_mn.regs (map (\<lambda>p. (saddr p, nh_haddr (nh p), nh_coa (nh p))) ps) (bulist s)\<rparr>, outs)
    \<and> length outs = (if node_type s = MN then 0 else length (filter (\<lambda>p. nh_A (nh p) = ON) ps))"
  using assms
proof (induction ps arbitrary: s)
  case (Cons p ps)
  let ?s = "registration p MN s"
  have "\<exists>outs. mip_exec ?s (map (\<lambda>p. (n, RecvNemo p)) ps) =
     Inr (?s\<lparr>bulist := mip_mn.regs (map (\<lambda>p. (saddr p, nh_haddr (nh p), nh_coa (nh p))) ps) (bulist ?s)\<rparr>, outs)
    \<and> length outs = (if node_type ?s = MN then 0 else length (filter (\<lambda>p. nh_A (nh p) = ON) ps))"
    using Cons.prems by (intro Cons.IH) auto
  then show ?case using Cons.prems
    by (auto simp: recv_nemo_home_reg mip_mn.regs_def registration_def send_bu_ack_def Let_def)
qed (simp add: mip_mn.regs_def)

text \<open>
  C4: the table of a home agent, a correspondent or a mobile node is a location service. Handling
  any sequence of home registrations never faults and leaves exactly the bindings of the map that
  is updated with each home address and care-of address in turn, so the last registration of a
  home address wins and other bindings stay; home agents and correspondents answer each message
  that asks for it with one acknowledgement, mobile nodes answer none.
\<close>

theorem location_service:
  assumes "node_type s \<in> {MN_HA, MN, CN}" and "\<forall>p \<in> set ps. nh_type (nh p) = BU \<and> nh_H (nh p) = ON"
  shows "\<exists>s' outs. mip_exec s (map (\<lambda>p. (n, RecvNemo p)) ps) = Inr (s', outs)
    \<and> bindings s' = bindings s ++ map_of (rev (map (\<lambda>p. (nh_haddr (nh p), nh_coa (nh p))) ps))
    \<and> length outs = (if node_type s = MN then 0 else length (filter (\<lambda>p. nh_A (nh p) = ON) ps))"
proof -
  obtain outs where *: "mip_exec s (map (\<lambda>p. (n, RecvNemo p)) ps) =
     Inr (s\<lparr>bulist := mip_mn.regs (map (\<lambda>p. (saddr p, nh_haddr (nh p), nh_coa (nh p))) ps) (bulist s)\<rparr>, outs)"
    "length outs = (if node_type s = MN then 0 else length (filter (\<lambda>p. nh_A (nh p) = ON) ps))"
    using exec_home_regs [of s ps n] assms by (auto simp: is_home_reg_def)
  then show ?thesis
    by (auto simp: bindings_def mip_mn.resolve_regs comp_def)
qed

theorem location_service_witness:
  "\<exists>s' outs. mip_exec demo_ha (map (\<lambda>p. (demo_net, RecvNemo p)) [demo_bu 0x2007 0x1803, demo_bu 0x2007 0x1809]) = Inr (s', outs)
    \<and> bindings s' 0x2007 = Some 0x1809 \<and> bindings s' 0x2005 = Some 0x3005"
  using location_service [of demo_ha "[demo_bu 0x2007 0x1803, demo_bu 0x2007 0x1809]" demo_net]
  by (auto simp: demo_defs bindings_def resolve_Cons map_add_def)

section \<open>Acknowledgement\<close>

text \<open>
  a home agent or correspondent acknowledges a binding update exactly once, with the sequence
  number of the update. The acknowledgement goes to the care-of address, directly when the update
  came from there; otherwise it travels in a tunnel to the node that forwarded the update, and
  inside the tunnel it is addressed to the care-of address.
\<close>

theorem binding_update_acknowledged:
  assumes "node_type s \<in> {MN_HA, CN}" and "nh_type (nh p) = BU" and "nh_A (nh p) = ON"
  shows "\<exists>s' q. recv_nemo n s p = Inr (s', [Send q]) \<and> ptype q = PT_NEMO
    \<and> nh_type (nh q) = BACK \<and> nh_seqno (nh q) = nh_seqno (nh p) \<and> saddr q = here_addr s
    \<and> (if saddr p = nh_coa (nh p) then daddr q = nh_coa (nh p) \<and> tunnels q = tunnels p
       else daddr q = saddr p
         \<and> (\<exists>q'. delete_tunnel q = Inr q' \<and> daddr q' = nh_coa (nh p) \<and> tunnels q' = tunnels p))"
proof -
  from assms obtain s' where r: "recv_nemo n s p = Inr (s', send_bu_ack s p)"
    by (auto simp: recv_nemo_def recv_nemo_MN_HA_def recv_nemo_CN_def send_bu_ack_def Let_def)
  show ?thesis
  proof (cases "saddr p = nh_coa (nh p)")
    case True
    with r show ?thesis by (auto simp: send_bu_ack_def)
  next
    case False
    with r show ?thesis by (auto simp: send_bu_ack_def)
  qed
qed

theorem binding_update_acknowledged_witness:
  "\<exists>s' q. recv_nemo demo_net demo_ha ((demo_bu 0x2005 0x1801)\<lparr>saddr := 0x4001\<rparr>) = Inr (s', [Send q])
    \<and> daddr q = 0x4001 \<and> (\<exists>q'. delete_tunnel q = Inr q' \<and> daddr q' = 0x1801)"
  using binding_update_acknowledged [of demo_ha "(demo_bu 0x2005 0x1801)\<lparr>saddr := 0x4001\<rparr>" demo_net]
  by (auto simp: demo_defs)

section \<open>Care-of addresses\<close>

lemma new_address_bits:
  "bit (new_address a pfx) k \<longleftrightarrow> bit (if k < 11 then a else pfx) k"
proof -
  have "new_address a pfx = (a AND host_mask) OR prefix_of pfx"
    by (simp add: new_address_def host_mask_def prefix_of_def net_mask_def)
  then show ?thesis
    by (auto simp: bit_or_iff bit_and_iff bit_prefix_of host_mask_mask bit_mask_iff
        dest: bit_imp_le_length)
qed

lemma prefix_of_new_address [simp]: "prefix_of (new_address a pfx) = prefix_of pfx"
  by (rule bit_eqI) (auto simp: bit_prefix_of new_address_bits)

lemma host_part_new_address [simp]: "new_address a pfx AND host_mask = a AND host_mask"
  by (rule bit_eqI) (auto simp: bit_and_iff host_mask_mask bit_mask_iff new_address_bits)

lemma new_address_twice [simp]: "new_address (new_address a p) q = new_address a q"
  by (rule bit_eqI) (auto simp: new_address_bits)

lemma compute_new_address_wf:
  "wf_layout (layout n) \<Longrightarrow> \<exists>b. compute_new_address n s pfx i =
     Inr (new_address (node_addr n i) pfx,
          n\<lparr>node_addr := (node_addr n)(i := new_address (node_addr n i) pfx), base_stn := b\<rparr>)"
  by (auto simp: compute_new_address_def get_nodeaddr_id Let_def) (rule exI [of _ "base_stn n"], simp)

text \<open>
  moving to a prefix gives a node the network part of the prefix and leaves its host part;
  the address returned is the one the node then has, whatever text form the layout gives it. No
  other node changes its address, and the address that a later prefix gives does not depend on the
  prefixes in between.
\<close>

theorem care_of_address:
  assumes "wf_layout (layout n)"
  shows "\<exists>n'. compute_new_address n s pfx i = Inr (node_addr n' i, n')
    \<and> prefix_of (node_addr n' i) = prefix_of pfx
    \<and> node_addr n' i AND host_mask = node_addr n i AND host_mask
    \<and> (\<forall>j. j \<noteq> i \<longrightarrow> node_addr n' j = node_addr n j) \<and> nemos n' = nemos n
    \<and> (\<forall>pfx'. map_sum id fst (compute_new_address n' s pfx' i)
          = map_sum id fst (compute_new_address n s pfx' i))"
proof -
  obtain b where b: "compute_new_address n s pfx i =
     Inr (new_address (node_addr n i) pfx,
          n\<lparr>node_addr := (node_addr n)(i := new_address (node_addr n i) pfx), base_stn := b\<rparr>)"
    using compute_new_address_wf [OF assms] by blast
  let ?n = "n\<lparr>node_addr := (node_addr n)(i := new_address (node_addr n i) pfx), base_stn := b\<rparr>"
  have "wf_layout (layout ?n)" using assms by simp
  then have "map_sum id fst (compute_new_address ?n s pfx' i)
      = map_sum id fst (compute_new_address n s pfx' i)" for pfx'
    using compute_new_address_wf [of ?n s pfx' i] compute_new_address_wf [OF assms, of s pfx' i] by auto
  with b show ?thesis by (intro exI [of _ ?n]) auto
qed

theorem care_of_address_witness:
  "\<exists>n'. compute_new_address demo_net demo_ha 0x02000800 0 = Inr (node_addr n' 0, n')
     \<and> prefix_of (node_addr n' 0) = 0x02000800 \<and> node_addr n' 0 AND host_mask = 1"
  using care_of_address [of demo_net demo_ha "0x02000800" 0]
  by (auto simp: demo_net_def default_layout_wf_layout prefix_of_def net_mask_def host_mask_def)

section \<open>Router base stations\<close>

lemma via_mr_bs_delete: "mr_bs_daddr s \<noteq> - 1 \<Longrightarrow> delete_tunnel (via_mr_bs s p) = Inr p"
  by (simp add: via_mr_bs_def delete_tunnel_def top_tunnel_def add_tunnel_def)

text \<open>
  the detour through a router base station is transparent. What a node sends by way of it is
  addressed to it, and the base station, whether it takes the packet for a mobility message or for
  data, passes on the packet exactly as it was before the detour: outwards when it is addressed to a
  known prefix, inwards otherwise. Its own state is unchanged.
\<close>

theorem base_station_relay:
  assumes "mr_bs_daddr s \<noteq> - 1" and "node_type b = MR_BS" and "get_mr_bs_entry b = Some e"
    and "bu_eface e = Some ef" and "bu_iface e = Some nf"
  shows "daddr (via_mr_bs s p) = mr_bs_daddr s
    \<and> recv_nemo n b (via_mr_bs s p) = Inr (b, [SendVia (if is_daddr_mr_bs_prefix b (daddr p) then ef else nf) p])
    \<and> tunneling n b (via_mr_bs s p) = recv_nemo n b (via_mr_bs s p)"
  using assms by (auto simp: recv_nemo_def tunneling_def mr_bs_relay_def via_mr_bs_delete send_eface_def
    send_mface_def, simp add: via_mr_bs_def)

theorem base_station_relay_witness:
  "recv_nemo demo_net ((new_mip6 (demo_agent 0x6001) MR_BS 0 0)
       \<lparr>bulist := [(new_BUEntry MR_BS)\<lparr>bu_eface := Some 1, bu_iface := Some 2\<rparr>]\<rparr>)
     (via_mr_bs (demo_ha\<lparr>mr_bs_daddr := 0x6001\<rparr>) (demo_bu 0x2005 0x1801))
   = Inr ((new_mip6 (demo_agent 0x6001) MR_BS 0 0)
       \<lparr>bulist := [(new_BUEntry MR_BS)\<lparr>bu_eface := Some 1, bu_iface := Some 2\<rparr>]\<rparr>,
     [SendVia 2 (demo_bu 0x2005 0x1801)])"
proof -
  let ?b = "(new_mip6 (demo_agent 0x6001) MR_BS 0 0)
       \<lparr>bulist := [(new_BUEntry MR_BS)\<lparr>bu_eface := Some 1, bu_iface := Some 2\<rparr>]\<rparr>"
  have "get_mr_bs_entry ?b = Some ((new_BUEntry MR_BS)\<lparr>bu_eface := Some 1, bu_iface := Some 2\<rparr>)"
    and "node_type ?b = MR_BS" and "mr_bs_daddr (demo_ha\<lparr>mr_bs_daddr := 0x6001\<rparr>) \<noteq> - 1"
    and "\<not> is_daddr_mr_bs_prefix ?b (daddr (demo_bu 0x2005 0x1801))"
    by (simp_all add: demo_defs bu_lookup_defs is_daddr_mr_bs_prefix_def)
  with base_station_relay [of "demo_ha\<lparr>mr_bs_daddr := 0x6001\<rparr>" ?b _ 1 2 "demo_bu 0x2005 0x1801" demo_net]
  show ?thesis by auto
qed

section \<open>The data path\<close>

text \<open>
  What a packet carries, whatever tunnels it is in: its type, priority and SIP header, and its
  size without the tunnel headers.
\<close>

definition payload :: "packet \<Rightarrow> packet_t \<times> int \<times> hdr_mysip \<times> int" where
  "payload p = (ptype p, prio p, mh p, psize p - IPv6_HEADER_SIZE * int (size_tunnel p))"

lemma payload_simps [simp]:
  "payload (p\<lparr>saddr := x\<rparr>) = payload p" "payload (p\<lparr>daddr := x\<rparr>) = payload p"
  "payload (p\<lparr>sport := x\<rparr>) = payload p" "payload (p\<lparr>dport := x\<rparr>) = payload p"
  "payload (p\<lparr>nh := h\<rparr>) = payload p" "payload (add_tunnel p) = payload p"
  by (simp_all add: payload_def size_tunnel_def algebra_simps)

lemma payload_via_mr_bs [simp]: "payload (via_mr_bs s p) = payload p"
  by (simp add: via_mr_bs_def)

lemma payload_delete_tunnel: "ensures (\<lambda>q. payload q = payload p) (delete_tunnel p)"
  by (auto simp: delete_tunnel_def Let_def payload_def size_tunnel_def of_nat_diff Suc_leI algebra_simps)

definition forwards :: "mip6 \<Rightarrow> packet \<Rightarrow> mip_result \<Rightarrow> bool" where
  "forwards s p m \<longleftrightarrow> ensures (\<lambda>(s', outs). s' = s \<and>
     (outs = [] \<or> (\<exists>q. payload q = payload p \<and> (outs = [Send q] \<or> (\<exists>a. outs = [SendVia a q]))))) m"

lemma forwards_simps [simp]:
  "forwards s p (Inr (s', [])) \<longleftrightarrow> s' = s"
  "forwards s p (Inr (s', [Send q])) \<longleftrightarrow> s' = s \<and> payload q = payload p"
  "forwards s p (Inl e)"
  "forwards s p (need e x k) \<longleftrightarrow> (\<forall>v. x = Some v \<longrightarrow> forwards s p (k v))"
  by (auto simp: forwards_def)

lemma forwards_send [simp]:
  "payload q = payload p \<Longrightarrow> forwards s p (send_iface s a q)"
  "payload q = payload p \<Longrightarrow> forwards s p (send_eface s b q)"
  "payload q = payload p \<Longrightarrow> forwards s p (send_mface s b q)"
  by (auto simp: forwards_def send_iface_def send_eface_def send_mface_def)

lemma forwards_bind:
  "ensures (\<lambda>x. payload (f x) = payload p) m \<Longrightarrow> (\<And>x. payload (f x) = payload p \<Longrightarrow> forwards s p (k x))
     \<Longrightarrow> forwards s p (bind_res m k)"
  by (cases m) (auto simp: forwards_def)

lemma mr_out_forwards: "forwards s p (mr_out n s p)"
  unfolding mr_out_def mr_out_tunnel_in_tunnel_def mr_out_via_mface_def mr_out_via_eface_def
    mr_out_two_tunnels_def mr_out_original_def Let_def
  by (auto intro!: forwards_bind [where f = "\<lambda>q. q"] split: option.splits)

lemma mr_out_forwards': "payload q = payload p \<Longrightarrow> forwards s p (mr_out n s q)"
  using mr_out_forwards [of s q n] by (simp add: forwards_def)

lemma tunneling_MR_forwards: "forwards s p (tunneling_MR n s p)"
  unfolding tunneling_MR_def
  by (rule forwards_bind [where f = "\<lambda>q. q", OF payload_delete_tunnel])
    (auto intro: mr_out_forwards' split: option.splits)

lemma tunneling_MR_HA_forwards: "forwards s p (tunneling_MR_HA s p)"
  unfolding tunneling_MR_HA_def Let_def
  by (rule forwards_bind [where f = "\<lambda>q. q", OF payload_delete_tunnel])
    (auto split: option.splits)

lemma tunneling_MN_HA_forwards: "forwards s p (tunneling_MN_HA s p)"
  unfolding tunneling_MN_HA_def Let_def
  apply (rule forwards_bind [where f = "\<lambda>q. q", OF payload_delete_tunnel])
  apply (rule forwards_bind [where f = "fst"])
  apply (auto intro: ensures_mono [OF payload_delete_tunnel])
  done

lemma mr_bs_relay_forwards: "forwards s p (mr_bs_relay s p)"
  unfolding mr_bs_relay_def Let_def
  by (rule forwards_bind [where f = "\<lambda>q. q", OF payload_delete_tunnel]) auto

text \<open>
  on a router, a home agent or a router base station, data packets leave no trace in the
  state, each gives rise to at most one packet, and that packet carries the same payload: type,
  priority, SIP header and size net of tunnel headers.
\<close>

theorem data_path_forwards:
  assumes "node_type s \<in> {MR, MR_HA, MN_HA, MR_BS}" and "tunneling n s p = Inr (s', outs)"
  shows "s' = s \<and> (outs = [] \<or> (\<exists>q. ptype q = ptype p \<and> prio q = prio p \<and> mh q = mh p
     \<and> psize q - IPv6_HEADER_SIZE * int (size_tunnel q) = psize p - IPv6_HEADER_SIZE * int (size_tunnel p)
     \<and> (outs = [Send q] \<or> (\<exists>a. outs = [SendVia a q]))))"
proof -
  have "forwards s p (tunneling n s p)"
    using assms(1) by (auto simp: tunneling_def tunneling_MR_forwards tunneling_MR_HA_forwards
        tunneling_MN_HA_forwards mr_bs_relay_forwards)
  with assms(2) show ?thesis by (auto simp: forwards_def payload_def)
qed

theorem data_path_forwards_witness:
  "tunneling demo_net demo_ha (add_tunnel ((demo_bu 0 0)\<lparr>daddr := 0x2005\<rparr>))
     = Inr (demo_ha, [Send ((add_tunnel ((demo_bu 0 0)\<lparr>daddr := 0x3005\<rparr>))\<lparr>daddr := 0x3001, dport := 1\<rparr>)])
   \<and> psize ((add_tunnel ((demo_bu 0 0)\<lparr>daddr := 0x3005\<rparr>))\<lparr>daddr := 0x3001, dport := 1\<rparr>) = 1040"
proof -
  have t: "tunneling demo_net demo_ha (add_tunnel ((demo_bu 0 0)\<lparr>daddr := 0x2005\<rparr>))
     = Inr (demo_ha, [Send ((add_tunnel ((demo_bu 0 0)\<lparr>daddr := 0x3005\<rparr>))\<lparr>daddr := 0x3001, dport := 1\<rparr>)])"
    by (simp add: tunneling_def tunneling_MN_HA_def demo_defs size_tunnel_def bu_lookup_defs)
  have "node_type demo_ha \<in> {MR, MR_HA, MN_HA, MR_BS}" by (simp add: demo_defs)
  with data_path_forwards [OF this t] t show ?thesis
    by (simp add: size_tunnel_def size_defs demo_bu_def demo_agent_def)
qed

end
