(* ===== verification/Mip6_Paths.thy ===== *)
theory Mip6_Paths
  imports Mip6_Props
begin

text \<open>
  Messages and packets end to end, through the agents of several nodes: the binding update of a
  mobile node by way of its router to its home agent, data from the home agent down to the mobile
  node, and the move of a mobile network from one home agent of its router to another. Each hop
  is a lemma about one agent; a path is the composition of its hops, where the packet that one
  agent sends is the one the next receives.
\<close>

section \<open>Lookups after a registration\<close>

lemma find_register_MN_other:
  assumes "\<And>e c. P (e\<lparr>bu_caddr := c\<rparr>) = P e" and "\<And>e. bu_type e = MN \<Longrightarrow> \<not> P e"
    and "find (\<lambda>e. bu_haddr e = h) es = None"
  shows "find P (register_MN sa h c es) = find P es"
proof -
  have "first_ptr (\<lambda>e. bu_haddr e = h) es = None" using assms(3) by (simp add: find_None_iff)
  then have "register_MN sa h c es =
      ((new_BUEntry MN)\<lparr>bu_addr := sa, bu_haddr := h, bu_caddr := c\<rparr>) # es"
    by (simp add: register_MN_def find_or_insert_def del: first_ptr_None)
  then show ?thesis using assms(2) by (simp add: new_BUEntry_def)
qed

lemma bindings_ptr: "bindings s h \<noteq> None \<Longrightarrow> \<exists>r. get_entry_by_haddr_ptr s h = Some r"
  by (auto simp: bindings_def resolve_def lookup_entry_def get_entry_by_haddr_ptr_def
      split: option.splits bind_splits simp del: first_ptr_None)

lemma bindings_write:
  assumes "get_entry_by_haddr_ptr s h = Some r"
    and "\<And>e. bu_haddr (f e) = bu_haddr e" and "\<And>e. bu_caddr (f e) = c"
  shows "bindings (bu_write r f s) = (bindings s)(h \<mapsto> c)"
  using assms unfolding bindings_def bu_write_def get_entry_by_haddr_ptr_def
  by (simp add: resolve_upd_first)

lemma get_mr_ha_entry_by_prefix_new_MN:
  "get_entry_by_haddr s (nh_haddr (nh p)) = None \<Longrightarrow>
     get_mr_ha_entry_by_prefix (registration p MN s) pfx = get_mr_ha_entry_by_prefix s pfx"
  unfolding bu_lookup_defs registration_def by (simp add: find_register_MN_other)

section \<open>Binding update of a mobile node\<close>

lemma mr_BU_hop:
  assumes "node_type mr = MR" and "delete_tunnel q = Inr p" and "is_home_reg p" and "nh q = nh p"
    and "get_entry_by_addr mr (daddr p) = None"
    and "get_mr_ha_entry_by_prefix mr (prefix_of (saddr p)) = Some e" and "bu_eface e = Some b"
  shows "\<exists>mr'. recv_nemo n mr q = Inr (mr', [SendVia b ((add_tunnel p)\<lparr>daddr := bu_addr e\<rparr>)])
    \<and> bindings mr' (nh_haddr (nh p)) = Some (bu_caddr e)"
proof -
  let ?h = "nh_haddr (nh p)"
  define s1 where "s1 = (case get_entry_by_haddr mr ?h of None \<Rightarrow> registration p MN mr | Some _ \<Rightarrow> mr)"
  have "bindings s1 ?h \<noteq> None"
  proof (cases "get_entry_by_haddr mr ?h")
    case None
    then show ?thesis by (simp add: s1_def bindings_registration)
  next
    case (Some e)
    then show ?thesis by (simp add: s1_def bindings_get_entry_by_haddr)
  qed
  then obtain r where r: "get_entry_by_haddr_ptr s1 ?h = Some r" using bindings_ptr by blast
  have "get_mr_ha_entry_by_prefix s1 (prefix_of (saddr p)) = Some e"
    using assms(6) by (auto simp: s1_def get_mr_ha_entry_by_prefix_new_MN split: option.splits)
  with assms r show ?thesis
    by (simp add: recv_nemo_def recv_nemo_MR_def mr_recv_BU_def mr_recv_BU_home_def is_home_reg_def
        s1_def [symmetric] send_eface_def bindings_write)
qed

lemma mr_ha_BU_hop:
  assumes "node_type rh = MR_HA" and "delete_tunnel q = Inr p" and "is_home_reg p" and "nh q = nh p"
    and "tunnels p = []" and "daddr p \<noteq> here_addr rh"
    and "get_entry_by_prefix rh (prefix_of (daddr p)) = None"
    and "ignored_addr n = Inr x" and "x \<noteq> daddr p"
  shows "recv_nemo n rh q = Inr (rh, [Send (p\<lparr>saddr := here_addr rh\<rparr>)])"
  using assms by (simp add: recv_nemo_def recv_nemo_MR_HA_def mr_ha_recv_BU_def mr_ha_forward_BU_def
      is_home_reg_def size_tunnel_def)

lemma mn_BU_hop:
  assumes "get_entry_by_iface_ptr n mn i = Some r" and "entry_at (bulist mn) r = Some bm"
    and "bu_eface bm = Some a" and "node_type mn \<noteq> MR" and "mr_bs_daddr mn = - 1"
  shows "\<exists>mn' p. send_bu_msg n mn pfx i = Inr (mn', [SendVia a ((add_tunnel p)\<lparr>daddr := pfx\<rparr>)])
    \<and> is_home_reg p \<and> nh_A (nh p) = ON \<and> nh_haddr (nh p) = bu_haddr bm \<and> nh_coa (nh p) = node_addr n i
    \<and> saddr p = node_addr n i \<and> daddr p = bu_addr bm \<and> tunnels p = []"
proof -
  define p where "p = (allocpkt mn)\<lparr>
      nh := zero_nemo\<lparr>nh_coa := node_addr n i, nh_haddr := bu_haddr bm, nh_H := ON, nh_A := ON,
              nh_type := BU, nh_lifetime := TIME_INFINITY, nh_seqno := 0\<rparr>,
      saddr := node_addr n i, daddr := bu_addr bm, dport := here_port mn,
      ptype := PT_NEMO, psize := IPv6_HEADER_SIZE + BU_SIZE\<rparr>"
  have "\<exists>mn'. send_bu_msg n mn pfx i = Inr (mn', [SendVia a ((add_tunnel p)\<lparr>daddr := pfx\<rparr>)])"
    using assms by (simp add: send_bu_msg_def Let_def bu_write_def bu_at_def entry_at_upd_at
      via_mr_bs_def allocpkt_def p_def)
  then show ?thesis by (force simp: p_def is_home_reg_def)
qed

text \<open>Sample nodes of a path.\<close>

definition demo_bm :: BUEntry where
  "demo_bm = (new_BUEntry MN_HA)\<lparr>bu_addr := 0x2001, bu_haddr := 0x2005, bu_eface := Some 0\<rparr>"

definition demo_be :: BUEntry where
  "demo_be = (new_BUEntry MR_HA)\<lparr>bu_addr := 0x4001, bu_haddr := 0x4005, bu_caddr := 0x5001,
     bu_prefix := 0x1800, bu_eface := Some 1, bu_iface := Some 2\<rparr>"

definition demo_br :: BUEntry where
  "demo_br = (new_BUEntry MR)\<lparr>bu_haddr := 0x4005, bu_caddr := 0x5001, bu_prefix := 0x1800\<rparr>"

definition demo_node :: "Mipv6NodeType \<Rightarrow> addr \<Rightarrow> BUEntry list \<Rightarrow> mip6" where
  "demo_node t a es = (new_mip6 (demo_agent a) t 4 0)\<lparr>bulist := es\<rparr>"

lemmas demo_path_defs = demo_bm_def demo_be_def demo_br_def demo_node_def demo_defs bu_lookup_defs

text \<open>
  C29: a binding update reaches the home agent. A mobile node at a care-of address behind a router
  sends its update to the router; the router, which has no entry for the home agent's address,
  records the node and tunnels the update to its own home agent; this one takes the update out of
  the tunnel and sends it on in its own name; and the home agent of the node binds the home address
  to the care-of address. Its acknowledgement goes back to the router's home agent, tunnelled, with
  the care-of address inside. The router itself binds the node to its own care-of address.
\<close>

theorem binding_update_path:
  assumes mn: "node_type mn = MN" "get_entry_by_iface_ptr n mn i = Some r"
      "entry_at (bulist mn) r = Some bm" "bu_eface bm = Some a" "mr_bs_daddr mn = - 1"
    and mr: "node_type mr = MR" "get_entry_by_addr mr (bu_addr bm) = None"
      "get_mr_ha_entry_by_prefix mr (prefix_of (node_addr n i)) = Some e" "bu_eface e = Some b"
    and rh: "node_type rh = MR_HA" "here_addr rh = bu_addr e" "bu_addr bm \<noteq> bu_addr e"
      "get_entry_by_prefix rh (prefix_of (bu_addr bm)) = None"
      "ignored_addr n = Inr x" "x \<noteq> bu_addr bm" "node_addr n i \<noteq> bu_addr e"
    and ha: "node_type ha = MN_HA"
  shows "\<exists>mn' p1 mr' p2 p3 ha' ack ack'.
      send_bu_msg n mn pfx i = Inr (mn', [SendVia a p1]) \<and> daddr p1 = pfx
    \<and> recv_nemo n mr p1 = Inr (mr', [SendVia b p2]) \<and> daddr p2 = bu_addr e
    \<and> recv_nemo n rh p2 = Inr (rh, [Send p3]) \<and> daddr p3 = bu_addr bm
    \<and> recv_nemo n ha p3 = Inr (ha', [Send ack]) 
    \<and> bindings mr' (bu_haddr bm) = Some (bu_caddr e)
    \<and> bindings ha' = (bindings ha)(bu_haddr bm \<mapsto> node_addr n i)
    \<and> daddr ack = bu_addr e \<and> delete_tunnel ack = Inr ack' \<and> daddr ack' = node_addr n i"
proof -
  from mn_BU_hop [OF mn(2-4) _ mn(5), of pfx] mn(1) obtain mn' p where
    p: "send_bu_msg n mn pfx i = Inr (mn', [SendVia a ((add_tunnel p)\<lparr>daddr := pfx\<rparr>)])"
      "is_home_reg p" "nh_A (nh p) = ON" "nh_haddr (nh p) = bu_haddr bm" "nh_coa (nh p) = node_addr n i"
      "saddr p = node_addr n i" "daddr p = bu_addr bm" "tunnels p = []" by auto
  from mr_BU_hop [of mr "(add_tunnel p)\<lparr>daddr := pfx\<rparr>" p e b n] mr p obtain mr' where
    2: "recv_nemo n mr ((add_tunnel p)\<lparr>daddr := pfx\<rparr>)
        = Inr (mr', [SendVia b ((add_tunnel p)\<lparr>daddr := bu_addr e\<rparr>)])"
      "bindings mr' (bu_haddr bm) = Some (bu_caddr e)" by auto
  have 3: "recv_nemo n rh ((add_tunnel p)\<lparr>daddr := bu_addr e\<rparr>) = Inr (rh, [Send (p\<lparr>saddr := here_addr rh\<rparr>)])"
    using rh p by (intro mr_ha_BU_hop [where x = x]) auto
  let ?p = "p\<lparr>saddr := here_addr rh\<rparr>"
  have 4: "recv_nemo n ha ?p = Inr (registration ?p MN ha, send_bu_ack ha ?p)"
    using ha p by (simp add: recv_nemo_home_reg is_home_reg_def)
  have ack: "send_bu_ack ha ?p = [Send ((add_tunnel (p\<lparr>nh := (nh p)\<lparr>nh_type := BACK, nh_lifetime := 0,
      nh_seqno := nh_seqno (nh p)\<rparr>, saddr := here_addr ha, daddr := node_addr n i, dport := here_port ha,
      ptype := PT_NEMO, psize := IPv6_HEADER_SIZE + BACK_SIZE\<rparr>))\<lparr>daddr := bu_addr e\<rparr>)]"
    using p rh by (simp add: send_bu_ack_def)
  show ?thesis
    by (intro exI conjI, rule p(1), simp, rule 2(1), simp, rule 3, simp add: p(7),
        rule 4 [unfolded ack], rule 2(2), simp add: bindings_registration p(4,5), simp,
        rule delete_rerouted, simp)
qed

theorem binding_update_path_witness:
  "\<exists>mn' p1 mr' p2 p3 ha' ack.
      send_bu_msg demo_net (demo_node MN 0x1801 [demo_bm]) 0x1800 0 = Inr (mn', [SendVia 0 p1])
    \<and> recv_nemo demo_net (demo_node MR 0x1800 [demo_be]) p1 = Inr (mr', [SendVia 1 p2])
    \<and> recv_nemo demo_net (demo_node MR_HA 0x4001 [demo_br]) p2
        = Inr (demo_node MR_HA 0x4001 [demo_br], [Send p3])
    \<and> recv_nemo demo_net demo_ha p3 = Inr (ha', [Send ack]) \<and> bindings ha' 0x2005 = Some 0x1801"
proof -
  have n: "node_addr demo_net 0 = 0x1801" by (simp add: demo_net_def)
  have "\<exists>mn' p1 mr' p2 p3 ha' ack ack'.
      send_bu_msg demo_net (demo_node MN 0x1801 [demo_bm]) 0x1800 0 = Inr (mn', [SendVia 0 p1])
    \<and> daddr p1 = 0x1800
    \<and> recv_nemo demo_net (demo_node MR 0x1800 [demo_be]) p1 = Inr (mr', [SendVia 1 p2])
    \<and> daddr p2 = bu_addr demo_be
    \<and> recv_nemo demo_net (demo_node MR_HA 0x4001 [demo_br]) p2
        = Inr (demo_node MR_HA 0x4001 [demo_br], [Send p3]) \<and> daddr p3 = bu_addr demo_bm
    \<and> recv_nemo demo_net demo_ha p3 = Inr (ha', [Send ack])
    \<and> bindings mr' (bu_haddr demo_bm) = Some (bu_caddr demo_be)
    \<and> bindings ha' = (bindings demo_ha)(bu_haddr demo_bm \<mapsto> node_addr demo_net 0)
    \<and> daddr ack = bu_addr demo_be \<and> delete_tunnel ack = Inr ack' \<and> daddr ack' = node_addr demo_net 0"
    by (rule binding_update_path [where r = 0 and x = "0x02000001"])
      (simp_all add: demo_path_defs eface_is_def ignored_addr_def str2addr_def default_layout_def
        set_word_field_def prefix_of_def net_mask_def)
  then show ?thesis by (fastforce simp: n demo_bm_def)
qed

section \<open>Data to a mobile node\<close>

text \<open>
  C1: data reaches a mobile node behind a router. A packet for its home address that arrives in a
  tunnel at its home agent goes to the router's home agent with the care-of address inside, from
  there to the router's care-of address, through the router to the interface of the prefix, and is
  handed up at the mobile node: the same packet, out of all tunnels, addressed to the node's own
  agent. No agent on the way changes its state.
\<close>

theorem data_delivery_path:
  assumes p: "delete_tunnel p0 = Inr p" "tunnels p = []"
    and ha: "node_type ha = MN_HA" "get_entry_by_haddr ha (daddr p) = Some bh"
    and rh: "node_type rh = MR_HA" "get_entry_by_prefix rh (prefix_of (bu_caddr bh)) = Some br"
      "get_entry_by_haddr rh (bu_caddr br) = None"
    and mr: "node_type mr = MR" "get_entry_by_addr mr (bu_caddr bh) = Some be" "bu_type be \<noteq> MR"
      "get_iface_agent_by_prefix mr (prefix_of (bu_caddr bh)) = Some nf" "mr_bs_daddr mr = - 1"
    and mn: "node_type mn = MN" "get_entry_by_type mn MN_HA = Some bm" "bu_eface bm = Some a"
      "iface_address n a = Some (bu_caddr bh)" "saddr p \<noteq> bu_caddr bh"
      "get_entry_by_caddr mn (saddr p) = Some bc"
  shows "\<exists>q1 q2 q3 d.
      tunneling n ha p0 = Inr (ha, [Send q1]) \<and> daddr q1 = bu_addr bh
    \<and> tunneling n rh q1 = Inr (rh, [Send q2]) \<and> daddr q2 = bu_caddr br
    \<and> tunneling n mr q2 = Inr (mr, [SendVia nf q3]) \<and> daddr q3 = bu_caddr bh
    \<and> tunneling n mn q3 = Inr (mn, [Send d]) \<and> daddr d = here_addr mn
    \<and> d = p\<lparr>daddr := here_addr mn\<rparr>"
proof -
  let ?p = "p\<lparr>daddr := bu_caddr bh\<rparr>"
  have 1: "tunneling n ha p0 = Inr (ha, [Send ((add_tunnel ?p)\<lparr>daddr := bu_addr bh, dport := here_port ha\<rparr>)])"
    using ha p by (simp add: tunneling_def tunneling_MN_HA_def size_tunnel_def)
  have 2: "tunneling n rh ((add_tunnel ?p)\<lparr>daddr := bu_addr bh, dport := here_port ha\<rparr>) =
     Inr (rh, [Send ((add_tunnel ?p)\<lparr>daddr := bu_caddr br, dport := here_port rh\<rparr>)])"
    using rh p by (simp add: tunneling_def tunneling_MR_HA_def)
  have 3: "tunneling n mr ((add_tunnel ?p)\<lparr>daddr := bu_caddr br, dport := here_port rh\<rparr>) =
     Inr (mr, [SendVia nf ((add_tunnel ?p)\<lparr>dport := here_port mr\<rparr>)])"
    using mr p by (simp add: tunneling_def tunneling_MR_def send_iface_def via_mr_bs_def)
  have 4: "tunneling n mn ((add_tunnel ?p)\<lparr>dport := here_port mr\<rparr>) = Inr (mn, [Send (p\<lparr>daddr := here_addr mn\<rparr>)])"
    using mn p by (simp add: tunneling_def tunneling_MN_def mn_tunnel_in_def strip_tunnels_def size_tunnel_def)
  show ?thesis
    by (intro exI conjI, rule 1, simp, rule 2, simp, rule 3, simp, rule 4) simp_all
qed

theorem data_delivery_path_witness:
  "\<exists>q1 q2 q3 d.
      tunneling demo_net (demo_node MN_HA 0x2001
        [(new_BUEntry MN)\<lparr>bu_addr := 0x4001, bu_haddr := 0x2005, bu_caddr := 0x1801\<rparr>])
        (add_tunnel ((demo_bu 0 0x7001)\<lparr>daddr := 0x2005\<rparr>))
      = Inr (demo_node MN_HA 0x2001
        [(new_BUEntry MN)\<lparr>bu_addr := 0x4001, bu_haddr := 0x2005, bu_caddr := 0x1801\<rparr>], [Send q1])
    \<and> tunneling demo_net (demo_node MR_HA 0x4001 [demo_br]) q1
        = Inr (demo_node MR_HA 0x4001 [demo_br], [Send q2])
    \<and> tunneling demo_net (demo_node MR 0x1800 [demo_be, (new_BUEntry MN)\<lparr>bu_addr := 0x1801\<rparr>]) q2
        = Inr (demo_node MR 0x1800 [demo_be, (new_BUEntry MN)\<lparr>bu_addr := 0x1801\<rparr>], [SendVia 2 q3])
    \<and> tunneling demo_net (demo_node MN 0x1802 [demo_bm, (new_BUEntry CN)\<lparr>bu_caddr := 0x7001\<rparr>]) q3
        = Inr (demo_node MN 0x1802 [demo_bm, (new_BUEntry CN)\<lparr>bu_caddr := 0x7001\<rparr>], [Send d])
    \<and> d = (demo_bu 0 0x7001)\<lparr>daddr := 0x1802\<rparr>"
proof -
  let ?bh = "(new_BUEntry MN)\<lparr>bu_addr := 0x4001, bu_haddr := 0x2005, bu_caddr := 0x1801\<rparr>"
  let ?p = "(demo_bu 0 0x7001)\<lparr>daddr := 0x2005\<rparr>"
  have "\<exists>q1 q2 q3 d.
      tunneling demo_net (demo_node MN_HA 0x2001 [?bh]) (add_tunnel ?p)
        = Inr (demo_node MN_HA 0x2001 [?bh], [Send q1]) \<and> daddr q1 = bu_addr ?bh
    \<and> tunneling demo_net (demo_node MR_HA 0x4001 [demo_br]) q1
        = Inr (demo_node MR_HA 0x4001 [demo_br], [Send q2]) \<and> daddr q2 = bu_caddr demo_br
    \<and> tunneling demo_net (demo_node MR 0x1800 [demo_be, (new_BUEntry MN)\<lparr>bu_addr := 0x1801\<rparr>]) q2
        = Inr (demo_node MR 0x1800 [demo_be, (new_BUEntry MN)\<lparr>bu_addr := 0x1801\<rparr>], [SendVia 2 q3])
    \<and> daddr q3 = bu_caddr ?bh
    \<and> tunneling demo_net (demo_node MN 0x1802 [demo_bm, (new_BUEntry CN)\<lparr>bu_caddr := 0x7001\<rparr>]) q3
        = Inr (demo_node MN 0x1802 [demo_bm, (new_BUEntry CN)\<lparr>bu_caddr := 0x7001\<rparr>], [Send d])
    \<and> daddr d = here_addr (demo_node MN 0x1802 [demo_bm, (new_BUEntry CN)\<lparr>bu_caddr := 0x7001\<rparr>])
    \<and> d = ?p\<lparr>daddr := here_addr (demo_node MN 0x1802 [demo_bm, (new_BUEntry CN)\<lparr>bu_caddr := 0x7001\<rparr>])\<rparr>"
    by (rule data_delivery_path [where be = "(new_BUEntry MN)\<lparr>bu_addr := 0x1801\<rparr>" and bm = demo_bm
          and bc = "(new_BUEntry CN)\<lparr>bu_caddr := 0x7001\<rparr>" and a = 0])
      (simp_all add: demo_path_defs prefix_of_def net_mask_def iface_address_def)
  then show ?thesis by (simp add: demo_node_def demo_defs) blast
qed

section \<open>Moving to another home agent\<close>

lemma prefix_lookup_register_MR:
  assumes "find (\<lambda>e. bu_prefix e = pfx) es = Some e" "bu_haddr e \<noteq> h" "distinct (map bu_haddr es)" "pfx \<noteq> np"
  shows "find (\<lambda>e. bu_prefix e = pfx) (register_MR np h c es) = Some e"
proof -
  have f: "first_ptr (\<lambda>e. bu_prefix e = pfx) es = first_ptr (\<lambda>x. bu_haddr x = bu_haddr e) es"
    using assms(3,1) by (rule first_ptr_unique)
  show ?thesis
  proof (cases "first_ptr (\<lambda>x. bu_haddr x = h) es")
    case None
    then show ?thesis using assms
      by (simp add: register_MR_def find_or_insert_def update_entry_haddr_caddr_def del: first_ptr_None)
  next
    case (Some r)
    have "first_ptr (\<lambda>x. bu_haddr x = bu_haddr e) es \<noteq> Some r"
      using first_ptr_SomeD [OF Some] assms(2) by (auto dest!: first_ptr_SomeD)
    with Some f assms(1) show ?thesis
      by (simp add: register_MR_def find_or_insert_def find_upd_at)
  qed
qed

lemma rehome_table:
  assumes "get_entry_by_prefix rh pfx = Some b" "bu_haddr b = nh_haddr (nh p)" "distinct (map bu_haddr (bulist rh))"
    "nh_coa (nh p) \<noteq> nh_haddr (nh p)" "nh_nemo_prefix (nh p) \<noteq> pfx"
  shows "\<exists>rh'. mr_ha_rehome rh p = Inr (rh', []) 
    \<and> get_entry_by_prefix rh' pfx = Some (b\<lparr>bu_caddr := nh_coa (nh p)\<rparr>)
    \<and> bindings rh' = (bindings rh)(nh_haddr (nh p) \<mapsto> nh_coa (nh p), nh_coa (nh p) \<mapsto> saddr p)
    \<and> here_addr rh' = here_addr rh \<and> node_type rh' = node_type rh \<and> here_port rh' = here_port rh"
proof -
  let ?h = "nh_haddr (nh p)" and ?c = "nh_coa (nh p)" and ?es = "bulist rh"
  have b: "find (\<lambda>e. bu_prefix e = pfx) ?es = Some b" using assms(1) by (simp add: bu_lookup_defs)
  then have "b \<in> set ?es" by (auto dest: find_SomeD)
  then obtain r where r: "first_ptr (\<lambda>e. bu_haddr e = ?h) ?es = Some r"
    using assms(2) by (metis (mono_tags, lifting) first_ptr_None not_None_eq)
  have fp: "first_ptr (\<lambda>e. bu_prefix e = pfx) ?es = Some r"
    using first_ptr_unique [OF assms(3) b] r assms(2) by simp
  define s1 where "s1 = bu_write r (bu_caddr_update (\<lambda>_. ?c)) rh"
  define q where "q = p\<lparr>nh := (nh p)\<lparr>nh_haddr := ?c, nh_coa := saddr p\<rparr>\<rparr>"
  have m: "mr_ha_rehome rh p = Inr (registration q MR s1, [])"
    using r by (simp add: mr_ha_rehome_def get_entry_by_haddr_ptr_def s1_def q_def)
  have b1: "find (\<lambda>e. bu_prefix e = pfx) (bulist s1) = Some (b\<lparr>bu_caddr := ?c\<rparr>)"
    using fp b by (simp add: s1_def bu_write_def find_upd_at)
  have d1: "distinct (map bu_haddr (bulist s1))"
    using assms(3) by (simp add: s1_def bu_write_def map_upd_at)
  have "find (\<lambda>e. bu_prefix e = pfx) (bulist (registration q MR s1)) = Some (b\<lparr>bu_caddr := ?c\<rparr>)"
    using prefix_lookup_register_MR [OF b1, of ?c "nh_nemo_prefix (nh p)"] d1 assms(2,4,5)
    by (simp add: registration_def q_def)
  moreover have "bindings s1 = (bindings rh)(?h \<mapsto> ?c)"
    using r unfolding s1_def bindings_def bu_write_def by (simp add: resolve_upd_first)
  then have "bindings (registration q MR s1) = (bindings rh)(?h \<mapsto> ?c, ?c \<mapsto> saddr p)"
    by (simp add: bindings_registration q_def)
  ultimately show ?thesis
    using m by (intro exI [of _ "registration q MR s1"]) (simp add: bu_lookup_defs s1_def bu_write_def)
qed


lemma re_homing_packet:
  assumes "exp_mr mr = 0" "mip_exp mr = 4" "get_mr_ha_entry_by_iface_ptr n mr i = Some rb"
      "entry_at (bulist mr) rb = Some brk" "get_mr_ha_entry_without_iface n mr i = Some new"
      "get_entry_by_type_ptr mr MN = Some rm" "bu_eface new = Some a"
  shows "\<exists>mr' p. re_homing n mr i = Inr (mr', [SendVia a ((add_tunnel p)\<lparr>saddr := bu_caddr new,
      daddr := bu_addr brk, dport := here_port mr\<rparr>)]) \<and> nh_type (nh p) = REHOME
    \<and> nh_haddr (nh p) = bu_haddr brk \<and> nh_coa (nh p) = bu_haddr new \<and> nh_nemo_prefix (nh p) = 0
    \<and> saddr p = bu_addr new"
proof -
  define p where "p = (allocpkt mr)\<lparr>dport := here_port mr, ptype := PT_NEMO,
       psize := IPv6_HEADER_SIZE + BU_SIZE, daddr := bu_addr brk,
       nh := zero_nemo\<lparr>nh_coa := bu_haddr new, nh_haddr := bu_haddr brk, nh_H := ON, nh_A := ON, nh_type := REHOME\<rparr>,
       saddr := bu_addr new\<rparr>"
  have "\<exists>mr'. re_homing n mr i = Inr (mr', [SendVia a ((add_tunnel p)\<lparr>saddr := bu_caddr new,
      daddr := bu_addr brk, dport := here_port mr\<rparr>)])"
    using assms by (simp add: re_homing_def re_homing_interfaces_def Let_def bu_at_def bu_write_def p_def allocpkt_def)
  then show ?thesis by (force simp: p_def zero_nemo_def)
qed



end
