(* ===== verification/Sip_State.thy ===== *)
theory Sip_State
  imports Nemo Bindings
begin

text \<open>
  The state of \<^verbatim>\<open>UdpmysipAgent\<close> (nist-2/sip/udp-mysip.h): the table of SIP bindings, its lookups
  and \<^verbatim>\<open>registration\<close>.
\<close>

section \<open>Entries\<close>

datatype SipNodeType = SIP_MN | SIP_MN_HA | SIP_MR | SIP_MR_HA | SIP_CN | SIP_MR_BS

record SIPEntry =
  se_type :: SipNodeType
  se_addr_id :: addr
  se_addr :: addr
  se_url_id :: addr
  se_url :: addr
  se_con_id :: addr
  se_con :: addr
  se_prefix :: addr
  se_eface :: "nemo_ref option"
  se_iface :: "nemo_ref option"

definition new_SIPEntry :: "SipNodeType \<Rightarrow> SIPEntry" where
  "new_SIPEntry t = \<lparr>se_type = t, se_addr_id = - 1, se_addr = - 1, se_url_id = - 1, se_url = - 1,
     se_con_id = - 1, se_con = - 1, se_prefix = - 1, se_eface = None, se_iface = None\<rparr>"

definition cn_init_entry :: "addr \<Rightarrow> addr \<Rightarrow> addr \<Rightarrow> addr \<Rightarrow> SIPEntry \<Rightarrow> SIPEntry" where
  "cn_init_entry ai a ui u e = e\<lparr>se_addr_id := ai, se_addr := a, se_url_id := ui, se_url := u\<rparr>"

definition mn_init_entry ::
  "addr \<Rightarrow> addr \<Rightarrow> addr \<Rightarrow> addr \<Rightarrow> nemo_ref option \<Rightarrow> SIPEntry \<Rightarrow> SIPEntry" where
  "mn_init_entry ai a ui u ef e =
     e\<lparr>se_addr_id := ai, se_addr := a, se_url_id := ui, se_url := u, se_eface := ef\<rparr>"

definition mr_init_entry ::
  "addr \<Rightarrow> addr \<Rightarrow> addr \<Rightarrow> addr \<Rightarrow> addr \<Rightarrow> nemo_ref option \<Rightarrow> nemo_ref option \<Rightarrow> SIPEntry \<Rightarrow> SIPEntry"
where
  "mr_init_entry ai a ui u pfx ef nf e =
     e\<lparr>se_addr_id := ai, se_addr := a, se_url_id := ui, se_url := u, se_prefix := pfx,
       se_eface := ef, se_iface := nf\<rparr>"

definition sip_update_entry :: "addr \<Rightarrow> addr \<Rightarrow> addr \<Rightarrow> addr \<Rightarrow> SIPEntry \<Rightarrow> SIPEntry" where
  "sip_update_entry ui u ci c e =
     e\<lparr>se_url_id := ui, se_url := u, se_con_id := ci, se_con := c\<rparr>"

definition sip_set_mface :: "addr \<Rightarrow> nemo_ref option \<Rightarrow> SIPEntry \<Rightarrow> SIPEntry" where
  "sip_set_mface pfx nf e = e\<lparr>se_prefix := pfx, se_iface := nf\<rparr>"

section \<open>The agent\<close>

text \<open>
  \<open>rng\<close> is the sequence of values of the calls to \<^verbatim>\<open>Random::random()\<close> (the generator is
  reseeded heuristically, so nothing is assumed of them) and \<open>rng_pos\<close> the number of calls
  made so far.
\<close>

record udpmysip = agent +
  sip_node_type :: SipNodeType
  siplist :: "SIPEntry list"
  sel_mode :: int
  support_mm :: int
  session_run :: int
  flag :: int
  new_addr :: addr
  asm_seq :: int
  asm_rbytes :: int
  asm_tbytes :: int
  round_count :: "32 word"
  weight_count :: nat
  weight_count2 :: nat
  sip_mr_bs_daddr :: addr
  sip_exp_mr :: int
  agent_cip :: addr
  agent_cport :: addr
  rtp_count :: int
  has_app :: bool
  rng :: "nat \<Rightarrow> nat"
  rng_pos :: nat

definition se_at :: "udpmysip \<Rightarrow> ptr \<Rightarrow> SIPEntry option" where
  "se_at s r = entry_at (siplist s) r"

definition se_write :: "ptr \<Rightarrow> (SIPEntry \<Rightarrow> SIPEntry) \<Rightarrow> udpmysip \<Rightarrow> udpmysip" where
  "se_write r f s = s\<lparr>siplist := upd_at r f (siplist s)\<rparr>"

definition se_insert :: "SIPEntry \<Rightarrow> udpmysip \<Rightarrow> udpmysip" where
  "se_insert e s = s\<lparr>siplist := e # siplist s\<rparr>"

definition se_find :: "(SIPEntry \<Rightarrow> bool) \<Rightarrow> udpmysip \<Rightarrow> SIPEntry option" where
  "se_find P s = lookup_entry P (siplist s)"

abbreviation set_con :: "addr \<Rightarrow> SIPEntry \<Rightarrow> SIPEntry" where
  "set_con c \<equiv> se_con_update (\<lambda>_. c)"

section \<open>Lookups\<close>

definition sip_get_entry_by_url_id :: "udpmysip \<Rightarrow> addr \<Rightarrow> SIPEntry option" where
  "sip_get_entry_by_url_id s u = se_find (\<lambda>e. se_url_id e = u) s"

definition sip_get_entry_by_url_id_ptr :: "udpmysip \<Rightarrow> addr \<Rightarrow> ptr option" where
  "sip_get_entry_by_url_id_ptr s u = first_ptr (\<lambda>e. se_url_id e = u) (siplist s)"

definition sip_get_entry_by_url :: "udpmysip \<Rightarrow> addr \<Rightarrow> SIPEntry option" where
  "sip_get_entry_by_url s u = se_find (\<lambda>e. se_url e = u) s"

definition sip_get_entry_by_prefix :: "udpmysip \<Rightarrow> addr \<Rightarrow> SIPEntry option" where
  "sip_get_entry_by_prefix s pfx = se_find (\<lambda>e. se_prefix e = pfx) s"

definition sip_eface_is :: "net \<Rightarrow> node_ref \<Rightarrow> SIPEntry \<Rightarrow> bool" where
  "sip_eface_is n i e =
     (case se_eface e of None \<Rightarrow> False | Some a \<Rightarrow> nemo_iface (nemos n a) = Some i)"

definition sip_eface_is_not :: "net \<Rightarrow> node_ref \<Rightarrow> SIPEntry \<Rightarrow> bool" where
  "sip_eface_is_not n i e =
     (case se_eface e of None \<Rightarrow> False | Some a \<Rightarrow> nemo_iface (nemos n a) \<noteq> Some i)"

definition sip_get_entry_by_iface_ptr :: "net \<Rightarrow> udpmysip \<Rightarrow> node_ref \<Rightarrow> ptr option" where
  "sip_get_entry_by_iface_ptr n s i = first_ptr (sip_eface_is n i) (siplist s)"

definition sip_get_entry_without_iface :: "net \<Rightarrow> udpmysip \<Rightarrow> node_ref \<Rightarrow> SIPEntry option" where
  "sip_get_entry_without_iface n s i = se_find (sip_eface_is_not n i) s"

definition sip_get_entry_by_type :: "udpmysip \<Rightarrow> SipNodeType \<Rightarrow> SIPEntry option" where
  "sip_get_entry_by_type s t = se_find (\<lambda>e. se_type e = t) s"

definition sip_get_entry_by_type_ptr :: "udpmysip \<Rightarrow> SipNodeType \<Rightarrow> ptr option" where
  "sip_get_entry_by_type_ptr s t = first_ptr (\<lambda>e. se_type e = t) (siplist s)"

definition sip_get_iface_agent_by_prefix :: "udpmysip \<Rightarrow> addr \<Rightarrow> nemo_ref option" where
  "sip_get_iface_agent_by_prefix s pfx = Option.bind (se_find (\<lambda>e. se_prefix e = pfx) s) se_iface"

definition sip_get_mr_ha_entry_by_caddr :: "udpmysip \<Rightarrow> addr \<Rightarrow> SIPEntry option" where
  "sip_get_mr_ha_entry_by_caddr s c = se_find (\<lambda>e. se_type e = SIP_MR_HA \<and> se_con e = c) s"

definition get_mn_entry_by_url_id :: "udpmysip \<Rightarrow> addr \<Rightarrow> SIPEntry option" where
  "get_mn_entry_by_url_id s u = se_find (\<lambda>e. se_type e = SIP_MN \<and> se_url_id e = u) s"

definition get_cn_entry_by_url_id :: "udpmysip \<Rightarrow> addr \<Rightarrow> SIPEntry option" where
  "get_cn_entry_by_url_id s u = se_find (\<lambda>e. se_type e = SIP_CN \<and> se_url_id e = u) s"

definition get_cn_entry_by_url_id_ptr :: "udpmysip \<Rightarrow> addr \<Rightarrow> ptr option" where
  "get_cn_entry_by_url_id_ptr s u = first_ptr (\<lambda>e. se_type e = SIP_CN \<and> se_url_id e = u) (siplist s)"

definition sip_get_mr_entry_by_prefix_ptr :: "udpmysip \<Rightarrow> addr \<Rightarrow> ptr option" where
  "sip_get_mr_entry_by_prefix_ptr s pfx =
     first_ptr (\<lambda>e. se_type e = SIP_MR \<and> se_prefix e = pfx) (siplist s)"

definition sip_get_mr_entry :: "udpmysip \<Rightarrow> SIPEntry option" where
  "sip_get_mr_entry s = se_find (\<lambda>e. se_type e = SIP_MR) s"

definition get_mn_ha_entry :: "udpmysip \<Rightarrow> SIPEntry option" where
  "get_mn_ha_entry s = se_find (\<lambda>e. se_type e = SIP_MN_HA) s"

definition sip_get_mr_ha_entry_by_prefix :: "udpmysip \<Rightarrow> addr \<Rightarrow> SIPEntry option" where
  "sip_get_mr_ha_entry_by_prefix s pfx = se_find (\<lambda>e. se_type e = SIP_MR_HA \<and> se_prefix e = pfx) s"

definition get_mr_ha_entry_active :: "udpmysip \<Rightarrow> SIPEntry option" where
  "get_mr_ha_entry_active s = se_find (\<lambda>e. se_type e = SIP_MR_HA \<and> se_con e \<noteq> - 1) s"

lemmas se_lookup_defs = sip_get_entry_by_url_id_def sip_get_entry_by_url_id_ptr_def
  sip_get_entry_by_url_def sip_get_entry_by_prefix_def sip_get_entry_by_iface_ptr_def
  sip_get_entry_without_iface_def sip_get_entry_by_type_def sip_get_entry_by_type_ptr_def
  sip_get_iface_agent_by_prefix_def sip_get_mr_ha_entry_by_caddr_def get_mn_entry_by_url_id_def
  get_cn_entry_by_url_id_def get_cn_entry_by_url_id_ptr_def sip_get_mr_entry_by_prefix_ptr_def
  sip_get_mr_entry_def get_mn_ha_entry_def sip_get_mr_ha_entry_by_prefix_def
  get_mr_ha_entry_active_def se_find_def lookup_entry_find

section \<open>Registration\<close>

text \<open>
  The home agents and the router look the binding up by the contact id of the message but
  create it with the URL id of its sender; both are \<open>k\<close> in every registration that the
  agents send.
\<close>

definition sip_register_MR ::
  "addr \<Rightarrow> addr \<Rightarrow> addr \<Rightarrow> addr \<Rightarrow> SIPEntry list \<Rightarrow> SIPEntry list" where
  "sip_register_MR fi f ci c es =
     (let (r, es') = find_or_insert (\<lambda>e. se_url_id e = ci)
            (sip_update_entry fi f ci c (new_SIPEntry SIP_MR)) es
      in upd_at r (set_con c) es')"

definition sip_register_MN ::
  "addr \<Rightarrow> addr \<Rightarrow> addr \<Rightarrow> addr \<Rightarrow> SIPEntry list \<Rightarrow> SIPEntry list" where
  "sip_register_MN fi f ci c es =
     (let (r, es') = find_or_insert (\<lambda>e. se_url_id e = ci)
            ((sip_update_entry fi f ci c (new_SIPEntry SIP_MN))\<lparr>se_addr_id := ci, se_addr := c\<rparr>) es
      in upd_at r (set_con c) es')"

definition sip_register_CN ::
  "addr \<Rightarrow> addr \<Rightarrow> addr \<Rightarrow> addr \<Rightarrow> SIPEntry list \<Rightarrow> SIPEntry list" where
  "sip_register_CN fi f ci c es =
     (let (r, es') = find_or_insert (\<lambda>e. se_url_id e = fi)
            (sip_update_entry fi f ci c (new_SIPEntry SIP_CN)) es
      in upd_at r (set_con c) es')"

definition sip_registration :: "packet \<Rightarrow> SipNodeType \<Rightarrow> udpmysip \<Rightarrow> udpmysip" where
  "sip_registration p t s =
     (let m = mh p
      in case t of
           SIP_MR \<Rightarrow> s\<lparr>siplist := sip_register_MR (From_id m) (From m) (contact_id m) (contact m) (siplist s)\<rparr>
         | SIP_MN \<Rightarrow> s\<lparr>siplist := sip_register_MN (From_id m) (From m) (contact_id m) (contact m) (siplist s)\<rparr>
         | SIP_CN \<Rightarrow> s\<lparr>siplist := sip_register_CN (From_id m) (From m) (contact_id m) (contact m) (siplist s)\<rparr>
         | _ \<Rightarrow> s)"

text \<open>The location service of an agent: URL id to contact address.\<close>

definition contacts :: "udpmysip \<Rightarrow> addr \<Rightarrow> addr option" where
  "contacts s = resolve se_url_id se_con (siplist s)"

interpretation sip_mr: unique_binding_table se_url_id se_con
  "\<lambda>f k v. sip_register_MR k f k v"
proof unfold_locales
  show "resolve se_url_id se_con (sip_register_MR k x k v es) = (resolve se_url_id se_con es)(k \<mapsto> v)"
    for x k v es
    by (auto simp: sip_register_MR_def sip_update_entry_def split: prod.splits
        intro!: resolve_find_or_insert)
  show "distinct (map se_url_id (sip_register_MR k x k v es))" if "distinct (map se_url_id es)"
    for x k v es
    using that by (auto simp: sip_register_MR_def sip_update_entry_def split: prod.splits
        intro!: distinct_find_or_insert)
qed

interpretation sip_mn: unique_binding_table se_url_id se_con
  "\<lambda>f k v. sip_register_MN k f k v"
proof unfold_locales
  show "resolve se_url_id se_con (sip_register_MN k x k v es) = (resolve se_url_id se_con es)(k \<mapsto> v)"
    for x k v es
    by (auto simp: sip_register_MN_def sip_update_entry_def split: prod.splits
        intro!: resolve_find_or_insert)
  show "distinct (map se_url_id (sip_register_MN k x k v es))" if "distinct (map se_url_id es)"
    for x k v es
    using that by (auto simp: sip_register_MN_def sip_update_entry_def split: prod.splits
        intro!: distinct_find_or_insert)
qed

interpretation sip_cn: unique_binding_table se_url_id se_con
  "\<lambda>x k v. sip_register_CN k (fst x) (snd x) v"
proof unfold_locales
  show "resolve se_url_id se_con (sip_register_CN k (fst x) (snd x) v es)
      = (resolve se_url_id se_con es)(k \<mapsto> v)" for x k v es
    by (auto simp: sip_register_CN_def sip_update_entry_def split: prod.splits
        intro!: resolve_find_or_insert)
  show "distinct (map se_url_id (sip_register_CN k (fst x) (snd x) v es))"
    if "distinct (map se_url_id es)" for x k v es
    using that by (auto simp: sip_register_CN_def sip_update_entry_def split: prod.splits
        intro!: distinct_find_or_insert)
qed

lemma contacts_registration:
  assumes "t = SIP_CN \<or> (t \<in> {SIP_MR, SIP_MN} \<and> From_id (mh p) = contact_id (mh p))"
  shows "contacts (sip_registration p t s) = (contacts s)(From_id (mh p) \<mapsto> contact (mh p))"
  using assms sip_cn.resolve_reg [of "From_id (mh p)" "(From (mh p), contact_id (mh p))"]
  by (auto simp: contacts_def sip_registration_def Let_def sip_mr.resolve_reg sip_mn.resolve_reg)

end
