(* ===== verification/Sip_Select.thy ===== *)
theory Sip_Select
  imports Sip_State
begin

text \<open>
  The policies by which a multihomed mobile router spreads its mobile nodes over its home
  agents (nist-2/sip/udp-mysip.cc): random, round robin and two weighted ones. Each chooses a
  home agent for a new node, moves the nodes of a lost care-of address to the remaining ones
  and moves nodes to a care-of address that becomes available. A vector of entries is the
  list of pointers to them.
\<close>

section \<open>Candidates\<close>

definition is_active :: "SIPEntry \<Rightarrow> bool" where
  "is_active e \<longleftrightarrow> se_type e = SIP_MR_HA \<and> se_con e \<noteq> - 1"

definition active_ptrs :: "udpmysip \<Rightarrow> ptr list" where
  "active_ptrs s = all_ptrs is_active (siplist s)"

definition active_cons :: "udpmysip \<Rightarrow> addr list" where
  "active_cons s = map se_con (filter is_active (siplist s))"

definition mn_ptrs :: "udpmysip \<Rightarrow> ptr list" where
  "mn_ptrs s = all_ptrs (\<lambda>e. se_type e = SIP_MN) (siplist s)"

definition mn_ptrs_at :: "udpmysip \<Rightarrow> addr \<Rightarrow> ptr list" where
  "mn_ptrs_at s c = all_ptrs (\<lambda>e. se_type e = SIP_MN \<and> se_con e = c) (siplist s)"

text \<open>\<^verbatim>\<open>Random::random()\<close>\<close>

definition draw :: "udpmysip \<Rightarrow> nat \<times> udpmysip" where
  "draw s = (rng s (rng_pos s), s\<lparr>rng_pos := Suc (rng_pos s)\<rparr>)"

section \<open>Choosing a home agent\<close>

definition get_mr_ha_entry_random :: "udpmysip \<Rightarrow> (ptr \<times> udpmysip) res" where
  "get_mr_ha_entry_random s =
     (let rs = active_ptrs s; (k, s') = draw s
      in check DivByZero (rs \<noteq> []) (Inr (rs ! (k mod length rs), s')))"

text \<open>
  An int counter as an index modulo a size: the counter wraps at its width, and a negative one is extended by its sign to the 64 bits of \<^verbatim>\<open>size_t\<close>.
\<close>

definition int_index :: "32 word \<Rightarrow> nat \<Rightarrow> nat" where
  "int_index k n = unat (scast k :: 64 word) mod n"

definition get_mr_ha_entry_round_robin :: "udpmysip \<Rightarrow> (ptr \<times> udpmysip) res" where
  "get_mr_ha_entry_round_robin s =
     (let rs = active_ptrs s; k = round_count s
      in check DivByZero (rs \<noteq> [])
           (Inr (rs ! int_index k (length rs), s\<lparr>round_count := k + 1\<rparr>)))"

definition get_mr_ha_entry_weight :: "udpmysip \<Rightarrow> (ptr \<times> udpmysip) res" where
  "get_mr_ha_entry_weight s =
     (let rs = active_ptrs s
      in if length rs = 1 then Inr (rs ! 0, s)
         else check OutOfRange (1 < length rs) (Inr (rs ! 1, s)))"

definition get_mr_ha_entry_weight_2 :: "udpmysip \<Rightarrow> (ptr \<times> udpmysip) res" where
  "get_mr_ha_entry_weight_2 s =
     (let rs = active_ptrs s
      in if length rs = 1 then Inr (rs ! 0, s)
         else if weight_count s = 0 then
           check OutOfRange (rs \<noteq> []) (Inr (rs ! 0, s\<lparr>weight_count := Suc (weight_count s)\<rparr>))
         else check OutOfRange (1 < length rs) (Inr (rs ! 1, s)))"

section \<open>Leaving a care-of address\<close>

fun rehome_random_loop :: "addr list \<Rightarrow> ptr list \<Rightarrow> udpmysip \<Rightarrow> udpmysip" where
  "rehome_random_loop cs [] s = s"
| "rehome_random_loop cs (r # rs) s =
     (if cs = [] then rehome_random_loop cs rs (se_write r (set_con (- 1)) s)
      else (let (k, s') = draw s
            in rehome_random_loop cs rs (se_write r (set_con (cs ! (k mod length cs))) s')))"

definition rehome_mn_coa_entry_random :: "udpmysip \<Rightarrow> addr \<Rightarrow> ptr list \<times> udpmysip" where
  "rehome_mn_coa_entry_random s c =
     (mn_ptrs_at s c, rehome_random_loop (active_cons s) (mn_ptrs_at s c) s)"

fun rehome_round_robin_loop :: "addr list \<Rightarrow> ptr list \<Rightarrow> udpmysip \<Rightarrow> udpmysip" where
  "rehome_round_robin_loop cs [] s = s"
| "rehome_round_robin_loop cs (r # rs) s =
     (if cs = [] then rehome_round_robin_loop cs rs (se_write r (set_con (- 1)) s)
      else rehome_round_robin_loop cs rs
             ((se_write r (set_con (cs ! int_index (round_count s) (length cs))) s)
                \<lparr>round_count := round_count s + 1\<rparr>))"

definition rehome_mn_coa_entry_round_robin :: "udpmysip \<Rightarrow> addr \<Rightarrow> ptr list \<times> udpmysip" where
  "rehome_mn_coa_entry_round_robin s c =
     (mn_ptrs_at s c, rehome_round_robin_loop (active_cons s) (mn_ptrs_at s c) s)"

definition rehome_mn_coa_entry_weight :: "udpmysip \<Rightarrow> addr \<Rightarrow> ptr list \<times> udpmysip" where
  "rehome_mn_coa_entry_weight s c =
     (let cs = active_cons s; v = (if cs = [] then - 1 else cs ! 0)
      in (mn_ptrs_at s c, fold (\<lambda>r. se_write r (set_con v)) (mn_ptrs_at s c) s))"

fun rehome_weight_2_loop :: "addr list \<Rightarrow> ptr list \<Rightarrow> udpmysip \<Rightarrow> udpmysip res" where
  "rehome_weight_2_loop cs [] s = Inr s"
| "rehome_weight_2_loop cs (r # rs) s =
     (let s' = s\<lparr>weight_count2 := Suc (weight_count2 s)\<rparr>
      in if cs = [] then rehome_weight_2_loop cs rs (se_write r (set_con (- 1)) s')
         else if weight_count2 s = 0 then
           check OutOfRange (1 < length cs)
             (rehome_weight_2_loop cs rs (se_write r (set_con (cs ! 1)) s'))
         else rehome_weight_2_loop cs rs (se_write r (set_con (cs ! 0)) s'))"

definition rehome_mn_coa_entry_weight_2 :: "udpmysip \<Rightarrow> addr \<Rightarrow> (ptr list \<times> udpmysip) res" where
  "rehome_mn_coa_entry_weight_2 s c =
     bind_res (rehome_weight_2_loop (active_cons s) (mn_ptrs_at s c) s)
       (\<lambda>s'. Inr (mn_ptrs_at s c, s'))"

section \<open>Joining a care-of address\<close>

fun renew_random_loop :: "addr \<Rightarrow> ptr list \<Rightarrow> nat \<Rightarrow> udpmysip \<Rightarrow> udpmysip" where
  "renew_random_loop c mn 0 s = s"
| "renew_random_loop c mn (Suc j) s =
     (let (k, s') = draw s
      in renew_random_loop c mn j (se_write (mn ! (k mod length mn)) (set_con c) s'))"

definition renew_mn_coa_entry_random :: "udpmysip \<Rightarrow> addr \<Rightarrow> ptr list \<times> udpmysip" where
  "renew_mn_coa_entry_random s c =
     (let mn = mn_ptrs s
      in if mn = [] then (mn, s)
         else (let (k, s') = draw s
               in (mn, renew_random_loop c mn (k mod length mn) s')))"

text \<open>The local variables of the balancing loop of \<^verbatim>\<open>renew_mn_coa_entry_round_robin\<close>.\<close>

record renew_vars =
  v_new :: int
  v_old1_addr :: addr
  v_old2_addr :: addr
  v_old1 :: int
  v_old2 :: int

definition renew_rr_step ::
  "addr \<Rightarrow> nat \<Rightarrow> addr \<Rightarrow> renew_vars \<Rightarrow> bool \<times> renew_vars" where
  "renew_rr_step c i con v =
     (if i = 0 then
        (True, v\<lparr>v_old1_addr := con, v_old1 := v_old1 v + 1, v_new := v_new v + 1\<rparr>)
      else if con \<noteq> v_old1_addr v then
        (if v_old2_addr v = 0 then
           (True, v\<lparr>v_old2_addr := con, v_old2 := v_old2 v + 1, v_new := v_new v + 1\<rparr>)
         else if v_old2 v \<le> v_new v then (False, v\<lparr>v_old2 := v_old2 v + 1\<rparr>)
         else (True, v\<lparr>v_new := v_new v + 1\<rparr>))
      else if v_old1 v \<le> v_new v then (False, v\<lparr>v_old1 := v_old1 v + 1\<rparr>)
      else (True, v\<lparr>v_new := v_new v + 1\<rparr>))"

fun renew_rr_loop :: "addr \<Rightarrow> nat \<Rightarrow> ptr list \<Rightarrow> renew_vars \<Rightarrow> udpmysip \<Rightarrow> udpmysip res" where
  "renew_rr_loop c i [] v s = Inr s"
| "renew_rr_loop c i (r # rs) v s =
     need NullPtr (se_at s r) (\<lambda>e.
       let (move, v') = renew_rr_step c i (se_con e) v
       in renew_rr_loop c (Suc i) rs v' (if move then se_write r (set_con c) s else s))"

definition renew_mn_coa_entry_round_robin :: "udpmysip \<Rightarrow> addr \<Rightarrow> (ptr list \<times> udpmysip) res" where
  "renew_mn_coa_entry_round_robin s c =
     bind_res (renew_rr_loop c 0 (mn_ptrs s)
         \<lparr>v_new = 0, v_old1_addr = 0, v_old2_addr = 0, v_old1 = 0, v_old2 = 0\<rparr> s)
       (\<lambda>s'. Inr (mn_ptrs s, s'))"

definition renew_mn_coa_entry_weight :: "udpmysip \<Rightarrow> addr \<Rightarrow> ptr list \<times> udpmysip" where
  "renew_mn_coa_entry_weight s c =
     (mn_ptrs s, fold (\<lambda>r. se_write r (set_con c)) (mn_ptrs s) s)"

fun renew_weight_2_loop :: "addr \<Rightarrow> nat \<Rightarrow> ptr list \<Rightarrow> udpmysip \<Rightarrow> udpmysip" where
  "renew_weight_2_loop c i [] s = s"
| "renew_weight_2_loop c i (r # rs) s =
     renew_weight_2_loop c (Suc i) rs (if i = 2 then s else se_write r (set_con c) s)"

definition renew_mn_coa_entry_weight_2 :: "udpmysip \<Rightarrow> addr \<Rightarrow> ptr list \<times> udpmysip" where
  "renew_mn_coa_entry_weight_2 s c = (mn_ptrs s, renew_weight_2_loop c 0 (mn_ptrs s) s)"

section \<open>Dispatch on the configured policy\<close>

text \<open>\<^verbatim>\<open>select_\<close> in the registration path of \<^verbatim>\<open>recv\<close>; without a policy the prefix decides.\<close>

definition select_mr_ha :: "udpmysip \<Rightarrow> addr \<Rightarrow> (ptr option \<times> udpmysip) res" where
  "select_mr_ha s pfx =
     (let some = (\<lambda>(r, s'). Inr (Some r, s'))
      in if sel_mode s = 1 then bind_res (get_mr_ha_entry_random s) some
         else if sel_mode s = 2 then bind_res (get_mr_ha_entry_round_robin s) some
         else if sel_mode s = 3 then bind_res (get_mr_ha_entry_weight s) some
         else if sel_mode s = 4 then bind_res (get_mr_ha_entry_weight_2 s) some
         else Inr (first_ptr (\<lambda>e. se_type e = SIP_MR_HA \<and> se_prefix e = pfx) (siplist s), s))"

definition rehome_select :: "udpmysip \<Rightarrow> addr \<Rightarrow> udpmysip res" where
  "rehome_select s c =
     (if sel_mode s = 1 then Inr (snd (rehome_mn_coa_entry_random s c))
      else if sel_mode s = 2 then Inr (snd (rehome_mn_coa_entry_round_robin s c))
      else if sel_mode s = 3 then Inr (snd (rehome_mn_coa_entry_weight s c))
      else bind_res (rehome_mn_coa_entry_weight_2 s c) (\<lambda>(_, s'). Inr s'))"

definition renew_select :: "udpmysip \<Rightarrow> addr \<Rightarrow> udpmysip res" where
  "renew_select s c =
     (if sel_mode s = 1 then Inr (snd (renew_mn_coa_entry_random s c))
      else if sel_mode s = 2 then
        bind_res (renew_mn_coa_entry_round_robin s c) (\<lambda>(_, s'). Inr s')
      else if sel_mode s = 3 then Inr (snd (renew_mn_coa_entry_weight s c))
      else if sel_mode s = 4 then Inr (snd (renew_mn_coa_entry_weight_2 s c))
      else Inr s)"

end
