(* ===== verification/Sip_Send.thy ===== *)
theory Sip_Send
  imports Sip_Select Mip6_Tunnel
begin

text \<open>
  The messages that \<^verbatim>\<open>UdpmysipAgent\<close> originates or answers with (nist-2/sip/udp-mysip.cc):
  registrations, redirections, re-invitations and referrals, the handling of lost interfaces and
  of neighbour routers, and the configuration commands. \<open>m\<close> is the MIPv6 agent that \<^verbatim>\<open>mipv6_\<close>
  points to. Debug output (\<^verbatim>\<open>dump\<close>, \<^verbatim>\<open>show_sipheader\<close>, the arguments of \<^verbatim>\<open>debug\<close>) is left out; it
  assumes that every NEMO agent is connected to its node.
\<close>

type_synonym sip_result = "(udpmysip \<times> action list) res"

section \<open>Packets\<close>

text \<open>The header fields that every message of the agent starts from.\<close>

definition sip_msg :: "time \<Rightarrow> int \<Rightarrow> hdr_mysip" where
  "sip_msg now k =
     zero_mysip\<lparr>ack := 1, mtime := now, seq := - 2, nbytes := 200, mmethod := k, cport := 3\<rparr>"

definition sip_packet :: "udpmysip \<Rightarrow> hdr_mysip \<Rightarrow> addr \<Rightarrow> addr \<Rightarrow> packet" where
  "sip_packet s h sa da = (allocpkt s)\<lparr>
     mh := h, saddr := sa, daddr := da, dport := here_port s, psize := 200\<rparr>"

text \<open>\<^verbatim>\<open>allocpkt()\<close> with the IP and the SIP header of \<open>p\<close> copied into it; not its tunnels.\<close>

definition fresh_copy :: "udpmysip \<Rightarrow> packet \<Rightarrow> packet" where
  "fresh_copy s p = (allocpkt s)\<lparr>
     saddr := saddr p, sport := sport p, daddr := daddr p, dport := dport p, prio := prio p,
     mh := mh p, psize := psize p\<rparr>"

definition sip_via_mr_bs :: "udpmysip \<Rightarrow> mip6 option \<Rightarrow> packet \<Rightarrow> packet res" where
  "sip_via_mr_bs s m p =
     (if sip_mr_bs_daddr s \<noteq> - 1 then
        need NullPtr m (\<lambda>mip. Inr ((add_tunnel p)\<lparr>daddr := sip_mr_bs_daddr s, dport := here_port mip\<rparr>))
      else Inr p)"

text \<open>\<^verbatim>\<open>e->eface()->send(p,0)\<close> and \<^verbatim>\<open>e->iface()->send(p,0)\<close>\<close>

definition via_eface :: "SIPEntry \<Rightarrow> packet \<Rightarrow> action list res" where
  "via_eface e p = need NullPtr (se_eface e) (\<lambda>a. Inr [SendVia a p])"

definition via_iface :: "SIPEntry \<Rightarrow> packet \<Rightarrow> action list res" where
  "via_iface e p = need NullPtr (se_iface e) (\<lambda>a. Inr [SendVia a p])"

section \<open>Registration\<close>

definition reg_hdr :: "time \<Rightarrow> SIPEntry \<Rightarrow> addr \<Rightarrow> hdr_mysip" where
  "reg_hdr now sip c = (sip_msg now 5)\<lparr>
     requestURL := se_addr sip, requestURL_id := se_addr_id sip,
     From_id := se_url_id sip, From := se_url sip, To_id := se_url_id sip, To := se_url sip,
     contact_id := se_url_id sip, contact := c\<rparr>"

definition send_reg_msg_fixed :: "time \<Rightarrow> udpmysip \<Rightarrow> sip_result" where
  "send_reg_msg_fixed now s =
     need AssertFail (sip_get_entry_by_type s SIP_MN_HA) (\<lambda>sip.
       Inr (s, [Send (sip_packet s (reg_hdr now sip (here_addr s)) (here_addr s) (se_addr sip))]))"

definition send_reg_msg ::
  "time \<Rightarrow> net \<Rightarrow> mip6 option \<Rightarrow> udpmysip \<Rightarrow> addr \<Rightarrow> node_ref \<Rightarrow> sip_result" where
  "send_reg_msg now n m s pfx i =
     need AssertFail (sip_get_entry_by_iface_ptr n s i) (\<lambda>r.
       let s1 = se_write r (set_con (node_addr n i)) s
       in need NullPtr (se_at s1 r) (\<lambda>sip.
         let p = sip_packet s1 (reg_hdr now sip (node_addr n i)) (node_addr n i) (se_addr sip)
         in if sip_node_type s1 = SIP_MR then
              bind_res (renew_select s1 (node_addr n i)) (\<lambda>s2. Inr (s2, [Schedule i p (1 / 10)]))
            else
              bind_res (sip_via_mr_bs s1 m (p\<lparr>daddr := pfx\<rparr>)) (\<lambda>q.
              bind_res (via_eface sip q) (\<lambda>out. Inr (s1, out)))))"

text \<open>\<^verbatim>\<open>process_new_prefix\<close>: the node takes an address of the prefix and registers it.\<close>

definition sip_process_new_prefix ::
  "time \<Rightarrow> net \<Rightarrow> mip6 option \<Rightarrow> udpmysip \<Rightarrow> addr \<Rightarrow> (net \<times> udpmysip \<times> action list) res" where
  "sip_process_new_prefix now n m s pfx =
     need NullPtr (get_mn_ha_entry s) (\<lambda>bu.
     need NullPtr m (\<lambda>mip.
     need NullPtr (Option.bind (se_eface bu) (\<lambda>a. nemo_iface (nemos n a))) (\<lambda>i.
       bind_res (compute_new_address n mip pfx i) (\<lambda>(na, n').
       bind_res (send_reg_msg now n' m (s\<lparr>here_addr := na\<rparr>) pfx i) (\<lambda>(s', out).
         Inr (n', s', out))))))"

section \<open>Redirection\<close>

text \<open>
  \<^verbatim>\<open>send_temp_move_pkt\<close>: the answer 302 of a home agent to an invitation. The packet in hand is
  changed too and is returned.
\<close>

definition temp_move :: "udpmysip \<Rightarrow> packet \<Rightarrow> addr \<Rightarrow> addr \<Rightarrow> packet" where
  "temp_move s p ci c = p\<lparr>daddr := contact (mh p), dport := here_port s,
     mh := (mh p)\<lparr>mmethod := 6, contact_id := ci, contact := c\<rparr>\<rparr>"

definition send_temp_move_pkt :: "udpmysip \<Rightarrow> packet \<Rightarrow> (packet \<times> action list) res" where
  "send_temp_move_pkt s p =
     bind_res
       (case sip_get_entry_by_url_id s (requestURL_id (mh p)) of
          None \<Rightarrow> need NullPtr (sip_get_entry_by_type s SIP_MR) (\<lambda>bu.
                    Inr (temp_move s p (requestURL_id (mh p)) (se_con bu)))
        | Some bu \<Rightarrow> Inr (temp_move s p (se_con_id bu) (se_con bu)))
       (\<lambda>p1. Inr (p1, [Send (fresh_copy s p1)]))"

text \<open>\<^verbatim>\<open>send_invite_to_temp_move_pkt\<close>: the invitation is sent again, to the contact of the answer.\<close>

definition reinvite :: "udpmysip \<Rightarrow> packet \<Rightarrow> SIPEntry \<Rightarrow> addr \<Rightarrow> packet" where
  "reinvite s p bu da = (fresh_copy s p)\<lparr>
     daddr := da, dport := here_port s, saddr := se_con bu, psize := 120,
     mh := (mh p)\<lparr>mmethod := 0, requestURL_id := contact_id (mh p), requestURL := contact (mh p),
       contact_id := se_url_id bu, contact := se_con bu\<rparr>\<rparr>"

definition send_invite_to_temp_move_pkt ::
  "mip6 option \<Rightarrow> udpmysip \<Rightarrow> packet \<Rightarrow> (packet \<times> action list) res" where
  "send_invite_to_temp_move_pkt m s p =
     (let h = mh p
      in case sip_node_type s of
           SIP_MN \<Rightarrow>
             need AssertFail (sip_get_entry_by_type s SIP_MN_HA) (\<lambda>bu.
             bind_res (sip_via_mr_bs s m (reinvite s p bu (prefix_of (se_con bu)))) (\<lambda>q.
             bind_res (via_eface bu q) (\<lambda>out. Inr (p, out))))
         | SIP_MR \<Rightarrow>
             need NullPtr (get_mn_entry_by_url_id s (From_id h)) (\<lambda>bu.
             need NullPtr (sip_get_mr_ha_entry_by_prefix s (prefix_of (se_addr bu))) (\<lambda>ha.
             bind_res (via_eface ha (reinvite s p bu (contact h))) (\<lambda>out. Inr (p, out))))
         | _ \<Rightarrow>
             (let p1 = p\<lparr>daddr := contact h, dport := here_port s,
                    mh := h\<lparr>mmethod := 0, requestURL_id := contact_id h, requestURL := contact h,
                      contact_id := From_id h, contact := From h\<rparr>\<rparr>
              in Inr (p1, [Send p1])))"

section \<open>Lost interfaces and neighbour routers\<close>

definition send_refer_to_mn :: "time \<Rightarrow> mip6 option \<Rightarrow> udpmysip \<Rightarrow> action list res" where
  "send_refer_to_mn now m s =
     need NullPtr (sip_get_entry_by_type s SIP_CN) (\<lambda>cn.
     need NullPtr (sip_get_entry_by_type s SIP_MN) (\<lambda>mn.
     need NullPtr (sip_get_mr_entry s) (\<lambda>mr.
       let p = sip_packet s ((sip_msg now 11)\<lparr>
             requestURL := se_con cn, requestURL_id := se_con_id cn,
             From_id := se_addr_id mn, From := se_addr mn, To_id := se_con_id cn, To := se_con cn,
             contact_id := se_addr_id mn, contact := se_addr mn, refer := se_addr mr\<rparr>)
             (se_addr mr) (se_addr mn)
       in bind_res (sip_via_mr_bs s m p) (\<lambda>q.
          need NullPtr (sip_get_mr_ha_entry_by_prefix s (prefix_of (se_addr mn))) (\<lambda>bu.
            via_iface bu q)))))"

definition send_refer_to_mr :: "time \<Rightarrow> udpmysip \<Rightarrow> action list res" where
  "send_refer_to_mr now s =
     need NullPtr (sip_get_entry_by_type s SIP_MN) (\<lambda>mn.
     need NullPtr (sip_get_entry_by_type s SIP_CN) (\<lambda>cn.
     need NullPtr (sip_get_mr_entry s) (\<lambda>mr.
       let p = sip_packet s ((sip_msg now 11)\<lparr>
             requestURL := se_addr mn, requestURL_id := se_addr_id mn,
             From_id := se_url_id cn, From := se_url cn, To_id := se_url_id mn, To := se_url mn,
             contact_id := se_con_id cn, contact := se_con cn, refer := se_addr mr\<rparr>)
             (se_prefix mr) (se_addr mr)
       in need NullPtr (sip_get_mr_ha_entry_by_prefix s (prefix_of (se_addr mn))) (\<lambda>bu.
            via_iface bu p))))"

text \<open>\<^verbatim>\<open>re_homing\<close> under a selection policy: nodes move to the other home agents, silently.\<close>

definition re_homing_select :: "net \<Rightarrow> udpmysip \<Rightarrow> node_ref \<Rightarrow> sip_result" where
  "re_homing_select n s i =
     need AssertFail (sip_get_entry_by_iface_ptr n s i) (\<lambda>r_break.
     need AssertFail (sip_get_entry_without_iface n s i) (\<lambda>_.
     need NullPtr (se_at s r_break) (\<lambda>bu_break.
       bind_res (rehome_select (se_write r_break (set_con (- 1)) s) (se_con bu_break)) (\<lambda>s'.
         Inr (s', [])))))"

definition re_homing_mr :: "time \<Rightarrow> net \<Rightarrow> mip6 option \<Rightarrow> udpmysip \<Rightarrow> node_ref \<Rightarrow> sip_result" where
  "re_homing_mr now n m s i =
     need AssertFail (sip_get_entry_by_iface_ptr n s i) (\<lambda>r_break.
     need AssertFail (sip_get_entry_by_type_ptr s SIP_MN) (\<lambda>r_mn.
       let s1 = se_write r_mn (set_con (- 1)) (se_write r_break (set_con (- 1)) s)
       in bind_res (send_refer_to_mn now m s1) (\<lambda>out1.
          bind_res (send_refer_to_mr now s1) (\<lambda>out2. Inr (s1, out1 @ out2)))))"

definition rehome_ha_packet :: "time \<Rightarrow> udpmysip \<Rightarrow> SIPEntry \<Rightarrow> addr \<Rightarrow> packet" where
  "rehome_ha_packet now s brk c = sip_packet s ((sip_msg now 9)\<lparr>
     requestURL := se_addr brk, requestURL_id := se_addr_id brk,
     From_id := se_url_id brk, From := se_url brk, To_id := se_url_id brk, To := se_url brk,
     contact_id := se_url_id brk, contact := c\<rparr>) c (se_addr brk)"

definition rehome_cn_packet :: "time \<Rightarrow> udpmysip \<Rightarrow> SIPEntry \<Rightarrow> SIPEntry \<Rightarrow> packet" where
  "rehome_cn_packet now s cn mn = sip_packet s ((sip_msg now 9)\<lparr>
     requestURL := se_con cn, requestURL_id := se_con_id cn,
     From_id := se_url_id mn, From := se_url mn, To_id := se_url_id cn, To := se_url cn,
     contact_id := se_con_id mn, contact := se_con mn\<rparr>) (se_con mn) (se_con cn)"

definition re_homing_iface :: "time \<Rightarrow> net \<Rightarrow> udpmysip \<Rightarrow> node_ref \<Rightarrow> sip_result" where
  "re_homing_iface now n s i =
     need AssertFail (sip_get_entry_by_iface_ptr n s i) (\<lambda>r_break.
     need AssertFail (first_ptr (sip_eface_is_not n i) (siplist s)) (\<lambda>r_new.
     need AssertFail (sip_get_entry_by_type_ptr s SIP_MN) (\<lambda>r_mn.
       let s1 = se_write r_break (set_con (- 1)) s
       in need NullPtr (se_at s1 r_new) (\<lambda>new1.
         let s2 = se_write r_mn (set_con (se_con new1)) s1
         in need NullPtr (se_at s2 r_break) (\<lambda>brk.
            need NullPtr (se_at s2 r_new) (\<lambda>bu_new.
            need NullPtr (se_at s2 r_mn) (\<lambda>mn.
            bind_res (via_eface bu_new (rehome_ha_packet now s2 brk (se_con bu_new))) (\<lambda>out1.
              case sip_get_entry_by_type s2 SIP_CN of
                None \<Rightarrow> Inr (s2, out1)
              | Some cn \<Rightarrow>
                  bind_res (via_eface bu_new (rehome_cn_packet now s2 cn mn)) (\<lambda>out2.
                    Inr (s2, out1 @ out2))))))))))"

definition sip_re_homing :: "time \<Rightarrow> net \<Rightarrow> mip6 option \<Rightarrow> udpmysip \<Rightarrow> node_ref \<Rightarrow> sip_result" where
  "sip_re_homing now n m s i =
     (if sel_mode s \<in> {1, 2, 3, 4} then re_homing_select n s i
      else if sip_exp_mr s \<noteq> 0 then re_homing_mr now n m s i
      else re_homing_iface now n s i)"

definition sip_process_mr :: "net \<Rightarrow> udpmysip \<Rightarrow> addr \<Rightarrow> node_ref \<Rightarrow> sip_result" where
  "sip_process_mr n s pfx i =
     (case sip_get_mr_entry_by_prefix_ptr s (node_addr n i) of
        None \<Rightarrow>
          Inr (se_insert ((new_SIPEntry SIP_MR)\<lparr>se_addr := pfx, se_prefix := node_addr n i\<rparr>) s, [])
      | Some r \<Rightarrow>
          (let s1 = se_write r (se_addr_update (\<lambda>_. pfx)) s
           in need NullPtr (se_at s1 r) (\<lambda>bu.
             Inr (s1, case se_iface bu of
                        None \<Rightarrow> []
                      | Some a \<Rightarrow>
                          [SendVia a (sip_packet s1 (zero_mysip\<lparr>mmethod := 10\<rparr>) (node_addr n i) pfx)]))))"

section \<open>Re-invitations and referrals\<close>

definition reinvite_cn :: "udpmysip \<Rightarrow> packet \<Rightarrow> addr \<Rightarrow> action list res" where
  "reinvite_cn s p da =
     need AssertFail (get_mr_ha_entry_active s) (\<lambda>bu.
       via_eface bu (sip_packet s ((mh p)\<lparr>mmethod := 12, contact := se_con bu\<rparr>) (se_con bu) da))"

definition mr_send_reinvite_to_cn :: "udpmysip \<Rightarrow> packet \<Rightarrow> action list res" where
  "mr_send_reinvite_to_cn s p = reinvite_cn s p (contact (mh p))"

definition mr_recv_refer_send_reinvite_to_cn :: "udpmysip \<Rightarrow> packet \<Rightarrow> sip_result" where
  "mr_recv_refer_send_reinvite_to_cn s p =
     (let h = mh p;
          s1 = se_insert (sip_update_entry (To_id h) (To h) (requestURL_id h) (requestURL h)
                 (new_SIPEntry SIP_CN)) s
      in bind_res (reinvite_cn s1 p (requestURL h)) (\<lambda>out. Inr (s1, out)))"

definition sip_mn_send_bu_cn :: "time \<Rightarrow> mip6 option \<Rightarrow> udpmysip \<Rightarrow> action list res" where
  "sip_mn_send_bu_cn now m s =
     (case sip_get_entry_by_type s SIP_CN of
        None \<Rightarrow> Inr []
      | Some cn \<Rightarrow>
          need NullPtr (sip_get_entry_by_type s SIP_MN_HA) (\<lambda>mn.
            let p = sip_packet s ((sip_msg now 13)\<lparr>
                  requestURL := se_url cn, requestURL_id := se_url_id cn,
                  From_id := se_url_id mn, From := se_url mn, To_id := se_url_id cn, To := se_url cn,
                  contact_id := se_con_id mn, contact := se_con mn\<rparr>)
                  (se_con mn) (prefix_of (se_con mn))
            in bind_res (sip_via_mr_bs s m p) (via_eface mn)))"

definition mn_update_binding :: "udpmysip \<Rightarrow> addr \<Rightarrow> udpmysip res" where
  "mn_update_binding s a =
     need NullPtr (sip_get_entry_by_type_ptr s SIP_MN_HA) (\<lambda>r.
       Inr (se_write r (\<lambda>e. e\<lparr>se_con_id := se_url_id e, se_con := a\<rparr>) s))"

definition mr_send_eface_refer :: "time \<Rightarrow> udpmysip \<Rightarrow> addr \<Rightarrow> action list res" where
  "mr_send_eface_refer now s da =
     need AssertFail (sip_get_entry_by_type s SIP_CN) (\<lambda>cn.
     need AssertFail (sip_get_entry_by_type s SIP_MN) (\<lambda>mn.
     need AssertFail (get_mr_ha_entry_active s) (\<lambda>ha.
       via_eface ha (sip_packet s ((sip_msg now 14)\<lparr>
         requestURL := se_con cn, requestURL_id := se_con_id cn,
         From_id := se_url_id mn, From := se_url mn, To_id := se_url_id cn, To := se_url cn,
         contact_id := se_con_id mn, contact := se_con mn\<rparr>) (se_con ha) da))))"

definition mr_ha_recv_refer_send_to_mr :: "udpmysip \<Rightarrow> packet \<Rightarrow> (packet \<times> action list) res" where
  "mr_ha_recv_refer_send_to_mr s p =
     need NullPtr (sip_get_entry_by_type s SIP_MR) (\<lambda>mr.
       Inr (p\<lparr>daddr := se_con mr\<rparr>, [Send (p\<lparr>daddr := se_con mr\<rparr>)]))"

definition sip_set_mr_bs :: "addr \<Rightarrow> udpmysip \<Rightarrow> udpmysip" where
  "sip_set_mr_bs a s = s\<lparr>sip_mr_bs_daddr := a\<rparr>"

definition info_new_addr :: "udpmysip \<Rightarrow> addr \<Rightarrow> sip_result" where
  "info_new_addr s a =
     (let s1 = s\<lparr>new_addr := a\<rparr>
      in if session_run s = 1 then check NullPtr (has_app s) (Inr (s1, [AppSendInvite]))
         else Inr (s1, []))"

section \<open>Configuration commands\<close>

datatype sip_cmd =
    Registration
  | SipSetNodeType int
  | SipSetMrBsDaddr addr
  | SendEfaceRefer addr
  | SipSetMface addr "nemo_ref option"
  | SetSipCn addr addr addr addr
  | SetSipMn addr addr addr addr "nemo_ref option"
  | SetSipMr addr addr addr addr addr "nemo_ref option" "nemo_ref option"

definition sip_node_types :: "SipNodeType list" where
  "sip_node_types = [SIP_MN, SIP_MN_HA, SIP_MR, SIP_MR_HA, SIP_CN, SIP_MR_BS]"

fun sip_command :: "time \<Rightarrow> udpmysip \<Rightarrow> sip_cmd \<Rightarrow> (udpmysip \<times> action list \<times> tcl_result) res" where
  "sip_command now s Registration =
     bind_res (send_reg_msg_fixed now s) (\<lambda>(s', out). Inr (s', out, TCL_OK))"
| "sip_command now s (SipSetNodeType k) =
     (if 0 \<le> k \<and> k < 6 then Inr (s\<lparr>sip_node_type := sip_node_types ! nat k\<rparr>, [], TCL_OK)
      else Inr (s, [], TCL_ERROR))"
| "sip_command now s (SipSetMrBsDaddr a) = Inr (s\<lparr>sip_mr_bs_daddr := a\<rparr>, [], TCL_OK)"
| "sip_command now s (SendEfaceRefer a) =
     bind_res (mr_send_eface_refer now s a) (\<lambda>out. Inr (s, out, TCL_OK))"
| "sip_command now s (SipSetMface pfx nf) =
     (if nf = None then Inr (s, [], TCL_ERROR)
      else Inr (se_insert (sip_set_mface pfx nf (new_SIPEntry SIP_MR)) s, [], TCL_OK))"
| "sip_command now s (SetSipCn ai a ui u) =
     Inr (se_insert (cn_init_entry ai a ui u (new_SIPEntry SIP_MN_HA)) s, [], TCL_OK)"
| "sip_command now s (SetSipMn ai a ui u ef) =
     (if ef = None then Inr (s, [], TCL_ERROR)
      else Inr (se_insert (mn_init_entry ai a ui u ef (new_SIPEntry SIP_MN_HA)) s, [], TCL_OK))"
| "sip_command now s (SetSipMr ai a ui u pfx ef nf) =
     (if ef = None \<and> nf = None then Inr (s, [], TCL_ERROR)
      else Inr (se_insert (mr_init_entry ai a ui u pfx ef nf (new_SIPEntry SIP_MR_HA)) s, [], TCL_OK))"

end
