(* ===== verification/Sip_Recv.thy ===== *)
theory Sip_Recv
  imports Sip_Send
begin

text \<open>
  \<^verbatim>\<open>UdpmysipAgent::recv\<close> and \<^verbatim>\<open>UdpmysipAgent::sendmsg\<close> (nist-2/sip/udp-mysip.cc). Reception has two
  phases: the handling of the SIP method by the role of the node, which may change the packet in
  hand, and its delivery to the application with re-assembly of segmented messages.
\<close>

section \<open>Handling of the SIP methods\<close>

type_synonym sip_recv_result = "(net \<times> udpmysip \<times> packet \<times> action list) res"

text \<open>\<^verbatim>\<open>get_iface_agent_by_prefix(prefix)->send(p->copy(),0); ih->prio_ = 14;\<close>\<close>

definition to_mobile_net :: "net \<Rightarrow> udpmysip \<Rightarrow> addr \<Rightarrow> packet \<Rightarrow> sip_recv_result" where
  "to_mobile_net n s pfx p =
     need NullPtr (sip_get_iface_agent_by_prefix s pfx) (\<lambda>a.
       Inr (n, s, p\<lparr>prio := 14\<rparr>, [SendVia a p]))"

subsection \<open>Mobile router\<close>

definition mr_recv_register :: "net \<Rightarrow> udpmysip \<Rightarrow> packet \<Rightarrow> sip_recv_result" where
  "mr_recv_register n s p =
     (let h = mh p;
          s1 = (case sip_get_entry_by_url_id s (contact_id h) of
                  None \<Rightarrow> sip_registration p SIP_MN s | Some _ \<Rightarrow> s)
      in bind_res (select_mr_ha s1 (prefix_of (saddr p))) (\<lambda>(ro, s2).
         need AssertFail ro (\<lambda>r.
         need NullPtr (se_at s2 r) (\<lambda>ha.
         need NullPtr (sip_get_entry_by_url_id_ptr s1 (contact_id h)) (\<lambda>r_mn.
           let s3 = se_write r_mn (set_con (se_con ha)) s2;
               p1 = p\<lparr>mh := h\<lparr>contact := se_url ha\<rparr>\<rparr>
           in bind_res (via_eface ha ((fresh_copy s3 p1)\<lparr>daddr := requestURL h\<rparr>)) (\<lambda>out.
                Inr (n, s3, p1, out)))))))"

text \<open>An invitation or data: \<^verbatim>\<open>method\<close> 0 or 7.\<close>

definition mr_recv_invite_from_cn :: "net \<Rightarrow> mip6 option \<Rightarrow> udpmysip \<Rightarrow> packet \<Rightarrow> sip_recv_result" where
  "mr_recv_invite_from_cn n m s p =
     (let s1 = (case sip_get_entry_by_url_id s (From_id (mh p)) of
                  None \<Rightarrow> sip_registration p SIP_CN s | Some _ \<Rightarrow> s)
      in need AssertFail (sip_get_entry_by_url_id s1 (To_id (mh p))) (\<lambda>bu.
         bind_res (sip_via_mr_bs s1 m (p\<lparr>daddr := se_addr bu\<rparr>)) (\<lambda>q.
           to_mobile_net n s1 (prefix_of (se_addr bu)) q)))"

definition mr_recv_invite_from_mn :: "net \<Rightarrow> udpmysip \<Rightarrow> SIPEntry \<Rightarrow> packet \<Rightarrow> sip_recv_result" where
  "mr_recv_invite_from_mn n s bu p =
     (let q = (fresh_copy s p)\<lparr>daddr := requestURL (mh p),
                mh := (mh p)\<lparr>contact := se_con bu, cip := se_con bu\<rparr>\<rparr>
      in need AssertFail (sip_get_mr_ha_entry_by_caddr s (se_con bu)) (\<lambda>ha.
         bind_res (via_eface ha q) (\<lambda>out. Inr (n, s, p\<lparr>prio := 14\<rparr>, out))))"

definition mr_recv_invite :: "net \<Rightarrow> mip6 option \<Rightarrow> udpmysip \<Rightarrow> packet \<Rightarrow> sip_recv_result" where
  "mr_recv_invite n m s p =
     (case get_mn_entry_by_url_id s (From_id (mh p)) of
        None \<Rightarrow> mr_recv_invite_from_cn n m s p
      | Some bu \<Rightarrow> mr_recv_invite_from_mn n s bu p)"

text \<open>The answer 200: \<^verbatim>\<open>method\<close> 1.\<close>

definition mr_learn_peer :: "udpmysip \<Rightarrow> hdr_mysip \<Rightarrow> udpmysip" where
  "mr_learn_peer s h =
     (let (r, es) = find_or_insert (\<lambda>e. se_url_id e = To_id h)
            (sip_update_entry (To_id h) (To h) (contact_id h) (contact h) (new_SIPEntry SIP_CN))
            (siplist s)
      in s\<lparr>siplist := upd_at r (\<lambda>e. if se_type e = SIP_CN then set_con (contact h) e else e) es\<rparr>)"

definition mr_recv_ok :: "net \<Rightarrow> mip6 option \<Rightarrow> udpmysip \<Rightarrow> packet \<Rightarrow> sip_recv_result" where
  "mr_recv_ok n m s p =
     (let h = mh p; s1 = mr_learn_peer s h
      in case get_mn_entry_by_url_id s1 (From_id h) of
           None \<Rightarrow>
             need AssertFail (get_cn_entry_by_url_id s1 (From_id h)) (\<lambda>cn.
             need NullPtr (get_mn_entry_by_url_id s1 (To_id h)) (\<lambda>mn.
             need AssertFail (sip_get_mr_ha_entry_by_caddr s1 (se_con mn)) (\<lambda>ha.
               let q = p\<lparr>daddr := se_con cn, mh := h\<lparr>contact := se_con mn, cip := se_con mn\<rparr>\<rparr>
               in bind_res (via_eface ha q) (\<lambda>out. Inr (n, s1, q\<lparr>prio := 14\<rparr>, out)))))
         | Some bu \<Rightarrow>
             bind_res (sip_via_mr_bs s1 m (p\<lparr>daddr := se_addr bu\<rparr>)) (\<lambda>q.
               to_mobile_net n s1 (prefix_of (se_addr bu)) q))"

text \<open>A peer moved: \<^verbatim>\<open>method\<close> 9, 11 and 12.\<close>

definition mr_recv_rehome :: "net \<Rightarrow> udpmysip \<Rightarrow> packet \<Rightarrow> sip_recv_result" where
  "mr_recv_rehome n s p =
     (let s1 = sip_registration p SIP_CN s
      in need NullPtr (get_mn_entry_by_url_id s1 (To_id (mh p))) (\<lambda>bu.
           to_mobile_net n s1 (prefix_of (se_addr bu)) (p\<lparr>daddr := se_addr bu\<rparr>)))"

definition mr_recv_refer :: "net \<Rightarrow> udpmysip \<Rightarrow> packet \<Rightarrow> sip_recv_result" where
  "mr_recv_refer n s p =
     (let s1 = sip_registration p SIP_CN s
      in bind_res (mr_send_reinvite_to_cn s1 p) (\<lambda>out. Inr (n, s1, p\<lparr>prio := 14\<rparr>, out)))"

definition mr_recv_reinvite :: "net \<Rightarrow> mip6 option \<Rightarrow> udpmysip \<Rightarrow> packet \<Rightarrow> sip_recv_result" where
  "mr_recv_reinvite n m s p =
     need AssertFail (get_cn_entry_by_url_id_ptr s (To_id (mh p))) (\<lambda>r_cn.
     need AssertFail (get_mn_entry_by_url_id s (From_id (mh p))) (\<lambda>mn.
       let s1 = se_write r_cn (set_con (contact (mh p))) s
       in bind_res (sip_via_mr_bs s1 m (p\<lparr>daddr := se_addr mn\<rparr>)) (\<lambda>q.
            to_mobile_net n s1 (prefix_of (se_addr mn)) q)))"

text \<open>A node announces its move to its peers: \<^verbatim>\<open>method\<close> 13.\<close>

definition mr_recv_mn_bu :: "net \<Rightarrow> udpmysip \<Rightarrow> packet \<Rightarrow> sip_recv_result" where
  "mr_recv_mn_bu n s p =
     (let h = mh p;
          s1 = (case sip_get_entry_by_url_id s (contact_id h) of
                  None \<Rightarrow> sip_registration p SIP_MN s | Some _ \<Rightarrow> s)
      in need AssertFail (get_mr_ha_entry_active s) (\<lambda>ha.
         need AssertFail (sip_get_entry_by_url_id_ptr s1 (contact_id h)) (\<lambda>r_mn.
           let s2 = se_write r_mn (set_con (se_con ha)) s1;
               q = p\<lparr>daddr := To h, mh := h\<lparr>contact := se_con ha, mmethod := 12\<rparr>\<rparr>
           in bind_res (via_eface ha q) (\<lambda>out. Inr (n, s2, q\<lparr>prio := 14\<rparr>, out)))))"

definition sip_recv_MR :: "net \<Rightarrow> mip6 option \<Rightarrow> udpmysip \<Rightarrow> packet \<Rightarrow> sip_recv_result" where
  "sip_recv_MR n m s p =
     (let k = mmethod (mh p)
      in if k = 5 then mr_recv_register n s p
         else if k = 0 \<or> k = 7 then mr_recv_invite n m s p
         else if k = 1 then mr_recv_ok n m s p
         else if k = 9 then mr_recv_rehome n s p
         else if k = 10 then Inr (n, s, p, [])
         else if k = 11 then mr_recv_refer n s p
         else if k = 6 then
           bind_res (send_invite_to_temp_move_pkt m s p) (\<lambda>(p1, out). Inr (n, s, p1\<lparr>prio := 14\<rparr>, out))
         else if k = 12 then mr_recv_reinvite n m s p
         else if k = 13 then mr_recv_mn_bu n s p
         else if k = 14 then
           bind_res (mr_recv_refer_send_reinvite_to_cn s p) (\<lambda>(s1, out).
             Inr (n, s1, p\<lparr>prio := 14\<rparr>, out))
         else Inr (n, s, p, []))"

subsection \<open>Home agents\<close>

text \<open>
  The tests of the method are consecutive, not alternatives; the only handler that changes the
  method makes it 6, which no later test matches.
\<close>

definition sip_recv_MR_HA :: "net \<Rightarrow> udpmysip \<Rightarrow> packet \<Rightarrow> sip_recv_result" where
  "sip_recv_MR_HA n s p =
     (let k = mmethod (mh p)
      in if k = 5 then
           Inr (n, if daddr p = here_addr s then sip_registration p SIP_MR s else s, p, [])
         else if k = 0 then
           bind_res (send_temp_move_pkt s p) (\<lambda>(p1, out). Inr (n, s, p1\<lparr>prio := 14\<rparr>, out))
         else if k = 9 then Inr (n, sip_registration p SIP_MR s, p\<lparr>prio := 14\<rparr>, [])
         else if k = 14 then
           bind_res (mr_ha_recv_refer_send_to_mr s p) (\<lambda>(p1, out). Inr (n, s, p1\<lparr>prio := 14\<rparr>, out))
         else Inr (n, s, p, []))"

definition sip_recv_MN_HA :: "net \<Rightarrow> udpmysip \<Rightarrow> packet \<Rightarrow> sip_recv_result" where
  "sip_recv_MN_HA n s p =
     (let k = mmethod (mh p)
      in if k = 5 then Inr (n, sip_registration p SIP_MN s, p, [])
         else if k = 0 then
           bind_res (send_temp_move_pkt s p) (\<lambda>(p1, out). Inr (n, s, p1\<lparr>prio := 14\<rparr>, out))
         else Inr (n, s, p, []))"

subsection \<open>End nodes\<close>

text \<open>\<^verbatim>\<open>hdrc->size()-=20\<close>\<close>

definition shrink :: "packet \<Rightarrow> packet" where
  "shrink p = p\<lparr>psize := psize p - 20\<rparr>"

definition mn_learn_cn :: "udpmysip \<Rightarrow> hdr_mysip \<Rightarrow> udpmysip" where
  "mn_learn_cn s h =
     (case sip_get_entry_by_url_id s (From_id h) of
        None \<Rightarrow> se_insert (sip_update_entry (From_id h) (From h) (contact_id h) (contact h)
                  (new_SIPEntry SIP_CN)) s
      | Some _ \<Rightarrow> s)"

definition sip_recv_MN :: "time \<Rightarrow> net \<Rightarrow> mip6 option \<Rightarrow> udpmysip \<Rightarrow> packet \<Rightarrow> sip_recv_result" where
  "sip_recv_MN now n m s p =
     (let k = mmethod (mh p)
      in if k = 0 then Inr (n, mn_learn_cn s (mh p), shrink p, [])
         else if k = 1 \<or> k = 7 then Inr (n, s, shrink p, [])
         else if k = 6 then
           bind_res (send_invite_to_temp_move_pkt m s (shrink p)) (\<lambda>(p1, out).
             Inr (n, s, p1\<lparr>prio := 14\<rparr>, out))
         else if k = 9 \<or> k = 12 then Inr (n, s, (shrink p)\<lparr>prio := 15\<rparr>, [])
         else if k = 11 then
           bind_res (sip_process_new_prefix now n m s (refer (mh p))) (\<lambda>(n', s', out).
             Inr (n', s', p\<lparr>prio := 14\<rparr>, out))
         else Inr (n, s, p, []))"

definition sip_recv_CN :: "net \<Rightarrow> mip6 option \<Rightarrow> udpmysip \<Rightarrow> packet \<Rightarrow> sip_recv_result" where
  "sip_recv_CN n m s p =
     (let k = mmethod (mh p)
      in if k = 0 \<or> k = 1 \<or> k = 7 then Inr (n, s, shrink p, [])
         else if k = 6 then
           bind_res (send_invite_to_temp_move_pkt m s p) (\<lambda>(p1, out). Inr (n, s, p1\<lparr>prio := 14\<rparr>, out))
         else if k = 9 \<or> k = 12 then Inr (n, s, (shrink p)\<lparr>prio := 15\<rparr>, [])
         else Inr (n, s, p, []))"

definition sip_recv_method :: "time \<Rightarrow> net \<Rightarrow> mip6 option \<Rightarrow> udpmysip \<Rightarrow> packet \<Rightarrow> sip_recv_result" where
  "sip_recv_method now n m s p =
     (case sip_node_type s of
        SIP_MR \<Rightarrow> sip_recv_MR n m s p
      | SIP_MR_HA \<Rightarrow> sip_recv_MR_HA n s p
      | SIP_MN_HA \<Rightarrow> sip_recv_MN_HA n s p
      | SIP_MN \<Rightarrow> sip_recv_MN now n m s p
      | SIP_CN \<Rightarrow> sip_recv_CN n m s p
      | SIP_MR_BS \<Rightarrow> Inr (n, s, p, []))"

section \<open>Delivery and re-assembly\<close>

definition reassemble :: "udpmysip \<Rightarrow> packet \<Rightarrow> udpmysip \<times> action list" where
  "reassemble s p =
     (let h = mh p;
          s1 = (if ack h \<noteq> 0 \<and> (mmethod h = 0 \<or> mmethod h = 1)
                then s\<lparr>agent_cip := cip h, agent_cport := cport h\<rparr> else s);
          s2 = (if seq h = asm_seq s1 then s1\<lparr>asm_rbytes := asm_rbytes s1 + psize p\<rparr>
                else if ack h \<noteq> 0 then s1\<lparr>asm_tbytes := nbytes h, asm_rbytes := psize p\<rparr>
                else s1\<lparr>asm_seq := seq h, asm_tbytes := nbytes h, asm_rbytes := psize p\<rparr>)
      in (s2, if asm_tbytes s2 = asm_rbytes s2 then [AppRecvMsg (nbytes h) h] else []))"

definition sip_deliver :: "udpmysip \<Rightarrow> packet \<Rightarrow> int \<Rightarrow> udpmysip \<times> action list" where
  "sip_deliver s p bytes_to_deliver =
     (if prio p = 15 then
        (let s1 = s\<lparr>session_run := 1\<rparr> in if has_app s then reassemble s1 p else (s1, []))
      else (s, if has_app s then [AppRecv bytes_to_deliver] else []))"

definition sip_recv ::
  "time \<Rightarrow> net \<Rightarrow> mip6 option \<Rightarrow> udpmysip \<Rightarrow> packet \<Rightarrow> (net \<times> udpmysip \<times> action list) res" where
  "sip_recv now n m s p =
     bind_res (sip_recv_method now n m s p) (\<lambda>(n', s1, p1, out).
       let (s2, out') = sip_deliver s1 p1 (psize p) in Inr (n', s2, out @ out'))"

section \<open>Segmentation\<close>

text \<open>
  The \<^verbatim>\<open>flags\<close> argument of \<^verbatim>\<open>sendmsg\<close>: nothing, the buffer of a SIP header or the mark of a talk
  spurt. The bytes of a header never spell that mark.
\<close>

datatype msg_flags = NoFlags | SipFlags hdr_mysip | NewBurst

definition RTP_M :: int where "RTP_M = 0x80"

text \<open>The header of one segment, of size \<open>sz\<close>.\<close>

definition segment :: "net \<Rightarrow> udpmysip \<Rightarrow> msg_flags \<Rightarrow> int \<Rightarrow> packet res" where
  "segment n s fl sz =
     (let p = (allocpkt s)\<lparr>psize := sz, rtp_flags := (if fl = NewBurst then RTP_M else 0),
                rtp_seqno := rtp_count s + 1\<rparr>
      in if support_mm s = 0 then Inr p
         else case fl of
           NoFlags \<Rightarrow> Inl NullPtr
         | NewBurst \<Rightarrow> Inl OutOfRange
         | SipFlags h \<Rightarrow>
             bind_res (get_nodeaddr (layout n) (requestURL h)) (\<lambda>da.
             bind_res (get_nodeaddr (layout n) (if ack h = 0 then agent_cport s else cport h)) (\<lambda>dp.
               Inr (p\<lparr>prio := 15, mh := h, daddr := da, saddr := here_addr s, dport := dp\<rparr>))))"

text \<open>
  Transmission of one segment. A mobile node sends it on its interface, to the router of its
  prefix; the other nodes hand it to their MIPv6 agent when they have one.
\<close>

definition send_segment ::
  "net \<Rightarrow> udpmysip \<Rightarrow> mip6 option \<Rightarrow> packet \<Rightarrow> (udpmysip \<times> mip6 option \<times> action list) res" where
  "send_segment n s m p =
     (if sip_node_type s = SIP_MN then
        bind_res (sip_via_mr_bs s m (p\<lparr>daddr := prefix_of (saddr p), dport := here_port s\<rparr>)) (\<lambda>q.
        need AssertFail (sip_get_entry_by_type s SIP_MN_HA) (\<lambda>bu.
        bind_res (via_eface bu q) (\<lambda>out. Inr (s\<lparr>flag := 1\<rparr>, m, out))))
      else if flag s = 1 then
        (case m of
           Some mip \<Rightarrow>
             bind_res (tunneling n mip p) (\<lambda>(mip', out). Inr (s\<lparr>flag := 1\<rparr>, Some mip', map ByMip out))
         | None \<Rightarrow> Inr (s\<lparr>flag := 1\<rparr>, None, [Send p]))
      else Inr (s\<lparr>flag := 1\<rparr>, m, []))"

text \<open>\<^verbatim>\<open>while (n-- > 0)\<close>; \<open>k\<close> is the value of \<^verbatim>\<open>n\<close> before the test.\<close>

fun sendmsg_loop ::
  "net \<Rightarrow> msg_flags \<Rightarrow> int \<Rightarrow> nat \<Rightarrow> udpmysip \<Rightarrow> mip6 option
     \<Rightarrow> (udpmysip \<times> mip6 option \<times> action list) res" where
  "sendmsg_loop n fl remain 0 s m = Inr (s, m, [])"
| "sendmsg_loop n fl remain (Suc k) s m =
     bind_res (segment n s fl (if k = 0 \<and> remain > 0 then remain else ag_size s)) (\<lambda>p.
     bind_res (send_segment n (s\<lparr>rtp_count := rtp_count s + 1\<rparr>) m p) (\<lambda>(s1, m1, out).
     bind_res (sendmsg_loop n fl remain k s1 m1) (\<lambda>(s2, m2, out').
       Inr (s2, m2, out @ out'))))"

definition sendmsg ::
  "net \<Rightarrow> udpmysip \<Rightarrow> mip6 option \<Rightarrow> int \<Rightarrow> msg_flags
     \<Rightarrow> (udpmysip \<times> mip6 option \<times> action list) res" where
  "sendmsg n s m nb fl =
     (if nb = - 1 then Inr (s, m, [])
      else check Uninitialised (ag_size s \<noteq> 0)
        (let segs = c_div nb (ag_size s) + (if c_mod nb (ag_size s) \<noteq> 0 then 1 else 0)
         in bind_res (sendmsg_loop n fl (c_mod nb (ag_size s)) (nat segs) s m) (\<lambda>(s', m', out).
              Inr (s', m', out @ (if has_app s' then [AppResume] else [])))))"

end
