(* ===== verification/Mysip_App.thy ===== *)
theory Mysip_App
  imports Sip_Recv
begin

text \<open>
  The SIP application \<^verbatim>\<open>mysipApp\<close> (nist-2/sip/mysip-app.cc): the session set-up (INVITE, 200 OK,
  ACK), the SIP server role (REGISTER and the URL table, 302), the media packets and the receiver's
  accounting. Its agent is the \<^verbatim>\<open>UdpmysipAgent\<close> \<open>ag\<close>, whose MIPv6 agent is \<open>m\<close>; sending goes
  through \<^const>\<open>sendmsg\<close>. The log files are not modelled. A message is built in a buffer on the
  stack, whose unset fields are those of \<open>g\<close>.
\<close>

section \<open>State\<close>

record pkt_accounting =
  last_seq :: int
  last_scale :: int
  lost_pkts :: int
  recv_pkts :: int
  rtt :: time
  last_arrival_time :: time
  total_lost_pkts :: int

record URLIPtable =
  url_id :: addr
  url :: addr
  IP :: addr
  Port :: addr

text \<open>
  The timers that the code never starts (\<^verbatim>\<open>AckTimer\<close>, \<^verbatim>\<open>OKTimer\<close>, \<^verbatim>\<open>InviteTimer\<close>) are left out;
  \<open>snd_timer\<close> is the expiry of the running \<^verbatim>\<open>SendTimer\<close>. \<open>handofftime\<close> is an array of 30 doubles.
\<close>

record mysipApp =
  url_head :: "URLIPtable list"
  rate :: "real list"
  interval :: real
  pktsize :: int
  running :: int
  app_seq :: int
  app_scale :: int
  p_accnt :: pkt_accounting
  snd_timer :: "time option"
  app_CSeq :: int
  contact_dst_addr :: addr
  invite_stop :: int
  m200ok_stop :: int
  ack_stop :: int
  myID :: addr
  myURL :: addr
  toID :: addr
  toURL :: addr
  handofftime :: "real list"
  handoffnum :: int
  first_seq_time :: time

type_synonym app_result = "(mysipApp \<times> udpmysip \<times> mip6 option \<times> action list) res"

section \<open>The URL table\<close>

definition add_url :: "addr \<times> addr \<Rightarrow> addr \<Rightarrow> addr \<Rightarrow> URLIPtable list \<Rightarrow> URLIPtable list" where
  "add_url x k v es = \<lparr>url_id = k, url = fst x, IP = v, Port = snd x\<rparr> # es"

definition add_urllist :: "mysipApp \<Rightarrow> addr \<Rightarrow> addr \<Rightarrow> addr \<Rightarrow> addr \<Rightarrow> mysipApp" where
  "add_urllist a ui u ad po = a\<lparr>url_head := add_url (u, po) ui ad (url_head a)\<rparr>"

definition lookup_table :: "URLIPtable list \<Rightarrow> addr \<Rightarrow> URLIPtable option" where
  "lookup_table es ui = lookup_entry (\<lambda>e. url_id e = ui) es"

interpretation url_tab: binding_table url_id IP add_url
  by unfold_locales (auto simp: add_url_def resolve_Cons fun_eq_iff)

section \<open>Sending\<close>

text \<open>Handing a header to the agent; the application record is not touched by it.\<close>

definition app_send ::
  "net \<Rightarrow> mysipApp \<Rightarrow> udpmysip \<Rightarrow> mip6 option \<Rightarrow> int \<Rightarrow> hdr_mysip \<Rightarrow> app_result" where
  "app_send n a ag m nb h =
     bind_res (sendmsg n ag m nb (SipFlags h)) (\<lambda>(ag', m', out). Inr (a, ag', m', out))"

text \<open>\<^verbatim>\<open>if( CSeq_ == 1 ) agent_->new_addr = agent_->addr();\<close>\<close>

definition first_request :: "mysipApp \<Rightarrow> udpmysip \<Rightarrow> udpmysip" where
  "first_request a ag = (if app_CSeq a = 1 then ag\<lparr>new_addr := here_addr ag\<rparr> else ag)"

abbreviation next_CSeq :: "mysipApp \<Rightarrow> mysipApp" where
  "next_CSeq a \<equiv> a\<lparr>app_CSeq := app_CSeq a + 1\<rparr>"

definition invite_hdr :: "time \<Rightarrow> hdr_mysip \<Rightarrow> mysipApp \<Rightarrow> udpmysip \<Rightarrow> hdr_mysip" where
  "invite_hdr now g a ag = g\<lparr>ack := 1, mtime := now, seq := - 2, nbytes := 120,
     scale := last_scale (p_accnt a), mmethod := 0,
     From_id := myID a, From := myURL a, To_id := toID a, To := toURL a, CSeq := app_CSeq a,
     contact_id := myID a, contact := new_addr ag,
     requestURL_id := toID a, requestURL := contact_dst_addr a, cip := new_addr ag, cport := 3\<rparr>"

definition send_invite_pkt ::
  "time \<Rightarrow> net \<Rightarrow> hdr_mysip \<Rightarrow> mysipApp \<Rightarrow> udpmysip \<Rightarrow> mip6 option \<Rightarrow> app_result" where
  "send_invite_pkt now n g a ag m =
     (let ag1 = first_request a ag
      in app_send n (next_CSeq a) ag1 m 120 (invite_hdr now g a ag1))"

definition adjust_scale :: "pkt_accounting \<Rightarrow> pkt_accounting" where
  "adjust_scale pa =
     (let pa1 = (if recv_pkts pa > 0 then
                   (if lost_pkts pa > 0 then pa\<lparr>last_scale := c_div (last_scale pa) 2\<rparr>
                    else pa\<lparr>last_scale := (if last_scale pa + 1 > 4 then 4 else last_scale pa + 1)\<rparr>)
                 else pa)
      in pa1\<lparr>recv_pkts := 0, lost_pkts := 0\<rparr>)"

text \<open>The answers are built from the header in hand, to which \<^verbatim>\<open>last_siph\<close> points: \<open>h\<close>.\<close>

definition ok_hdr :: "time \<Rightarrow> hdr_mysip \<Rightarrow> mysipApp \<Rightarrow> udpmysip \<Rightarrow> hdr_mysip" where
  "ok_hdr now h a ag = h\<lparr>ack := 1, mtime := now, seq := - 2, nbytes := 80,
     scale := last_scale (p_accnt a), mmethod := 1, CSeq := app_CSeq a,
     contact_id := myID a, contact := new_addr ag, requestURL := contact_dst_addr a,
     cip := new_addr ag, cport := 3\<rparr>"

definition send_200ok_pkt ::
  "time \<Rightarrow> net \<Rightarrow> hdr_mysip \<Rightarrow> mysipApp \<Rightarrow> udpmysip \<Rightarrow> mip6 option \<Rightarrow> app_result" where
  "send_200ok_pkt now n h a ag m =
     (let a1 = a\<lparr>p_accnt := adjust_scale (p_accnt a)\<rparr>; ag1 = first_request a1 ag
      in app_send n (next_CSeq a1) ag1 m 80 (ok_hdr now h a1 ag1))"

definition ack_hdr :: "time \<Rightarrow> hdr_mysip \<Rightarrow> mysipApp \<Rightarrow> udpmysip \<Rightarrow> hdr_mysip" where
  "ack_hdr now h a ag = h\<lparr>ack := 1, mtime := now, seq := - 2, nbytes := 40,
     scale := last_scale (p_accnt a), mmethod := 2, From := here_addr ag, To := dst_addr ag,
     CSeq := app_CSeq a, contact := new_addr ag, requestURL := contact_dst_addr a\<rparr>"

definition send_ack_for_200ok_pkt ::
  "time \<Rightarrow> net \<Rightarrow> hdr_mysip \<Rightarrow> mysipApp \<Rightarrow> udpmysip \<Rightarrow> mip6 option \<Rightarrow> app_result" where
  "send_ack_for_200ok_pkt now n h a ag m = app_send n (next_CSeq a) ag m 40 (ack_hdr now h a ag)"

definition data_hdr :: "time \<Rightarrow> hdr_mysip \<Rightarrow> mysipApp \<Rightarrow> udpmysip \<Rightarrow> hdr_mysip" where
  "data_hdr now g a ag = g\<lparr>ack := 0, seq := app_seq a, nbytes := pktsize a, mtime := now,
     scale := app_scale a, mmethod := 7, requestURL := contact_dst_addr a,
     From := here_addr ag, From_id := myID a, To := dst_addr ag, To_id := toID a, CSeq := 1,
     contact := new_addr ag, contact_id := myID a\<rparr>"

definition send_mysip_data ::
  "time \<Rightarrow> net \<Rightarrow> hdr_mysip \<Rightarrow> mysipApp \<Rightarrow> udpmysip \<Rightarrow> mip6 option \<Rightarrow> app_result" where
  "send_mysip_data now n g a ag m =
     (if running a \<noteq> 0 then
        bind_res (app_send n (a\<lparr>app_seq := app_seq a + 1\<rparr>) ag m (pktsize a) (data_hdr now g a ag))
          (\<lambda>(a', ag', m', out). Inr (a'\<lparr>snd_timer := Some (now + 1 / 100)\<rparr>, ag', m', out))
      else Inr (a, ag, m, []))"

definition register_hdr :: "time \<Rightarrow> hdr_mysip \<Rightarrow> mysipApp \<Rightarrow> udpmysip \<Rightarrow> hdr_mysip" where
  "register_hdr now g a ag = g\<lparr>ack := 1, mtime := now, seq := - 2, nbytes := 200,
     scale := last_scale (p_accnt a), mmethod := 3, requestURL := myURL a, requestURL_id := 88,
     From_id := myID a, From := myURL a, To_id := myID a, To := myURL a, CSeq := app_CSeq a,
     contact_id := myID a, contact := new_addr ag, cport := 3\<rparr>"

definition send_register_pkt ::
  "time \<Rightarrow> net \<Rightarrow> hdr_mysip \<Rightarrow> mysipApp \<Rightarrow> udpmysip \<Rightarrow> mip6 option \<Rightarrow> app_result" where
  "send_register_pkt now n g a ag m =
     (let ag1 = first_request a ag
      in app_send n (next_CSeq a) ag1 m 200 (register_hdr now g a ag1))"

text \<open>The condition \<^verbatim>\<open>(myID = 88) && urlentry\<close> assigns.\<close>

definition temp_move_hdr :: "time \<Rightarrow> hdr_mysip \<Rightarrow> mysipApp \<Rightarrow> URLIPtable \<Rightarrow> hdr_mysip" where
  "temp_move_hdr now h a e = h\<lparr>ack := 1, mtime := now, seq := - 2, nbytes := 300,
     scale := last_scale (p_accnt a), mmethod := 4, requestURL := contact h,
     requestURL_id := contact_id h, contact := IP e\<rparr>"

definition app_send_temp_move_pkt ::
  "time \<Rightarrow> net \<Rightarrow> hdr_mysip \<Rightarrow> mysipApp \<Rightarrow> udpmysip \<Rightarrow> mip6 option \<Rightarrow> app_result" where
  "app_send_temp_move_pkt now n h a ag m =
     (let a1 = a\<lparr>myID := 88\<rparr>
      in case lookup_table (url_head a) (requestURL_id h) of
           None \<Rightarrow> Inr (a1, ag, m, [])
         | Some e \<Rightarrow> app_send n a1 ag m 300 (temp_move_hdr now h a e))"

section \<open>Receiving\<close>

definition set_contact :: "hdr_mysip \<Rightarrow> mysipApp \<Rightarrow> mysipApp" where
  "set_contact h a = a\<lparr>contact_dst_addr := contact h\<rparr>"

definition set_scale :: "hdr_mysip \<Rightarrow> mysipApp \<Rightarrow> mysipApp" where
  "set_scale h a = a\<lparr>app_scale := scale h\<rparr>"

definition init_recv_pkt_accounting :: "mysipApp \<Rightarrow> mysipApp" where
  "init_recv_pkt_accounting a = a\<lparr>handoffnum := 0,
     p_accnt := (p_accnt a)\<lparr>last_seq := - 1, last_scale := 0, lost_pkts := 0, recv_pkts := 0,
       last_arrival_time := 0\<rparr>\<rparr>"

definition account_rtt :: "time \<Rightarrow> hdr_mysip \<Rightarrow> mysipApp \<Rightarrow> mysipApp" where
  "account_rtt now h a =
     (if seq h = 0 then
        (let a1 = (init_recv_pkt_accounting a)\<lparr>first_seq_time := mtime h\<rparr>
         in a1\<lparr>p_accnt := (p_accnt a1)\<lparr>rtt := 2 * (now - mtime h)\<rparr>\<rparr>)
      else a\<lparr>p_accnt := (p_accnt a)\<lparr>rtt := 9 / 10 * rtt (p_accnt a) + 1 / 10 * 2 * (now - mtime h)\<rparr>\<rparr>)"

definition account_recv_pkt :: "time \<Rightarrow> hdr_mysip \<Rightarrow> mysipApp \<Rightarrow> mysipApp res" where
  "account_recv_pkt now h a0 =
     (let a = account_rtt now h a0;
          pa = p_accnt a;
          lost = seq h - last_seq pa - 1;
          pa1 = pa\<lparr>recv_pkts := recv_pkts pa + 1, lost_pkts := lost,
                  total_lost_pkts := total_lost_pkts pa + lost\<rparr>;
          k = handoffnum a;
          done = (\<lambda>b. Inr (b\<lparr>p_accnt := pa1\<lparr>last_seq := seq h, last_arrival_time := now\<rparr>\<rparr>))
      in if lost > 2 \<and> k < 30 then
           check OutOfRange (0 \<le> k \<and> nat k < length (handofftime a))
             (done (a\<lparr>handofftime := (handofftime a)[nat k := now - last_arrival_time pa],
                      handoffnum := k + 1\<rparr>))
         else done a)"

definition app_recv_msg ::
  "time \<Rightarrow> net \<Rightarrow> hdr_mysip \<Rightarrow> hdr_mysip \<Rightarrow> mysipApp \<Rightarrow> udpmysip \<Rightarrow> mip6 option \<Rightarrow> app_result" where
  "app_recv_msg now n g h a ag m =
     (if ack h = 1 then
        (if mmethod h = 0 then
           (let a1 = set_contact h a
            in if myID a1 = 88 then app_send_temp_move_pkt now n h a1 ag m
               else send_200ok_pkt now n h a1 ag m)
         else if mmethod h = 1 then
           bind_res (send_mysip_data now n g (set_contact h (a\<lparr>invite_stop := 1\<rparr>)) ag m)
             (\<lambda>(a1, ag1, m1, out1).
               bind_res (send_ack_for_200ok_pkt now n h a1 ag1 m1) (\<lambda>(a2, ag2, m2, out2).
                 Inr (a2, ag2, m2, out1 @ out2)))
         else if mmethod h = 2 then Inr (a\<lparr>m200ok_stop := 1\<rparr>, ag, m, [])
         else if mmethod h = 3 then Inr (add_urllist a (From_id h) (From h) (contact h) 3, ag, m, [])
         else if mmethod h = 4 then send_invite_pkt now n g (set_contact h a) ag m
         else if mmethod h = 9 \<or> mmethod h = 12 then Inr (set_contact h a, ag, m, [])
         else Inr (a, ag, m, []))
      else bind_res (account_recv_pkt now h a) (\<lambda>a1. Inr (a1\<lparr>ack_stop := 1\<rparr>, ag, m, [])))"

section \<open>Start, stop and commands\<close>

text \<open>\<^verbatim>\<open>pktsize_ << 3\<close> over the lowest rate; the rates are bound to positive bandwidths.\<close>

definition app_init :: "mysipApp \<Rightarrow> udpmysip \<Rightarrow> (mysipApp \<times> udpmysip) res" where
  "app_init a ag =
     check OutOfRange (rate a \<noteq> [])
       (Inr (a\<lparr>app_scale := 0, app_seq := 0, interval := real_of_int (pktsize a * 8) / rate a ! 0\<rparr>,
             ag\<lparr>new_addr := here_addr ag\<rparr>))"

definition app_start ::
  "time \<Rightarrow> net \<Rightarrow> hdr_mysip \<Rightarrow> mysipApp \<Rightarrow> udpmysip \<Rightarrow> mip6 option \<Rightarrow> app_result" where
  "app_start now n g a ag m =
     bind_res (app_init a ag) (\<lambda>(a1, ag1).
       send_invite_pkt now n g (a1\<lparr>running := 1, contact_dst_addr := toURL a1\<rparr>) ag1 m)"

definition app_stop :: "mysipApp \<Rightarrow> mysipApp" where
  "app_stop a = a\<lparr>running := 0\<rparr>"

text \<open>\<^verbatim>\<open>SendTimer::expire\<close>\<close>

definition snd_timer_expire ::
  "time \<Rightarrow> net \<Rightarrow> hdr_mysip \<Rightarrow> mysipApp \<Rightarrow> udpmysip \<Rightarrow> mip6 option \<Rightarrow> app_result" where
  "snd_timer_expire now n g a ag m = send_mysip_data now n g (a\<lparr>snd_timer := None\<rparr>) ag m"

datatype app_cmd =
    SetAddr addr
  | AppRegistration addr
  | AttachAgent
  | MyID_URL addr addr
  | SendInvite addr addr
  | AddURLRecord addr addr addr

fun app_command ::
  "time \<Rightarrow> net \<Rightarrow> hdr_mysip \<Rightarrow> mysipApp \<Rightarrow> udpmysip \<Rightarrow> mip6 option \<Rightarrow> app_cmd \<Rightarrow> app_result" where
  "app_command now n g a ag m (SetAddr x) =
     Inr (a, ag\<lparr>new_addr := x, here_addr := x\<rparr>, m, [])"
| "app_command now n g a ag m (AppRegistration x) =
     send_register_pkt now n g a (ag\<lparr>new_addr := x, here_addr := x\<rparr>) m"
| "app_command now n g a ag m AttachAgent = Inr (a, ag\<lparr>support_mm := 1, has_app := True\<rparr>, m, [])"
| "app_command now n g a ag m (MyID_URL i u) = Inr (a\<lparr>myID := i, myURL := u\<rparr>, ag, m, [])"
| "app_command now n g a ag m (SendInvite i u) = app_start now n g (a\<lparr>toID := i, toURL := u\<rparr>) ag m"
| "app_command now n g a ag m (AddURLRecord i u ip) = Inr (add_urllist a i u ip 3, ag, m, [])"

end
