(* ===== verification/Sip_Policies.thy ===== *)
theory Sip_Policies
  imports Sip_Send "HOL-Library.Multiset"
begin

text \<open>
  Correctness of the policies of \<^verbatim>\<open>Sip_Select\<close>. The four ways of choosing a home agent are
  interpretations of one locale, \<open>selector\<close>; the four ways of moving the nodes of a lost care-of
  address are interpretations of \<open>rehome_policy\<close>, and the four ways of moving nodes to a new one
  of \<open>renew_policy\<close>. The loss of an interface (\<^const>\<open>sip_re_homing\<close>) rests on them.
\<close>

section \<open>Choosing a home agent\<close>

lemma active_ptrs_active: "r \<in> set (active_ptrs s) \<Longrightarrow> \<exists>e. se_at s r = Some e \<and> is_active e"
  by (simp add: active_ptrs_def all_ptrs_set se_at_def)

lemma active_ptrs_cong: "siplist s' = siplist s \<Longrightarrow> active_ptrs s' = active_ptrs s"
  by (simp add: active_ptrs_def)

lemma active_ptrs_round_count [simp]: "active_ptrs (s\<lparr>round_count := k\<rparr>) = active_ptrs s"
  by (simp add: active_ptrs_def)

text \<open>\<open>k\<close> choices in a row.\<close>

fun picks :: "(udpmysip \<Rightarrow> (ptr \<times> udpmysip) res) \<Rightarrow> nat \<Rightarrow> udpmysip \<Rightarrow> (ptr list \<times> udpmysip) res" where
  "picks pick 0 s = Inr ([], s)"
| "picks pick (Suc k) s =
     bind_res (pick s) (\<lambda>(r, s1). bind_res (picks pick k s1) (\<lambda>(rs, s2). Inr (r # rs, s2)))"

locale selector =
  fixes pick :: "udpmysip \<Rightarrow> (ptr \<times> udpmysip) res"
    and empty_fault :: fault
  assumes pick_active: "pick s = Inr (r, s') \<Longrightarrow> r \<in> set (active_ptrs s)"
    and pick_table: "pick s = Inr (r, s') \<Longrightarrow> siplist s' = siplist s"
    and pick_total: "active_ptrs s \<noteq> [] \<Longrightarrow> \<exists>r s'. pick s = Inr (r, s')"
    and pick_none: "active_ptrs s = [] \<Longrightarrow> pick s = Inl empty_fault"
begin

lemma picks_table: "picks pick k s = Inr (rs, s') \<Longrightarrow> siplist s' = siplist s \<and> length rs = k"
  by (induction k arbitrary: s rs) (auto dest: pick_table)

lemma picks_total: "active_ptrs s \<noteq> [] \<Longrightarrow> \<exists>rs s'. picks pick k s = Inr (rs, s') \<and> set rs \<subseteq> set (active_ptrs s)"
proof (induction k arbitrary: s)
  case (Suc k)
  then obtain r s1 where r: "pick s = Inr (r, s1)" using pick_total by blast
  then have "active_ptrs s1 = active_ptrs s" using pick_table active_ptrs_cong by blast
  with Suc obtain rs s2 where "picks pick k s1 = Inr (rs, s2)" "set rs \<subseteq> set (active_ptrs s)" by metis
  with r pick_active [OF r] show ?case by simp
qed simp

lemma chosen_entry:
  assumes "active_ptrs s \<noteq> []"
  shows "\<exists>r s' e. pick s = Inr (r, s') \<and> se_at s' r = Some e \<and> is_active e \<and> siplist s' = siplist s"
proof -
  obtain r s' where r: "pick s = Inr (r, s')" using pick_total [OF assms] by blast
  with active_ptrs_active [OF pick_active [OF r]] pick_table [OF r] show ?thesis
    by (auto simp: se_at_def)
qed

end

interpretation sel_random: selector get_mr_ha_entry_random DivByZero
  by unfold_locales (auto simp: get_mr_ha_entry_random_def draw_def Let_def)

lemma int_index_less: "0 < n \<Longrightarrow> int_index k n < n"
  by (simp add: int_index_def)

interpretation sel_rr: selector get_mr_ha_entry_round_robin DivByZero
  by unfold_locales (auto simp: get_mr_ha_entry_round_robin_def Let_def int_index_less)

lemma nonempty_length: "xs \<noteq> [] \<Longrightarrow> \<not> Suc 0 < length xs \<Longrightarrow> length xs = Suc 0"
  by (cases xs) auto

interpretation sel_weight: selector get_mr_ha_entry_weight OutOfRange
  by unfold_locales (auto dest: nonempty_length simp: get_mr_ha_entry_weight_def Let_def check_def split: if_splits)

interpretation sel_weight_2: selector get_mr_ha_entry_weight_2 OutOfRange
  by unfold_locales (auto dest: nonempty_length simp: get_mr_ha_entry_weight_2_def Let_def check_def split: if_splits)

text \<open>
  A multihomed router: two home agents, reached through the interfaces 4 and 5, and two mobile
  nodes, both at the care-of address of interface 4.
\<close>

definition demo_mr_ha :: "addr \<Rightarrow> nemo_ref \<Rightarrow> addr \<Rightarrow> SIPEntry" where
  "demo_mr_ha c a pfx = (new_SIPEntry SIP_MR_HA)\<lparr>se_url_id := 7, se_con := c, se_eface := Some a,
     se_iface := Some 3, se_prefix := pfx\<rparr>"

definition demo_mn :: "addr \<Rightarrow> addr \<Rightarrow> SIPEntry" where
  "demo_mn u c = (new_SIPEntry SIP_MN)\<lparr>se_url_id := u, se_url := 0x4005, se_addr := 0x2805, se_con := c\<rparr>"

definition demo_router :: "int \<Rightarrow> udpmysip" where
  "demo_router k = \<lparr>here_addr = 0x2801, here_port = 3, dst_addr = 0, dst_port = 0, ag_type = PT_UDP,
     ag_size = 1000, ag_prio = 0, sip_node_type = SIP_MR,
     siplist = [demo_mr_ha 0x1801 4 0x2800, demo_mr_ha 0x3001 5 0x2800, demo_mn 21 0x1801, demo_mn 22 0x1801],
     sel_mode = k, support_mm = 1, session_run = 0, flag = 1, new_addr = 0, asm_seq = - 1,
     asm_rbytes = 0, asm_tbytes = 0, round_count = 0, weight_count = 0, weight_count2 = 0,
     sip_mr_bs_daddr = - 1, sip_exp_mr = 0, agent_cip = 0, agent_cport = 0, rtp_count = 0,
     has_app = False, rng = (\<lambda>k. k), rng_pos = 0\<rparr>"

lemmas demo_router_defs = demo_router_def demo_mr_ha_def demo_mn_def new_SIPEntry_def

lemma demo_router_active [simp]: "active_ptrs (demo_router k) = [3, 2]"
  by (simp add: demo_router_defs active_ptrs_def is_active_def)

lemma demo_router_count: "round_count (demo_router k) = 0"
  by (simp add: demo_router_def)

lemma demo_router_mode [simp]: "sel_mode (demo_router k) = k"
  by (simp add: demo_router_def)

lemma selected_home_agent:
  assumes "sel_mode s \<in> {1, 2, 3, 4}" and "active_ptrs s \<noteq> []"
  shows "\<exists>r s' e. select_mr_ha s pfx = Inr (Some r, s') \<and> se_at s r = Some e \<and> is_active e
    \<and> siplist s' = siplist s"
  using assms sel_random.chosen_entry [of s] sel_rr.chosen_entry [of s] sel_weight.chosen_entry [of s]
    sel_weight_2.chosen_entry [of s]
  by (auto simp: select_mr_ha_def Let_def se_at_def)

text \<open>
  C39: Under every selection policy a router that has an active home agent (one with a care-of
  address) chooses an active one and leaves its table alone; a router that has none stops with a
  division by zero (random, round robin) or an access out of range (the weighted policies).
\<close>

theorem selection_sound:
  assumes "sel_mode s \<in> {1, 2, 3, 4}"
  shows "(active_ptrs s = [] \<longrightarrow> select_mr_ha s pfx = Inl (if sel_mode s \<le> 2 then DivByZero else OutOfRange))
    \<and> (active_ptrs s \<noteq> [] \<longrightarrow> (\<exists>r s' e. select_mr_ha s pfx = Inr (Some r, s')
          \<and> se_at s' r = Some e \<and> se_type e = SIP_MR_HA \<and> se_con e \<noteq> - 1 \<and> siplist s' = siplist s))"
  using assms(1) selected_home_agent [OF assms, of pfx]
  by (auto simp: select_mr_ha_def sel_random.pick_none sel_rr.pick_none
      sel_weight.pick_none sel_weight_2.pick_none is_active_def se_at_def)

theorem selection_sound_witness:
  "sel_mode (demo_router 4) \<in> {1, 2, 3, 4} \<and> (\<exists>r s' e. select_mr_ha (demo_router 4) 0 = Inr (Some r, s')
     \<and> se_at s' r = Some e \<and> se_type e = SIP_MR_HA \<and> se_con e \<noteq> - 1)"
  using selection_sound [of "demo_router 4" 0] by auto

section \<open>Fairness of round robin\<close>

lemma scast_nonneg:
  assumes "\<not> bit (k :: 32 word) 31"
  shows "(scast k :: 64 word) = ucast k"
proof (rule bit_word_eqI)
  fix n assume "n < LENGTH(64)"
  have "n = 31 \<or> n < 31 \<or> \<not> bit k n" using bit_imp_le_length [of k n] by auto
  with assms show "bit (scast k :: 64 word) n \<longleftrightarrow> bit (ucast k :: 64 word) n" by (auto simp: bit_signed_iff bit_unsigned_iff min_def)
qed

lemma int_index_nonneg:
  assumes "unat k < 2 ^ 31"
  shows "int_index k n = unat k mod n"
proof -
  have "\<not> bit (unat k) 31" using assms by (metis take_bit_nat_eq_self_iff bit_take_bit_iff less_irrefl)
  then have "(scast k :: 64 word) = ucast k" by (intro scast_nonneg) (simp add: bit_unsigned_iff)
  moreover have "unat k < 2 ^ 64" using assms by simp
  ultimately show ?thesis by (simp add: int_index_def unsigned_ucast_eq take_bit_eq_mod)
qed

lemma rr_picks:
  assumes "active_ptrs s = as" and "as \<noteq> []" and "unat (round_count s) + k \<le> 2 ^ 31"
  shows "\<exists>s'. picks get_mr_ha_entry_round_robin k s = Inr (map (\<lambda>j. as ! ((unat (round_count s) + j) mod length as)) [0..<k], s')"
  using assms(1,3)
proof (induction k arbitrary: s)
  case (Suc k)
  let ?s = "s\<lparr>round_count := round_count s + 1\<rparr>"
  have less: "unat (round_count s) < 2 ^ 31" using Suc.prems(2) by simp
  then have c: "unat (round_count s + 1) = Suc (unat (round_count s))" by (simp add: unat_word_ariths)
  have "active_ptrs ?s = as" using Suc.prems(1) by simp
  moreover have "get_mr_ha_entry_round_robin s = Inr (as ! (unat (round_count s) mod length as), ?s)"
    using Suc.prems(1) assms(2) less by (simp add: get_mr_ha_entry_round_robin_def Let_def int_index_nonneg)
  moreover obtain s' where "picks get_mr_ha_entry_round_robin k ?s = Inr (map (\<lambda>j. as ! ((Suc (unat (round_count s)) + j) mod length as)) [0..<k], s')"
    using Suc.IH [of ?s] Suc.prems c \<open>active_ptrs ?s = as\<close> by auto
  ultimately show ?case
    by (simp add: upt_conv_Cons map_Suc_upt [symmetric] comp_def del: upt_Suc)
qed simp

lemma round_is_rotation: "map (\<lambda>j. as ! ((c + j) mod length as)) [0..<length as] = rotate c as"
  by (rule nth_equalityI) (simp_all add: nth_rotate)

lemma rounds_mod: "(c + (m * n + i)) mod n = (c + i) mod (n :: nat)"
  by (metis add.left_commute mod_mult_self3)

lemma mset_rotate1: "mset (rotate1 xs) = mset xs"
  by (cases xs) auto

lemma mset_rotate_same: "mset (rotate k xs) = mset xs"
  by (induction k) (simp_all add: mset_rotate1)

lemma rounds_mset:
  "mset (map (\<lambda>j. as ! ((c + j) mod length as)) [0..<m * length as]) = repeat_mset m (mset as)"
proof (induction m)
  case (Suc m)
  let ?n = "length as" and ?f = "\<lambda>j. as ! ((c + j) mod length as)"
  have "map ?f [m * ?n..<m * ?n + ?n] = map ?f [0..<?n]"
    by (rule nth_equalityI) (simp_all add: rounds_mod)
  moreover have "[0..<Suc m * ?n] = [0..<m * ?n] @ [m * ?n..<m * ?n + ?n]"
    by (simp only: mult_Suc add.commute [of ?n] upt_add_eq_append [of 0] le0 add_0)
  ultimately have "mset (map ?f [0..<Suc m * ?n]) = mset (map ?f [0..<m * ?n]) + mset (rotate c as)"
    by (simp only: map_append mset_append round_is_rotation)
  with Suc.IH show ?case by (simp add: mset_rotate_same)
qed simp

text \<open>
  C40: Round robin is fair: over any whole number of rounds in which the counter, an int of 32 bits, does not overflow, every
  active home agent of a router that has one is chosen the same number of times.
\<close>

theorem round_robin_fair:
  assumes "active_ptrs s \<noteq> []" and "unat (round_count s) + m * length (active_ptrs s) \<le> 2 ^ 31"
  shows "\<exists>rs s'. picks get_mr_ha_entry_round_robin (m * length (active_ptrs s)) s = Inr (rs, s')
    \<and> (\<forall>r \<in> set (active_ptrs s). count_list rs r = m)"
proof -
  let ?as = "active_ptrs s"
  let ?rs = "map (\<lambda>j. ?as ! ((unat (round_count s) + j) mod length ?as)) [0..<m * length ?as]"
  have "count_list ?rs r = m" if "r \<in> set ?as" for r
  proof -
    have "count_list ?rs r = count (repeat_mset m (mset ?as)) r"
      unfolding rounds_mset [of ?as "unat (round_count s)" m, symmetric] by (simp only: count_mset)
    also have "\<dots> = m * count_list ?as r" by (simp add: count_mset)
    also have "count_list ?as r = 1" 
      using that by (simp add: active_ptrs_def count_mset [symmetric] distinct_count_atmost_1 [THEN iffD1, rule_format] del: count_mset)
    finally show ?thesis by simp
  qed
  with rr_picks [OF refl assms] show ?thesis by blast
qed

theorem round_robin_fair_witness:
  "active_ptrs (demo_router 2) \<noteq> [] \<and> (\<exists>rs s'. picks get_mr_ha_entry_round_robin 6 (demo_router 2) = Inr (rs, s')
     \<and> count_list rs 3 = 3 \<and> count_list rs 2 = 3)"
  using round_robin_fair [of "demo_router 2" 3] demo_router_count by auto

section \<open>Rewritten contacts\<close>

text \<open>
  The entries \<open>rs\<close> have got new contacts, all in \<open>V\<close>; the table is otherwise unchanged.
\<close>

definition moved :: "ptr set \<Rightarrow> addr set \<Rightarrow> udpmysip \<Rightarrow> udpmysip \<Rightarrow> bool" where
  "moved rs V s s' \<longleftrightarrow> (\<exists>f. (\<forall>r \<in> rs. f r \<in> V) \<and>
     (\<forall>r. se_at s' r = map_option (\<lambda>e. if r \<in> rs then set_con (f r) e else e) (se_at s r)))"

lemma moved_refl: "moved {} V s s"
  by (simp add: moved_def option.map_id0 option.map_ident)

lemma moved_write:
  assumes "moved rs V s s'" and "v \<in> V" and "siplist t = siplist s'"
  shows "moved (insert r rs) V s (se_write r (set_con v) t)"
proof -
  from assms(1) obtain f where f: "\<forall>r \<in> rs. f r \<in> V"
    "\<forall>r. se_at s' r = map_option (\<lambda>e. if r \<in> rs then set_con (f r) e else e) (se_at s r)"
    by (auto simp: moved_def)
  have "se_at (se_write r (set_con v) t) r' =
      map_option (\<lambda>e. if r' \<in> insert r rs then set_con ((f(r := v)) r') e else e) (se_at s r')" for r'
    using f(2) [rule_format, of r'] assms(3) by (cases "se_at s r'") (auto simp: se_at_def se_write_def entry_at_upd_at simp del: entry_at_None_iff)
  with f(1) assms(2) show ?thesis unfolding moved_def by (intro exI [of _ "f(r := v)"]) auto
qed

lemma moved_cong: "moved rs V s t \<Longrightarrow> siplist t' = siplist t \<Longrightarrow> moved rs V s t'"
  by (simp add: moved_def se_at_def)

lemma rehome_random_loop_moved:
  "moved R V s t \<Longrightarrow> V = (if cs = [] then {- 1} else set cs) \<Longrightarrow>
     moved (R \<union> set rs) V s (rehome_random_loop cs rs t)"
proof (induction rs arbitrary: R t)
  case (Cons r rs)
  show ?case
  proof (cases "cs = []")
    case True
    have "moved (insert r R) V s (se_write r (set_con (- 1)) t)"
      using Cons.prems True by (intro moved_write) auto
    from Cons.IH [OF this Cons.prems(2)] show ?thesis using True by simp
  next
    case False
    let ?v = "cs ! (fst (draw t) mod length cs)"
    have "moved (insert r R) V s (se_write r (set_con ?v) (snd (draw t)))"
      using Cons.prems False by (intro moved_write [of _ _ _ t]) (auto simp: draw_def)
    from Cons.IH [OF this Cons.prems(2)] show ?thesis using False by (simp add: draw_def)
  qed
qed simp

lemma rehome_round_robin_loop_moved:
  "moved R V s t \<Longrightarrow> V = (if cs = [] then {- 1} else set cs) \<Longrightarrow>
     moved (R \<union> set rs) V s (rehome_round_robin_loop cs rs t)"
proof (induction rs arbitrary: R t)
  case (Cons r rs)
  show ?case
  proof (cases "cs = []")
    case True
    have "moved (insert r R) V s (se_write r (set_con (- 1)) t)"
      using Cons.prems True by (intro moved_write) auto
    from Cons.IH [OF this Cons.prems(2)] show ?thesis using True by simp
  next
    case False
    let ?t = "(se_write r (set_con (cs ! int_index (round_count t) (length cs))) t)\<lparr>round_count := round_count t + 1\<rparr>"
    have "moved (insert r R) V s ?t"
      using Cons.prems False by (intro moved_cong [OF moved_write [of R V s t _ t]]) (auto simp: int_index_less)
    from Cons.IH [OF this Cons.prems(2)] show ?thesis using False by simp
  qed
qed simp

lemma fold_write_moved:
  "moved R V s t \<Longrightarrow> v \<in> V \<Longrightarrow> moved (R \<union> set rs) V s (fold (\<lambda>r. se_write r (set_con v)) rs t)"
proof (induction rs arbitrary: R t)
  case (Cons r rs)
  have "moved (insert r R) V s (se_write r (set_con v) t)" using Cons.prems by (intro moved_write) auto
  from Cons.IH [OF this Cons.prems(2)] show ?case by simp
qed simp

lemma rehome_weight_2_loop_moved:
  "moved R V s t \<Longrightarrow> V = (if cs = [] then {- 1} else set cs) \<Longrightarrow>
     ensures (moved (R \<union> set rs) V s) (rehome_weight_2_loop cs rs t)"
proof (induction rs arbitrary: R t)
  case (Cons r rs)
  let ?t = "t\<lparr>weight_count2 := Suc (weight_count2 t)\<rparr>"
  have "ensures (moved (insert r R \<union> set rs) V s) (rehome_weight_2_loop cs rs (se_write r (set_con v) ?t))"
    if "v \<in> V" for v
    using Cons.prems that by (intro Cons.IH moved_write [of R V s t]) auto
  with Cons.prems(2) show ?case by (auto simp: Let_def)
qed simp


section \<open>Leaving a care-of address\<close>

locale rehome_policy =
  fixes rehome :: "udpmysip \<Rightarrow> addr \<Rightarrow> (ptr list \<times> udpmysip) res"
  assumes rehome_moved: "rehome s c = Inr (rs, s') \<Longrightarrow> rs = mn_ptrs_at s c
    \<and> moved (set (mn_ptrs_at s c)) (if active_cons s = [] then {- 1} else set (active_cons s)) s s'"
begin

lemma rehomed_entries:
  assumes "rehome s c = Inr (rs, s')"
  shows "\<exists>f. (\<forall>r. if active_cons s = [] then f r = - 1 else f r \<in> set (active_cons s)) \<and>
    (\<forall>r. se_at s' r = map_option (\<lambda>e. if se_type e = SIP_MN \<and> se_con e = c then set_con (f r) e else e) (se_at s r))"
proof -
  from rehome_moved [OF assms] obtain f where
    f: "\<forall>r \<in> set (mn_ptrs_at s c). f r \<in> (if active_cons s = [] then {- 1} else set (active_cons s))"
    "\<And>r. se_at s' r = map_option (\<lambda>e. if r \<in> set (mn_ptrs_at s c) then set_con (f r) e else e) (se_at s r)"
    by (auto simp: moved_def)
  let ?f = "\<lambda>r. if r \<in> set (mn_ptrs_at s c) then f r else if active_cons s = [] then - 1 else hd (active_cons s)"
  have "se_at s' r = map_option (\<lambda>e. if se_type e = SIP_MN \<and> se_con e = c then set_con (?f r) e else e) (se_at s r)" for r
    using f(2) [of r] by (cases "se_at s r") (auto simp: mn_ptrs_at_def all_ptrs_set se_at_def simp del: entry_at_None_iff)
  with f(1) show ?thesis by (intro exI [of _ ?f]) auto
qed

end

interpretation rehome_random: rehome_policy "\<lambda>s c. Inr (rehome_mn_coa_entry_random s c)"
  by unfold_locales (auto simp: rehome_mn_coa_entry_random_def moved_refl
      intro!: rehome_random_loop_moved [where R = "{}", simplified])

interpretation rehome_rr: rehome_policy "\<lambda>s c. Inr (rehome_mn_coa_entry_round_robin s c)"
  by unfold_locales (auto simp: rehome_mn_coa_entry_round_robin_def moved_refl
      intro!: rehome_round_robin_loop_moved [where R = "{}", simplified])

interpretation rehome_weight: rehome_policy "\<lambda>s c. Inr (rehome_mn_coa_entry_weight s c)"
  by unfold_locales (auto simp: rehome_mn_coa_entry_weight_def Let_def moved_refl
      intro!: fold_write_moved [where R = "{}", simplified])

interpretation rehome_weight_2: rehome_policy rehome_mn_coa_entry_weight_2
  by unfold_locales (auto simp: rehome_mn_coa_entry_weight_2_def moved_refl
      dest!: ensuresD [OF rehome_weight_2_loop_moved [where R = "{}", simplified], rotated -1])

lemma rehome_select_entries:
  assumes "sel_mode s \<in> {1, 2, 3, 4}" and "rehome_select s c = Inr s'"
  shows "\<exists>f. (\<forall>r. if active_cons s = [] then f r = - 1 else f r \<in> set (active_cons s)) \<and>
    (\<forall>r. se_at s' r = map_option (\<lambda>e. if se_type e = SIP_MN \<and> se_con e = c then set_con (f r) e else e) (se_at s r))"
proof -
  consider (r) "Inr (rehome_mn_coa_entry_random s c) = Inr (mn_ptrs_at s c, s')"
    | (rr) "Inr (rehome_mn_coa_entry_round_robin s c) = Inr (mn_ptrs_at s c, s')"
    | (w) "Inr (rehome_mn_coa_entry_weight s c) = Inr (mn_ptrs_at s c, s')"
    | (w2) "rehome_mn_coa_entry_weight_2 s c = Inr (mn_ptrs_at s c, s')"
    using assms by (auto simp: rehome_select_def rehome_mn_coa_entry_random_def Let_def
        rehome_mn_coa_entry_round_robin_def rehome_mn_coa_entry_weight_def
        rehome_mn_coa_entry_weight_2_def split: if_splits)
  then show ?thesis
    by cases (erule rehome_random.rehomed_entries rehome_rr.rehomed_entries
        rehome_weight.rehomed_entries rehome_weight_2.rehomed_entries)+
qed

section \<open>Joining a care-of address\<close>

locale renew_policy =
  fixes renew :: "udpmysip \<Rightarrow> addr \<Rightarrow> (ptr list \<times> udpmysip) res"
  assumes renew_moved: "renew s c = Inr (rs, s') \<Longrightarrow>
    rs = mn_ptrs s \<and> (\<exists>R. R \<subseteq> set (mn_ptrs s) \<and> moved R {c} s s')"
begin

lemma renewed_entries:
  assumes "renew s c = Inr (rs, s')"
  shows "\<exists>R. \<forall>r. se_at s' r = map_option (\<lambda>e. if se_type e = SIP_MN \<and> r \<in> R then set_con c e else e) (se_at s r)"
proof -
  from renew_moved [OF assms] obtain R f where
    f: "R \<subseteq> set (mn_ptrs s)" "\<forall>r \<in> R. f r = c"
    "\<And>r. se_at s' r = map_option (\<lambda>e. if r \<in> R then set_con (f r) e else e) (se_at s r)"
    by (auto simp: moved_def)
  have "se_at s' r = map_option (\<lambda>e. if se_type e = SIP_MN \<and> r \<in> R then set_con c e else e) (se_at s r)" for r
    using f(1,2) f(3) [of r] by (cases "se_at s r") (auto simp: mn_ptrs_def all_ptrs_set se_at_def simp del: entry_at_None_iff)
  then show ?thesis by blast
qed

end

lemma renew_random_loop_moved:
  "moved R {c} s t \<Longrightarrow> R \<subseteq> set mn \<Longrightarrow> mn \<noteq> [] \<Longrightarrow> \<exists>R'. R' \<subseteq> set mn \<and> moved R' {c} s (renew_random_loop c mn k t)"
proof (induction k arbitrary: R t)
  case (Suc k)
  let ?r = "mn ! (fst (draw t) mod length mn)"
  have "moved (insert ?r R) {c} s (se_write ?r (set_con c) (snd (draw t)))"
    using Suc.prems by (intro moved_write [of _ _ _ t]) (auto simp: draw_def)
  from Suc.IH [OF this] Suc.prems show ?case by (simp add: draw_def)
qed auto

lemma renew_rr_loop_moved:
  "moved R {c} s t \<Longrightarrow> R \<union> set rs \<subseteq> A \<Longrightarrow>
     ensures (\<lambda>s'. \<exists>R'. R' \<subseteq> A \<and> moved R' {c} s s') (renew_rr_loop c i rs v t)"
proof (induction rs arbitrary: R t i v)
  case (Cons r rs)
  have "ensures (\<lambda>s'. \<exists>R'. R' \<subseteq> A \<and> moved R' {c} s s') (renew_rr_loop c (Suc i) rs v' t)" for v'
    using Cons.prems by (intro Cons.IH [of R]) auto
  moreover have "ensures (\<lambda>s'. \<exists>R'. R' \<subseteq> A \<and> moved R' {c} s s')
      (renew_rr_loop c (Suc i) rs v' (se_write r (set_con c) t))" for v'
    using Cons.prems by (intro Cons.IH [of "insert r R"] moved_write [of R _ _ t]) auto
  ultimately show ?case by (auto split: prod.splits)
qed auto

lemma renew_weight_2_loop_moved:
  "moved R {c} s t \<Longrightarrow> R \<union> set rs \<subseteq> A \<Longrightarrow> \<exists>R'. R' \<subseteq> A \<and> moved R' {c} s (renew_weight_2_loop c i rs t)"
proof (induction rs arbitrary: R t i)
  case (Cons r rs)
  show ?case
  proof (cases "i = 2")
    case True
    with Cons.IH [of R t] Cons.prems show ?thesis by simp
  next
    case False
    have "moved (insert r R) {c} s (se_write r (set_con c) t)" using Cons.prems by (intro moved_write) auto
    with Cons.IH [OF this] Cons.prems False show ?thesis by simp
  qed
qed auto

interpretation renew_random: renew_policy "\<lambda>s c. Inr (renew_mn_coa_entry_random s c)"
proof unfold_locales
  fix s c rs s'
  assume *: "Inr (renew_mn_coa_entry_random s c) = (Inr (rs, s') :: (ptr list \<times> udpmysip) res)"
  have "\<exists>R'. R' \<subseteq> set (mn_ptrs s) \<and> moved R' {c} s (renew_random_loop c (mn_ptrs s) k (snd (draw s)))"
    if "mn_ptrs s \<noteq> []" for k
    using that by (intro renew_random_loop_moved [of "{}"] moved_cong [OF moved_refl]) (auto simp: draw_def)
  then show "rs = mn_ptrs s \<and> (\<exists>R. R \<subseteq> set (mn_ptrs s) \<and> moved R {c} s s')"
    using * by (cases "mn_ptrs s = []")
      (auto simp: renew_mn_coa_entry_random_def draw_def Let_def intro: exI [of _ "{}"] moved_refl)
qed

interpretation renew_rr: renew_policy renew_mn_coa_entry_round_robin
proof unfold_locales
  fix s c rs s'
  assume "renew_mn_coa_entry_round_robin s c = Inr (rs, s')"
  then have *: "rs = mn_ptrs s" "\<exists>v. renew_rr_loop c 0 (mn_ptrs s) v s = Inr s'"
    by (auto simp: renew_mn_coa_entry_round_robin_def)
  then obtain v where "renew_rr_loop c 0 (mn_ptrs s) v s = Inr s'" by blast
  with renew_rr_loop_moved [OF moved_refl [of "{c}" s], of "mn_ptrs s" "set (mn_ptrs s)" 0 v] *(1)
  show "rs = mn_ptrs s \<and> (\<exists>R. R \<subseteq> set (mn_ptrs s) \<and> moved R {c} s s')"
    by (simp add: ensuresD)
qed

interpretation renew_weight: renew_policy "\<lambda>s c. Inr (renew_mn_coa_entry_weight s c)"
proof unfold_locales
  show "rs = mn_ptrs s \<and> (\<exists>R. R \<subseteq> set (mn_ptrs s) \<and> moved R {c} s s')"
    if "Inr (renew_mn_coa_entry_weight s c) = (Inr (rs, s') :: (ptr list \<times> udpmysip) res)" for s c rs s'
    using that fold_write_moved [OF moved_refl [of "{c}" s], of c "mn_ptrs s"]
    by (auto simp: renew_mn_coa_entry_weight_def)
qed

interpretation renew_weight_2: renew_policy "\<lambda>s c. Inr (renew_mn_coa_entry_weight_2 s c)"
proof unfold_locales
  show "rs = mn_ptrs s \<and> (\<exists>R. R \<subseteq> set (mn_ptrs s) \<and> moved R {c} s s')"
    if "Inr (renew_mn_coa_entry_weight_2 s c) = (Inr (rs, s') :: (ptr list \<times> udpmysip) res)" for s c rs s'
    using that renew_weight_2_loop_moved [OF moved_refl [of "{c}" s], of "mn_ptrs s" "set (mn_ptrs s)" 0]
    by (auto simp: renew_mn_coa_entry_weight_2_def)
qed

lemma renew_select_entries:
  assumes "sel_mode s \<in> {1, 2, 3, 4}" and "renew_select s c = Inr s'"
  shows "\<exists>R. \<forall>r. se_at s' r = map_option (\<lambda>e. if se_type e = SIP_MN \<and> r \<in> R then set_con c e else e) (se_at s r)"
proof -
  obtain rs where "Inr (renew_mn_coa_entry_random s c) = (Inr (rs, s') :: (ptr list \<times> udpmysip) res)
    \<or> renew_mn_coa_entry_round_robin s c = Inr (rs, s')
    \<or> Inr (renew_mn_coa_entry_weight s c) = (Inr (rs, s') :: (ptr list \<times> udpmysip) res)
    \<or> Inr (renew_mn_coa_entry_weight_2 s c) = (Inr (rs, s') :: (ptr list \<times> udpmysip) res)"
    using assms by (auto simp: renew_select_def renew_mn_coa_entry_weight_def
        renew_mn_coa_entry_weight_2_def prod_eq_iff split: if_splits)
  then show ?thesis
    by (elim disjE) (rule renew_random.renewed_entries renew_rr.renewed_entries
        renew_weight.renewed_entries renew_weight_2.renewed_entries, assumption)+
qed

section \<open>Losing an interface\<close>

lemma active_cons_set: "set (active_cons s) = {se_con e |e r. se_at s r = Some e \<and> is_active e}"
  by (auto simp: active_cons_def se_at_def dest: entry_at_in_set in_set_entry_at)

lemma active_cons_Nil_iff: "active_cons s = [] \<longleftrightarrow> (\<forall>e \<in> set (siplist s). \<not> is_active e)"
  by (simp add: active_cons_def filter_empty_conv)

lemma se_at_write: "se_at (se_write r f s) r' = (if r' = r then map_option f (se_at s r) else se_at s r')"
  by (simp add: se_at_def se_write_def entry_at_upd_at)

lemma sel_mode_write [simp]: "sel_mode (se_write r f s) = sel_mode s"
  and weight_count2_write [simp]: "weight_count2 (se_write r f s) = weight_count2 s"
  by (simp_all add: se_write_def)

lemma rehome_weight_2_loop_total:
  "length cs \<noteq> 1 \<or> weight_count2 s \<noteq> 0 \<Longrightarrow> \<exists>s'. rehome_weight_2_loop cs rs s = Inr s'"
proof (induction rs arbitrary: s)
  case (Cons r rs)
  then show ?case by (cases cs) (auto simp: Let_def check_def)
qed simp

lemma rehome_select_total:
  assumes "sel_mode s \<noteq> 4 \<or> length (active_cons s) \<noteq> 1 \<or> weight_count2 s \<noteq> 0" "sel_mode s \<in> {1, 2, 3, 4}"
  shows "\<exists>s'. rehome_select s c = Inr s'"
  using assms rehome_weight_2_loop_total [of "active_cons s" s "mn_ptrs_at s c"]
  by (auto simp: rehome_select_def rehome_mn_coa_entry_weight_2_def)

text \<open>What is left of the home agents once entry \<open>r\<close> has lost its care-of address.\<close>

definition remaining :: "udpmysip \<Rightarrow> ptr \<Rightarrow> addr list" where
  "remaining s r = active_cons (se_write r (set_con (- 1)) s)"

lemma remaining_iff:
  "c \<in> set (remaining s r) \<longleftrightarrow> (\<exists>r' e. r' \<noteq> r \<and> se_at s r' = Some e \<and> is_active e \<and> se_con e = c)"
  by (auto simp: remaining_def active_cons_set se_at_write is_active_def split: if_splits)

lemma re_homing_step:
  assumes "sel_mode s \<in> {1, 2, 3, 4}"
    and "sip_get_entry_by_iface_ptr n s i = Some r" and "sip_get_entry_without_iface n s i \<noteq> None"
    and "se_at s r = Some brk" and "se_type brk = SIP_MR_HA" and "se_con brk \<noteq> - 1"
    and "sel_mode s \<noteq> 4 \<or> length (remaining s r) \<noteq> 1 \<or> weight_count2 s \<noteq> 0"
  shows "\<exists>s'. sip_re_homing now n m s i = Inr (s', []) \<and> (\<forall>r' e. se_at s r' = Some e \<longrightarrow>
    (\<exists>e'. se_at s' r' = Some e' \<and>
       (if se_type e = SIP_MN \<and> se_con e = se_con brk
        then \<exists>c. e' = set_con c e \<and> (if remaining s r = [] then c = - 1 else c \<in> set (remaining s r))
        else e' = (if r' = r then set_con (- 1) e else e))))"
proof -
  let ?s = "se_write r (set_con (- 1)) s"
  obtain s' where s': "rehome_select ?s (se_con brk) = Inr s'"
    using assms(1,7) rehome_select_total [of ?s "se_con brk"] by (auto simp: remaining_def)
  have "sel_mode ?s \<in> {1, 2, 3, 4}" using assms(1) by simp
  from rehome_select_entries [OF this s', folded remaining_def] obtain f where
    f: "\<forall>r'. if remaining s r = [] then f r' = - 1 else f r' \<in> set (remaining s r)"
    "\<And>r'. se_at s' r' = map_option (\<lambda>e. if se_type e = SIP_MN \<and> se_con e = se_con brk
        then set_con (f r') e else e) (se_at ?s r')"
    by blast
  have "se_at s r \<noteq> None" using assms(4) by simp
  then have "sip_re_homing now n m s i = Inr (s', [])"
    using assms(1-4) s' by (simp add: sip_re_homing_def re_homing_select_def)
  moreover have "\<exists>e'. se_at s' r' = Some e' \<and>
       (if se_type e = SIP_MN \<and> se_con e = se_con brk
        then \<exists>c. e' = set_con c e \<and> (if remaining s r = [] then c = - 1 else c \<in> set (remaining s r))
        else e' = (if r' = r then set_con (- 1) e else e))" if e: "se_at s r' = Some e" for r' e
  proof (cases "se_type e = SIP_MN \<and> se_con e = se_con brk")
    case True
    with e assms(4,5) have "se_at ?s r' = Some e" by (auto simp: se_at_write)
    with True f(2) [of r'] have "se_at s' r' = Some (set_con (f r') e)" by simp
    moreover have "\<exists>c. set_con (f r') e = set_con c e \<and>
        (if remaining s r = [] then c = - 1 else c \<in> set (remaining s r))" using f(1) by blast
    ultimately show ?thesis using True by (simp only: if_True option.inject simp_thms)
  next
    case False
    with e assms(4-6) f(2) [of r'] show ?thesis by (cases "r' = r") (auto simp: se_at_write)
  qed
  ultimately show ?thesis by blast
qed

text \<open>
  C31: A router with a selection policy that loses an interface sends nothing. The entry of the
  interface loses its care-of address, every mobile node that was at that address is moved to the
  care-of address of a home agent that is still active, or to none (-1) when none is, and nothing
  else changes: in particular no node is left at the lost address. (The second weighted policy
  needs a second remaining home agent, or not to be its first time.)
\<close>

theorem re_homing_moves_nodes:
  assumes "sel_mode s \<in> {1, 2, 3, 4}"
    and "sip_get_entry_by_iface_ptr n s i = Some r" and "sip_get_entry_without_iface n s i \<noteq> None"
    and "se_at s r = Some brk" and "se_type brk = SIP_MR_HA" and "se_con brk \<noteq> - 1"
    and "sel_mode s \<noteq> 4 \<or> length (remaining s r) \<noteq> 1 \<or> weight_count2 s \<noteq> 0"
  shows "\<exists>s'. sip_re_homing now n m s i = Inr (s', []) \<and> (\<forall>r' e. se_at s r' = Some e \<longrightarrow>
    (\<exists>e'. se_at s' r' = Some e' \<and>
       (if se_type e = SIP_MN \<and> se_con e = se_con brk
        then \<exists>c. e' = set_con c e \<and> (if remaining s r = [] then c = - 1 else c \<in> set (remaining s r))
        else e' = (if r' = r then set_con (- 1) e else e))))"
  using assms by (rule re_homing_step)

definition demo_faces :: net where
  "demo_faces = \<lparr>node_addr = (\<lambda>i. 0x1801), base_stn = (\<lambda>i. 0x1800),
     nemos = (\<lambda>a. \<lparr>here_addr = 0x2801, here_port = 1, dst_addr = 0, dst_port = 0, ag_type = PT_NEMO,
       ag_size = 0, ag_prio = 0, nemo_iface = Some a\<rparr>), layout = default_layout\<rparr>"

lemma demo_router_entries [simp]:
  "se_at (demo_router k) 3 = Some (demo_mr_ha 0x1801 4 0x2800)"
  "se_at (demo_router k) 0 = Some (demo_mn 22 0x1801)"
  by (simp_all add: se_at_def demo_router_def)

lemma demo_router_ifaces [simp]:
  "sip_get_entry_by_iface_ptr demo_faces (demo_router k) 4 = Some 3"
  "sip_get_entry_without_iface demo_faces (demo_router k) 4 = Some (demo_mr_ha 0x3001 5 0x2800)"
  by (simp_all add: se_lookup_defs sip_eface_is_def sip_eface_is_not_def demo_faces_def demo_router_defs)

lemma demo_router_weight [simp]: "weight_count2 (demo_router k) = 0"
  by (simp add: demo_router_def)

lemma demo_router_remaining [simp]: "remaining (demo_router k) 3 = [0x3001]"
  by (simp add: remaining_def active_cons_def se_write_def demo_router_defs is_active_def)

theorem re_homing_moves_nodes_witness:
  "\<exists>s'. sip_re_homing 0 demo_faces None (demo_router 2) 4 = Inr (s', [])
     \<and> se_at s' 3 = Some (demo_mr_ha (- 1) 4 0x2800) \<and> se_at s' 0 = Some (demo_mn 22 0x3001)"
proof -
  let ?b = "demo_mr_ha 0x1801 4 0x2800" and ?s = "demo_router 2"
  have "\<exists>s'. sip_re_homing 0 demo_faces None ?s 4 = Inr (s', []) \<and> (\<forall>r' e. se_at ?s r' = Some e \<longrightarrow>
    (\<exists>e'. se_at s' r' = Some e' \<and> (if se_type e = SIP_MN \<and> se_con e = se_con ?b
        then \<exists>c. e' = set_con c e \<and> (if remaining ?s 3 = [] then c = - 1 else c \<in> set (remaining ?s 3))
        else e' = (if r' = 3 then set_con (- 1) e else e))))"
    by (rule re_homing_moves_nodes) (simp_all add: demo_mr_ha_def new_SIPEntry_def)
  then obtain s' where *: "sip_re_homing 0 demo_faces None ?s 4 = Inr (s', [])"
    "\<And>r' e. se_at ?s r' = Some e \<Longrightarrow> (\<exists>e'. se_at s' r' = Some e' \<and> (if se_type e = SIP_MN \<and> se_con e = se_con ?b
        then \<exists>c. e' = set_con c e \<and> (if remaining ?s 3 = [] then c = - 1 else c \<in> set (remaining ?s 3))
        else e' = (if r' = 3 then set_con (- 1) e else e)))" by blast
  from *(1) *(2) [OF demo_router_entries(1)] *(2) [OF demo_router_entries(2)] show ?thesis
    by (simp add: demo_mr_ha_def demo_mn_def new_SIPEntry_def)
qed

text \<open>
  The second weighted policy reads the second element of the list of remaining home agents
  the first time it moves a node: with exactly one remaining home agent the loss of an interface
  that has nodes ends in an access out of range.
\<close>

theorem re_homing_weight_2_overrun:
  assumes "sel_mode s = 4" and "weight_count2 s = 0"
    and "sip_get_entry_by_iface_ptr n s i = Some r" and "sip_get_entry_without_iface n s i \<noteq> None"
    and "se_at s r = Some brk" and "se_type brk = SIP_MR_HA"
    and "se_at s r_mn = Some mn" and "se_type mn = SIP_MN" and "se_con mn = se_con brk"
    and "length (remaining s r) = 1"
  shows "sip_re_homing now n m s i = Inl OutOfRange"
proof -
  let ?s = "se_write r (set_con (- 1)) s"
  have "se_at ?s r_mn = Some mn" using assms(5-8) by (auto simp: se_at_write)
  then have "r_mn \<in> set (mn_ptrs_at ?s (se_con brk))"
    using assms(8,9) by (simp add: mn_ptrs_at_def all_ptrs_set se_at_def)
  then obtain r1 rs where "mn_ptrs_at ?s (se_con brk) = r1 # rs" by (cases "mn_ptrs_at ?s (se_con brk)") auto
  moreover obtain c1 where "active_cons ?s = [c1]"
    using assms(10) by (auto simp: remaining_def length_Suc_conv)
  ultimately have "rehome_select ?s (se_con brk) = Inl OutOfRange"
    using assms(1,2) by (simp add: rehome_select_def rehome_mn_coa_entry_weight_2_def Let_def)
  with assms show ?thesis by (auto simp: sip_re_homing_def re_homing_select_def)
qed

theorem re_homing_weight_2_overrun_witness:
  "weight_count2 (demo_router 4) = 0
   \<and> sip_re_homing 0 demo_faces None (demo_router 4) 4 = Inl OutOfRange"
  using re_homing_weight_2_overrun [of "demo_router 4" demo_faces 4 3 "demo_mr_ha 0x1801 4 0x2800" 0 "demo_mn 22 0x1801" 0 None]
  by (simp add: demo_mr_ha_def demo_mn_def new_SIPEntry_def)

end
