(* ===== verification/Sip_Props.thy ===== *)
theory Sip_Props
  imports Sip_Policies Sip_Recv
begin

text \<open>
  Properties of \<^const>\<open>sip_recv\<close> and \<^const>\<open>send_reg_msg\<close>: registration of a router's care-of address,
  the home agents as location services, redirection of calls, and the router as registrar of the
  nodes of its mobile network.
\<close>

section \<open>Gaining an interface\<close>

lemma renew_rr_loop_total:
  "\<forall>r \<in> set rs. r < length (siplist s) \<Longrightarrow> \<exists>s'. renew_rr_loop c i rs v s = Inr s'"
proof (induction rs arbitrary: i v s)
  case (Cons r rs)
  then obtain e where "se_at s r = Some e" by (auto simp: se_at_def entry_at_eq_nth)
  moreover have "\<exists>s'. renew_rr_loop c (Suc i) rs v' (if b then se_write r (set_con c) s else s) = Inr s'" for v' b
    using Cons.prems by (intro Cons.IH) (auto simp: se_write_def)
  ultimately show ?case by (simp split: prod.split)
qed simp

lemma renew_select_total: "\<exists>s'. renew_select s c = Inr s'"
proof -
  have "\<exists>s'. renew_rr_loop c 0 (mn_ptrs s) v s = Inr s'" for v
    by (rule renew_rr_loop_total) (auto simp: mn_ptrs_def dest: all_ptrs_lt)
  then show ?thesis by (auto simp: renew_select_def renew_mn_coa_entry_round_robin_def)
qed

text \<open>
  A router with a selection policy that gets an address on an interface registers it with the
  home agent of that interface, after 0.1 s, under its own id. In its table the entry of the home agent gets the
  address; a mobile node keeps its care-of address or is moved to the new one, and nothing else
  changes.
\<close>

theorem router_registers_care_of_address:
  assumes "sip_node_type s = SIP_MR" and "sel_mode s \<in> {1, 2, 3, 4}"
    and "sip_get_entry_by_iface_ptr n s i = Some r" and "se_at s r = Some ha" and "se_type ha = SIP_MR_HA"
  shows "\<exists>s' p. send_reg_msg now n m s pfx i = Inr (s', [Schedule i p (1 / 10)])
    \<and> mmethod (mh p) = 5 \<and> From_id (mh p) = se_url_id ha \<and> contact_id (mh p) = se_url_id ha
    \<and> contact (mh p) = node_addr n i \<and> saddr p = node_addr n i \<and> daddr p = se_addr ha
    \<and> (\<forall>r' e. se_at s r' = Some e \<longrightarrow>
        (if se_type e = SIP_MN then se_at s' r' \<in> {Some e, Some (set_con (node_addr n i) e)}
         else se_at s' r' = Some (if r' = r then set_con (node_addr n i) e else e)))"
proof -
  let ?a = "node_addr n i"
  let ?s = "se_write r (set_con ?a) s" and ?ha = "set_con ?a ha"
  obtain s' where s': "renew_select ?s ?a = Inr s'" using renew_select_total by blast
  have "sel_mode ?s \<in> {1, 2, 3, 4}" using assms(2) by simp
  from renew_select_entries [OF this s'] obtain R where R:
    "\<And>r'. se_at s' r' = map_option (\<lambda>e. if se_type e = SIP_MN \<and> r' \<in> R then set_con ?a e else e) (se_at ?s r')"
    by blast
  let ?p = "sip_packet ?s (reg_hdr now ?ha ?a) ?a (se_addr ha)"
  have "send_reg_msg now n m s pfx i = Inr (s', [Schedule i ?p (1 / 10)])"
    using assms s' by (simp add: send_reg_msg_def se_at_write Let_def) (simp add: se_write_def)
  moreover have "if se_type e = SIP_MN then se_at s' r' \<in> {Some e, Some (set_con ?a e)}
      else se_at s' r' = Some (if r' = r then set_con ?a e else e)" if "se_at s r' = Some e" for r' e
    using that assms(4,5) R [of r'] by (auto simp: se_at_write)
  moreover have "mmethod (mh ?p) = 5" "From_id (mh ?p) = se_url_id ha" "contact_id (mh ?p) = se_url_id ha"
    "contact (mh ?p) = ?a" "saddr ?p = ?a" "daddr ?p = se_addr ha"
    by (simp_all add: sip_packet_def reg_hdr_def sip_msg_def)
  ultimately show ?thesis by blast
qed

lemma demo_faces_addr [simp]: "node_addr demo_faces i = 0x1801"
  by (simp add: demo_faces_def)

lemma demo_router_face5 [simp]:
  "sip_get_entry_by_iface_ptr demo_faces (demo_router k) 5 = Some 2"
  "se_at (demo_router k) 2 = Some (demo_mr_ha 0x3001 5 0x2800)"
  "sip_node_type (demo_router k) = SIP_MR"
  by (simp_all add: se_lookup_defs sip_eface_is_def demo_faces_def demo_router_defs se_at_def)

lemma demo_mr_ha_type [simp]: "se_type (demo_mr_ha c a q) = SIP_MR_HA"
  by (simp add: demo_mr_ha_def new_SIPEntry_def)

theorem router_registers_care_of_address_witness:
  "\<exists>s' p. send_reg_msg 0 demo_faces None (demo_router 1) 0x1800 5 = Inr (s', [Schedule 5 p (1 / 10)])
     \<and> mmethod (mh p) = 5 \<and> contact (mh p) = 0x1801"
  using router_registers_care_of_address 
    [of "demo_router 1" demo_faces 5 2 "demo_mr_ha 0x3001 5 0x2800" 0 None "0x1800"]
  by (simp add: demo_faces_addr) blast

section \<open>The home agents as location services\<close>

text \<open>An agent that handles a sequence of packets.\<close>

fun sip_exec :: "udpmysip \<Rightarrow> (time \<times> net \<times> mip6 option \<times> packet) list \<Rightarrow> (udpmysip \<times> action list) res" where
  "sip_exec s [] = Inr (s, [])"
| "sip_exec s ((now, n, m, p) # ps) =
     bind_res (sip_recv now n m s p) (\<lambda>(_, s1, out).
     bind_res (sip_exec s1 ps) (\<lambda>(s2, outs). Inr (s2, out @ outs)))"

text \<open>The messages that a home agent registers.\<close>

definition is_registration :: "SipNodeType \<Rightarrow> addr \<Rightarrow> packet \<Rightarrow> bool" where
  "is_registration t a p \<longleftrightarrow>
     (t = SIP_MN_HA \<and> mmethod (mh p) = 5) \<or>
     (t = SIP_MR_HA \<and> (mmethod (mh p) = 9 \<or> mmethod (mh p) = 5 \<and> daddr p = a))"

definition registered :: "SipNodeType \<Rightarrow> addr \<Rightarrow> packet list \<Rightarrow> (addr \<rightharpoonup> addr)" where
  "registered t a ps = map_of (rev (map (\<lambda>p. (From_id (mh p), contact (mh p))) (filter (is_registration t a) ps)))"

lemma deliver_fields [simp]:
  "siplist (fst (sip_deliver s p b)) = siplist s"
  "sip_node_type (fst (sip_deliver s p b)) = sip_node_type s"
  "here_addr (fst (sip_deliver s p b)) = here_addr s"
  "here_port (fst (sip_deliver s p b)) = here_port s"
  "sip_mr_bs_daddr (fst (sip_deliver s p b)) = sip_mr_bs_daddr s"
  by (simp_all add: sip_deliver_def reassemble_def Let_def)

lemma registration_fields [simp]:
  "sip_node_type (sip_registration p t s) = sip_node_type s"
  "here_addr (sip_registration p t s) = here_addr s"
  by (cases t; simp add: sip_registration_def Let_def)+

lemma contacts_cong: "siplist s = siplist s' \<Longrightarrow> contacts s = contacts s'"
  by (simp add: contacts_def)

lemma sip_recv_Inr:
  "sip_recv now n m s p = Inr (n', s', out) \<longleftrightarrow> (\<exists>s1 p1 out1. sip_recv_method now n m s p = Inr (n', s1, p1, out1)
     \<and> s' = fst (sip_deliver s1 p1 (psize p)) \<and> out = out1 @ snd (sip_deliver s1 p1 (psize p)))"
  by (auto simp: sip_recv_def case_prod_unfold Let_def)

lemma home_agent_step:
  assumes "sip_node_type s \<in> {SIP_MN_HA, SIP_MR_HA}" and "sip_recv now n m s p = Inr (n', s', out)"
  shows "sip_node_type s' = sip_node_type s \<and> here_addr s' = here_addr s \<and>
    siplist s' = siplist (if is_registration (sip_node_type s) (here_addr s) p
      then sip_registration p (if sip_node_type s = SIP_MN_HA then SIP_MN else SIP_MR) s else s)"
proof -
  from assms(2) obtain s1 p1 out1 where
    1: "sip_recv_method now n m s p = Inr (n', s1, p1, out1)" "s' = fst (sip_deliver s1 p1 (psize p))"
    by (auto simp: sip_recv_Inr)
  from 1(1) assms(1) have "s1 = (if is_registration (sip_node_type s) (here_addr s) p
      then sip_registration p (if sip_node_type s = SIP_MN_HA then SIP_MN else SIP_MR) s else s)"
    by (auto simp: sip_recv_method_def sip_recv_MN_HA_def sip_recv_MR_HA_def Let_def is_registration_def
        split: if_splits)
  with 1(2) show ?thesis by simp
qed

lemma contacts_step:
  assumes "sip_node_type s \<in> {SIP_MN_HA, SIP_MR_HA}" and "sip_recv now n m s p = Inr (n', s', out)"
    and "is_registration (sip_node_type s) (here_addr s) p \<longrightarrow> From_id (mh p) = contact_id (mh p)"
  shows "contacts s' = contacts s ++ registered (sip_node_type s) (here_addr s) [p]"
  using home_agent_step [OF assms(1,2)] assms(3)
  by (auto simp: registered_def contacts_registration dest!: contacts_cong)

lemma registered_Cons: "registered t a (p # ps) = registered t a [p] ++ registered t a ps"
  by (simp add: registered_def)

lemma distinct_step:
  assumes "sip_node_type s \<in> {SIP_MN_HA, SIP_MR_HA}" and "sip_recv now n m s p = Inr (n', s', out)"
    and "From_id (mh p) = contact_id (mh p)" and "distinct (map se_url_id (siplist s))"
  shows "distinct (map se_url_id (siplist s'))"
  using home_agent_step [OF assms(1,2)] assms(3,4)
  by (auto simp: sip_registration_def Let_def sip_mn.distinct_reg sip_mr.distinct_reg)

lemma home_agent_run:
  assumes "sip_node_type s \<in> {SIP_MN_HA, SIP_MR_HA}" and "sip_exec s ps = Inr (s', out)"
    and "\<forall>(now, n, m, p) \<in> set ps. From_id (mh p) = contact_id (mh p)"
  shows "sip_node_type s' = sip_node_type s \<and> here_addr s' = here_addr s \<and>
    contacts s' = contacts s ++ registered (sip_node_type s) (here_addr s) (map (\<lambda>x. snd (snd (snd x))) ps) \<and>
    (distinct (map se_url_id (siplist s)) \<longrightarrow> distinct (map se_url_id (siplist s')))"
  using assms
proof (induction ps arbitrary: s out)
  case Nil
  then show ?case by (simp add: registered_def)
next
  case (Cons x ps)
  obtain now n m p where x: "x = (now, n, m, p)" by (cases x)
  with Cons.prems(2) obtain n1 s1 out1 out2 where
    1: "sip_recv now n m s p = Inr (n1, s1, out1)" "sip_exec s1 ps = Inr (s', out2)" by auto
  have st: "sip_node_type s1 = sip_node_type s" "here_addr s1 = here_addr s"
    using home_agent_step [OF Cons.prems(1) 1(1)] by blast+
  have "sip_node_type s1 \<in> {SIP_MN_HA, SIP_MR_HA}" using Cons.prems(1) st(1) by simp
  moreover have "\<forall>(now, n, m, p) \<in> set ps. From_id (mh p) = contact_id (mh p)" using Cons.prems(3) by simp
  ultimately have "sip_node_type s' = sip_node_type s \<and> here_addr s' = here_addr s \<and> contacts s' = contacts s1 ++
      registered (sip_node_type s) (here_addr s) (map (\<lambda>x. snd (snd (snd x))) ps) \<and>
      (distinct (map se_url_id (siplist s1)) \<longrightarrow> distinct (map se_url_id (siplist s')))"
    using Cons.IH [OF _ 1(2)] unfolding st by blast
  moreover have "contacts s1 = contacts s ++ registered (sip_node_type s) (here_addr s) [p]"
    using contacts_step [OF Cons.prems(1) 1(1)] Cons.prems(3) by (simp add: x)
  moreover have "From_id (mh p) = contact_id (mh p)" using Cons.prems(3) by (simp add: x)
  ultimately show ?case using distinct_step [OF Cons.prems(1) 1(1)]
    by (simp only: x list.map snd_conv registered_Cons [of _ _ p "map _ ps"] map_add_assoc) blast
qed

text \<open>
  C5: A home agent is a location service. After any sequence of messages that it handles, in which
  senders register their own id, an id resolves to the contact of its last registration in the
  sequence or, when there is none, to what it resolved to before; and an id never has two
  bindings.
\<close>

theorem home_agent_location_service:
  assumes "sip_node_type s \<in> {SIP_MN_HA, SIP_MR_HA}" and "sip_exec s ps = Inr (s', out)"
    and "\<forall>(now, n, m, p) \<in> set ps. From_id (mh p) = contact_id (mh p)"
  shows "contacts s' = contacts s ++ registered (sip_node_type s) (here_addr s) (map (\<lambda>x. snd (snd (snd x))) ps)
    \<and> (distinct (map se_url_id (siplist s)) \<longrightarrow> distinct (map se_url_id (siplist s')))"
  using home_agent_run [OF assms] by blast

definition demo_sip :: "SipNodeType \<Rightarrow> addr \<Rightarrow> udpmysip" where
  "demo_sip t a = (demo_router 0)\<lparr>sip_node_type := t, here_addr := a, siplist := []\<rparr>"

definition demo_register :: "addr \<Rightarrow> addr \<Rightarrow> packet" where
  "demo_register k c = sip_packet (demo_sip SIP_MN c) ((sip_msg 0 5)\<lparr>From_id := k, contact_id := k, contact := c\<rparr>) c 0x4001"

lemmas demo_sip_defs = demo_sip_def demo_register_def demo_router_def sip_packet_def sip_msg_def

lemma demo_ha_registers:
  "sip_exec (demo_sip SIP_MN_HA 0x4001) [(0, demo_faces, None, demo_register 21 0x1801)]
    = Inr (sip_registration (demo_register 21 0x1801) SIP_MN (demo_sip SIP_MN_HA 0x4001), [])"
  by (simp add: sip_recv_def sip_recv_method_def sip_recv_MN_HA_def sip_deliver_def demo_sip_defs
      sip_registration_def allocpkt_def)

theorem home_agent_location_service_witness:
  "contacts (sip_registration (demo_register 21 0x1801) SIP_MN (demo_sip SIP_MN_HA 0x4001)) 21 = Some 0x1801"
  using home_agent_location_service [OF _ demo_ha_registers]
  by (simp add: registered_def is_registration_def demo_sip_defs)

section \<open>Redirection\<close>

lemma url_id_contacts: "contacts s k = map_option se_con (sip_get_entry_by_url_id s k)"
  by (simp add: contacts_def resolve_def sip_get_entry_by_url_id_def se_find_def)

lemma deliver_local: "prio p \<noteq> 15 \<Longrightarrow> sip_deliver s p b = (s, if has_app s then [AppRecv b] else [])"
  by (simp add: sip_deliver_def)

text \<open>Where an invitation for \<open>k\<close> is redirected to: its contact, or the contact of a router.\<close>

definition redirect_to :: "udpmysip \<Rightarrow> addr \<Rightarrow> addr option" where
  "redirect_to s k =
     (case contacts s k of Some c \<Rightarrow> Some c | None \<Rightarrow> map_option se_con (sip_get_entry_by_type s SIP_MR))"

lemma redirect_step:
  assumes "sip_node_type s \<in> {SIP_MN_HA, SIP_MR_HA}" and "mmethod (mh p) = 0"
  shows "case redirect_to s (requestURL_id (mh p)) of
       None \<Rightarrow> sip_recv now n m s p = Inl NullPtr
     | Some c \<Rightarrow> \<exists>ci. sip_recv now n m s p = Inr (n, s, Send (fresh_copy s (temp_move s p ci c))
           # (if has_app s then [AppRecv (psize p)] else []))"
  using assms by (auto simp: sip_recv_def sip_recv_method_def sip_recv_MN_HA_def sip_recv_MR_HA_def redirect_to_def
      send_temp_move_pkt_def url_id_contacts deliver_local Let_def split: option.splits)

text \<open>
  An invitation to a home agent is answered with 302 and the contact of the callee, sent to the
  contact of the caller. A callee that is not registered is taken to be behind the router that is
  registered; when there is none either, the agent dereferences a null pointer.
\<close>

theorem invitation_redirected:
  assumes "sip_node_type s \<in> {SIP_MN_HA, SIP_MR_HA}" and "mmethod (mh p) = 0"
  shows "case redirect_to s (requestURL_id (mh p)) of
       None \<Rightarrow> sip_recv now n m s p = Inl NullPtr
     | Some c \<Rightarrow> \<exists>q. sip_recv now n m s p = Inr (n, s, Send q # (if has_app s then [AppRecv (psize p)] else []))
         \<and> mmethod (mh q) = 6 \<and> contact (mh q) = c \<and> daddr q = contact (mh p) \<and> dport q = here_port s
         \<and> From_id (mh q) = From_id (mh p) \<and> To_id (mh q) = To_id (mh p) \<and> tunnels q = []"
  using redirect_step [OF assms, of now n m]
  by (auto simp: temp_move_def fresh_copy_def allocpkt_def split: option.splits)

definition demo_invite :: "addr \<Rightarrow> packet" where
  "demo_invite k = sip_packet (demo_sip SIP_CN 0x5001)
     ((sip_msg 0 0)\<lparr>requestURL_id := k, To_id := k, From_id := 50, contact_id := 50, contact := 0x5001\<rparr>) 0x5001 0x4001"

theorem invitation_redirected_witness:
  "sip_recv 0 demo_faces None (demo_sip SIP_MN_HA 0x4001) (demo_invite 21) = Inl NullPtr"
  using invitation_redirected [of "demo_sip SIP_MN_HA 0x4001" "demo_invite 21" 0 demo_faces None]
  by (simp add: redirect_to_def demo_invite_def demo_sip_defs contacts_def sip_get_entry_by_type_def se_find_def)

lemma cn_follows_redirection:
  assumes "sip_node_type s = SIP_CN" and "mmethod (mh q) = 6"
  shows "\<exists>r. sip_recv now n m s q = Inr (n, s, Send r # (if has_app s then [AppRecv (psize q)] else []))
    \<and> mmethod (mh r) = 0 \<and> daddr r = contact (mh q) \<and> requestURL (mh r) = contact (mh q)
    \<and> requestURL_id (mh r) = contact_id (mh q) \<and> To_id (mh r) = To_id (mh q) \<and> From_id (mh r) = From_id (mh q)"
  using assms by (auto simp: sip_recv_def sip_recv_method_def sip_recv_CN_def send_invite_to_temp_move_pkt_def
      deliver_local Let_def)

text \<open>
  Session mobility end to end. When a node has registered a contact at its home agent (last of
  all registrations of its id that the agent has handled), a correspondent that invites it there is
  redirected, and on receiving the answer sends its invitation to that contact.
\<close>

theorem call_redirection:
  assumes "sip_node_type s \<in> {SIP_MN_HA, SIP_MR_HA}" and "sip_exec s ps = Inr (s', outs)"
    and "\<forall>(now, n, m, p) \<in> set ps. From_id (mh p) = contact_id (mh p)"
    and "registered (sip_node_type s) (here_addr s) (map (\<lambda>x. snd (snd (snd x))) ps) k = Some c"
    and "mmethod (mh p) = 0" and "requestURL_id (mh p) = k" and "sip_node_type cn = SIP_CN"
  shows "\<exists>q r out out'. sip_recv now n m s' p = Inr (n, s', Send q # out) \<and> daddr q = contact (mh p)
    \<and> sip_recv now' n m' cn q = Inr (n, cn, Send r # out')
    \<and> mmethod (mh r) = 0 \<and> daddr r = c \<and> requestURL (mh r) = c
    \<and> From_id (mh r) = From_id (mh p) \<and> To_id (mh r) = To_id (mh p)"
proof -
  note run = home_agent_run [OF assms(1-3)]
  have "redirect_to s' k = Some c" using run assms(4) by (simp add: redirect_to_def)
  moreover have "sip_node_type s' \<in> {SIP_MN_HA, SIP_MR_HA}" using run assms(1) by simp
  ultimately obtain ci where q: "sip_recv now n m s' p =
      Inr (n, s', Send (fresh_copy s' (temp_move s' p ci c)) # (if has_app s' then [AppRecv (psize p)] else []))"
    using redirect_step [of s' p now n m] assms(5,6) by auto
  let ?q = "fresh_copy s' (temp_move s' p ci c)"
  have h: "mmethod (mh ?q) = 6" "contact (mh ?q) = c" "daddr ?q = contact (mh p)"
    "From_id (mh ?q) = From_id (mh p)" "To_id (mh ?q) = To_id (mh p)"
    by (simp_all add: temp_move_def fresh_copy_def)
  from cn_follows_redirection [OF assms(7) h(1), of now' n m'] q h show ?thesis by fastforce
qed

theorem call_redirection_witness:
  "\<exists>q r out out'. sip_recv 0 demo_faces None
       (sip_registration (demo_register 21 0x1801) SIP_MN (demo_sip SIP_MN_HA 0x4001)) (demo_invite 21)
     = Inr (demo_faces, sip_registration (demo_register 21 0x1801) SIP_MN (demo_sip SIP_MN_HA 0x4001), Send q # out)
   \<and> sip_recv 0 demo_faces None (demo_sip SIP_CN 0x5001) q = Inr (demo_faces, demo_sip SIP_CN 0x5001, Send r # out')
   \<and> daddr r = 0x1801"
  using call_redirection [OF _ demo_ha_registers, of 21 "0x1801" "demo_invite 21" "demo_sip SIP_CN 0x5001" 0 demo_faces None 0 None]
  by (simp add: registered_def is_registration_def demo_invite_def demo_sip_defs) blast

section \<open>The mobile router as registrar of its network\<close>

lemma siplist_register_new:
  assumes "sip_get_entry_by_url_id s (contact_id (mh p)) = None" and "From_id (mh p) = contact_id (mh p)"
  shows "\<exists>e. siplist (sip_registration p SIP_MN s) = e # siplist s \<and> se_type e = SIP_MN
    \<and> se_url_id e = contact_id (mh p) \<and> se_addr e = contact (mh p) \<and> se_prefix e = - 1"
proof -
  have "first_ptr (\<lambda>e. se_url_id e = contact_id (mh p)) (siplist s) = None"
    using assms(1) by (simp add: se_lookup_defs find_None_iff)
  then show ?thesis using assms(2)
    by (simp add: sip_registration_def Let_def sip_register_MN_def find_or_insert_def
        sip_update_entry_def new_SIPEntry_def del: first_ptr_None)
qed

lemma contacts_write:
  assumes "sip_get_entry_by_url_id_ptr s k = Some r"
  shows "contacts (se_write r (set_con c) s) = (contacts s)(k \<mapsto> c)"
  using assms by (simp add: contacts_def se_write_def sip_get_entry_by_url_id_ptr_def resolve_upd_first)

text \<open>The table of the router once the sender of a registration is in it.\<close>

definition known :: "udpmysip \<Rightarrow> packet \<Rightarrow> udpmysip" where
  "known s p = (case sip_get_entry_by_url_id s (contact_id (mh p)) of
     None \<Rightarrow> sip_registration p SIP_MN s | Some _ \<Rightarrow> s)"

lemma known_table:
  assumes "From_id (mh p) = contact_id (mh p)"
  shows "active_ptrs (known s p) = active_ptrs s" "r \<in> set (active_ptrs s) \<Longrightarrow> se_at (known s p) r = se_at s r"
    "sel_mode (known s p) = sel_mode s" "sip_get_entry_by_url_id_ptr (known s p) (contact_id (mh p)) \<noteq> None"
    "(contacts (known s p))(contact_id (mh p) \<mapsto> c) = (contacts s)(contact_id (mh p) \<mapsto> c)"
proof -
  let ?k = "contact_id (mh p)"
  have *: "active_ptrs (known s p) = active_ptrs s \<and> (r \<in> set (active_ptrs s) \<longrightarrow> se_at (known s p) r = se_at s r)
    \<and> ?k \<in> se_url_id ` set (siplist (known s p)) \<and> contacts (known s p) = (contacts s)(?k := contacts (known s p) ?k)"
  proof (cases "sip_get_entry_by_url_id s ?k")
    case None
    from siplist_register_new [OF this assms] obtain e where
      "siplist (known s p) = e # siplist s" "se_type e = SIP_MN" "se_url_id e = ?k"
      using None by (auto simp: known_def)
    then show ?thesis
      by (auto simp: active_ptrs_def is_active_def se_at_def contacts_def resolve_Cons fun_eq_iff dest: all_ptrs_lt)
  next
    case (Some e)
    then have "known s p = s" and "e \<in> set (siplist s)" and "se_url_id e = ?k"
      by (auto simp: known_def se_lookup_defs dest: find_SomeD)
    then show ?thesis by (simp add: image_iff) metis
  qed
  then show "active_ptrs (known s p) = active_ptrs s" "r \<in> set (active_ptrs s) \<Longrightarrow> se_at (known s p) r = se_at s r"
    "sip_get_entry_by_url_id_ptr (known s p) ?k \<noteq> None"
    by (auto simp: sip_get_entry_by_url_id_ptr_def simp del: not_None_eq)
  from * show "(contacts (known s p))(?k \<mapsto> c) = (contacts s)(?k \<mapsto> c)"
    by (metis fun_upd_upd)
  show "sel_mode (known s p) = sel_mode s"
    by (simp add: known_def sip_registration_def Let_def split: option.split)
qed

lemma select_fields:
  "select_mr_ha s pfx = Inr (ro, s') \<Longrightarrow>
     sip_node_type s' = sip_node_type s \<and> sip_mr_bs_daddr s' = sip_mr_bs_daddr s"
  by (auto simp: select_mr_ha_def get_mr_ha_entry_random_def get_mr_ha_entry_round_robin_def
      get_mr_ha_entry_weight_def get_mr_ha_entry_weight_2_def draw_def Let_def split: if_splits)

lemma known_fields [simp]:
  "sip_node_type (known s p) = sip_node_type s" "sip_mr_bs_daddr (known s p) = sip_mr_bs_daddr s"
  by (simp_all add: known_def sip_registration_def Let_def split: option.split)

text \<open>The router may pass a registration on: it has an active home agent, and interfaces to them.\<close>

definition connected :: "udpmysip \<Rightarrow> bool" where
  "connected s \<longleftrightarrow> sip_node_type s = SIP_MR \<and> sel_mode s \<in> {1, 2, 3, 4} \<and> active_ptrs s \<noteq> []
     \<and> (\<forall>e \<in> set (siplist s). is_active e \<longrightarrow> se_eface e \<noteq> None)"

lemma router_register_step:
  assumes "connected s" and "mmethod (mh p) = 5" and "From_id (mh p) = contact_id (mh p)"
  shows "\<exists>s' ha a q out r_mn. sip_recv now n m s p = Inr (n, s', SendVia a q # out)
    \<and> ha \<in> set (siplist s) \<and> is_active ha \<and> se_eface ha = Some a
    \<and> mmethod (mh q) = 5 \<and> From_id (mh q) = From_id (mh p)
    \<and> daddr q = requestURL (mh p) \<and> contact (mh q) = se_url ha
    \<and> sip_get_entry_by_url_id_ptr (known s p) (contact_id (mh p)) = Some r_mn
    \<and> siplist s' = upd_at r_mn (set_con (se_con ha)) (siplist (known s p))
    \<and> sip_node_type s' = SIP_MR \<and> sip_mr_bs_daddr s' = sip_mr_bs_daddr s
    \<and> contact_id (mh q) = contact_id (mh p)"
proof -
  let ?k = "contact_id (mh p)" and ?s = "known s p"
  note kt = known_table [OF assms(3)]
  have "sel_mode ?s \<in> {1, 2, 3, 4}" and "active_ptrs ?s \<noteq> []" using assms(1) kt by (simp_all add: connected_def)
  then obtain r s2 ha where sel: "select_mr_ha ?s (prefix_of (saddr p)) = Inr (Some r, s2)"
    "se_at ?s r = Some ha" "is_active ha" "siplist s2 = siplist ?s" using selected_home_agent by blast
  have "r \<in> set (active_ptrs s)" using sel(2,3) kt(1) by (metis active_ptrs_def all_ptrs_set se_at_def)
  then have ha: "ha \<in> set (siplist s)" using sel(2) kt(2) by (auto simp: se_at_def dest: entry_at_in_set)
  with assms(1) sel(3) obtain a where a: "se_eface ha = Some a" by (auto simp: connected_def)
  from kt(4) obtain r_mn where r_mn: "sip_get_entry_by_url_id_ptr ?s ?k = Some r_mn" by blast
  let ?s3 = "se_write r_mn (set_con (se_con ha)) s2" and ?p = "p\<lparr>mh := (mh p)\<lparr>contact := se_url ha\<rparr>\<rparr>"
  let ?q = "(fresh_copy ?s3 ?p)\<lparr>daddr := requestURL (mh p)\<rparr>"
  let ?s4 = "fst (sip_deliver ?s3 ?p (psize p))"
  have "sip_recv_method now n m s p = Inr (n, ?s3, ?p, [SendVia a ?q])"
    using assms(1,2) sel a r_mn by (simp add: sip_recv_method_def sip_recv_MR_def mr_recv_register_def Let_def
        known_def [symmetric] se_at_def via_eface_def connected_def)
  then have "sip_recv now n m s p = Inr (n, ?s4, SendVia a ?q # snd (sip_deliver ?s3 ?p (psize p)))"
    by (simp add: sip_recv_Inr)
  moreover have "siplist ?s4 = upd_at r_mn (set_con (se_con ha)) (siplist ?s)"
    "sip_node_type ?s4 = SIP_MR" "sip_mr_bs_daddr ?s4 = sip_mr_bs_daddr s"
    using sel(4) select_fields [OF sel(1)] assms(1) by (simp_all add: se_write_def connected_def)
  moreover have "mmethod (mh ?q) = 5" "From_id (mh ?q) = From_id (mh p)" "daddr ?q = requestURL (mh p)"
    "contact (mh ?q) = se_url ha" "contact_id (mh ?q) = ?k" using assms(2) by (simp_all add: fresh_copy_def)
  ultimately show ?thesis using ha sel(3) a r_mn by blast
qed

text \<open>
  A node of a mobile network registers through its router. The router chooses an active home
  agent by its policy, forwards the registration through the interface of that home agent with
  the router's own URL as contact, and binds the id of the node to the care-of address of the home agent;
  no other binding changes.
\<close>

theorem router_registers_node:
  assumes "connected s" and "mmethod (mh p) = 5" and "From_id (mh p) = contact_id (mh p)"
  shows "\<exists>s' ha a q out. sip_recv now n m s p = Inr (n, s', SendVia a q # out)
    \<and> ha \<in> set (siplist s) \<and> is_active ha \<and> se_eface ha = Some a
    \<and> mmethod (mh q) = 5 \<and> From_id (mh q) = From_id (mh p)
    \<and> daddr q = requestURL (mh p) \<and> contact (mh q) = se_url ha
    \<and> contacts s' = (contacts s)(contact_id (mh p) \<mapsto> se_con ha)"
proof -
  from router_register_step [OF assms, of now n m] obtain s' ha a q out r_mn where
    1: "sip_recv now n m s p = Inr (n, s', SendVia a q # out)" "ha \<in> set (siplist s)" "is_active ha"
      "se_eface ha = Some a" "mmethod (mh q) = 5" "From_id (mh q) = From_id (mh p)"
      "daddr q = requestURL (mh p)" "contact (mh q) = se_url ha"
    and 2: "sip_get_entry_by_url_id_ptr (known s p) (contact_id (mh p)) = Some r_mn"
      "siplist s' = upd_at r_mn (set_con (se_con ha)) (siplist (known s p))" by blast
  have "contacts s' = contacts (se_write r_mn (set_con (se_con ha)) (known s p))"
    using 2(2) by (simp add: contacts_def se_write_def)
  also have "\<dots> = (contacts s)(contact_id (mh p) \<mapsto> se_con ha)"
    using contacts_write [OF 2(1)] known_table(5) [OF assms(3)] by simp
  finally show ?thesis using 1 by blast
qed

lemma demo_router_contacts:
  "siplist (demo_router k) = [demo_mr_ha 0x1801 4 0x2800, demo_mr_ha 0x3001 5 0x2800, demo_mn 21 0x1801, demo_mn 22 0x1801]"
  by (simp add: demo_router_def)

theorem router_registers_node_witness:
  "\<exists>s' a q out c. sip_recv 0 demo_faces None (demo_router 2) (demo_register 23 0x2807)
      = Inr (demo_faces, s', SendVia a q # out) \<and> mmethod (mh q) = 5 \<and> contacts s' 23 = Some c"
proof -
  have "mmethod (mh (demo_register 23 0x2807)) = 5"
    "From_id (mh (demo_register 23 0x2807)) = contact_id (mh (demo_register 23 0x2807))"
    "contact_id (mh (demo_register 23 0x2807)) = 23"
    by (simp_all add: demo_register_def sip_packet_def sip_msg_def)
  with router_registers_node [of "demo_router 2" "demo_register 23 0x2807" 0 demo_faces None] show ?thesis
    by (fastforce simp: demo_router_contacts demo_mr_ha_def demo_mn_def new_SIPEntry_def is_active_def connected_def)
qed

text \<open>A call from outside, to a node that the router knows.\<close>

lemma prefix_of_not_minus1: "prefix_of a \<noteq> - 1"
proof
  assume "prefix_of a = - 1"
  then have "bit (prefix_of a) 0" by simp
  then show False by (simp add: bit_prefix_of)
qed

lemma siplist_register_cn:
  assumes "sip_get_entry_by_url_id s (From_id (mh p)) = None"
  shows "\<exists>e. siplist (sip_registration p SIP_CN s) = e # siplist s \<and> se_url_id e = From_id (mh p) \<and> se_prefix e = - 1"
proof -
  have "first_ptr (\<lambda>e. se_url_id e = From_id (mh p)) (siplist s) = None"
    using assms by (simp add: se_lookup_defs find_None_iff)
  then show ?thesis
    by (simp add: sip_registration_def Let_def sip_register_CN_def find_or_insert_def
        sip_update_entry_def new_SIPEntry_def del: first_ptr_None)
qed

lemma router_invite_step:
  assumes "sip_node_type s = SIP_MR" and "mmethod (mh p) \<in> {0, 7}"
    and "get_mn_entry_by_url_id s (From_id (mh p)) = None" and "From_id (mh p) \<noteq> To_id (mh p)"
    and "sip_get_entry_by_url_id s (To_id (mh p)) = Some mn" and "sip_mr_bs_daddr s = - 1"
    and "sip_get_iface_agent_by_prefix s (prefix_of (se_addr mn)) = Some a"
  shows "\<exists>s' . sip_recv now n m s p = Inr (n, s', SendVia a (p\<lparr>daddr := se_addr mn\<rparr>)
      # (if has_app s then [AppRecv (psize p)] else []))
    \<and> contacts s' = (if contacts s (From_id (mh p)) = None
        then (contacts s)(From_id (mh p) \<mapsto> contact (mh p)) else contacts s)"
proof -
  let ?s = "case sip_get_entry_by_url_id s (From_id (mh p)) of None \<Rightarrow> sip_registration p SIP_CN s | Some _ \<Rightarrow> s"
  have "sip_get_entry_by_url_id ?s (To_id (mh p)) = Some mn"
    "sip_get_iface_agent_by_prefix ?s (prefix_of (se_addr mn)) = Some a"
    using siplist_register_cn [of s p] assms(4-7) prefix_of_not_minus1 [of "se_addr mn"]
    by (auto simp: se_lookup_defs split: option.splits)
  moreover have "sip_mr_bs_daddr ?s = - 1" "has_app ?s = has_app s"
    using assms(6) by (auto simp: sip_registration_def Let_def split: option.splits)
  moreover have "contacts ?s = (if contacts s (From_id (mh p)) = None
        then (contacts s)(From_id (mh p) \<mapsto> contact (mh p)) else contacts s)"
    by (auto simp: url_id_contacts contacts_registration split: option.splits)
  ultimately show ?thesis using assms(1-3)
    by (auto simp: sip_recv_def sip_recv_method_def sip_recv_MR_def mr_recv_invite_def mr_recv_invite_from_cn_def
        sip_via_mr_bs_def to_mobile_net_def deliver_local Let_def)
qed

text \<open>A registration through the router, and any call for the node that follows it.\<close>

lemma router_serves_new_node:
  assumes "connected s" and "mmethod (mh p) = 5" and "From_id (mh p) = contact_id (mh p)"
    and "sip_get_entry_by_url_id s (contact_id (mh p)) = None" and "sip_mr_bs_daddr s = - 1"
    and "sip_get_iface_agent_by_prefix s (prefix_of (contact (mh p))) = Some a"
  shows "\<exists>s1 a1 q ha out1. sip_recv now n m s p = Inr (n, s1, SendVia a1 q # out1)
    \<and> ha \<in> set (siplist s) \<and> is_active ha \<and> mmethod (mh q) = 5 \<and> From_id (mh q) = contact_id (mh p)
    \<and> contact_id (mh q) = contact_id (mh p) \<and> contact (mh q) = se_url ha \<and> daddr q = requestURL (mh p)
    \<and> (\<forall>p2 now2 n2 m2. mmethod (mh p2) \<in> {0, 7} \<and> To_id (mh p2) = contact_id (mh p)
         \<and> From_id (mh p2) \<noteq> To_id (mh p2) \<and> get_mn_entry_by_url_id s (From_id (mh p2)) = None \<longrightarrow>
         (\<exists>s2 out2. sip_recv now2 n2 m2 s1 p2 = Inr (n2, s2, SendVia a (p2\<lparr>daddr := contact (mh p)\<rparr>) # out2)))"
proof -
  let ?k = "contact_id (mh p)"
  from router_register_step [OF assms(1-3), of now n m] obtain s1 a1 q out1 r_mn and ha :: SIPEntry where
    1: "sip_recv now n m s p = Inr (n, s1, SendVia a1 q # out1)"
      "sip_get_entry_by_url_id_ptr (known s p) ?k = Some r_mn"
      "siplist s1 = upd_at r_mn (set_con (se_con ha)) (siplist (known s p))"
      "sip_node_type s1 = SIP_MR" "sip_mr_bs_daddr s1 = sip_mr_bs_daddr s"
    and 2: "ha \<in> set (siplist s)" "is_active ha" "mmethod (mh q) = 5" "From_id (mh q) = ?k" "contact_id (mh q) = ?k"
      "contact (mh q) = se_url ha" "daddr q = requestURL (mh p)"
    unfolding assms(3) by blast
  from siplist_register_new [OF assms(4,3)] assms(4) obtain e where e: "siplist (known s p) = e # siplist s"
    "se_type e = SIP_MN" "se_url_id e = ?k" "se_addr e = contact (mh p)" "se_prefix e = - 1"
    by (auto simp: known_def)
  let ?e = "set_con (se_con ha) e"
  have s1: "siplist s1 = ?e # siplist s"
    using 1(2,3) e by (simp add: sip_get_entry_by_url_id_ptr_def)
  have "sip_get_iface_agent_by_prefix s1 (prefix_of (se_addr ?e)) = Some a"
    using assms(6) e(4,5) prefix_of_not_minus1 [of "contact (mh p)"] by (simp add: se_lookup_defs s1)
  moreover have "sip_mr_bs_daddr s1 = - 1" using 1(5) assms(5) by simp
  ultimately have "\<exists>s2 out2. sip_recv now2 n2 m2 s1 p2 = Inr (n2, s2, SendVia a (p2\<lparr>daddr := contact (mh p)\<rparr>) # out2)"
    if "mmethod (mh p2) \<in> {0, 7}" "To_id (mh p2) = ?k" "From_id (mh p2) \<noteq> To_id (mh p2)"
      "get_mn_entry_by_url_id s (From_id (mh p2)) = None" for p2 now2 n2 m2
  proof -
    have "get_mn_entry_by_url_id s1 (From_id (mh p2)) = None" "sip_get_entry_by_url_id s1 (To_id (mh p2)) = Some ?e"
      using that(2-4) e(3) by (simp_all add: se_lookup_defs s1)
    with router_invite_step [OF 1(4) that(1), of ?e a now2 n2 m2] that(3) e(4)
      \<open>sip_get_iface_agent_by_prefix s1 _ = _\<close> \<open>sip_mr_bs_daddr s1 = - 1\<close> show ?thesis by auto
  qed
  with 1(1) 2 show ?thesis by blast
qed

text \<open>
  Calls reach the nodes of a mobile network. Once a node that was unknown to the router has registered
  through it, an invitation or data for the node's id, from a sender outside the network, goes out on the
  interface that serves the prefix of the node's address, to that address.
\<close>

theorem router_call_path:
  assumes "connected s" and "mmethod (mh p) = 5" and "From_id (mh p) = contact_id (mh p)"
    and "sip_get_entry_by_url_id s (contact_id (mh p)) = None" and "sip_mr_bs_daddr s = - 1"
    and "sip_get_iface_agent_by_prefix s (prefix_of (contact (mh p))) = Some a"
    and "mmethod (mh p2) \<in> {0, 7}" and "To_id (mh p2) = contact_id (mh p)" and "From_id (mh p2) \<noteq> To_id (mh p2)"
    and "get_mn_entry_by_url_id s (From_id (mh p2)) = None"
  shows "\<exists>s1 out1 s2 out2. sip_recv now n m s p = Inr (n, s1, out1)
    \<and> sip_recv now2 n2 m2 s1 p2 = Inr (n2, s2, SendVia a (p2\<lparr>daddr := contact (mh p)\<rparr>) # out2)"
  using router_serves_new_node [OF assms(1-6), of now n m] assms(7-10) by blast

theorem router_call_path_witness:
  "\<exists>s1 out1 s2 out2. sip_recv 0 demo_faces None (demo_router 2) (demo_register 23 0x2807) = Inr (demo_faces, s1, out1)
    \<and> sip_recv 1 demo_faces None s1 (demo_invite 23)
        = Inr (demo_faces, s2, SendVia 3 ((demo_invite 23)\<lparr>daddr := 0x2807\<rparr>) # out2)"
proof -
  have "connected (demo_router 2)"
    by (simp add: connected_def demo_router_contacts demo_mr_ha_def demo_mn_def new_SIPEntry_def is_active_def)
  moreover have "sip_get_iface_agent_by_prefix (demo_router 2) (prefix_of 0x2807) = Some 3"
    by (simp add: se_lookup_defs demo_router_defs prefix_of_def net_mask_def)
  moreover have "sip_get_entry_by_url_id (demo_router 2) 23 = None" "sip_mr_bs_daddr (demo_router 2) = - 1"
    "get_mn_entry_by_url_id (demo_router 2) 50 = None"
    by (simp_all add: se_lookup_defs demo_router_defs)
  ultimately show ?thesis
    using router_call_path [of "demo_router 2" "demo_register 23 0x2807" 3 "demo_invite 23" 0 demo_faces None 1 demo_faces None]
    by (simp add: demo_register_def demo_invite_def sip_packet_def sip_msg_def)
qed

section \<open>A call to a node in a mobile network\<close>

lemma redirect_registered:
  assumes "sip_node_type s \<in> {SIP_MN_HA, SIP_MR_HA}" and "mmethod (mh p) = 0"
    and "sip_get_entry_by_url_id s (requestURL_id (mh p)) = Some e"
  shows "sip_recv now n m s p = Inr (n, s, Send (fresh_copy s (temp_move s p (se_con_id e) (se_con e)))
    # (if has_app s then [AppRecv (psize p)] else []))"
  using assms by (auto simp: sip_recv_def sip_recv_method_def sip_recv_MN_HA_def sip_recv_MR_HA_def
      send_temp_move_pkt_def deliver_local Let_def)

lemma redirect_to_router:
  assumes "sip_node_type s \<in> {SIP_MN_HA, SIP_MR_HA}" and "mmethod (mh p) = 0"
    and "sip_get_entry_by_url_id s (requestURL_id (mh p)) = None" and "sip_get_entry_by_type s SIP_MR = Some mr"
  shows "sip_recv now n m s p = Inr (n, s, Send (fresh_copy s (temp_move s p (requestURL_id (mh p)) (se_con mr)))
    # (if has_app s then [AppRecv (psize p)] else []))"
  using assms by (auto simp: sip_recv_def sip_recv_method_def sip_recv_MN_HA_def sip_recv_MR_HA_def
      send_temp_move_pkt_def deliver_local Let_def)

lemma temp_move_fields:
  "mmethod (mh (fresh_copy s (temp_move s p ci c))) = 6" "contact (mh (fresh_copy s (temp_move s p ci c))) = c"
  "contact_id (mh (fresh_copy s (temp_move s p ci c))) = ci" "daddr (fresh_copy s (temp_move s p ci c)) = contact (mh p)"
  "To_id (mh (fresh_copy s (temp_move s p ci c))) = To_id (mh p)"
  "From_id (mh (fresh_copy s (temp_move s p ci c))) = From_id (mh p)"
  by (simp_all add: temp_move_def fresh_copy_def)

lemma home_agent_registers_new:
  assumes "sip_node_type s = SIP_MN_HA" and "mmethod (mh q) = 5" and "From_id (mh q) = k" and "contact_id (mh q) = k"
    and "sip_get_entry_by_url_id s k = None"
  shows "\<exists>s' out e. sip_recv now n m s q = Inr (n, s', out) \<and> sip_node_type s' = SIP_MN_HA
    \<and> sip_get_entry_by_url_id s' k = Some e \<and> se_con e = contact (mh q) \<and> se_con_id e = k"
proof -
  let ?s = "sip_registration q SIP_MN s"
  have r: "sip_recv_method now n m s q = Inr (n, ?s, q, [])"
    using assms(1,2) by (simp add: sip_recv_method_def sip_recv_MN_HA_def)
  then have "sip_recv now n m s q = Inr (n, fst (sip_deliver ?s q (psize q)), snd (sip_deliver ?s q (psize q)))"
    by (simp add: sip_recv_def case_prod_unfold)
  moreover have "first_ptr (\<lambda>e. se_url_id e = k) (siplist s) = None"
    using assms(5) by (simp add: se_lookup_defs find_None_iff)
  then have "\<exists>e. sip_get_entry_by_url_id (fst (sip_deliver ?s q (psize q))) k = Some e
      \<and> se_con e = contact (mh q) \<and> se_con_id e = k"
    using assms(3,4) by (simp add: sip_registration_def Let_def sip_register_MN_def find_or_insert_def
        sip_update_entry_def new_SIPEntry_def se_lookup_defs del: first_ptr_None)
  moreover have "sip_node_type (fst (sip_deliver ?s q (psize q))) = SIP_MN_HA" using assms(1) by simp
  ultimately show ?thesis by blast
qed

text \<open>
  C2: A call reaches a node inside a mobile network, whose router is itself away from home. The node \<open>k\<close>
  registers through the router; its registration, which the router passes on, makes its home agent \<open>ha1\<close> redirect calls
  for it to the URL of the router's home agent. A correspondent's invitation is redirected there, from there (\<open>ha2\<close>,
  which does not know \<open>k\<close>) to the care-of address of the router, and the router passes it on to the
  address from which the node registered. Each time the correspondent follows the answer it gets.
\<close>

theorem nested_mobility_call:
  assumes "connected s" and "mmethod (mh p) = 5" and "From_id (mh p) = k" and "contact_id (mh p) = k"
    and "sip_get_entry_by_url_id s k = None" and "sip_mr_bs_daddr s = - 1"
    and "sip_get_iface_agent_by_prefix s (prefix_of (contact (mh p))) = Some a"
    and "sip_node_type ha1 = SIP_MN_HA" and "sip_get_entry_by_url_id ha1 k = None"
    and "sip_node_type ha2 = SIP_MR_HA" and "sip_get_entry_by_url_id ha2 k = None"
    and "sip_get_entry_by_type ha2 SIP_MR = Some mr"
    and "sip_node_type cn = SIP_CN" and "mmethod (mh i0) = 0" and "requestURL_id (mh i0) = k" and "To_id (mh i0) = k"
    and "From_id (mh i0) \<noteq> k" and "get_mn_entry_by_url_id s (From_id (mh i0)) = None"
  shows "\<exists>s1 a1 q ha o1 ha1' o2 r1 o3 i1 o4 r2 o5 i2 o6 s2 o7.
      sip_recv t n m s p = Inr (n, s1, SendVia a1 q # o1) \<and> ha \<in> set (siplist s) \<and> is_active ha
    \<and> sip_recv t n m1 ha1 q = Inr (n, ha1', o2)
    \<and> sip_recv t n m1 ha1' i0 = Inr (n, ha1', Send r1 # o3)
    \<and> sip_recv t n m2 cn r1 = Inr (n, cn, Send i1 # o4) \<and> daddr i1 = se_url ha
    \<and> sip_recv t n m3 ha2 i1 = Inr (n, ha2, Send r2 # o5)
    \<and> sip_recv t n m2 cn r2 = Inr (n, cn, Send i2 # o6) \<and> daddr i2 = se_con mr
    \<and> sip_recv t n m s1 i2 = Inr (n, s2, SendVia a (i2\<lparr>daddr := contact (mh p)\<rparr>) # o7)"
proof -
  have k: "From_id (mh p) = contact_id (mh p)" "sip_get_entry_by_url_id s (contact_id (mh p)) = None"
    using assms(3-5) by simp_all
  obtain s1 a1 q ha o1 where
    1: "sip_recv t n m s p = Inr (n, s1, SendVia a1 q # o1)" "ha \<in> set (siplist s)" "is_active ha"
      "mmethod (mh q) = 5" "From_id (mh q) = k" "contact_id (mh q) = k" "contact (mh q) = se_url ha"
    and call: "\<And>i. mmethod (mh i) = 0 \<Longrightarrow> To_id (mh i) = k \<Longrightarrow> From_id (mh i) = From_id (mh i0) \<Longrightarrow>
      \<exists>s2 o7. sip_recv t n m s1 i = Inr (n, s2, SendVia a (i\<lparr>daddr := contact (mh p)\<rparr>) # o7)"
    using router_serves_new_node [OF assms(1,2) k assms(6,7), of t n m] assms(17,18) unfolding assms(4) by auto
  obtain ha1' o2 e where 2: "sip_recv t n m1 ha1 q = Inr (n, ha1', o2)" "sip_node_type ha1' = SIP_MN_HA"
    "sip_get_entry_by_url_id ha1' k = Some e" "se_con e = se_url ha" "se_con_id e = k"
    using home_agent_registers_new [OF assms(8) 1(4-6) assms(9)] unfolding 1(7) by blast
  let ?r1 = "fresh_copy ha1' (temp_move ha1' i0 k (se_url ha))"
  have 3: "\<exists>o3. sip_recv t n m1 ha1' i0 = Inr (n, ha1', Send ?r1 # o3)"
    using redirect_registered [of ha1' i0 e t n m1] 2 assms(14,15) by simp
  obtain i1 o4 where 4: "sip_recv t n m2 cn ?r1 = Inr (n, cn, Send i1 # o4)" "mmethod (mh i1) = 0" "daddr i1 = se_url ha"
    "requestURL_id (mh i1) = k" "To_id (mh i1) = k" "From_id (mh i1) = From_id (mh i0)"
    using cn_follows_redirection [of cn ?r1 t n m2, unfolded temp_move_fields assms(16)] assms(13) by blast
  let ?r2 = "fresh_copy ha2 (temp_move ha2 i1 k (se_con mr))"
  have 5: "\<exists>o5. sip_recv t n m3 ha2 i1 = Inr (n, ha2, Send ?r2 # o5)"
    using redirect_to_router [of ha2 i1 mr t n m3] 4(2,4) assms(10-12) by simp
  obtain i2 o6 where 6: "sip_recv t n m2 cn ?r2 = Inr (n, cn, Send i2 # o6)" "mmethod (mh i2) = 0" "daddr i2 = se_con mr"
    "To_id (mh i2) = k" "From_id (mh i2) = From_id (mh i0)"
    using cn_follows_redirection [of cn ?r2 t n m2, unfolded temp_move_fields 4(5,6)] assms(13) by blast
  from call [OF 6(2,4,5)] 1 2(1) 3 4(1,3) 5 6(1,3) show ?thesis by blast
qed

definition demo_mr_ha_agent :: udpmysip where
  "demo_mr_ha_agent = (demo_sip SIP_MR_HA 0x6001)\<lparr>siplist := [(new_SIPEntry SIP_MR)\<lparr>se_url_id := 7, se_con := 0x1801\<rparr>]\<rparr>"

theorem nested_mobility_call_witness:
  "\<exists>s1 i2 s2 o1 o6 o7 r2. sip_recv 0 demo_faces None (demo_router 2) (demo_register 23 0x2807) = Inr (demo_faces, s1, o1)
    \<and> sip_recv 0 demo_faces None (demo_sip SIP_CN 0x5001) r2 = Inr (demo_faces, demo_sip SIP_CN 0x5001, Send i2 # o6)
    \<and> daddr i2 = 0x1801
    \<and> sip_recv 0 demo_faces None s1 i2 = Inr (demo_faces, s2, SendVia 3 (i2\<lparr>daddr := 0x2807\<rparr>) # o7)"
proof -
  let ?p = "demo_register 23 0x2807" and ?i = "demo_invite 23" and ?mr = "(new_SIPEntry SIP_MR)\<lparr>se_url_id := 7, se_con := 0x1801\<rparr>"
  have 1: "connected (demo_router 2)"
    by (simp add: connected_def demo_router_contacts demo_mr_ha_def demo_mn_def new_SIPEntry_def is_active_def)
  have 2: "mmethod (mh ?p) = 5" "From_id (mh ?p) = 23" "contact_id (mh ?p) = 23" "contact (mh ?p) = 0x2807"
    by (simp_all add: demo_register_def sip_packet_def sip_msg_def)
  have 3: "sip_get_entry_by_url_id (demo_router 2) 23 = None" "sip_mr_bs_daddr (demo_router 2) = - 1"
    "sip_get_iface_agent_by_prefix (demo_router 2) (prefix_of 0x2807) = Some 3"
    "get_mn_entry_by_url_id (demo_router 2) 50 = None"
    by (simp_all add: se_lookup_defs demo_router_defs prefix_of_def net_mask_def)
  have 4: "sip_node_type (demo_sip SIP_MN_HA 0x4001) = SIP_MN_HA" "sip_get_entry_by_url_id (demo_sip SIP_MN_HA 0x4001) 23 = None"
    "sip_node_type demo_mr_ha_agent = SIP_MR_HA" "sip_get_entry_by_url_id demo_mr_ha_agent 23 = None"
    "sip_get_entry_by_type demo_mr_ha_agent SIP_MR = Some ?mr" "sip_node_type (demo_sip SIP_CN 0x5001) = SIP_CN"
    by (simp_all add: se_lookup_defs demo_sip_def demo_mr_ha_agent_def new_SIPEntry_def)
  have 5: "mmethod (mh ?i) = 0" "requestURL_id (mh ?i) = 23" "To_id (mh ?i) = 23" "From_id (mh ?i) = 50"
    by (simp_all add: demo_invite_def sip_packet_def sip_msg_def)
  have 6: "From_id (mh ?i) \<noteq> 23" "get_mn_entry_by_url_id (demo_router 2) (From_id (mh ?i)) = None" "se_con ?mr = 0x1801"
    using 3(4) 5(4) by simp_all
  have 7: "sip_get_iface_agent_by_prefix (demo_router 2) (prefix_of (contact (mh ?p))) = Some 3" using 2(4) 3(3) by simp
  note call = nested_mobility_call [OF 1 2(1-3) 3(1,2) 7 4 5(1-3) 6(1,2), of 0 demo_faces None None None None]
  then show ?thesis unfolding 6(3) 2(4) by (elim exE conjE) (intro exI conjI, assumption+)
qed

end
