(* ===== verification/Sip_Messages.thy ===== *)
theory Sip_Messages
  imports Sip_Props
begin

text \<open>
  Messages of the application over \<^const>\<open>sendmsg\<close> and \<^const>\<open>reassemble\<close>: how a message is cut into
  packets, and that the receiver puts it together again.
\<close>

section \<open>Segmentation\<close>

text \<open>The sizes of \<open>k\<close> segments, the last one of \<open>remain\<close> bytes unless it is full.\<close>

fun sizes :: "int \<Rightarrow> int \<Rightarrow> nat \<Rightarrow> int list" where
  "sizes z remain 0 = []"
| "sizes z remain (Suc k) = (if k = 0 \<and> remain > 0 then remain else z) # sizes z remain k"

text \<open>The segment with sequence number \<open>c\<close> and size \<open>z\<close>, and a series of them.\<close>

definition seg_packet :: "udpmysip \<Rightarrow> hdr_mysip \<Rightarrow> addr \<Rightarrow> addr \<Rightarrow> int \<Rightarrow> int \<Rightarrow> packet" where
  "seg_packet s h da dp c z = (allocpkt s)\<lparr>psize := z, rtp_flags := 0, rtp_seqno := c, prio := 15, mh := h,
     daddr := da, saddr := here_addr s, dport := dp\<rparr>"

fun seg_packets :: "udpmysip \<Rightarrow> hdr_mysip \<Rightarrow> addr \<Rightarrow> addr \<Rightarrow> int \<Rightarrow> int list \<Rightarrow> packet list" where
  "seg_packets s h da dp c [] = []"
| "seg_packets s h da dp c (z # zs) = seg_packet s h da dp c z # seg_packets s h da dp (c + 1) zs"

lemma seg_packets_cong:
  "allocpkt s' = allocpkt s \<Longrightarrow> here_addr s' = here_addr s \<Longrightarrow> seg_packets s' h da dp c zs = seg_packets s h da dp c zs"
  by (induction zs arbitrary: c) (simp_all add: seg_packet_def)

lemma seg_packets_sizes: "map psize (seg_packets s h da dp c zs) = zs"
  by (induction zs arbitrary: c) (simp_all add: seg_packet_def)

lemma seg_packets_seqnos: "map rtp_seqno (seg_packets s h da dp c zs) = map (\<lambda>j. c + int j) [0..<length zs]"
  by (induction zs arbitrary: c)
    (simp_all add: seg_packet_def upt_conv_Cons map_Suc_upt [symmetric] comp_def algebra_simps del: upt_Suc)

lemma seg_packets_fields: "p \<in> set (seg_packets s h da dp c zs) \<Longrightarrow>
  mh p = h \<and> prio p = 15 \<and> daddr p = da \<and> dport p = dp \<and> saddr p = here_addr s"
  by (induction zs arbitrary: c) (auto simp: seg_packet_def)

text \<open>The destination that a header asks for.\<close>

definition routes :: "net \<Rightarrow> udpmysip \<Rightarrow> hdr_mysip \<Rightarrow> addr \<Rightarrow> addr \<Rightarrow> bool" where
  "routes n s h da dp \<longleftrightarrow> get_nodeaddr (layout n) (requestURL h) = Inr da
     \<and> get_nodeaddr (layout n) (if ack h = 0 then agent_cport s else cport h) = Inr dp"

text \<open>A fixed node, connected to the network directly.\<close>

definition fixed_sender :: "udpmysip \<Rightarrow> bool" where
  "fixed_sender s \<longleftrightarrow> sip_node_type s \<noteq> SIP_MN \<and> flag s = 1 \<and> support_mm s \<noteq> 0 \<and> 0 < ag_size s"

lemma sendmsg_loop_segments:
  assumes "fixed_sender s" and "routes n s h da dp"
  shows "sendmsg_loop n (SipFlags h) remain k s None = Inr (s\<lparr>rtp_count := rtp_count s + int k\<rparr>, None,
    map Send (seg_packets s h da dp (rtp_count s + 1) (sizes (ag_size s) remain k)))"
  using assms
proof (induction k arbitrary: s)
  case (Suc k)
  let ?s = "s\<lparr>rtp_count := rtp_count s + 1\<rparr>" and ?z = "if k = 0 \<and> remain > 0 then remain else ag_size s"
  have "segment n s (SipFlags h) ?z = Inr (seg_packet s h da dp (rtp_count s + 1) ?z)"
    using Suc.prems by (simp add: segment_def fixed_sender_def routes_def seg_packet_def)
  moreover have "send_segment n ?s None p = Inr (?s, None, [Send p])" for p
  proof -
    have "?s\<lparr>flag := 1\<rparr> = ?s" using Suc.prems(1) by (simp add: fixed_sender_def)
    then show ?thesis using Suc.prems(1) by (simp add: send_segment_def fixed_sender_def)
  qed
  moreover have "sendmsg_loop n (SipFlags h) remain k ?s None = Inr (?s\<lparr>rtp_count := rtp_count ?s + int k\<rparr>, None,
      map Send (seg_packets ?s h da dp (rtp_count ?s + 1) (sizes (ag_size ?s) remain k)))"
    using Suc.prems by (intro Suc.IH) (auto simp: fixed_sender_def routes_def)
  moreover have "seg_packets ?s h da dp c zs = seg_packets s h da dp c zs" for c zs
    by (rule seg_packets_cong) (simp_all add: allocpkt_def)
  ultimately show ?case by (simp add: algebra_simps)
qed simp

lemma sum_sizes: "0 < k \<Longrightarrow> sum_list (sizes z remain k) = int (k - 1) * z + (if remain > 0 then remain else z)"
proof (induction k)
  case (Suc k)
  then show ?case by (cases k) (simp_all add: algebra_simps)
qed simp

lemma length_sizes [simp]: "length (sizes z remain k) = k"
  by (induction k) simp_all

lemma sizes_bounds: "0 < z \<Longrightarrow> 0 \<le> remain \<Longrightarrow> remain < z \<Longrightarrow> v \<in> set (sizes z remain k) \<Longrightarrow> 0 < v \<and> v \<le> z"
  by (induction k) (auto split: if_splits)

text \<open>The sizes of the segments of \<open>nb\<close> bytes.\<close>

definition seg_sizes :: "int \<Rightarrow> int \<Rightarrow> int list" where
  "seg_sizes nb z = sizes z (nb mod z) (nat (nb div z + (if nb mod z \<noteq> 0 then 1 else 0)))"

lemma seg_count:
  assumes "0 < nb" "0 < z"
  shows "0 < nb div z + (if nb mod z \<noteq> 0 then 1 else (0 :: int))"
proof (cases "nb div z = 0")
  case True
  then have "nb mod z = nb" using div_mult_mod_eq [of nb z] by simp
  with True assms show ?thesis by simp
next
  case False
  with assms have "0 < nb div z" using pos_imp_zdiv_nonneg_iff [of z nb] by simp
  then show ?thesis by simp
qed

lemma sum_seg_sizes:
  assumes "0 < nb" and "0 < z"
  shows "sum_list (seg_sizes nb z) = nb"
proof -
  let ?k = "nb div z + (if nb mod z \<noteq> 0 then 1 else (0 :: int))"
  have "0 < ?k" by (rule seg_count [OF assms])
  moreover have "0 \<le> nb mod z" using assms by simp
  moreover have "nb div z * z + nb mod z = nb" by simp
  ultimately show ?thesis unfolding seg_sizes_def
    by (subst sum_sizes) (auto simp: of_nat_diff nat_diff_distrib' algebra_simps)
qed

lemma sendmsg_segments:
  assumes "fixed_sender s" and "routes n s h da dp" and "0 < nb"
  shows "\<exists>k. sendmsg n s None nb (SipFlags h) = Inr (s\<lparr>rtp_count := k\<rparr>, None,
    map Send (seg_packets s h da dp (rtp_count s + 1) (seg_sizes nb (ag_size s)))
      @ (if has_app s then [AppResume] else []))"
proof -
  let ?k = "nat (nb div ag_size s + (if nb mod ag_size s \<noteq> 0 then 1 else 0))"
  have "sendmsg n s None nb (SipFlags h) = Inr (s\<lparr>rtp_count := rtp_count s + int ?k\<rparr>, None,
      map Send (seg_packets s h da dp (rtp_count s + 1) (seg_sizes nb (ag_size s)))
        @ (if has_app s then [AppResume] else []))"
    using assms(1,3) sendmsg_loop_segments [OF assms(1,2)]
    by (simp add: sendmsg_def fixed_sender_def Let_def seg_sizes_def)
  then show ?thesis by blast
qed

text \<open>
  Segmentation. A fixed node sends a message of \<open>nb\<close> bytes as a series of packets of positive size
  at most \<^verbatim>\<open>size_\<close>, which add up to \<open>nb\<close>; every one carries the header of the message and goes to the
  destination that the header names, and they are numbered consecutively.
\<close>

theorem message_segmentation:
  assumes "fixed_sender s" and "routes n s h da dp" and "0 < nb"
  shows "\<exists>s' ps. sendmsg n s None nb (SipFlags h) = Inr (s', None, map Send ps @ (if has_app s then [AppResume] else []))
    \<and> sum_list (map psize ps) = nb \<and> (\<forall>p \<in> set ps. 0 < psize p \<and> psize p \<le> ag_size s)
    \<and> (\<forall>p \<in> set ps. mh p = h \<and> prio p = 15 \<and> daddr p = da \<and> dport p = dp \<and> saddr p = here_addr s)
    \<and> map rtp_seqno ps = map (\<lambda>j. rtp_count s + 1 + int j) [0..<length ps]"
proof -
  let ?zs = "seg_sizes nb (ag_size s)" and ?z = "ag_size s"
  let ?ps = "seg_packets s h da dp (rtp_count s + 1) ?zs"
  have z: "0 < ?z" using assms(1) by (simp add: fixed_sender_def)
  have "\<forall>v \<in> set ?zs. 0 < v \<and> v \<le> ?z"
    using sizes_bounds [OF z, of "nb mod ?z"] z by (auto simp: seg_sizes_def)
  moreover have "set ?zs = psize ` set ?ps" using seg_packets_sizes [of s h da dp "rtp_count s + 1" ?zs]
    by (metis list.set_map)
  ultimately have "\<forall>p \<in> set ?ps. 0 < psize p \<and> psize p \<le> ?z" by auto
  moreover have "sum_list (map psize ?ps) = nb" by (simp only: seg_packets_sizes sum_seg_sizes [OF assms(3) z])
  moreover have "length ?ps = length ?zs" using seg_packets_sizes by (metis length_map)
  ultimately show ?thesis using sendmsg_segments [OF assms] seg_packets_fields seg_packets_seqnos by metis
qed

definition demo_data :: hdr_mysip where
  "demo_data = zero_mysip\<lparr>mmethod := 7, nbytes := 2500, seq := 0, requestURL := 0x5801\<rparr>"

lemma demo_data_sent:
  "fixed_sender (demo_sip SIP_CN 0x5001)" "routes demo_faces (demo_sip SIP_CN 0x5001) demo_data 0x5801 0"
  by (simp_all add: fixed_sender_def routes_def demo_sip_def demo_router_def demo_data_def demo_faces_def
      get_nodeaddr_id default_layout_wf_layout zero_mysip_def)

theorem message_segmentation_witness:
  "\<exists>s' ps. sendmsg demo_faces (demo_sip SIP_CN 0x5001) None 2500 (SipFlags demo_data) = Inr (s', None, map Send ps)
     \<and> sum_list (map psize ps) = 2500"
  using message_segmentation [OF demo_data_sent, of 2500] by (simp add: demo_sip_def demo_router_def) blast

section \<open>Re-assembly\<close>

lemma data_recv:
  assumes "sip_node_type r \<in> {SIP_CN, SIP_MN}" and "has_app r" and "mmethod (mh p) = 7" and "prio p = 15"
    and "reassemble (r\<lparr>session_run := 1\<rparr>) (shrink p) = (r', out)"
  shows "sip_recv now n m r p = Inr (n, r', out)"
proof -
  have "sip_recv_method now n m r p = Inr (n, r, shrink p, [])"
    using assms(1,3) by (auto simp: sip_recv_method_def sip_recv_CN_def sip_recv_MN_def Let_def)
  moreover have "prio (shrink p) = 15" using assms(4) by (simp add: shrink_def)
  ultimately show ?thesis using assms(2,5) by (simp add: sip_recv_def sip_deliver_def Let_def)
qed

lemma sum_list_pos: "xs \<noteq> [] \<Longrightarrow> \<forall>x \<in> set xs. 0 < f x \<Longrightarrow> (0 :: int) < sum_list (map f xs)"
proof (induction xs)
  case (Cons x xs)
  then show ?case by (cases xs) fastforce+
qed simp

definition data_hdr_of :: "hdr_mysip \<Rightarrow> int \<Rightarrow> bool" where
  "data_hdr_of h nb \<longleftrightarrow> mmethod h = 7 \<and> ack h = 0 \<and> nbytes h = nb"

text \<open>The packets of a message with their IP headers are taken for what they were sent as.\<close>

lemma reassemble_rest:
  assumes "sip_node_type r \<in> {SIP_CN, SIP_MN}" and "has_app r" and "data_hdr_of h nb"
    and "\<forall>p \<in> set ps. mh p = h \<and> prio p = 15 \<and> 0 < psize p"
    and "asm_seq r = seq h" and "asm_tbytes r = nb" and "asm_rbytes r + sum_list (map psize ps) = nb" and "ps \<noteq> []"
  shows "\<exists>k. sip_exec r (map (\<lambda>p. (now, n, m, add_ip_header p)) ps) = Inr (r\<lparr>session_run := 1, asm_rbytes := k\<rparr>, [AppRecvMsg nb h])"
  using assms
proof (induction ps arbitrary: r)
  case (Cons p ps)
  let ?r = "r\<lparr>session_run := 1, asm_rbytes := asm_rbytes r + psize p\<rparr>"
  have step: "sip_recv now n m r (add_ip_header p) =
      Inr (n, ?r, if nb = asm_rbytes r + psize p then [AppRecvMsg nb h] else [])"
    using Cons.prems by (intro data_recv) (auto simp: data_hdr_of_def reassemble_def shrink_def add_ip_header_def IP_HDR_LEN_def)
  have last: "ps = [] \<longleftrightarrow> nb = asm_rbytes r + psize p"
  proof -
    have "sum_list (map psize ps) > 0" if "ps \<noteq> []"
      using that Cons.prems(4) by (intro sum_list_pos) auto
    with Cons.prems(7) show ?thesis by (cases "ps = []") auto
  qed
  show ?case
  proof (cases "ps = []")
    case True
    with step last show ?thesis by (intro exI [of _ "asm_rbytes r + psize p"]) simp
  next
    case False
    then obtain k where "sip_exec ?r (map (\<lambda>p. (now, n, m, add_ip_header p)) ps) = Inr (?r\<lparr>session_run := 1, asm_rbytes := k\<rparr>, [AppRecvMsg nb h])"
      using Cons.IH [of ?r] Cons.prems by (auto simp: algebra_simps)
    with step last False show ?thesis by (intro exI [of _ k]) simp
  qed
qed simp

lemma reassemble_message:
  assumes "sip_node_type r \<in> {SIP_CN, SIP_MN}" and "has_app r" and "data_hdr_of h nb"
    and "\<forall>p \<in> set ps. mh p = h \<and> prio p = 15 \<and> 0 < psize p"
    and "asm_seq r \<noteq> seq h" and "sum_list (map psize ps) = nb" and "ps \<noteq> []"
  shows "\<exists>k. sip_exec r (map (\<lambda>p. (now, n, m, add_ip_header p)) ps)
    = Inr (r\<lparr>session_run := 1, asm_seq := seq h, asm_tbytes := nb, asm_rbytes := k\<rparr>, [AppRecvMsg nb h])"
proof -
  from assms(7) obtain p qs where ps: "ps = p # qs" by (cases ps) auto
  let ?r = "r\<lparr>session_run := 1, asm_seq := seq h, asm_tbytes := nb, asm_rbytes := psize p\<rparr>"
  have step: "sip_recv now n m r (add_ip_header p) = Inr (n, ?r, if nb = psize p then [AppRecvMsg nb h] else [])"
    using assms ps by (intro data_recv) (auto simp: data_hdr_of_def reassemble_def shrink_def add_ip_header_def IP_HDR_LEN_def)
  have last: "qs = [] \<longleftrightarrow> nb = psize p"
  proof -
    have "sum_list (map psize qs) > 0" if "qs \<noteq> []"
      using that assms(4) ps by (intro sum_list_pos) auto
    with assms(6) ps show ?thesis by (cases "qs = []") auto
  qed
  show ?thesis
  proof (cases "qs = []")
    case True
    with step last ps show ?thesis by (intro exI [of _ "psize p"]) simp
  next
    case False
    then obtain k where "sip_exec ?r (map (\<lambda>p. (now, n, m, add_ip_header p)) qs) = Inr (?r\<lparr>session_run := 1, asm_rbytes := k\<rparr>, [AppRecvMsg nb h])"
      using reassemble_rest [of ?r h nb qs now n m] assms ps by auto
    with step last False ps show ?thesis by (intro exI [of _ k]) simp
  qed
qed

text \<open>Without them the message never seems complete.\<close>

lemma incomplete_rest:
  assumes "sip_node_type r \<in> {SIP_CN, SIP_MN}" and "has_app r" and "data_hdr_of h nb"
    and "\<forall>p \<in> set ps. mh p = h \<and> prio p = 15 \<and> 0 < psize p"
    and "asm_seq r = seq h" and "asm_tbytes r = nb" and "asm_rbytes r + sum_list (map psize ps) \<le> nb"
  shows "\<exists>r'. sip_exec r (map (\<lambda>p. (now, n, m, p)) ps) = Inr (r', [])"
  using assms
proof (induction ps arbitrary: r)
  case (Cons p ps)
  let ?r = "r\<lparr>session_run := 1, asm_rbytes := asm_rbytes r + psize p - 20\<rparr>"
  have "0 \<le> sum_list (map psize ps)" using Cons.prems(4) by (intro sum_list_nonneg) auto
  then have "sip_recv now n m r p = Inr (n, ?r, [])"
    using Cons.prems by (intro data_recv) (auto simp: data_hdr_of_def reassemble_def shrink_def algebra_simps)
  moreover have "\<exists>r'. sip_exec ?r (map (\<lambda>p. (now, n, m, p)) ps) = Inr (r', [])"
    using Cons.prems by (intro Cons.IH) auto
  ultimately show ?case by auto
qed simp

lemma incomplete_message:
  assumes "sip_node_type r \<in> {SIP_CN, SIP_MN}" and "has_app r" and "data_hdr_of h nb"
    and "\<forall>p \<in> set ps. mh p = h \<and> prio p = 15 \<and> 0 < psize p"
    and "asm_seq r \<noteq> seq h" and "sum_list (map psize ps) = nb"
  shows "\<exists>r'. sip_exec r (map (\<lambda>p. (now, n, m, p)) ps) = Inr (r', [])"
proof (cases ps)
  case (Cons p qs)
  let ?r = "r\<lparr>session_run := 1, asm_seq := seq h, asm_tbytes := nb, asm_rbytes := psize p - 20\<rparr>"
  have "0 \<le> sum_list (map psize qs)" using assms(4) Cons by (intro sum_list_nonneg) auto
  then have "sip_recv now n m r p = Inr (n, ?r, [])"
    using assms Cons by (intro data_recv) (auto simp: data_hdr_of_def reassemble_def shrink_def)
  moreover have "\<exists>r'. sip_exec ?r (map (\<lambda>p. (now, n, m, p)) qs) = Inr (r', [])"
    using assms Cons by (intro incomplete_rest) auto
  ultimately show ?thesis using Cons by auto
qed simp



end
