(* ===== verification/App_Props.thy ===== *)
theory App_Props
  imports Mysip_App Sip_Messages
begin

text \<open>
  Properties of the application \<^verbatim>\<open>mysipApp\<close>: the application as a state machine and what its steps keep, the
  accounting of a media stream, the set-up of a session, and the SIP server.
\<close>

section \<open>Accounting of the received media\<close>

text \<open>What every operation of the application keeps.\<close>

definition app_inv :: "mysipApp \<Rightarrow> bool" where
  "app_inv a \<longleftrightarrow> 0 \<le> last_scale (p_accnt a) \<and> last_scale (p_accnt a) \<le> 4
     \<and> 0 \<le> handoffnum a \<and> handoffnum a \<le> 30 \<and> length (handofftime a) = 30"

definition app_result_inv :: "app_result \<Rightarrow> bool" where
  "app_result_inv x \<longleftrightarrow> ensures (\<lambda>(a, _). app_inv a) x"

lemma app_send_app: "app_send n a ag m nb h = Inr (a', x) \<Longrightarrow> a' = a"
  by (auto simp: app_send_def)

lemma adjust_scale_inv:
  "0 \<le> last_scale pa \<Longrightarrow> last_scale pa \<le> 4 \<Longrightarrow> 0 \<le> last_scale (adjust_scale pa) \<and> last_scale (adjust_scale pa) \<le> 4"
  by (auto simp: adjust_scale_def Let_def)

lemma account_recv_pkt_inv: "app_inv a \<Longrightarrow> \<exists>a'. account_recv_pkt now h a = Inr a' \<and> app_inv a'"
  by (auto simp: account_recv_pkt_def account_rtt_def init_recv_pkt_accounting_def app_inv_def Let_def check_def)

lemma send_mysip_data_app: "send_mysip_data now n g a ag m = Inr (a', x) \<Longrightarrow> app_inv a \<Longrightarrow> app_inv a'"
  by (auto simp: send_mysip_data_def app_inv_def dest!: app_send_app split: if_splits)

text \<open>The inputs of the application and its step.\<close>

datatype app_input =
    AppMsg hdr_mysip
  | SndTimer
  | AppCmd app_cmd

fun app_handle ::
  "time \<Rightarrow> net \<Rightarrow> hdr_mysip \<Rightarrow> mysipApp \<Rightarrow> udpmysip \<Rightarrow> mip6 option \<Rightarrow> app_input \<Rightarrow> app_result" where
  "app_handle now n g a ag m (AppMsg h) = app_recv_msg now n g h a ag m"
| "app_handle now n g a ag m SndTimer = snd_timer_expire now n g a ag m"
| "app_handle now n g a ag m (AppCmd c) = app_command now n g a ag m c"

lemma app_init_app: "app_init a ag = Inr (a', ag') \<Longrightarrow> app_inv a' = app_inv a"
  by (auto simp: app_init_def app_inv_def)

lemma app_updates_inv [simp]:
  "app_inv (a\<lparr>app_CSeq := i\<rparr>) = app_inv a" "app_inv (a\<lparr>myID := k\<rparr>) = app_inv a" "app_inv (set_contact h a) = app_inv a"
  "app_inv (a\<lparr>invite_stop := i\<rparr>) = app_inv a" "app_inv (a\<lparr>m200ok_stop := i\<rparr>) = app_inv a"
  "app_inv (a\<lparr>ack_stop := i\<rparr>) = app_inv a" "app_inv (add_urllist a u v x y) = app_inv a"
  "app_inv (a\<lparr>snd_timer := t\<rparr>) = app_inv a" "app_inv (a\<lparr>app_seq := i\<rparr>) = app_inv a"
  "app_inv (a\<lparr>running := i\<rparr>) = app_inv a" "app_inv (a\<lparr>contact_dst_addr := c\<rparr>) = app_inv a"
  "app_inv (a\<lparr>myURL := u\<rparr>) = app_inv a" "app_inv (a\<lparr>toID := k\<rparr>) = app_inv a" "app_inv (a\<lparr>toURL := u\<rparr>) = app_inv a"
  by (simp_all add: app_inv_def set_contact_def add_urllist_def)

lemma app_result_inv_send [simp]: "app_inv a \<Longrightarrow> app_result_inv (app_send n a ag m nb h)"
  by (auto simp: app_result_inv_def ensures_def app_send_def)

lemma send_mysip_data_inv: "app_inv a \<Longrightarrow> app_result_inv (send_mysip_data now n g a ag m)"
  by (auto simp: app_result_inv_def ensures_def dest: send_mysip_data_app)

lemma send_200ok_pkt_inv: "app_inv a \<Longrightarrow> app_result_inv (send_200ok_pkt now n h a ag m)"
  unfolding send_200ok_pkt_def Let_def
  by (rule app_result_inv_send) (simp add: app_inv_def adjust_scale_inv)

lemma app_recv_msg_inv:
  assumes "app_inv a"
  shows "app_result_inv (app_recv_msg now n g h a ag m)"
proof -
  have "app_result_inv (bind_res (send_mysip_data now n g (set_contact h (a\<lparr>invite_stop := 1\<rparr>)) ag m)
     (\<lambda>(a1, ag1, m1, out1). bind_res (send_ack_for_200ok_pkt now n h a1 ag1 m1) (\<lambda>(a2, ag2, m2, out2).
        Inr (a2, ag2, m2, out1 @ out2))))"
    using assms by (auto simp: app_result_inv_def ensures_def send_ack_for_200ok_pkt_def
        dest!: send_mysip_data_app app_send_app)
  moreover have "app_result_inv (bind_res (account_recv_pkt now h a) (\<lambda>a1. Inr (a1\<lparr>ack_stop := 1\<rparr>, ag, m, [])))"
    using account_recv_pkt_inv [OF assms, of now h] by (auto simp: app_result_inv_def)
  moreover have "app_result_inv (app_send_temp_move_pkt now n h (set_contact h a) ag m)"
    using assms by (auto simp: app_send_temp_move_pkt_def Let_def app_result_inv_def ensures_def
        dest!: app_send_app split: option.split)
  moreover have "app_result_inv (send_invite_pkt now n g (set_contact h a) ag m)"
    using assms by (simp add: send_invite_pkt_def Let_def)
  moreover have "app_result_inv (Inr (b, ag, m, out))" if "app_inv b" for b ag m out
    using that by (simp add: app_result_inv_def)
  ultimately show ?thesis using assms send_200ok_pkt_inv [of "set_contact h a" now n h ag m]
    by (simp add: app_recv_msg_def Let_def)
qed

lemma app_command_inv:
  assumes "app_inv a"
  shows "app_result_inv (app_command now n g a ag m c)"
  using assms by (cases c) (auto simp: app_result_inv_def send_register_pkt_def app_start_def send_invite_pkt_def
      ensures_def Let_def app_init_app dest!: app_send_app)

lemma app_handle_inv: "app_inv a \<Longrightarrow> app_result_inv (app_handle now n g a ag m i)"
  by (cases i) (simp_all add: app_recv_msg_inv app_command_inv snd_timer_expire_def send_mysip_data_inv)

text \<open>A run of the application, over inputs at their times.\<close>

inductive app_run :: "net \<Rightarrow> mysipApp \<times> udpmysip \<times> mip6 option \<Rightarrow> (time \<times> hdr_mysip \<times> app_input) list
    \<Rightarrow> action list \<Rightarrow> mysipApp \<times> udpmysip \<times> mip6 option \<Rightarrow> bool" where
  app_run_Nil: "app_run n x [] [] x"
| app_run_Cons: "app_handle now n g a ag m i = Inr (a1, ag1, m1, out) \<Longrightarrow> app_run n (a1, ag1, m1) is outs y \<Longrightarrow>
     app_run n (a, ag, m) ((now, g, i) # is) (out @ outs) y"

lemma app_run_inv: "app_run n x is outs y \<Longrightarrow> app_inv (fst x) \<Longrightarrow> app_inv (fst y)"
proof (induction rule: app_run.induct)
  case (app_run_Cons now n g a ag m i a1 ag1 m1 out _ outs y)
  then show ?case using app_handle_inv [of a now n g ag m i] by (simp add: app_result_inv_def)
qed simp

text \<open>The gaps that count as a handoff.\<close>

fun gaps :: "int list \<Rightarrow> int" where
  "gaps (x # y # ys) = (if y - x - 1 > 2 then 1 else 0) + gaps (y # ys)"
| "gaps _ = 0"

lemma gaps_nonneg: "0 \<le> gaps xs"
  by (induction xs rule: gaps.induct) auto

lemma media_step:
  assumes "app_inv a" and "ack h \<noteq> 1"
  shows "\<exists>a'. app_handle now n g a ag m (AppMsg h) = Inr (a', ag, m, []) \<and> app_inv a' \<and> last_seq (p_accnt a') = seq h
    \<and> (let a0 = (if seq h = 0 then init_recv_pkt_accounting a else a); lost = seq h - last_seq (p_accnt a0) - 1
       in recv_pkts (p_accnt a') = recv_pkts (p_accnt a0) + 1
        \<and> total_lost_pkts (p_accnt a') = total_lost_pkts (p_accnt a) + lost
        \<and> handoffnum a' = min 30 (handoffnum a0 + (if lost > 2 then 1 else 0)))"
proof -
  obtain a1 where a1: "account_recv_pkt now h a = Inr a1" "app_inv a1" using account_recv_pkt_inv [OF assms(1)] by blast
  have "app_handle now n g a ag m (AppMsg h) = Inr (a1\<lparr>ack_stop := 1\<rparr>, ag, m, [])"
    using assms(2) a1(1) by (simp add: app_recv_msg_def)
  moreover have "last_seq (p_accnt a1) = seq h
    \<and> (let a0 = (if seq h = 0 then init_recv_pkt_accounting a else a); lost = seq h - last_seq (p_accnt a0) - 1
       in recv_pkts (p_accnt a1) = recv_pkts (p_accnt a0) + 1
        \<and> total_lost_pkts (p_accnt a1) = total_lost_pkts (p_accnt a) + lost
        \<and> handoffnum a1 = min 30 (handoffnum a0 + (if lost > 2 then 1 else 0)))"
    using a1(1) assms(1)
    by (auto simp: account_recv_pkt_def account_rtt_def init_recv_pkt_accounting_def Let_def app_inv_def
        split: if_splits)
  ultimately show ?thesis using a1(2) by simp
qed

abbreviation media_inputs :: "hdr_mysip \<Rightarrow> (time \<times> hdr_mysip) list \<Rightarrow> (time \<times> hdr_mysip \<times> app_input) list" where
  "media_inputs g \<equiv> map (\<lambda>(t, h). (t, g, AppMsg h))"

lemma media_stream:
  assumes "app_inv a" and "\<forall>(t, h) \<in> set hs. ack h \<noteq> 1 \<and> 0 < seq h"
  shows "\<exists>a'. app_run n (a, ag, m) (media_inputs g hs) [] (a', ag, m)
    \<and> recv_pkts (p_accnt a') = recv_pkts (p_accnt a) + int (length hs)
    \<and> total_lost_pkts (p_accnt a') = total_lost_pkts (p_accnt a)
        + last (last_seq (p_accnt a) # map (\<lambda>x. seq (snd x)) hs) - last_seq (p_accnt a) - int (length hs)
    \<and> handoffnum a' = min 30 (handoffnum a + gaps (last_seq (p_accnt a) # map (\<lambda>x. seq (snd x)) hs))"
  using assms
proof (induction hs arbitrary: a)
  case Nil
  then show ?case by (auto simp: app_inv_def intro: app_run_Nil)
next
  case (Cons x hs)
  obtain t h where x: "x = (t, h)" by (cases x)
  with Cons.prems have h: "ack h \<noteq> 1" "seq h \<noteq> 0" by auto
  from media_step [OF Cons.prems(1) h(1), of t n g ag m] h(2) obtain a1 where
    a1: "app_handle t n g a ag m (AppMsg h) = Inr (a1, ag, m, [])" "app_inv a1" "last_seq (p_accnt a1) = seq h"
    "recv_pkts (p_accnt a1) = recv_pkts (p_accnt a) + 1"
    "total_lost_pkts (p_accnt a1) = total_lost_pkts (p_accnt a) + (seq h - last_seq (p_accnt a) - 1)"
    "handoffnum a1 = min 30 (handoffnum a + (if seq h - last_seq (p_accnt a) - 1 > 2 then 1 else 0))"
    by (auto simp: Let_def)
  have "\<forall>(t, h) \<in> set hs. ack h \<noteq> 1 \<and> 0 < seq h" using Cons.prems(2) by simp
  from Cons.IH [OF a1(2) this] obtain a' where
    a': "app_run n (a1, ag, m) (media_inputs g hs) [] (a', ag, m)"
    "recv_pkts (p_accnt a') = recv_pkts (p_accnt a1) + int (length hs)"
    "total_lost_pkts (p_accnt a') = total_lost_pkts (p_accnt a1)
        + last (seq h # map (\<lambda>x. seq (snd x)) hs) - seq h - int (length hs)"
    "handoffnum a' = min 30 (handoffnum a1 + gaps (seq h # map (\<lambda>x. seq (snd x)) hs))"
    unfolding a1(3) by blast
  have "app_run n (a, ag, m) (media_inputs g (x # hs)) [] (a', ag, m)"
    using app_run_Cons [OF a1(1) a'(1)] by (simp add: x)
  then show ?case using a1(4-6) a'(2-4) gaps_nonneg [of "seq h # map (\<lambda>x. seq (snd x)) hs"]
    by (intro exI [of _ a']) (auto simp: x)
qed

text \<open>
  Loss accounting. When the media packets of a stream arrive in order, starting with number 0, whatever is
  lost on the way, the receiver never overruns its table of handoff times; it has then counted the received
  packets, the total of lost packets has grown by exactly the number of packets missing up to the last one received,
  and the number of handoffs is the number of gaps of more than two packets, up to 30.
\<close>

theorem loss_accounting:
  assumes "app_inv a" and "seq h0 = 0" and "ack h0 \<noteq> 1" and "\<forall>(t, h) \<in> set hs. ack h \<noteq> 1"
    and "sorted_wrt (<) (0 # map (\<lambda>x. seq (snd x)) hs)"
  shows "\<exists>a'. app_run n (a, ag, m) (media_inputs g ((t0, h0) # hs)) [] (a', ag, m)
    \<and> recv_pkts (p_accnt a') = 1 + int (length hs)
    \<and> total_lost_pkts (p_accnt a') = total_lost_pkts (p_accnt a) + last (0 # map (\<lambda>x. seq (snd x)) hs) - int (length hs)
    \<and> handoffnum a' = min 30 (gaps (0 # map (\<lambda>x. seq (snd x)) hs))"
proof -
  from media_step [OF assms(1,3), of t0 n g ag m] assms(2) obtain a1 where
    a1: "app_handle t0 n g a ag m (AppMsg h0) = Inr (a1, ag, m, [])" "app_inv a1" "last_seq (p_accnt a1) = 0"
    "recv_pkts (p_accnt a1) = 1" "total_lost_pkts (p_accnt a1) = total_lost_pkts (p_accnt a)" "handoffnum a1 = 0"
    by (auto simp: Let_def init_recv_pkt_accounting_def)
  have "\<forall>(t, h) \<in> set hs. ack h \<noteq> 1 \<and> 0 < seq h" using assms(4,5) by (auto simp: case_prod_unfold)
  from media_stream [OF a1(2) this, of n ag m g] obtain a' where
    a': "app_run n (a1, ag, m) (media_inputs g hs) [] (a', ag, m)"
    "recv_pkts (p_accnt a') = 1 + int (length hs)"
    "total_lost_pkts (p_accnt a') = total_lost_pkts (p_accnt a) + last (0 # map (\<lambda>x. seq (snd x)) hs) - int (length hs)"
    "handoffnum a' = min 30 (gaps (0 # map (\<lambda>x. seq (snd x)) hs))"
    unfolding a1(3-6) by auto
  have "app_run n (a, ag, m) (media_inputs g ((t0, h0) # hs)) [] (a', ag, m)"
    using app_run_Cons [OF a1(1) a'(1)] by simp
  with a'(2-4) show ?thesis by blast
qed

definition demo_app :: "addr \<Rightarrow> mysipApp" where
  "demo_app i = \<lparr>url_head = [], rate = [1000], interval = 0, pktsize = 500, running = 0, app_seq = 0, app_scale = 0,
     p_accnt = \<lparr>last_seq = - 1, last_scale = 0, lost_pkts = 0, recv_pkts = 0, rtt = 0, last_arrival_time = 0, total_lost_pkts = 0\<rparr>,
     snd_timer = None, app_CSeq = 1, contact_dst_addr = 0, invite_stop = 0, m200ok_stop = 0, ack_stop = 0,
     myID = i, myURL = 0x5001, toID = 21, toURL = 0x4001, handofftime = replicate 30 0, handoffnum = 0, first_seq_time = 0\<rparr>"

lemma demo_app_inv: "app_inv (demo_app i)"
  by (simp add: demo_app_def app_inv_def)

definition demo_media :: "int \<Rightarrow> hdr_mysip" where
  "demo_media k = zero_mysip\<lparr>mmethod := 7, nbytes := 500, seq := k\<rparr>"

lemma demo_media_fields [simp]: "seq (demo_media k) = k" "ack (demo_media k) = 0"
  by (simp_all add: demo_media_def zero_mysip_def)

theorem loss_accounting_witness:
  "\<exists>a'. app_run demo_faces (demo_app 50, demo_sip SIP_CN 0x5001, None)
       (media_inputs zero_mysip [(0, demo_media 0), (1, demo_media 1), (2, demo_media 6), (3, demo_media 7)]) []
       (a', demo_sip SIP_CN 0x5001, None)
     \<and> recv_pkts (p_accnt a') = 4 \<and> total_lost_pkts (p_accnt a') = 4 \<and> handoffnum a' = 1"
  using loss_accounting [OF demo_app_inv, of "demo_media 0" "[(1, demo_media 1), (2, demo_media 6), (3, demo_media 7)]"
      demo_faces 50 "demo_sip SIP_CN 0x5001" None zero_mysip 0]
  by (simp add: demo_app_def)

text \<open>
  The quality scale that a receiver reports stays in 0 to 4 and its table of handoff times is never written
  beyond its 30 elements, whatever messages, timer expiries and commands it handles.
\<close>

theorem app_invariant:
  assumes "app_run n (a, ag, m) inputs outs (a', ag', m')" and "app_inv a"
  shows "app_inv a'"
  using app_run_inv [OF assms(1)] assms(2) by simp

theorem app_invariant_witness:
  "\<exists>a' ag' m'. app_run demo_faces (demo_app 50, demo_sip SIP_CN 0x5001, None) [(0, zero_mysip, AppMsg (demo_media 0))] []
     (a', ag', m') \<and> app_inv a'"
proof -
  obtain a' where "app_handle 0 demo_faces zero_mysip (demo_app 50) (demo_sip SIP_CN 0x5001) None (AppMsg (demo_media 0))
    = Inr (a', demo_sip SIP_CN 0x5001, None, [])" using media_step [OF demo_app_inv, of "demo_media 0"]
    by (simp del: app_handle.simps) blast
  from app_run_Cons [OF this app_run_Nil] have "app_run demo_faces (demo_app 50, demo_sip SIP_CN 0x5001, None)
     [(0, zero_mysip, AppMsg (demo_media 0))] [] (a', demo_sip SIP_CN 0x5001, None)" by simp
  with app_invariant [OF this demo_app_inv] show ?thesis by blast
qed

section \<open>Session set-up\<close>

fun sent :: "action list \<Rightarrow> packet list" where
  "sent [] = []"
| "sent (Send p # as) = p # sent as"
| "sent (_ # as) = sent as"

lemma sent_append [simp]: "sent (xs @ ys) = sent xs @ sent ys"
  by (induction xs rule: sent.induct) simp_all

lemma sent_map_Send [simp]: "sent (map Send ps) = ps"
  by (induction ps) simp_all

text \<open>The packets sent make up a message of \<open>nb\<close> bytes with the header \<open>h\<close> to the address \<open>d\<close>.\<close>

definition carries :: "action list \<Rightarrow> hdr_mysip \<Rightarrow> int \<Rightarrow> addr \<Rightarrow> bool" where
  "carries out h nb d \<longleftrightarrow> sent out \<noteq> [] \<and> sum_list (map psize (sent out)) = nb
     \<and> (\<forall>p \<in> set (sent out). mh p = h \<and> prio p = 15 \<and> 0 < psize p \<and> daddr p = d)"

lemma seg_sizes_nonempty: "0 < nb \<Longrightarrow> 0 < z \<Longrightarrow> seg_sizes nb z \<noteq> []"
  using sum_seg_sizes [of nb z] by auto

lemma seg_packets_nonempty: "zs \<noteq> [] \<Longrightarrow> seg_packets s h da dp c zs \<noteq> []"
  by (cases zs) auto

lemma length_seg_packets [simp]: "length (seg_packets s h da dp c zs) = length zs"
  by (induction zs arbitrary: c) simp_all

lemma one_segment: "0 < nb \<Longrightarrow> nb \<le> z \<Longrightarrow> length (seg_sizes nb z) = 1"
  by (cases "nb = z") (simp_all add: seg_sizes_def)

lemma app_send_fixed:
  assumes "fixed_sender ag" and "wf_layout (layout n)" and "0 < nb"
  shows "\<exists>k out. app_send n a ag None nb h = Inr (a, ag\<lparr>rtp_count := k\<rparr>, None, out) \<and> carries out h nb (requestURL h)
    \<and> (nb \<le> ag_size ag \<longrightarrow> length (sent out) = 1)"
proof -
  let ?dp = "if ack h = 0 then agent_cport ag else cport h" and ?z = "ag_size ag"
  let ?ps = "seg_packets ag h (requestURL h) ?dp (rtp_count ag + 1) (seg_sizes nb ?z)"
  let ?out = "map Send ?ps @ (if has_app ag then [AppResume] else [])"
  have z: "0 < ?z" using assms(1) by (simp add: fixed_sender_def)
  have "routes n ag h (requestURL h) ?dp" using assms(2) by (simp add: routes_def get_nodeaddr_id)
  from sendmsg_segments [OF assms(1) this assms(3)] obtain k where
    "app_send n a ag None nb h = Inr (a, ag\<lparr>rtp_count := k\<rparr>, None, ?out)" by (auto simp: app_send_def)
  moreover have s: "sent ?out = ?ps" by auto
  have "0 < psize p" if "p \<in> set ?ps" for p
  proof -
    have "psize p \<in> set (seg_sizes nb ?z)" using that seg_packets_sizes by (metis imageI list.set_map)
    with z show ?thesis using sizes_bounds [OF z, of "nb mod ?z"] by (simp add: seg_sizes_def)
  qed
  then have "carries ?out h nb (requestURL h)"
    unfolding carries_def s using seg_packets_fields seg_packets_nonempty [OF seg_sizes_nonempty [OF assms(3) z]] sum_seg_sizes [OF assms(3) z]
    by (simp add: seg_packets_sizes)
  moreover have "nb \<le> ?z \<longrightarrow> length (sent ?out) = 1" unfolding s using one_segment [OF assms(3)] by simp
  ultimately show ?thesis by blast
qed

text \<open>What an agent makes of the packets: with the IP header of a wireless sender, and without.\<close>

definition over_air :: "time \<Rightarrow> net \<Rightarrow> udpmysip \<Rightarrow> action list \<Rightarrow> (udpmysip \<times> action list) res" where
  "over_air now n r out = sip_exec r (map (\<lambda>p. (now, n, None, add_ip_header p)) (sent out))"

definition over_wire :: "time \<Rightarrow> net \<Rightarrow> udpmysip \<Rightarrow> action list \<Rightarrow> (udpmysip \<times> action list) res" where
  "over_wire now n r out = sip_exec r (map (\<lambda>p. (now, n, None, p)) (sent out))"

definition correspondent :: "udpmysip \<Rightarrow> bool" where
  "correspondent r \<longleftrightarrow> sip_node_type r = SIP_CN \<and> has_app r"

lemma single_packet:
  assumes "carries out h nb d" and "length (sent out) = 1"
  shows "\<exists>p. sent out = [p] \<and> mh p = h \<and> prio p = 15 \<and> psize p = nb"
  using assms by (cases "sent out") (auto simp: carries_def)

lemma request_received:
  assumes "carries out h nb d" and "length (sent out) = 1" and "correspondent r" and "ack h = 1" and "mmethod h = 0 \<or> mmethod h = 1" and "nbytes h = nb" and "asm_seq r \<noteq> seq h"
  shows "over_air now n r out = Inr (r\<lparr>session_run := 1, agent_cip := cip h, agent_cport := cport h, asm_tbytes := nb, asm_rbytes := nb\<rparr>, [AppRecvMsg nb h])"
    and "\<exists>r'. over_wire now n r out = Inr (r', [])"
proof -
  obtain p where "sent out = [p]" "mh p = h" "prio p = 15" "psize p = nb" using single_packet [OF assms(1,2)] by blast
  note p = this
  have cn: "sip_recv_method now n None r q = Inr (n, r, shrink q, [])" if "mh q = h" for q
    using assms(3,5) that by (auto simp: sip_recv_method_def sip_recv_CN_def correspondent_def)
  have app: "has_app r" "asm_seq r \<noteq> seq h" using assms(3,7) by (simp_all add: correspondent_def)
  show "over_air now n r out = Inr (r\<lparr>session_run := 1, agent_cip := cip h, agent_cport := cport h, asm_tbytes := nb, asm_rbytes := nb\<rparr>, [AppRecvMsg nb h])"
    using p app assms(4-6) by (simp add: over_air_def sip_recv_def cn add_ip_header_def IP_HDR_LEN_def shrink_def sip_deliver_def reassemble_def)
  show "\<exists>r'. over_wire now n r out = Inr (r', [])"
    using p app assms(4-6) by (simp add: over_wire_def sip_recv_def cn shrink_def sip_deliver_def reassemble_def)
qed

lemma ack_not_received:
  assumes "carries out h nb d" and "length (sent out) = 1" and "correspondent r" and "ack h = 1" and "mmethod h = 2" and "nbytes h = nb" and "asm_seq r \<noteq> seq h"
  shows "\<exists>r'. over_air now n r out = Inr (r', [])"
proof -
  obtain p where "sent out = [p]" "mh p = h" "prio p = 15" "psize p = nb" using single_packet [OF assms(1,2)] by blast
  then show ?thesis using assms(3-7)
    by (simp add: over_air_def sip_recv_def sip_recv_method_def sip_recv_CN_def correspondent_def add_ip_header_def IP_HDR_LEN_def sip_deliver_def reassemble_def)
qed

lemma media_received:
  assumes "carries out h nb d" and "correspondent r" and "data_hdr_of h nb" and "asm_seq r \<noteq> seq h"
  shows "\<exists>k. over_air now n r out = Inr (r\<lparr>session_run := 1, asm_seq := seq h, asm_tbytes := nb, asm_rbytes := k\<rparr>, [AppRecvMsg nb h])"
  using assms reassemble_message [of r h nb "sent out" now n None] unfolding over_air_def carries_def correspondent_def by simp

lemma fixed_sender_updates [simp]:
  "fixed_sender (ag\<lparr>rtp_count := k\<rparr>) = fixed_sender ag" "fixed_sender (ag\<lparr>new_addr := x\<rparr>) = fixed_sender ag"
  by (simp_all add: fixed_sender_def)

lemma first_request_fields [simp]:
  "fixed_sender (first_request a ag) = fixed_sender ag" "here_addr (first_request a ag) = here_addr ag" "ag_size (first_request a ag) = ag_size ag"
  "asm_seq (first_request a ag) = asm_seq ag" "sip_node_type (first_request a ag) = sip_node_type ag" "has_app (first_request a ag) = has_app ag"
  by (simp_all add: first_request_def)

text \<open>The address that a node announces in its requests and answers.\<close>

definition announced :: "mysipApp \<Rightarrow> udpmysip \<Rightarrow> addr" where
  "announced a ag = (if app_CSeq a = 1 then here_addr ag else new_addr ag)"

lemma first_request_addr: "new_addr (first_request a ag) = announced a ag"
  by (simp add: first_request_def announced_def)

lemma caller_invites:
  assumes "fixed_sender ag" and "wf_layout (layout n)" and "rate a \<noteq> []"
  shows "\<exists>h a' k out. app_command now n g a ag None (SendInvite i u)
      = Inr (a', ag\<lparr>new_addr := here_addr ag, rtp_count := k\<rparr>, None, out)
    \<and> carries out h 120 u \<and> (120 \<le> ag_size ag \<longrightarrow> length (sent out) = 1) \<and> ack h = 1 \<and> mmethod h = 0 \<and> nbytes h = 120 \<and> seq h = - 2
    \<and> contact h = here_addr ag \<and> To_id h = i \<and> requestURL_id h = i
    \<and> running a' = 1 \<and> pktsize a' = pktsize a \<and> app_seq a' = 0"
proof -
  let ?a = "a\<lparr>toID := i, toURL := u, app_scale := 0, app_seq := 0, interval := real_of_int (pktsize a * 8) / rate a ! 0,
     running := 1, contact_dst_addr := u\<rparr>"
  let ?ag = "ag\<lparr>new_addr := here_addr ag\<rparr>"
  let ?b = "next_CSeq ?a"
  let ?h = "invite_hdr now g ?a ?ag"
  have "first_request ?a ?ag = ?ag" by (simp add: first_request_def)
  then have "app_command now n g a ag None (SendInvite i u) = app_send n ?b ?ag None 120 ?h"
    using assms(3) by (simp add: app_start_def app_init_def send_invite_pkt_def Let_def)
  moreover obtain k out where "app_send n ?b ?ag None 120 ?h = Inr (?b, ?ag\<lparr>rtp_count := k\<rparr>, None, out)"
    "carries out ?h 120 (requestURL ?h)" "120 \<le> ag_size ag \<longrightarrow> length (sent out) = 1" using app_send_fixed [of ?ag n 120 ?b ?h] assms(1,2) by auto
  ultimately show ?thesis by (intro exI [of _ ?h] exI [of _ ?b] exI [of _ k] exI [of _ out]) (simp add: invite_hdr_def)
qed

lemma callee_answers:
  assumes "fixed_sender ag" and "wf_layout (layout n)" and "myID a \<noteq> 88" and "ack h = 1" and "mmethod h = 0"
  shows "\<exists>h' a' ag' out. app_recv_msg now n g h a ag None = Inr (a', ag', None, out)
    \<and> carries out h' 80 (contact h) \<and> (80 \<le> ag_size ag \<longrightarrow> length (sent out) = 1) \<and> ack h' = 1 \<and> mmethod h' = 1 \<and> nbytes h' = 80 \<and> seq h' = - 2 \<and> contact h' = announced a ag
    \<and> contact_dst_addr a' = contact h \<and> asm_seq ag' = asm_seq ag \<and> correspondent ag' = correspondent ag"
proof -
  let ?a = "(set_contact h a)\<lparr>p_accnt := adjust_scale (p_accnt (set_contact h a))\<rparr>"
  let ?ag = "first_request ?a ag"
  let ?b = "next_CSeq ?a"
  let ?h = "ok_hdr now h ?a ?ag"
  have "app_recv_msg now n g h a ag None = app_send n ?b ?ag None 80 ?h"
    using assms(3-5) by (simp add: app_recv_msg_def send_200ok_pkt_def Let_def set_contact_def)
  moreover obtain k out where "app_send n ?b ?ag None 80 ?h = Inr (?b, ?ag\<lparr>rtp_count := k\<rparr>, None, out)"
    "carries out ?h 80 (requestURL ?h)" "80 \<le> ag_size ag \<longrightarrow> length (sent out) = 1" using app_send_fixed [of ?ag n 80 ?b ?h] assms(1,2) by auto
  ultimately show ?thesis using assms(1)
    by (intro exI [of _ ?h] exI [of _ ?b] exI [of _ "?ag\<lparr>rtp_count := k\<rparr>"] exI [of _ out])
      (simp add: ok_hdr_def first_request_addr set_contact_def, simp add: announced_def correspondent_def)
qed

lemma caller_starts_media:
  assumes "fixed_sender ag" and "wf_layout (layout n)" and "running a \<noteq> 0" and "0 < pktsize a"
    and "ack h = 1" and "mmethod h = 1"
  shows "\<exists>hd ha a' ag' out out'. app_recv_msg now n g h a ag None = Inr (a', ag', None, out @ out')
    \<and> carries out hd (pktsize a) (contact h) \<and> data_hdr_of hd (pktsize a) \<and> seq hd = app_seq a
    \<and> carries out' ha 40 (contact h) \<and> (40 \<le> ag_size ag \<longrightarrow> length (sent out') = 1) \<and> mmethod ha = 2 \<and> ack ha = 1 \<and> nbytes ha = 40 \<and> seq ha = - 2
    \<and> contact_dst_addr a' = contact h \<and> snd_timer a' = Some (now + 1 / 100)"
proof -
  let ?a = "set_contact h (a\<lparr>invite_stop := 1\<rparr>)"
  let ?b = "?a\<lparr>app_seq := app_seq ?a + 1\<rparr>" and ?hd = "data_hdr now g ?a ag"
  obtain k out where 1: "app_send n ?b ag None (pktsize a) ?hd = Inr (?b, ag\<lparr>rtp_count := k\<rparr>, None, out)"
    "carries out ?hd (pktsize a) (requestURL ?hd)" using app_send_fixed [OF assms(1,2,4)] by blast
  let ?c = "?b\<lparr>snd_timer := Some (now + 1 / 100)\<rparr>" and ?ag = "ag\<lparr>rtp_count := k\<rparr>"
  let ?ha = "ack_hdr now h ?c ?ag"
  obtain k' out' where 2: "app_send n (next_CSeq ?c) ?ag None 40 ?ha = Inr (next_CSeq ?c, ?ag\<lparr>rtp_count := k'\<rparr>, None, out')"
    "carries out' ?ha 40 (requestURL ?ha)" "40 \<le> ag_size ag \<longrightarrow> length (sent out') = 1" using app_send_fixed [of ?ag n 40 "next_CSeq ?c" ?ha] assms(1,2) by auto
  have "send_mysip_data now n g ?a ag None = Inr (?c, ?ag, None, out)"
    using assms(3) 1(1) by (simp add: send_mysip_data_def set_contact_def)
  then have "app_recv_msg now n g h a ag None = Inr (next_CSeq ?c, ?ag\<lparr>rtp_count := k'\<rparr>, None, out @ out')"
    using assms(5,6) 2(1) by (simp add: app_recv_msg_def send_ack_for_200ok_pkt_def)
  with 1(2) 2(2,3) show ?thesis
    by (intro exI [of _ ?hd] exI [of _ ?ha] exI [of _ "next_CSeq ?c"] exI [of _ "?ag\<lparr>rtp_count := k'\<rparr>"] exI [of _ out] exI [of _ out'])
      (simp add: data_hdr_def ack_hdr_def set_contact_def data_hdr_of_def)
qed



section \<open>The SIP server\<close>

lemma resolve_lookup: "resolve url_id IP es k = map_option IP (lookup_table es k)"
  by (simp add: resolve_def lookup_table_def)

definition register_msg :: "hdr_mysip \<Rightarrow> bool" where
  "register_msg h \<longleftrightarrow> ack h = 1 \<and> mmethod h = 3"

lemma server_registers:
  assumes "\<forall>(t, h) \<in> set rs. register_msg h"
  shows "\<exists>a'. app_run n (a, ag, m) (media_inputs g rs) [] (a', ag, m) \<and> myID a' = myID a
    \<and> resolve url_id IP (url_head a') = resolve url_id IP (url_head a) ++ map_of (rev (map (\<lambda>(t, h). (From_id h, contact h)) rs))"
  using assms
proof (induction rs arbitrary: a)
  case Nil
  then show ?case by (auto intro: app_run_Nil)
next
  case (Cons x rs)
  obtain t h where x: "x = (t, h)" by (cases x)
  let ?a = "add_urllist a (From_id h) (From h) (contact h) 3"
  have "app_handle t n g a ag m (AppMsg h) = Inr (?a, ag, m, [])"
    using Cons.prems by (simp add: x register_msg_def app_recv_msg_def)
  moreover from Cons.IH [of ?a] Cons.prems obtain a' where
    a': "app_run n (?a, ag, m) (media_inputs g rs) [] (a', ag, m)" "myID a' = myID ?a"
    "resolve url_id IP (url_head a') = resolve url_id IP (url_head ?a) ++ map_of (rev (map (\<lambda>(t, h). (From_id h, contact h)) rs))"
    by fastforce
  ultimately have "app_run n (a, ag, m) (media_inputs g (x # rs)) [] (a', ag, m)"
    using app_run_Cons [of t n g a ag m "AppMsg h" ?a ag m "[]"] by (fastforce simp: x)
  moreover have "resolve url_id IP (url_head ?a) = (resolve url_id IP (url_head a))(From_id h \<mapsto> contact h)"
    using url_tab.resolve_reg [of "(From h, 3)"] by (simp add: add_urllist_def)
  ultimately show ?case using a'(2,3) by (intro exI [of _ a']) (simp add: x add_urllist_def map_add_upd_left)
qed

lemma server_answers:
  assumes "fixed_sender ag" and "wf_layout (layout n)" and "myID a = 88" and "ack h = 1" and "mmethod h = 0"
    and "lookup_table (url_head a) (requestURL_id h) = Some e"
  shows "\<exists>h' a' ag' out. app_recv_msg now n g h a ag None = Inr (a', ag', None, out)
    \<and> carries out h' 300 (contact h) \<and> ack h' = 1 \<and> mmethod h' = 4 \<and> contact h' = IP e"
proof -
  let ?a = "(set_contact h a)\<lparr>myID := 88\<rparr>"
  let ?h = "temp_move_hdr now h (set_contact h a) e"
  have "app_recv_msg now n g h a ag None = app_send n ?a ag None 300 ?h"
    using assms(3-6) by (simp add: app_recv_msg_def app_send_temp_move_pkt_def Let_def set_contact_def)
  moreover obtain k out where "app_send n ?a ag None 300 ?h = Inr (?a, ag\<lparr>rtp_count := k\<rparr>, None, out)"
    "carries out ?h 300 (requestURL ?h)" using app_send_fixed [OF assms(1,2), of 300 ?a ?h] by auto
  ultimately show ?thesis
    by (intro exI [of _ ?h] exI [of _ ?a] exI [of _ "ag\<lparr>rtp_count := k\<rparr>"] exI [of _ out]) (simp add: temp_move_hdr_def)
qed

lemma caller_follows:
  assumes "fixed_sender ag" and "wf_layout (layout n)" and "ack h = 1" and "mmethod h = 4"
  shows "\<exists>h' a' ag' out. app_recv_msg now n g h a ag None = Inr (a', ag', None, out)
    \<and> carries out h' 120 (contact h) \<and> ack h' = 1 \<and> mmethod h' = 0 \<and> contact_dst_addr a' = contact h"
proof -
  let ?a = "set_contact h a"
  let ?ag = "first_request ?a ag" and ?b = "next_CSeq ?a"
  let ?h = "invite_hdr now g ?a ?ag"
  have "app_recv_msg now n g h a ag None = app_send n ?b ?ag None 120 ?h"
    using assms(3,4) by (simp add: app_recv_msg_def send_invite_pkt_def Let_def)
  moreover obtain k out where "app_send n ?b ?ag None 120 ?h = Inr (?b, ?ag\<lparr>rtp_count := k\<rparr>, None, out)"
    "carries out ?h 120 (requestURL ?h)" using app_send_fixed [of ?ag n 120 ?b ?h] assms(1,2) by auto
  ultimately show ?thesis
    by (intro exI [of _ ?h] exI [of _ ?b] exI [of _ "?ag\<lparr>rtp_count := k\<rparr>"] exI [of _ out])
      (simp add: invite_hdr_def set_contact_def)
qed

text \<open>
  The SIP server (the application with id 88) locates callees. After any sequence of REGISTER messages, an INVITE
  for a registered id is answered 302 with the contact of the last registration of the id, to the caller's contact;
  and the caller, on receiving this answer, invites the callee at that contact.
\<close>

theorem server_redirects:
  assumes "fixed_sender ag" and "fixed_sender cag" and "wf_layout (layout n)" and "myID a = 88"
    and "\<forall>(t, h) \<in> set rs. register_msg h"
    and "map_of (rev (map (\<lambda>(t, h). (From_id h, contact h)) rs)) (requestURL_id h) = Some ip"
    and "ack h = 1" and "mmethod h = 0"
  shows "\<exists>a' b bg out h' c' cag' out' h''. app_run n (a, ag, None) (media_inputs g rs) [] (a', ag, None)
    \<and> app_recv_msg t1 n g1 h a' ag None = Inr (b, bg, None, out)
    \<and> carries out h' 300 (contact h) \<and> mmethod h' = 4 \<and> contact h' = ip
    \<and> app_recv_msg t2 n g2 h' c cag None = Inr (c', cag', None, out')
    \<and> carries out' h'' 120 ip \<and> mmethod h'' = 0 \<and> contact_dst_addr c' = ip"
proof -
  obtain a' where a': "app_run n (a, ag, None) (media_inputs g rs) [] (a', ag, None)" "myID a' = 88"
    "resolve url_id IP (url_head a') = resolve url_id IP (url_head a) ++ map_of (rev (map (\<lambda>(t, h). (From_id h, contact h)) rs))"
    using server_registers [OF assms(5), of n a ag None g] assms(4) by auto
  have "resolve url_id IP (url_head a') (requestURL_id h) = Some ip" using assms(6) by (simp add: a'(3) map_add_Some_iff)
  then obtain e where e: "lookup_table (url_head a') (requestURL_id h) = Some e" "IP e = ip"
    by (auto simp: resolve_lookup)
  from server_answers [OF assms(1,3) a'(2) assms(7,8) e(1), of t1 g1] obtain h' b bg out where
    1: "app_recv_msg t1 n g1 h a' ag None = Inr (b, bg, None, out)" "carries out h' 300 (contact h)" "ack h' = 1"
      "mmethod h' = 4" "contact h' = ip" using e(2) by blast
  from caller_follows [OF assms(2,3) 1(3,4), of t2 g2 c] obtain h'' c' cag' out' where
    2: "app_recv_msg t2 n g2 h' c cag None = Inr (c', cag', None, out')" "carries out' h'' 120 ip" "mmethod h'' = 0"
      "contact_dst_addr c' = ip" unfolding 1(5) by blast
  from a'(1) 1 2 show ?thesis by blast
qed

definition demo_app_reg :: "addr \<Rightarrow> addr \<Rightarrow> hdr_mysip" where
  "demo_app_reg k c = zero_mysip\<lparr>ack := 1, mmethod := 3, From_id := k, contact := c\<rparr>"

theorem server_redirects_witness:
  "\<exists>a' b bg out h'. app_run demo_faces (demo_app 88, demo_sip SIP_CN 0x5001, None)
       (media_inputs zero_mysip [(0, demo_app_reg 21 0x5801), (1, demo_app_reg 21 0x1801)]) [] (a', demo_sip SIP_CN 0x5001, None)
    \<and> app_recv_msg 2 demo_faces zero_mysip (zero_mysip\<lparr>ack := 1, requestURL_id := 21, contact := 0x6001\<rparr>)
        a' (demo_sip SIP_CN 0x5001) None = Inr (b, bg, None, out)
    \<and> carries out h' 300 0x6001 \<and> contact h' = 0x1801"
proof -
  let ?h = "zero_mysip\<lparr>ack := 1, requestURL_id := 21, contact := 0x6001\<rparr>"
  let ?rs = "[(0, demo_app_reg 21 0x5801), (1, demo_app_reg 21 0x1801)]"
  have 1: "wf_layout (layout demo_faces)" by (simp add: demo_faces_def default_layout_wf_layout)
  have 2: "myID (demo_app 88) = 88" by (simp add: demo_app_def)
  have 3: "\<forall>(t, h) \<in> set ?rs. register_msg h" "map_of (rev (map (\<lambda>(t, h). (From_id h, contact h)) ?rs)) (requestURL_id ?h) = Some 0x1801"
    by (simp_all add: demo_app_reg_def register_msg_def)
  have 4: "ack ?h = 1" "mmethod ?h = 0" "contact ?h = 0x6001" by (simp_all add: zero_mysip_def)
  from server_redirects [OF demo_data_sent(1) demo_data_sent(1) 1 2 3 4(1,2), of zero_mysip 2 zero_mysip 3 zero_mysip "demo_app 50"]
  show ?thesis unfolding 4(3) by blast
qed

end
