(* ===== verification/Timers.thy ===== *)
theory Timers
  imports Prelude
begin

text \<open>
  The timers of the simulator (ns-2.29-ori/common/timer-handler.cc). A pending timer carries the
  time of its event; \<^verbatim>\<open>abort()\<close> is the fault \<^const>\<open>Abort\<close>. The expiry of a timer, \<^verbatim>\<open>handle\<close>, is
  \<open>timer_handle\<close> around the \<^verbatim>\<open>expire\<close> of the owner, which acts on a state that the timer is part of.
\<close>

datatype timer = TIMER_IDLE | TIMER_PENDING time | TIMER_HANDLING

definition timer_sched :: "time \<Rightarrow> time \<Rightarrow> timer \<Rightarrow> timer res" where
  "timer_sched now delay t = check Abort (t = TIMER_IDLE) (Inr (TIMER_PENDING (now + delay)))"

definition timer_resched :: "time \<Rightarrow> time \<Rightarrow> timer \<Rightarrow> timer" where
  "timer_resched now delay t = TIMER_PENDING (now + delay)"

definition timer_cancel :: "timer \<Rightarrow> timer res" where
  "timer_cancel t = (case t of TIMER_PENDING _ \<Rightarrow> Inr TIMER_IDLE | _ \<Rightarrow> Inl Abort)"

definition timer_force_cancel :: "timer \<Rightarrow> timer" where
  "timer_force_cancel t = (case t of TIMER_PENDING _ \<Rightarrow> TIMER_IDLE | _ \<Rightarrow> t)"

definition timer_begin :: "timer \<Rightarrow> timer res" where
  "timer_begin t = (case t of TIMER_PENDING _ \<Rightarrow> Inr TIMER_HANDLING | _ \<Rightarrow> Inl Abort)"

definition timer_end :: "timer \<Rightarrow> timer" where
  "timer_end t = (if t = TIMER_HANDLING then TIMER_IDLE else t)"

text \<open>\<open>get\<close> and \<open>put\<close> locate the timer in the state of its owner.\<close>

definition timer_handle ::
  "('s \<Rightarrow> timer) \<Rightarrow> (timer \<Rightarrow> 's \<Rightarrow> 's) \<Rightarrow> ('s \<Rightarrow> ('s \<times> 'o) res) \<Rightarrow> 's \<Rightarrow> ('s \<times> 'o) res" where
  "timer_handle get put expire s =
     bind_res (timer_begin (get s)) (\<lambda>t.
     bind_res (expire (put t s)) (\<lambda>(s', out). Inr (put (timer_end (get s')) s', out)))"

lemmas timer_defs = timer_sched_def timer_resched_def timer_cancel_def timer_force_cancel_def
  timer_begin_def timer_end_def

lemma timer_handle_pending:
  assumes "get s = TIMER_PENDING t"
  shows "timer_handle get put expire s =
    bind_res (expire (put TIMER_HANDLING s)) (\<lambda>(s', out). Inr (put (timer_end (get s')) s', out))"
  using assms by (simp add: timer_handle_def timer_begin_def)

lemma timer_cancel_Inr [simp]: "timer_cancel t = Inr t' \<longleftrightarrow> (\<exists>d. t = TIMER_PENDING d) \<and> t' = TIMER_IDLE"
  by (auto simp: timer_cancel_def split: timer.splits)

lemma timer_end_not_handling [simp]: "timer_end t \<noteq> TIMER_HANDLING"
  by (simp add: timer_end_def)

end
