(* ===== verification/Nd.thy ===== *)
theory Nd
  imports Nemo Timers
begin

text \<open>
  The neighbour discovery agent \<^verbatim>\<open>NDAgent\<close> (nist-2/hsntg/nd.cc, nd.h): the neighbour table with its
  prefix timers, router advertisements and solicitations, the delayed answers to solicitations, and
  what it tells the interface manager. Debug output is left out. The values of the calls to
  \<^verbatim>\<open>Random::uniform()\<close> and \<^verbatim>\<open>Random::random()\<close> are two streams of the state.
\<close>

section \<open>State\<close>

text \<open>\<^verbatim>\<open>Entry\<close>\<close>

record nd_entry =
  ne_prefix :: addr
  ne_lftm :: time
  ne_time :: time
  ne_timer :: timer

text \<open>\<^verbatim>\<open>RSReplyEntry\<close> with its \<^verbatim>\<open>RSreplyTimer\<close>; \<open>rr_id\<close> stands for the address of the timer.\<close>

record rs_reply =
  rr_id :: nat
  rr_daddr :: addr
  rr_timer :: timer

record nd_agent = agent +
  nlist :: "nd_entry list"
  ra_daddrs :: "addr list"
  rs_daddrs :: "addr list"
  rs_list :: "rs_reply list"
  rs_next_id :: nat
  router :: int
  nd_mr_bs :: int
  useAdvInterval :: int
  rtrlftm :: time
  prefix_lifetime :: "32 word"
  minRtrAdvInterval :: time
  maxRtrAdvInterval :: time
  minDelayBetweenRA :: time
  maxRADelay :: time
  broadcast :: int
  rs_timeout :: time
  max_rtr_solicitation :: int
  nb_rtr_sol :: int
  ra_timer :: timer
  rs_timer :: timer
  lastRA_time :: time
  nextRA_time :: time
  iMngmnt :: bool
  nd_node :: node_ref
  nd_uni :: "nat \<Rightarrow> real"
  nd_uni_pos :: nat
  nd_rng :: "nat \<Rightarrow> nat"
  nd_rng_pos :: nat

text \<open>The calls to the interface manager: \<^verbatim>\<open>process_nd_event\<close> and \<^verbatim>\<open>set_mr_bs_prefix\<close>.\<close>

datatype nd_event =
    ND_NEW_PREFIX addr node_ref addr
  | ND_PREFIX_EXPIRED addr node_ref
  | ND_MR addr node_ref addr

datatype if_call =
    NdEvent nd_event
  | SetMrBsPrefix addr node_ref addr time

type_synonym nd_result = "(nd_agent \<times> action list \<times> if_call list) res"

definition IP_BROADCAST :: addr where "IP_BROADCAST = 0xFFFFFFFF"

definition IPv6_TIMER_RA :: addr where "IPv6_TIMER_RA = - 1"

definition IPv6_TIMER_RS :: addr where "IPv6_TIMER_RS = - 2"

definition PT_RSOL_SIZE :: int where "PT_RSOL_SIZE = IPv6_HEADER_SIZE + 8"

definition PT_RADS_SIZE :: int where "PT_RADS_SIZE = IPv6_HEADER_SIZE + 56"

text \<open>The constructor; \<open>s\<close> holds the values that \<^verbatim>\<open>bind\<close> takes from the script.\<close>

definition new_nd_agent :: "nd_agent \<Rightarrow> nd_agent" where
  "new_nd_agent s = s\<lparr>nlist := [], ra_daddrs := [], rs_daddrs := [], rs_list := [], iMngmnt := False,
     lastRA_time := 0, nextRA_time := - 1, nb_rtr_sol := 0, ra_timer := TIMER_IDLE, rs_timer := TIMER_IDLE\<rparr>"

section \<open>The neighbour table\<close>

definition nd_lookup :: "addr \<Rightarrow> nd_entry list \<Rightarrow> nd_entry option" where
  "nd_lookup pfx es = find (\<lambda>e. ne_prefix e = pfx) es"

text \<open>\<^verbatim>\<open>update_entry\<close> and \<^verbatim>\<open>remove_entry\<close> act on the entry that \<^verbatim>\<open>lookup_entry\<close> finds, the first one.\<close>

fun upd_prefix :: "addr \<Rightarrow> (nd_entry \<Rightarrow> nd_entry) \<Rightarrow> nd_entry list \<Rightarrow> nd_entry list" where
  "upd_prefix pfx f [] = []"
| "upd_prefix pfx f (e # es) = (if ne_prefix e = pfx then f e # es else e # upd_prefix pfx f es)"

fun rem_prefix :: "addr \<Rightarrow> nd_entry list \<Rightarrow> nd_entry list" where
  "rem_prefix pfx [] = []"
| "rem_prefix pfx (e # es) = (if ne_prefix e = pfx then es else e # rem_prefix pfx es)"

definition new_entry :: "time \<Rightarrow> addr \<Rightarrow> time \<Rightarrow> nd_entry" where
  "new_entry now pfx life = \<lparr>ne_prefix = pfx, ne_lftm = life, ne_time = now,
     ne_timer = timer_resched now life TIMER_IDLE\<rparr>"

definition update_entry :: "time \<Rightarrow> time \<Rightarrow> nd_entry \<Rightarrow> nd_entry" where
  "update_entry now life e = e\<lparr>ne_time := now, ne_lftm := life, ne_timer := timer_resched now life (ne_timer e)\<rparr>"

definition expire :: "nd_entry \<Rightarrow> time" where
  "expire e = ne_time e + ne_lftm e"

definition add_prefix :: "time \<Rightarrow> addr \<Rightarrow> time \<Rightarrow> nd_agent \<Rightarrow> nd_agent res" where
  "add_prefix now pfx life s =
     check AssertFail (nd_lookup pfx (nlist s) = None) (Inr (s\<lparr>nlist := new_entry now pfx life # nlist s\<rparr>))"

section \<open>Targets\<close>

text \<open>The return value 1 or 0, and the list.\<close>

definition add_target :: "addr \<Rightarrow> addr list \<Rightarrow> int \<times> addr list" where
  "add_target d ts = (if d \<in> set ts then (0, ts) else (1, d # ts))"

definition remove_target :: "addr \<Rightarrow> addr list \<Rightarrow> int \<times> addr list" where
  "remove_target d ts = (if d \<in> set ts then (1, remove1 d ts) else (0, ts))"

definition add_ra_target :: "addr \<Rightarrow> nd_agent \<Rightarrow> int \<times> nd_agent" where
  "add_ra_target d s = (let (r, ts) = add_target d (ra_daddrs s) in (r, s\<lparr>ra_daddrs := ts\<rparr>))"

definition remove_ra_target :: "addr \<Rightarrow> nd_agent \<Rightarrow> int \<times> nd_agent" where
  "remove_ra_target d s = (let (r, ts) = remove_target d (ra_daddrs s) in (r, s\<lparr>ra_daddrs := ts\<rparr>))"

definition add_rs_target :: "addr \<Rightarrow> nd_agent \<Rightarrow> int \<times> nd_agent" where
  "add_rs_target d s = (let (r, ts) = add_target d (rs_daddrs s) in (r, s\<lparr>rs_daddrs := ts\<rparr>))"

definition remove_rs_target :: "addr \<Rightarrow> nd_agent \<Rightarrow> int \<times> nd_agent" where
  "remove_rs_target d s = (let (r, ts) = remove_target d (rs_daddrs s) in (r, s\<lparr>rs_daddrs := ts\<rparr>))"

section \<open>Sending\<close>

text \<open>\<^verbatim>\<open>Random::uniform(a,b)\<close>\<close>

definition uniform :: "time \<Rightarrow> time \<Rightarrow> nd_agent \<Rightarrow> time \<times> nd_agent" where
  "uniform a b s = (a + (b - a) * nd_uni s (nd_uni_pos s), s\<lparr>nd_uni_pos := Suc (nd_uni_pos s)\<rparr>)"

text \<open>\<^verbatim>\<open>(uint32_t) x\<close> for a double \<open>x\<close>; a value out of range is undefined in C++, here it wraps.\<close>

definition to_uint32 :: "real \<Rightarrow> 32 word" where
  "to_uint32 x = word_of_int (if 0 \<le> x then \<lfloor>x\<rfloor> else \<lceil>x\<rceil>)"

definition get_mr_bs_entry_random :: "nd_agent \<Rightarrow> nd_entry option \<times> nd_agent" where
  "get_mr_bs_entry_random s =
     (if nlist s = [] then (None, s)
      else (Some (nlist s ! (nd_rng s (nd_rng_pos s) mod length (nlist s))), s\<lparr>nd_rng_pos := Suc (nd_rng_pos s)\<rparr>))"

definition send_ads :: "nd_agent \<Rightarrow> addr \<Rightarrow> nd_agent \<times> action list" where
  "send_ads s da =
     (let ra = (\<lambda>s. (allocpkt s)\<lparr>daddr := da, dport := here_port s, ptype := PT_RADS, psize := PT_RADS_SIZE\<rparr>);
          h = zero_rtads\<lparr>router_lifetime := rtrlftm s, advertisement_interval := to_uint32 (maxRtrAdvInterval s * 1000)\<rparr>
      in if nd_mr_bs s \<noteq> 0 then
           (case get_mr_bs_entry_random s of
              (None, s1) \<Rightarrow> (s1, [])
            | (Some bu, s1) \<Rightarrow>
                (s1, [Send ((ra s1)\<lparr>saddr := here_addr s1, ra_hdr := h\<lparr>valid_lifetime := to_uint32 (ne_lftm bu),
                   preferred_lifetime := to_uint32 (ne_lftm bu), ra_prefix := ne_prefix bu\<rparr>\<rparr>)]))
         else
           (s, [Send ((ra s)\<lparr>ra_hdr := h\<lparr>valid_lifetime := prefix_lifetime s,
              preferred_lifetime := prefix_lifetime s, ra_prefix := here_addr s\<rparr>\<rparr>)]))"

fun send_ads_to :: "nd_agent \<Rightarrow> addr list \<Rightarrow> nd_agent \<times> action list" where
  "send_ads_to s [] = (s, [])"
| "send_ads_to s (d # ds) =
     (let (s1, out1) = send_ads s d; (s2, out2) = send_ads_to s1 ds in (s2, out1 @ out2))"

text \<open>\<^verbatim>\<open>send_rs(int)\<close>: the agent takes the present address of its node.\<close>

definition send_rs_to :: "net \<Rightarrow> nd_agent \<Rightarrow> addr \<Rightarrow> nd_agent \<times> action list" where
  "send_rs_to n s da =
     (let s1 = s\<lparr>here_addr := node_addr n (nd_node s)\<rparr>
      in (s1, [Send ((allocpkt s1)\<lparr>daddr := da, dport := here_port s1, ptype := PT_RSOL, psize := PT_RSOL_SIZE\<rparr>)]))"

fun send_rs_all :: "net \<Rightarrow> nd_agent \<Rightarrow> addr list \<Rightarrow> nd_agent \<times> action list" where
  "send_rs_all n s [] = (s, [])"
| "send_rs_all n s (d # ds) =
     (let (s1, out1) = send_rs_to n s d; (s2, out2) = send_rs_all n s1 ds in (s2, out1 @ out2))"

definition is_pending :: "timer \<Rightarrow> bool" where
  "is_pending t = (case t of TIMER_PENDING _ \<Rightarrow> True | _ \<Rightarrow> False)"

definition send_rs :: "time \<Rightarrow> net \<Rightarrow> nd_agent \<Rightarrow> nd_agent \<times> action list" where
  "send_rs now n s =
     (if router s = 0 \<and> \<not> is_pending (rs_timer s) then
        (let (s1, out) = (if broadcast s \<noteq> 0 then send_rs_to n s IP_BROADCAST else send_rs_all n s (rs_daddrs s))
         in (s1\<lparr>rs_timer := timer_resched now (rs_timeout s1) (rs_timer s1)\<rparr>, out))
      else (s, []))"

section \<open>Receiving\<close>

text \<open>\<^verbatim>\<open>timer_lifetime\<close> or \<^verbatim>\<open>router_lifetime()\<close>\<close>

definition ra_lifetime :: "nd_agent \<Rightarrow> hdr_rtads \<Rightarrow> time" where
  "ra_lifetime s h =
     (if useAdvInterval s \<noteq> 0 then real (unat (advertisement_interval h)) * (3 / 1000) else router_lifetime h)"

definition recv_ads :: "time \<Rightarrow> nd_agent \<Rightarrow> packet \<Rightarrow> nd_result" where
  "recv_ads now s p =
     check AssertFail (router s = 0)
       (bind_res (if rs_timer s \<noteq> TIMER_IDLE
                  then bind_res (timer_cancel (rs_timer s)) (\<lambda>t. Inr (s\<lparr>rs_timer := t\<rparr>))
                  else Inr s) (\<lambda>s1.
          let h = ra_hdr p; life = ra_lifetime s1 h
          in case nd_lookup (ra_prefix h) (nlist s1) of
               Some _ \<Rightarrow> Inr (s1\<lparr>nlist := upd_prefix (ra_prefix h) (update_entry now life) (nlist s1)\<rparr>, [], [])
             | None \<Rightarrow>
                 bind_res (add_prefix now (ra_prefix h) life s1) (\<lambda>s2.
                   Inr (s2, [],
                     if \<not> iMngmnt s2 then []
                     else if nd_mr_bs s2 \<noteq> 0 then [SetMrBsPrefix (ra_prefix h) (nd_node s2) (saddr p) life]
                     else [NdEvent (ND_NEW_PREFIX (ra_prefix h) (nd_node s2) (saddr p))]))))"

text \<open>\<^verbatim>\<open>recv_ads_mr\<close> leaves the field \<^verbatim>\<open>bs_addr\<close> of the event unset: \<open>g\<close>.\<close>

definition recv_ads_mr :: "addr \<Rightarrow> nd_agent \<Rightarrow> packet \<Rightarrow> nd_result" where
  "recv_ads_mr g s p =
     Inr (s, [], if iMngmnt s then [NdEvent (ND_MR (ra_prefix (ra_hdr p)) (nd_node s) g)] else [])"

definition add_rs_reply :: "time \<Rightarrow> addr \<Rightarrow> time \<Rightarrow> nd_agent \<Rightarrow> nd_agent res" where
  "add_rs_reply now da delay s =
     bind_res (timer_sched now delay TIMER_IDLE) (\<lambda>t.
       Inr (s\<lparr>rs_list := \<lparr>rr_id = rs_next_id s, rr_daddr = da, rr_timer = t\<rparr> # rs_list s,
              rs_next_id := Suc (rs_next_id s)\<rparr>))"

definition recv_rs :: "time \<Rightarrow> nd_agent \<Rightarrow> packet \<Rightarrow> nd_result" where
  "recv_rs now s p =
     check AssertFail (router s \<noteq> 0)
       (let (rs_delay, s1) = uniform 0 (maxRADelay s) s; next = nextRA_time s1
        in if next \<noteq> - 1 \<and> next - now < rs_delay then Inr (s1, [], [])
           else if now + rs_delay - lastRA_time s1 < minDelayBetweenRA s1 then
             (if next \<noteq> - 1 \<and> next > now \<and> next - now < rs_delay + minDelayBetweenRA s1 then Inr (s1, [], [])
              else bind_res (add_rs_reply now (saddr p)
                       (rs_delay + lastRA_time s1 + minDelayBetweenRA s1 - now) s1) (\<lambda>s2. Inr (s2, [], [])))
           else bind_res (add_rs_reply now (saddr p) rs_delay s1) (\<lambda>s2. Inr (s2, [], [])))"

definition nd_recv :: "time \<Rightarrow> addr \<Rightarrow> nd_agent \<Rightarrow> packet \<Rightarrow> nd_result" where
  "nd_recv now g s p =
     (if ptype p = PT_RADS then (if router s = 0 then recv_ads now s p else recv_ads_mr g s p)
      else if ptype p = PT_RSOL \<and> router s \<noteq> 0 then recv_rs now s p
      else Inr (s, [], []))"

section \<open>Timers\<close>

text \<open>\<^verbatim>\<open>timeout\<close>: the timers of advertisements and solicitations, or else a prefix.\<close>

definition nd_timeout :: "time \<Rightarrow> net \<Rightarrow> addr \<Rightarrow> nd_agent \<Rightarrow> nd_result" where
  "nd_timeout now n v s =
     (if v = IPv6_TIMER_RA then
        (let (d, s1) = uniform (minRtrAdvInterval s) (maxRtrAdvInterval s) (s\<lparr>lastRA_time := now\<rparr>);
             s2 = s1\<lparr>ra_timer := timer_resched now d (ra_timer s1), nextRA_time := d + now\<rparr>;
             (s3, out) = (if broadcast s2 \<noteq> 0 then send_ads s2 IP_BROADCAST else send_ads_to s2 (ra_daddrs s2))
         in Inr (s3, out, []))
      else if v = IPv6_TIMER_RS then
        (let s1 = s\<lparr>nb_rtr_sol := nb_rtr_sol s + 1\<rparr>
         in if nb_rtr_sol s1 < max_rtr_solicitation s1
            then (let (s2, out) = send_rs now n s1 in Inr (s2, out, []))
            else Inr (s1\<lparr>nb_rtr_sol := 0\<rparr>, [], []))
      else
        need NullPtr (nd_lookup v (nlist s)) (\<lambda>_.
          Inr (s\<lparr>nlist := rem_prefix v (nlist s)\<rparr>, [],
               if iMngmnt s then [NdEvent (ND_PREFIX_EXPIRED v (nd_node s))] else [])))"

definition ra_timer_expire :: "time \<Rightarrow> net \<Rightarrow> nd_agent \<Rightarrow> nd_result" where
  "ra_timer_expire now n s =
     timer_handle ra_timer (\<lambda>t s. s\<lparr>ra_timer := t\<rparr>) (nd_timeout now n IPv6_TIMER_RA) s"

definition rs_timer_expire :: "time \<Rightarrow> net \<Rightarrow> nd_agent \<Rightarrow> nd_result" where
  "rs_timer_expire now n s =
     timer_handle rs_timer (\<lambda>t s. s\<lparr>rs_timer := t\<rparr>) (nd_timeout now n IPv6_TIMER_RS) s"

text \<open>The timer of an entry; once the entry has left the table nothing refers to its timer.\<close>

definition entry_timer :: "addr \<Rightarrow> nd_agent \<Rightarrow> timer" where
  "entry_timer pfx s = (case nd_lookup pfx (nlist s) of Some e \<Rightarrow> ne_timer e | None \<Rightarrow> TIMER_IDLE)"

definition set_entry_timer :: "addr \<Rightarrow> timer \<Rightarrow> nd_agent \<Rightarrow> nd_agent" where
  "set_entry_timer pfx t s = s\<lparr>nlist := upd_prefix pfx (ne_timer_update (\<lambda>_. t)) (nlist s)\<rparr>"

definition prefix_timer_expire :: "time \<Rightarrow> net \<Rightarrow> addr \<Rightarrow> nd_agent \<Rightarrow> nd_result" where
  "prefix_timer_expire now n pfx s =
     timer_handle (entry_timer pfx) (set_entry_timer pfx) (nd_timeout now n pfx) s"

fun rem_reply :: "nat \<Rightarrow> rs_reply list \<Rightarrow> rs_reply list" where
  "rem_reply i [] = []"
| "rem_reply i (r # rs) = (if rr_id r = i then rs else r # rem_reply i rs)"

definition process_rsreply :: "rs_reply \<Rightarrow> nd_agent \<Rightarrow> nd_result" where
  "process_rsreply th s =
     (let (s1, out) = (if broadcast s \<noteq> 0 then send_ads s IP_BROADCAST else send_ads s (rr_daddr th))
      in Inr (s1\<lparr>rs_list := rem_reply (rr_id th) (rs_list s1)\<rparr>, out, []))"

text \<open>The expiry of an \<^verbatim>\<open>RSreplyTimer\<close>; \<^verbatim>\<open>process_rsreply\<close> removes it from the list.\<close>

definition rsreply_timer_expire :: "nat \<Rightarrow> nd_agent \<Rightarrow> nd_result" where
  "rsreply_timer_expire i s =
     need NullPtr (find (\<lambda>r. rr_id r = i) (rs_list s)) (\<lambda>th.
       bind_res (timer_begin (rr_timer th)) (\<lambda>t. process_rsreply (th\<lparr>rr_timer := t\<rparr>) s))"

section \<open>Commands\<close>

datatype nd_cmd =
    StartRA
  | StopRA
  | SendRS
  | SendAds
  | SetMinRtrAdv time
  | SetMaxRtrAdv time
  | RouterLifetime time
  | PrefixLifetime "32 word"
  | SetRouter bool
  | NdSetMrBs bool
  | SetIfmanager bool
  | EnableBroadcast bool
  | AddRATarget addr
  | RemoveRATarget addr
  | AddRSTarget addr
  | RemoveRSTarget addr

abbreviation tcl_of :: "int \<Rightarrow> tcl_result" where
  "tcl_of r \<equiv> (if r \<noteq> 0 then TCL_OK else TCL_ERROR)"

fun nd_command :: "time \<Rightarrow> net \<Rightarrow> nd_agent \<Rightarrow> nd_cmd \<Rightarrow> (nd_agent \<times> action list \<times> tcl_result) res" where
  "nd_command now n s StartRA =
     (if router s \<noteq> 0 then
        (let (d, s1) = uniform (minRtrAdvInterval s) (maxRtrAdvInterval s) s
         in Inr (s1\<lparr>ra_timer := timer_resched now d (ra_timer s1), nextRA_time := d + now\<rparr>, [], TCL_OK))
      else Inr (s, [], TCL_ERROR))"
| "nd_command now n s StopRA =
     (if router s \<noteq> 0 then
        bind_res (timer_cancel (ra_timer s)) (\<lambda>t. Inr (s\<lparr>ra_timer := t, nextRA_time := - 1\<rparr>, [], TCL_OK))
      else Inr (s, [], TCL_OK))"
| "nd_command now n s SendRS =
     (if router s = 0 then (let (s1, out) = send_rs now n s in Inr (s1, out, TCL_OK)) else Inr (s, [], TCL_ERROR))"
| "nd_command now n s SendAds = (let (s1, out) = send_ads s IP_BROADCAST in Inr (s1, out, TCL_OK))"
| "nd_command now n s (SetMinRtrAdv t) = Inr (s\<lparr>minRtrAdvInterval := t\<rparr>, [], TCL_OK)"
| "nd_command now n s (SetMaxRtrAdv t) = Inr (s\<lparr>maxRtrAdvInterval := t\<rparr>, [], TCL_OK)"
| "nd_command now n s (RouterLifetime t) = Inr (s\<lparr>rtrlftm := t\<rparr>, [], TCL_OK)"
| "nd_command now n s (PrefixLifetime l) = Inr (s\<lparr>prefix_lifetime := l\<rparr>, [], TCL_OK)"
| "nd_command now n s (SetRouter b) = Inr (s\<lparr>router := (if b then 1 else 0)\<rparr>, [], TCL_OK)"
| "nd_command now n s (NdSetMrBs b) = Inr (s\<lparr>nd_mr_bs := (if b then 1 else 0)\<rparr>, [], TCL_OK)"
| "nd_command now n s (SetIfmanager b) = Inr (s\<lparr>iMngmnt := b\<rparr>, [], if b then TCL_OK else TCL_ERROR)"
| "nd_command now n s (EnableBroadcast b) = Inr (s\<lparr>broadcast := (if b then 1 else 0)\<rparr>, [], TCL_OK)"
| "nd_command now n s (AddRATarget d) = (let (r, s1) = add_ra_target d s in Inr (s1, [], tcl_of r))"
| "nd_command now n s (RemoveRATarget d) = (let (r, s1) = remove_ra_target d s in Inr (s1, [], tcl_of r))"
| "nd_command now n s (AddRSTarget d) = (let (r, s1) = add_rs_target d s in Inr (s1, [], tcl_of r))"
| "nd_command now n s (RemoveRSTarget d) = (let (r, s1) = remove_rs_target d s in Inr (s1, [], tcl_of r))"

end
