(* ===== verification/Mobility.thy ===== *)
theory Mobility
  imports Mysip_App Nd
begin

text \<open>
  A host: its MIPv6 agent, the SIP agent that \<^verbatim>\<open>udpmysip_\<close> points to when it has one, and the
  reactions of the two to the events of neighbour discovery (\<^verbatim>\<open>process_nd_event\<close> of
  nist-2/hsntg/mip6.cc) and to the loss of a link (\<^verbatim>\<open>process_link_down\<close> of
  nist-2/hsntg/802_21/handover-1.cc).
\<close>

record host =
  h_mip :: mip6
  h_sip :: "udpmysip option"
  h_mipv6_set :: bool

text \<open>The pointer \<^verbatim>\<open>mipv6_\<close> of the SIP agent, set by \<^verbatim>\<open>set-mipv6\<close>.\<close>

definition mipv6_of :: "host \<Rightarrow> mip6 \<Rightarrow> mip6 option" where
  "mipv6_of h m = (if h_mipv6_set h then Some m else None)"

type_synonym host_result = "(net \<times> host \<times> action list) res"

text \<open>The new address is registered with SIP, or with MIPv6 on a host without SIP.\<close>

definition register_sip ::
  "time \<Rightarrow> net \<Rightarrow> mip6 option \<Rightarrow> udpmysip \<Rightarrow> addr \<Rightarrow> node_ref \<Rightarrow> addr \<Rightarrow> addr \<Rightarrow> sip_result" where
  "register_sip now n m s pfx i bs na =
     bind_res (if sip_exp_mr s = 3 then mn_update_binding (sip_set_mr_bs bs s) na else Inr s) (\<lambda>s1.
     bind_res (send_reg_msg now n m s1 pfx i) (\<lambda>(s2, out).
       if sip_exp_mr s2 = 2 then
         bind_res (sip_mn_send_bu_cn now m s2) (\<lambda>out'. Inr (s2, out @ out'))
       else Inr (s2, out)))"

definition register_mip :: "net \<Rightarrow> mip6 \<Rightarrow> addr \<Rightarrow> node_ref \<Rightarrow> mip_result" where
  "register_mip n m pfx i =
     bind_res (send_bu_msg n m pfx i) (\<lambda>(m1, out).
     bind_res (mn_send_bu_cn m1) (\<lambda>(m2, out'). Inr (m2, out @ out')))"

definition process_new_prefix ::
  "time \<Rightarrow> net \<Rightarrow> host \<Rightarrow> addr \<Rightarrow> node_ref \<Rightarrow> addr \<Rightarrow> host_result" where
  "process_new_prefix now n h pfx i bs =
     (let m = h_mip h
      in if ms_bs_enable m \<noteq> 0 then Inr (n, h, [])
         else
           let m1 = (if exp_mr m = 9 then m\<lparr>mr_bs_daddr := bs\<rparr> else m);
               en = (\<lambda>m. m\<lparr>ms_bs_enable := (if exp_mr m = 9 then 0 else 1)\<rparr>)
           in bind_res (compute_new_address n m1 pfx i) (\<lambda>(na, n1).
                case h_sip h of
                  Some s \<Rightarrow>
                    bind_res (register_sip now n1 (mipv6_of h m1) s pfx i bs na) (\<lambda>(s', out).
                      Inr (n1, h\<lparr>h_mip := en m1, h_sip := Some s'\<rparr>, out))
                | None \<Rightarrow>
                    bind_res (register_mip n1 m1 pfx i) (\<lambda>(m2, out).
                      Inr (n1, h\<lparr>h_mip := en m2\<rparr>, out))))"

definition process_mr :: "net \<Rightarrow> host \<Rightarrow> addr \<Rightarrow> node_ref \<Rightarrow> host_result" where
  "process_mr n h pfx i =
     (case h_sip h of
        Some s \<Rightarrow> bind_res (sip_process_mr n s pfx i) (\<lambda>(s', out). Inr (n, h\<lparr>h_sip := Some s'\<rparr>, out))
      | None \<Rightarrow>
          bind_res (process_mr_mip n (h_mip h) pfx i) (\<lambda>(m', out). Inr (n, h\<lparr>h_mip := m'\<rparr>, out)))"

text \<open>\<^verbatim>\<open>send_mr_bu_msg\<close> only logs, so a router's own prefix changes its address and nothing else.\<close>

definition process_mr_prefix :: "net \<Rightarrow> host \<Rightarrow> addr \<Rightarrow> node_ref \<Rightarrow> host_result" where
  "process_mr_prefix n h pfx i =
     bind_res (compute_new_address n (h_mip h) pfx i) (\<lambda>(_, n1). Inr (n1, h, []))"

definition process_nd_event :: "time \<Rightarrow> net \<Rightarrow> host \<Rightarrow> nd_event \<Rightarrow> host_result" where
  "process_nd_event now n h ev =
     (case ev of
        ND_NEW_PREFIX pfx i bs \<Rightarrow> process_new_prefix now n h pfx i bs
      | ND_PREFIX_EXPIRED pfx i \<Rightarrow> Inr (n, h, [])
      | ND_MR pfx i bs \<Rightarrow> process_mr n h pfx i)"

definition host_re_homing :: "time \<Rightarrow> net \<Rightarrow> host \<Rightarrow> node_ref \<Rightarrow> host_result" where
  "host_re_homing now n h i =
     (case h_sip h of
        Some s \<Rightarrow>
          bind_res (sip_re_homing now n (mipv6_of h (h_mip h)) s i) (\<lambda>(s', out).
            Inr (n, h\<lparr>h_sip := Some s'\<rparr>, out))
      | None \<Rightarrow> bind_res (re_homing n (h_mip h) i) (\<lambda>(m', out). Inr (n, h\<lparr>h_mip := m'\<rparr>, out)))"

end
