(* ===== verification/Nd_Props.thy ===== *)
theory Nd_Props
  imports Nd
begin

text \<open>
  Properties of neighbour discovery: the agent as a cache of prefixes that expire, what it tells the
  interface manager, the end of unanswered solicitations and the time of answers.
\<close>

section \<open>The table\<close>

lemma nd_lookup_Some: "nd_lookup pfx es = Some e \<Longrightarrow> e \<in> set es \<and> ne_prefix e = pfx"
  by (auto simp: nd_lookup_def dest: find_SomeD)

lemma nd_lookup_None: "nd_lookup pfx es = None \<longleftrightarrow> pfx \<notin> ne_prefix ` set es"
  by (auto simp: nd_lookup_def find_None_iff)

lemma upd_prefix_prefixes [simp]:
  "(\<And>e. ne_prefix (f e) = ne_prefix e) \<Longrightarrow> map ne_prefix (upd_prefix pfx f es) = map ne_prefix es"
  by (induction es) auto

lemma set_upd_prefix: "x \<in> set (upd_prefix pfx f es) \<Longrightarrow> x \<in> set es \<or> (\<exists>e \<in> set es. ne_prefix e = pfx \<and> x = f e)"
  by (induction es) (auto split: if_splits)

lemma set_rem_prefix: "set (rem_prefix pfx es) \<subseteq> set es"
  by (induction es) auto

lemma distinct_rem_prefix: "distinct (map ne_prefix es) \<Longrightarrow> distinct (map ne_prefix (rem_prefix pfx es))"
  by (induction es) (use set_rem_prefix in \<open>auto\<close>)

lemma nd_lookup_upd:
  "(\<And>e. ne_prefix (f e) = ne_prefix e) \<Longrightarrow> nd_lookup p (upd_prefix pfx f es) = (if p = pfx then map_option f (nd_lookup p es) else nd_lookup p es)"
  by (induction es) (auto simp: nd_lookup_def)

text \<open>The abstract neighbour cache: when each known prefix expires.\<close>

definition neighbours :: "nd_agent \<Rightarrow> addr \<Rightarrow> time option" where
  "neighbours s pfx = map_option expire (nd_lookup pfx (nlist s))"

definition nd_inv :: "nd_agent \<Rightarrow> bool" where
  "nd_inv s \<longleftrightarrow> distinct (map ne_prefix (nlist s))
     \<and> (\<forall>e \<in> set (nlist s). ne_timer e = TIMER_PENDING (expire e) \<and> ne_prefix e \<notin> {IPv6_TIMER_RA, IPv6_TIMER_RS})
     \<and> rs_timer s \<noteq> TIMER_HANDLING
     \<and> ra_timer s = (if nextRA_time s = - 1 then TIMER_IDLE else TIMER_PENDING (nextRA_time s))
     \<and> (\<forall>r \<in> set (rs_list s). is_pending (rr_timer r))
     \<and> 0 \<le> minRtrAdvInterval s \<and> 0 \<le> maxRtrAdvInterval s \<and> (\<forall>k. 0 \<le> nd_uni s k \<and> nd_uni s k < 1)"

lemma nd_lookup_rem:
  "distinct (map ne_prefix es) \<Longrightarrow> nd_lookup p (rem_prefix pfx es) = (if p = pfx then None else nd_lookup p es)"
proof (induction es)
  case (Cons e es)
  then have "pfx = ne_prefix e \<Longrightarrow> nd_lookup pfx es = None" by (simp add: nd_lookup_None)
  with Cons show ?case by (auto simp: nd_lookup_def)
qed (simp add: nd_lookup_def)

section \<open>Inputs\<close>

datatype nd_input =
    NdRecv packet
  | RaExpire
  | RsExpire
  | PrefixExpire addr
  | RsReplyExpire nat
  | NdCommand nd_cmd
  | NdPrefix addr time
  | NdSendRs

definition nd_handle :: "time \<Rightarrow> net \<Rightarrow> addr \<Rightarrow> nd_agent \<Rightarrow> nd_input \<Rightarrow> nd_result" where
  "nd_handle now n g s i = (case i of
     NdRecv p \<Rightarrow> nd_recv now g s p
   | RaExpire \<Rightarrow> ra_timer_expire now n s
   | RsExpire \<Rightarrow> rs_timer_expire now n s
   | PrefixExpire pfx \<Rightarrow> prefix_timer_expire now n pfx s
   | RsReplyExpire k \<Rightarrow> rsreply_timer_expire k s
   | NdCommand c \<Rightarrow> bind_res (nd_command now n s c) (\<lambda>(s', out, _). Inr (s', out, []))
   | NdPrefix pfx life \<Rightarrow> bind_res (add_prefix now pfx life s) (\<lambda>s'. Inr (s', [], []))
   | NdSendRs \<Rightarrow> (let (s', out) = send_rs now n s in Inr (s', out, [])))"

text \<open>A timer expires when it is due.\<close>

definition due :: "time \<Rightarrow> nd_agent \<Rightarrow> nd_input \<Rightarrow> bool" where
  "due now s i = (case i of
     RaExpire \<Rightarrow> ra_timer s = TIMER_PENDING now
   | RsExpire \<Rightarrow> rs_timer s = TIMER_PENDING now
   | PrefixExpire pfx \<Rightarrow> entry_timer pfx s = TIMER_PENDING now
   | RsReplyExpire k \<Rightarrow> (\<exists>r \<in> set (rs_list s). rr_id r = k \<and> rr_timer r = TIMER_PENDING now)
   | _ \<Rightarrow> True)"

text \<open>What the surroundings have to respect.\<close>

definition real_prefix :: "addr \<Rightarrow> bool" where
  "real_prefix pfx \<longleftrightarrow> pfx \<notin> {IPv6_TIMER_RA, IPv6_TIMER_RS}"

definition nd_ok :: "nd_agent \<Rightarrow> nd_input \<Rightarrow> bool" where
  "nd_ok s i = (case i of
     NdRecv p \<Rightarrow> ptype p = PT_RADS \<longrightarrow> real_prefix (ra_prefix (ra_hdr p))
   | NdCommand StopRA \<Rightarrow> router s \<noteq> 0 \<longrightarrow> nextRA_time s \<noteq> - 1
   | NdCommand (SetMinRtrAdv t) \<Rightarrow> 0 \<le> t
   | NdCommand (SetMaxRtrAdv t) \<Rightarrow> 0 \<le> t
   | NdPrefix pfx _ \<Rightarrow> real_prefix pfx \<and> neighbours s pfx = None
   | _ \<Rightarrow> True)"

section \<open>Preservation\<close>

lemma uniform_nonneg:
  assumes "nd_inv s"
  shows "0 \<le> fst (uniform (minRtrAdvInterval s) (maxRtrAdvInterval s) s)"
proof -
  let ?u = "nd_uni s (nd_uni_pos s)"
  have "0 \<le> (1 - ?u) * minRtrAdvInterval s + ?u * maxRtrAdvInterval s"
    using assms by (intro add_nonneg_nonneg mult_nonneg_nonneg) (auto simp: nd_inv_def less_imp_le)
  then show ?thesis by (simp add: uniform_def algebra_simps)
qed

text \<open>Fields that sending leaves alone.\<close>

definition same_tables :: "nd_agent \<Rightarrow> nd_agent \<Rightarrow> bool" where
  "same_tables s s' \<longleftrightarrow> nlist s' = nlist s \<and> rs_list s' = rs_list s \<and> ra_timer s' = ra_timer s
     \<and> nextRA_time s' = nextRA_time s \<and> minRtrAdvInterval s' = minRtrAdvInterval s \<and> maxRtrAdvInterval s' = maxRtrAdvInterval s
     \<and> nd_uni s' = nd_uni s \<and> router s' = router s \<and> useAdvInterval s' = useAdvInterval s
     \<and> iMngmnt s' = iMngmnt s \<and> nd_mr_bs s' = nd_mr_bs s \<and> nd_node s' = nd_node s"

lemma same_tables_refl [simp]: "same_tables s s"
  by (simp add: same_tables_def)

lemma same_tables_trans: "same_tables s s1 \<Longrightarrow> same_tables s1 s2 \<Longrightarrow> same_tables s s2"
  by (simp add: same_tables_def)

lemma same_tables_inv: "same_tables s s' \<Longrightarrow> rs_timer s' \<noteq> TIMER_HANDLING \<Longrightarrow> nd_inv s \<Longrightarrow> nd_inv s'"
  by (simp add: same_tables_def nd_inv_def)

lemma send_ads_tables: "same_tables s (fst (send_ads s d)) \<and> rs_timer (fst (send_ads s d)) = rs_timer s"
  by (simp add: send_ads_def same_tables_def get_mr_bs_entry_random_def Let_def)

lemma send_ads_to_tables: "same_tables s (fst (send_ads_to s ds)) \<and> rs_timer (fst (send_ads_to s ds)) = rs_timer s"
proof (induction ds arbitrary: s)
  case (Cons d ds)
  from Cons.IH [of "fst (send_ads s d)"] send_ads_tables [of s d] show ?case
    by (auto simp: case_prod_unfold Let_def intro: same_tables_trans)
qed simp

lemma send_rs_to_tables: "same_tables s (fst (send_rs_to n s d)) \<and> rs_timer (fst (send_rs_to n s d)) = rs_timer s"
  by (simp add: send_rs_to_def same_tables_def Let_def)

lemma send_rs_all_tables: "same_tables s (fst (send_rs_all n s ds)) \<and> rs_timer (fst (send_rs_all n s ds)) = rs_timer s"
proof (induction ds arbitrary: s)
  case (Cons d ds)
  from Cons.IH [of "fst (send_rs_to n s d)"] send_rs_to_tables [of s n d] show ?case
    by (auto simp: case_prod_unfold Let_def intro: same_tables_trans)
qed simp

lemma same_tables_rs_timer [simp]: "same_tables s (s'\<lparr>rs_timer := t\<rparr>) = same_tables s s'"
  by (simp add: same_tables_def)

lemma send_rs_tables:
  "same_tables s (fst (send_rs now n s)) \<and> (rs_timer (fst (send_rs now n s)) = rs_timer s \<or> is_pending (rs_timer (fst (send_rs now n s))))"
  using send_rs_to_tables [of s n IP_BROADCAST] send_rs_all_tables [of s n "rs_daddrs s"]
  by (auto simp: send_rs_def case_prod_unfold Let_def timer_resched_def is_pending_def)

lemma is_pending_not_handling: "is_pending t \<Longrightarrow> t \<noteq> TIMER_HANDLING"
  by (auto simp: is_pending_def)

section \<open>The steps\<close>

text \<open>
  What the agent implements: a cache of prefixes with their expiry times, filled by advertisements
  while the node is a host.
\<close>

record nd_spec =
  sp_cache :: "addr \<rightharpoonup> time"
  sp_router :: int
  sp_useAdv :: int

definition sp_lifetime :: "nd_spec \<Rightarrow> hdr_rtads \<Rightarrow> time" where
  "sp_lifetime sp h =
     (if sp_useAdv sp \<noteq> 0 then real (unat (advertisement_interval h)) * (3 / 1000) else router_lifetime h)"

definition spec_step :: "time \<Rightarrow> nd_input \<Rightarrow> nd_spec \<Rightarrow> nd_spec" where
  "spec_step now i sp = (case i of
     NdRecv p \<Rightarrow> (if ptype p = PT_RADS \<and> sp_router sp = 0
       then sp\<lparr>sp_cache := (sp_cache sp)(ra_prefix (ra_hdr p) \<mapsto> now + sp_lifetime sp (ra_hdr p))\<rparr> else sp)
   | PrefixExpire pfx \<Rightarrow> sp\<lparr>sp_cache := (sp_cache sp)(pfx := None)\<rparr>
   | NdPrefix pfx life \<Rightarrow> sp\<lparr>sp_cache := (sp_cache sp)(pfx \<mapsto> now + life)\<rparr>
   | NdCommand (SetRouter b) \<Rightarrow> sp\<lparr>sp_router := (if b then 1 else 0)\<rparr>
   | _ \<Rightarrow> sp)"

definition spec_of :: "nd_agent \<Rightarrow> nd_spec" where
  "spec_of s = \<lparr>sp_cache = neighbours s, sp_router = router s, sp_useAdv = useAdvInterval s\<rparr>"

text \<open>What the interface manager is told.\<close>

definition nd_notes :: "addr \<Rightarrow> nd_agent \<Rightarrow> nd_input \<Rightarrow> if_call list" where
  "nd_notes g s i = (if \<not> iMngmnt s then [] else case i of
     NdRecv p \<Rightarrow> let pfx = ra_prefix (ra_hdr p) in
       if ptype p \<noteq> PT_RADS then []
       else if router s \<noteq> 0 then [NdEvent (ND_MR pfx (nd_node s) g)]
       else if neighbours s pfx \<noteq> None then []
       else if nd_mr_bs s \<noteq> 0 then [SetMrBsPrefix pfx (nd_node s) (saddr p) (ra_lifetime s (ra_hdr p))]
       else [NdEvent (ND_NEW_PREFIX pfx (nd_node s) (saddr p))]
   | PrefixExpire pfx \<Rightarrow> [NdEvent (ND_PREFIX_EXPIRED pfx (nd_node s))]
   | _ \<Rightarrow> [])"

definition nd_good :: "nd_agent \<Rightarrow> (addr \<rightharpoonup> time) \<Rightarrow> if_call list \<Rightarrow> nd_result \<Rightarrow> bool" where
  "nd_good s m cs x \<longleftrightarrow> (\<exists>s' out. x = Inr (s', out, cs) \<and> nd_inv s' \<and> neighbours s' = m
     \<and> router s' = router s \<and> useAdvInterval s' = useAdvInterval s
     \<and> iMngmnt s' = iMngmnt s \<and> nd_mr_bs s' = nd_mr_bs s)"

lemma neighbours_cong: "nlist s' = nlist s \<Longrightarrow> neighbours s' = neighbours s"
  by (simp add: neighbours_def fun_eq_iff)

lemma nd_good_cong: "router s' = router s \<Longrightarrow> useAdvInterval s' = useAdvInterval s \<Longrightarrow> iMngmnt s' = iMngmnt s
    \<Longrightarrow> nd_mr_bs s' = nd_mr_bs s \<Longrightarrow> nd_good s' m cs x \<longleftrightarrow> nd_good s m cs x"
  by (simp add: nd_good_def)

lemma nd_good_same:
  assumes "nd_inv s" and "same_tables s s'" and "rs_timer s' \<noteq> TIMER_HANDLING"
  shows "nd_good s (neighbours s) calls (Inr (s', out, calls))"
  using assms same_tables_inv neighbours_cong [of s' s] by (auto simp: nd_good_def same_tables_def)

lemma expire_update [simp]: "expire (update_entry now life e) = now + life" "expire (new_entry now pfx life) = now + life"
  by (simp_all add: expire_def update_entry_def new_entry_def)

lemma recv_ads_good:
  assumes "nd_inv s" and "router s = 0" and "real_prefix (ra_prefix (ra_hdr p))" and "ptype p = PT_RADS"
  shows "nd_good s ((neighbours s)(ra_prefix (ra_hdr p) \<mapsto> now + ra_lifetime s (ra_hdr p))) (nd_notes g s (NdRecv p))
    (recv_ads now s p)"
proof -
  let ?s = "s\<lparr>rs_timer := TIMER_IDLE\<rparr>" and ?h = "ra_hdr p"
  let ?pfx = "ra_prefix ?h" and ?life = "ra_lifetime s ?h"
  have s: "(if rs_timer s \<noteq> TIMER_IDLE then bind_res (timer_cancel (rs_timer s)) (\<lambda>t. Inr (s\<lparr>rs_timer := t\<rparr>)) else Inr s) = Inr ?s"
    using assms(1) by (cases "rs_timer s") (auto simp: nd_inv_def)
  have life: "ra_lifetime ?s ?h = ?life" by (simp add: ra_lifetime_def)
  show ?thesis
  proof (cases "nd_lookup ?pfx (nlist s)")
    case None
    let ?s2 = "?s\<lparr>nlist := new_entry now ?pfx ?life # nlist s\<rparr>"
    from None have "add_prefix now ?pfx ?life ?s = Inr ?s2" by (simp add: add_prefix_def)
    moreover have "neighbours ?s2 = (neighbours s)(?pfx \<mapsto> now + ?life)"
      by (simp add: neighbours_def nd_lookup_def fun_eq_iff new_entry_def)
        (simp add: expire_def)
    moreover have "nd_inv ?s2" using assms(1,3) None
      by (auto simp: nd_inv_def nd_lookup_None new_entry_def expire_def timer_resched_def real_prefix_def)
    ultimately show ?thesis using assms(2,4) None life unfolding recv_ads_def s
      by (simp add: nd_good_def nd_notes_def neighbours_def Let_def)
  next
    case (Some e)
    let ?s2 = "?s\<lparr>nlist := upd_prefix ?pfx (update_entry now ?life) (nlist s)\<rparr>"
    have pf: "ne_prefix (update_entry now ?life e) = ne_prefix e" for e by (simp add: update_entry_def)
    have "neighbours ?s2 = (neighbours s)(?pfx \<mapsto> now + ?life)"
      using Some by (simp add: neighbours_def nd_lookup_upd pf fun_eq_iff)
    moreover have "nd_inv ?s2" using assms(1) pf
      by (auto simp: nd_inv_def timer_resched_def dest!: set_upd_prefix) (auto simp: update_entry_def expire_def timer_resched_def)
    ultimately show ?thesis using assms(2,4) Some life unfolding recv_ads_def s
      by (simp add: nd_good_def nd_notes_def neighbours_def Let_def)
  qed
qed

lemma add_rs_reply_good:
  "nd_inv s \<Longrightarrow> nd_good s (neighbours s) [] (bind_res (add_rs_reply now d x s) (\<lambda>s2. Inr (s2, [], [])))"
  by (auto simp: add_rs_reply_def timer_sched_def nd_good_def nd_inv_def is_pending_def intro!: neighbours_cong)

lemma recv_rs_good:
  assumes "nd_inv s" and "router s \<noteq> 0"
  shows "nd_good s (neighbours s) [] (recv_rs now s p)"
proof -
  let ?s = "s\<lparr>nd_uni_pos := Suc (nd_uni_pos s)\<rparr>"
  have "same_tables s ?s" by (simp add: same_tables_def)
  moreover have "rs_timer ?s \<noteq> TIMER_HANDLING" using assms(1) by (simp add: nd_inv_def)
  ultimately have "nd_inv ?s" "nd_good s (neighbours s) [] (Inr (?s, [], []))" "neighbours ?s = neighbours s"
    using assms(1) same_tables_inv nd_good_same neighbours_cong [of ?s s] by auto
  moreover have "nd_good ?s m cs x \<longleftrightarrow> nd_good s m cs x" for m cs x by (rule nd_good_cong) simp_all
  ultimately show ?thesis using add_rs_reply_good [of ?s now "saddr p"] assms(2)
    by (simp add: recv_rs_def uniform_def Let_def)
qed

lemma nd_recv_good:
  assumes "nd_inv s" and "nd_ok s (NdRecv p)"
  shows "nd_good s (sp_cache (spec_step now (NdRecv p) (spec_of s))) (nd_notes g s (NdRecv p)) (nd_recv now g s p)"
proof -
  have "rs_timer s \<noteq> TIMER_HANDLING" using assms(1) by (simp add: nd_inv_def)
  with assms recv_ads_good [OF assms(1), of p now g] recv_rs_good [OF assms(1), of now p] show ?thesis
    by (auto simp: nd_recv_def spec_step_def spec_of_def sp_lifetime_def ra_lifetime_def nd_ok_def recv_ads_mr_def
        nd_notes_def Let_def intro!: nd_good_same)
qed

lemma ra_timeout:
  "\<exists>d s' out. d = fst (uniform (minRtrAdvInterval s) (maxRtrAdvInterval s) s)
    \<and> nd_timeout now n IPv6_TIMER_RA s = Inr (s', out, [])
    \<and> same_tables (s\<lparr>ra_timer := TIMER_PENDING (now + d), nextRA_time := d + now\<rparr>) s' \<and> rs_timer s' = rs_timer s"
proof -
  let ?d = "minRtrAdvInterval s + (maxRtrAdvInterval s - minRtrAdvInterval s) * nd_uni s (nd_uni_pos s)"
  let ?s = "s\<lparr>lastRA_time := now, nd_uni_pos := Suc (nd_uni_pos s), ra_timer := TIMER_PENDING (now + ?d), nextRA_time := ?d + now\<rparr>"
  obtain s3 out where r: "(if broadcast s \<noteq> 0 then send_ads ?s IP_BROADCAST else send_ads_to ?s (ra_daddrs s)) = (s3, out)"
    by fastforce
  have "same_tables ?s s3 \<and> rs_timer s3 = rs_timer s"
    using r send_ads_tables [of ?s IP_BROADCAST] send_ads_to_tables [of ?s "ra_daddrs s"] by (auto split: if_splits)
  moreover have "nd_timeout now n IPv6_TIMER_RA s = Inr (s3, out, [])"
    using r by (cases "broadcast s = 0") (simp_all add: nd_timeout_def uniform_def timer_resched_def Let_def)
  ultimately show ?thesis by (auto simp: uniform_def same_tables_def)
qed

lemma rs_timeout_tables:
  "\<exists>s' out. nd_timeout now n IPv6_TIMER_RS s = Inr (s', out, []) \<and> same_tables s s'"
proof -
  let ?s = "s\<lparr>nb_rtr_sol := nb_rtr_sol s + 1\<rparr>"
  have "same_tables s ?s" "same_tables s (?s\<lparr>nb_rtr_sol := 0\<rparr>)" by (simp_all add: same_tables_def)
  with same_tables_trans [of s ?s "fst (send_rs now n ?s)"] send_rs_tables [of ?s now n] show ?thesis
    by (simp add: nd_timeout_def IPv6_TIMER_RA_def IPv6_TIMER_RS_def Let_def case_prod_unfold)
qed

lemma ra_expire_good:
  assumes "nd_inv s" and "0 \<le> now" and "ra_timer s = TIMER_PENDING t"
  shows "nd_good s (neighbours s) [] (ra_timer_expire now n s)"
proof -
  let ?s = "s\<lparr>ra_timer := TIMER_HANDLING\<rparr>"
  obtain d s' out where d: "d = fst (uniform (minRtrAdvInterval ?s) (maxRtrAdvInterval ?s) ?s)"
    and s': "nd_timeout now n IPv6_TIMER_RA ?s = Inr (s', out, [])"
      "same_tables (s\<lparr>ra_timer := TIMER_PENDING (now + d), nextRA_time := d + now\<rparr>) s'" "rs_timer s' = rs_timer s"
    using ra_timeout [of ?s now n] by auto
  have "0 \<le> d" using uniform_nonneg [OF assms(1)] by (simp add: d uniform_def)
  then have "nd_inv (s\<lparr>ra_timer := TIMER_PENDING (now + d), nextRA_time := d + now\<rparr>)"
    using assms(1,2) by (simp add: nd_inv_def)
  moreover have "ra_timer s' = TIMER_PENDING (now + d)" using s'(2) by (simp add: same_tables_def)
  then have "ra_timer_expire now n s = Inr (s', out, [])"
    using assms(3) s'(1) by (simp add: ra_timer_expire_def timer_handle_pending timer_end_def)
  moreover have "rs_timer s' \<noteq> TIMER_HANDLING" using s'(3) assms(1) by (simp add: nd_inv_def)
  moreover have "neighbours (s\<lparr>ra_timer := TIMER_PENDING (now + d), nextRA_time := d + now\<rparr>) = neighbours s"
    by (rule neighbours_cong) simp
  moreover have "nd_good (s\<lparr>ra_timer := TIMER_PENDING (now + d), nextRA_time := d + now\<rparr>) m cs x \<longleftrightarrow> nd_good s m cs x" for m cs x
    by (rule nd_good_cong) simp_all
  ultimately show ?thesis using nd_good_same [OF _ s'(2)] by metis
qed

lemma rs_expire_good:
  assumes "nd_inv s" and "rs_timer s = TIMER_PENDING t"
  shows "nd_good s (neighbours s) [] (rs_timer_expire now n s)"
proof -
  obtain s' out where s': "nd_timeout now n IPv6_TIMER_RS (s\<lparr>rs_timer := TIMER_HANDLING\<rparr>) = Inr (s', out, [])"
    "same_tables (s\<lparr>rs_timer := TIMER_HANDLING\<rparr>) s'" using rs_timeout_tables by blast
  have "rs_timer_expire now n s = Inr (s'\<lparr>rs_timer := timer_end (rs_timer s')\<rparr>, out, [])"
    using assms(2) s'(1) by (simp add: rs_timer_expire_def timer_handle_pending)
  moreover have "same_tables s (s'\<lparr>rs_timer := timer_end (rs_timer s')\<rparr>)"
    using s'(2) by (simp add: same_tables_def)
  ultimately show ?thesis using nd_good_same [OF assms(1)] by simp
qed

lemma rem_upd_prefix: "(\<And>e. ne_prefix (f e) = ne_prefix e) \<Longrightarrow> rem_prefix pfx (upd_prefix pfx f es) = rem_prefix pfx es"
  by (induction es) auto

lemma prefix_expire_good:
  assumes "nd_inv s" and "entry_timer pfx s = TIMER_PENDING t"
  shows "nd_good s ((neighbours s)(pfx := None)) (nd_notes g s (PrefixExpire pfx)) (prefix_timer_expire now n pfx s)"
proof -
  let ?es = "upd_prefix pfx (ne_timer_update (\<lambda>_. TIMER_HANDLING)) (nlist s)"
  obtain e where e: "nd_lookup pfx (nlist s) = Some e" using assms(2) by (auto simp: entry_timer_def split: option.splits)
  then have real: "pfx \<noteq> IPv6_TIMER_RA" "pfx \<noteq> IPv6_TIMER_RS"
    using assms(1) nd_lookup_Some [OF e] by (auto simp: nd_inv_def)
  have look: "nd_lookup pfx ?es \<noteq> None" using e by (simp add: nd_lookup_upd)
  have rem: "rem_prefix pfx ?es = rem_prefix pfx (nlist s)" by (simp add: rem_upd_prefix)
  have gone: "nd_lookup pfx (rem_prefix pfx (nlist s)) = None"
    using assms(1) by (simp add: nd_lookup_rem nd_inv_def)
  have up: "upd_prefix pfx f es = es" if "nd_lookup pfx es = None" for f es
    using that by (induction es) (auto simp: nd_lookup_def split: if_splits)
  let ?s = "s\<lparr>nlist := rem_prefix pfx (nlist s)\<rparr>"
  have "prefix_timer_expire now n pfx s = Inr (?s, [], nd_notes g s (PrefixExpire pfx))"
    using assms(2) look real rem gone up
    by (auto simp: prefix_timer_expire_def timer_handle_pending set_entry_timer_def nd_timeout_def nd_notes_def)
  moreover have "nd_inv ?s" using assms(1) set_rem_prefix [of pfx "nlist s"] distinct_rem_prefix
    by (auto simp: nd_inv_def)
  moreover have "neighbours ?s = (neighbours s)(pfx := None)"
    using assms(1) by (simp add: neighbours_def fun_eq_iff nd_lookup_rem nd_inv_def)
  ultimately show ?thesis by (auto simp: nd_good_def)
qed

lemma set_rem_reply: "set (rem_reply k rs) \<subseteq> set rs"
  by (induction rs) auto

lemma rsreply_expire_good:
  assumes "nd_inv s" and "\<exists>r \<in> set (rs_list s). rr_id r = k"
  shows "nd_good s (neighbours s) [] (rsreply_timer_expire k s)"
proof -
  obtain th where th: "find (\<lambda>r. rr_id r = k) (rs_list s) = Some th" using assms(2)
    by (cases "find (\<lambda>r. rr_id r = k) (rs_list s)") (auto simp: find_None_iff)
  then have "is_pending (rr_timer th)" using assms(1) by (auto simp: nd_inv_def dest!: find_SomeD)
  then have "timer_begin (rr_timer th) = Inr TIMER_HANDLING" by (auto simp: is_pending_def timer_begin_def split: timer.splits)
  moreover obtain s1 out where r: "(if broadcast s \<noteq> 0 then send_ads s IP_BROADCAST else send_ads s (rr_daddr th)) = (s1, out)"
    by fastforce
  then have t: "same_tables s s1" "rs_timer s1 = rs_timer s"
    using send_ads_tables [of s IP_BROADCAST] send_ads_tables [of s "rr_daddr th"] by (auto split: if_splits)
  ultimately have "\<exists>i. rsreply_timer_expire k s = Inr (s1\<lparr>rs_list := rem_reply i (rs_list s1)\<rparr>, out, [])"
    using th r by (cases "broadcast s = 0") (auto simp: rsreply_timer_expire_def process_rsreply_def Let_def)
  then show ?thesis using t assms(1) set_rem_reply
    by (fastforce simp: nd_good_def same_tables_def nd_inv_def intro: neighbours_cong)
qed

lemma add_prefix_good:
  assumes "nd_inv s" and "real_prefix pfx" and "neighbours s pfx = None"
  shows "nd_good s ((neighbours s)(pfx \<mapsto> now + life)) [] (bind_res (add_prefix now pfx life s) (\<lambda>s'. Inr (s', [], [])))"
proof -
  let ?s = "s\<lparr>nlist := new_entry now pfx life # nlist s\<rparr>"
  have "nd_lookup pfx (nlist s) = None" using assms(3) by (simp add: neighbours_def)
  then have "add_prefix now pfx life s = Inr ?s" "nd_inv ?s" using assms(1,2)
    by (auto simp: add_prefix_def nd_inv_def nd_lookup_None new_entry_def expire_def timer_resched_def real_prefix_def)
  moreover have "neighbours ?s = (neighbours s)(pfx \<mapsto> now + life)"
    by (simp add: neighbours_def nd_lookup_def fun_eq_iff new_entry_def) (simp add: expire_def)
  ultimately show ?thesis by (simp add: nd_good_def)
qed

definition nd_step_ok :: "time \<Rightarrow> addr \<Rightarrow> nd_agent \<Rightarrow> nd_input \<Rightarrow> nd_result \<Rightarrow> bool" where
  "nd_step_ok now g s i x \<longleftrightarrow>
     (\<exists>s' out. x = Inr (s', out, nd_notes g s i) \<and> nd_inv s' \<and> spec_of s' = spec_step now i (spec_of s)
      \<and> ((\<nexists>c. i = NdCommand c) \<longrightarrow> iMngmnt s' = iMngmnt s \<and> nd_mr_bs s' = nd_mr_bs s))"

lemma nd_good_step:
  assumes "nd_good s (sp_cache (spec_step now i (spec_of s))) (nd_notes g s i) x" and "sp_router (spec_step now i (spec_of s)) = router s"
  shows "nd_step_ok now g s i x"
  using assms unfolding nd_good_def nd_step_ok_def
  by (force simp: spec_of_def spec_step_def split: nd_input.splits if_splits nd_cmd.splits)

lemma uniform_fields [simp]: "snd (uniform a b s) = s\<lparr>nd_uni_pos := Suc (nd_uni_pos s)\<rparr>"
  by (simp add: uniform_def)

lemma nd_command_good:
  assumes "nd_inv s" and "0 \<le> now" and "nd_ok s (NdCommand c)"
  shows "nd_step_ok now g s (NdCommand c) (nd_handle now n g s (NdCommand c))"
proof (cases c)
  case StartRA
  have "0 \<le> fst (uniform (minRtrAdvInterval s) (maxRtrAdvInterval s) s)" using uniform_nonneg [OF assms(1)] .
  with StartRA assms show ?thesis
    by (auto simp: nd_step_ok_def nd_notes_def nd_handle_def case_prod_unfold Let_def spec_of_def spec_step_def nd_inv_def
        timer_resched_def intro: neighbours_cong)
next
  case SendRS
  with assms(1) send_rs_tables [of s now n] show ?thesis
    by (auto simp: nd_step_ok_def nd_notes_def nd_handle_def case_prod_unfold Let_def spec_of_def spec_step_def nd_inv_def same_tables_def
        is_pending_def intro: neighbours_cong split: timer.splits)
next
  case SendAds
  with assms(1) send_ads_tables [of s IP_BROADCAST] show ?thesis
    by (auto simp: nd_step_ok_def nd_notes_def nd_handle_def case_prod_unfold Let_def spec_of_def spec_step_def nd_inv_def same_tables_def
        intro: neighbours_cong)
next
  case StopRA
  with assms show ?thesis
    by (auto simp: nd_step_ok_def nd_notes_def nd_handle_def nd_ok_def spec_of_def spec_step_def nd_inv_def timer_cancel_def
        intro: neighbours_cong)
qed (use assms in \<open>auto simp: nd_step_ok_def nd_notes_def nd_handle_def nd_ok_def spec_of_def spec_step_def nd_inv_def case_prod_unfold
  Let_def add_ra_target_def remove_ra_target_def add_rs_target_def remove_rs_target_def intro: neighbours_cong\<close>)

section \<open>Samples\<close>

definition demo_nd :: "int \<Rightarrow> addr \<Rightarrow> nd_agent" where
  "demo_nd rt a = new_nd_agent (agent.extend (demo_agent a)
     \<lparr>nlist = [], ra_daddrs = [], rs_daddrs = [], rs_list = [], rs_next_id = 0, router = rt, nd_mr_bs = 0, useAdvInterval = 0,
      rtrlftm = 18, prefix_lifetime = 5, minRtrAdvInterval = 2, maxRtrAdvInterval = 6, minDelayBetweenRA = 3, maxRADelay = 1 / 2,
      broadcast = 1, rs_timeout = 1, max_rtr_solicitation = 3, nb_rtr_sol = 0, ra_timer = TIMER_IDLE, rs_timer = TIMER_IDLE,
      lastRA_time = 0, nextRA_time = 0, iMngmnt = False, nd_node = 4, nd_uni = (\<lambda>_. 1 / 2), nd_uni_pos = 0,
      nd_rng = (\<lambda>_. 0), nd_rng_pos = 0\<rparr>)"

definition demo_ra :: "addr \<Rightarrow> packet" where
  "demo_ra pfx = (allocpkt (demo_agent pfx))\<lparr>ptype := PT_RADS, ra_hdr := zero_rtads\<lparr>router_lifetime := 18, ra_prefix := pfx\<rparr>\<rparr>"

lemmas demo_nd_defs = demo_nd_def new_nd_agent_def demo_ra_def demo_agent_def agent.defs allocpkt_def zero_rtads_def

lemma demo_nd_simps [simp]:
  "router (demo_nd rt a) = rt" "nlist (demo_nd rt a) = []" "rs_timer (demo_nd rt a) = TIMER_IDLE" "iMngmnt (demo_nd rt a) = False"
  "nd_mr_bs (demo_nd rt a) = 0" "useAdvInterval (demo_nd rt a) = 0" "nb_rtr_sol (demo_nd rt a) = 0"
  "max_rtr_solicitation (demo_nd rt a) = 3" "nd_node (demo_nd rt a) = 4" "here_addr (demo_nd rt a) = a"
  by (simp_all add: demo_nd_defs)

lemma demo_nd_inv [simp]: "nd_inv (demo_nd rt a)" "nd_inv (demo_nd rt a\<lparr>iMngmnt := b\<rparr>)"
  by (simp_all add: demo_nd_defs nd_inv_def)

lemma nd_handle_step:
  assumes "nd_inv s" and "0 \<le> now" and "due now s i" and "nd_ok s i"
  shows "nd_step_ok now g s i (nd_handle now n g s i)"
proof (cases i)
  case (NdRecv p)
  with assms nd_recv_good [OF assms(1), of p now g] show ?thesis
    by (intro nd_good_step) (auto simp: nd_handle_def spec_step_def spec_of_def)
next
  case RaExpire
  with assms ra_expire_good [OF assms(1,2)] show ?thesis
    by (intro nd_good_step) (auto simp: nd_handle_def nd_notes_def due_def spec_step_def spec_of_def)
next
  case RsExpire
  with assms rs_expire_good [OF assms(1)] show ?thesis
    by (intro nd_good_step) (auto simp: nd_handle_def nd_notes_def due_def spec_step_def spec_of_def)
next
  case (PrefixExpire pfx)
  with assms prefix_expire_good [OF assms(1), of pfx now g now n] show ?thesis
    by (intro nd_good_step) (auto simp: nd_handle_def due_def spec_step_def spec_of_def)
next
  case (RsReplyExpire k)
  with assms rsreply_expire_good [OF assms(1), of k] show ?thesis
    by (intro nd_good_step) (auto simp: nd_handle_def nd_notes_def due_def spec_step_def spec_of_def)
next
  case (NdCommand c)
  with nd_command_good [OF assms(1,2)] assms(4) show ?thesis by simp
next
  case (NdPrefix pfx life)
  with assms add_prefix_good [OF assms(1), of pfx] show ?thesis
    by (intro nd_good_step) (auto simp: nd_handle_def nd_notes_def nd_ok_def spec_step_def spec_of_def)
next
  case NdSendRs
  have "same_tables s (fst (send_rs now n s))" "rs_timer (fst (send_rs now n s)) \<noteq> TIMER_HANDLING"
    using send_rs_tables [of s now n] assms(1) is_pending_not_handling by (force simp: nd_inv_def)+
  with NdSendRs nd_good_same [OF assms(1), of "fst (send_rs now n s)"] show ?thesis
    by (intro nd_good_step) (simp_all add: nd_handle_def nd_notes_def Let_def case_prod_unfold spec_step_def spec_of_def)
qed

definition nd_step :: "nd_agent \<Rightarrow> time \<times> net \<times> addr \<times> nd_input \<Rightarrow> (nd_agent \<times> action list \<times> if_call list) res" where
  "nd_step s = (\<lambda>(now, n, g, i). nd_handle now n g s i)"

definition nd_step_env :: "nd_agent \<Rightarrow> time \<times> net \<times> addr \<times> nd_input \<Rightarrow> bool" where
  "nd_step_env s = (\<lambda>(now, n, g, i). 0 \<le> now \<and> due now s i \<and> nd_ok s i)"

definition nd_spec_step :: "time \<times> net \<times> addr \<times> nd_input \<Rightarrow> nd_spec \<Rightarrow> nd_spec" where
  "nd_spec_step = (\<lambda>(now, n, g, i). spec_step now i)"

interpretation nd_sim: simulation nd_step nd_step_env nd_inv spec_of nd_spec_step
proof
  fix s and i :: "time \<times> net \<times> addr \<times> nd_input"
  assume "nd_inv s" "nd_step_env s i"
  then show "\<exists>s' x. nd_step s i = Inr (s', x) \<and> nd_inv s' \<and> spec_of s' = nd_spec_step i (spec_of s)"
    using nd_handle_step unfolding nd_step_env_def nd_step_def nd_spec_step_def nd_step_ok_def
    by (cases i) fastforce
qed

text \<open>
  C6: The neighbour discovery agent handles every sequence of packets, timer expiries and commands that
  respects its contract without a fault, keeps its tables and timers consistent (one entry per
  prefix, each with a pending timer at its expiry time), and implements a cache: a map from prefixes
  to expiry times that an advertisement received as a host refreshes to the time of reception plus
  the advertised lifetime and that loses a prefix exactly when its timer expires.
\<close>

theorem nd_agent_refines_cache:
  assumes "nd_inv s" and "steps_ok nd_step nd_step_env s is"
  shows "\<exists>s' xs. run_steps nd_step s is = Inr (s', xs) \<and> length xs = length is \<and> nd_inv s'
    \<and> spec_of s' = fold nd_spec_step is (spec_of s)"
  using assms by (rule nd_sim.run_simulates)

lemmas demo_run_defs = nd_step_def nd_step_env_def nd_handle_def nd_recv_def recv_ads_def due_def nd_ok_def real_prefix_def
  IPv6_TIMER_RA_def IPv6_TIMER_RS_def nd_lookup_def add_prefix_def new_entry_def entry_timer_def timer_resched_def
  ra_lifetime_def demo_ra_def allocpkt_def Let_def

theorem nd_agent_refines_cache_witness:
  "\<exists>s' xs. run_steps nd_step (demo_nd 0 0x1805) [(1, demo_net, 0, NdRecv (demo_ra 0x1800)), (19, demo_net, 0, PrefixExpire 0x1800)]
     = Inr (s', xs) \<and> nd_inv s' \<and> neighbours s' 0x1800 = None"
proof -
  let ?is = "[(1, demo_net, 0, NdRecv (demo_ra 0x1800)), (19, demo_net, 0, PrefixExpire 0x1800)]"
  have "steps_ok nd_step nd_step_env (demo_nd 0 0x1805) ?is"
    by (simp add: demo_run_defs split: sum.split)
  from nd_agent_refines_cache [OF demo_nd_inv(1) this] obtain s' xs where
    r: "run_steps nd_step (demo_nd 0 0x1805) ?is = Inr (s', xs)" "nd_inv s'" "spec_of s' = fold nd_spec_step ?is (spec_of (demo_nd 0 0x1805))"
    by blast
  have "neighbours s' 0x1800 = sp_cache (spec_of s') 0x1800" by (simp add: spec_of_def)
  also have "\<dots> = None" unfolding r(3) by (simp add: nd_spec_step_def spec_step_def)
  finally show ?thesis using r(1,2) by blast
qed

text \<open>The prefixes the interface manager has been told of; \<open>None\<close> if a notification does not fit.\<close>

definition hear :: "if_call \<Rightarrow> addr set option \<Rightarrow> addr set option" where
  "hear c v = (case (c, v) of
     (NdEvent (ND_NEW_PREFIX pfx _ _), Some v) \<Rightarrow> if pfx \<in> v then None else Some (insert pfx v)
   | (NdEvent (ND_PREFIX_EXPIRED pfx _), Some v) \<Rightarrow> if pfx \<in> v then Some (v - {pfx}) else None
   | (_, v) \<Rightarrow> v)"

definition watched_step ::
  "nd_agent \<times> addr set option \<Rightarrow> time \<times> net \<times> addr \<times> nd_input \<Rightarrow> ((nd_agent \<times> addr set option) \<times> unit) res" where
  "watched_step = (\<lambda>(s, v) i. bind_res (nd_step s i) (\<lambda>(s', _, calls). Inr ((s', fold hear calls v), ())))"

definition watched_env :: "nd_agent \<times> addr set option \<Rightarrow> time \<times> net \<times> addr \<times> nd_input \<Rightarrow> bool" where
  "watched_env = (\<lambda>(s, v) i. nd_step_env s i \<and>
     (case i of (_, _, _, NdCommand _) \<Rightarrow> False | (_, _, _, NdPrefix _ _) \<Rightarrow> False | _ \<Rightarrow> True))"

definition watched_inv :: "nd_agent \<times> addr set option \<Rightarrow> bool" where
  "watched_inv = (\<lambda>(s, v). nd_inv s \<and> iMngmnt s \<and> nd_mr_bs s = 0 \<and> v = Some (dom (neighbours s)))"

lemma hear_notes:
  assumes "due now s i" and "iMngmnt s" and "nd_mr_bs s = 0" and "\<nexists>c. i = NdCommand c" and "\<nexists>pfx l. i = NdPrefix pfx l"
  shows "fold hear (nd_notes g s i) (Some (dom (neighbours s))) = Some (dom (sp_cache (spec_step now i (spec_of s))))"
proof (cases i)
  case (NdRecv p)
  then show ?thesis using assms(2,3) by (auto simp: nd_notes_def hear_def spec_step_def spec_of_def Let_def)
next
  case (PrefixExpire pfx)
  then have "pfx \<in> dom (neighbours s)" using assms(1)
    by (auto simp: due_def entry_timer_def neighbours_def split: option.splits)
  with PrefixExpire assms(2) show ?thesis by (auto simp: nd_notes_def hear_def spec_step_def spec_of_def)
qed (use assms in \<open>auto simp: nd_notes_def spec_step_def spec_of_def\<close>)

interpretation nd_watch: simulation watched_step watched_env watched_inv "\<lambda>_. ()" "\<lambda>_ _. ()"
proof
  fix sv and i :: "time \<times> net \<times> addr \<times> nd_input"
  assume inv: "watched_inv sv" and env: "watched_env sv i"
  obtain s now n g j where sv: "sv = (s, Some (dom (neighbours s)))" and i: "i = (now, n, g, j)"
    using inv by (cases sv; cases i) (auto simp: watched_inv_def)
  have s: "nd_inv s" "iMngmnt s" "nd_mr_bs s = 0" and j: "0 \<le> now" "due now s j" "nd_ok s j"
    "\<nexists>c. j = NdCommand c" "\<nexists>pfx l. j = NdPrefix pfx l"
    using inv env by (auto simp: sv i watched_inv_def watched_env_def nd_step_env_def)
  obtain s' out where "nd_handle now n g s j = Inr (s', out, nd_notes g s j)" "nd_inv s'" "spec_of s' = spec_step now j (spec_of s)"
    "iMngmnt s'" "nd_mr_bs s' = 0"
    using nd_handle_step [OF s(1) j(1-3), of g n] s j(4) by (auto simp: nd_step_ok_def)
  moreover have "neighbours s' = sp_cache (spec_of s')" by (simp add: spec_of_def)
  ultimately show "\<exists>s' x. watched_step sv i = Inr (s', x) \<and> watched_inv s' \<and> () = ()"
    using hear_notes [OF j(2) s(2,3) j(4,5)] by (simp add: sv i watched_step_def nd_step_def watched_inv_def)
qed

text \<open>
  C34: Neighbour discovery tells the interface manager of every prefix once when it appears and once when
  it expires: over any run of a host, each announcement is of a prefix not announced before or
  expired since, each expiry of an announced one, and what the interface manager has heard of is the
  set of prefixes in the cache.
\<close>

theorem nd_notifications_track_cache:
  assumes "nd_inv s" and "iMngmnt s" and "nd_mr_bs s = 0" and "neighbours s = Map.empty"
    and "steps_ok watched_step watched_env (s, Some {}) is"
  shows "\<exists>s' xs. run_steps watched_step (s, Some {}) is = Inr ((s', Some (dom (neighbours s'))), xs)"
proof -
  have "watched_inv (s, Some {})" using assms(1-4) by (simp add: watched_inv_def)
  with nd_watch.run_simulates [OF this assms(5)] show ?thesis by (auto simp: watched_inv_def)
qed

theorem nd_notifications_track_cache_witness:
  "\<exists>s' xs. run_steps watched_step ((demo_nd 0 0x1805)\<lparr>iMngmnt := True\<rparr>, Some {}) [(1, demo_net, 0, NdRecv (demo_ra 0x1800))]
     = Inr ((s', Some (dom (neighbours s'))), xs)"
proof -
  let ?s = "(demo_nd 0 0x1805)\<lparr>iMngmnt := True\<rparr>"
  have "steps_ok watched_step watched_env (?s, Some {}) [(1, demo_net, 0, NdRecv (demo_ra 0x1800))]"
    by (simp add: demo_run_defs watched_env_def watched_step_def)
  moreover have "neighbours ?s = Map.empty" by (simp add: neighbours_def nd_lookup_def fun_eq_iff)
  ultimately show ?thesis by (intro nd_notifications_track_cache) simp_all
qed

section \<open>Solicitations\<close>

definition rs_packet :: "net \<Rightarrow> nd_agent \<Rightarrow> addr \<Rightarrow> packet" where
  "rs_packet n s d = (allocpkt (s\<lparr>here_addr := node_addr n (nd_node s)\<rparr>))
     \<lparr>daddr := d, dport := here_port s, ptype := PT_RSOL, psize := PT_RSOL_SIZE\<rparr>"

definition rs_messages :: "net \<Rightarrow> nd_agent \<Rightarrow> action list" where
  "rs_messages n s = map (\<lambda>d. Send (rs_packet n s d)) (if broadcast s \<noteq> 0 then [IP_BROADCAST] else rs_daddrs s)"

text \<open>The solicitation timer runs out up to \<open>k\<close> times and no advertisement arrives.\<close>

fun unanswered :: "net \<Rightarrow> nat \<Rightarrow> nd_agent \<Rightarrow> (nd_agent \<times> action list) res" where
  "unanswered n 0 s = Inr (s, [])"
| "unanswered n (Suc k) s = (case rs_timer s of
     TIMER_PENDING t \<Rightarrow> bind_res (rs_timer_expire t n s) (\<lambda>(s1, out, _).
       bind_res (unanswered n k s1) (\<lambda>(s2, out2). Inr (s2, out @ out2)))
   | _ \<Rightarrow> Inr (s, []))"

definition rs_config :: "net \<Rightarrow> nd_agent \<Rightarrow> int \<times> int \<times> action list" where
  "rs_config n s = (router s, max_rtr_solicitation s, rs_messages n s)"

lemma send_rs_all_messages:
  "send_rs_all n s ds = (if ds = [] then s else s\<lparr>here_addr := node_addr n (nd_node s)\<rparr>, map (\<lambda>d. Send (rs_packet n s d)) ds)"
proof (induction ds arbitrary: s)
  case (Cons d ds)
  then show ?case by (simp add: send_rs_to_def rs_packet_def Let_def)
qed simp

lemma rs_config_cong: 
  "rs_config n (s\<lparr>here_addr := node_addr n (nd_node s), rs_timer := t\<rparr>) = rs_config n s"
  "rs_config n (s\<lparr>rs_timer := t\<rparr>) = rs_config n s" "rs_config n (s\<lparr>nb_rtr_sol := k\<rparr>) = rs_config n s"
  by (simp_all add: rs_config_def rs_messages_def rs_packet_def allocpkt_def)

lemma send_rs_sends:
  assumes "router s = 0" and "\<not> is_pending (rs_timer s)"
  shows "\<exists>s' t. send_rs now n s = (s', rs_messages n s) \<and> rs_timer s' = TIMER_PENDING t \<and> rs_config n s' = rs_config n s
    \<and> nb_rtr_sol s' = nb_rtr_sol s"
  using assms rs_config_cong
  by (simp add: send_rs_def send_rs_all_messages rs_messages_def send_rs_to_def rs_packet_def timer_resched_def Let_def)

lemma unanswered_ends:
  assumes "router s = 0" and "rs_timer s = TIMER_PENDING t" and "nb_rtr_sol s < max_rtr_solicitation s"
    and "nat (max_rtr_solicitation s - nb_rtr_sol s) \<le> k"
  shows "\<exists>s'. unanswered n k s = Inr (s', concat (replicate (nat (max_rtr_solicitation s - nb_rtr_sol s) - 1) (rs_messages n s)))
    \<and> rs_timer s' = TIMER_IDLE \<and> nb_rtr_sol s' = 0"
  using assms
proof (induction k arbitrary: s t)
  case (Suc k)
  let ?h = "s\<lparr>rs_timer := TIMER_HANDLING, nb_rtr_sol := nb_rtr_sol s + 1\<rparr>"
  have rs: "IPv6_TIMER_RS \<noteq> IPv6_TIMER_RA" by (simp add: IPv6_TIMER_RA_def IPv6_TIMER_RS_def)
  show ?case
  proof (cases "nb_rtr_sol s + 1 < max_rtr_solicitation s")
    case True
    have "router ?h = 0" "\<not> is_pending (rs_timer ?h)" using Suc.prems(1) by (simp_all add: is_pending_def)
    from send_rs_sends [OF this, of t n] obtain s' t' where s': "send_rs t n ?h = (s', rs_messages n ?h)"
      "rs_timer s' = TIMER_PENDING t'" "rs_config n s' = rs_config n ?h" "nb_rtr_sol s' = nb_rtr_sol ?h" by blast
    then have c: "router s' = router s" "max_rtr_solicitation s' = max_rtr_solicitation s" "rs_messages n s' = rs_messages n s"
      "rs_messages n ?h = rs_messages n s"
      by (simp_all add: rs_config_def rs_messages_def rs_packet_def allocpkt_def)
    have "rs_timer_expire t n s = Inr (s', rs_messages n s, [])"
      using Suc.prems(2) True s'(1,2) c(4) rs by (simp add: rs_timer_expire_def timer_handle_pending nd_timeout_def timer_end_def Let_def)
    moreover have le: "nat (max_rtr_solicitation s - (nb_rtr_sol s + 1)) \<le> k" using Suc.prems(4) by linarith
    moreover obtain s2 where "unanswered n k s' =
        Inr (s2, concat (replicate (nat (max_rtr_solicitation s - nb_rtr_sol s - 1) - 1) (rs_messages n s)))"
        "rs_timer s2 = TIMER_IDLE" "nb_rtr_sol s2 = 0"
      using Suc.IH [of s' t'] Suc.prems(1) le True s'(2,4) c by (auto simp: diff_diff_eq)
    moreover obtain m where "nat (max_rtr_solicitation s - nb_rtr_sol s) - 1 = Suc m"
      "nat (max_rtr_solicitation s - nb_rtr_sol s - 1) - 1 = m" using True by fastforce
    ultimately show ?thesis using Suc.prems(2) by (simp only:) simp
  next
    case False
    have "rs_timer_expire t n s = Inr (s\<lparr>rs_timer := TIMER_IDLE, nb_rtr_sol := 0\<rparr>, [], [])"
      using Suc.prems(2) False rs by (simp add: rs_timer_expire_def timer_handle_pending nd_timeout_def timer_end_def Let_def)
    moreover have "nat (max_rtr_solicitation s - nb_rtr_sol s) - 1 = 0" using False by simp
    ultimately show ?thesis using Suc.prems(2) by (cases k) auto
  qed
qed simp

text \<open>
  C35: A solicitation that nobody answers ends: counting the first transmission it is sent
  \<^verbatim>\<open>max_rtr_solicitation_ - nb_rtr_sol_\<close> times to each target, after which the timer is idle and the
  count of retries is reset.
\<close>

theorem solicitation_retries:
  assumes "router s = 0" and "\<not> is_pending (rs_timer s)" and "nb_rtr_sol s < max_rtr_solicitation s"
    and "nat (max_rtr_solicitation s - nb_rtr_sol s) \<le> k"
  shows "\<exists>s1 s2 out. send_rs now n s = (s1, rs_messages n s) \<and> unanswered n k s1 = Inr (s2, out)
    \<and> rs_messages n s @ out = concat (replicate (nat (max_rtr_solicitation s - nb_rtr_sol s)) (rs_messages n s))
    \<and> rs_timer s2 = TIMER_IDLE \<and> nb_rtr_sol s2 = 0"
proof -
  obtain s1 t where s1: "send_rs now n s = (s1, rs_messages n s)" "rs_timer s1 = TIMER_PENDING t" "rs_config n s1 = rs_config n s"
    "nb_rtr_sol s1 = nb_rtr_sol s" using send_rs_sends [OF assms(1,2)] by blast
  then have "router s1 = 0" "max_rtr_solicitation s1 = max_rtr_solicitation s" "rs_messages n s1 = rs_messages n s"
    using assms(1) by (simp_all add: rs_config_def)
  moreover have "nat (max_rtr_solicitation s - nb_rtr_sol s) = Suc (nat (max_rtr_solicitation s - nb_rtr_sol s) - 1)"
    using assms(3) by simp
  ultimately show ?thesis using unanswered_ends [of s1 t k n] s1 assms(3,4)
    by (metis (no_types, lifting) concat.simps(2) replicate_Suc)
qed

theorem solicitation_retries_witness:
  "\<exists>s1 s2 out. send_rs 7 demo_net (demo_nd 0 0x1805) = (s1, rs_messages demo_net (demo_nd 0 0x1805))
     \<and> unanswered demo_net 3 s1 = Inr (s2, out)
     \<and> rs_messages demo_net (demo_nd 0 0x1805) @ out = concat (replicate 3 (rs_messages demo_net (demo_nd 0 0x1805)))
     \<and> rs_timer s2 = TIMER_IDLE"
  using solicitation_retries [of "demo_nd 0 0x1805" 3 7 demo_net] by (fastforce simp: is_pending_def)

section \<open>Answers\<close>

text \<open>A router base station advertises the prefixes it has heard of, any other router its own.\<close>

definition can_advertise :: "nd_agent \<Rightarrow> bool" where
  "can_advertise s \<longleftrightarrow> nd_mr_bs s = 0 \<or> nlist s \<noteq> []"

text \<open>One advertisement for each destination.\<close>

definition advertises :: "action list \<Rightarrow> addr list \<Rightarrow> bool" where
  "advertises out ds \<longleftrightarrow> (\<exists>ps. out = map Send ps \<and> map daddr ps = ds \<and> (\<forall>p \<in> set ps. ptype p = PT_RADS))"

lemma advertises_one: "ptype p = PT_RADS \<Longrightarrow> advertises [Send p] [daddr p]"
  by (auto simp: advertises_def intro!: exI [of _ "[p]"])

lemma send_ads_advertises:
  assumes "can_advertise s"
  shows "\<exists>s' p. send_ads s d = (s', [Send p]) \<and> daddr p = d \<and> ptype p = PT_RADS \<and> can_advertise s' \<and> rs_list s' = rs_list s"
  using assms by (auto simp: send_ads_def can_advertise_def get_mr_bs_entry_random_def Let_def)

lemma send_ads_to_advertises:
  "can_advertise s \<Longrightarrow> \<exists>s' out. send_ads_to s ds = (s', out) \<and> advertises out ds"
proof (induction ds arbitrary: s)
  case (Cons d ds)
  obtain s1 p where 1: "send_ads s d = (s1, [Send p])" "daddr p = d" "ptype p = PT_RADS" "can_advertise s1"
    using send_ads_advertises [OF Cons.prems] by blast
  obtain s2 ps where 2: "send_ads_to s1 ds = (s2, map Send ps)" "map daddr ps = ds" "\<forall>p \<in> set ps. ptype p = PT_RADS"
    using Cons.IH [OF 1(4)] by (auto simp: advertises_def)
  show ?case using 1 2 by (auto simp: advertises_def intro!: exI [of _ "p # ps"])
qed (simp add: advertises_def)

text \<open>The expiry of the timer for periodic advertisements, and that of an answer.\<close>

lemma ra_timer_advertises:
  assumes "can_advertise s" and "ra_timer s = TIMER_PENDING t"
  shows "\<exists>s' out. ra_timer_expire t n s = Inr (s', out, []) \<and> advertises out (if broadcast s \<noteq> 0 then [IP_BROADCAST] else ra_daddrs s)"
proof -
  obtain d s1 where u: "uniform (minRtrAdvInterval s) (maxRtrAdvInterval s) (s\<lparr>ra_timer := TIMER_HANDLING, lastRA_time := t\<rparr>) = (d, s1)" by fastforce
  then have s1: "broadcast s1 = broadcast s" "ra_daddrs s1 = ra_daddrs s" "nd_mr_bs s1 = nd_mr_bs s" "nlist s1 = nlist s" by (auto simp: uniform_def)
  let ?s2 = "s1\<lparr>ra_timer := timer_resched t d (ra_timer s1), nextRA_time := d + t\<rparr>"
  have c: "can_advertise ?s2" using assms(1) s1 by (simp add: can_advertise_def)
  have "\<exists>s3 out. (if broadcast ?s2 \<noteq> 0 then send_ads ?s2 IP_BROADCAST else send_ads_to ?s2 (ra_daddrs ?s2)) = (s3, out)
      \<and> advertises out (if broadcast s \<noteq> 0 then [IP_BROADCAST] else ra_daddrs s)"
    using send_ads_advertises [OF c, of IP_BROADCAST] send_ads_to_advertises [OF c, of "ra_daddrs ?s2"] s1 by (auto dest: advertises_one)
  then obtain s3 out where "(if broadcast ?s2 \<noteq> 0 then send_ads ?s2 IP_BROADCAST else send_ads_to ?s2 (ra_daddrs ?s2)) = (s3, out)"
    "advertises out (if broadcast s \<noteq> 0 then [IP_BROADCAST] else ra_daddrs s)" by blast
  with u assms(2) show ?thesis by (simp add: ra_timer_expire_def timer_handle_def timer_begin_def nd_timeout_def)
qed

lemma answer_advertises:
  assumes "can_advertise s" and "find (\<lambda>r. rr_id r = i) (rs_list s) = Some \<lparr>rr_id = i, rr_daddr = d, rr_timer = TIMER_PENDING t\<rparr>"
  shows "\<exists>s' out. rsreply_timer_expire i s = Inr (s', out, []) \<and> advertises out [if broadcast s \<noteq> 0 then IP_BROADCAST else d]
    \<and> rs_list s' = rem_reply i (rs_list s)"
  using send_ads_advertises [OF assms(1), of IP_BROADCAST] send_ads_advertises [OF assms(1), of d] assms(2)
  by (auto simp: rsreply_timer_expire_def process_rsreply_def timer_begin_def dest: advertises_one)

text \<open>
  C36: Every solicitation a router receives is followed by an advertisement within the answer delay plus
  the minimum delay between advertisements: either nothing is queued and the timer for the next periodic one is due by then, or an answer
  to the sender is queued with a timer that is due in that window, not earlier than the minimum delay after the last periodic advertisement. When
  the timer is over, whatever has happened in the meantime, an advertisement is sent, as long as the router has something to advertise (a router base station
  without a neighbour has not): as a broadcast if the router uses broadcasts, otherwise to the sender, or, in the periodic case, to each configured
  destination. The periodic timer is taken to be as the agent sets it: due at the time it has recorded, which is not in the past.
\<close>

theorem solicitation_answered:
  assumes "router s \<noteq> 0" and "0 \<le> maxRADelay s" and "0 \<le> minDelayBetweenRA s" and "lastRA_time s \<le> now"
    and "\<And>k. 0 \<le> nd_uni s k \<and> nd_uni s k < 1"
    and "nextRA_time s \<noteq> - 1 \<longrightarrow> ra_timer s = TIMER_PENDING (nextRA_time s) \<and> now \<le> nextRA_time s"
  shows "\<exists>s' t. nd_recv now g s (p\<lparr>ptype := PT_RSOL\<rparr>) = Inr (s', [], []) \<and> now \<le> t \<and> t \<le> now + maxRADelay s + minDelayBetweenRA s
    \<and> (rs_list s' = rs_list s \<and> ra_timer s' = TIMER_PENDING t
         \<and> (\<forall>r. can_advertise r \<and> ra_timer r = TIMER_PENDING t \<longrightarrow>
              (\<exists>r' out. ra_timer_expire t n r = Inr (r', out, []) \<and> advertises out (if broadcast r \<noteq> 0 then [IP_BROADCAST] else ra_daddrs r)))
       \<or> (\<exists>a. rs_list s' = a # rs_list s \<and> rr_daddr a = saddr p \<and> rr_timer a = TIMER_PENDING t \<and> lastRA_time s + minDelayBetweenRA s \<le> t
         \<and> (\<forall>r. can_advertise r \<and> find (\<lambda>x. rr_id x = rr_id a) (rs_list r) = Some a \<longrightarrow>
              (\<exists>r' out. rsreply_timer_expire (rr_id a) r = Inr (r', out, []) \<and> advertises out [if broadcast r \<noteq> 0 then IP_BROADCAST else saddr p]
                \<and> rs_list r' = rem_reply (rr_id a) (rs_list r)))))"
proof -
  let ?u = "maxRADelay s * nd_uni s (nd_uni_pos s)"
  have u: "0 \<le> ?u" "?u \<le> maxRADelay s"
    using assms(2,5) by (auto simp: less_imp_le intro: mult_left_le)
  have "\<exists>s'. nd_recv now g s (p\<lparr>ptype := PT_RSOL\<rparr>) = Inr (s', [], [])
    \<and> (rs_list s' = rs_list s \<and> ra_timer s' = ra_timer s \<and> nextRA_time s \<noteq> - 1 \<and> nextRA_time s < now + maxRADelay s + minDelayBetweenRA s
       \<or> (\<exists>t. rs_list s' = \<lparr>rr_id = rs_next_id s, rr_daddr = saddr p, rr_timer = TIMER_PENDING t\<rparr> # rs_list s
            \<and> now \<le> t \<and> t \<le> now + maxRADelay s + minDelayBetweenRA s \<and> lastRA_time s + minDelayBetweenRA s \<le> t))"
    using assms(1-4) u by (auto simp: nd_recv_def recv_rs_def uniform_def add_rs_reply_def timer_sched_def Let_def)
  then obtain s' t where s': "nd_recv now g s (p\<lparr>ptype := PT_RSOL\<rparr>) = Inr (s', [], [])" "now \<le> t" "t \<le> now + maxRADelay s + minDelayBetweenRA s"
    and c: "rs_list s' = rs_list s \<and> ra_timer s' = TIMER_PENDING t
      \<or> rs_list s' = \<lparr>rr_id = rs_next_id s, rr_daddr = saddr p, rr_timer = TIMER_PENDING t\<rparr> # rs_list s \<and> lastRA_time s + minDelayBetweenRA s \<le> t"
    using assms(6) less_imp_le by metis
  from c show ?thesis
  proof
    assume "rs_list s' = rs_list s \<and> ra_timer s' = TIMER_PENDING t"
    then show ?thesis using s' ra_timer_advertises by blast
  next
    let ?a = "\<lparr>rr_id = rs_next_id s, rr_daddr = saddr p, rr_timer = TIMER_PENDING t\<rparr>"
    assume "rs_list s' = ?a # rs_list s \<and> lastRA_time s + minDelayBetweenRA s \<le> t"
    moreover have "rr_daddr ?a = saddr p \<and> rr_timer ?a = TIMER_PENDING t
      \<and> (\<forall>r. can_advertise r \<and> find (\<lambda>x. rr_id x = rr_id ?a) (rs_list r) = Some ?a \<longrightarrow>
           (\<exists>r' out. rsreply_timer_expire (rr_id ?a) r = Inr (r', out, []) \<and> advertises out [if broadcast r \<noteq> 0 then IP_BROADCAST else saddr p]
             \<and> rs_list r' = rem_reply (rr_id ?a) (rs_list r)))"
      using answer_advertises by simp
    ultimately show ?thesis using s' by blast
  qed
qed

theorem solicitation_answered_witness:
  "\<exists>s' t i. nd_recv 7 0 (demo_nd 1 0x1800) ((demo_ra 0x1805)\<lparr>ptype := PT_RSOL\<rparr>) = Inr (s', [], []) \<and> 7 \<le> t \<and> t \<le> 10.5
     \<and> rs_list s' = [\<lparr>rr_id = i, rr_daddr = 0x1805, rr_timer = TIMER_PENDING t\<rparr>]
     \<and> (\<exists>r' out. rsreply_timer_expire i (demo_nd 1 0x1800\<lparr>rs_list := rs_list s'\<rparr>) = Inr (r', out, []) \<and> advertises out [IP_BROADCAST])"
proof -
  let ?r = "\<lambda>s'. demo_nd 1 0x1800\<lparr>rs_list := rs_list s'\<rparr>"
  have d: "maxRADelay (demo_nd 1 0x1800) = 1 / 2" "minDelayBetweenRA (demo_nd 1 0x1800) = 3" "lastRA_time (demo_nd 1 0x1800) = 0" "nextRA_time (demo_nd 1 0x1800) = - 1"
    "\<And>k. nd_uni (demo_nd 1 0x1800) k = 1 / 2" "saddr (demo_ra 0x1805) = 0x1805" "ra_timer (demo_nd 1 0x1800) = TIMER_IDLE" "rs_list (demo_nd 1 0x1800) = []"
    "broadcast (?r s') = 1" "can_advertise (?r s')" for s' by (simp_all add: demo_nd_defs can_advertise_def)
  have "\<And>k. 0 \<le> nd_uni (demo_nd 1 0x1800) k \<and> nd_uni (demo_nd 1 0x1800) k < 1" by (simp add: d(5))
  from solicitation_answered [OF _ _ _ _ this, of 7 0 "demo_ra 0x1805" demo_net] obtain s' t a where s':
    "nd_recv 7 0 (demo_nd 1 0x1800) ((demo_ra 0x1805)\<lparr>ptype := PT_RSOL\<rparr>) = Inr (s', [], [])" "7 \<le> t" "t \<le> 7 + 1 / 2 + 3"
    and c: "rs_list s' = [] \<and> ra_timer s' = TIMER_PENDING t \<or> rs_list s' = [a] \<and> rr_daddr a = 0x1805 \<and> rr_timer a = TIMER_PENDING t
      \<and> (\<forall>r. can_advertise r \<and> find (\<lambda>x. rr_id x = rr_id a) (rs_list r) = Some a \<longrightarrow>
           (\<exists>r' out. rsreply_timer_expire (rr_id a) r = Inr (r', out, []) \<and> advertises out [if broadcast r \<noteq> 0 then IP_BROADCAST else 0x1805]))"
    unfolding d demo_nd_simps by (simp, blast)
  have "rs_list s' \<noteq> []" using s'(1) by (auto simp: nd_recv_def recv_rs_def uniform_def add_rs_reply_def timer_sched_def Let_def demo_nd_defs)
  with c have a: "rs_list s' = [a]" "rr_daddr a = 0x1805" "rr_timer a = TIMER_PENDING t" by blast+
  moreover have "\<exists>r' out. rsreply_timer_expire (rr_id a) (?r s') = Inr (r', out, []) \<and> advertises out [IP_BROADCAST]"
    using c [unfolded a(1)] d(9,10) [of s'] a(1) by fastforce
  moreover have "a = \<lparr>rr_id = rr_id a, rr_daddr = 0x1805, rr_timer = TIMER_PENDING t\<rparr>" using a(2,3) by simp
  ultimately show ?thesis using s' by (intro exI [of _ s'] exI [of _ t] exI [of _ "rr_id a"]) auto
qed

end
