(* ===== verification/Mobility_Props.thy ===== *)
theory Mobility_Props
  imports Mobility Nd_Props Sip_Props Mip6_Props
begin

text \<open>
  Properties of the reactions of a host to a new prefix.
\<close>

section \<open>Taking an address\<close>

lemma exp_mr_write [simp]: "exp_mr (bu_write r f s) = exp_mr s"
  by (simp add: bu_write_def)

lemma register_mip_exp_mr: "register_mip n m pfx i = Inr (m', out) \<Longrightarrow> exp_mr m' = exp_mr m"
  by (auto simp: register_mip_def send_bu_msg_def mn_send_bu_cn_def Let_def split: option.splits if_splits)

lemma sip_eface_is_cong: "nemos n' = nemos n \<Longrightarrow> sip_eface_is n' = sip_eface_is n"
  by (simp add: sip_eface_is_def fun_eq_iff split: option.split)

lemma handover_step:
  assumes "wf_layout (layout n)" and "ms_bs_enable (h_mip h) = 0" and "h_sip h = Some s"
    and "sip_exp_mr s \<notin> {2, 3}" and "sip_node_type s \<noteq> SIP_MR" and "sip_mr_bs_daddr s = - 1"
    and "sip_get_entry_by_iface_ptr n s i = Some r" and "se_at s r = Some e" and "se_eface e = Some a"
  shows "\<exists>n' h' s' p. process_new_prefix now n h pfx i bs = Inr (n', h', [SendVia a p])
    \<and> prefix_of (node_addr n' i) = prefix_of pfx \<and> node_addr n' i AND host_mask = node_addr n i AND host_mask
    \<and> h_sip h' = Some s' \<and> se_at s' r = Some (set_con (node_addr n' i) e) \<and> (\<forall>r'. r' \<noteq> r \<longrightarrow> se_at s' r' = se_at s r')
    \<and> mmethod (mh p) = 5 \<and> From_id (mh p) = se_url_id e \<and> contact_id (mh p) = se_url_id e
    \<and> contact (mh p) = node_addr n' i \<and> requestURL (mh p) = se_addr e
    \<and> saddr p = node_addr n' i \<and> daddr p = pfx"
proof -
  let ?m = "if exp_mr (h_mip h) = 9 then (h_mip h)\<lparr>mr_bs_daddr := bs\<rparr> else h_mip h" and ?na = "new_address (node_addr n i) pfx"
  obtain b where b: "compute_new_address n ?m pfx i = Inr (?na, n\<lparr>node_addr := (node_addr n)(i := ?na), base_stn := b\<rparr>)"
    using compute_new_address_wf [OF assms(1)] by blast
  let ?n = "n\<lparr>node_addr := (node_addr n)(i := ?na), base_stn := b\<rparr>"
  let ?s = "se_write r (set_con ?na) s" and ?e = "set_con ?na e"
  let ?p = "(sip_packet ?s (reg_hdr now ?e ?na) ?na (se_addr e))\<lparr>daddr := pfx\<rparr>"
  have "sip_get_entry_by_iface_ptr ?n s i = Some r"
    using assms(7) sip_eface_is_cong [of ?n n] by (simp add: sip_get_entry_by_iface_ptr_def)
  moreover have "sip_mr_bs_daddr ?s = - 1" "sip_node_type ?s \<noteq> SIP_MR" "sip_exp_mr ?s = sip_exp_mr s"
    using assms(5,6) by (simp_all add: se_write_def)
  ultimately have "register_sip now ?n m s pfx i bs ?na = Inr (?s, [SendVia a ?p])" for m
    using assms(4,8,9) by (simp add: register_sip_def send_reg_msg_def se_at_write sip_via_mr_bs_def via_eface_def Let_def)
  then have "\<exists>h'. process_new_prefix now n h pfx i bs = Inr (?n, h', [SendVia a ?p]) \<and> h_sip h' = Some ?s"
    using assms(2,3) b by (simp add: process_new_prefix_def Let_def)
  moreover have "se_at ?s r = Some ?e" "\<forall>r'. r' \<noteq> r \<longrightarrow> se_at ?s r' = se_at s r'" using assms(8) by (simp_all add: se_at_write)
  moreover have "node_addr ?n i = ?na" by simp
  moreover have "mmethod (mh ?p) = 5" "From_id (mh ?p) = se_url_id e" "contact_id (mh ?p) = se_url_id e" "contact (mh ?p) = ?na"
    "requestURL (mh ?p) = se_addr e" "saddr ?p = ?na" "daddr ?p = pfx"
    by (simp_all add: sip_packet_def reg_hdr_def sip_msg_def)
  ultimately show ?thesis by (intro exI [of _ ?n] exI [of _ ?s] exI [of _ ?p]) auto
qed

text \<open>
  A mobile SIP node that learns a prefix takes the address with that prefix and its old host part on the
  interface, records it as its contact, and sends one REGISTER for its id with this contact, from
  this address, to the router of the prefix, on the interface. Nothing else of its table changes.
\<close>

theorem handover_registers_sip:
  assumes "wf_layout (layout n)" and "ms_bs_enable (h_mip h) = 0" and "h_sip h = Some s"
    and "sip_exp_mr s \<notin> {2, 3}" and "sip_node_type s \<noteq> SIP_MR" and "sip_mr_bs_daddr s = - 1"
    and "sip_get_entry_by_iface_ptr n s i = Some r" and "se_at s r = Some e" and "se_eface e = Some a"
  shows "\<exists>n' h' s' p. process_new_prefix now n h pfx i bs = Inr (n', h', [SendVia a p])
    \<and> prefix_of (node_addr n' i) = prefix_of pfx \<and> node_addr n' i AND host_mask = node_addr n i AND host_mask
    \<and> h_sip h' = Some s' \<and> se_at s' r = Some (set_con (node_addr n' i) e) \<and> (\<forall>r'. r' \<noteq> r \<longrightarrow> se_at s' r' = se_at s r')
    \<and> mmethod (mh p) = 5 \<and> From_id (mh p) = se_url_id e \<and> contact_id (mh p) = se_url_id e
    \<and> contact (mh p) = node_addr n' i \<and> requestURL (mh p) = se_addr e
    \<and> saddr p = node_addr n' i \<and> daddr p = pfx"
  using assms by (rule handover_step)

definition demo_mobile :: host where
  "demo_mobile = \<lparr>h_mip = new_mip6 (demo_agent 0x1805) MN 0 0,
     h_sip = Some ((demo_sip SIP_MN 0x1805)\<lparr>siplist := [(new_SIPEntry SIP_MN_HA)
       \<lparr>se_addr := 0x4001, se_url_id := 23, se_url := 0x4005, se_eface := Some 4\<rparr>]\<rparr>), h_mipv6_set = False\<rparr>"

abbreviation "demo_mobile_sip \<equiv> the (h_sip demo_mobile)"

lemma demo_mobile_facts:
  "wf_layout (layout demo_faces)" "ms_bs_enable (h_mip demo_mobile) = 0" "h_sip demo_mobile = Some demo_mobile_sip"
  "sip_exp_mr demo_mobile_sip \<notin> {2, 3}" "sip_node_type demo_mobile_sip \<noteq> SIP_MR" "sip_mr_bs_daddr demo_mobile_sip = - 1"
  "sip_get_entry_by_iface_ptr demo_faces demo_mobile_sip 4 = Some 0"
  "se_at demo_mobile_sip 0 = Some ((new_SIPEntry SIP_MN_HA)\<lparr>se_addr := 0x4001, se_url_id := 23, se_url := 0x4005, se_eface := Some 4\<rparr>)"
  "se_eface ((new_SIPEntry SIP_MN_HA)\<lparr>se_addr := 0x4001, se_url_id := 23, se_url := 0x4005, se_eface := Some 4\<rparr>) = Some 4"
  by (simp_all add: demo_faces_def default_layout_wf_layout demo_mobile_def new_mip6_def agent.defs demo_sip_def demo_router_def
      sip_get_entry_by_iface_ptr_def sip_eface_is_def se_at_def)

theorem handover_registers_sip_witness:
  "\<exists>n' h' p. process_new_prefix 0 demo_faces demo_mobile 0x2800 4 0 = Inr (n', h', [SendVia 4 p])
     \<and> contact (mh p) = node_addr n' 4 \<and> prefix_of (node_addr n' 4) = 0x2800"
  using handover_registers_sip [OF demo_mobile_facts, of 0 "0x2800" 0]
  by (auto simp: prefix_of_def net_mask_def)

text \<open>
  A node whose experiment is not number 9 takes an address and registers it once: after a new
  prefix has been processed, later ones, on whatever interface, change nothing and send nothing.
\<close>

lemma prefix_ignored:
  assumes "exp_mr (h_mip h) \<noteq> 9" and "process_new_prefix now n h pfx i bs = Inr (n1, h1, out)"
  shows "process_new_prefix now' n1 h1 pfx' i' bs' = Inr (n1, h1, [])"
proof -
  have "ms_bs_enable (h_mip h1) \<noteq> 0"
    using assms by (auto simp: process_new_prefix_def Let_def split: if_splits option.splits dest: register_mip_exp_mr)
  then show ?thesis by (simp add: process_new_prefix_def)
qed

section \<open>From an advertisement to a registration\<close>

lemma advertisement_event:
  assumes "nd_mr_bs r = 0" and "nd_inv s" and "router s = 0" and "nd_mr_bs s = 0" and "iMngmnt s"
    and "real_prefix (here_addr r)" and "neighbours s (here_addr r) = None"
  shows "\<exists>p s'. send_ads r d = (r, [Send p]) \<and> daddr p = d
    \<and> nd_recv now g s p = Inr (s', [], [NdEvent (ND_NEW_PREFIX (here_addr r) (nd_node s) (here_addr r))])
    \<and> nd_inv s' \<and> neighbours s' = (neighbours s)(here_addr r \<mapsto> now + ra_lifetime s (ra_hdr p))"
proof -
  let ?p = "(allocpkt r)\<lparr>daddr := d, dport := here_port r, ptype := PT_RADS, psize := PT_RADS_SIZE, ra_hdr := zero_rtads
    \<lparr>router_lifetime := rtrlftm r, advertisement_interval := to_uint32 (maxRtrAdvInterval r * 1000),
     valid_lifetime := prefix_lifetime r, preferred_lifetime := prefix_lifetime r, ra_prefix := here_addr r\<rparr>\<rparr>"
  have p: "send_ads r d = (r, [Send ?p])" "ra_prefix (ra_hdr ?p) = here_addr r" "saddr ?p = here_addr r" "ptype ?p = PT_RADS"
    using assms(1) by (simp_all add: send_ads_def allocpkt_def Let_def)
  have "nd_notes g s (NdRecv ?p) = [NdEvent (ND_NEW_PREFIX (here_addr r) (nd_node s) (here_addr r))]"
    using assms(3-5,7) p by (simp add: nd_notes_def Let_def)
  moreover have "nd_good s ((neighbours s)(here_addr r \<mapsto> now + ra_lifetime s (ra_hdr ?p))) (nd_notes g s (NdRecv ?p)) (recv_ads now s ?p)"
    using recv_ads_good [OF assms(2,3), of ?p now g] assms(6) p by simp
  moreover have "nd_recv now g s ?p = recv_ads now s ?p" using assms(3) p(4) by (simp add: nd_recv_def)
  moreover have "recv_ads now s ?p = Inr (s', out, cs) \<Longrightarrow> out = []" for s' out cs
    by (auto simp: recv_ads_def Let_def split: if_splits option.splits)
  ultimately obtain s' where s': "nd_recv now g s ?p = Inr (s', [], [NdEvent (ND_NEW_PREFIX (here_addr r) (nd_node s) (here_addr r))])"
    "nd_inv s'" "neighbours s' = (neighbours s)(here_addr r \<mapsto> now + ra_lifetime s (ra_hdr ?p))"
    unfolding nd_good_def by metis
  have "daddr ?p = d" by simp
  with p(1) s' show ?thesis by blast
qed

text \<open>
  C7: The first prefix that a SIP node hears makes it move, and no later one. A router (not a router base station) advertises its prefix; the
  neighbour discovery agent of an interface that does not know it caches the prefix for the advertised lifetime and
  raises one event. If the node has not taken an address yet (\<^verbatim>\<open>ms_bs_enable\<close> is 0; the code takes only one), it takes an address with the router's prefix on that interface
  and sends one REGISTER with this address as contact to the router that advertised. After that, unless the experiment is number 9, which keeps the node searching, every
  new prefix, on whatever interface, changes nothing and sends nothing. The node is a SIP node that is not a mobile router, does not run the
  experiments 2 and 3, is not behind a router base station, and has an entry for the interface.
\<close>

theorem advertisement_registers:
  assumes "nd_mr_bs r = 0" and "nd_inv s" and "router s = 0" and "nd_mr_bs s = 0" and "iMngmnt s"
    and "real_prefix (here_addr r)" and "neighbours s (here_addr r) = None"
    and "wf_layout (layout n)" and "ms_bs_enable (h_mip h) = 0" and "h_sip h = Some sip"
    and "sip_exp_mr sip \<notin> {2, 3}" and "sip_node_type sip \<noteq> SIP_MR" and "sip_mr_bs_daddr sip = - 1"
    and "sip_get_entry_by_iface_ptr n sip (nd_node s) = Some e" and "se_at sip e = Some ent" and "se_eface ent = Some a"
  shows "\<exists>p s' ev n' h' q. send_ads r d = (r, [Send p]) \<and> nd_recv now g s p = Inr (s', [], [NdEvent ev])
    \<and> neighbours s' = (neighbours s)(here_addr r \<mapsto> now + ra_lifetime s (ra_hdr p))
    \<and> process_nd_event now n h ev = Inr (n', h', [SendVia a q])
    \<and> prefix_of (node_addr n' (nd_node s)) = prefix_of (here_addr r)
    \<and> mmethod (mh q) = 5 \<and> From_id (mh q) = se_url_id ent \<and> contact (mh q) = node_addr n' (nd_node s)
    \<and> saddr q = node_addr n' (nd_node s) \<and> daddr q = here_addr r
    \<and> (exp_mr (h_mip h) \<noteq> 9 \<longrightarrow> (\<forall>now' pfx i bs. process_nd_event now' n' h' (ND_NEW_PREFIX pfx i bs) = Inr (n', h', [])))"
proof -
  obtain p s' where "send_ads r d = (r, [Send p])"
    "nd_recv now g s p = Inr (s', [], [NdEvent (ND_NEW_PREFIX (here_addr r) (nd_node s) (here_addr r))])"
    "neighbours s' = (neighbours s)(here_addr r \<mapsto> now + ra_lifetime s (ra_hdr p))"
    using advertisement_event [OF assms(1-7)] by blast
  moreover obtain n' h' q where
    "process_nd_event now n h (ND_NEW_PREFIX (here_addr r) (nd_node s) (here_addr r)) = Inr (n', h', [SendVia a q])"
    "prefix_of (node_addr n' (nd_node s)) = prefix_of (here_addr r)"
    "mmethod (mh q) = 5" "From_id (mh q) = se_url_id ent" "contact (mh q) = node_addr n' (nd_node s)"
    "saddr q = node_addr n' (nd_node s)" "daddr q = here_addr r"
    using handover_step [OF assms(8-16), of now "here_addr r" "here_addr r"] by (auto simp: process_nd_event_def)
  moreover from this(1) have "process_nd_event now' n' h' (ND_NEW_PREFIX pfx i bs) = Inr (n', h', [])" if "exp_mr (h_mip h) \<noteq> 9" for now' pfx i bs
    using prefix_ignored [OF that] by (simp add: process_nd_event_def)
  ultimately show ?thesis by blast
qed

theorem advertisement_registers_witness:
  "\<exists>p s' ev n' h' q. send_ads (demo_nd 1 0x2800) IP_BROADCAST = (demo_nd 1 0x2800, [Send p])
     \<and> nd_recv 3 0 ((demo_nd 0 0x1805)\<lparr>iMngmnt := True\<rparr>) p = Inr (s', [], [NdEvent ev])
     \<and> process_nd_event 3 demo_faces demo_mobile ev = Inr (n', h', [SendVia 4 q])
     \<and> prefix_of (node_addr n' 4) = 0x2800 \<and> contact (mh q) = node_addr n' 4
     \<and> process_nd_event 4 n' h' (ND_NEW_PREFIX 0x3000 5 0) = Inr (n', h', [])"
proof -
  let ?s = "(demo_nd 0 0x1805)\<lparr>iMngmnt := True\<rparr>"
  have s: "nd_mr_bs (demo_nd 1 0x2800) = 0" "nd_inv ?s" "router ?s = 0" "nd_mr_bs ?s = 0" "iMngmnt ?s"
    "real_prefix (here_addr (demo_nd 1 0x2800))" "neighbours ?s (here_addr (demo_nd 1 0x2800)) = None"
    by (simp_all add: real_prefix_def IPv6_TIMER_RA_def IPv6_TIMER_RS_def neighbours_def nd_lookup_def)
  have i: "sip_get_entry_by_iface_ptr demo_faces demo_mobile_sip (nd_node ?s) = Some 0" using demo_mobile_facts(7) by simp
  have "exp_mr (h_mip demo_mobile) \<noteq> 9" by (simp add: demo_mobile_def new_mip6_def agent.defs)
  with advertisement_registers [OF s demo_mobile_facts(1-6) i demo_mobile_facts(8,9), of IP_BROADCAST 3 0] show ?thesis
    by (fastforce simp: prefix_of_def net_mask_def)
qed

end
