(* ===== verification/Flows.thy ===== *)
theory Flows
  imports Nd
begin

text \<open>
  Flows: the interface manager (nist-2/hsntg/if-mngmt.cc, if-mngmt.h) with its table of flows and of
  neighbour discovery agents, and the messages by which a MIPv6 agent moves its flows to another
  interface (\<^verbatim>\<open>PT_FREQ\<close>, \<^verbatim>\<open>PT_FRES\<close> and \<^verbatim>\<open>PT_RRED\<close> of nist-2/hsntg/mip6.cc). Messages carry pointers to the
  flows and agents of their sender, so these live in a store that all agents share; the attributes
  that the code sets by OTcl (\<^verbatim>\<open>dst_addr_\<close>, \<^verbatim>\<open>dst_port_\<close>, the target of an agent) are part of it.
\<close>

section \<open>The shared store\<close>

type_synonym agent_ref = nat
type_synonym flow_ref = nat
type_synonym nd_ref = nat

text \<open>\<^verbatim>\<open>FlowEntry\<close>; the constructor leaves \<^verbatim>\<open>tmp_iface\<close> unset.\<close>

record FlowEntry =
  fl_local :: agent_ref
  fl_remote :: agent_ref
  fl_priority :: int
  fl_minBw :: real
  fl_iface :: node_ref
  fl_redirect :: bool
  fl_tmp_iface :: "node_ref option"

definition new_FlowEntry :: "agent_ref \<Rightarrow> agent_ref \<Rightarrow> int \<Rightarrow> real \<Rightarrow> node_ref \<Rightarrow> FlowEntry" where
  "new_FlowEntry l r pri bw i = \<lparr>fl_local = l, fl_remote = r, fl_priority = pri, fl_minBw = bw, fl_iface = i,
     fl_redirect = False, fl_tmp_iface = None\<rparr>"

text \<open>The endpoints: address and port, and where their packets go. \<open>bss_id\<close> is that of the 802.11 MAC of a node.\<close>

record world =
  flow_at :: "flow_ref \<Rightarrow> FlowEntry"
  next_flow :: flow_ref
  ag_addr :: "agent_ref \<Rightarrow> addr"
  ag_port :: "agent_ref \<Rightarrow> addr"
  ag_dst_addr :: "agent_ref \<Rightarrow> addr"
  ag_dst_port :: "agent_ref \<Rightarrow> addr"
  ag_target :: "agent_ref \<Rightarrow> node_ref"
  iface_addr :: "node_ref \<Rightarrow> addr"
  bss_id :: "node_ref \<Rightarrow> int"

definition upd_flow :: "flow_ref \<Rightarrow> (FlowEntry \<Rightarrow> FlowEntry) \<Rightarrow> world \<Rightarrow> world" where
  "upd_flow f g w = w\<lparr>flow_at := (flow_at w)(f := g (flow_at w f))\<rparr>"

section \<open>Messages\<close>

datatype flow_msg =
    RRED "agent_ref list" addr bool
  | FREQ "flow_ref list" int
  | FRES "flow_ref list" int

record flow_packet = packet +
  fp_msg :: flow_msg

definition PT_RRED_SIZE :: int where "PT_RRED_SIZE = IPv6_HEADER_SIZE + 8"

definition PT_FREQ_SIZE :: int where "PT_FREQ_SIZE = IPv6_HEADER_SIZE + 8"

definition PT_FRES_SIZE :: int where "PT_FRES_SIZE = IPv6_HEADER_SIZE + 8"

text \<open>Sending, or sending after the target of the agent has been set to an interface.\<close>

datatype flow_out =
    FSend flow_packet
  | FSendVia node_ref flow_packet

section \<open>The agent\<close>

record flow_agent = agent +
  fList :: "flow_ref list"
  nd_macs :: "(nd_ref \<times> mac_ref \<times> int) list"
  flow_seq :: int
  flow_timer :: timer
  ft_flows :: "flow_ref list"
  ft_iface :: node_ref
  ft_destination :: addr
  flow_timeout :: time
  list_nodes :: "(real \<times> node_ref) list"
  nbAccepted :: int
  nbRefused :: int

type_synonym flow_result = "(world \<times> flow_agent \<times> flow_out list) res"

definition EGRESS :: int where "EGRESS = 0"

definition INGRESS :: int where "INGRESS = 1"

section \<open>Interface management\<close>

definition get_flow :: "world \<Rightarrow> flow_agent \<Rightarrow> agent_ref \<Rightarrow> agent_ref \<Rightarrow> flow_ref option" where
  "get_flow w s l r = find (\<lambda>f. fl_local (flow_at w f) = l \<and> fl_remote (flow_at w f) = r) (fList s)"

definition get_flows :: "flow_agent \<Rightarrow> flow_ref list" where
  "get_flows s = fList s"

text \<open>\<^verbatim>\<open>simplex-connect\<close> sets the destination of its first argument to its second.\<close>

definition simplex_connect :: "agent_ref \<Rightarrow> agent_ref \<Rightarrow> world \<Rightarrow> world" where
  "simplex_connect src dst w =
     w\<lparr>ag_dst_addr := (ag_dst_addr w)(src := ag_addr w dst), ag_dst_port := (ag_dst_port w)(src := ag_port w dst)\<rparr>"

definition add_flow :: "world \<Rightarrow> flow_agent \<Rightarrow> agent_ref \<Rightarrow> agent_ref \<Rightarrow> node_ref \<Rightarrow> int \<Rightarrow> real \<Rightarrow> world \<times> flow_agent" where
  "add_flow w s l r i pri bw =
     (case get_flow w s l r of
        Some _ \<Rightarrow> (w, s)
      | None \<Rightarrow>
          (let w1 = simplex_connect l r w;
               w2 = w1\<lparr>ag_dst_addr := (ag_dst_addr w1)(r := iface_addr w1 i), ag_dst_port := (ag_dst_port w1)(r := ag_port w1 l)\<rparr>;
               f = next_flow w2
           in (w2\<lparr>flow_at := (flow_at w2)(f := new_FlowEntry l r pri bw i), next_flow := Suc f\<rparr>, s\<lparr>fList := f # fList s\<rparr>)))"

definition delete_flow :: "world \<Rightarrow> flow_agent \<Rightarrow> agent_ref \<Rightarrow> agent_ref \<Rightarrow> flow_agent" where
  "delete_flow w s l r = (case get_flow w s l r of None \<Rightarrow> s | Some f \<Rightarrow> s\<lparr>fList := remove1 f (fList s)\<rparr>)"

definition get_nd_by_mac :: "flow_agent \<Rightarrow> mac_ref \<Rightarrow> nd_ref option" where
  "get_nd_by_mac s m = map_option fst (find (\<lambda>(_, m', _). m' = m) (nd_macs s))"

text \<open>The commands, after their arguments have been looked up; an object that is not found is \<open>None\<close>.\<close>

datatype if_cmd =
    Nd_mac "nd_ref option" "mac_ref option"
  | Nd_mac_type "nd_ref option" "mac_ref option" int
  | Add_flow agent_ref agent_ref node_ref int
  | Add_flow_bw agent_ref agent_ref node_ref int real

fun if_command :: "world \<Rightarrow> flow_agent \<Rightarrow> if_cmd \<Rightarrow> world \<times> flow_agent \<times> tcl_result" where
  "if_command w s (Nd_mac nd mac) =
     (case (nd, mac) of
        (Some a, Some m) \<Rightarrow> (w, s\<lparr>nd_macs := (a, m, EGRESS) # nd_macs s\<rparr>, TCL_OK)
      | _ \<Rightarrow> (w, s, TCL_ERROR))"
| "if_command w s (Nd_mac_type nd mac type) =
     (case (nd, mac) of
        (Some a, Some m) \<Rightarrow> (w, s\<lparr>nd_macs := (a, m, type) # nd_macs s\<rparr>, TCL_OK)
      | _ \<Rightarrow> (w, s, TCL_ERROR))"
| "if_command w s (Add_flow l r i pri) = (let (w', s') = add_flow w s l r i pri 0 in (w', s', TCL_OK))"
| "if_command w s (Add_flow_bw l r i pri bw) = (let (w', s') = add_flow w s l r i pri bw in (w', s', TCL_OK))"

text \<open>\<^verbatim>\<open>MIPV6Agent::send_rs\<close>, with the neighbour discovery agents of the node.\<close>

definition mip_send_rs ::
  "time \<Rightarrow> net \<Rightarrow> flow_agent \<Rightarrow> (nd_ref \<Rightarrow> nd_agent) \<Rightarrow> mac_ref option \<Rightarrow> ((nd_ref \<Rightarrow> nd_agent) \<times> action list) res" where
  "mip_send_rs now n s nds mac =
     need AssertFail mac (\<lambda>m.
       case get_nd_by_mac s m of
         Some d \<Rightarrow> (let (nd', out) = send_rs now n (nds d) in Inr (nds(d := nd'), out))
       | None \<Rightarrow> Inr (nds, []))"

section \<open>Redirection\<close>

text \<open>\<^verbatim>\<open>send_update_msg(vector, Node*)\<close>; \<^verbatim>\<open>at(0)\<close> throws on an empty vector.\<close>

definition send_update_msg :: "world \<Rightarrow> flow_agent \<Rightarrow> agent_ref list \<Rightarrow> node_ref \<Rightarrow> flow_out list res" where
  "send_update_msg w s dagent i =
     check OutOfRange (dagent \<noteq> [])
       (Inr [FSendVia i (packet.extend ((allocpkt s)\<lparr>saddr := iface_addr w i, daddr := ag_addr w (hd dagent), dport := here_port s,
          ptype := PT_RRED, psize := PT_RRED_SIZE\<rparr>) \<lparr>fp_msg = RRED dagent (iface_addr w i) False\<rparr>)])"

definition recv_redirect :: "world \<Rightarrow> flow_agent \<Rightarrow> flow_packet \<Rightarrow> flow_result" where
  "recv_redirect w s p =
     (case fp_msg p of
        RRED ags dest ak \<Rightarrow>
          if ak then Inr (w, s, [])
          else Inr (w\<lparr>ag_dst_addr := fold (\<lambda>a d. d(a := dest)) ags (ag_dst_addr w)\<rparr>, s,
            [FSend (packet.extend ((allocpkt s)\<lparr>daddr := saddr p, dport := sport p, ptype := PT_RRED, psize := PT_RRED_SIZE\<rparr>)
               \<lparr>fp_msg = RRED ags dest True\<rparr>)])
      | _ \<Rightarrow> Inl AssertFail)"

section \<open>Flow requests\<close>

definition send_flow_request :: "time \<Rightarrow> world \<Rightarrow> flow_agent \<Rightarrow> flow_ref list \<Rightarrow> node_ref \<Rightarrow> addr \<Rightarrow> flow_agent \<times> flow_out list" where
  "send_flow_request now w s flows i dest =
     (s\<lparr>ft_flows := flows, ft_iface := i, ft_destination := dest, flow_timer := timer_resched now (flow_timeout s) (flow_timer s)\<rparr>,
      [FSendVia i (packet.extend ((allocpkt s)\<lparr>daddr := dest, saddr := iface_addr w i, dport := here_port s,
         ptype := PT_FREQ, psize := PT_FREQ_SIZE\<rparr>) \<lparr>fp_msg = FREQ flows (flow_seq s)\<rparr>)])"

text \<open>\<^verbatim>\<open>FlowRequestTimer\<close>: the request is sent again.\<close>

definition flow_timer_expire :: "time \<Rightarrow> world \<Rightarrow> flow_agent \<Rightarrow> (flow_agent \<times> flow_out list) res" where
  "flow_timer_expire now w s =
     timer_handle flow_timer (\<lambda>t s. s\<lparr>flow_timer := t\<rparr>)
       (\<lambda>s. Inr (send_flow_request now w s (ft_flows s) (ft_iface s) (ft_destination s))) s"

definition get_used_bw :: "flow_agent \<Rightarrow> real" where
  "get_used_bw s = (\<Sum>(bw, _)\<leftarrow>list_nodes s. bw)"

text \<open>The loops over the requested flows, when the network accepts them and when it refuses.\<close>

fun accept_flows :: "flow_ref list \<Rightarrow> world \<Rightarrow> flow_agent \<Rightarrow> (world \<times> flow_agent) res" where
  "accept_flows [] w s = Inr (w, s)"
| "accept_flows (f # fs) w s =
     (let w1 = upd_flow f (fl_redirect_update (\<lambda>_. True)) w
      in need Uninitialised (fl_tmp_iface (flow_at w1 f)) (\<lambda>i.
           accept_flows fs w1 (s\<lparr>list_nodes := list_nodes s @ [(fl_minBw (flow_at w1 f), i)], nbAccepted := nbAccepted s + 1\<rparr>)))"

fun refuse_flows :: "flow_ref list \<Rightarrow> world \<Rightarrow> flow_agent \<Rightarrow> world \<times> flow_agent" where
  "refuse_flows [] w s = (w, s)"
| "refuse_flows (f # fs) w s =
     refuse_flows fs (upd_flow f (fl_redirect_update (\<lambda>_. False)) w) (s\<lparr>nbRefused := nbRefused s + 1\<rparr>)"

definition recv_flow_request :: "world \<Rightarrow> flow_agent \<Rightarrow> flow_packet \<Rightarrow> flow_result" where
  "recv_flow_request w s p =
     (case fp_msg p of
        FREQ flows k \<Rightarrow>
          check OutOfRange (flows \<noteq> [])
            (need Uninitialised (fl_tmp_iface (flow_at w (hd flows))) (\<lambda>i.
             bind_res (if bss_id w i \<noteq> 8 then accept_flows flows w s else Inr (refuse_flows flows w s)) (\<lambda>(w1, s1).
               Inr (w1, s1, [FSend (packet.extend ((allocpkt s1)\<lparr>daddr := saddr p, dport := sport p, ptype := PT_FRES,
                 psize := PT_FRES_SIZE\<rparr>) \<lparr>fp_msg = FRES flows k\<rparr>)]))))
      | _ \<Rightarrow> Inl AssertFail)"

fun redirect_flows :: "flow_ref list \<Rightarrow> world \<Rightarrow> flow_agent \<Rightarrow> (world \<times> flow_out list) res" where
  "redirect_flows [] w s = Inr (w, [])"
| "redirect_flows (f # fs) w s =
     (let e = flow_at w f
      in if fl_redirect e then
           need Uninitialised (fl_tmp_iface e) (\<lambda>i.
           bind_res (send_update_msg w s [fl_remote e] i) (\<lambda>out.
           bind_res (redirect_flows fs (upd_flow f (fl_iface_update (\<lambda>_. i)) (w\<lparr>ag_target := (ag_target w)(fl_local e := i)\<rparr>)) s)
             (\<lambda>(w1, out1). Inr (w1, out @ out1))))
         else redirect_flows fs w s)"

definition recv_flow_response :: "world \<Rightarrow> flow_agent \<Rightarrow> flow_packet \<Rightarrow> flow_result" where
  "recv_flow_response w s p =
     (case fp_msg p of
        FRES flows k \<Rightarrow>
          bind_res (if flow_timer s \<noteq> TIMER_IDLE
                    then bind_res (timer_cancel (flow_timer s)) (\<lambda>t. Inr (s\<lparr>flow_timer := t\<rparr>)) else Inr s) (\<lambda>s1.
            if flow_seq s1 = k then
              bind_res (redirect_flows flows w s1) (\<lambda>(w1, out). Inr (w1, s1\<lparr>flow_seq := flow_seq s1 + 1\<rparr>, out))
            else Inr (w, s1, []))
      | _ \<Rightarrow> Inl AssertFail)"

text \<open>The part of \<^verbatim>\<open>MIPV6Agent::recv\<close> for these messages.\<close>

definition flow_recv :: "world \<Rightarrow> flow_agent \<Rightarrow> flow_packet \<Rightarrow> flow_result" where
  "flow_recv w s p =
     (if ptype p = PT_RRED then recv_redirect w s p
      else if ptype p = PT_FREQ then recv_flow_request w s p
      else if ptype p = PT_FRES then recv_flow_response w s p
      else Inr (w, s, []))"

end
