(* ===== verification/Flow_Props.thy ===== *)
theory Flow_Props
  imports Flows
begin

text \<open>
  Properties of flows: the exchange that moves the flows of a node to a new interface, what a repeated
  request does to the books of the network, and the solicitation of an interface.
\<close>

section \<open>Flow table\<close>

text \<open>An added flow is found, connects both ends, and is not added again.\<close>

lemma get_flow_add:
  assumes "get_flow w s l r = None" and "\<forall>f \<in> set (fList s). f < next_flow w" and "add_flow w s l r i pri bw = (w', s')"
  shows "get_flow w' s' l r = Some (next_flow w)" "flow_at w' (next_flow w) = new_FlowEntry l r pri bw i"
    "l \<noteq> r \<Longrightarrow> ag_dst_addr w' l = ag_addr w r" "ag_dst_addr w' r = iface_addr w i"
    "add_flow w' s' l r i2 pri2 bw2 = (w', s')" "\<forall>f \<in> set (fList s'). f < next_flow w'"
proof -
  show 1: "get_flow w' s' l r = Some (next_flow w)"
    using assms(1,3) by (auto simp: add_flow_def get_flow_def simplex_connect_def new_FlowEntry_def Let_def)
  then show "add_flow w' s' l r i2 pri2 bw2 = (w', s')" by (simp add: add_flow_def)
  show "flow_at w' (next_flow w) = new_FlowEntry l r pri bw i" "l \<noteq> r \<Longrightarrow> ag_dst_addr w' l = ag_addr w r"
    "ag_dst_addr w' r = iface_addr w i" "\<forall>f \<in> set (fList s'). f < next_flow w'"
    using assms by (auto simp: add_flow_def simplex_connect_def Let_def less_Suc_eq)
qed

section \<open>The exchange\<close>

text \<open>What the exchange reads and never changes of a world.\<close>

definition same_ends :: "world \<Rightarrow> world \<Rightarrow> bool" where
  "same_ends w w' \<longleftrightarrow> iface_addr w' = iface_addr w \<and> bss_id w' = bss_id w \<and> ag_addr w' = ag_addr w \<and> ag_dst_addr w' = ag_dst_addr w
     \<and> (\<forall>f. fl_local (flow_at w' f) = fl_local (flow_at w f) \<and> fl_remote (flow_at w' f) = fl_remote (flow_at w f)
          \<and> fl_tmp_iface (flow_at w' f) = fl_tmp_iface (flow_at w f) \<and> fl_minBw (flow_at w' f) = fl_minBw (flow_at w f))"

lemma same_ends_refl [simp]: "same_ends w w"
  by (simp add: same_ends_def)

lemma same_ends_trans: "same_ends w w1 \<Longrightarrow> same_ends w1 w2 \<Longrightarrow> same_ends w w2"
  by (simp add: same_ends_def)

lemma same_ends_mark [simp]: "same_ends w (upd_flow f (fl_redirect_update (\<lambda>_. b)) w)"
  "same_ends w (upd_flow f (fl_iface_update (\<lambda>_. i)) (w\<lparr>ag_target := t\<rparr>))"
  by (auto simp: same_ends_def upd_flow_def)

lemma accept_flows_ok:
  assumes "\<forall>f \<in> set fs. fl_tmp_iface (flow_at w f) \<noteq> None"
  shows "\<exists>w' s'. accept_flows fs w s = Inr (w', s') \<and> same_ends w w' \<and> ag_target w' = ag_target w
    \<and> (\<forall>f \<in> set fs. fl_redirect (flow_at w' f)) \<and> (\<forall>f. f \<notin> set fs \<longrightarrow> flow_at w' f = flow_at w f)
    \<and> get_used_bw s' = get_used_bw s + (\<Sum>f\<leftarrow>fs. fl_minBw (flow_at w f)) \<and> nbAccepted s' = nbAccepted s + int (length fs)"
  using assms
proof (induction fs arbitrary: w s)
  case (Cons f fs)
  let ?w = "upd_flow f (fl_redirect_update (\<lambda>_. True)) w"
  obtain i where i: "fl_tmp_iface (flow_at w f) = Some i" using Cons.prems by auto
  let ?s = "s\<lparr>list_nodes := list_nodes s @ [(fl_minBw (flow_at w f), i)], nbAccepted := nbAccepted s + 1\<rparr>"
  have e: "same_ends w ?w" by simp
  then have "\<forall>g \<in> set fs. fl_tmp_iface (flow_at ?w g) \<noteq> None" using Cons.prems by (simp add: same_ends_def)
  from Cons.IH [OF this, of ?s] obtain w' s' where r: "accept_flows fs ?w ?s = Inr (w', s')" "same_ends ?w w'"
    "ag_target w' = ag_target ?w" "\<forall>g \<in> set fs. fl_redirect (flow_at w' g)" "\<forall>g. g \<notin> set fs \<longrightarrow> flow_at w' g = flow_at ?w g"
    "get_used_bw s' = get_used_bw ?s + (\<Sum>g\<leftarrow>fs. fl_minBw (flow_at ?w g))" "nbAccepted s' = nbAccepted ?s + int (length fs)" by blast
  have "fl_minBw (flow_at ?w g) = fl_minBw (flow_at w g)" for g using e by (simp add: same_ends_def)
  moreover have "fl_tmp_iface (flow_at ?w f) = Some i" using i by (simp add: upd_flow_def)
  moreover have "fl_redirect (flow_at w' f)" using r(4,5) by (cases "f \<in> set fs") (auto simp: upd_flow_def)
  ultimately show ?case using r same_ends_trans [OF e r(2)]
    by (auto simp: get_used_bw_def upd_flow_def Let_def)
qed simp

lemma refuse_flows_ok:
  "\<exists>w' s'. refuse_flows fs w s = (w', s') \<and> same_ends w w' \<and> ag_target w' = ag_target w
    \<and> (\<forall>f \<in> set fs. \<not> fl_redirect (flow_at w' f)) \<and> (\<forall>f. f \<notin> set fs \<longrightarrow> flow_at w' f = flow_at w f) \<and> list_nodes s' = list_nodes s"
proof (induction fs arbitrary: w s)
  case (Cons f fs)
  let ?w = "upd_flow f (fl_redirect_update (\<lambda>_. False)) w"
  from Cons.IH [of ?w "s\<lparr>nbRefused := nbRefused s + 1\<rparr>"] obtain w' s' where r:
    "refuse_flows fs ?w (s\<lparr>nbRefused := nbRefused s + 1\<rparr>) = (w', s')" "same_ends ?w w'" "ag_target w' = ag_target ?w"
    "\<forall>g \<in> set fs. \<not> fl_redirect (flow_at w' g)" "\<forall>g. g \<notin> set fs \<longrightarrow> flow_at w' g = flow_at ?w g"
    "list_nodes s' = list_nodes s" by auto
  have "same_ends w w'" using same_ends_trans [OF same_ends_mark(1) r(2)] .
  moreover have "\<not> fl_redirect (flow_at w' f)" using r(4,5) by (cases "f \<in> set fs") (auto simp: upd_flow_def)
  ultimately show ?case using r by (auto simp: upd_flow_def)
qed simp

definition rred_to :: "world \<Rightarrow> flow_agent \<Rightarrow> node_ref \<Rightarrow> flow_ref \<Rightarrow> flow_out" where
  "rred_to w s i f = FSendVia i (packet.extend ((allocpkt s)\<lparr>saddr := iface_addr w i, daddr := ag_addr w (fl_remote (flow_at w f)),
     dport := here_port s, ptype := PT_RRED, psize := PT_RRED_SIZE\<rparr>) \<lparr>fp_msg = RRED [fl_remote (flow_at w f)] (iface_addr w i) False\<rparr>)"

lemma rred_to_cong: "same_ends w w' \<Longrightarrow> rred_to w' s i f = rred_to w s i f"
  by (simp add: same_ends_def rred_to_def)

lemma redirect_flows_ok:
  assumes "\<forall>f \<in> set fs. fl_redirect (flow_at w f) \<and> fl_tmp_iface (flow_at w f) = Some i"
  shows "\<exists>w'. redirect_flows fs w s = Inr (w', map (rred_to w s i) fs) \<and> same_ends w w'
    \<and> (\<forall>f \<in> set fs. fl_iface (flow_at w' f) = i \<and> ag_target w' (fl_local (flow_at w f)) = i)
    \<and> (\<forall>f. f \<notin> set fs \<longrightarrow> flow_at w' f = flow_at w f)
    \<and> (\<forall>a. a \<notin> fl_local ` flow_at w ` set fs \<longrightarrow> ag_target w' a = ag_target w a)"
  using assms
proof (induction fs arbitrary: w)
  case (Cons f fs)
  let ?w = "upd_flow f (fl_iface_update (\<lambda>_. i)) (w\<lparr>ag_target := (ag_target w)(fl_local (flow_at w f) := i)\<rparr>)"
  have e: "same_ends w ?w" by simp
  have keep: "fl_redirect (flow_at ?w g) = fl_redirect (flow_at w g)" "fl_local (flow_at ?w g) = fl_local (flow_at w g)" for g
    by (simp_all add: upd_flow_def)
  have "\<forall>g \<in> set fs. fl_redirect (flow_at ?w g) \<and> fl_tmp_iface (flow_at ?w g) = Some i"
    using Cons.prems by (simp add: upd_flow_def)
  from Cons.IH [OF this] obtain w' where r: "redirect_flows fs ?w s = Inr (w', map (rred_to ?w s i) fs)" "same_ends ?w w'"
    "\<forall>g \<in> set fs. fl_iface (flow_at w' g) = i \<and> ag_target w' (fl_local (flow_at ?w g)) = i"
    "\<forall>g. g \<notin> set fs \<longrightarrow> flow_at w' g = flow_at ?w g"
    "\<forall>a. a \<notin> fl_local ` flow_at ?w ` set fs \<longrightarrow> ag_target w' a = ag_target ?w a" by blast
  have "send_update_msg w s [fl_remote (flow_at w f)] i = Inr [rred_to w s i f]" by (simp add: send_update_msg_def rred_to_def)
  moreover have "rred_to ?w s i g = rred_to w s i g" for g using rred_to_cong [OF e] .
  moreover have "fl_iface (flow_at w' f) = i" using r(3,4) by (cases "f \<in> set fs") (auto simp: upd_flow_def)
  moreover have img: "fl_local ` flow_at ?w ` set fs = fl_local ` flow_at w ` set fs" by (simp add: image_image keep(2))
  moreover have "ag_target w' (fl_local (flow_at w f)) = i"
  proof (cases "fl_local (flow_at w f) \<in> fl_local ` flow_at w ` set fs")
    case True
    then obtain g where "g \<in> set fs" "fl_local (flow_at w f) = fl_local (flow_at w g)" by auto
    then show ?thesis using r(3) keep(2) by metis
  next
    case False
    then show ?thesis using r(5) img by (simp add: upd_flow_def)
  qed
  ultimately show ?case using r Cons.prems same_ends_trans [OF e r(2)] keep(2)
    by (auto simp: Let_def upd_flow_def)
qed simp

text \<open>The redirect messages reach the agents \<open>c\<close> at their destinations; the acknowledgements are collected.\<close>

fun deliver :: "(addr \<Rightarrow> flow_agent) \<Rightarrow> world \<Rightarrow> flow_out list \<Rightarrow> (world \<times> flow_out list) res" where
  "deliver c w [] = Inr (w, [])"
| "deliver c w (FSendVia i p # ps) =
     bind_res (flow_recv w (c (daddr p)) p) (\<lambda>(w1, _, out). bind_res (deliver c w1 ps) (\<lambda>(w2, out2). Inr (w2, out @ out2)))"
| "deliver c w (FSend p # ps) =
     bind_res (flow_recv w (c (daddr p)) p) (\<lambda>(w1, _, out). bind_res (deliver c w1 ps) (\<lambda>(w2, out2). Inr (w2, out @ out2)))"

lemma deliver_redirects:
  "\<exists>w' acks. deliver c w (map (rred_to v s i) fs) = Inr (w', acks) \<and> length acks = length fs
    \<and> flow_at w' = flow_at w \<and> ag_target w' = ag_target w
    \<and> ag_dst_addr w' = (\<lambda>a. if a \<in> fl_remote ` flow_at v ` set fs then iface_addr v i else ag_dst_addr w a)"
proof (induction fs arbitrary: w)
  case (Cons f fs)
  let ?w = "w\<lparr>ag_dst_addr := (ag_dst_addr w)(fl_remote (flow_at v f) := iface_addr v i)\<rparr>"
  from Cons.IH [of ?w] obtain w' acks where r: "deliver c ?w (map (rred_to v s i) fs) = Inr (w', acks)" "length acks = length fs"
    "flow_at w' = flow_at w" "ag_target w' = ag_target w"
    "ag_dst_addr w' = (\<lambda>a. if a \<in> fl_remote ` flow_at v ` set fs then iface_addr v i else ag_dst_addr ?w a)" by auto
  obtain p where p: "rred_to v s i f = FSendVia i p" "ptype p = PT_RRED" "fp_msg p = RRED [fl_remote (flow_at v f)] (iface_addr v i) False"
    by (simp add: rred_to_def packet.defs)
  obtain ak where "flow_recv w (c (daddr p)) p = Inr (?w, c (daddr p), [ak])" using p(2,3) by (simp add: flow_recv_def recv_redirect_def)
  with p(1) r show ?case by auto
qed simp

lemma redirect_none: "\<forall>f \<in> set fs. \<not> fl_redirect (flow_at w f) \<Longrightarrow> redirect_flows fs w s = Inr (w, [])"
  by (induction fs) (simp_all add: Let_def)

lemma network_answers:
  assumes "fs \<noteq> []" and "\<forall>f \<in> set fs. fl_tmp_iface (flow_at w f) = Some i" and "ptype p = PT_FREQ" and "fp_msg p = FREQ fs k"
  shows "\<exists>w1 r1 q. flow_recv w r p = Inr (w1, r1, [FSend q]) \<and> daddr q = saddr p \<and> ptype q = PT_FRES \<and> fp_msg q = FRES fs k
    \<and> same_ends w w1 \<and> ag_target w1 = ag_target w \<and> (\<forall>f \<in> set fs. fl_redirect (flow_at w1 f) = (bss_id w i \<noteq> 8))
    \<and> (\<forall>f. f \<notin> set fs \<longrightarrow> flow_at w1 f = flow_at w f)"
proof -
  have tmp: "fl_tmp_iface (flow_at w (hd fs)) = Some i" and some: "\<forall>f \<in> set fs. fl_tmp_iface (flow_at w f) \<noteq> None"
    using assms(1,2) by auto
  obtain w1 r1 where r: "(if bss_id w i \<noteq> 8 then accept_flows fs w r else Inr (refuse_flows fs w r)) = Inr (w1, r1)"
    "same_ends w w1" "ag_target w1 = ag_target w" "\<forall>f \<in> set fs. fl_redirect (flow_at w1 f) = (bss_id w i \<noteq> 8)"
    "\<forall>f. f \<notin> set fs \<longrightarrow> flow_at w1 f = flow_at w f"
    using accept_flows_ok [OF some, of r] refuse_flows_ok [of fs w r] by (cases "bss_id w i \<noteq> 8") auto
  with assms tmp show ?thesis by (simp add: flow_recv_def recv_flow_request_def packet.defs)
qed

lemma node_redirects:
  assumes "flow_timer s \<noteq> TIMER_HANDLING" and "ptype q = PT_FRES" and "fp_msg q = FRES fs (flow_seq s)"
    and "redirect_flows fs w (s\<lparr>flow_timer := TIMER_IDLE\<rparr>) = Inr (w', out)"
  shows "flow_recv w s q = Inr (w', s\<lparr>flow_timer := TIMER_IDLE, flow_seq := flow_seq s + 1\<rparr>, out)"
proof (cases "flow_timer s")
  case TIMER_IDLE
  then have "s\<lparr>flow_timer := TIMER_IDLE\<rparr> = s" by simp
  with assms(4) have "redirect_flows fs w s = Inr (w', out)" by (simp only:)
  then show ?thesis using assms(2,3) TIMER_IDLE by (simp add: flow_recv_def recv_flow_response_def)
qed (use assms in \<open>simp_all add: flow_recv_def recv_flow_response_def timer_cancel_def\<close>)

text \<open>The flows \<open>fs\<close> of \<open>w\<close> use the interface \<open>i\<close> in \<open>w'\<close>, at both ends, and nothing else has moved.\<close>

definition flows_moved :: "world \<Rightarrow> world \<Rightarrow> flow_ref list \<Rightarrow> node_ref \<Rightarrow> bool" where
  "flows_moved w w' fs i \<longleftrightarrow>
     (\<forall>f \<in> set fs. fl_iface (flow_at w' f) = i \<and> ag_target w' (fl_local (flow_at w f)) = i
        \<and> ag_dst_addr w' (fl_remote (flow_at w f)) = iface_addr w i)
     \<and> (\<forall>f. f \<notin> set fs \<longrightarrow> flow_at w' f = flow_at w f)
     \<and> (\<forall>a. a \<notin> fl_local ` flow_at w ` set fs \<longrightarrow> ag_target w' a = ag_target w a)
     \<and> (\<forall>a. a \<notin> fl_remote ` flow_at w ` set fs \<longrightarrow> ag_dst_addr w' a = ag_dst_addr w a)"

lemma accepted_flows_move:
  assumes "same_ends w w1" and "ag_target w1 = ag_target w" and "\<forall>f. f \<notin> set fs \<longrightarrow> flow_at w1 f = flow_at w f"
    and "\<forall>f \<in> set fs. fl_redirect (flow_at w1 f) \<and> fl_tmp_iface (flow_at w f) = Some i"
  shows "\<exists>w2 w3 acks. redirect_flows fs w1 s = Inr (w2, map (rred_to w1 s i) fs)
    \<and> deliver c w2 (map (rred_to w1 s i) fs) = Inr (w3, acks) \<and> length acks = length fs \<and> flows_moved w w3 fs i"
proof -
  have ends: "fl_remote ` flow_at w1 ` set fs = fl_remote ` flow_at w ` set fs"
    "fl_local ` flow_at w1 ` set fs = fl_local ` flow_at w ` set fs" "iface_addr w1 = iface_addr w"
    using assms(1) by (auto simp: same_ends_def image_image)
  have "\<forall>f \<in> set fs. fl_redirect (flow_at w1 f) \<and> fl_tmp_iface (flow_at w1 f) = Some i"
    using assms(1,4) by (simp add: same_ends_def)
  from redirect_flows_ok [OF this, of s] obtain w2 where w2: "redirect_flows fs w1 s = Inr (w2, map (rred_to w1 s i) fs)"
    "same_ends w1 w2" "\<forall>f \<in> set fs. fl_iface (flow_at w2 f) = i \<and> ag_target w2 (fl_local (flow_at w1 f)) = i"
    "\<forall>f. f \<notin> set fs \<longrightarrow> flow_at w2 f = flow_at w1 f"
    "\<forall>a. a \<notin> fl_local ` flow_at w1 ` set fs \<longrightarrow> ag_target w2 a = ag_target w1 a" by blast
  obtain w3 acks where w3: "deliver c w2 (map (rred_to w1 s i) fs) = Inr (w3, acks)" "length acks = length fs"
    "flow_at w3 = flow_at w2" "ag_target w3 = ag_target w2"
    "ag_dst_addr w3 = (\<lambda>a. if a \<in> fl_remote ` flow_at w1 ` set fs then iface_addr w1 i else ag_dst_addr w2 a)"
    using deliver_redirects [of c w2 w1 s i fs] by blast
  have dst: "ag_dst_addr w2 = ag_dst_addr w" using same_ends_trans [OF assms(1) w2(2)] by (simp add: same_ends_def)
  have loc: "fl_local (flow_at w1 f) = fl_local (flow_at w f)" for f using assms(1) by (simp add: same_ends_def)
  have "flows_moved w w3 fs i"
    using w2(3-5) assms(2,3) by (auto simp: flows_moved_def w3(3-5) ends dst loc)
  with w2(1) w3(1,2) show ?thesis by blast
qed

text \<open>
  C27: Moving flows to a new interface: the node's request reaches the network, the network's answer the
  node and the node's redirections the correspondents. If the network accepts (its MAC does not
  belong to cell 8), then afterwards every requested flow uses the new interface, its local agent
  sends by it, its remote agent sends to its address, no other agent or flow is affected, and each
  redirection is acknowledged. If it refuses, nothing is redirected. In both cases the request is no
  longer repeated and its number is used up.
\<close>

theorem flow_handover:
  assumes "fs \<noteq> []" and "\<forall>f \<in> set fs. fl_tmp_iface (flow_at w f) = Some i"
  shows "\<exists>s1 p w1 r1 q w2 s2 out w3 acks. send_flow_request now w s fs i d = (s1, [FSendVia i p]) \<and> daddr p = d
    \<and> flow_recv w r p = Inr (w1, r1, [FSend q]) \<and> daddr q = iface_addr w i
    \<and> flow_recv w1 s1 q = Inr (w2, s2, out) \<and> flow_timer s2 = TIMER_IDLE \<and> flow_seq s2 = flow_seq s + 1
    \<and> deliver c w2 out = Inr (w3, acks) \<and> length acks = length out
    \<and> (if bss_id w i \<noteq> 8 then flows_moved w w3 fs i
       else out = [] \<and> ag_dst_addr w3 = ag_dst_addr w \<and> ag_target w3 = ag_target w)"
proof -
  let ?s1 = "s\<lparr>ft_flows := fs, ft_iface := i, ft_destination := d, flow_timer := TIMER_PENDING (now + flow_timeout s)\<rparr>"
  obtain p where p: "send_flow_request now w s fs i d = (?s1, [FSendVia i p])" "daddr p = d" "saddr p = iface_addr w i"
    "ptype p = PT_FREQ" "fp_msg p = FREQ fs (flow_seq s)"
    by (simp add: send_flow_request_def timer_resched_def packet.defs)
  obtain w1 r1 q where q: "flow_recv w r p = Inr (w1, r1, [FSend q])" "daddr q = saddr p" "ptype q = PT_FRES"
    "fp_msg q = FRES fs (flow_seq s)" "same_ends w w1" "ag_target w1 = ag_target w"
    "\<forall>f \<in> set fs. fl_redirect (flow_at w1 f) = (bss_id w i \<noteq> 8)" "\<forall>f. f \<notin> set fs \<longrightarrow> flow_at w1 f = flow_at w f"
    using network_answers [OF assms p(4,5), of r] by blast
  let ?s = "?s1\<lparr>flow_timer := TIMER_IDLE\<rparr>"
  have s1: "flow_timer ?s1 \<noteq> TIMER_HANDLING" "fp_msg q = FRES fs (flow_seq ?s1)" using q(4) by simp_all
  note recv = node_redirects [OF s1(1) q(3) s1(2)]
  note base = p(1,2) q(1) q(2) [unfolded p(3)]
  show ?thesis
  proof (cases "bss_id w i \<noteq> 8")
    case True
    then have "\<forall>f \<in> set fs. fl_redirect (flow_at w1 f) \<and> fl_tmp_iface (flow_at w f) = Some i" using q(7) assms(2) by simp
    from accepted_flows_move [OF q(5,6,8) this, of ?s c] obtain w2 w3 acks where
      w2: "redirect_flows fs w1 ?s = Inr (w2, map (rred_to w1 ?s i) fs)"
      and w3: "deliver c w2 (map (rred_to w1 ?s i) fs) = Inr (w3, acks)" "length acks = length fs" "flows_moved w w3 fs i" by blast
    have fin: "if bss_id w i \<noteq> 8 then flows_moved w w3 fs i
        else map (rred_to w1 ?s i) fs = [] \<and> ag_dst_addr w3 = ag_dst_addr w \<and> ag_target w3 = ag_target w" using True w3(3) by simp
    show ?thesis
      by (intro exI conjI, rule base, rule base, rule base, rule base, rule recv [OF w2], simp, simp, rule w3(1))
        (simp add: w3(2), rule fin)
  next
    case False
    then have "redirect_flows fs w1 ?s = Inr (w1, [])" using q(7) by (intro redirect_none) simp
    note rec = recv [OF this]
    have fin: "if bss_id w i \<noteq> 8 then flows_moved w w1 fs i
        else [] = ([] :: flow_out list) \<and> ag_dst_addr w1 = ag_dst_addr w \<and> ag_target w1 = ag_target w"
      using False q(5,6) by (simp add: same_ends_def)
    show ?thesis
      by (intro exI conjI, rule base, rule base, rule base, rule base, rule rec, simp, simp, rule deliver.simps(1))
        (simp, rule fin)
  qed
qed

definition demo_flow_agent :: "addr \<Rightarrow> flow_agent" where
  "demo_flow_agent a = agent.extend (demo_agent a) \<lparr>fList = [0], nd_macs = [], flow_seq = 5, flow_timer = TIMER_IDLE, ft_flows = [],
     ft_iface = 0, ft_destination = 0, flow_timeout = 2, list_nodes = [], nbAccepted = 0, nbRefused = 0\<rparr>"

definition demo_world :: world where
  "demo_world = \<lparr>flow_at = (\<lambda>_. (new_FlowEntry 2 3 0 100 6)\<lparr>fl_tmp_iface := Some 7\<rparr>), next_flow = 4, ag_addr = (\<lambda>a. word_of_nat a),
     ag_port = (\<lambda>_. 0), ag_dst_addr = (\<lambda>_. 0x1805), ag_dst_port = (\<lambda>_. 0), ag_target = (\<lambda>_. 6), iface_addr = (\<lambda>i. 0x2800),
     bss_id = (\<lambda>_. 9)\<rparr>"

theorem flow_handover_witness:
  "\<exists>s1 p w3. send_flow_request 0 demo_world (demo_flow_agent 0x1805) [0] 7 0x2000 = (s1, [FSendVia 7 p])
     \<and> flows_moved demo_world w3 [0] 7"
proof -
  have "\<forall>f \<in> set [0]. fl_tmp_iface (flow_at demo_world f) = Some 7" "bss_id demo_world 7 \<noteq> 8" by (simp_all add: demo_world_def)
  with flow_handover [of "[0]" demo_world 7 0 "demo_flow_agent 0x1805" "0x2000" "demo_flow_agent 0x2000" "\<lambda>_. demo_flow_agent 0x3000"]
  show ?thesis by (simp only: if_True simp_thms list.distinct) blast
qed

section \<open>Repeated requests\<close>

text \<open>
  A request that is repeated because its answer came late is booked again: the bandwidth the network
  believes to be in use grows with every copy.
\<close>

lemma repeated_request_booked_twice:
  assumes "fs \<noteq> []" and "\<forall>f \<in> set fs. fl_tmp_iface (flow_at w f) = Some i" and "bss_id w i \<noteq> 8"
    and "ptype p = PT_FREQ" and "fp_msg p = FREQ fs k"
    and "flow_recv w r p = Inr (w1, r1, out1)" and "flow_recv w1 r1 p = Inr (w2, r2, out2)"
  shows "get_used_bw r2 = get_used_bw r + 2 * (\<Sum>f\<leftarrow>fs. fl_minBw (flow_at w f))"
proof -
  have some: "\<forall>f \<in> set fs. fl_tmp_iface (flow_at w f) \<noteq> None" and hd: "fl_tmp_iface (flow_at w (hd fs)) = Some i"
    using assms(1,2) by auto
  obtain w' r' where 1: "accept_flows fs w r = Inr (w', r')" "same_ends w w'"
    "get_used_bw r' = get_used_bw r + (\<Sum>f\<leftarrow>fs. fl_minBw (flow_at w f))"
    using accept_flows_ok [OF some, of r] by blast
  then have e: "w1 = w'" "r1 = r'" using assms(1,3-6) hd by (auto simp: flow_recv_def recv_flow_request_def)
  have same: "fl_tmp_iface (flow_at w1 f) = fl_tmp_iface (flow_at w f)" "fl_minBw (flow_at w1 f) = fl_minBw (flow_at w f)" for f
    using 1(2) by (simp_all add: same_ends_def e)
  obtain w'' r'' where 2: "accept_flows fs w1 r1 = Inr (w'', r'')"
    "get_used_bw r'' = get_used_bw r1 + (\<Sum>f\<leftarrow>fs. fl_minBw (flow_at w1 f))"
    using accept_flows_ok [of fs w1 r1] some same by auto
  have "bss_id w1 i = bss_id w i" using 1(2) by (simp add: same_ends_def e)
  then have "r2 = r''" using assms(1,3-5,7) hd same 2(1) by (auto simp: flow_recv_def recv_flow_request_def)
  with 1(3) 2(2) same show ?thesis by (simp add: e)
qed

end
