(* ===== verification/Packet_Queue.thy ===== *)
theory Packet_Queue
  imports Packets
begin

text \<open>
  The FIFO of packets under every queue, \<^verbatim>\<open>PacketQueue\<close> (ns-2.29-ori/queue/queue.h, queue.cc): a singly
  linked list threaded through the packets themselves. Packets are cells of a store with their link
  \<^verbatim>\<open>next_\<close>; loops over the links return an option, and a loop that never returns is the fault
  \<^const>\<open>NoReturn\<close>. The operations are shown to implement a list.
\<close>

section \<open>State\<close>

type_synonym pkt_ref = nat

record pkt_store =
  pk_next :: "pkt_ref \<Rightarrow> pkt_ref option"
  pkt_of :: "pkt_ref \<Rightarrow> packet"
  next_hop :: "pkt_ref \<Rightarrow> addr"
  l2timestamp :: "pkt_ref \<Rightarrow> time"

record packet_queue =
  pq_head :: "pkt_ref option"
  pq_tail :: "pkt_ref option"
  pq_len :: int
  pq_bytes :: int

definition new_packet_queue :: packet_queue where
  "new_packet_queue = \<lparr>pq_head = None, pq_tail = None, pq_len = 0, pq_bytes = 0\<rparr>"

abbreviation pkt_size :: "pkt_store \<Rightarrow> pkt_ref \<Rightarrow> int" where
  "pkt_size h p \<equiv> psize (pkt_of h p)"

section \<open>Operations\<close>

definition pq_enque :: "time \<Rightarrow> pkt_ref \<Rightarrow> pkt_store \<times> packet_queue \<Rightarrow> pkt_ref option \<times> pkt_store \<times> packet_queue" where
  "pq_enque now p = (\<lambda>(h, q).
     let pt = pq_tail q;
         (h1, q1) = (case pq_tail q of
            None \<Rightarrow> (h, q\<lparr>pq_head := Some p, pq_tail := Some p\<rparr>)
          | Some t \<Rightarrow> (h\<lparr>pk_next := (pk_next h)(t := Some p)\<rparr>, q\<lparr>pq_tail := Some p\<rparr>))
     in (pt, h1\<lparr>pk_next := (pk_next h1)(p := None), l2timestamp := (l2timestamp h1)(p := now)\<rparr>,
         q1\<lparr>pq_len := pq_len q1 + 1, pq_bytes := pq_bytes q1 + pkt_size h1 p\<rparr>))"

definition pq_deque :: "pkt_store \<times> packet_queue \<Rightarrow> pkt_ref option \<times> pkt_store \<times> packet_queue" where
  "pq_deque = (\<lambda>(h, q). case pq_head q of
     None \<Rightarrow> (None, h, q)
   | Some p \<Rightarrow>
       (let q1 = q\<lparr>pq_head := pk_next h p\<rparr>;
            q2 = (if pq_tail q1 = Some p then q1\<lparr>pq_head := None, pq_tail := None\<rparr> else q1)
        in (Some p, h, q2\<lparr>pq_len := pq_len q2 - 1, pq_bytes := pq_bytes q2 - pkt_size h p\<rparr>)))"

definition pq_enqueHead :: "pkt_ref \<Rightarrow> pkt_store \<times> packet_queue \<Rightarrow> pkt_store \<times> packet_queue" where
  "pq_enqueHead p = (\<lambda>(h, q).
     (h\<lparr>pk_next := (pk_next h)(p := pq_head q)\<rparr>,
      q\<lparr>pq_tail := (if pq_head q = None then Some p else pq_tail q), pq_head := Some p,
        pq_len := pq_len q + 1, pq_bytes := pq_bytes q + pkt_size h p\<rparr>))"

partial_function (option) lookup_loop :: "(pkt_ref \<Rightarrow> pkt_ref option) \<Rightarrow> pkt_ref option \<Rightarrow> int \<Rightarrow> pkt_ref option option" where
  "lookup_loop nx p n = (case p of
     None \<Rightarrow> Some None
   | Some c \<Rightarrow> if n - 1 < 0 then Some (Some c) else lookup_loop nx (nx c) (n - 1))"

definition pq_lookup :: "int \<Rightarrow> pkt_store \<times> packet_queue \<Rightarrow> pkt_ref option res" where
  "pq_lookup n = (\<lambda>(h, q). need NoReturn (lookup_loop (pk_next h) (pq_head q) n) Inr)"

text \<open>The loop of \<^verbatim>\<open>remove\<close>: the predecessor \<^verbatim>\<open>pp\<close> at the target, or nothing when the list ends.\<close>

partial_function (option) find_prev ::
  "(pkt_ref \<Rightarrow> pkt_ref option) \<Rightarrow> pkt_ref \<Rightarrow> pkt_ref option \<Rightarrow> pkt_ref option \<Rightarrow> pkt_ref option option option" where
  "find_prev nx t p pp = (case p of
     None \<Rightarrow> Some None
   | Some c \<Rightarrow> (if c = t then Some (Some pp) else find_prev nx t (nx c) (Some c)))"

definition unlink :: "pkt_ref \<Rightarrow> pkt_ref \<Rightarrow> pkt_store \<times> packet_queue \<Rightarrow> pkt_store \<times> packet_queue" where
  "unlink p pp = (\<lambda>(h, q).
     (h\<lparr>pk_next := (pk_next h)(pp := pk_next h p)\<rparr>,
      q\<lparr>pq_tail := (if pq_tail q = Some p then Some pp else pq_tail q), pq_len := pq_len q - 1, pq_bytes := pq_bytes q - pkt_size h p\<rparr>))"

definition pq_remove :: "pkt_ref \<Rightarrow> pkt_store \<times> packet_queue \<Rightarrow> (pkt_store \<times> packet_queue) res" where
  "pq_remove t = (\<lambda>(h, q).
     need NoReturn (find_prev (pk_next h) t (pq_head q) None) (\<lambda>r.
     need Abort r (\<lambda>pp. case pp of
         None \<Rightarrow> Inr (snd (pq_deque (h, q)))
       | Some c \<Rightarrow> Inr (unlink t c (h, q)))))"

text \<open>\<^verbatim>\<open>remove(pkt, prev)\<close>\<close>

definition pq_remove_after :: "pkt_ref option \<Rightarrow> pkt_ref option \<Rightarrow> pkt_store \<times> packet_queue \<Rightarrow> (pkt_store \<times> packet_queue) res" where
  "pq_remove_after pkt prev = (\<lambda>(h, q). case pkt of
     None \<Rightarrow> Inr (h, q)
   | Some p \<Rightarrow>
       if pq_head q = Some p then Inr (snd (pq_deque (h, q)))
       else need NullPtr prev (\<lambda>pp. Inr (unlink p pp (h, q))))"

section \<open>The list a queue stands for\<close>

fun chain :: "(pkt_ref \<Rightarrow> pkt_ref option) \<Rightarrow> pkt_ref option \<Rightarrow> pkt_ref list \<Rightarrow> bool" where
  "chain nx p [] = (p = None)"
| "chain nx p (x # xs) = (p = Some x \<and> chain nx (nx x) xs)"

definition queue_rep :: "pkt_store \<times> packet_queue \<Rightarrow> pkt_ref list \<Rightarrow> bool" where
  "queue_rep = (\<lambda>(h, q) xs. distinct xs \<and> chain (pk_next h) (pq_head q) xs \<and> pq_tail q = (if xs = [] then None else Some (last xs))
     \<and> pq_len q = int (length xs) \<and> pq_bytes q = (\<Sum>p\<leftarrow>xs. pkt_size h p))"

lemma chain_frame: "\<forall>x \<in> set xs. nx' x = nx x \<Longrightarrow> chain nx' p xs = chain nx p xs"
  by (induction xs arbitrary: p) auto

lemma chain_upd [simp]: "x \<notin> set xs \<Longrightarrow> chain (nx(x := y)) p xs = chain nx p xs"
  by (rule chain_frame) auto

lemma chain_unique: "chain nx p xs \<Longrightarrow> chain nx p ys \<Longrightarrow> xs = ys"
  by (induction xs arbitrary: p ys) (case_tac ys; auto)+

lemma chain_snoc:
  "chain nx p (xs @ [t]) \<Longrightarrow> t \<notin> set xs \<Longrightarrow> x \<notin> set xs \<Longrightarrow> x \<noteq> t \<Longrightarrow>
     chain (nx(t := Some x, x := None)) p (xs @ [t, x])"
  by (induction xs arbitrary: p) auto

lemma chain_remove:
  "chain nx p (xs @ pp # t # ys) \<Longrightarrow> distinct (xs @ pp # t # ys) \<Longrightarrow> chain (nx(pp := nx t)) p (xs @ pp # ys)"
  by (induction xs arbitrary: p) auto

lemma queue_rep_unique: "queue_rep hq xs \<Longrightarrow> queue_rep hq ys \<Longrightarrow> xs = ys"
  by (auto simp: queue_rep_def dest: chain_unique)

text \<open>Packets outside the queue may change in any way, as they do once they are sent, dropped or freed.\<close>

lemma queue_rep_frame:
  assumes "queue_rep (h, q) xs" and "\<forall>x \<in> set xs. pk_next h' x = pk_next h x \<and> pkt_of h' x = pkt_of h x"
  shows "queue_rep (h', q) xs"
proof -
  have "map (pkt_size h') xs = map (pkt_size h) xs" using assms(2) by simp
  then have "(\<Sum>p\<leftarrow>xs. pkt_size h' p) = (\<Sum>p\<leftarrow>xs. pkt_size h p)" by (rule arg_cong)
  then show ?thesis using assms chain_frame [of xs "pk_next h'" "pk_next h"] by (simp add: queue_rep_def)
qed

lemma new_packet_queue_rep: "queue_rep (h, new_packet_queue) []"
  by (simp add: queue_rep_def new_packet_queue_def)

lemma pq_enque_rep:
  assumes "queue_rep hq xs" and "p \<notin> set xs"
  shows "fst (pq_enque now p hq) = (if xs = [] then None else Some (last xs))"
    and "queue_rep (snd (pq_enque now p hq)) (xs @ [p])"
    and "pkt_of (fst (snd (pq_enque now p hq))) = pkt_of (fst hq)"
    and "next_hop (fst (snd (pq_enque now p hq))) = next_hop (fst hq)"
proof -
  obtain h q where hq: "hq = (h, q)" by (cases hq)
  show "fst (pq_enque now p hq) = (if xs = [] then None else Some (last xs))"
    using assms(1) by (simp add: hq pq_enque_def queue_rep_def Let_def case_prod_unfold)
  show "pkt_of (fst (snd (pq_enque now p hq))) = pkt_of (fst hq)" "next_hop (fst (snd (pq_enque now p hq))) = next_hop (fst hq)"
    by (simp_all add: hq pq_enque_def Let_def split: option.split)
  show "queue_rep (snd (pq_enque now p hq)) (xs @ [p])"
  proof (cases xs rule: rev_cases)
    case Nil
    then show ?thesis using assms(1) by (simp add: hq pq_enque_def queue_rep_def Let_def)
  next
    case (snoc ys t)
    have "chain ((pk_next h)(t := Some p, p := None)) (pq_head q) (ys @ [t, p])"
      using assms snoc by (intro chain_snoc) (auto simp: hq queue_rep_def)
    then show ?thesis using assms snoc by (auto simp: hq pq_enque_def queue_rep_def Let_def)
  qed
qed

lemma pq_deque_rep:
  assumes "queue_rep hq xs"
  shows "\<exists>q'. pq_deque hq = (case xs of [] \<Rightarrow> None | x # _ \<Rightarrow> Some x, fst hq, q') \<and> queue_rep (fst hq, q') (tl xs)"
proof -
  obtain h q where hq: "hq = (h, q)" by (cases hq)
  show ?thesis
  proof (cases xs)
    case (Cons x ys)
    moreover have "pk_next h x = None \<longleftrightarrow> ys = []" using assms Cons by (cases ys) (auto simp: hq queue_rep_def)
    moreover have "last ys \<noteq> x" if "ys \<noteq> []" using assms Cons that by (auto simp: hq queue_rep_def)
    ultimately show ?thesis using assms by (auto simp: hq pq_deque_def queue_rep_def Let_def)
  qed (use assms in \<open>auto simp: hq pq_deque_def queue_rep_def\<close>)
qed

lemma pq_enqueHead_rep:
  assumes "queue_rep hq xs" and "p \<notin> set xs"
  shows "queue_rep (pq_enqueHead p hq) (p # xs)" "pkt_of (fst (pq_enqueHead p hq)) = pkt_of (fst hq)"
    "next_hop (fst (pq_enqueHead p hq)) = next_hop (fst hq)"
  using assms by (cases hq; cases xs; auto simp: pq_enqueHead_def queue_rep_def)+

lemma lookup_loop_chain:
  "chain nx p xs \<Longrightarrow> lookup_loop nx p n = Some (if xs = [] then None else if n \<le> 0 then Some (hd xs)
     else if n < int (length xs) then Some (xs ! nat n) else None)"
proof (induction xs arbitrary: p n)
  case Nil
  then show ?case by (simp add: lookup_loop.simps)
next
  case (Cons x xs)
  then have p: "p = Some x" "chain nx (nx x) xs" by simp_all
  show ?case
  proof (cases "n \<le> 0")
    case False
    then have "nat n = Suc (nat (n - 1))" by simp
    then show ?thesis using False p Cons.IH [OF p(2), of "n - 1"]
      by (subst lookup_loop.simps) (cases xs; auto)
  qed (use p in \<open>subst lookup_loop.simps; simp\<close>)
qed

lemma pq_lookup_rep:
  assumes "queue_rep hq xs"
  shows "pq_lookup n hq = Inr (if xs = [] then None else if n \<le> 0 then Some (hd xs)
    else if n < int (length xs) then Some (xs ! nat n) else None)"
  using assms lookup_loop_chain by (cases hq) (auto simp: pq_lookup_def queue_rep_def)

lemma find_prev_chain:
  "chain nx p (xs @ t # ys) \<Longrightarrow> t \<notin> set xs \<Longrightarrow> find_prev nx t p pp = Some (Some (if xs = [] then pp else Some (last xs)))"
proof (induction xs arbitrary: p pp)
  case Nil
  then show ?case by (subst find_prev.simps) simp
next
  case (Cons x xs)
  then show ?case by (subst find_prev.simps) auto
qed

lemma find_prev_none: "chain nx p xs \<Longrightarrow> t \<notin> set xs \<Longrightarrow> find_prev nx t p pp = Some None"
proof (induction xs arbitrary: p pp)
  case Nil
  then show ?case by (subst find_prev.simps) simp
next
  case (Cons x xs)
  then show ?case by (subst find_prev.simps) auto
qed

lemma unlink_rep:
  assumes "queue_rep hq (xs @ pp # t # ys)"
  shows "queue_rep (unlink t pp hq) (xs @ pp # ys)" "pkt_of (fst (unlink t pp hq)) = pkt_of (fst hq)"
    "next_hop (fst (unlink t pp hq)) = next_hop (fst hq)"
proof -
  obtain h q where hq: "hq = (h, q)" by (cases hq)
  have "chain ((pk_next h)(pp := pk_next h t)) (pq_head q) (xs @ pp # ys)"
    using assms by (intro chain_remove) (auto simp: hq queue_rep_def)
  moreover have "ys \<noteq> [] \<Longrightarrow> last ys \<noteq> t" using assms by (auto simp: hq queue_rep_def)
  ultimately show "queue_rep (unlink t pp hq) (xs @ pp # ys)" using assms by (auto simp: hq unlink_def queue_rep_def)
  show "pkt_of (fst (unlink t pp hq)) = pkt_of (fst hq)" "next_hop (fst (unlink t pp hq)) = next_hop (fst hq)"
    by (simp_all add: hq unlink_def)
qed

lemma pq_remove_rep:
  assumes "queue_rep hq xs" and "t \<in> set xs"
  shows "\<exists>hq'. pq_remove t hq = Inr hq' \<and> queue_rep hq' (remove1 t xs) \<and> pkt_of (fst hq') = pkt_of (fst hq)
    \<and> next_hop (fst hq') = next_hop (fst hq)"
proof -
  obtain h q where hq: "hq = (h, q)" by (cases hq)
  obtain us vs where xs: "xs = us @ t # vs" "t \<notin> set us" using assms(2) by (meson split_list_first)
  have fp: "find_prev (pk_next h) t (pq_head q) None = Some (Some (if us = [] then None else Some (last us)))"
    using assms(1) xs by (intro find_prev_chain) (auto simp: hq queue_rep_def)
  have rem: "remove1 t xs = us @ vs" using xs by (simp add: remove1_append)
  show ?thesis
  proof (cases us rule: rev_cases)
    case Nil
    with pq_deque_rep [OF assms(1)] fp rem xs(1) show ?thesis by (auto simp: hq pq_remove_def)
  next
    case (snoc ws pp)
    with unlink_rep [of hq ws pp t vs] fp rem xs(1) assms(1) show ?thesis by (auto simp: hq pq_remove_def)
  qed
qed

lemma pq_remove_absent: "queue_rep hq xs \<Longrightarrow> t \<notin> set xs \<Longrightarrow> pq_remove t hq = Inl Abort"
  by (cases hq) (auto simp: pq_remove_def queue_rep_def find_prev_none)

lemma pq_remove_after_rep:
  assumes "queue_rep hq xs" and "xs = us @ t # vs" and "prev = (if us = [] then None else Some (last us))"
  shows "\<exists>hq'. pq_remove_after (Some t) prev hq = Inr hq' \<and> queue_rep hq' (us @ vs) \<and> pkt_of (fst hq') = pkt_of (fst hq)
    \<and> next_hop (fst hq') = next_hop (fst hq)"
proof (cases us rule: rev_cases)
  case Nil
  with pq_deque_rep [OF assms(1)] assms show ?thesis by (cases hq) (auto simp: pq_remove_after_def queue_rep_def)
next
  case (snoc ws pp)
  then have "pq_head (snd hq) \<noteq> Some t" using assms(1,2) by (cases ws) (auto simp: queue_rep_def split: prod.splits)
  with snoc unlink_rep [of hq ws pp t vs] assms show ?thesis by (cases hq) (auto simp: pq_remove_after_def)
qed

section \<open>Refinement\<close>

text \<open>
  The calls of a packet queue; in between, \<open>Outside p nx pk\<close> writes the link and the contents of a
  packet, as its present owner or the free list does.
\<close>

datatype pq_op =
    Enque time pkt_ref
  | Deque
  | EnqueHead pkt_ref
  | Remove pkt_ref
  | Lookup int
  | Outside pkt_ref "pkt_ref option" packet

definition pq_step :: "pkt_store \<times> packet_queue \<Rightarrow> pq_op \<Rightarrow> ((pkt_store \<times> packet_queue) \<times> pkt_ref option) res" where
  "pq_step hq i = (case i of
     Enque now p \<Rightarrow> (let (r, hq') = pq_enque now p hq in Inr (hq', r))
   | Deque \<Rightarrow> (let (r, hq') = pq_deque hq in Inr (hq', r))
   | EnqueHead p \<Rightarrow> Inr (pq_enqueHead p hq, None)
   | Remove p \<Rightarrow> bind_res (pq_remove p hq) (\<lambda>hq'. Inr (hq', None))
   | Lookup n \<Rightarrow> bind_res (pq_lookup n hq) (\<lambda>r. Inr (hq, r))
   | Outside p nx pk \<Rightarrow>
       (let (h, q) = hq in Inr ((h\<lparr>pk_next := (pk_next h)(p := nx), pkt_of := (pkt_of h)(p := pk)\<rparr>, q), None)))"

text \<open>What they do to the list of the packets in the queue.\<close>

fun list_step :: "pq_op \<Rightarrow> pkt_ref list \<Rightarrow> pkt_ref list \<times> pkt_ref option" where
  "list_step (Enque now p) xs = (xs @ [p], if xs = [] then None else Some (last xs))"
| "list_step Deque xs = (tl xs, case xs of [] \<Rightarrow> None | x # _ \<Rightarrow> Some x)"
| "list_step (EnqueHead p) xs = (p # xs, None)"
| "list_step (Remove p) xs = (remove1 p xs, None)"
| "list_step (Lookup n) xs = (xs, if nat n < length xs then Some (xs ! nat n) else None)"
| "list_step (Outside p nx pk) xs = (xs, None)"

text \<open>A packet is in a queue at most once, and while it is, its link belongs to the queue.\<close>

fun list_ok :: "pkt_ref list \<Rightarrow> pq_op \<Rightarrow> bool" where
  "list_ok xs (Enque now p) = (p \<notin> set xs)"
| "list_ok xs (EnqueHead p) = (p \<notin> set xs)"
| "list_ok xs (Remove p) = (p \<in> set xs)"
| "list_ok xs (Outside p nx pk) = (p \<notin> set xs)"
| "list_ok xs _ = True"

interpretation pq: data_refinement pq_step queue_rep list_step list_ok
proof
  fix hq xs i
  assume rep: "queue_rep hq xs" and ok: "list_ok xs i"
  show "\<exists>hq'. pq_step hq i = Inr (hq', snd (list_step i xs)) \<and> queue_rep hq' (fst (list_step i xs))"
  proof (cases i)
    case (Enque now p)
    with pq_enque_rep [OF rep, of p now] ok show ?thesis by (simp add: pq_step_def case_prod_unfold Let_def)
  next
    case Deque
    with pq_deque_rep [OF rep] show ?thesis by (auto simp: pq_step_def)
  next
    case (EnqueHead p)
    with pq_enqueHead_rep [OF rep] ok show ?thesis by (simp add: pq_step_def)
  next
    case (Remove p)
    with pq_remove_rep [OF rep] ok show ?thesis by (fastforce simp: pq_step_def)
  next
    case (Lookup n)
    moreover have "0 < n \<Longrightarrow> n < int (length xs) \<longleftrightarrow> nat n < length xs" by linarith
    ultimately show ?thesis using rep pq_lookup_rep [OF rep, of n] by (cases xs) (auto simp: pq_step_def)
  next
    case (Outside p nx pk)
    have "queue_rep (fst hq, snd hq) xs" using rep by simp
    then have "queue_rep ((fst hq)\<lparr>pk_next := (pk_next (fst hq))(p := nx), pkt_of := (pkt_of (fst hq))(p := pk)\<rparr>, snd hq) xs"
      by (rule queue_rep_frame) (use Outside ok in auto)
    with Outside show ?thesis by (simp add: pq_step_def case_prod_unfold Let_def)
  qed
qed


definition demo_store :: pkt_store where
  "demo_store = \<lparr>pk_next = (\<lambda>_. None), pkt_of = (\<lambda>_. allocpkt \<lparr>here_addr = 0, here_port = 1, dst_addr = 0, dst_port = 0,
     ag_type = PT_UDP, ag_size = 100, ag_prio = 0\<rparr>), next_hop = (\<lambda>_. 0), l2timestamp = (\<lambda>_. 0)\<rparr>"


end
