(* ===== verification/Drop_Tail.thy ===== *)
theory Drop_Tail
  imports Packet_Queue
begin

text \<open>
  The base class \<^verbatim>\<open>Queue\<close> (ns-2.29-ori/queue/queue.cc), with its statistics of the queue length and of the
  utilisation of the link, and the drop-tail queue \<^verbatim>\<open>DropTailHSNTG\<close> of NIST
  (nist-2/hsntg/drop-tail-hsntg.cc). What the queue hands to its target, drops, or reports to the MAC
  is the list of outputs of an operation. The target's \<^verbatim>\<open>recv\<close> is the last action of the operations
  that call it but for statistics, so a target that calls back at once acts after the operation.
\<close>

section \<open>Utilisation\<close>

record util =
  last_change :: time
  old_util :: real
  util_weight :: real
  util_check_intv :: time
  period_begin :: time
  cur_util :: real
  buf_slot :: int
  util_buf :: "real list"
  util_records :: int

text \<open>The loop of \<^verbatim>\<open>utilUpdate\<close>; \<open>k\<close> is \<^verbatim>\<open>util_records_ - guard\<close>.\<close>

fun util_loop :: "nat \<Rightarrow> time \<Rightarrow> int \<Rightarrow> time \<Rightarrow> time \<Rightarrow> util \<Rightarrow> util res" where
  "util_loop 0 int_end link_state tot_intv intv u = Inr u"
| "util_loop (Suc k) int_end link_state tot_intv intv u =
     (if tot_intv + intv > util_check_intv u then
        check OutOfRange (0 \<le> buf_slot u \<and> buf_slot u < int (length (util_buf u)))
          (util_loop k int_end link_state tot_intv (intv - util_check_intv u)
             (u\<lparr>period_begin := int_end, util_buf := (util_buf u)[nat (buf_slot u) := cur_util u],
                buf_slot := c_mod (buf_slot u + 1) (util_records u), cur_util := real_of_int link_state\<rparr>))
      else Inr u)"

definition utilUpdate :: "time \<Rightarrow> time \<Rightarrow> int \<Rightarrow> util \<Rightarrow> util res" where
  "utilUpdate int_begin int_end link_state u =
     (let decay = exp (- util_weight u * (int_end - int_begin));
          u1 = u\<lparr>old_util := real_of_int link_state + (old_util u - real_of_int link_state) * decay\<rparr>;
          intv = int_end - int_begin;
          tot_intv = int_begin - period_begin u1
      in if util_records u1 = 0 then Inr u1
         else if intv \<noteq> 0 \<or> tot_intv \<noteq> 0 then
           util_loop (nat (util_records u1)) int_end link_state tot_intv intv
             (u1\<lparr>cur_util := (real_of_int link_state * intv + cur_util u1 * tot_intv) / (intv + tot_intv)\<rparr>)
         else Inr u1)"

text \<open>\<^verbatim>\<open>utilUpdate(last_change_, now, blocked_); last_change_ = now\<close>\<close>

definition util_change :: "time \<Rightarrow> int \<Rightarrow> util \<Rightarrow> util res" where
  "util_change now blocked u = bind_res (utilUpdate (last_change u) now blocked u) (\<lambda>u1. Inr (u1\<lparr>last_change := now\<rparr>))"

section \<open>State\<close>

record drop_tail =
  dt_q :: packet_queue
  qlim :: int
  blocked :: int
  unblock_on_resume :: int
  true_ave :: real
  total_time :: time
  dt_util :: util
  drop_front :: int
  summarystats :: int
  qib :: int
  mean_pktsize :: int
  target_is_mac :: bool

datatype q_out =
    QDrop pkt_ref
  | QDropEnd pkt_ref
  | QTarget pkt_ref
  | QLoss
  | QStats int

type_synonym dt_state = "pkt_store \<times> drop_tail"
type_synonym dt_result = "(dt_state \<times> q_out list) res"

definition updateStats :: "time \<Rightarrow> int \<Rightarrow> drop_tail \<Rightarrow> drop_tail" where
  "updateStats now queuesize s =
     (if now - total_time s > 0
      then s\<lparr>true_ave := (total_time s * true_ave s + (now - total_time s) * real_of_int queuesize) / now, total_time := now\<rparr>
      else s)"

definition dt_size :: "drop_tail \<Rightarrow> int" where
  "dt_size s = (if qib s \<noteq> 0 then pq_bytes (dt_q s) else pq_len (dt_q s))"

definition dt_stats :: "time \<Rightarrow> drop_tail \<Rightarrow> drop_tail" where
  "dt_stats now s = (if summarystats s \<noteq> 0 then updateStats now (dt_size s) s else s)"

section \<open>The drop-tail queue\<close>

definition dt_enque :: "time \<Rightarrow> pkt_ref \<Rightarrow> dt_state \<Rightarrow> dt_result" where
  "dt_enque now p = (\<lambda>(h, s).
     let s0 = dt_stats now s; q = dt_q s0; qlimBytes = qlim s0 * mean_pktsize s0;
         mac = (\<lambda>(h1, s1). if target_is_mac s1
           then ((h1\<lparr>l2timestamp := (l2timestamp h1)(p := now)\<rparr>, s1), [QStats (pq_len (dt_q s1))])
           else ((h1, s1), []));
         loss = (if target_is_mac s0 then [QLoss] else [])
     in if qib s0 = 0 \<and> pq_len q + 1 \<ge> qlim s0 \<or> qib s0 \<noteq> 0 \<and> pq_bytes q + pkt_size h p \<ge> qlimBytes then
          (if drop_front s0 \<noteq> 0 then
             (let (_, hq1) = pq_enque now p (h, q); (pp, h2, q2) = pq_deque hq1
              in need NullPtr pp (\<lambda>d.
                   let (hs, out) = mac (h2, s0\<lparr>dt_q := q2\<rparr>) in Inr (hs, [QDrop d] @ loss @ out)))
           else
             (let (hs, out) = mac (h, s0) in Inr (hs, [QDrop p] @ loss @ out)))
        else
          (let (_, h1, q1) = pq_enque now p (h, q); (hs, out) = mac (h1, s0\<lparr>dt_q := q1\<rparr>) in Inr (hs, out)))"

definition dt_deque :: "time \<Rightarrow> dt_state \<Rightarrow> pkt_ref option \<times> dt_state" where
  "dt_deque now = (\<lambda>(h, s).
     let s0 = dt_stats now s; (p, h1, q1) = pq_deque (h, dt_q s0) in (p, h1, s0\<lparr>dt_q := q1\<rparr>))"

text \<open>The condition of \<^verbatim>\<open>shrink_queue\<close> and its loop.\<close>

definition dt_excess :: "drop_tail \<Rightarrow> bool" where
  "dt_excess s \<longleftrightarrow> qib s = 0 \<and> pq_len (dt_q s) > qlim s \<or> qib s \<noteq> 0 \<and> pq_bytes (dt_q s) > qlim s * mean_pktsize s"

definition shrink_one :: "dt_state \<Rightarrow> (dt_state \<times> pkt_ref) res" where
  "shrink_one = (\<lambda>(h, s).
     if drop_front s \<noteq> 0 then
       (let (pp, h1, q1) = pq_deque (h, dt_q s) in need NullPtr pp (\<lambda>d. Inr ((h1, s\<lparr>dt_q := q1\<rparr>), d)))
     else
       need Abort (pq_tail (dt_q s)) (\<lambda>d.
       bind_res (pq_remove d (h, dt_q s)) (\<lambda>(h1, q1). Inr ((h1, s\<lparr>dt_q := q1\<rparr>), d))))"

partial_function (option) shrink_loop :: "dt_state \<Rightarrow> dt_result option" where
  "shrink_loop hs = (if \<not> dt_excess (snd hs) then Some (Inr (hs, []))
     else case shrink_one hs of
       Inl e \<Rightarrow> Some (Inl e)
     | Inr r \<Rightarrow> Option.bind (shrink_loop (fst r)) (\<lambda>x. Some (bind_res x (\<lambda>y. Inr (fst y, QDrop (snd r) # snd y)))))"

definition shrink_queue :: "dt_state \<Rightarrow> dt_result" where
  "shrink_queue hs = need NoReturn (shrink_loop hs) (\<lambda>x. x)"

section \<open>The base class\<close>

text \<open>\<^verbatim>\<open>recv\<close> after \<^verbatim>\<open>enque\<close>: an idle link gets the next packet.\<close>

definition send_next :: "time \<Rightarrow> dt_state \<Rightarrow> dt_result" where
  "send_next now hs =
     (if blocked (snd hs) = 0 then
        (case dt_deque now hs of
           (None, hs1) \<Rightarrow> Inr (hs1, [])
         | (Some p, h1, s1) \<Rightarrow>
             bind_res (util_change now (blocked s1) (dt_util s1)) (\<lambda>u.
               Inr ((h1, s1\<lparr>dt_util := u, blocked := 1\<rparr>), [QTarget p])))
      else Inr (hs, []))"

definition queue_recv :: "time \<Rightarrow> pkt_ref \<Rightarrow> dt_state \<Rightarrow> dt_result" where
  "queue_recv now p hs =
     bind_res (dt_enque now p hs) (\<lambda>(hs1, out1).
     bind_res (send_next now hs1) (\<lambda>(hs2, out2). Inr (hs2, out1 @ out2)))"

definition queue_resume :: "time \<Rightarrow> dt_state \<Rightarrow> dt_result" where
  "queue_resume now hs =
     (case dt_deque now hs of
        (Some p, hs1) \<Rightarrow> Inr (hs1, [QTarget p])
      | (None, h1, s1) \<Rightarrow>
          bind_res (util_change now (blocked s1) (dt_util s1)) (\<lambda>u.
            Inr ((h1, s1\<lparr>dt_util := u, blocked := (if unblock_on_resume s1 \<noteq> 0 then 0 else 1)\<rparr>), [])))"

text \<open>\<^verbatim>\<open>while ((p = deque()))\<close>, of \<^verbatim>\<open>reset\<close> and of \<^verbatim>\<open>Terminate\<close>.\<close>

partial_function (option) drain_loop :: "time \<Rightarrow> dt_state \<Rightarrow> (dt_state \<times> pkt_ref list) option" where
  "drain_loop now hs = (let r = dt_deque now hs in
     if fst r = None then Some (snd r, [])
     else Option.bind (drain_loop now (snd r)) (\<lambda>y. Some (fst y, the (fst r) # snd y)))"

definition queue_reset :: "time \<Rightarrow> dt_state \<Rightarrow> dt_result" where
  "queue_reset now = (\<lambda>(h, s).
     need NoReturn (drain_loop now (h, s\<lparr>total_time := 0, true_ave := 0\<rparr>)) (\<lambda>(hs, ps). Inr (hs, map QDrop ps)))"

definition utilization :: "time \<Rightarrow> drop_tail \<Rightarrow> (real \<times> drop_tail) res" where
  "utilization now s = bind_res (util_change now (blocked s) (dt_util s)) (\<lambda>u. Inr (old_util u, s\<lparr>dt_util := u\<rparr>))"

definition peak_utilization :: "time \<Rightarrow> drop_tail \<Rightarrow> (real \<times> drop_tail) res" where
  "peak_utilization now s =
     (if util_records (dt_util s) = 0 then utilization now s
      else bind_res (util_change now (blocked s) (dt_util s)) (\<lambda>u.
        check OutOfRange (util_records u \<le> int (length (util_buf u)))
          (Inr (fold (\<lambda>x peak. if x > peak then x else peak) (take (nat (util_records u)) (util_buf u)) 0, s\<lparr>dt_util := u\<rparr>))))"

end
