(* ===== verification/Pri_Queue.thy ===== *)
theory Pri_Queue
  imports Drop_Tail
begin

text \<open>
  The interface queue \<^verbatim>\<open>PriQueueHSNTG\<close> (nist-2/hsntg/priqueue-hsntg.cc): a drop-tail queue in which
  routing packets go to the front, with removal of packets by a filter and by next hop.
\<close>

definition is_routing :: "packet_t \<Rightarrow> bool" where
  "is_routing t \<longleftrightarrow> t \<in> {PT_DSR, PT_MESSAGE, PT_TORA, PT_AODV}"

text \<open>The two halves of \<^verbatim>\<open>recvHighPriority\<close>: the packet goes to the front, and an idle link gets a packet.\<close>

definition high_insert :: "pkt_ref \<Rightarrow> dt_state \<Rightarrow> dt_result" where
  "high_insert p = (\<lambda>(h, s).
     let (h1, q1) = pq_enqueHead p (h, dt_q s)
     in if pq_len q1 \<ge> qlim s then
          bind_res (pq_lookup (pq_len q1 - 1) (h1, q1)) (\<lambda>r.
          need Abort r (\<lambda>to_drop.
          bind_res (pq_remove to_drop (h1, q1)) (\<lambda>(h2, q2).
            Inr ((h2, s\<lparr>dt_q := q2\<rparr>), QDrop to_drop # (if target_is_mac s then [QLoss] else [])))))
        else Inr ((h1, s\<lparr>dt_q := q1\<rparr>), []))"

definition high_send :: "time \<Rightarrow> dt_state \<Rightarrow> dt_result" where
  "high_send now hs =
     bind_res
       (if blocked (snd hs) = 0 then
          (case dt_deque now hs of
             (None, hs1) \<Rightarrow> Inr (hs1, [])
           | (Some d, h1, s1) \<Rightarrow> Inr ((h1, s1\<lparr>blocked := 1\<rparr>), [QTarget d]))
        else Inr (hs, []))
       (\<lambda>(hs1, out1). Inr (hs1, out1 @ (if target_is_mac (snd hs1) then [QStats (pq_len (dt_q (snd hs1)))] else [])))"

definition recvHighPriority :: "time \<Rightarrow> pkt_ref \<Rightarrow> dt_state \<Rightarrow> dt_result" where
  "recvHighPriority now p hs =
     bind_res (high_insert p hs) (\<lambda>(hs1, out1).
     bind_res (high_send now hs1) (\<lambda>(hs2, out2). Inr (hs2, out1 @ out2)))"

text \<open>\<open>pref\<close> is \<^verbatim>\<open>Prefer_Routing_Protocols\<close>.\<close>

definition pri_recv :: "int \<Rightarrow> time \<Rightarrow> pkt_ref \<Rightarrow> dt_state \<Rightarrow> dt_result" where
  "pri_recv pref now p hs =
     (if pref \<noteq> 0 \<and> is_routing (ptype (pkt_of (fst hs) p)) then recvHighPriority now p hs else queue_recv now p hs)"

text \<open>\<^verbatim>\<open>filter(PacketFilter, void*)\<close> with the filter and its data as \<open>f\<close>; the packets taken out go to the caller.\<close>

partial_function (option) filter_loop :: "(pkt_ref \<Rightarrow> bool) \<Rightarrow> int \<Rightarrow> dt_state \<Rightarrow> dt_state res option" where
  "filter_loop f i hs =
     (if \<not> i < pq_len (dt_q (snd hs)) then Some (Inr hs)
      else case pq_lookup i (fst hs, dt_q (snd hs)) of
        Inl e \<Rightarrow> Some (Inl e)
      | Inr r \<Rightarrow>
          if r = None then Some (Inl NullPtr)
          else if f (the r) then
            (case pq_remove (the r) (fst hs, dt_q (snd hs)) of
               Inl e \<Rightarrow> Some (Inl e)
             | Inr hq \<Rightarrow> filter_loop f i (fst hq, (snd hs)\<lparr>dt_q := snd hq\<rparr>))
          else filter_loop f (i + 1) hs)"

definition pri_filter :: "(pkt_ref \<Rightarrow> bool) \<Rightarrow> dt_state \<Rightarrow> dt_state res" where
  "pri_filter f hs = need NoReturn (filter_loop f 0 hs) (\<lambda>x. x)"

text \<open>The loop of \<^verbatim>\<open>filter(nsaddr_t)\<close>: the first packet for the next hop, with its predecessor.\<close>

partial_function (option) hop_loop ::
  "pkt_store \<Rightarrow> addr \<Rightarrow> pkt_ref option \<Rightarrow> pkt_ref option \<Rightarrow> (pkt_ref option \<times> pkt_ref option) option" where
  "hop_loop h a p pp = (case p of
     None \<Rightarrow> Some (None, pp)
   | Some c \<Rightarrow> if next_hop h c = a then Some (Some c, pp) else hop_loop h a (pk_next h c) (Some c))"

definition filter_next_hop :: "addr \<Rightarrow> dt_state \<Rightarrow> (dt_state \<times> pkt_ref option) res" where
  "filter_next_hop a = (\<lambda>(h, s).
     need NoReturn (hop_loop h a (pq_head (dt_q s)) None) (\<lambda>(p, pp).
       case p of
         None \<Rightarrow> Inr ((h, s), None)
       | Some c \<Rightarrow>
           bind_res (if pp = None then pq_remove c (h, dt_q s) else pq_remove_after p pp (h, dt_q s)) (\<lambda>(h1, q1).
             Inr ((h1, s\<lparr>dt_q := q1\<rparr>), p))))"

definition pri_Terminate :: "time \<Rightarrow> dt_state \<Rightarrow> dt_result" where
  "pri_Terminate now hs = need NoReturn (drain_loop now hs) (\<lambda>(hs1, ps). Inr (hs1, map QDropEnd ps))"

end
