(* ===== verification/Queue_Props.thy ===== *)
theory Queue_Props
  imports Pri_Queue "HOL-Library.Multiset"
begin

text \<open>
  Properties of the interface queue: its operations on the list of queued packets, the bounds of
  the utilisation, shrinking and filtering, and the books of a run.
\<close>

section \<open>Utilisation\<close>

definition util_ok :: "util \<Rightarrow> bool" where
  "util_ok u \<longleftrightarrow> 0 \<le> util_weight u \<and> 0 \<le> old_util u \<and> old_util u \<le> 1 \<and> 0 \<le> util_records u
     \<and> int (length (util_buf u)) = util_records u \<and> (util_records u \<noteq> 0 \<longrightarrow> 0 \<le> buf_slot u \<and> buf_slot u < util_records u)
     \<and> period_begin u \<le> last_change u \<and> 0 \<le> cur_util u \<and> cur_util u \<le> 1 \<and> (\<forall>x \<in> set (util_buf u). 0 \<le> x \<and> x \<le> 1)"

lemma set_update_le: "x \<in> set (xs[i := y]) \<Longrightarrow> x = y \<or> x \<in> set xs"
  using set_update_subset_insert [of xs i y] by auto

lemma util_loop_ok:
  assumes "util_ok (u\<lparr>last_change := t\<rparr>)" and "b \<in> {0, 1}" and "util_records u \<noteq> 0"
  shows "\<exists>u'. util_loop k t b tot intv u = Inr u' \<and> util_ok (u'\<lparr>last_change := t\<rparr>)"
  using assms(1,3)
proof (induction k arbitrary: intv u)
  case (Suc k)
  let ?u = "u\<lparr>period_begin := t, util_buf := (util_buf u)[nat (buf_slot u) := cur_util u],
    buf_slot := c_mod (buf_slot u + 1) (util_records u), cur_util := real_of_int b\<rparr>"
  have slot: "0 \<le> buf_slot u" "buf_slot u < util_records u" "int (length (util_buf u)) = util_records u"
    using Suc.prems by (auto simp: util_ok_def)
  have "util_ok (?u\<lparr>last_change := t\<rparr>)"
    using Suc.prems slot assms(2) by (auto simp: util_ok_def dest!: set_update_le)
  then have "\<exists>u'. util_loop k t b tot (intv - util_check_intv u) ?u = Inr u' \<and> util_ok (u'\<lparr>last_change := t\<rparr>)"
    using Suc.prems(2) by (intro Suc.IH) simp_all
  with slot Suc.prems(1) show ?case by simp
qed simp

lemma convex_01:
  fixes a :: real
  assumes "0 \<le> a" and "a \<le> 1" and "0 \<le> c" and "c \<le> 1" and "0 \<le> d" and "d \<le> 1"
  shows "0 \<le> a + (c - a) * d" and "a + (c - a) * d \<le> 1"
proof -
  have e: "a + (c - a) * d = (1 - d) * a + d * c" by (simp add: algebra_simps)
  have "(1 - d) * a \<le> (1 - d) * 1" "d * c \<le> d * 1" using assms by (intro mult_left_mono; simp)+
  then show "a + (c - a) * d \<le> 1" unfolding e by simp
  show "0 \<le> a + (c - a) * d" unfolding e using assms by simp
qed

lemma weighted_01:
  fixes a c :: real
  assumes "0 \<le> a" and "a \<le> 1" and "0 \<le> c" and "c \<le> 1" and "0 \<le> v" and "0 \<le> w" and "v \<noteq> 0 \<or> w \<noteq> 0"
  shows "0 \<le> (a * v + c * w) / (v + w)" and "(a * v + c * w) / (v + w) \<le> 1"
proof -
  have "0 < v + w" using assms by linarith
  moreover have "a * v \<le> 1 * v" "c * w \<le> 1 * w" using assms by (intro mult_right_mono; simp)+
  ultimately show "(a * v + c * w) / (v + w) \<le> 1" by simp
  show "0 \<le> (a * v + c * w) / (v + w)" using assms by simp
qed

lemma util_change_ok:
  assumes "util_ok u" and "last_change u \<le> now" and "b \<in> {0, 1}"
  shows "\<exists>u'. util_change now b u = Inr u' \<and> util_ok u' \<and> last_change u' = now"
proof -
  let ?d = "exp (- util_weight u * (now - last_change u))"
  let ?u1 = "u\<lparr>old_util := real_of_int b + (old_util u - real_of_int b) * ?d\<rparr>"
  have d: "0 \<le> ?d" "?d \<le> 1" using assms(1,2) by (simp_all add: util_ok_def)
  have "0 \<le> real_of_int b" "real_of_int b \<le> 1" using assms(3) by auto
  then have u1: "util_ok (?u1\<lparr>last_change := now\<rparr>)"
    using assms(1,2) convex_01 [of "real_of_int b" "old_util u" ?d] d by (simp add: util_ok_def)
  show ?thesis
  proof (cases "util_records u = 0 \<or> (now - last_change u = 0 \<and> last_change u - period_begin u = 0)")
    case True
    then show ?thesis using u1 by (auto simp: util_change_def utilUpdate_def Let_def)
  next
    case False
    let ?v = "now - last_change u" and ?w = "last_change u - period_begin u"
    let ?u2 = "?u1\<lparr>cur_util := (real_of_int b * ?v + cur_util u * ?w) / (?v + ?w)\<rparr>"
    have "util_ok (?u2\<lparr>last_change := now\<rparr>)"
      using u1 weighted_01 [of "real_of_int b" "cur_util u" ?v ?w] assms False by (auto simp: util_ok_def)
    from util_loop_ok [OF this assms(3), of "nat (util_records u)" ?w ?v] False obtain u'
      where "util_loop (nat (util_records u)) now b ?w ?v ?u2 = Inr u'" "util_ok (u'\<lparr>last_change := now\<rparr>)" by auto
    with False show ?thesis by (auto simp: util_change_def utilUpdate_def Let_def)
  qed
qed

lemma peak_fold_01:
  fixes m :: real
  shows "0 \<le> m \<Longrightarrow> m \<le> 1 \<Longrightarrow> \<forall>x \<in> set xs. 0 \<le> x \<and> x \<le> 1 \<Longrightarrow>
    0 \<le> fold (\<lambda>x peak. if x > peak then x else peak) xs m \<and> fold (\<lambda>x peak. if x > peak then x else peak) xs m \<le> 1"
  by (induction xs arbitrary: m) auto

text \<open>
  The utilisation and the peak utilisation of a link are always between 0 and 1, and computing them
  stays within the buffer of measurements, however long the link has been idle or busy.
\<close>

theorem utilisation_bounded:
  assumes "util_ok (dt_util s)" and "blocked s \<in> {0, 1}" and "last_change (dt_util s) \<le> now"
  shows "\<exists>u s1 m s2. utilization now s = Inr (u, s1) \<and> 0 \<le> u \<and> u \<le> 1 \<and> util_ok (dt_util s1)
    \<and> peak_utilization now s = Inr (m, s2) \<and> 0 \<le> m \<and> m \<le> 1 \<and> util_ok (dt_util s2)"
proof -
  obtain u where u: "util_change now (blocked s) (dt_util s) = Inr u" "util_ok u"
    using util_change_ok [OF assms(1,3,2)] by blast
  have "set (take n (util_buf u)) \<subseteq> set (util_buf u)" for n by (rule set_take_subset)
  then have "\<forall>x \<in> set (take n (util_buf u)). 0 \<le> x \<and> x \<le> 1" for n using u(2) by (auto simp: util_ok_def)
  from peak_fold_01 [OF _ _ this, of 0] u show ?thesis
    by (auto simp: utilization_def peak_utilization_def check_def util_ok_def)
qed

section \<open>Operations of the drop-tail queue on lists\<close>

definition dt_rep :: "dt_state \<Rightarrow> pkt_ref list \<Rightarrow> bool" where
  "dt_rep = (\<lambda>(h, s) xs. queue_rep (h, dt_q s) xs \<and> util_ok (dt_util s) \<and> blocked s \<in> {0, 1})"

definition dt_config :: "drop_tail \<Rightarrow> int \<times> int \<times> int \<times> int \<times> int \<times> bool \<times> int" where
  "dt_config s = (qlim s, qib s, drop_front s, summarystats s, mean_pktsize s, target_is_mac s, unblock_on_resume s)"

lemma dt_stats_simps [simp]:
  "dt_q (dt_stats now s) = dt_q s" "dt_util (dt_stats now s) = dt_util s" "blocked (dt_stats now s) = blocked s"
  "dt_config (dt_stats now s) = dt_config s" "qlim (dt_stats now s) = qlim s" "qib (dt_stats now s) = qib s"
  "drop_front (dt_stats now s) = drop_front s" "mean_pktsize (dt_stats now s) = mean_pktsize s"
  "target_is_mac (dt_stats now s) = target_is_mac s" "unblock_on_resume (dt_stats now s) = unblock_on_resume s"
  by (simp_all add: dt_stats_def updateStats_def dt_config_def)

lemma dt_config_upd [simp]:
  "dt_config (s\<lparr>dt_q := q\<rparr>) = dt_config s" "dt_config (s\<lparr>blocked := b\<rparr>) = dt_config s"
  "dt_config (s\<lparr>dt_util := u\<rparr>) = dt_config s"
  by (simp_all add: dt_config_def)

text \<open>The packets that leave with the outputs, and those among them that are sent on.\<close>

fun leaving :: "q_out list \<Rightarrow> pkt_ref list" where
  "leaving [] = []"
| "leaving (QDrop p # os) = p # leaving os"
| "leaving (QDropEnd p # os) = p # leaving os"
| "leaving (QTarget p # os) = p # leaving os"
| "leaving (_ # os) = leaving os"

fun passed_on :: "q_out list \<Rightarrow> pkt_ref list" where
  "passed_on [] = []"
| "passed_on (QTarget p # os) = p # passed_on os"
| "passed_on (_ # os) = passed_on os"

lemma leaving_append [simp]: "leaving (a @ b) = leaving a @ leaving b"
  by (induction a rule: leaving.induct) auto

lemma passed_on_append [simp]: "passed_on (a @ b) = passed_on a @ passed_on b"
  by (induction a rule: passed_on.induct) auto

lemma leaving_drops [simp]: "leaving (map QDrop ps) = ps" "leaving (map QDropEnd ps) = ps" "passed_on (map QDrop ps) = []"
  "passed_on (map QDropEnd ps) = []"
  by (induction ps) auto

text \<open>A queue of the packets \<open>xs\<close> that gets the packets \<open>ps\<close> keeps or passes on every one of them, in order.\<close>

definition dt_post :: "time \<Rightarrow> dt_state \<Rightarrow> pkt_ref list \<Rightarrow> pkt_ref list \<Rightarrow> dt_result \<Rightarrow> bool" where
  "dt_post now hs xs ps r \<longleftrightarrow> (\<exists>hs' out xs'. r = Inr (hs', out) \<and> dt_rep hs' xs' \<and> dt_config (snd hs') = dt_config (snd hs)
     \<and> last_change (dt_util (snd hs')) \<le> now
     \<and> mset xs + mset ps = mset xs' + mset (leaving out) \<and> subseq (passed_on out @ xs') (xs @ ps)
     \<and> (qib (snd hs) = 0 \<longrightarrow> int (length xs) < qlim (snd hs) \<longrightarrow> int (length xs') < qlim (snd hs)))"

lemma dt_config_D: "dt_config s' = dt_config s \<Longrightarrow> qlim s' = qlim s \<and> qib s' = qib s"
  by (simp add: dt_config_def)

lemma dt_enque_full:
  assumes "queue_rep (h, dt_q s) xs" and "p \<notin> set xs"
  shows "\<exists>h' s' out. dt_enque now p (h, s) = Inr ((h', s'), out) \<and> queue_rep (h', dt_q s')
      (if qib s = 0 \<and> int (length xs) + 1 \<ge> qlim s \<or> qib s \<noteq> 0 \<and> pq_bytes (dt_q s) + pkt_size h p \<ge> qlim s * mean_pktsize s
       then if drop_front s \<noteq> 0 then tl (xs @ [p]) else xs else xs @ [p])
    \<and> dt_util s' = dt_util s \<and> blocked s' = blocked s \<and> dt_config s' = dt_config s \<and> passed_on out = []
    \<and> leaving out =
      (if qib s = 0 \<and> int (length xs) + 1 \<ge> qlim s \<or> qib s \<noteq> 0 \<and> pq_bytes (dt_q s) + pkt_size h p \<ge> qlim s * mean_pktsize s
       then if drop_front s \<noteq> 0 then [hd (xs @ [p])] else [p] else [])"
proof -
  have len: "pq_len (dt_q s) = int (length xs)" using assms(1) by (simp add: queue_rep_def)
  obtain r h1 q1 where e: "pq_enque now p (h, dt_q s) = (r, h1, q1)" by (cases "pq_enque now p (h, dt_q s)")
  then have e1: "queue_rep (h1, q1) (xs @ [p])" using pq_enque_rep(2) [OF assms] by (metis snd_conv)
  from pq_deque_rep [OF this] obtain q2 where d: "pq_deque (h1, q1) = (Some (hd (xs @ [p])), h1, q2)" "queue_rep (h1, q2) (tl (xs @ [p]))"
    by (cases xs) auto
  have frame: "queue_rep (h'\<lparr>l2timestamp := t\<rparr>, q) ys = queue_rep (h', q) ys" for h' t q ys by (simp add: queue_rep_def)
  show ?thesis using assms(1) e1 d by (simp add: dt_enque_def e len Let_def frame)
qed

lemma tl_snoc_mset: "add_mset p (mset xs) = add_mset (hd (xs @ [p])) (mset (tl (xs @ [p])))"
  by (cases xs) auto

lemma subseq_tl: "subseq (tl xs) xs"
  by (cases xs) auto

lemma dt_enque_post:
  assumes "dt_rep (h, s) xs" and "p \<notin> set xs" and "last_change (dt_util s) \<le> now"
  shows "dt_post now (h, s) xs [p] (dt_enque now p (h, s))"
proof -
  have "queue_rep (h, dt_q s) xs" using assms(1) by (simp add: dt_rep_def)
  from dt_enque_full [OF this assms(2), of now] obtain h' s' out where
    "dt_enque now p (h, s) = Inr ((h', s'), out)" "dt_config s' = dt_config s" "dt_util s' = dt_util s" "blocked s' = blocked s"
    "passed_on out = []" and c: "(queue_rep (h', dt_q s') (tl (xs @ [p])) \<and> leaving out = [hd (xs @ [p])]
       \<or> queue_rep (h', dt_q s') xs \<and> leaving out = [p])
      \<or> (qib s = 0 \<longrightarrow> int (length xs) + 1 < qlim s) \<and> queue_rep (h', dt_q s') (xs @ [p]) \<and> leaving out = []"
    by (auto split: if_splits)
  then show ?thesis using assms(1,3) tl_snoc_mset [of p xs] subseq_tl [of "xs @ [p]"] unfolding dt_post_def
    by (elim disjE; intro exI [of _ "(h', s')"] exI [of _ out]) (auto simp: dt_rep_def)
qed

lemma dt_deque_rep:
  assumes "dt_rep (h, s) xs"
  shows "\<exists>s'. dt_deque now (h, s) = (case xs of [] \<Rightarrow> None | x # _ \<Rightarrow> Some x, h, s') \<and> dt_rep (h, s') (tl xs)
    \<and> dt_util s' = dt_util s \<and> blocked s' = blocked s \<and> dt_config s' = dt_config s"
proof -
  have "queue_rep (h, dt_q s) xs" using assms by (simp add: dt_rep_def)
  from pq_deque_rep [OF this] assms show ?thesis by (auto simp: dt_deque_def dt_rep_def Let_def)
qed

lemma send_next_post:
  assumes "dt_rep (h, s) xs" and "last_change (dt_util s) \<le> now"
  shows "dt_post now (h, s) xs [] (send_next now (h, s))"
proof -
  obtain s' where d: "dt_deque now (h, s) = (case xs of [] \<Rightarrow> None | x # _ \<Rightarrow> Some x, h, s')" "dt_rep (h, s') (tl xs)"
    "dt_util s' = dt_util s" "blocked s' = blocked s" "dt_config s' = dt_config s"
    using dt_deque_rep [OF assms(1), of now] by blast
  obtain u where u: "util_change now (blocked s) (dt_util s) = Inr u" "util_ok u" "last_change u = now"
    using util_change_ok [of "dt_util s" now "blocked s"] assms by (auto simp: dt_rep_def)
  show ?thesis
  proof (cases "blocked s = 0 \<and> xs \<noteq> []")
    case True
    then obtain y ys where "xs = y # ys" by (cases xs) auto
    with True d u assms show ?thesis unfolding dt_post_def
      by (intro exI [of _ "(h, s'\<lparr>dt_util := u, blocked := 1\<rparr>)"] exI [of _ "[QTarget y]"] exI [of _ ys])
        (auto simp: send_next_def dt_rep_def)
  next
    case False
    with d assms show ?thesis unfolding dt_post_def
      by (cases "blocked s = 0") (fastforce simp: send_next_def dt_rep_def)+
  qed
qed

lemma dt_post_bind:
  assumes "dt_post now hs xs ps r"
    and "\<And>hs' xs'. dt_rep hs' xs' \<Longrightarrow> last_change (dt_util (snd hs')) \<le> now \<Longrightarrow> dt_post now hs' xs' [] (k hs')"
  shows "dt_post now hs xs ps (bind_res r (\<lambda>(hs1, out1). bind_res (k hs1) (\<lambda>(hs2, out2). Inr (hs2, out1 @ out2))))"
proof -
  obtain hs1 out1 xs1 where 1: "r = Inr (hs1, out1)" "dt_rep hs1 xs1" "dt_config (snd hs1) = dt_config (snd hs)"
    "last_change (dt_util (snd hs1)) \<le> now"
    "mset xs + mset ps = mset xs1 + mset (leaving out1)" "subseq (passed_on out1 @ xs1) (xs @ ps)"
    "qib (snd hs) = 0 \<longrightarrow> int (length xs) < qlim (snd hs) \<longrightarrow> int (length xs1) < qlim (snd hs)"
    using assms(1) by (auto simp: dt_post_def)
  obtain hs2 out2 xs2 where 2: "k hs1 = Inr (hs2, out2)" "dt_rep hs2 xs2" "dt_config (snd hs2) = dt_config (snd hs1)"
    "last_change (dt_util (snd hs2)) \<le> now"
    "mset xs1 = mset xs2 + mset (leaving out2)" "subseq (passed_on out2 @ xs2) xs1"
    "qib (snd hs1) = 0 \<longrightarrow> int (length xs1) < qlim (snd hs1) \<longrightarrow> int (length xs2) < qlim (snd hs1)"
    using assms(2) [OF 1(2,4)] by (auto simp: dt_post_def)
  have "subseq (passed_on out1 @ passed_on out2 @ xs2) (passed_on out1 @ xs1)" using 2(6) by (rule list_emb_append_mono [OF subseq_order.refl])
  then have "subseq (passed_on (out1 @ out2) @ xs2) (xs @ ps)" using 1(6) subseq_order.order_trans by fastforce
  moreover have "qib (snd hs1) = qib (snd hs)" "qlim (snd hs1) = qlim (snd hs)" using 1(3) by (simp_all add: dt_config_def)
  ultimately show ?thesis unfolding dt_post_def
    using 1 2 by (intro exI [of _ hs2] exI [of _ "out1 @ out2"] exI [of _ xs2]) simp
qed

lemma queue_recv_post:
  assumes "dt_rep hs xs" and "p \<notin> set xs" and "last_change (dt_util (snd hs)) \<le> now"
  shows "dt_post now hs xs [p] (queue_recv now p hs)"
  unfolding queue_recv_def
proof (rule dt_post_bind)
  show "dt_post now hs xs [p] (dt_enque now p hs)" using assms dt_enque_post [of "fst hs" "snd hs"] by simp
  show "dt_post now hs' xs' [] (send_next now hs')" if "dt_rep hs' xs'" "last_change (dt_util (snd hs')) \<le> now" for hs' xs'
    using that send_next_post [of "fst hs'" "snd hs'"] by simp
qed

lemma queue_resume_post:
  assumes "dt_rep hs xs" and "last_change (dt_util (snd hs)) \<le> now"
  shows "dt_post now hs xs [] (queue_resume now hs)"
proof -
  obtain h s where hs: "hs = (h, s)" by (cases hs)
  obtain s' where d: "dt_deque now (h, s) = (case xs of [] \<Rightarrow> None | x # _ \<Rightarrow> Some x, h, s')" "dt_rep (h, s') (tl xs)"
    "dt_util s' = dt_util s" "blocked s' = blocked s" "dt_config s' = dt_config s"
    using dt_deque_rep [OF assms(1) [unfolded hs], of now] by blast
  obtain u where u: "util_change now (blocked s) (dt_util s) = Inr u" "util_ok u" "last_change u = now"
    using util_change_ok [of "dt_util s" now "blocked s"] assms by (auto simp: hs dt_rep_def)
  show ?thesis
  proof (cases xs)
    case Nil
    with d u assms show ?thesis unfolding dt_post_def by (auto simp: hs queue_resume_def dt_rep_def)
  next
    case (Cons y ys)
    with d assms show ?thesis unfolding dt_post_def
      by (intro exI [of _ "(h, s')"] exI [of _ "[QTarget y]"] exI [of _ ys]) (auto simp: hs queue_resume_def)
  qed
qed

text \<open>Emptying the queue returns its packets in order.\<close>

lemma drain_loop_rep:
  assumes "dt_rep (h, s) xs"
  shows "\<exists>s'. drain_loop now (h, s) = Some ((h, s'), xs) \<and> dt_rep (h, s') [] \<and> dt_util s' = dt_util s \<and> dt_config s' = dt_config s"
  using assms
proof (induction xs arbitrary: s)
  case Nil
  then show ?case using dt_deque_rep [OF Nil, of now] by (subst drain_loop.simps) auto
next
  case (Cons x xs)
  obtain s1 where s1: "dt_deque now (h, s) = (Some x, h, s1)" "dt_rep (h, s1) xs" "dt_util s1 = dt_util s" "dt_config s1 = dt_config s"
    using dt_deque_rep [OF Cons.prems, of now] by auto
  from Cons.IH [OF s1(2)] s1 show ?case by (subst drain_loop.simps) auto
qed

lemma drain_post:
  assumes "dt_rep (h, s) xs" and "last_change (dt_util s) \<le> now" and "\<And>ps. leaving (f ps) = ps" and "\<And>ps. passed_on (f ps) = []"
  shows "dt_post now (h, s) xs [] (need NoReturn (drain_loop now (h, s)) (\<lambda>(hs1, ps). Inr (hs1, f ps)))"
proof -
  obtain s' where "drain_loop now (h, s) = Some ((h, s'), xs)" "dt_rep (h, s') []" "dt_util s' = dt_util s" "dt_config s' = dt_config s"
    using drain_loop_rep [OF assms(1), of now] by blast
  with assms(2-4) show ?thesis unfolding dt_post_def
    by (intro exI [of _ "(h, s')"] exI [of _ "f xs"] exI [of _ "[]"]) auto
qed

lemma queue_reset_post:
  assumes "dt_rep (h, s) xs" and "last_change (dt_util s) \<le> now"
  shows "dt_post now (h, s) xs [] (queue_reset now (h, s))"
proof -
  let ?s = "s\<lparr>total_time := 0, true_ave := 0\<rparr>"
  have "dt_rep (h, ?s) xs" "last_change (dt_util ?s) \<le> now" using assms by (simp_all add: dt_rep_def)
  then have "dt_post now (h, ?s) xs [] (need NoReturn (drain_loop now (h, ?s)) (\<lambda>(hs1, ps). Inr (hs1, map QDrop ps)))"
    by (rule drain_post) simp_all
  then show ?thesis by (simp add: queue_reset_def dt_post_def dt_config_def)
qed

section \<open>Priority packets\<close>

definition dt_keep :: "time \<Rightarrow> dt_state \<Rightarrow> pkt_ref list \<Rightarrow> pkt_ref list \<Rightarrow> dt_result \<Rightarrow> bool" where
  "dt_keep now hs xs ps r \<longleftrightarrow> (\<exists>hs' out xs'. r = Inr (hs', out) \<and> dt_rep hs' xs' \<and> dt_config (snd hs') = dt_config (snd hs)
     \<and> last_change (dt_util (snd hs')) \<le> now \<and> mset xs + mset ps = mset xs' + mset (leaving out)
     \<and> (qib (snd hs) = 0 \<longrightarrow> int (length xs) < qlim (snd hs) \<longrightarrow> int (length xs') < qlim (snd hs)))"

lemma dt_post_keep: "dt_post now hs xs ps r \<Longrightarrow> dt_keep now hs xs ps r"
  by (fastforce simp: dt_post_def dt_keep_def)

lemma dt_keep_bind:
  assumes "dt_keep now hs xs ps r"
    and "\<And>hs' xs'. dt_rep hs' xs' \<Longrightarrow> last_change (dt_util (snd hs')) \<le> now \<Longrightarrow> dt_keep now hs' xs' [] (k hs')"
  shows "dt_keep now hs xs ps (bind_res r (\<lambda>(hs1, out1). bind_res (k hs1) (\<lambda>(hs2, out2). Inr (hs2, out1 @ out2))))"
proof -
  obtain hs1 out1 xs1 where 1: "r = Inr (hs1, out1)" "dt_rep hs1 xs1" "dt_config (snd hs1) = dt_config (snd hs)"
    "last_change (dt_util (snd hs1)) \<le> now" "mset xs + mset ps = mset xs1 + mset (leaving out1)"
    "qib (snd hs) = 0 \<longrightarrow> int (length xs) < qlim (snd hs) \<longrightarrow> int (length xs1) < qlim (snd hs)"
    using assms(1) by (auto simp: dt_keep_def)
  obtain hs2 out2 xs2 where 2: "k hs1 = Inr (hs2, out2)" "dt_rep hs2 xs2" "dt_config (snd hs2) = dt_config (snd hs1)"
    "last_change (dt_util (snd hs2)) \<le> now" "mset xs1 = mset xs2 + mset (leaving out2)"
    "qib (snd hs1) = 0 \<longrightarrow> int (length xs1) < qlim (snd hs1) \<longrightarrow> int (length xs2) < qlim (snd hs1)"
    using assms(2) [OF 1(2,4)] by (auto simp: dt_keep_def)
  have "qib (snd hs1) = qib (snd hs)" "qlim (snd hs1) = qlim (snd hs)" using 1(3) by (simp_all add: dt_config_def)
  then show ?thesis unfolding dt_keep_def
    using 1 2 by (intro exI [of _ hs2] exI [of _ "out1 @ out2"] exI [of _ xs2]) simp
qed

lemma remove1_last: "distinct xs \<Longrightarrow> xs \<noteq> [] \<Longrightarrow> remove1 (last xs) xs = butlast xs"
  by (induction xs) auto

lemma high_insert_keep:
  assumes "dt_rep (h, s) xs" and "p \<notin> set xs" and "last_change (dt_util s) \<le> now"
  shows "dt_keep now (h, s) xs [p] (high_insert p (h, s))"
proof -
  have rep: "queue_rep (h, dt_q s) xs" using assms(1) by (simp add: dt_rep_def)
  obtain h1 q1 where e: "pq_enqueHead p (h, dt_q s) = (h1, q1)" by (cases "pq_enqueHead p (h, dt_q s)")
  then have e1: "queue_rep (h1, q1) (p # xs)" using pq_enqueHead_rep(1) [OF rep assms(2)] by simp
  then have len: "pq_len q1 = int (length (p # xs))" and dist: "distinct (p # xs)" by (simp_all add: queue_rep_def)
  show ?thesis
  proof (cases "pq_len q1 \<ge> qlim s")
    case True
    let ?d = "last (p # xs)" and ?ys = "butlast (p # xs)"
    have l: "pq_lookup (pq_len q1 - 1) (h1, q1) = Inr (Some ?d)"
      using pq_lookup_rep [OF e1] len by (cases xs rule: rev_cases) (auto simp: nth_append)
    obtain h2 q2 where r: "pq_remove ?d (h1, q1) = Inr (h2, q2)" "queue_rep (h2, q2) ?ys"
      using pq_remove_rep [OF e1, of ?d] remove1_last [OF dist] by force
    have "mset (p # xs) = mset ?ys + mset [?d]"
      by (metis append_butlast_last_id list.distinct(1) mset_append)
    then have "add_mset p (mset xs) = mset ?ys + {#?d#}" by simp
    then show ?thesis using True e l r assms unfolding dt_keep_def
      by (intro exI [of _ "(h2, s\<lparr>dt_q := q2\<rparr>)"] exI [of _ "QDrop ?d # (if target_is_mac s then [QLoss] else [])"] exI [of _ ?ys])
        (auto simp: high_insert_def dt_rep_def)
  next
    case False
    then show ?thesis using e e1 len assms unfolding dt_keep_def
      by (intro exI [of _ "(h1, s\<lparr>dt_q := q1\<rparr>)"] exI [of _ "[]"] exI [of _ "p # xs"]) (auto simp: high_insert_def dt_rep_def)
  qed
qed

lemma high_send_keep:
  assumes "dt_rep (h, s) xs" and "last_change (dt_util s) \<le> now"
  shows "dt_keep now (h, s) xs [] (high_send now (h, s))"
proof -
  obtain s' where d: "dt_deque now (h, s) = (case xs of [] \<Rightarrow> None | x # _ \<Rightarrow> Some x, h, s')" "dt_rep (h, s') (tl xs)"
    "dt_util s' = dt_util s" "blocked s' = blocked s" "dt_config s' = dt_config s"
    using dt_deque_rep [OF assms(1), of now] by blast
  define st where "st = (\<lambda>s :: drop_tail. if target_is_mac s then [QStats (pq_len (dt_q s))] else [])"
  have st: "leaving (st s) = []" for s by (simp add: st_def)
  show ?thesis
  proof (cases "blocked s = 0 \<and> xs \<noteq> []")
    case True
    then obtain y ys where "xs = y # ys" by (cases xs) auto
    with True d st assms show ?thesis unfolding dt_keep_def
      by (intro exI [of _ "(h, s'\<lparr>blocked := 1\<rparr>)"] exI [of _ "QTarget y # st (s'\<lparr>blocked := 1\<rparr>)"] exI [of _ ys])
        (auto simp: high_send_def st_def dt_rep_def)
  next
    case False
    then have "xs = [] \<and> high_send now (h, s) = Inr ((h, s'), st s') \<or> high_send now (h, s) = Inr ((h, s), st s)"
      using d(1) by (auto simp: high_send_def st_def)
    with d st assms show ?thesis unfolding dt_keep_def by fastforce
  qed
qed

lemma recvHighPriority_keep:
  assumes "dt_rep hs xs" and "p \<notin> set xs" and "last_change (dt_util (snd hs)) \<le> now"
  shows "dt_keep now hs xs [p] (recvHighPriority now p hs)"
  unfolding recvHighPriority_def
proof (rule dt_keep_bind)
  show "dt_keep now hs xs [p] (high_insert p hs)" using assms high_insert_keep [of "fst hs" "snd hs"] by simp
  show "dt_keep now hs' xs' [] (high_send now hs')" if "dt_rep hs' xs'" "last_change (dt_util (snd hs')) \<le> now" for hs' xs'
    using that high_send_keep [of "fst hs'" "snd hs'"] by simp
qed

section \<open>Filters\<close>

lemma hop_loop_chain:
  "chain (pk_next h) p xs \<Longrightarrow> \<exists>pp'. hop_loop h a p pp =
     Some (case dropWhile (\<lambda>x. next_hop h x \<noteq> a) xs of [] \<Rightarrow> (None, pp')
       | y # _ \<Rightarrow> (Some y, if takeWhile (\<lambda>x. next_hop h x \<noteq> a) xs = [] then pp else Some (last (takeWhile (\<lambda>x. next_hop h x \<noteq> a) xs))))"
proof (induction xs arbitrary: p pp)
  case Nil
  then show ?case by (subst hop_loop.simps) auto
next
  case (Cons x xs)
  then have p: "p = Some x" "chain (pk_next h) (pk_next h x) xs" by simp_all
  show ?case
  proof (cases "next_hop h x = a")
    case True
    with p show ?thesis by (subst hop_loop.simps) simp
  next
    case False
    with p Cons.IH [OF p(2), of "Some x"] show ?thesis by (subst hop_loop.simps) (auto split: list.splits)
  qed
qed

text \<open>The first packet for the next hop is taken out, and nothing else changes.\<close>

lemma filter_next_hop_rep:
  assumes "dt_rep (h, s) xs"
  shows "\<exists>h' q'. filter_next_hop a (h, s) = Inr ((h', s\<lparr>dt_q := q'\<rparr>), find (\<lambda>x. next_hop h x = a) xs)
    \<and> dt_rep (h', s\<lparr>dt_q := q'\<rparr>) (case find (\<lambda>x. next_hop h x = a) xs of None \<Rightarrow> xs | Some x \<Rightarrow> remove1 x xs)"
proof -
  have rep: "queue_rep (h, dt_q s) xs" using assms by (simp add: dt_rep_def)
  define us vs where uv: "us = takeWhile (\<lambda>x. next_hop h x \<noteq> a) xs" "vs = dropWhile (\<lambda>x. next_hop h x \<noteq> a) xs"
  have "chain (pk_next h) (pq_head (dt_q s)) xs" and dist: "distinct xs" using rep by (simp_all add: queue_rep_def)
  from hop_loop_chain [OF this(1), of a None, folded uv] obtain pp' where l: "hop_loop h a (pq_head (dt_q s)) None =
     Some (case vs of [] \<Rightarrow> (None, pp') | y # _ \<Rightarrow> (Some y, if us = [] then None else Some (last us)))" by blast
  have f: "find (\<lambda>x. next_hop h x = a) xs = (case vs of [] \<Rightarrow> None | y # _ \<Rightarrow> Some y)"
    unfolding uv by (induction xs) auto
  show ?thesis
  proof (cases vs)
    case Nil
    with l f assms show ?thesis by (intro exI [of _ h] exI [of _ "dt_q s"]) (simp add: filter_next_hop_def)
  next
    case (Cons y ys)
    have xs: "xs = us @ y # ys" using uv Cons by (metis takeWhile_dropWhile_id)
    with dist have y: "y \<in> set xs" and rem: "remove1 y xs = us @ ys" by (simp_all add: remove1_append)
    obtain hq where "(if us = [] then pq_remove y (h, dt_q s) else pq_remove_after (Some y) (Some (last us)) (h, dt_q s)) = Inr hq"
      "queue_rep hq (us @ ys)"
      using pq_remove_rep [OF rep y] pq_remove_after_rep [OF rep xs refl] rem by (cases "us = []") auto
    then show ?thesis using Cons l f rem assms
      by (cases hq; intro exI [of _ "fst hq"] exI [of _ "snd hq"]) (auto simp: filter_next_hop_def dt_rep_def split: if_splits)
  qed
qed

lemma filter_loop_rep:
  assumes "queue_rep (h, dt_q s) (us @ vs)" and "i = int (length us)"
  shows "\<exists>h' q'. filter_loop f i (h, s) = Some (Inr (h', s\<lparr>dt_q := q'\<rparr>)) \<and> queue_rep (h', q') (us @ filter (\<lambda>x. \<not> f x) vs)"
  using assms
proof (induction vs arbitrary: us i h s)
  case Nil
  then have "\<not> i < pq_len (dt_q s)" by (simp add: queue_rep_def)
  then show ?case using Nil.prems(1) by (intro exI [of _ h] exI [of _ "dt_q s"]) (subst filter_loop.simps; simp)
next
  case (Cons x vs)
  have len: "i < pq_len (dt_q s)" using Cons.prems by (simp add: queue_rep_def)
  have look: "pq_lookup i (h, dt_q s) = Inr (Some x)"
    using pq_lookup_rep [OF Cons.prems(1), of i] Cons.prems(2) by (cases us) (auto simp: nth_append)
  show ?case
  proof (cases "f x")
    case True
    have "distinct (us @ x # vs)" using Cons.prems(1) by (simp add: queue_rep_def)
    then have rem: "remove1 x (us @ x # vs) = us @ vs" by (simp add: remove1_append)
    from pq_remove_rep [OF Cons.prems(1), of x, unfolded rem] obtain h1 q1 where r: "pq_remove x (h, dt_q s) = Inr (h1, q1)" "queue_rep (h1, q1) (us @ vs)" by force
    from Cons.IH [of h1 "s\<lparr>dt_q := q1\<rparr>" us i] r Cons.prems(2) len look True show ?thesis
      by (subst filter_loop.simps) simp
  next
    case False
    from Cons.IH [of h s "us @ [x]" "i + 1"] Cons.prems len look False show ?thesis
      by (subst filter_loop.simps) simp
  qed
qed

text \<open>The filter takes out exactly the packets it accepts, and the rest keep their order.\<close>

lemma filter_removes:
  assumes "queue_rep (h, dt_q s) xs"
  shows "\<exists>h' q'. pri_filter f (h, s) = Inr (h', s\<lparr>dt_q := q'\<rparr>) \<and> queue_rep (h', q') (filter (\<lambda>x. \<not> f x) xs)"
  using filter_loop_rep [of h s "[]" xs 0 f] assms by (auto simp: pri_filter_def)

section \<open>Shrinking\<close>

definition excess :: "pkt_store \<Rightarrow> drop_tail \<Rightarrow> pkt_ref list \<Rightarrow> bool" where
  "excess h s xs \<longleftrightarrow> (if qib s = 0 then int (length xs) > qlim s else (\<Sum>p\<leftarrow>xs. pkt_size h p) > qlim s * mean_pktsize s)"

lemma dt_excess_rep: "queue_rep (h, dt_q s) xs \<Longrightarrow> dt_excess s = excess h s xs"
  by (simp add: dt_excess_def excess_def queue_rep_def)

lemma excess_cong: "pkt_of h' = pkt_of h \<Longrightarrow> excess h' (s\<lparr>dt_q := q\<rparr>) xs = excess h s xs"
  by (simp add: excess_def)

lemma shrink_one_rep:
  assumes "queue_rep (h, dt_q s) xs" and "xs \<noteq> []"
  shows "\<exists>h' q'. shrink_one (h, s) = Inr ((h', s\<lparr>dt_q := q'\<rparr>), if drop_front s \<noteq> 0 then hd xs else last xs)
    \<and> queue_rep (h', q') (if drop_front s \<noteq> 0 then tl xs else butlast xs) \<and> pkt_of h' = pkt_of h"
proof (cases "drop_front s \<noteq> 0")
  case True
  with pq_deque_rep [OF assms(1)] assms(2) show ?thesis by (cases xs) (auto simp: shrink_one_def)
next
  case False
  have dist: "distinct xs" and t: "pq_tail (dt_q s) = Some (last xs)" using assms by (auto simp: queue_rep_def)
  from pq_remove_rep [OF assms(1), of "last xs"] remove1_last [OF dist assms(2)] assms(2) obtain h1 q1 where
    "pq_remove (last xs) (h, dt_q s) = Inr (h1, q1)" "queue_rep (h1, q1) (butlast xs)" "pkt_of h1 = pkt_of h" by force
  with False t show ?thesis by (auto simp: shrink_one_def)
qed

lemma shrink_loop_rep:
  assumes "queue_rep (h, dt_q s) xs" and "\<not> excess h s []"
  shows "\<exists>h' q' ds ys. shrink_loop (h, s) = Some (Inr ((h', s\<lparr>dt_q := q'\<rparr>), map QDrop ds)) \<and> queue_rep (h', q') ys
    \<and> (if drop_front s \<noteq> 0 then xs = ds @ ys else xs = ys @ rev ds)
    \<and> \<not> excess h s ys \<and> (\<forall>d ds'. ds = ds' @ [d] \<longrightarrow> excess h s (if drop_front s \<noteq> 0 then d # ys else ys @ [d]))"
  using assms
proof (induction "length xs" arbitrary: xs h s rule: less_induct)
  case less
  show ?case
  proof (cases "excess h s xs")
    case False
    with dt_excess_rep [OF less.prems(1)] less.prems(1) show ?thesis
      by (intro exI [of _ h] exI [of _ "dt_q s"] exI [of _ "[]"] exI [of _ xs]) (subst shrink_loop.simps; simp)
  next
    case True
    with less.prems(2) have ne: "xs \<noteq> []" by auto
    let ?d = "if drop_front s \<noteq> 0 then hd xs else last xs" and ?zs = "if drop_front s \<noteq> 0 then tl xs else butlast xs"
    from shrink_one_rep [OF less.prems(1) ne] obtain h1 q1 where 1: "shrink_one (h, s) = Inr ((h1, s\<lparr>dt_q := q1\<rparr>), ?d)"
      "queue_rep (h1, q1) ?zs" "pkt_of h1 = pkt_of h" by blast
    have c: "excess h1 (s\<lparr>dt_q := q1\<rparr>) zs = excess h s zs" for zs using excess_cong [OF 1(3)] .
    have "length ?zs < length xs" using ne by simp
    from less.hyps [OF this, of h1 "s\<lparr>dt_q := q1\<rparr>"] 1(2) c less.prems(2) obtain h' q' ds ys where
      l: "shrink_loop (h1, s\<lparr>dt_q := q1\<rparr>) = Some (Inr ((h', s\<lparr>dt_q := q'\<rparr>), map QDrop ds))" "queue_rep (h', q') ys"
      "if drop_front s \<noteq> 0 then ?zs = ds @ ys else ?zs = ys @ rev ds" "\<not> excess h s ys"
      "\<forall>d ds'. ds = ds' @ [d] \<longrightarrow> excess h s (if drop_front s \<noteq> 0 then d # ys else ys @ [d])" by auto
    have xs: "if drop_front s \<noteq> 0 then xs = (?d # ds) @ ys else xs = ys @ rev (?d # ds)"
    proof (cases "drop_front s \<noteq> 0")
      case True
      then show ?thesis using l(3) hd_Cons_tl [OF ne] by simp
    next
      case False
      then have "butlast xs = ys @ rev ds" using l(3) by simp
      then show ?thesis using False append_butlast_last_id [OF ne] by simp
    qed
    have "excess h s (if drop_front s \<noteq> 0 then d # ys else ys @ [d])" if "?d # ds = ds' @ [d]" for d ds'
      using that l(5) xs True by (cases ds') (auto split: if_splits)
    with 1(1) l xs True dt_excess_rep [OF less.prems(1)] show ?thesis
      by (intro exI [of _ h'] exI [of _ q'] exI [of _ "?d # ds"] exI [of _ ys]) (subst shrink_loop.simps; simp)
  qed
qed

text \<open>
  After the limit has changed, \<^verbatim>\<open>shrink-queue\<close> ends with a queue within the limit, in packets or in
  bytes. It drops packets from one end only, the front or the tail as configured, hands each dropped
  packet on once, and stops at the first queue that fits: putting the last dropped packet back
  would exceed the limit.
\<close>

theorem shrink_queue_correct:
  assumes "queue_rep (h, dt_q s) xs" and "0 \<le> qlim s" and "0 \<le> mean_pktsize s"
  shows "\<exists>h' q' ds ys. shrink_queue (h, s) = Inr ((h', s\<lparr>dt_q := q'\<rparr>), map QDrop ds) \<and> queue_rep (h', q') ys
    \<and> (if drop_front s \<noteq> 0 then xs = ds @ ys else xs = ys @ rev ds)
    \<and> \<not> excess h s ys \<and> (\<forall>d ds'. ds = ds' @ [d] \<longrightarrow> excess h s (if drop_front s \<noteq> 0 then d # ys else ys @ [d]))"
proof -
  have "\<not> excess h s []" using mult_nonneg_nonneg [OF assms(2,3)] assms(2) by (simp add: excess_def)
  from shrink_loop_rep [OF assms(1) this] show ?thesis unfolding shrink_queue_def by (elim exE conjE) (intro exI conjI; simp)
qed

section \<open>Runs of the interface queue\<close>

datatype q_input =
    QRecv pkt_ref
  | QResume
  | QReset
  | QTerminate
  | QFilterHop addr
  | QOutside pkt_ref "pkt_ref option" packet

text \<open>A step, with the packets that \<^verbatim>\<open>filter\<close> gives to its caller.\<close>

definition queue_step :: "int \<Rightarrow> time \<Rightarrow> dt_state \<Rightarrow> q_input \<Rightarrow> (dt_state \<times> q_out list \<times> pkt_ref list) res" where
  "queue_step pref now hs i = (let plain = (\<lambda>r. bind_res r (\<lambda>(hs', out). Inr (hs', out, []))) in
     case i of
       QRecv p \<Rightarrow> plain (pri_recv pref now p hs)
     | QResume \<Rightarrow> plain (queue_resume now hs)
     | QReset \<Rightarrow> plain (queue_reset now hs)
     | QTerminate \<Rightarrow> plain (pri_Terminate now hs)
     | QFilterHop a \<Rightarrow> bind_res (filter_next_hop a hs) (\<lambda>(hs', r). Inr (hs', [], case r of None \<Rightarrow> [] | Some p \<Rightarrow> [p]))
     | QOutside p nx pk \<Rightarrow>
         Inr (((fst hs)\<lparr>pk_next := (pk_next (fst hs))(p := nx), pkt_of := (pkt_of (fst hs))(p := pk)\<rparr>, snd hs), [], []))"

definition arriving :: "q_input \<Rightarrow> pkt_ref list" where
  "arriving i = (case i of QRecv p \<Rightarrow> [p] | _ \<Rightarrow> [])"

lemma queue_rep_remove1_subseq: "subseq (remove1 x xs) xs"
  by (induction xs) auto

lemma filter_hop_post:
  assumes "dt_rep hs xs" and "last_change (dt_util (snd hs)) \<le> now"
  shows "\<exists>hs' ts xs'. queue_step pref now hs (QFilterHop a) = Inr (hs', [], ts) \<and> dt_rep hs' xs'
    \<and> dt_config (snd hs') = dt_config (snd hs) \<and> last_change (dt_util (snd hs')) \<le> now
    \<and> mset xs = mset xs' + mset ts \<and> subseq xs' xs \<and> length xs' \<le> length xs"
proof -
  obtain h s where hs: "hs = (h, s)" by (cases hs)
  obtain h' q' where r: "filter_next_hop a (h, s) = Inr ((h', s\<lparr>dt_q := q'\<rparr>), find (\<lambda>x. next_hop h x = a) xs)"
    "dt_rep (h', s\<lparr>dt_q := q'\<rparr>) (case find (\<lambda>x. next_hop h x = a) xs of None \<Rightarrow> xs | Some x \<Rightarrow> remove1 x xs)"
    using filter_next_hop_rep [OF assms(1) [unfolded hs]] by blast
  show ?thesis
  proof (cases "find (\<lambda>x. next_hop h x = a) xs")
    case None
    with r assms(2) show ?thesis by (auto simp: hs queue_step_def Let_def)
  next
    case (Some x)
    then have "x \<in> set xs" by (auto simp: find_Some_iff)
    with Some r assms(2) show ?thesis
      by (intro exI [of _ "(h', s\<lparr>dt_q := q'\<rparr>)"] exI [of _ "[x]"] exI [of _ "remove1 x xs"])
        (auto simp: hs queue_step_def Let_def queue_rep_remove1_subseq length_remove1)
  qed
qed

definition queue_env :: "time \<Rightarrow> dt_state \<Rightarrow> q_input \<Rightarrow> bool" where
  "queue_env now hs i \<longleftrightarrow> last_change (dt_util (snd hs)) \<le> now \<and>
     (case i of
        QRecv p \<Rightarrow> \<forall>xs. queue_rep (fst hs, dt_q (snd hs)) xs \<longrightarrow> p \<notin> set xs
      | QOutside p nx pk \<Rightarrow> \<forall>xs. queue_rep (fst hs, dt_q (snd hs)) xs \<longrightarrow> p \<notin> set xs
      | _ \<Rightarrow> True)"

lemma dt_repD: "dt_rep hs xs \<Longrightarrow> queue_rep (fst hs, dt_q (snd hs)) xs"
  by (cases hs) (simp add: dt_rep_def)

text \<open>One step: nothing is lost, and without priority packets the order of arrival is kept.\<close>

lemma queue_step_good:
  assumes "dt_rep hs xs" and "queue_env now hs i"
  shows "\<exists>hs' out ts xs'. queue_step pref now hs i = Inr (hs', out, ts) \<and> dt_rep hs' xs'
    \<and> dt_config (snd hs') = dt_config (snd hs)
    \<and> mset xs + mset (arriving i) = mset xs' + mset (leaving out) + mset ts
    \<and> (pref = 0 \<longrightarrow> subseq (passed_on out @ xs') (xs @ arriving i))
    \<and> (qib (snd hs) = 0 \<longrightarrow> int (length xs) < qlim (snd hs) \<longrightarrow> int (length xs') < qlim (snd hs))"
proof -
  have t: "last_change (dt_util (snd hs)) \<le> now" using assms(2) by (simp add: queue_env_def)
  have post: ?thesis if "dt_post now hs xs (arriving i) r"
    "queue_step pref now hs i = bind_res r (\<lambda>(hs', out). Inr (hs', out, []))" for r
    using that unfolding dt_post_def by fastforce
  have keep: ?thesis if "dt_keep now hs xs (arriving i) r" "pref \<noteq> 0"
    "queue_step pref now hs i = bind_res r (\<lambda>(hs', out). Inr (hs', out, []))" for r
    using that unfolding dt_keep_def by fastforce
  show ?thesis
  proof (cases i)
    case (QRecv p)
    then have p: "p \<notin> set xs" using assms dt_repD by (auto simp: queue_env_def)
    show ?thesis
    proof (cases "pref \<noteq> 0 \<and> is_routing (ptype (pkt_of (fst hs) p))")
      case True
      with recvHighPriority_keep [OF assms(1) p t] QRecv show ?thesis
        by (intro keep) (auto simp: queue_step_def pri_recv_def arriving_def Let_def)
    next
      case False
      with queue_recv_post [OF assms(1) p t] QRecv show ?thesis
        by (intro post) (auto simp: queue_step_def pri_recv_def arriving_def Let_def)
    qed
  next
    case QResume
    with queue_resume_post [OF assms(1) t] show ?thesis by (intro post) (auto simp: queue_step_def arriving_def)
  next
    case QReset
    with queue_reset_post [of "fst hs" "snd hs"] assms(1) t show ?thesis by (intro post) (auto simp: queue_step_def arriving_def)
  next
    case QTerminate
    with drain_post [of "fst hs" "snd hs" xs now "map QDropEnd"] assms(1) t show ?thesis
      by (intro post) (auto simp: queue_step_def arriving_def pri_Terminate_def)
  next
    case (QFilterHop a)
    with filter_hop_post [OF assms(1) t, of pref a] show ?thesis by (fastforce simp: arriving_def)
  next
    case (QOutside p nx pk)
    let ?h = "(fst hs)\<lparr>pk_next := (pk_next (fst hs))(p := nx), pkt_of := (pkt_of (fst hs))(p := pk)\<rparr>"
    have r: "queue_rep (fst hs, dt_q (snd hs)) xs" and "p \<notin> set xs"
      using assms dt_repD QOutside by (auto simp: queue_env_def)
    then have "queue_rep (?h, dt_q (snd hs)) xs" by (intro queue_rep_frame [OF r]) auto
    then have "dt_rep (?h, snd hs) xs" using assms(1) by (simp add: dt_rep_def case_prod_unfold)
    with QOutside show ?thesis
      by (intro exI [of _ "(?h, snd hs)"] exI [of _ "[]"] exI [of _ xs]) (simp add: queue_step_def arriving_def)
  qed
qed

text \<open>The books of a queue: what arrived, what was sent on, and all that left.\<close>

record ledger =
  lg_state :: dt_state
  lg_arrived :: "pkt_ref list"
  lg_sent :: "pkt_ref list"
  lg_left :: "pkt_ref list"

definition ledger_step :: "int \<Rightarrow> ledger \<Rightarrow> time \<times> q_input \<Rightarrow> (ledger \<times> unit) res" where
  "ledger_step pref l = (\<lambda>(now, i).
     bind_res (queue_step pref now (lg_state l) i) (\<lambda>(hs', out, ts).
       Inr (\<lparr>lg_state = hs', lg_arrived = lg_arrived l @ arriving i, lg_sent = lg_sent l @ passed_on out,
             lg_left = lg_left l @ leaving out @ ts\<rparr>, ())))"

definition ledger_env :: "ledger \<Rightarrow> time \<times> q_input \<Rightarrow> bool" where
  "ledger_env l = (\<lambda>(now, i). queue_env now (lg_state l) i)"

definition ledger_ok :: "int \<Rightarrow> ledger \<Rightarrow> bool" where
  "ledger_ok pref l \<longleftrightarrow> (\<exists>xs. dt_rep (lg_state l) xs \<and> mset (lg_arrived l) = mset xs + mset (lg_left l)
     \<and> (pref = 0 \<longrightarrow> subseq (lg_sent l @ xs) (lg_arrived l))
     \<and> (qib (snd (lg_state l)) = 0 \<longrightarrow> 0 < qlim (snd (lg_state l)) \<longrightarrow> int (length xs) < qlim (snd (lg_state l))))"

interpretation queue_sim: simulation "ledger_step pref" ledger_env "ledger_ok pref" "\<lambda>l. dt_config (snd (lg_state l))" "\<lambda>_ c. c"
  for pref
proof
  fix l and i :: "time \<times> q_input"
  assume ok: "ledger_ok pref l" and env: "ledger_env l i"
  obtain now j where i: "i = (now, j)" by (cases i)
  obtain xs where xs: "dt_rep (lg_state l) xs" "mset (lg_arrived l) = mset xs + mset (lg_left l)"
    "pref = 0 \<longrightarrow> subseq (lg_sent l @ xs) (lg_arrived l)"
    "qib (snd (lg_state l)) = 0 \<longrightarrow> 0 < qlim (snd (lg_state l)) \<longrightarrow> int (length xs) < qlim (snd (lg_state l))"
    using ok by (auto simp: ledger_ok_def)
  obtain hs' out ts xs' where q: "queue_step pref now (lg_state l) j = Inr (hs', out, ts)" "dt_rep hs' xs'"
    "dt_config (snd hs') = dt_config (snd (lg_state l))"
    "mset xs + mset (arriving j) = mset xs' + mset (leaving out) + mset ts"
    "pref = 0 \<longrightarrow> subseq (passed_on out @ xs') (xs @ arriving j)"
    "qib (snd (lg_state l)) = 0 \<longrightarrow> int (length xs) < qlim (snd (lg_state l)) \<longrightarrow> int (length xs') < qlim (snd (lg_state l))"
    using queue_step_good [OF xs(1), of now j pref] env by (auto simp: ledger_env_def i)
  have ord: "subseq ((lg_sent l @ passed_on out) @ xs') (lg_arrived l @ arriving j)" if "pref = 0"
  proof -
    have "subseq (lg_sent l @ passed_on out @ xs') (lg_sent l @ xs @ arriving j)"
      using q(5) that list_emb_append_mono [OF subseq_order.refl [of "lg_sent l"]] by blast
    also have "subseq \<dots> (lg_arrived l @ arriving j)"
      using list_emb_append_mono [of "(=)" "lg_sent l @ xs" "lg_arrived l" "arriving j" "arriving j"] xs(3) that by simp
    finally show ?thesis by simp
  qed
  have "mset (lg_arrived l @ arriving j) = mset xs' + mset (lg_left l @ leaving out @ ts)"
    using xs(2) q(4) by (simp add: ac_simps)
  with q xs ord show "\<exists>l' x. ledger_step pref l i = Inr (l', x) \<and> ledger_ok pref l' \<and>
      dt_config (snd (lg_state l')) = dt_config (snd (lg_state l))"
    using dt_config_D [OF q(3)] by (auto simp: ledger_step_def i ledger_ok_def intro!: exI [of _ xs'])
qed

text \<open>
  C9: Over every run of the interface queue from empty, of arrivals, resumptions of the link, resets and
  removals by next hop, no operation faults or loops, and every packet that arrived is in the queue
  or has left it once, by being sent, dropped or taken out. Without priority for routing packets the
  packets sent, followed by those queued, are in the order of arrival. The queue always holds fewer
  than \<^verbatim>\<open>limit_\<close> packets when it counts packets.
\<close>

theorem queue_keeps_books:
  assumes "dt_rep (h, s) []" and "0 < qlim s" and "steps_ok (ledger_step pref) ledger_env \<lparr>lg_state = (h, s), lg_arrived = [], lg_sent = [], lg_left = []\<rparr> is"
  shows "\<exists>l xs os. run_steps (ledger_step pref) \<lparr>lg_state = (h, s), lg_arrived = [], lg_sent = [], lg_left = []\<rparr> is = Inr (l, os)
    \<and> dt_rep (lg_state l) xs \<and> mset (lg_arrived l) = mset xs + mset (lg_left l)
    \<and> (pref = 0 \<longrightarrow> subseq (lg_sent l @ xs) (lg_arrived l)) \<and> (qib s = 0 \<longrightarrow> int (length xs) < qlim s)"
proof -
  let ?l = "\<lparr>lg_state = (h, s), lg_arrived = [], lg_sent = [], lg_left = []\<rparr>"
  have "ledger_ok pref ?l" using assms(1,2) by (auto simp: ledger_ok_def)
  from queue_sim.run_simulates [OF this assms(3)] obtain l os where l: "run_steps (ledger_step pref) ?l is = Inr (l, os)"
    "ledger_ok pref l" "dt_config (snd (lg_state l)) = fold (\<lambda>_ c. c) is (dt_config s)" by auto
  have "fold (\<lambda>_ c. c) is c = c" for c :: "int \<times> int \<times> int \<times> int \<times> int \<times> bool \<times> int" by (induction "is") auto
  with l(3) dt_config_D have "qib (snd (lg_state l)) = qib s" "qlim (snd (lg_state l)) = qlim s" by metis+
  with l(1,2) assms(2) show ?thesis unfolding ledger_ok_def by auto
qed

section \<open>Samples\<close>

definition demo_queue :: drop_tail where
  "demo_queue = \<lparr>dt_q = new_packet_queue, qlim = 3, blocked = 0, unblock_on_resume = 1, true_ave = 0, total_time = 0,
     dt_util = \<lparr>last_change = 0, old_util = 0, util_weight = 0, util_check_intv = 0, period_begin = 0, cur_util = 0,
       buf_slot = 0, util_buf = [], util_records = 0\<rparr>, drop_front = 0, summarystats = 0, qib = 0, mean_pktsize = 500,
     target_is_mac = False\<rparr>"

lemma demo_queue_rep: "dt_rep (h, demo_queue) []"
  using new_packet_queue_rep by (simp add: dt_rep_def demo_queue_def util_ok_def)

theorem queue_keeps_books_witness:
  "\<exists>l xs os. run_steps (ledger_step 0) \<lparr>lg_state = (demo_store, demo_queue), lg_arrived = [], lg_sent = [], lg_left = []\<rparr>
       [(1, QRecv 5), (2, QResume)] = Inr (l, os) \<and> dt_rep (lg_state l) xs \<and> mset (lg_arrived l) = mset xs + mset (lg_left l)"
proof -
  let ?l = "\<lparr>lg_state = (demo_store, demo_queue), lg_arrived = [], lg_sent = [], lg_left = []\<rparr>"
  have "queue_rep (demo_store, dt_q demo_queue) []" using demo_queue_rep [of demo_store] by (simp add: dt_rep_def)
  then have "\<forall>xs. queue_rep (demo_store, dt_q demo_queue) xs \<longrightarrow> 5 \<notin> set xs" using queue_rep_unique by fastforce
  then have "ledger_env ?l (1, QRecv 5)" by (simp add: ledger_env_def queue_env_def demo_queue_def)
  moreover have "ledger_env l (2, QResume)" if "ledger_step 0 ?l (1, QRecv 5) = Inr (l, x)" for l x
  proof -
    have "last_change (dt_util (snd (lg_state l))) \<le> 2"
      using that by (auto simp: ledger_step_def queue_step_def pri_recv_def queue_recv_def dt_enque_def send_next_def dt_deque_def
          util_change_def utilUpdate_def pq_enque_def pq_deque_def demo_queue_def new_packet_queue_def dt_stats_def Let_def)
    then show ?thesis by (simp add: ledger_env_def queue_env_def)
  qed
  ultimately have "steps_ok (ledger_step 0) ledger_env ?l [(1, QRecv 5), (2, QResume)]"
    by (auto split: sum.split)
  from queue_keeps_books [OF demo_queue_rep _ this] show ?thesis by (auto simp: demo_queue_def)
qed

theorem utilisation_bounded_witness:
  "\<exists>u s1. utilization 4 demo_queue = Inr (u, s1) \<and> 0 \<le> u \<and> u \<le> 1"
proof -
  have "util_ok (dt_util demo_queue)" "blocked demo_queue \<in> {0, 1}" "last_change (dt_util demo_queue) \<le> 4"
    by (simp_all add: demo_queue_def util_ok_def)
  from utilisation_bounded [OF this] show ?thesis by blast
qed

theorem shrink_queue_correct_witness:
  "\<exists>h' q'. shrink_queue (fst (snd (pq_enque 0 4 (demo_store, new_packet_queue))),
       demo_queue\<lparr>dt_q := snd (snd (pq_enque 0 4 (demo_store, new_packet_queue))), qlim := 0\<rparr>)
     = Inr ((h', demo_queue\<lparr>dt_q := q', qlim := 0\<rparr>), [QDrop 4]) \<and> queue_rep (h', q') []"
proof -
  obtain h q where hq: "snd (pq_enque 0 4 (demo_store, new_packet_queue)) = (h, q)" by fastforce
  let ?s = "demo_queue\<lparr>dt_q := q, qlim := 0\<rparr>"
  have "queue_rep (h, dt_q ?s) [4]" using pq_enque_rep(2) [OF new_packet_queue_rep, of 4 0 demo_store] hq by simp
  from shrink_queue_correct [OF this] obtain h' q' ds ys where r: "shrink_queue (h, ?s) = Inr ((h', ?s\<lparr>dt_q := q'\<rparr>), map QDrop ds)"
    "queue_rep (h', q') ys" "[4] = ys @ rev ds" "\<not> excess h ?s ys" by (auto simp: demo_queue_def)
  have "ys = []" using r(4) by (simp add: excess_def demo_queue_def)
  with r hq show ?thesis by (intro exI [of _ h'] exI [of _ q']) auto
qed

end
