(* ===== verification/Mac_Link.thy ===== *)
theory Mac_Link
  imports Packets
begin

text \<open>
  The link layer side of the media independent handover function: link types, identifiers and events
  (nist-2/hsntg/mih-types.h) and the part of the class \<^verbatim>\<open>Mac\<close> that subscribes to events and reports
  them (ns-2.29-ori/mac/mac.cc). The enumerators keep their names; an event carries the structure of its
  kind. Time intervals are floored where the code converts a \<^verbatim>\<open>double\<close> to \<^verbatim>\<open>unsigned int\<close>.
\<close>

section \<open>Link types and identifiers\<close>

datatype link_type =
    LINK_GENERIC | LINK_ETHERNET | LINK_WIRELESS_OTHER | LINK_802_11 | LINK_CDMA2000 | LINK_UMTS
  | LINK_CDMA2000_HRDP | LINK_802_16 | LINK_802_20 | LINK_802_22 | LINK_LAST_TYPE

record link_id =
  li_type :: link_type
  li_mac :: addr
  li_poa :: addr

section \<open>Events\<close>

datatype mih_event_t =
    MIH_LINK_UP | MIH_LINK_DOWN | MIH_LINK_GOING_DOWN | MIH_LINK_DETECTED | MIH_LINK_PARAMETERS_REPORT
  | MIH_LINK_EVENT_ROLLBACK | MIH_LINK_SDU_TRANSMIT_STATUS | MIH_LINK_HANDOVER_IMMINENT | MIH_LINK_HANDOVER_COMPLETE

fun event_no :: "mih_event_t \<Rightarrow> nat" where
  "event_no MIH_LINK_UP = 0"
| "event_no MIH_LINK_DOWN = 1"
| "event_no MIH_LINK_GOING_DOWN = 2"
| "event_no MIH_LINK_DETECTED = 3"
| "event_no MIH_LINK_PARAMETERS_REPORT = 4"
| "event_no MIH_LINK_EVENT_ROLLBACK = 5"
| "event_no MIH_LINK_SDU_TRANSMIT_STATUS = 6"
| "event_no MIH_LINK_HANDOVER_IMMINENT = 7"
| "event_no MIH_LINK_HANDOVER_COMPLETE = 8"

definition LINK_LAST_EVENT :: nat where "LINK_LAST_EVENT = 9"

lemma event_no_less [simp]: "event_no e < LINK_LAST_EVENT"
  by (cases e) (simp_all add: LINK_LAST_EVENT_def)

lemma event_no_inj [simp]: "event_no e = event_no e' \<longleftrightarrow> e = e'"
  by (cases e; cases e') simp_all

record link_up_t =
  lu_link :: link_id
  lu_oldAR :: addr
  lu_newAR :: addr
  lu_ipRenewal :: bool
  lu_mobility :: int

record link_down_t =
  ld_link :: link_id
  ld_oldAR :: addr
  ld_reason :: int

record link_going_down_t =
  lg_link :: link_id
  lg_interval :: "32 word"
  lg_confidence :: int
  lg_reason :: int
  lg_id :: "32 word"

record link_rollback_t =
  lr_link :: link_id
  lr_id :: "32 word"

record link_detected_t =
  lt_link :: link_id
  lt_mihCapability :: bool

text \<open>The union \<^verbatim>\<open>param_value\<close> as its eight bytes.\<close>

type_synonym param_value = "64 word"

record link_parameter_s =
  lp_link_type :: link_type
  lp_parameter :: int
  lp_old :: param_value
  lp_new :: param_value

definition MAX_NB_PARAM :: nat where "MAX_NB_PARAM = 20"

record link_parameters_report_t =
  lp_link :: link_id
  lp_list :: "link_parameter_s list"

record link_handover_imminent_t =
  hi_link :: link_id
  hi_newLink :: link_id
  hi_oldAR :: addr
  hi_newAR :: addr

record link_handover_complete_t =
  hc_link :: link_id
  hc_oldAR :: addr
  hc_newAR :: addr

datatype link_event =
    LinkUp link_up_t
  | LinkDown link_down_t
  | LinkGoingDown link_going_down_t
  | LinkDetected link_detected_t
  | LinkParametersReport link_parameters_report_t
  | LinkRollback link_rollback_t
  | LinkHandoverImminent link_handover_imminent_t
  | LinkHandoverComplete link_handover_complete_t

section \<open>The MACs\<close>

record link_sap =
  eventList :: "32 word"
  commandList :: "32 word"
  subscribedEventList :: "32 word"
  sap_mih :: bool

text \<open>
  The MACs of a host: the node of a MAC (\<^verbatim>\<open>get-node\<close>), the MAC of a node (\<^verbatim>\<open>mac_(0)\<close>), the address and
  type of a MAC, and its event lists with the fact that \<^verbatim>\<open>mih_\<close> is set.
\<close>

record macs =
  mac_node :: "mac_ref \<Rightarrow> node_ref"
  node_mac :: "node_ref \<Rightarrow> mac_ref"
  mac_addr :: "mac_ref \<Rightarrow> addr"
  mac_type :: "mac_ref \<Rightarrow> link_type"
  mac_sap :: "mac_ref \<Rightarrow> link_sap"

definition new_link_sap :: link_sap where
  "new_link_sap = \<lparr>eventList = 0, commandList = 0, subscribedEventList = 0, sap_mih = False\<rparr>"

text \<open>The events that the MACs of wireless LAN (802.11) and wide area network (802.16) can report, set by their constructors: all but the status of transmissions.\<close>

definition mac_eventList :: "32 word" where
  "mac_eventList = 0x1BF"

definition upd_sap :: "mac_ref \<Rightarrow> (link_sap \<Rightarrow> link_sap) \<Rightarrow> macs \<Rightarrow> macs" where
  "upd_sap m f ms = ms\<lparr>mac_sap := (mac_sap ms)(m := f (mac_sap ms m))\<rparr>"

section \<open>Subscription at the link layer\<close>

definition link_capability_discover :: "macs \<Rightarrow> mac_ref \<Rightarrow> 32 word \<times> 32 word" where
  "link_capability_discover ms m = (eventList (mac_sap ms m), commandList (mac_sap ms m))"

definition link_event_discover :: "macs \<Rightarrow> mac_ref \<Rightarrow> 32 word" where
  "link_event_discover ms m = eventList (mac_sap ms m)"

definition link_event_subscribe :: "32 word \<Rightarrow> mac_ref \<Rightarrow> macs \<Rightarrow> macs \<times> 32 word" where
  "link_event_subscribe events m ms =
     (let status = events AND eventList (mac_sap ms m)
      in (upd_sap m (\<lambda>s. s\<lparr>subscribedEventList := subscribedEventList s OR status\<rparr>) ms, status))"

text \<open>The code masks with the logical negation \<^verbatim>\<open>!*status\<close>, which is 0 or 1.\<close>

definition link_event_unsubscribe :: "32 word \<Rightarrow> mac_ref \<Rightarrow> macs \<Rightarrow> macs \<times> 32 word" where
  "link_event_unsubscribe events m ms =
     (let status = events AND subscribedEventList (mac_sap ms m)
      in (upd_sap m (\<lambda>s. s\<lparr>subscribedEventList := subscribedEventList s AND (if status = 0 then 1 else 0)\<rparr>) ms, status))"

text \<open>\<^verbatim>\<open>mih_ && ((subscribedEventList_ >> e) & 0x1)\<close>\<close>

definition event_subscribed :: "macs \<Rightarrow> mac_ref \<Rightarrow> mih_event_t \<Rightarrow> bool" where
  "event_subscribed ms m e \<longleftrightarrow> sap_mih (mac_sap ms m) \<and> drop_bit (event_no e) (subscribedEventList (mac_sap ms m)) AND 1 \<noteq> 0"

definition report :: "macs \<Rightarrow> mac_ref \<Rightarrow> mih_event_t \<Rightarrow> link_event \<Rightarrow> link_event option" where
  "report ms m e x = (if event_subscribed ms m e then Some x else None)"

section \<open>Reports\<close>

text \<open>What \<^verbatim>\<open>recv_event\<close> of the handover function is called with, if it is called.\<close>

definition sap_link :: "macs \<Rightarrow> mac_ref \<Rightarrow> addr \<Rightarrow> addr \<Rightarrow> link_id" where
  "sap_link ms m macTerminal macPoA = \<lparr>li_type = mac_type ms m, li_mac = macTerminal, li_poa = macPoA\<rparr>"

definition send_link_detected :: "macs \<Rightarrow> mac_ref \<Rightarrow> addr \<Rightarrow> addr \<Rightarrow> bool \<Rightarrow> link_event option" where
  "send_link_detected ms m macTerminal macPoA mihCap =
     report ms m MIH_LINK_DETECTED (LinkDetected \<lparr>lt_link = sap_link ms m macTerminal macPoA, lt_mihCapability = mihCap\<rparr>)"

definition send_link_up :: "macs \<Rightarrow> mac_ref \<Rightarrow> addr \<Rightarrow> addr \<Rightarrow> addr \<Rightarrow> link_event option" where
  "send_link_up ms m macTerminal macPoA macOldPoA =
     report ms m MIH_LINK_UP (LinkUp \<lparr>lu_link = sap_link ms m macTerminal macPoA, lu_oldAR = macOldPoA, lu_newAR = macPoA,
       lu_ipRenewal = False, lu_mobility = 0\<rparr>)"

definition send_link_down :: "macs \<Rightarrow> mac_ref \<Rightarrow> addr \<Rightarrow> addr \<Rightarrow> int \<Rightarrow> link_event option" where
  "send_link_down ms m macTerminal oldMacAR reason =
     report ms m MIH_LINK_DOWN (LinkDown \<lparr>ld_link = sap_link ms m macTerminal oldMacAR, ld_oldAR = oldMacAR, ld_reason = reason\<rparr>)"

definition send_link_going_down :: "macs \<Rightarrow> mac_ref \<Rightarrow> addr \<Rightarrow> addr \<Rightarrow> real \<Rightarrow> int \<Rightarrow> int \<Rightarrow> 32 word \<Rightarrow> link_event option" where
  "send_link_going_down ms m macTerminal macPoA interval confidence reason i =
     report ms m MIH_LINK_GOING_DOWN (LinkGoingDown \<lparr>lg_link = sap_link ms m macTerminal macPoA,
       lg_interval = word_of_int \<lfloor>interval * 1000\<rfloor>, lg_confidence = sint (word_of_int confidence :: 16 word), lg_reason = reason, lg_id = i\<rparr>)"

definition send_link_rollback :: "macs \<Rightarrow> mac_ref \<Rightarrow> addr \<Rightarrow> addr \<Rightarrow> 32 word \<Rightarrow> link_event option" where
  "send_link_rollback ms m macTerminal macPoA i =
     report ms m MIH_LINK_EVENT_ROLLBACK (LinkRollback \<lparr>lr_link = sap_link ms m macTerminal macPoA, lr_id = i\<rparr>)"

text \<open>The terminal is the MAC itself, whatever \<^verbatim>\<open>macTerminal\<close> says.\<close>

definition send_link_parameters_report ::
  "macs \<Rightarrow> mac_ref \<Rightarrow> addr \<Rightarrow> addr \<Rightarrow> link_type \<Rightarrow> int \<Rightarrow> param_value \<Rightarrow> param_value \<Rightarrow> link_event option" where
  "send_link_parameters_report ms m macTerminal macPoA lt par old_value new_value =
     report ms m MIH_LINK_PARAMETERS_REPORT (LinkParametersReport \<lparr>lp_link = sap_link ms m (mac_addr ms m) macPoA,
       lp_list = [\<lparr>lp_link_type = lt, lp_parameter = par, lp_old = old_value, lp_new = new_value\<rparr>]\<rparr>)"

text \<open>
  The status is passed as \<^verbatim>\<open>MIH_LINK_DOWN\<close>, so that it is read as a \<^verbatim>\<open>link_down_t\<close>, which has the same layout:
  the packet identifier in the place of the old access router, the status in that of the reason.
\<close>

definition send_link_sdu_transmit_status :: "macs \<Rightarrow> mac_ref \<Rightarrow> addr \<Rightarrow> addr \<Rightarrow> int \<Rightarrow> link_event option" where
  "send_link_sdu_transmit_status ms m macTerminal packetID status =
     report ms m MIH_LINK_SDU_TRANSMIT_STATUS (LinkDown \<lparr>ld_link = sap_link ms m macTerminal (- 1), ld_oldAR = packetID, ld_reason = status\<rparr>)"

definition send_link_handover_imminent :: "macs \<Rightarrow> mac_ref \<Rightarrow> addr \<Rightarrow> addr \<Rightarrow> addr \<Rightarrow> link_event option" where
  "send_link_handover_imminent ms m macTerminal oldPoA macPoA =
     report ms m MIH_LINK_HANDOVER_IMMINENT (LinkHandoverImminent \<lparr>hi_link = sap_link ms m macTerminal oldPoA,
       hi_newLink = sap_link ms m macTerminal macPoA, hi_oldAR = oldPoA, hi_newAR = macPoA\<rparr>)"

definition send_link_handover_complete :: "macs \<Rightarrow> mac_ref \<Rightarrow> addr \<Rightarrow> addr \<Rightarrow> addr \<Rightarrow> link_event option" where
  "send_link_handover_complete ms m macTerminal oldPoA macPoA =
     report ms m MIH_LINK_HANDOVER_COMPLETE (LinkHandoverComplete \<lparr>hc_link = sap_link ms m macTerminal macPoA,
       hc_oldAR = oldPoA, hc_newAR = macPoA\<rparr>)"

text \<open>The event lists of a MAC as sets of events.\<close>

definition in_list :: "32 word \<Rightarrow> nat \<Rightarrow> bool" where
  "in_list events i \<longleftrightarrow> drop_bit i events AND 1 \<noteq> 0"

lemma in_list_bit [simp]: "in_list events i \<longleftrightarrow> bit events i"
  by (simp only: in_list_def and_one_eq bit_iff_odd_drop_bit even_iff_mod_2_eq_zero)

lemma event_subscribed_bit: "event_subscribed ms m e \<longleftrightarrow> sap_mih (mac_sap ms m) \<and> bit (subscribedEventList (mac_sap ms m)) (event_no e)"
  unfolding event_subscribed_def in_list_def [symmetric] by simp

section \<open>Sample MACs\<close>

text \<open>MAC \<open>m\<close> has the address \<open>m\<close>, belongs to node \<open>m\<close> and supports all events.\<close>

definition demo_macs :: macs where
  "demo_macs = \<lparr>mac_node = (\<lambda>m. m), node_mac = (\<lambda>i. i), mac_addr = (\<lambda>m. word_of_nat m), mac_type = (\<lambda>_. LINK_802_11),
     mac_sap = (\<lambda>_. new_link_sap\<lparr>eventList := mac_eventList, sap_mih := True\<rparr>)\<rparr>"

end
