(* ===== verification/Handover_1.thy ===== *)
theory Handover_1
  imports Mobility Flows Mac_Link
begin

text \<open>
  The handover module \<^verbatim>\<open>Handover1\<close> (nist-2/hsntg/802_21/handover-1.cc, handover-1.h): the subclass of the MIPv6
  agent that the scenarios run. It reacts to the link events of the media independent handover
  function, whose requests are outputs here, and overrides the reactions to neighbour discovery. The
  \<^verbatim>\<open>MIHInterfaceInfo\<close> list of that function is part of the state; \<^verbatim>\<open>printf\<close> and \<^verbatim>\<open>debug\<close> output is left out.
\<close>

section \<open>State\<close>

record iface_info =
  if_type :: link_type
  if_macAddr :: addr
  if_up :: bool
  if_mac :: "mac_ref option"

record handover1 =
  ho_host :: host
  ho_agent :: flow_agent
  ho_ifaces :: "iface_info list"
  connectingMac :: addr
  ho_case :: int
  confidence_th :: real
  pending_scan :: "addr set"
  scanTimer :: "(timer \<times> link_id) option"

record ho_env =
  he_net :: net
  he_world :: world
  he_nds :: "nd_ref \<Rightarrow> nd_agent"
  he_macs :: macs

datatype ho_out =
    HoSend action
  | HoFlow flow_out
  | HoConfigure link_id
  | HoScan link_id
  | HoRegister int
  | HoSubscribe link_id "32 word"

type_synonym ho_result = "(ho_env \<times> handover1 \<times> ho_out list) res"

definition new_handover1 :: "handover1 \<Rightarrow> handover1" where
  "new_handover1 o1 = o1\<lparr>connectingMac := - 1, pending_scan := {}, scanTimer := None\<rparr>"

section \<open>Helpers\<close>

text \<open>\<^verbatim>\<open>MIHAgent::get_interface\<close> and \<^verbatim>\<open>get_mac\<close>\<close>

definition get_interface :: "handover1 \<Rightarrow> addr \<Rightarrow> iface_info option" where
  "get_interface o1 m = find (\<lambda>i. if_macAddr i = m) (ho_ifaces o1)"

definition get_mac :: "handover1 \<Rightarrow> addr \<Rightarrow> mac_ref option res" where
  "get_mac o1 m = need NullPtr (get_interface o1 m) (\<lambda>i. Inr (if_mac i))"

text \<open>The addresses of the nodes are one thing, kept in the network and in the store of the flows.\<close>

definition put_net :: "net \<Rightarrow> ho_env \<Rightarrow> ho_env" where
  "put_net n e = e\<lparr>he_net := n, he_world := (he_world e)\<lparr>iface_addr := node_addr n\<rparr>\<rparr>"

definition on_host :: "ho_env \<Rightarrow> handover1 \<Rightarrow> host_result \<Rightarrow> ho_result" where
  "on_host e o1 r = bind_res r (\<lambda>(n, h, out). Inr (put_net n e, o1\<lparr>ho_host := h\<rparr>, map HoSend out))"

text \<open>\<^verbatim>\<open>Handover::compute_new_address\<close>\<close>

definition ho_compute_new_address :: "net \<Rightarrow> addr \<Rightarrow> node_ref \<Rightarrow> net res" where
  "ho_compute_new_address n pfx i =
     bind_res (get_nodeaddr (layout n) (new_address (node_addr n i) pfx)) (\<lambda>a.
       Inr (n\<lparr>node_addr := (node_addr n)(i := a), base_stn := (base_stn n)(i := pfx)\<rparr>))"

section \<open>Registration with the handover function\<close>

definition ho_events :: "int \<Rightarrow> 32 word" where
  "ho_events c = (if c = 2 then 0x1FB else if c = 3 then 0x1FF else 0x1F9)"

text \<open>\<open>links\<close> are the links that \<^verbatim>\<open>mih_get_status\<close> reports.\<close>

definition register_mih :: "handover1 \<Rightarrow> link_id list \<Rightarrow> ho_out list" where
  "register_mih o1 links = map (\<lambda>l. HoSubscribe l (ho_events (ho_case o1))) links"

definition process_cap_disc_conf :: "int \<Rightarrow> ho_out list" where
  "process_cap_disc_conf mihf_id = [HoRegister mihf_id]"

section \<open>Link events\<close>

text \<open>The comparison with the interfaces in use only prints, its \<^verbatim>\<open>goto done\<close> being commented out.\<close>

definition process_link_detected :: "handover1 \<Rightarrow> link_id \<Rightarrow> handover1 \<times> ho_out list" where
  "process_link_detected o1 l =
     (if li_type l = LINK_802_11 \<or> li_type l = LINK_802_16 then (o1\<lparr>connectingMac := li_mac l\<rparr>, [HoConfigure l]) else (o1, []))"

definition process_link_up :: "time \<Rightarrow> ho_env \<Rightarrow> handover1 \<Rightarrow> link_id \<Rightarrow> ho_result" where
  "process_link_up now e o1 l =
     (let o2 = (if li_mac l = connectingMac o1 then o1\<lparr>connectingMac := - 1\<rparr> else o1)
      in if ho_case o2 = 2 \<or> ho_case o2 = 3 then
           bind_res (get_mac o2 (li_mac l)) (\<lambda>m.
           bind_res (mip_send_rs now (he_net e) (ho_agent o2) (he_nds e) m) (\<lambda>(nds, out).
             Inr (e\<lparr>he_nds := nds\<rparr>, o2, map HoSend out)))
         else Inr (e, o2, []))"

definition process_link_down :: "time \<Rightarrow> ho_env \<Rightarrow> handover1 \<Rightarrow> addr \<Rightarrow> ho_result" where
  "process_link_down now e o1 mac =
     bind_res (get_mac o1 mac) (\<lambda>r.
     need NullPtr r (\<lambda>m. on_host e o1 (host_re_homing now (he_net e) (ho_host o1) (mac_node (he_macs e) m))))"

definition process_link_going_down :: "time \<Rightarrow> ho_env \<Rightarrow> handover1 \<Rightarrow> link_id \<Rightarrow> int \<Rightarrow> ho_result" where
  "process_link_going_down now e o1 l confidenceLevel =
     (if real_of_int confidenceLevel = confidence_th o1 then process_link_down now e o1 (li_mac l) else Inr (e, o1, []))"

section \<open>Neighbour discovery\<close>

definition ho_process_exp_prefix :: "time \<Rightarrow> ho_env \<Rightarrow> handover1 \<Rightarrow> addr \<Rightarrow> node_ref \<Rightarrow> ho_result" where
  "ho_process_exp_prefix now e o1 pfx i =
     (if node_addr (he_net e) i AND 0xFFFFF800 = pfx
      then process_link_down now e o1 (mac_addr (he_macs e) (node_mac (he_macs e) i))
      else Inr (e, o1, []))"

definition ho_process_new_prefix :: "time \<Rightarrow> ho_env \<Rightarrow> handover1 \<Rightarrow> addr \<Rightarrow> node_ref \<Rightarrow> ho_result" where
  "ho_process_new_prefix now e o1 pfx i =
     bind_res (ho_compute_new_address (he_net e) pfx i) (\<lambda>n1.
       let h = ho_host o1
       in on_host e o1 (case h_sip h of
            Some s \<Rightarrow> bind_res (send_reg_msg now n1 (mipv6_of h (h_mip h)) s pfx i) (\<lambda>(s', out). Inr (n1, h\<lparr>h_sip := Some s'\<rparr>, out))
          | None \<Rightarrow> bind_res (send_bu_msg n1 (h_mip h) pfx i) (\<lambda>(m', out). Inr (n1, h\<lparr>h_mip := m'\<rparr>, out))))"

definition ho_process_nd_event :: "time \<Rightarrow> ho_env \<Rightarrow> handover1 \<Rightarrow> nd_event \<Rightarrow> ho_result" where
  "ho_process_nd_event now e o1 ev =
     (case ev of
        ND_NEW_PREFIX pfx i bs \<Rightarrow> ho_process_new_prefix now e o1 pfx i
      | ND_PREFIX_EXPIRED pfx i \<Rightarrow> ho_process_exp_prefix now e o1 pfx i
      | ND_MR pfx i bs \<Rightarrow> on_host e o1 (process_mr (he_net e) (ho_host o1) pfx i))"

section \<open>Scanning\<close>

text \<open>A result of a scan: the link, its present point of attachment, and those that were found.\<close>

record scan_result =
  sr_type :: link_type
  sr_mac :: addr
  sr_poa :: addr
  sr_found :: "addr list"

definition scan_one :: "scan_result \<Rightarrow> handover1 \<Rightarrow> handover1 \<times> ho_out list" where
  "scan_one r o1 =
     (let o2 = o1\<lparr>pending_scan := pending_scan o1 - {sr_mac r}\<rparr>
      in if sr_type r = LINK_802_11 \<or> sr_type r = LINK_802_16 then
           (case find (\<lambda>b. b \<noteq> sr_poa r) (sr_found r) of
              Some b \<Rightarrow> (o2\<lparr>connectingMac := sr_mac r\<rparr>, [HoConfigure \<lparr>li_type = sr_type r, li_mac = sr_mac r, li_poa = b\<rparr>])
            | None \<Rightarrow> (o2, []))
         else (o2, []))"

fun scan_all :: "scan_result list \<Rightarrow> handover1 \<Rightarrow> handover1 \<times> ho_out list" where
  "scan_all [] o1 = (o1, [])"
| "scan_all (r # rs) o1 = (let (o2, out) = scan_one r o1; (o3, out2) = scan_all rs o2 in (o3, out @ out2))"

text \<open>The flows of the lost interface: the first one that still uses it goes to the interface \<open>new\<close>.\<close>

definition redirect_first :: "node_ref \<Rightarrow> node_ref \<Rightarrow> flow_agent \<Rightarrow> world \<Rightarrow> (world \<times> flow_out list) res" where
  "redirect_first node new s w =
     (case find (\<lambda>f. fl_iface (flow_at w f) = node) (get_flows s) of
        None \<Rightarrow> Inr (w, [])
      | Some f \<Rightarrow>
          (let w1 = w\<lparr>ag_target := (ag_target w)(fl_local (flow_at w f) := new)\<rparr>
           in bind_res (send_update_msg w1 s [fl_remote (flow_at w f)] new) (\<lambda>out.
                Inr (upd_flow f (fl_iface_update (\<lambda>_. new)) w1, out))))"

fun redirect_up :: "macs \<Rightarrow> node_ref \<Rightarrow> iface_info list \<Rightarrow> flow_agent \<Rightarrow> world \<Rightarrow> (world \<times> flow_out list) res" where
  "redirect_up ms node [] s w = Inr (w, [])"
| "redirect_up ms node (i # is) s w =
     (if if_up i \<and> (\<exists>f \<in> set (get_flows s). fl_iface (flow_at w f) = node) then
        need NullPtr (if_mac i) (\<lambda>m.
        bind_res (redirect_first node (mac_node ms m) s w) (\<lambda>(w1, out).
        bind_res (redirect_up ms node is s w1) (\<lambda>(w2, out2). Inr (w2, out @ out2))))
      else redirect_up ms node is s w)"

definition start_scan_timer :: "time \<Rightarrow> link_id \<Rightarrow> handover1 \<Rightarrow> handover1" where
  "start_scan_timer now l o1 =
     o1\<lparr>scanTimer := Some (case scanTimer o1 of
          None \<Rightarrow> (TIMER_PENDING (now + 3), l)
        | Some (t, _) \<Rightarrow> (timer_resched now 3 t, l))\<rparr>"

text \<open>\<open>g\<close> is the field \<^verbatim>\<open>macPoA\<close> of the link identifier of the timer, which is left unset.\<close>

definition process_scan_conf :: "time \<Rightarrow> addr \<Rightarrow> ho_env \<Rightarrow> handover1 \<Rightarrow> scan_result list \<Rightarrow> ho_result" where
  "process_scan_conf now g e o1 rs =
     (let (o2, out) = scan_all rs o1
      in if out \<noteq> [] then Inr (e, o2, out)
         else check OutOfRange (rs \<noteq> [])
           (bind_res (get_mac o2 (sr_mac (hd rs))) (\<lambda>r.
            need NullPtr r (\<lambda>m.
              let node = mac_node (he_macs e) m;
                  o3 = (if sr_type (hd rs) = LINK_802_11
                        then start_scan_timer now \<lparr>li_type = LINK_802_11, li_mac = sr_mac (hd rs), li_poa = g\<rparr> o2 else o2)
              in bind_res (redirect_up (he_macs e) node (ho_ifaces o3) (ho_agent o3) (he_world e)) (\<lambda>(w, out2).
                   Inr (e\<lparr>he_world := w\<rparr>, o3, map HoFlow out2))))))"

definition process_scanTimer :: "link_id \<Rightarrow> handover1 \<Rightarrow> handover1 \<times> ho_out list" where
  "process_scanTimer l o1 =
     (if li_type l = LINK_802_11 \<and> li_mac l \<notin> pending_scan o1
      then (o1\<lparr>pending_scan := insert (li_mac l) (pending_scan o1)\<rparr>, [HoScan l]) else (o1, []))"

definition scan_timer_expire :: "handover1 \<Rightarrow> (handover1 \<times> ho_out list) res" where
  "scan_timer_expire o1 =
     need NullPtr (scanTimer o1) (\<lambda>(t, l).
       timer_handle (\<lambda>x. case scanTimer x of Some (t, _) \<Rightarrow> t | None \<Rightarrow> TIMER_IDLE)
         (\<lambda>t x. x\<lparr>scanTimer := map_option (\<lambda>(_, l). (t, l)) (scanTimer x)\<rparr>)
         (\<lambda>x. Inr (process_scanTimer l x)) o1)"

end
