(* ===== verification/Handover_Props.thy ===== *)
theory Handover_Props
  imports Handover_1 Nd_Props Sip_Policies
begin

text \<open>
  Properties of the handover module: from an expired prefix to the re-homing of a router's nodes, and
  what becomes of the flows of an interface when a scan finds no other point of attachment.
\<close>

section \<open>Expired prefixes\<close>

text \<open>The MAC of an interface is known to the handover function as the MAC of its node.\<close>

definition mac_known :: "macs \<Rightarrow> handover1 \<Rightarrow> node_ref \<Rightarrow> bool" where
  "mac_known ms o1 i \<longleftrightarrow> mac_node ms (node_mac ms i) = i
     \<and> map_option if_mac (get_interface o1 (mac_addr ms (node_mac ms i))) = Some (Some (node_mac ms i))"

lemma link_down_rehomes:
  assumes "mac_known (he_macs e) o1 i"
  shows "process_link_down now e o1 (mac_addr (he_macs e) (node_mac (he_macs e) i))
    = on_host e o1 (host_re_homing now (he_net e) (ho_host o1) i)"
  using assms by (auto simp: process_link_down_def get_mac_def mac_known_def)

lemma prefix_expiry_event:
  assumes "nd_inv s" and "entry_timer pfx s = TIMER_PENDING t" and "iMngmnt s"
  shows "\<exists>s'. prefix_timer_expire now n pfx s = Inr (s', [], [NdEvent (ND_PREFIX_EXPIRED pfx (nd_node s))]) \<and> neighbours s' pfx = None"
proof -
  have "nd_good s ((neighbours s)(pfx := None)) (nd_notes 0 s (PrefixExpire pfx)) (prefix_timer_expire now n pfx s)"
    using prefix_expire_good [OF assms(1,2)] .
  moreover have "prefix_timer_expire now n pfx s = Inr (s', out, cs) \<Longrightarrow> out = []" for s' out cs
  proof -
    obtain x where "nd_lookup pfx (nlist s) = Some x" using assms(2) by (auto simp: entry_timer_def split: option.splits)
    then have "pfx \<noteq> IPv6_TIMER_RA" "pfx \<noteq> IPv6_TIMER_RS" using assms(1) nd_lookup_Some [of pfx "nlist s"] by (auto simp: nd_inv_def)
    then show "prefix_timer_expire now n pfx s = Inr (s', out, cs) \<Longrightarrow> out = []"
      using assms(2) by (auto simp: prefix_timer_expire_def timer_handle_pending nd_timeout_def)
  qed
  ultimately show ?thesis using assms(3) unfolding nd_good_def nd_notes_def by (auto simp: fun_upd_def)
qed


section \<open>Scans without result\<close>

lemma scan_all_none:
  assumes "\<forall>r \<in> set rs. sr_type r \<in> {LINK_802_11, LINK_802_16} \<longrightarrow> set (sr_found r) \<subseteq> {sr_poa r}"
  shows "scan_all rs o1 = (o1\<lparr>pending_scan := pending_scan o1 - sr_mac ` set rs\<rparr>, [])"
  using assms
proof (induction rs arbitrary: o1)
  case (Cons r rs)
  then have "sr_type r \<in> {LINK_802_11, LINK_802_16} \<Longrightarrow> find (\<lambda>b. b \<noteq> sr_poa r) (sr_found r) = None" by (auto simp: find_None_iff)
  then have "scan_one r o1 = (o1\<lparr>pending_scan := pending_scan o1 - {sr_mac r}\<rparr>, [])"
    by (cases "sr_type r \<in> {LINK_802_11, LINK_802_16}") (auto simp: scan_one_def Let_def)
  moreover have "pending_scan o1 - {sr_mac r} - sr_mac ` set rs = pending_scan o1 - insert (sr_mac r) (sr_mac ` set rs)" by auto
  ultimately show ?case using Cons by (simp add: Let_def)
qed simp

text \<open>The flows on an interface, and the interfaces in use.\<close>

definition flows_on :: "world \<Rightarrow> flow_agent \<Rightarrow> node_ref \<Rightarrow> flow_ref list" where
  "flows_on w s i = filter (\<lambda>f. fl_iface (flow_at w f) = i) (fList s)"

definition up_nodes :: "macs \<Rightarrow> iface_info list \<Rightarrow> node_ref list" where
  "up_nodes ms is = map (mac_node ms \<circ> the \<circ> if_mac) (filter if_up is)"

lemma find_filter: "find P xs = (case filter P xs of [] \<Rightarrow> None | x # _ \<Rightarrow> Some x)"
  by (induction xs) auto

lemma send_update_msg_cong:
  "ag_addr w1 = ag_addr w \<Longrightarrow> iface_addr w1 = iface_addr w \<Longrightarrow> send_update_msg w1 s as i = send_update_msg w s as i"
  by (simp add: send_update_msg_def)

lemma redirect_first_ok:
  assumes "flows_on w s node = f # fs" and "distinct (fList s)" and "new \<noteq> node"
  shows "\<exists>w' out. redirect_first node new s w = Inr (w', [out]) \<and> flows_on w' s node = fs \<and> fl_iface (flow_at w' f) = new
    \<and> send_update_msg w s [fl_remote (flow_at w f)] new = Inr [out] \<and> ag_addr w' = ag_addr w \<and> iface_addr w' = iface_addr w
    \<and> (\<forall>g. g \<noteq> f \<longrightarrow> flow_at w' g = flow_at w g)"
proof -
  let ?w = "upd_flow f (fl_iface_update (\<lambda>_. new)) (w\<lparr>ag_target := (ag_target w)(fl_local (flow_at w f) := new)\<rparr>)"
  have "distinct (f # fs)" using assms(1,2) by (metis distinct_filter flows_on_def)
  then have "filter (\<lambda>g. g \<noteq> f) (f # fs) = fs" by (auto simp: filter_id_conv)
  moreover have "flows_on ?w s node = filter (\<lambda>g. g \<noteq> f) (flows_on w s node)"
    using assms(3) by (auto simp: flows_on_def upd_flow_def filter_filter intro!: filter_cong)
  moreover have "find (\<lambda>f. fl_iface (flow_at w f) = node) (fList s) = Some f"
    using assms(1) by (simp add: find_filter flows_on_def)
  ultimately show ?thesis using assms(1) by (simp add: redirect_first_def get_flows_def send_update_msg_def upd_flow_def)
qed

lemma redirect_up_ok:
  assumes "distinct (fList s)" and "\<forall>i \<in> set is. if_up i \<longrightarrow> (\<exists>m. if_mac i = Some m \<and> mac_node ms m \<noteq> node)"
  shows "\<exists>w' out. redirect_up ms node is s w = Inr (w', out) \<and> length out = min (length (flows_on w s node)) (length (up_nodes ms is))
    \<and> flows_on w' s node = drop (length (up_nodes ms is)) (flows_on w s node)
    \<and> (\<forall>k < length out. fl_iface (flow_at w' (flows_on w s node ! k)) = up_nodes ms is ! k)
    \<and> (\<forall>k < length out. send_update_msg w s [fl_remote (flow_at w (flows_on w s node ! k))] (up_nodes ms is ! k) = Inr [out ! k])
    \<and> (\<forall>f. f \<notin> set (take (length out) (flows_on w s node)) \<longrightarrow> flow_at w' f = flow_at w f)"
  using assms(2)
proof (induction "is" arbitrary: w)
  case Nil
  then show ?case by (simp add: up_nodes_def)
next
  case (Cons i "is")
  have prem: "\<forall>i \<in> set is. if_up i \<longrightarrow> (\<exists>m. if_mac i = Some m \<and> mac_node ms m \<noteq> node)" using Cons.prems by simp
  show ?case
  proof (cases "if_up i \<and> flows_on w s node \<noteq> []")
    case False
    have "\<not> (if_up i \<and> (\<exists>f \<in> set (get_flows s). fl_iface (flow_at w f) = node))"
      using False by (auto simp: flows_on_def get_flows_def filter_empty_conv)
    then have r: "redirect_up ms node (i # is) s w = redirect_up ms node is s w" by (simp only: redirect_up.simps if_False)
    show ?thesis
    proof (cases "flows_on w s node = []")
      case True
      with Cons.IH [OF prem, of w] show ?thesis unfolding r by auto
    next
      case ne: False
      with False have "up_nodes ms (i # is) = up_nodes ms is" by (simp add: up_nodes_def)
      with Cons.IH [OF prem, of w] show ?thesis unfolding r by simp
    qed
  next
    case True
    then obtain f fs where fs: "flows_on w s node = f # fs" by (cases "flows_on w s node") auto
    then have "f \<in> set (flows_on w s node)" by simp
    then have ex: "\<exists>f \<in> set (get_flows s). fl_iface (flow_at w f) = node" by (auto simp: flows_on_def get_flows_def)
    obtain m where m: "if_mac i = Some m" "mac_node ms m \<noteq> node" using Cons.prems True by auto
    obtain w1 x where 1: "redirect_first node (mac_node ms m) s w = Inr (w1, [x])" "flows_on w1 s node = fs"
      "fl_iface (flow_at w1 f) = mac_node ms m" "\<forall>g. g \<noteq> f \<longrightarrow> flow_at w1 g = flow_at w g"
      "send_update_msg w s [fl_remote (flow_at w f)] (mac_node ms m) = Inr [x]" "ag_addr w1 = ag_addr w" "iface_addr w1 = iface_addr w"
      using redirect_first_ok [OF fs assms(1) m(2)] by blast
    obtain w' out where 2: "redirect_up ms node is s w1 = Inr (w', out)" "length out = min (length fs) (length (up_nodes ms is))"
      "flows_on w' s node = drop (length (up_nodes ms is)) fs"
      "\<forall>k < length out. fl_iface (flow_at w' (fs ! k)) = up_nodes ms is ! k"
      "\<forall>g. g \<notin> set (take (length out) fs) \<longrightarrow> flow_at w' g = flow_at w1 g"
      "\<forall>k < length out. send_update_msg w1 s [fl_remote (flow_at w1 (fs ! k))] (up_nodes ms is ! k) = Inr [out ! k]"
      using Cons.IH [OF prem, of w1] unfolding 1(2) by blast
    have up: "up_nodes ms (i # is) = mac_node ms m # up_nodes ms is" using True m(1) by (simp add: up_nodes_def)
    have d: "distinct (f # fs)" using fs assms(1) by (metis distinct_filter flows_on_def)
    have "flow_at w1 (fs ! k) = flow_at w (fs ! k)" if "k < length out" for k
      using that 1(4) d 2(2) by (auto simp: in_set_conv_nth)
    then have "\<forall>k < length (x # out). send_update_msg w s [fl_remote (flow_at w ((f # fs) ! k))] ((mac_node ms m # up_nodes ms is) ! k)
        = Inr [(x # out) ! k]"
      using 2(6) 1(5) by (auto simp: nth_Cons send_update_msg_cong [OF 1(6,7)] split: nat.split)
    moreover have f: "f \<notin> set (take (length out) fs)" using d by (auto dest: in_set_takeD)
    moreover have "fl_iface (flow_at w' f) = mac_node ms m" using f 2(5) 1(3) by simp
    then have "\<forall>k < length (x # out). fl_iface (flow_at w' ((f # fs) ! k)) = (mac_node ms m # up_nodes ms is) ! k"
      using 2(4) by (auto simp: nth_Cons split: nat.split)
    moreover have "redirect_up ms node (i # is) s w = Inr (w', x # out)" using True ex m(1) 1(1) 2(1) by simp
    ultimately show ?thesis unfolding fs up using 2(2,3,5) 1(4)
      by (intro exI [of _ w'] exI [of _ "x # out"]) auto
  qed
qed

text \<open>
  C37: When a scan finds no point of attachment other than the present one, the flows of the scanned
  interface go to the other interfaces that are up, one flow to each, in order: the k-th flow is then
  sent by the k-th such interface and a redirect message goes out by it to the flow's correspondent; flows beyond the number of
  interfaces stay where they are, and no other flow changes. On a wireless LAN the scan is repeated
  after three seconds.
\<close>

theorem scan_failure_moves_flows:
  assumes "rs \<noteq> []" and "\<forall>r \<in> set rs. sr_type r \<in> {LINK_802_11, LINK_802_16} \<longrightarrow> set (sr_found r) \<subseteq> {sr_poa r}"
    and "get_interface o1 (sr_mac (hd rs)) = Some info" and "if_mac info = Some m" and "distinct (fList (ho_agent o1))"
    and "\<forall>i \<in> set (ho_ifaces o1). if_up i \<longrightarrow> (\<exists>m'. if_mac i = Some m' \<and> mac_node (he_macs e) m' \<noteq> mac_node (he_macs e) m)"
  shows "\<exists>e' o' out. process_scan_conf now g e o1 rs = Inr (e', o', map HoFlow out)
    \<and> (let fs = flows_on (he_world e) (ho_agent o1) (mac_node (he_macs e) m); us = up_nodes (he_macs e) (ho_ifaces o1)
       in length out = min (length fs) (length us)
          \<and> (\<forall>k < length out. fl_iface (flow_at (he_world e') (fs ! k)) = us ! k
               \<and> send_update_msg (he_world e) (ho_agent o1) [fl_remote (flow_at (he_world e) (fs ! k))] (us ! k) = Inr [out ! k])
          \<and> (\<forall>f. f \<notin> set (take (length out) fs) \<longrightarrow> flow_at (he_world e') f = flow_at (he_world e) f))
    \<and> (sr_type (hd rs) = LINK_802_11 \<longrightarrow> map_option fst (scanTimer o') = Some (TIMER_PENDING (now + 3)))
    \<and> pending_scan o' = pending_scan o1 - sr_mac ` set rs"
proof -
  let ?o2 = "o1\<lparr>pending_scan := pending_scan o1 - sr_mac ` set rs\<rparr>"
  let ?l = "\<lparr>li_type = LINK_802_11, li_mac = sr_mac (hd rs), li_poa = g\<rparr>"
  let ?o3 = "if sr_type (hd rs) = LINK_802_11 then start_scan_timer now ?l ?o2 else ?o2"
  have o3: "ho_ifaces ?o3 = ho_ifaces o1" "ho_agent ?o3 = ho_agent o1" "pending_scan ?o3 = pending_scan o1 - sr_mac ` set rs"
    "sr_type (hd rs) = LINK_802_11 \<longrightarrow> map_option fst (scanTimer ?o3) = Some (TIMER_PENDING (now + 3))"
    by (auto simp: start_scan_timer_def timer_resched_def split: option.splits)
  obtain w' out where w': "redirect_up (he_macs e) (mac_node (he_macs e) m) (ho_ifaces o1) (ho_agent o1) (he_world e) = Inr (w', out)"
    "length out = min (length (flows_on (he_world e) (ho_agent o1) (mac_node (he_macs e) m))) (length (up_nodes (he_macs e) (ho_ifaces o1)))"
    "\<forall>k < length out. fl_iface (flow_at w' (flows_on (he_world e) (ho_agent o1) (mac_node (he_macs e) m) ! k)) = up_nodes (he_macs e) (ho_ifaces o1) ! k"
    "\<forall>k < length out. send_update_msg (he_world e) (ho_agent o1)
       [fl_remote (flow_at (he_world e) (flows_on (he_world e) (ho_agent o1) (mac_node (he_macs e) m) ! k))]
       (up_nodes (he_macs e) (ho_ifaces o1) ! k) = Inr [out ! k]"
    "\<forall>f. f \<notin> set (take (length out) (flows_on (he_world e) (ho_agent o1) (mac_node (he_macs e) m))) \<longrightarrow> flow_at w' f = flow_at (he_world e) f"
    using redirect_up_ok [OF assms(5,6), of "he_world e"] by blast
  have "get_mac ?o2 (sr_mac (hd rs)) = Inr (Some m)" using assms(3,4) by (simp add: get_mac_def get_interface_def)
  then have "process_scan_conf now g e o1 rs = Inr (e\<lparr>he_world := w'\<rparr>, ?o3, map HoFlow out)"
    using assms(1) w'(1) o3(1,2) scan_all_none [OF assms(2)] by (simp add: process_scan_conf_def Let_def)
  then show ?thesis using o3(3,4) w'(2-5) unfolding Let_def
    by (intro exI [of _ "e\<lparr>he_world := w'\<rparr>"] exI [of _ ?o3] exI [of _ out]) simp
qed

section \<open>Samples\<close>

definition demo_handover :: "host \<Rightarrow> handover1" where
  "demo_handover h = new_handover1 \<lparr>ho_host = h, ho_agent = agent.extend (demo_agent 0x1805) \<lparr>fList = [1, 2], nd_macs = [], flow_seq = 0,
       flow_timer = TIMER_IDLE, ft_flows = [], ft_iface = 0, ft_destination = 0, flow_timeout = 2, list_nodes = [], nbAccepted = 0, nbRefused = 0\<rparr>,
     ho_ifaces = [\<lparr>if_type = LINK_802_11, if_macAddr = 4, if_up = False, if_mac = Some 4\<rparr>, \<lparr>if_type = LINK_UMTS, if_macAddr = 5, if_up = True, if_mac = Some 5\<rparr>],
     connectingMac = 0, ho_case = 1, confidence_th = 80, pending_scan = {}, scanTimer = None\<rparr>"

definition demo_env :: ho_env where
  "demo_env = \<lparr>he_net = demo_faces, he_world = \<lparr>flow_at = (\<lambda>f. new_FlowEntry (f + 2) (f + 4) 0 100 4), next_flow = 3,
     ag_addr = (\<lambda>_. 0), ag_port = (\<lambda>_. 0), ag_dst_addr = (\<lambda>_. 0), ag_dst_port = (\<lambda>_. 0), ag_target = (\<lambda>_. 4), iface_addr = (\<lambda>_. 0),
     bss_id = (\<lambda>_. 0)\<rparr>, he_nds = (\<lambda>_. demo_nd 0 0x1801), he_macs = demo_macs\<rparr>"

lemmas demo_handover_defs = demo_handover_def new_handover1_def demo_env_def demo_macs_def agent.defs demo_agent_def

definition demo_router_host :: host where
  "demo_router_host = \<lparr>h_mip = new_mip6 (demo_agent 0x1801) MR 0 0, h_sip = Some (demo_router 2), h_mipv6_set = False\<rparr>"

definition demo_nd_cached :: nd_agent where
  "demo_nd_cached = (demo_nd 0 0x1801)\<lparr>iMngmnt := True,
     nlist := [\<lparr>ne_prefix = 0x1800, ne_lftm = 18, ne_time = 1, ne_timer = TIMER_PENDING 19\<rparr>]\<rparr>"

lemma demo_nd_cached_facts:
  "nd_inv demo_nd_cached" "entry_timer 0x1800 demo_nd_cached = TIMER_PENDING 19" "iMngmnt demo_nd_cached" "nd_node demo_nd_cached = 4"
  by (simp_all add: demo_nd_cached_def nd_inv_def entry_timer_def nd_lookup_def expire_def IPv6_TIMER_RA_def IPv6_TIMER_RS_def demo_nd_defs)


theorem scan_failure_moves_flows_witness:
  "\<exists>e' o' x. process_scan_conf 0 0 demo_env (demo_handover demo_router_host)
        [\<lparr>sr_type = LINK_802_11, sr_mac = 4, sr_poa = 9, sr_found = [9]\<rparr>] = Inr (e', o', [HoFlow x])
     \<and> fl_iface (flow_at (he_world e') 1) = 5 \<and> fl_iface (flow_at (he_world e') 2) = 4"
proof -
  let ?o = "demo_handover demo_router_host" and ?rs = "[\<lparr>sr_type = LINK_802_11, sr_mac = 4, sr_poa = 9, sr_found = [9]\<rparr>]"
  have "flows_on (he_world demo_env) (ho_agent ?o) 4 = [1, 2]" "up_nodes (he_macs demo_env) (ho_ifaces ?o) = [5]"
    "mac_node (he_macs demo_env) 4 = 4" "flow_at (he_world demo_env) 2 = new_FlowEntry 4 6 0 100 4"
    by (simp_all add: flows_on_def up_nodes_def demo_handover_defs new_FlowEntry_def)
  moreover have "get_interface ?o (sr_mac (hd ?rs)) = Some \<lparr>if_type = LINK_802_11, if_macAddr = 4, if_up = False, if_mac = Some 4\<rparr>"
    by (simp add: get_interface_def demo_handover_defs)
  moreover have "distinct (fList (ho_agent ?o))"
    "\<forall>i \<in> set (ho_ifaces ?o). if_up i \<longrightarrow> (\<exists>m'. if_mac i = Some m' \<and> mac_node (he_macs demo_env) m' \<noteq> mac_node (he_macs demo_env) 4)"
    by (simp_all add: demo_handover_defs)
  ultimately show ?thesis
    using scan_failure_moves_flows [of ?rs ?o _ 4 demo_env 0 0] by (fastforce simp: Let_def new_FlowEntry_def length_Suc_conv)
qed

end
