(* ===== verification/Mih_Iface.thy ===== *)
theory Mih_Iface
  imports Mac_Link
begin

text \<open>
  What the media independent handover function keeps of an interface (\<^verbatim>\<open>MIHInterfaceInfo\<close>,
  nist-2/hsntg/mih-iface.cc, mih-iface.h), and the conversion of MAC addresses between \<^verbatim>\<open>int\<close> and the six bytes
  of a message (nist-2/hsntg/mih.cc). The array of subscribers per event is a function of the event number.
\<close>

section \<open>MAC addresses in messages\<close>

type_synonym eth = "8 word list"

definition int_to_eth :: "addr \<Rightarrow> eth" where
  "int_to_eth macInt = map (\<lambda>i. ucast (drop_bit (8 * i) macInt AND 0xFF)) [0..<4] @ [0, 0]"

definition eth_to_int :: "eth \<Rightarrow> addr" where
  "eth_to_int mac = fold (\<lambda>i result. result OR push_bit (8 * i) (ucast (mac ! i))) [0..<4] 0"

section \<open>Interfaces\<close>

datatype interface_status_t =
    LINK_STATUS_UP | LINK_STATUS_DOWN | LINK_STATUS_GOING_DOWN | LINK_STATUS_HANDOVER_IMMINENT
  | LINK_STATUS_HANDOVER_COMPLETE | LINK_STATUS_UNKNOWN

type_synonym user_ref = nat
type_synonym sess_ref = nat

record mih_iface =
  mi_mac :: "mac_ref option"
  mi_type :: link_type
  mi_macAddr :: addr
  mi_macPoA :: addr
  mi_capability :: "(32 word \<times> 32 word) option"
  mi_status :: interface_status_t
  mi_local :: "nat \<Rightarrow> user_ref list"
  mi_remote :: "nat \<Rightarrow> sess_ref list"
  mi_sess :: "sess_ref option"

text \<open>The constructors for a local MAC and for a remote link.\<close>

definition new_mac_iface :: "macs \<Rightarrow> mac_ref \<Rightarrow> mih_iface" where
  "new_mac_iface ms m = \<lparr>mi_mac = Some m, mi_type = mac_type ms m, mi_macAddr = mac_addr ms m, mi_macPoA = - 1,
     mi_capability = Some (link_capability_discover ms m), mi_status = LINK_STATUS_DOWN, mi_local = (\<lambda>_. []),
     mi_remote = (\<lambda>_. []), mi_sess = None\<rparr>"

definition new_link_iface :: "link_id \<Rightarrow> mih_iface" where
  "new_link_iface l = \<lparr>mi_mac = None, mi_type = li_type l, mi_macAddr = li_mac l, mi_macPoA = li_poa l,
     mi_capability = None, mi_status = LINK_STATUS_DOWN, mi_local = (\<lambda>_. []), mi_remote = (\<lambda>_. []), mi_sess = None\<rparr>"

definition isLocal :: "mih_iface \<Rightarrow> bool" where
  "isLocal i \<longleftrightarrow> mi_mac i \<noteq> None"

definition setMacPoA :: "addr \<Rightarrow> mih_iface \<Rightarrow> mih_iface" where
  "setMacPoA a i = i\<lparr>mi_macPoA := a\<rparr>"

definition setStatus :: "interface_status_t \<Rightarrow> mih_iface \<Rightarrow> mih_iface" where
  "setStatus st i = i\<lparr>mi_status := st\<rparr>"

definition getLinkCapability :: "mih_iface \<Rightarrow> (32 word \<times> 32 word) res" where
  "getLinkCapability i = need Uninitialised (mi_capability i) Inr"

section \<open>Subscriptions\<close>

definition sub_loop :: "'u \<Rightarrow> 32 word \<Rightarrow> (nat \<Rightarrow> 'u list) \<Rightarrow> nat \<Rightarrow> 'u list" where
  "sub_loop u events =
     fold (\<lambda>i t. if in_list events i then t(i := (if u \<in> set (t i) then t i else t i @ [u])) else t) [0..<LINK_LAST_EVENT]"

definition unsub_loop :: "'u \<Rightarrow> 32 word \<Rightarrow> (nat \<Rightarrow> 'u list) \<Rightarrow> nat \<Rightarrow> 'u list" where
  "unsub_loop u events = fold (\<lambda>i t. if in_list events i then t(i := remove1 u (t i)) else t) [0..<LINK_LAST_EVENT]"

definition event_subscribe :: "user_ref \<Rightarrow> 32 word \<Rightarrow> mih_iface \<Rightarrow> mih_iface" where
  "event_subscribe upper events i = i\<lparr>mi_local := sub_loop upper events (mi_local i)\<rparr>"

definition event_unsubscribe :: "user_ref \<Rightarrow> 32 word \<Rightarrow> mih_iface \<Rightarrow> mih_iface" where
  "event_unsubscribe upper events i = i\<lparr>mi_local := unsub_loop upper events (mi_local i)\<rparr>"

definition remote_event_subscribe :: "sess_ref \<Rightarrow> 32 word \<Rightarrow> mih_iface \<Rightarrow> mih_iface" where
  "remote_event_subscribe remote events i = i\<lparr>mi_remote := sub_loop remote events (mi_remote i)\<rparr>"

definition remote_event_unsubscribe :: "sess_ref \<Rightarrow> 32 word \<Rightarrow> mih_iface \<Rightarrow> mih_iface" where
  "remote_event_unsubscribe remote events i = i\<lparr>mi_remote := unsub_loop remote events (mi_remote i)\<rparr>"

definition getRegisteredLocalUser :: "mih_event_t \<Rightarrow> mih_iface \<Rightarrow> user_ref list" where
  "getRegisteredLocalUser e i = mi_local i (event_no e)"

definition getRegisteredRemoteUser :: "mih_event_t \<Rightarrow> mih_iface \<Rightarrow> sess_ref list" where
  "getRegisteredRemoteUser e i = mi_remote i (event_no e)"

text \<open>\<^verbatim>\<open>setMIHSession\<close> asserts that there is a session; \<open>None\<close> is NULL.\<close>

definition setMIHSession :: "sess_ref option \<Rightarrow> mih_iface \<Rightarrow> mih_iface res" where
  "setMIHSession s i = check AssertFail (s \<noteq> None) (Inr (i\<lparr>mi_sess := s\<rparr>))"

section \<open>The loops\<close>

lemma fold_array:
  "distinct is \<Longrightarrow> fold (\<lambda>i t. if P i then t(i := f (t i)) else t) is t j = (if j \<in> set is \<and> P j then f (t j) else t j)"
  by (induction "is" arbitrary: t) auto

lemma sub_loop_at [simp]:
  "sub_loop u events t i = (if i < LINK_LAST_EVENT \<and> bit events i \<and> u \<notin> set (t i) then t i @ [u] else t i)"
  unfolding sub_loop_def by (subst fold_array) auto

lemma unsub_loop_at [simp]:
  "unsub_loop u events t i = (if i < LINK_LAST_EVENT \<and> bit events i then remove1 u (t i) else t i)"
  unfolding unsub_loop_def by (subst fold_array) auto

section \<open>The contract of a subscription table\<close>

text \<open>
  The tables of local users and of remote sessions promise the same: a list of subscribers per event, to
  which an operation adds or from which it removes one subscriber for the events of its list. Over any
  sequence of operations such a table stands for a set per event, and its lists have no repetitions.
\<close>

datatype 'u sub_op = Sub 'u "32 word" | Unsub 'u "32 word"

fun set_step :: "'u sub_op \<Rightarrow> (nat \<Rightarrow> 'u set) \<Rightarrow> nat \<Rightarrow> 'u set" where
  "set_step (Sub u events) A = (\<lambda>i. if i < LINK_LAST_EVENT \<and> bit events i then insert u (A i) else A i)"
| "set_step (Unsub u events) A = (\<lambda>i. if i < LINK_LAST_EVENT \<and> bit events i then A i - {u} else A i)"

fun op_with :: "('u \<Rightarrow> 32 word \<Rightarrow> 's \<Rightarrow> 's) \<Rightarrow> ('u \<Rightarrow> 32 word \<Rightarrow> 's \<Rightarrow> 's) \<Rightarrow> 'u sub_op \<Rightarrow> 's \<Rightarrow> 's" where
  "op_with sub unsub (Sub u events) = sub u events"
| "op_with sub unsub (Unsub u events) = unsub u events"

locale subscription_table =
  fixes subs :: "'s \<Rightarrow> nat \<Rightarrow> 'u list"
    and sub :: "'u \<Rightarrow> 32 word \<Rightarrow> 's \<Rightarrow> 's"
    and unsub :: "'u \<Rightarrow> 32 word \<Rightarrow> 's \<Rightarrow> 's"
  assumes subs_sub: "subs (sub u events s) = sub_loop u events (subs s)"
    and subs_unsub: "subs (unsub u events s) = unsub_loop u events (subs s)"
begin

lemma op_distinct: "\<forall>i. distinct (subs s i) \<Longrightarrow> distinct (subs (op_with sub unsub x s) i)"
  by (cases x) (simp_all add: subs_sub subs_unsub)

lemma op_set:
  "\<forall>i. distinct (subs s i) \<Longrightarrow> (\<lambda>i. set (subs (op_with sub unsub x s) i)) = set_step x (\<lambda>i. set (subs s i))"
  by (cases x) (auto simp: subs_sub subs_unsub fun_eq_iff)

lemma ops_refine_sets:
  assumes "\<forall>i. distinct (subs s i)"
  shows "(\<forall>i. distinct (subs (fold (op_with sub unsub) xs s) i))
    \<and> (\<lambda>i. set (subs (fold (op_with sub unsub) xs s) i)) = fold set_step xs (\<lambda>i. set (subs s i))"
  using assms
proof (induction xs arbitrary: s)
  case (Cons x xs)
  then have "\<forall>i. distinct (subs (op_with sub unsub x s) i)" using op_distinct by blast
  from Cons.IH [OF this] show ?case using op_set [OF Cons.prems] by simp
qed simp

end

interpretation local_subs: subscription_table mi_local event_subscribe event_unsubscribe
  by unfold_locales (simp_all add: event_subscribe_def event_unsubscribe_def)

interpretation remote_subs: subscription_table mi_remote remote_event_subscribe remote_event_unsubscribe
  by unfold_locales (simp_all add: remote_event_subscribe_def remote_event_unsubscribe_def)

lemmas iface_ops = setStatus_def setMacPoA_def event_subscribe_def event_unsubscribe_def remote_event_subscribe_def
  remote_event_unsubscribe_def

section \<open>The bytes of a MAC address\<close>

lemma bit_255: "bit (0xFF :: 32 word) n \<longleftrightarrow> n < 8"
proof -
  have "(0xFF :: 32 word) = mask 8" by (simp add: mask_eq_exp_minus_1)
  then show ?thesis by (simp only: bit_mask_iff) auto
qed

lemma ucast_and_255: "ucast (x AND 0xFF) = (ucast x :: 8 word)" for x :: "32 word"
  by (intro bit_word_eqI, simp only: bit_and_iff bit_ucast_iff bit_255) auto

lemma byte_beyond: "8 \<le> k \<Longrightarrow> \<not> bit b (k + n)" for b :: "8 word"
  using bit_imp_le_length [of b "k + n"] by auto

lemma upt_4: "[0..<4] = [0, 1, 2, 3::nat]"
  by code_simp

lemma int_to_eth_bytes: "int_to_eth m = [ucast m, ucast (drop_bit 8 m), ucast (drop_bit 16 m), ucast (drop_bit 24 m), 0, 0]"
  by (simp add: int_to_eth_def upt_4 ucast_and_255)

lemma eth_to_int_bytes:
  "eth_to_int [b0, b1, b2, b3, b4, b5] = ucast b0 OR push_bit 8 (ucast b1) OR push_bit 16 (ucast b2) OR push_bit 24 (ucast b3)"
  by (simp add: eth_to_int_def upt_4 or.assoc)

lemmas byte_bits = bit_or_iff bit_push_bit_iff bit_ucast_iff bit_drop_bit_eq

lemma eth_to_int_inverse [simp]: "eth_to_int (int_to_eth m) = m"
  unfolding int_to_eth_bytes eth_to_int_bytes
proof (rule bit_word_eqI)
  fix n assume "n < LENGTH(32)"
  moreover have "n < 8 \<or> 8 \<le> n \<and> n < 16 \<or> 16 \<le> n \<and> n < 24 \<or> 24 \<le> n" by linarith
  ultimately show "bit (ucast (ucast m :: 8 word) OR push_bit 8 (ucast (ucast (drop_bit 8 m) :: 8 word))
      OR push_bit 16 (ucast (ucast (drop_bit 16 m) :: 8 word)) OR push_bit 24 (ucast (ucast (drop_bit 24 m) :: 8 word)) :: 32 word) n = bit m n"
    by (elim disjE) (auto simp: byte_bits)
qed

lemma int_to_eth_inverse: "int_to_eth (eth_to_int [b0, b1, b2, b3, 0, 0]) = [b0, b1, b2, b3, 0, 0]"
  unfolding int_to_eth_bytes eth_to_int_bytes by (auto intro!: bit_word_eqI simp: byte_bits byte_beyond)

section \<open>Properties\<close>

text \<open>
  A MAC address survives its journey in a message: reading the six bytes that were written gives the address
  back, and writing the address read from six bytes that end in two zeros gives these bytes.
\<close>

theorem mac_bytes_roundtrip:
  "eth_to_int (int_to_eth m) = m \<and> int_to_eth (eth_to_int [b0, b1, b2, b3, 0, 0]) = [b0, b1, b2, b3, 0, 0]"
  by (simp add: int_to_eth_inverse)

text \<open>
  The subscribers of an interface are a set per event: after any sequence of subscriptions and
  cancellations by local users, from a table without repetitions, each event has exactly the users whose last operation on it
  was a subscription, each of them once, and the remote subscribers are as before.
\<close>

theorem subscriptions_are_sets:
  assumes "\<forall>e. distinct (mi_local i e)"
  shows "let i' = fold (op_with event_subscribe event_unsubscribe) xs i
    in (\<forall>e. distinct (mi_local i' e)) \<and> (\<lambda>e. set (mi_local i' e)) = fold set_step xs (\<lambda>e. set (mi_local i e))
       \<and> mi_remote i' = mi_remote i"
proof -
  have "mi_remote (fold (op_with event_subscribe event_unsubscribe) xs i) = mi_remote i"
  proof (induction xs arbitrary: i)
    case (Cons x xs)
    have "mi_remote (op_with event_subscribe event_unsubscribe x i) = mi_remote i" by (cases x) (simp_all add: iface_ops)
    with Cons.IH show ?case by simp
  qed simp
  with local_subs.ops_refine_sets [OF assms] show ?thesis by (simp add: Let_def)
qed

theorem subscriptions_are_sets_witness:
  "mi_local (fold (op_with event_subscribe event_unsubscribe) [Sub 5 0x1F9, Sub 7 1, Sub 5 1, Unsub 5 8]
     (new_link_iface \<lparr>li_type = LINK_802_11, li_mac = 1, li_poa = 2\<rparr>)) 0 = [5, 7]
   \<and> set (mi_local (fold (op_with event_subscribe event_unsubscribe) [Sub 5 0x1F9, Sub 7 1, Sub 5 1, Unsub 5 8]
     (new_link_iface \<lparr>li_type = LINK_802_11, li_mac = 1, li_poa = 2\<rparr>)) 3) = {}"
proof -
  let ?i = "new_link_iface \<lparr>li_type = LINK_802_11, li_mac = 1, li_poa = 2\<rparr>"
  let ?x = "[Sub 5 0x1F9, Sub 7 1, Sub 5 1, Unsub 5 8] :: user_ref sub_op list"
  have "(\<lambda>e. set (mi_local (fold (op_with event_subscribe event_unsubscribe) ?x ?i) e)) = fold set_step ?x (\<lambda>e. set (mi_local ?i e))"
    using subscriptions_are_sets [of ?i ?x] by (simp add: new_link_iface_def Let_def)
  from fun_cong [OF this, of 3] show ?thesis
    by (simp add: new_link_iface_def event_subscribe_def event_unsubscribe_def LINK_LAST_EVENT_def bit_numeral_rec)
qed

end
