(* ===== verification/Mih_State.thy ===== *)
theory Mih_State
  imports Mih_Iface Timers Nemo
begin

text \<open>
  The media independent handover function \<^verbatim>\<open>MIHAgent\<close> (nist-2/hsntg/mih.h, mih.cc): its messages, its tables of
  interfaces, peers, sessions, pending requests and scans (\<^verbatim>\<open>MIHScan\<close> of nist-2/hsntg/mih-scan.h), their lookups,
  and the transport of messages with retransmission. Peers and sessions are objects that others
  point to, so they live in stores; nothing frees them. The payload of a message is the member of the union that
  its sender filled in; the sizes are those of the structures on a 32 or 64 bit x86 host. Calls into the
  users of the function and into the MACs are outputs, in the order of the code.
\<close>

section \<open>Messages\<close>

datatype mih_service = MIH_SYSTEM_SERVICE | MIH_EVENT_SERVICE | MIH_COMMAND_SERVICE | MIH_INFORMATION_SERVICE | NO_SERVICE

datatype mih_opcode = NO_OPCODE | MIH_REQUEST | MIH_RESPONSE | MIH_INDICATION

datatype mih_message_id =
    MIH_MSG_CAPABILITY_DISCOVER | MIH_MSG_EVENT_SUBSCRIBE | MIH_MSG_EVENT_UNSUBSCRIBE
  | MIH_MSG_LINK_UP | MIH_MSG_LINK_DOWN | MIH_MSG_LINK_GOING_DOWN | MIH_MSG_LINK_DETECTED | MIH_MSG_LINK_PARAMETERS_REPORT
  | MIH_MSG_LINK_EVENT_ROLLBACK | MIH_MSG_LINK_HANDOVER_IMMINENT | MIH_MSG_LINK_HANDOVER_COMPLETE
  | MIH_MSG_GET_STATUS | MIH_MSG_SWITCH | MIH_MSG_CONFIGURE | MIH_MSG_SCAN | MIH_MSG_HANDOVER_INITIATE
  | MIH_MSG_HANDOVER_PREPARE | MIH_MSG_HANDOVER_COMMIT | MIH_MSG_HANDOVER_COMPLETE | MIH_MSG_NETWORK_ADDRESS_INFORMATION
  | MIH_MSG_GET_INFORMATION | MIH_MSG_REGISTRATION | MIH_MSG_DEREGISTRATION | MIH_MSG_UNKNOWN

text \<open>A link identifier in a message.\<close>

record wire_link =
  wl_type :: link_type
  wl_mac :: eth
  wl_poa :: eth

definition to_wire :: "link_id \<Rightarrow> wire_link" where
  "to_wire l = \<lparr>wl_type = li_type l, wl_mac = int_to_eth (li_mac l), wl_poa = int_to_eth (li_poa l)\<rparr>"

definition of_wire :: "wire_link \<Rightarrow> link_id" where
  "of_wire w = \<lparr>li_type = wl_type w, li_mac = eth_to_int (wl_mac w), li_poa = eth_to_int (wl_poa w)\<rparr>"

lemma of_wire_to_wire [simp]: "of_wire (to_wire l) = l"
  by (simp add: of_wire_def to_wire_def)

record mih_cap_disc =
  supported_event_list :: "32 word"
  supported_command_list :: "32 word"
  supported_transport_list :: "32 word"
  supported_query_type_list :: "8 word"

record mih_reg_req =
  rq_destID :: "32 word"
  rq_code :: "8 word"
  msb_session :: "16 word"

record mih_reg_rsp =
  rr_destID :: "32 word"
  rr_validity :: "32 word"
  reg_result :: "8 word"
  rr_failure_code :: "8 word"
  lsb_session :: "16 word"

record mih_dereg_rsp =
  dr_destID :: "32 word"
  dr_result_code :: "8 word"
  dr_failure_code :: "8 word"

record mih_link_up_ind =
  ui_link :: wire_link
  ui_oldAR :: eth
  ui_newAR :: eth
  ui_ipRenewalFlag :: "8 word"
  ui_ipConfigurationMethod :: "16 word"

record mih_link_down_ind =
  di_link :: wire_link
  di_oldAR :: eth
  di_reasonCode :: "8 word"

record mih_link_going_down_ind =
  gi_link :: wire_link
  gi_timeInterval :: "16 word"
  gi_confidenceLevel :: "8 word"
  gi_id :: "16 word"

record mih_scan_rsp_entry =
  sr_link :: wire_link
  sr_size :: "8 word"
  sr_data :: "addr list"

record mih_get_status_rsp_entry =
  gs_operationMode :: "8 word"
  gs_link :: wire_link

datatype mih_payload =
    NoPayload
  | CapDisc mih_cap_disc
  | RegReq mih_reg_req
  | RegRsp mih_reg_rsp
  | DeregReq "32 word"
  | DeregRsp mih_dereg_rsp
  | UpInd mih_link_up_ind
  | DownInd mih_link_down_ind
  | GoingDownInd mih_link_going_down_ind
  | RollbackInd wire_link "16 word"
  | DetectedInd wire_link "8 word"
  | ParametersInd wire_link "link_parameter_s list"
  | ImminentInd wire_link wire_link eth eth
  | CompleteInd wire_link eth eth
  | EventReq wire_link "32 word"
  | EventRsp wire_link "32 word"
  | GetStatusReq "32 word"
  | GetStatusRsp "32 word" "mih_get_status_rsp_entry list"
  | SwitchReq "8 word" wire_link wire_link "32 word"
  | ScanReq "wire_link list"
  | ScanRsp "mih_scan_rsp_entry list"

record hdr_mih =
  ack_req :: bool
  ack_rsp :: bool
  mih_service_id :: mih_service
  mih_opcode :: mih_opcode
  mih_aid :: mih_message_id
  transaction_id :: "16 word"
  mihf_id :: "32 word"
  session_id :: "32 word"
  payload :: mih_payload

record mih_packet = packet +
  mih_hdr :: hdr_mih

definition zero_mih :: hdr_mih where
  "zero_mih = \<lparr>ack_req = False, ack_rsp = False, mih_service_id = NO_SERVICE, mih_opcode = NO_OPCODE, mih_aid = MIH_MSG_UNKNOWN,
     transaction_id = 0, mihf_id = 0, session_id = 0, payload = NoPayload\<rparr>"

text \<open>\<^verbatim>\<open>sizeof\<close> of the common header and of the structures whose size is used.\<close>

definition hdr_mih_common_size :: int where "hdr_mih_common_size = 16"
definition mih_cap_disc_size :: int where "mih_cap_disc_size = 16"
definition mih_reg_req_size :: int where "mih_reg_req_size = 8"
definition mih_reg_rsp_size :: int where "mih_reg_rsp_size = 12"
definition mih_dereg_req_size :: int where "mih_dereg_req_size = 4"
definition mih_dereg_rsp_size :: int where "mih_dereg_rsp_size = 8"
definition mih_link_up_ind_size :: int where "mih_link_up_ind_size = 32"
definition mih_link_down_ind_size :: int where "mih_link_down_ind_size = 24"
definition mih_link_going_down_ind_size :: int where "mih_link_going_down_ind_size = 36"
definition mih_link_rollback_ind_size :: int where "mih_link_rollback_ind_size = 20"
definition mih_handover_imminent_ind_size :: int where "mih_handover_imminent_ind_size = 44"
definition mih_handover_complete_ind_size :: int where "mih_handover_complete_ind_size = 28"
definition mih_event_sub_size :: int where "mih_event_sub_size = 20"
definition mih_scan_req_size :: int where "mih_scan_req_size = 132"
definition mih_get_status_rsp_size :: int where "mih_get_status_rsp_size = 296"

definition MAX_INTERFACE_PER_NODE :: nat where "MAX_INTERFACE_PER_NODE = 4"

definition MIH_CAP_DELAY :: time where "MIH_CAP_DELAY = 1 / 10"

section \<open>State\<close>

type_synonym mihf_ref = nat

text \<open>\<open>mf_session\<close>: not set, NULL or a session. The field \<^verbatim>\<open>macAddr\<close> is never used.\<close>

record mihf_info =
  mf_id :: "32 word"
  mf_address :: addr
  mf_events :: "32 word"
  mf_commands :: "32 word"
  mf_transport :: "32 word"
  mf_query_type :: "8 word"
  mf_session :: "sess_ref option option"
  mf_local_mac :: "mac_ref option"

record session_info =
  ss_id :: "32 word"
  ss_macAddr :: addr
  ss_mihf :: "mihf_ref option"
  ss_lastTID :: int

record mih_pending_req =
  pr_user :: "user_ref option"
  pr_pkt :: mih_packet
  pr_tid :: "16 word"
  pr_waitAck :: "bool option"
  pr_waitRsp :: "bool option"
  pr_timer :: timer
  pr_timeout :: time
  pr_retx :: int
  pr_session :: "sess_ref option"
  pr_l2transport :: bool
  pr_mac :: mac_ref

text \<open>A scan is local when it has a user. A local scan has no transaction.\<close>

record mih_scan_info =
  sc_user :: "user_ref option"
  sc_req :: "wire_link list"
  sc_session :: "32 word"
  sc_tid :: "16 word option"
  sc_rsp :: "mih_scan_rsp_entry list"

record mih_mib =
  supported_events :: "32 word"
  supported_commands :: "32 word"
  supported_transport :: "32 word"
  supported_query_type :: "32 word"
  es_timeout :: time
  cs_timeout :: time
  is_timeout :: time
  retryLimit :: int

text \<open>
  \<open>stray_timers\<close>: a request whose transaction is still in the map is not inserted, but its timer runs.
  \<open>mih_target\<close> is the node whose entry the target of the agent is.
\<close>

record mih_agent = agent +
  mihfId :: "32 word"
  mihmib :: mih_mib
  ifaces :: "mih_iface list"
  mihf_at :: "mihf_ref \<Rightarrow> mihf_info"
  next_mihf :: mihf_ref
  peer_mihfs :: "mihf_ref list"
  sess_at :: "sess_ref \<Rightarrow> session_info"
  next_sess :: sess_ref
  sessions :: "sess_ref list"
  pending_reqs :: "16 word \<Rightarrow> mih_pending_req option"
  stray_timers :: "16 word list"
  management_users :: "user_ref list"
  scan_reqs :: "mih_scan_info list"
  transactionId :: int
  mih_target :: "node_ref option"

definition new_mih_agent :: "mih_agent \<Rightarrow> 32 word \<Rightarrow> mih_agent" where
  "new_mih_agent s MIHIndex = s\<lparr>mihfId := MIHIndex, ifaces := [], peer_mihfs := [], sessions := [], pending_reqs := (\<lambda>_. None), stray_timers := [],
     management_users := [], scan_reqs := [], transactionId := 0\<rparr>"

text \<open>What the function hands to its users.\<close>

datatype user_call =
    MihEvent link_event
  | CapDiscConf hdr_mih
  | RegisterInd hdr_mih
  | RegisterConf mih_reg_rsp
  | DeregisterInd hdr_mih
  | DeregisterConf mih_dereg_rsp
  | EventSubConf wire_link "32 word"
  | EventUnsubConf wire_link "32 word"
  | GetStatusConf hdr_mih
  | ScanConf "mih_scan_rsp_entry list"

datatype mih_out =
    MihSend "node_ref option" mih_packet
  | MihSchedule node_ref mih_packet time
  | ToUser user_ref user_call
  | MacConnect mac_ref addr
  | MacDisconnect mac_ref
  | MacSetMode mac_ref int
  | MacScan mac_ref

type_synonym mih_result = "(mih_agent \<times> mih_out list) res"

section \<open>Lookups\<close>

definition find_iface :: "mih_agent \<Rightarrow> addr \<Rightarrow> mih_iface option" where
  "find_iface s m = find (\<lambda>i. mi_macAddr i = m) (ifaces s)"

text \<open>The update of the interface that the lookup returns.\<close>

fun upd_first :: "('a \<Rightarrow> bool) \<Rightarrow> ('a \<Rightarrow> 'a) \<Rightarrow> 'a list \<Rightarrow> 'a list" where
  "upd_first P f [] = []"
| "upd_first P f (x # xs) = (if P x then f x # xs else x # upd_first P f xs)"

definition upd_iface :: "addr \<Rightarrow> (mih_iface \<Rightarrow> mih_iface) \<Rightarrow> mih_agent \<Rightarrow> mih_agent" where
  "upd_iface m f s = s\<lparr>ifaces := upd_first (\<lambda>i. mi_macAddr i = m) f (ifaces s)\<rparr>"

definition is_local_mac :: "mih_agent \<Rightarrow> addr \<Rightarrow> bool" where
  "is_local_mac s m = (case find_iface s m of None \<Rightarrow> False | Some i \<Rightarrow> isLocal i)"

text \<open>\<^verbatim>\<open>get_mac\<close>, whose result may be NULL\<close>

definition mih_get_mac :: "mih_agent \<Rightarrow> addr \<Rightarrow> mac_ref option res" where
  "mih_get_mac s m = need NullPtr (find_iface s m) (\<lambda>i. Inr (mi_mac i))"

definition get_local_mac :: "mih_agent \<Rightarrow> mac_ref list" where
  "get_local_mac s = map (the \<circ> mi_mac) (filter isLocal (ifaces s))"

definition get_mac_for_node :: "net \<Rightarrow> macs \<Rightarrow> mih_agent \<Rightarrow> addr \<Rightarrow> mac_ref option" where
  "get_mac_for_node n ms s a = find (\<lambda>m. node_addr n (mac_node ms m) = a) (get_local_mac s)"

text \<open>Which end of a link is local, the terminal or the point of attachment?\<close>

definition local_end :: "mih_agent \<Rightarrow> link_id \<Rightarrow> addr" where
  "local_end s l = (if is_local_mac s (li_mac l) then li_mac l else li_poa l)"

definition get_mihf_info :: "mih_agent \<Rightarrow> 32 word \<Rightarrow> mihf_ref option" where
  "get_mihf_info s i = find (\<lambda>r. mf_id (mihf_at s r) = i) (peer_mihfs s)"

definition get_session :: "mih_agent \<Rightarrow> 32 word \<Rightarrow> sess_ref option" where
  "get_session s i = find (\<lambda>r. ss_id (sess_at s r) = i) (sessions s)"

definition getMihfId :: "mih_agent \<Rightarrow> 32 word \<Rightarrow> 32 word res" where
  "getMihfId s i = need NullPtr (get_session s i) (\<lambda>r. need NullPtr (ss_mihf (sess_at s r)) (\<lambda>f. Inr (mf_id (mihf_at s f))))"

definition delete_session :: "32 word \<Rightarrow> mih_agent \<Rightarrow> mih_agent" where
  "delete_session i s =
     (case get_session s i of
        None \<Rightarrow> s
      | Some r \<Rightarrow> s\<lparr>ifaces := map (remote_event_unsubscribe r 0xFFFFFFFF) (ifaces s), sessions := remove1 r (sessions s)\<rparr>)"

definition upd_mihf :: "mihf_ref \<Rightarrow> (mihf_info \<Rightarrow> mihf_info) \<Rightarrow> mih_agent \<Rightarrow> mih_agent" where
  "upd_mihf r f s = s\<lparr>mihf_at := (mihf_at s)(r := f (mihf_at s r))\<rparr>"

text \<open>The session of a peer, read as a pointer.\<close>

definition mihf_session :: "mih_agent \<Rightarrow> mihf_ref \<Rightarrow> sess_ref option res" where
  "mihf_session s r = need Uninitialised (mf_session (mihf_at s r)) Inr"

text \<open>
  The identifier of the session that agent \<open>a\<close> requested from agent \<open>b\<close>: as \<^verbatim>\<open>+\<close> binds tighter than \<^verbatim>\<open><<\<close>
  in C++, \<^verbatim>\<open>a << 16 + b\<close> shifts by \<open>16 + b\<close>; a shift by the width of the type or more is undefined.
\<close>

definition session_number :: "32 word \<Rightarrow> 32 word \<Rightarrow> 32 word res" where
  "session_number a b = (let k = unat (16 + b) in check BadShift (k < 32) (Inr (push_bit k a)))"

section \<open>Requests\<close>

text \<open>The next transaction: \<^verbatim>\<open>transactionId_++\<close> stored in 16 bits.\<close>

definition next_tid :: "mih_agent \<Rightarrow> 16 word" where
  "next_tid s = word_of_int (transactionId s)"

definition bump_tid :: "mih_agent \<Rightarrow> mih_agent" where
  "bump_tid s = s\<lparr>transactionId := transactionId s + 1\<rparr>"

text \<open>\<^verbatim>\<open>map::insert\<close> leaves an entry that is there; \<^verbatim>\<open>*find\<close> of a missing one is undefined.\<close>

definition insert_request :: "16 word \<Rightarrow> mih_pending_req \<Rightarrow> mih_agent \<Rightarrow> mih_agent" where
  "insert_request tid r s =
     (if pending_reqs s tid = None then s\<lparr>pending_reqs := (pending_reqs s)(tid := Some r)\<rparr>
      else s\<lparr>stray_timers := tid # stray_timers s\<rparr>)"

definition pending_at :: "mih_agent \<Rightarrow> 16 word \<Rightarrow> mih_pending_req res" where
  "pending_at s tid = need OutOfRange (pending_reqs s tid) Inr"

definition clear_request :: "16 word \<Rightarrow> mih_agent \<Rightarrow> mih_agent" where
  "clear_request tid s = s\<lparr>pending_reqs := (pending_reqs s)(tid := None)\<rparr>"

text \<open>\<open>g\<close>: the fields of a fresh request that are not set.\<close>

definition new_request :: "time \<Rightarrow> user_ref option \<Rightarrow> mih_packet \<Rightarrow> time \<Rightarrow> bool \<Rightarrow> mac_ref \<Rightarrow> mih_pending_req" where
  "new_request now user p timeout l2 mac = \<lparr>pr_user = user, pr_pkt = p, pr_tid = transaction_id (mih_hdr p), pr_waitAck = None,
     pr_waitRsp = None, pr_timer = TIMER_PENDING (now + timeout), pr_timeout = timeout, pr_retx = 0, pr_session = None,
     pr_l2transport = l2, pr_mac = mac\<rparr>"

section \<open>Transport\<close>

definition mih_alloc :: "mih_agent \<Rightarrow> mih_packet" where
  "mih_alloc s = packet.extend (allocpkt s) \<lparr>mih_hdr = zero_mih\<rparr>"

text \<open>A packet of the protocol with the common fields filled in.\<close>

definition mk_mih :: "mih_agent \<Rightarrow> int \<Rightarrow> mih_service \<Rightarrow> mih_opcode \<Rightarrow> mih_message_id \<Rightarrow> 16 word \<Rightarrow> 32 word \<Rightarrow> mih_payload \<Rightarrow> mih_packet" where
  "mk_mih s len srv op aid tid sid pl = (mih_alloc s)\<lparr>ptype := PT_MIH, psize := hdr_mih_common_size + len,
     mih_hdr := zero_mih\<lparr>mih_service_id := srv, mih_opcode := op, mih_aid := aid, transaction_id := tid, session_id := sid, payload := pl\<rparr>\<rparr>"

definition l2_transport :: "mih_service \<Rightarrow> mihf_info \<Rightarrow> bool" where
  "l2_transport srv f = (case srv of
     MIH_EVENT_SERVICE \<Rightarrow> mf_transport f AND 1 \<noteq> 0
   | MIH_COMMAND_SERVICE \<Rightarrow> drop_bit 8 (mf_transport f) AND 1 \<noteq> 0
   | MIH_INFORMATION_SERVICE \<Rightarrow> drop_bit 16 (mf_transport f) AND 1 \<noteq> 0
   | _ \<Rightarrow> False)"

definition l3_transport :: "mih_service \<Rightarrow> mihf_info \<Rightarrow> bool" where
  "l3_transport srv f = (case srv of
     MIH_EVENT_SERVICE \<Rightarrow> mf_transport f AND 2 \<noteq> 0
   | MIH_COMMAND_SERVICE \<Rightarrow> drop_bit 8 (mf_transport f) AND 2 \<noteq> 0
   | MIH_INFORMATION_SERVICE \<Rightarrow> drop_bit 16 (mf_transport f) AND 2 \<noteq> 0
   | _ \<Rightarrow> False)"

definition service_timeout :: "mih_service \<Rightarrow> mih_mib \<Rightarrow> time" where
  "service_timeout srv b = (case srv of
     MIH_EVENT_SERVICE \<Rightarrow> es_timeout b | MIH_COMMAND_SERVICE \<Rightarrow> cs_timeout b | MIH_INFORMATION_SERVICE \<Rightarrow> is_timeout b | _ \<Rightarrow> 0)"

text \<open>The layer 3 fields of a message to the peer \<open>f\<close> by the interface of a MAC.\<close>

definition route_l3 :: "net \<Rightarrow> macs \<Rightarrow> mih_agent \<Rightarrow> mihf_info \<Rightarrow> mac_ref \<Rightarrow> mih_packet \<Rightarrow> mih_packet" where
  "route_l3 n ms s f m p = p\<lparr>saddr := node_addr n (mac_node ms m), daddr := mf_address f, dport := here_port s,
     ptype := PT_MIH, psize := psize p + 40\<rparr>"

text \<open>
  \<^verbatim>\<open>send_mih_message\<close>; the second result is the packet as the caller finds it afterwards. Over layer 2 nothing is
  passed to the MAC, and without a transport the message is dropped.
\<close>

definition send_mih_message ::
  "time \<Rightarrow> net \<Rightarrow> macs \<Rightarrow> user_ref option \<Rightarrow> mih_packet \<Rightarrow> sess_ref option \<Rightarrow> mih_agent \<Rightarrow> (mih_agent \<times> mih_packet \<times> mih_out list) res" where
  "send_mih_message now n ms user p session s =
     need AssertFail session (\<lambda>r.
     need AssertFail (ss_mihf (sess_at s r)) (\<lambda>fr.
     bind_res (mih_get_mac s (ss_macAddr (sess_at s r))) (\<lambda>mo.
     need AssertFail mo (\<lambda>m.
       let f = mihf_at s fr; h = mih_hdr p; srv = mih_service_id h; l2 = l2_transport srv f
       in if \<not> l2 \<and> \<not> l3_transport srv f then Inr (s, p, [])
          else
            let p' = (if l2 then p else route_l3 n ms s f m p);
                req = (new_request now user p' (service_timeout srv (mihmib s)) l2 m)\<lparr>pr_session := Some r,
                  pr_waitAck := (if ack_req h then Some True else None), pr_waitRsp := (if mih_opcode h = MIH_REQUEST then Some True else None)\<rparr>;
                wait = (ack_req h \<or> mih_opcode h = MIH_REQUEST)
            in check AssertFail (wait \<longrightarrow> user \<noteq> None)
                 (let s1 = (if wait then insert_request (transaction_id h) req s else s)
                  in if l2 then Inr (s1, p', [])
                     else Inr (s1\<lparr>mih_target := Some (mac_node ms m)\<rparr>, p', [MihSend (Some (mac_node ms m)) p']))))))"

definition send_message :: "time \<Rightarrow> net \<Rightarrow> macs \<Rightarrow> user_ref option \<Rightarrow> mih_packet \<Rightarrow> sess_ref option \<Rightarrow> mih_agent \<Rightarrow> mih_result" where
  "send_message now n ms user p session s = bind_res (send_mih_message now n ms user p session s) (\<lambda>(s', _, out). Inr (s', out))"

section \<open>Retransmission\<close>

definition process_request_timer :: "time \<Rightarrow> macs \<Rightarrow> 16 word \<Rightarrow> mih_agent \<Rightarrow> mih_result" where
  "process_request_timer now ms tid s =
     bind_res (pending_at s tid) (\<lambda>r.
       if pr_retx r < retryLimit (mihmib s) then
         (if pr_l2transport r then Inr (s\<lparr>pending_reqs := (pending_reqs s)(tid := Some (r\<lparr>pr_retx := pr_retx r + 1\<rparr>))\<rparr>, [])
          else Inr (s\<lparr>pending_reqs := (pending_reqs s)(tid := Some (r\<lparr>pr_retx := pr_retx r + 1,
                        pr_timer := timer_resched now (cs_timeout (mihmib s)) (pr_timer r)\<rparr>)),
                      mih_target := Some (mac_node ms (pr_mac r))\<rparr>,
                    [MihSend (Some (mac_node ms (pr_mac r))) (pr_pkt r)]))
       else Inr (clear_request tid s, []))"

text \<open>The expiry of the timer of a request, and of a stray timer.\<close>

definition request_timer :: "16 word \<Rightarrow> mih_agent \<Rightarrow> timer" where
  "request_timer tid s = (case pending_reqs s tid of Some r \<Rightarrow> pr_timer r | None \<Rightarrow> TIMER_IDLE)"

definition set_request_timer :: "16 word \<Rightarrow> timer \<Rightarrow> mih_agent \<Rightarrow> mih_agent" where
  "set_request_timer tid t s = s\<lparr>pending_reqs := (pending_reqs s)(tid := map_option (pr_timer_update (\<lambda>_. t)) (pending_reqs s tid))\<rparr>"

definition request_expire :: "time \<Rightarrow> macs \<Rightarrow> 16 word \<Rightarrow> mih_agent \<Rightarrow> mih_result" where
  "request_expire now ms tid s = timer_handle (request_timer tid) (set_request_timer tid) (process_request_timer now ms tid) s"

definition stray_expire :: "time \<Rightarrow> macs \<Rightarrow> 16 word \<Rightarrow> mih_agent \<Rightarrow> mih_result" where
  "stray_expire now ms tid s = process_request_timer now ms tid (s\<lparr>stray_timers := remove1 tid (stray_timers s)\<rparr>)"

section \<open>A sample agent\<close>

definition demo_mib :: mih_mib where
  "demo_mib = \<lparr>supported_events = 0xFF, supported_commands = 0xFF, supported_transport = 0x02020202, supported_query_type = 0, es_timeout = 1 / 2,
     cs_timeout = 1 / 2, is_timeout = 1 / 2, retryLimit = 3\<rparr>"

definition demo_mih :: "32 word \<Rightarrow> addr \<Rightarrow> mac_ref list \<Rightarrow> mih_agent" where
  "demo_mih i a macs = (new_mih_agent (agent.extend (demo_agent a) \<lparr>mihfId = 0, mihmib = demo_mib, ifaces = [],
     mihf_at = (\<lambda>_. \<lparr>mf_id = 0, mf_address = 0, mf_events = 0, mf_commands = 0, mf_transport = 0, mf_query_type = 0, mf_session = None, mf_local_mac = None\<rparr>),
     next_mihf = 0, peer_mihfs = [], sess_at = (\<lambda>_. \<lparr>ss_id = 0, ss_macAddr = 0, ss_mihf = None, ss_lastTID = 0\<rparr>), next_sess = 0, sessions = [],
     pending_reqs = (\<lambda>_. None), stray_timers = [], management_users = [], scan_reqs = [], transactionId = 0, mih_target = None\<rparr>) i)
       \<lparr>ifaces := map (new_mac_iface demo_macs) macs\<rparr>"

lemmas demo_mih_defs = demo_mih_def new_mih_agent_def agent.defs demo_agent_def demo_mib_def demo_macs_def new_mac_iface_def

end
