(* ===== verification/Mih_Events.thy ===== *)
theory Mih_Events
  imports Mih_State
begin

text \<open>
  Link events in the media independent handover function (nist-2/hsntg/mih.cc): each sets the status of the interface
  at the local end of the link, is handed to the local subscribers and sent to the sessions of the remote ones.
  The results of scans (nist-2/hsntg/mih-scan.cc) are collected per request.
\<close>

section \<open>Notification\<close>

text \<open>
  \<open>mk\<close> builds the message for a session. With \<open>again\<close> the code sends the packet a second time, by the
  target of the agent, after \<^verbatim>\<open>send_mih_message\<close> has sent its copy.
\<close>

fun notify_remote ::
  "time \<Rightarrow> net \<Rightarrow> macs \<Rightarrow> (mih_agent \<Rightarrow> sess_ref \<Rightarrow> mih_agent \<times> mih_packet) \<Rightarrow> bool \<Rightarrow> sess_ref list \<Rightarrow> mih_agent \<Rightarrow> mih_result" where
  "notify_remote now n ms mk again [] s = Inr (s, [])"
| "notify_remote now n ms mk again (r # rs) s =
     (let (s1, p) = mk s r
      in bind_res (send_mih_message now n ms None p (Some r) s1) (\<lambda>(s2, p', out).
         bind_res (notify_remote now n ms mk again rs s2) (\<lambda>(s3, out2).
           Inr (s3, out @ (if again then [MihSend (mih_target s2) p'] else []) @ out2))))"

text \<open>An indication with its own transaction, and one without transaction and session.\<close>

definition indication :: "int \<Rightarrow> mih_message_id \<Rightarrow> mih_payload \<Rightarrow> mih_agent \<Rightarrow> sess_ref \<Rightarrow> mih_agent \<times> mih_packet" where
  "indication len aid pl s r =
     (bump_tid s, mk_mih s len MIH_EVENT_SERVICE MIH_INDICATION aid (next_tid s) (ss_id (sess_at s r)) pl)"

definition bare_indication :: "int \<Rightarrow> mih_message_id \<Rightarrow> mih_payload \<Rightarrow> mih_agent \<Rightarrow> sess_ref \<Rightarrow> mih_agent \<times> mih_packet" where
  "bare_indication len aid pl s r = (s, mk_mih s len MIH_EVENT_SERVICE MIH_INDICATION aid 0 0 pl)"

text \<open>
  The common course of the handlers: \<open>le\<close> is the event whose local subscribers are told, \<open>re\<close> that of the remote ones.
\<close>

definition handle_event ::
  "time \<Rightarrow> net \<Rightarrow> macs \<Rightarrow> link_id \<Rightarrow> interface_status_t option \<Rightarrow> mih_event_t \<Rightarrow> link_event \<Rightarrow> mih_event_t
     \<Rightarrow> (mih_agent \<Rightarrow> sess_ref \<Rightarrow> mih_agent \<times> mih_packet) \<Rightarrow> bool \<Rightarrow> mih_agent \<Rightarrow> mih_result" where
  "handle_event now n ms l st le ev re mk again s =
     (let localMac = local_end s l;
          s1 = (case st of None \<Rightarrow> s | Some x \<Rightarrow> upd_iface localMac (setStatus x) s)
      in need AssertFail (find_iface s1 localMac) (\<lambda>info.
         bind_res (notify_remote now n ms mk again (getRegisteredRemoteUser re info) s1) (\<lambda>(s2, out).
           Inr (s2, map (\<lambda>u. ToUser u (MihEvent ev)) (getRegisteredLocalUser le info) @ out))))"

section \<open>The events\<close>

definition mih_process_link_up :: "time \<Rightarrow> net \<Rightarrow> macs \<Rightarrow> link_up_t \<Rightarrow> mih_agent \<Rightarrow> mih_result" where
  "mih_process_link_up now n ms e =
     handle_event now n ms (lu_link e) (Some LINK_STATUS_UP) MIH_LINK_UP (LinkUp e) MIH_LINK_UP
       (indication mih_link_up_ind_size MIH_MSG_LINK_UP
         (UpInd \<lparr>ui_link = to_wire (lu_link e), ui_oldAR = replicate 6 0, ui_newAR = replicate 6 0, ui_ipRenewalFlag = 0, ui_ipConfigurationMethod = 0\<rparr>))
       False"

definition mih_process_link_down :: "time \<Rightarrow> net \<Rightarrow> macs \<Rightarrow> link_down_t \<Rightarrow> mih_agent \<Rightarrow> mih_result" where
  "mih_process_link_down now n ms e =
     handle_event now n ms (ld_link e) (Some LINK_STATUS_DOWN) MIH_LINK_DOWN (LinkDown e) MIH_LINK_DOWN
       (indication mih_link_down_ind_size MIH_MSG_LINK_DOWN
         (DownInd \<lparr>di_link = to_wire (ld_link e), di_oldAR = int_to_eth (ld_oldAR e), di_reasonCode = word_of_int (ld_reason e)\<rparr>))
       False"

definition mih_process_link_going_down :: "time \<Rightarrow> net \<Rightarrow> macs \<Rightarrow> link_going_down_t \<Rightarrow> mih_agent \<Rightarrow> mih_result" where
  "mih_process_link_going_down now n ms e =
     handle_event now n ms (lg_link e) (Some LINK_STATUS_GOING_DOWN) MIH_LINK_GOING_DOWN (LinkGoingDown e) MIH_LINK_GOING_DOWN
       (indication mih_link_going_down_ind_size MIH_MSG_LINK_GOING_DOWN
         (GoingDownInd \<lparr>gi_link = to_wire (lg_link e), gi_timeInterval = ucast (lg_interval e div 1000),
           gi_confidenceLevel = word_of_int (lg_confidence e), gi_id = ucast (lg_id e)\<rparr>))
       False"

definition mih_process_link_detected :: "time \<Rightarrow> net \<Rightarrow> macs \<Rightarrow> link_detected_t \<Rightarrow> mih_agent \<Rightarrow> mih_result" where
  "mih_process_link_detected now n ms e =
     handle_event now n ms (lt_link e) (Some LINK_STATUS_DOWN) MIH_LINK_DETECTED (LinkDetected e) MIH_LINK_DETECTED
       (indication mih_link_up_ind_size MIH_MSG_LINK_DETECTED (DetectedInd (to_wire (lt_link e)) (of_bool (lt_mihCapability e))))
       False"

text \<open>
  The local subscribers of \<^verbatim>\<open>MIH_LINK_GOING_DOWN\<close> get the report, with the point of attachment \<open>g\<close> unset.
\<close>

definition mih_process_link_parameters_report :: "time \<Rightarrow> addr \<Rightarrow> net \<Rightarrow> macs \<Rightarrow> link_parameters_report_t \<Rightarrow> mih_agent \<Rightarrow> mih_result" where
  "mih_process_link_parameters_report now g n ms e s =
     check OutOfRange (length (lp_list e) \<le> MAX_NB_PARAM)
       (handle_event now n ms (lp_link e) None MIH_LINK_GOING_DOWN (LinkParametersReport (e\<lparr>lp_link := (lp_link e)\<lparr>li_poa := g\<rparr>\<rparr>))
         MIH_LINK_PARAMETERS_REPORT
         (bare_indication (66 - hdr_mih_common_size) MIH_MSG_LINK_PARAMETERS_REPORT
           (ParametersInd \<lparr>wl_type = LINK_GENERIC, wl_mac = int_to_eth (li_mac (lp_link e)), wl_poa = replicate 6 0\<rparr> (lp_list e)))
         False s)"

definition mih_process_link_handover_imminent :: "time \<Rightarrow> net \<Rightarrow> macs \<Rightarrow> link_handover_imminent_t \<Rightarrow> mih_agent \<Rightarrow> mih_result" where
  "mih_process_link_handover_imminent now n ms e =
     handle_event now n ms (hi_link e) (Some LINK_STATUS_HANDOVER_IMMINENT) MIH_LINK_HANDOVER_IMMINENT (LinkHandoverImminent e)
       MIH_LINK_HANDOVER_IMMINENT
       (bare_indication mih_handover_imminent_ind_size MIH_MSG_LINK_HANDOVER_IMMINENT
         (ImminentInd (to_wire (hi_link e)) (to_wire (hi_newLink e)) (int_to_eth (hi_oldAR e)) (int_to_eth (hi_newAR e))))
       True"

definition mih_process_link_handover_complete :: "time \<Rightarrow> net \<Rightarrow> macs \<Rightarrow> link_handover_complete_t \<Rightarrow> mih_agent \<Rightarrow> mih_result" where
  "mih_process_link_handover_complete now n ms e =
     handle_event now n ms (hc_link e) (Some LINK_STATUS_HANDOVER_COMPLETE) MIH_LINK_HANDOVER_COMPLETE (LinkHandoverComplete e)
       MIH_LINK_HANDOVER_COMPLETE
       (bare_indication mih_handover_complete_ind_size MIH_MSG_LINK_HANDOVER_COMPLETE
         (CompleteInd (to_wire (hc_link e)) (int_to_eth (hc_oldAR e)) (int_to_eth (hc_newAR e))))
       True"

definition mih_process_link_rollback :: "time \<Rightarrow> net \<Rightarrow> macs \<Rightarrow> link_rollback_t \<Rightarrow> mih_agent \<Rightarrow> mih_result" where
  "mih_process_link_rollback now n ms e =
     handle_event now n ms (lr_link e) (Some LINK_STATUS_UP) MIH_LINK_EVENT_ROLLBACK (LinkRollback e) MIH_LINK_EVENT_ROLLBACK
       (indication mih_link_rollback_ind_size MIH_MSG_LINK_EVENT_ROLLBACK (RollbackInd (to_wire (lr_link e)) (ucast (lr_id e))))
       False"

definition recv_event :: "time \<Rightarrow> addr \<Rightarrow> net \<Rightarrow> macs \<Rightarrow> link_event \<Rightarrow> mih_agent \<Rightarrow> mih_result" where
  "recv_event now g n ms e =
     (case e of
        LinkUp x \<Rightarrow> mih_process_link_up now n ms x
      | LinkDown x \<Rightarrow> mih_process_link_down now n ms x
      | LinkGoingDown x \<Rightarrow> mih_process_link_going_down now n ms x
      | LinkDetected x \<Rightarrow> mih_process_link_detected now n ms x
      | LinkParametersReport x \<Rightarrow> mih_process_link_parameters_report now g n ms x
      | LinkRollback x \<Rightarrow> mih_process_link_rollback now n ms x
      | LinkHandoverImminent x \<Rightarrow> mih_process_link_handover_imminent now n ms x
      | LinkHandoverComplete x \<Rightarrow> mih_process_link_handover_complete now n ms x)"

lemmas event_handlers = mih_process_link_up_def mih_process_link_down_def mih_process_link_going_down_def mih_process_link_detected_def
  mih_process_link_parameters_report_def mih_process_link_handover_imminent_def mih_process_link_handover_complete_def mih_process_link_rollback_def

section \<open>Scans\<close>

text \<open>\<^verbatim>\<open>link_scan\<close> on the MAC at the local end of the link\<close>

definition link_scan :: "mih_agent \<Rightarrow> link_id \<Rightarrow> mih_out list res" where
  "link_scan s l = bind_res (mih_get_mac s (local_end s l)) (\<lambda>mo. need NullPtr mo (\<lambda>m. Inr [MacScan m]))"

fun scan_links :: "mih_agent \<Rightarrow> link_id list \<Rightarrow> mih_out list res" where
  "scan_links s [] = Inr []"
| "scan_links s (l # ls) =
     bind_res (if li_type l = LINK_802_11 \<or> li_type l = LINK_802_16 then link_scan s l else Inr []) (\<lambda>out.
     bind_res (scan_links s ls) (\<lambda>out2. Inr (out @ out2)))"

text \<open>The constructors of \<^verbatim>\<open>MIHScan\<close> for a local and for a remote request. A local scan has session \<open>- 1\<close>.\<close>

definition new_local_scan :: "mih_agent \<Rightarrow> user_ref option \<Rightarrow> link_id list \<Rightarrow> (mih_scan_info \<times> mih_out list) res" where
  "new_local_scan s user ls =
     check AssertFail (user \<noteq> None)
       (bind_res (scan_links s ls) (\<lambda>out.
          Inr (\<lparr>sc_user = user, sc_req = map to_wire ls, sc_session = - 1, sc_tid = None, sc_rsp = []\<rparr>, out)))"

definition new_remote_scan :: "mih_agent \<Rightarrow> 32 word \<Rightarrow> 16 word \<Rightarrow> wire_link list \<Rightarrow> (mih_scan_info \<times> mih_out list) res" where
  "new_remote_scan s sid tid ws =
     bind_res (scan_links s (map of_wire ws)) (\<lambda>out.
       Inr (\<lparr>sc_user = None, sc_req = ws, sc_session = sid, sc_tid = Some tid, sc_rsp = []\<rparr>, out))"

definition MAX_SCAN_RESULTS :: nat where "MAX_SCAN_RESULTS = 8"

text \<open>
  \<^verbatim>\<open>MIHScan::process_scan_response\<close>: a result of the MAC with address \<open>a\<close> is recorded for the first requested link of
  that MAC; the scan is done when there are as many results as requested links.
\<close>

definition scan_response :: "addr \<Rightarrow> addr list \<Rightarrow> int \<Rightarrow> mih_scan_info \<Rightarrow> (mih_scan_info \<times> bool) res" where
  "scan_response a data len c =
     bind_res
       (case find (\<lambda>w. eth_to_int (wl_mac w) = a) (sc_req c) of
          None \<Rightarrow> Inr c
        | Some w \<Rightarrow> check OutOfRange (length (sc_rsp c) < MAX_SCAN_RESULTS \<and> len \<le> 255)
                      (Inr (c\<lparr>sc_rsp := sc_rsp c @ [\<lparr>sr_link = w, sr_size = word_of_int len, sr_data = data\<rparr>]\<rparr>)))
       (\<lambda>c'. Inr (c', length (sc_rsp c') = length (sc_req c')))"

text \<open>
  What is done with a scan that is complete: the user is told, or the result is sent back by its session.
\<close>

definition scan_done :: "time \<Rightarrow> net \<Rightarrow> macs \<Rightarrow> mih_scan_info \<Rightarrow> mih_agent \<Rightarrow> mih_result" where
  "scan_done now n ms c s =
     (case sc_user c of
        Some u \<Rightarrow> Inr (s, [ToUser u (ScanConf (sc_rsp c))])
      | None \<Rightarrow> send_message now n ms None
                  (mk_mih s mih_link_rollback_ind_size MIH_COMMAND_SERVICE MIH_RESPONSE MIH_MSG_SCAN (case sc_tid c of Some t \<Rightarrow> t | None \<Rightarrow> 0)
                     (sc_session c) (ScanRsp (sc_rsp c)))
                  (get_session s (sc_session c)) s)"

text \<open>The loop over the scans, which removes those that are done.\<close>

fun scan_loop :: "time \<Rightarrow> net \<Rightarrow> macs \<Rightarrow> addr \<Rightarrow> addr list \<Rightarrow> int \<Rightarrow> mih_scan_info list \<Rightarrow> mih_agent \<Rightarrow> (mih_scan_info list \<times> mih_agent \<times> mih_out list) res" where
  "scan_loop now n ms a data len [] s = Inr ([], s, [])"
| "scan_loop now n ms a data len (c # cs) s =
     bind_res (scan_response a data len c) (\<lambda>(c', fin).
     bind_res (if fin then scan_done now n ms c' s else Inr (s, [])) (\<lambda>(s1, out).
     bind_res (scan_loop now n ms a data len cs s1) (\<lambda>(cs', s2, out2).
       Inr (if fin then cs' else c' # cs', s2, out @ out2))))"

definition process_scan_response :: "time \<Rightarrow> net \<Rightarrow> macs \<Rightarrow> mac_ref \<Rightarrow> addr list \<Rightarrow> int \<Rightarrow> mih_agent \<Rightarrow> mih_result" where
  "process_scan_response now n ms m data len s =
     bind_res (scan_loop now n ms (mac_addr ms m) data len (scan_reqs s) s) (\<lambda>(cs, s', out). Inr (s'\<lparr>scan_reqs := cs\<rparr>, out))"

text \<open>\<^verbatim>\<open>Mac::send_scan_result\<close>\<close>

definition send_scan_result :: "time \<Rightarrow> net \<Rightarrow> macs \<Rightarrow> mac_ref \<Rightarrow> addr list \<Rightarrow> int \<Rightarrow> mih_agent \<Rightarrow> mih_result" where
  "send_scan_result now n ms m res len s =
     (if sap_mih (mac_sap ms m) then process_scan_response now n ms m res len s else Inr (s, []))"

end
