(* ===== verification/Mih_Commands.thy ===== *)
theory Mih_Commands
  imports Mih_Events
begin

text \<open>
  The commands that users give to the media independent handover function, on local links or on those of a peer,
  and the messages of discovery, registration and deregistration that it sends (nist-2/hsntg/mih.cc). The commands
  \<^verbatim>\<open>mih_switch\<close>, \<^verbatim>\<open>mih_network_address_information\<close>, \<^verbatim>\<open>mih_get_information\<close> and the four kinds of handover
  messages have empty bodies in the source.
\<close>

section \<open>Sessions of peers\<close>

text \<open>\<^verbatim>\<open>get_mihf_info (mihfid)->session\<close>, and its identifier\<close>

definition peer_session :: "mih_agent \<Rightarrow> 32 word \<Rightarrow> sess_ref option res" where
  "peer_session s mihfid = need NullPtr (get_mihf_info s mihfid) (mihf_session s)"

definition peer_session_id :: "mih_agent \<Rightarrow> 32 word \<Rightarrow> 32 word res" where
  "peer_session_id s mihfid = bind_res (peer_session s mihfid) (\<lambda>ro. need NullPtr ro (\<lambda>r. Inr (ss_id (sess_at s r))))"

text \<open>A request to a peer: it takes the next transaction and goes by the session of the peer.\<close>

definition request_peer ::
  "time \<Rightarrow> net \<Rightarrow> macs \<Rightarrow> user_ref option \<Rightarrow> 32 word \<Rightarrow> int \<Rightarrow> mih_service \<Rightarrow> mih_message_id \<Rightarrow> 32 word \<Rightarrow> mih_payload \<Rightarrow> mih_agent \<Rightarrow> mih_result" where
  "request_peer now n ms user mihfid len srv aid source pl s =
     bind_res (peer_session_id s mihfid) (\<lambda>sid.
     bind_res (peer_session s mihfid) (\<lambda>ro.
       let p = mk_mih s len srv MIH_REQUEST aid (next_tid s) sid pl
       in send_message now n ms user (p\<lparr>mih_hdr := (mih_hdr p)\<lparr>mihf_id := source\<rparr>\<rparr>) ro (bump_tid s)))"

section \<open>Commands\<close>

definition register_management_user :: "user_ref option \<Rightarrow> mih_agent \<Rightarrow> mih_agent res" where
  "register_management_user user s = need AssertFail user (\<lambda>u. Inr (s\<lparr>management_users := management_users s @ [u]\<rparr>))"

text \<open>The command \<^verbatim>\<open>add-mac\<close>\<close>

definition add_mac :: "macs \<Rightarrow> mac_ref option \<Rightarrow> mih_agent \<Rightarrow> mih_agent \<times> tcl_result" where
  "add_mac ms mo s = (case mo of Some m \<Rightarrow> (s\<lparr>ifaces := ifaces s @ [new_mac_iface ms m]\<rparr>, TCL_OK) | None \<Rightarrow> (s, TCL_ERROR))"

text \<open>
  The result of \<^verbatim>\<open>mih_capability_discover\<close>: NULL for a peer; for a link that is not local its capability is left unset.
\<close>

definition mih_capability_discover :: "macs \<Rightarrow> mih_agent \<Rightarrow> 32 word \<Rightarrow> link_id \<Rightarrow> (link_id \<times> (32 word \<times> 32 word) option) option res" where
  "mih_capability_discover ms s mihfid l =
     (if mihfid = mihfId s then
        if is_local_mac s (li_mac l) \<or> is_local_mac s (li_poa l) then
          bind_res (mih_get_mac s (local_end s l)) (\<lambda>mo. need NullPtr mo (\<lambda>m. Inr (Some (l, Some (link_capability_discover ms m)))))
        else Inr (Some (l, None))
      else Inr None)"

definition mih_scan :: "time \<Rightarrow> net \<Rightarrow> macs \<Rightarrow> user_ref option \<Rightarrow> 32 word \<Rightarrow> link_id list \<Rightarrow> mih_agent \<Rightarrow> mih_result" where
  "mih_scan now n ms user mihfid ls s =
     (if mihfid = mihfId s then
        bind_res (new_local_scan s user ls) (\<lambda>(c, out). Inr (s\<lparr>scan_reqs := scan_reqs s @ [c]\<rparr>, out))
      else check OutOfRange (length ls \<le> MAX_SCAN_RESULTS)
        (request_peer now n ms user mihfid mih_event_sub_size MIH_COMMAND_SERVICE MIH_MSG_SCAN 0 (ScanReq (map to_wire ls)) s))"

datatype mih_config_param =
    CONFIG_OPERATION_MODE | CONFIG_DISABLE_TRANSMITTER | CONFIG_LINK_ID | CONFIG_CURRENT_ADDRESS | CONFIG_SUSPEND_DRIVER | CONFIG_QOS_PARAMETER_LIST

fun config_no :: "mih_config_param \<Rightarrow> nat" where
  "config_no CONFIG_OPERATION_MODE = 0"
| "config_no CONFIG_DISABLE_TRANSMITTER = 1"
| "config_no CONFIG_LINK_ID = 2"
| "config_no CONFIG_CURRENT_ADDRESS = 3"
| "config_no CONFIG_SUSPEND_DRIVER = 4"
| "config_no CONFIG_QOS_PARAMETER_LIST = 5"

record mih_configure_req =
  information :: "32 word"
  operationMode :: int
  config_link :: link_id

definition configured :: "mih_configure_req \<Rightarrow> mih_config_param \<Rightarrow> bool" where
  "configured config c = in_list (information config) (config_no c)"

text \<open>
  \<^verbatim>\<open>mih_configure_link\<close>. The response that the code assembles is not returned, the result is NULL; so the answer of the MAC
  to \<^verbatim>\<open>set_mode\<close> has no effect. For a peer nothing is sent.
\<close>

definition mih_configure_link :: "mih_agent \<Rightarrow> 32 word \<Rightarrow> mih_configure_req \<Rightarrow> mih_out list res" where
  "mih_configure_link s mihfid config =
     (if mihfid = mihfId s then
        let mac = bind_res (mih_get_mac s (li_mac (config_link config))) (\<lambda>mo. need NullPtr mo Inr)
        in bind_res (if configured config CONFIG_OPERATION_MODE then bind_res mac (\<lambda>m. Inr [MacSetMode m (operationMode config)]) else Inr []) (\<lambda>out.
           bind_res (if configured config CONFIG_LINK_ID then
                       bind_res mac (\<lambda>m. Inr [if li_poa (config_link config) \<noteq> - 1 then MacConnect m (li_poa (config_link config)) else MacDisconnect m])
                     else Inr []) (\<lambda>out2.
             Inr (out @ out2)))
      else Inr [])"

text \<open>
  The response it assembles, entry by entry, in an array that has room for as many entries as \<^verbatim>\<open>information\<close> has bits;
  \<open>ok\<close> is the answer to \<^verbatim>\<open>set_mode\<close>.
\<close>

definition configure_response :: "mih_configure_req \<Rightarrow> bool \<Rightarrow> (mih_config_param \<times> bool) list" where
  "configure_response config ok =
     (if configured config CONFIG_OPERATION_MODE then [(CONFIG_OPERATION_MODE, ok)] else [])
     @ (if configured config CONFIG_DISABLE_TRANSMITTER then [(CONFIG_DISABLE_TRANSMITTER, False)] else [])
     @ (if configured config CONFIG_LINK_ID then [(CONFIG_LINK_ID, True)] else [])
     @ (if configured config CONFIG_CURRENT_ADDRESS then [(CONFIG_CURRENT_ADDRESS, False)] else [])
     @ (if configured config CONFIG_SUSPEND_DRIVER then [(CONFIG_SUSPEND_DRIVER, False)] else [])
     @ (if configured config CONFIG_QOS_PARAMETER_LIST then [(CONFIG_QOS_PARAMETER_LIST, False)] else [])"

definition config_elements :: "mih_configure_req \<Rightarrow> nat" where
  "config_elements config = length (filter (in_list (information config)) [0..<32])"

text \<open>A subscription returns the status that the MAC gives, or NULL for a link of a peer.\<close>

definition mih_event_subscribe ::
  "time \<Rightarrow> net \<Rightarrow> macs \<Rightarrow> user_ref option \<Rightarrow> 32 word \<Rightarrow> link_id \<Rightarrow> 32 word \<Rightarrow> mih_agent \<Rightarrow> (macs \<times> mih_agent \<times> 32 word option \<times> mih_out list) res" where
  "mih_event_subscribe now n ms user mihfid l events s =
     need AssertFail user (\<lambda>u.
       if mihfId s = mihfid then
         need NullPtr (find_iface s (local_end s l)) (\<lambda>i.
         need NullPtr (mi_mac i) (\<lambda>m.
           let (ms', status) = link_event_subscribe events m ms
           in Inr (ms', upd_iface (local_end s l) (event_subscribe u events) s, Some status, [])))
       else
         bind_res (peer_session s mihfid) (\<lambda>ro.
         bind_res (setMIHSession ro (new_link_iface l)) (\<lambda>_.
         bind_res (request_peer now n ms user mihfid mih_event_sub_size MIH_EVENT_SERVICE MIH_MSG_EVENT_SUBSCRIBE 0 (EventReq (to_wire l) events) s) (\<lambda>(s', out).
           Inr (ms, s', None, out)))))"

text \<open>A cancellation does not reach the MAC; its status is the request.\<close>

definition mih_event_unsubscribe ::
  "time \<Rightarrow> net \<Rightarrow> macs \<Rightarrow> user_ref option \<Rightarrow> 32 word \<Rightarrow> link_id \<Rightarrow> 32 word \<Rightarrow> mih_agent \<Rightarrow> (mih_agent \<times> 32 word option \<times> mih_out list) res" where
  "mih_event_unsubscribe now n ms user mihfid l events s =
     need AssertFail user (\<lambda>u.
       if mihfId s = mihfid then
         need NullPtr (find_iface s (local_end s l)) (\<lambda>i.
           Inr (upd_iface (local_end s l) (event_unsubscribe u events) s, Some events, []))
       else
         bind_res (peer_session s mihfid) (\<lambda>ro.
         bind_res (setMIHSession ro (new_link_iface l)) (\<lambda>_.
         bind_res (request_peer now n ms user mihfid mih_event_sub_size MIH_EVENT_SERVICE MIH_MSG_EVENT_UNSUBSCRIBE 0 (EventReq (to_wire l) events) s) (\<lambda>(s', out).
           Inr (s', None, out)))))"

text \<open>The links of the local interfaces, for an array of \<^verbatim>\<open>MAX_INTERFACE_PER_NODE\<close> entries.\<close>

definition local_links :: "mih_agent \<Rightarrow> link_id list res" where
  "local_links s =
     (let is = filter isLocal (ifaces s)
      in check OutOfRange (length is \<le> MAX_INTERFACE_PER_NODE)
           (Inr (map (\<lambda>i. \<lparr>li_type = mi_type i, li_mac = mi_macAddr i, li_poa = mi_macPoA i\<rparr>) is)))"

definition mih_get_status ::
  "time \<Rightarrow> net \<Rightarrow> macs \<Rightarrow> user_ref option \<Rightarrow> 32 word \<Rightarrow> 32 word \<Rightarrow> mih_agent \<Rightarrow> (mih_agent \<times> (32 word \<times> link_id list) option \<times> mih_out list) res" where
  "mih_get_status now n ms user mihfid status_request s =
     (if mihfid = mihfId s then
        bind_res (local_links s) (\<lambda>ls. Inr (s, Some (status_request AND 0x6, ls), []))
      else
        bind_res (request_peer now n ms user mihfid mih_reg_req_size MIH_COMMAND_SERVICE MIH_MSG_GET_STATUS 0 (GetStatusReq status_request) s) (\<lambda>(s', out).
          Inr (s', None, out)))"

section \<open>Discovery and registration\<close>

definition own_capabilities :: "mih_agent \<Rightarrow> mih_payload" where
  "own_capabilities s =
     CapDisc \<lparr>supported_event_list = supported_events (mihmib s), supported_command_list = supported_commands (mihmib s),
       supported_transport_list = supported_transport (mihmib s), supported_query_type_list = ucast (supported_query_type (mihmib s))\<rparr>"

text \<open>The fields by which a message of the agent itself is addressed.\<close>

definition from_mac :: "net \<Rightarrow> macs \<Rightarrow> mac_ref \<Rightarrow> addr \<Rightarrow> mih_agent \<Rightarrow> mih_packet \<Rightarrow> mih_packet" where
  "from_mac n ms m dst s p = p\<lparr>saddr := node_addr n (mac_node ms m), daddr := dst, dport := here_port s,
     mih_hdr := (mih_hdr p)\<lparr>mihf_id := mihfId s\<rparr>\<rparr>"

text \<open>A request outside of a session: it waits for a response for \<^verbatim>\<open>cs_timeout_\<close>.\<close>

definition own_request :: "time \<Rightarrow> user_ref option \<Rightarrow> mih_packet \<Rightarrow> mac_ref \<Rightarrow> mih_agent \<Rightarrow> mih_agent" where
  "own_request now user p m s =
     insert_request (transaction_id (mih_hdr p)) ((new_request now user p (cs_timeout (mihmib s)) False m)\<lparr>pr_waitRsp := Some True\<rparr>) s"

text \<open>The request is scheduled on the entry of the node, after a delay.\<close>

definition send_cap_disc_req :: "time \<Rightarrow> net \<Rightarrow> macs \<Rightarrow> user_ref option \<Rightarrow> mac_ref \<Rightarrow> mih_agent \<Rightarrow> mih_agent \<times> mih_out list" where
  "send_cap_disc_req now n ms user m s =
     (let p = from_mac n ms m 0xFFFFFFFF s
            (mk_mih s mih_cap_disc_size MIH_COMMAND_SERVICE MIH_REQUEST MIH_MSG_CAPABILITY_DISCOVER (next_tid s) 0 (own_capabilities s))
      in (own_request now user p m (bump_tid s), [MihSchedule (mac_node ms m) p MIH_CAP_DELAY]))"

text \<open>The command \<^verbatim>\<open>send_cap_req\<close>, which has no user to tell\<close>

definition send_cap_req :: "time \<Rightarrow> net \<Rightarrow> macs \<Rightarrow> mih_agent \<Rightarrow> mih_result" where
  "send_cap_req now n ms s =
     check OutOfRange (ifaces s \<noteq> []) (need NullPtr (mi_mac (hd (ifaces s))) (\<lambda>m. Inr (send_cap_disc_req now n ms None m s)))"

definition send_reg_request :: "time \<Rightarrow> net \<Rightarrow> macs \<Rightarrow> user_ref option \<Rightarrow> 32 word \<Rightarrow> mih_agent \<Rightarrow> mih_result" where
  "send_reg_request now n ms user mihfid s =
     need NullPtr (get_mihf_info s mihfid) (\<lambda>fr.
     need NullPtr (mf_local_mac (mihf_at s fr)) (\<lambda>m.
       let p = from_mac n ms m (mf_address (mihf_at s fr)) s
             (mk_mih s mih_reg_req_size MIH_COMMAND_SERVICE MIH_REQUEST MIH_MSG_REGISTRATION (next_tid s) 0
               (RegReq \<lparr>rq_destID = mf_id (mihf_at s fr), rq_code = 0, msb_session = ucast (mihfId s)\<rparr>))
       in Inr ((own_request now user p m (bump_tid s))\<lparr>mih_target := Some (mac_node ms m)\<rparr>, [MihSend (Some (mac_node ms m)) p])))"

definition send_reg_response :: "net \<Rightarrow> macs \<Rightarrow> 32 word \<Rightarrow> 8 word \<Rightarrow> 8 word \<Rightarrow> 32 word \<Rightarrow> 16 word \<Rightarrow> mih_agent \<Rightarrow> mih_result" where
  "send_reg_response n ms mihfid result failure validity tid s =
     need NullPtr (get_mihf_info s mihfid) (\<lambda>fr.
     need NullPtr (mf_local_mac (mihf_at s fr)) (\<lambda>m.
     bind_res (session_number mihfid (mihfId s)) (\<lambda>sid.
       let s1 = (if result = 0 then delete_session sid s else upd_mihf fr (\<lambda>f. f\<lparr>mf_session := Some (get_session s sid)\<rparr>) s);
           p = from_mac n ms m (mf_address (mihf_at s fr)) s
             (mk_mih s mih_reg_rsp_size MIH_COMMAND_SERVICE MIH_RESPONSE MIH_MSG_REGISTRATION tid 0
               (RegRsp \<lparr>rr_destID = mihfid, rr_validity = validity, reg_result = result, rr_failure_code = failure, lsb_session = ucast (mihfId s)\<rparr>))
       in Inr (s1, [MihSend (mih_target s1) (p\<lparr>sport := here_port s\<rparr>)]))))"

definition send_dereg_request :: "time \<Rightarrow> net \<Rightarrow> macs \<Rightarrow> user_ref option \<Rightarrow> 32 word \<Rightarrow> mih_agent \<Rightarrow> mih_result" where
  "send_dereg_request now n ms user mihfid s =
     need NullPtr (get_mihf_info s mihfid) (\<lambda>fr.
       request_peer now n ms user mihfid mih_dereg_req_size MIH_COMMAND_SERVICE MIH_MSG_DEREGISTRATION (mihfId s) (DeregReq (mf_id (mihf_at s fr))) s)"

definition send_dereg_response ::
  "time \<Rightarrow> net \<Rightarrow> macs \<Rightarrow> user_ref option \<Rightarrow> 32 word \<Rightarrow> 8 word \<Rightarrow> 8 word \<Rightarrow> 16 word \<Rightarrow> mih_agent \<Rightarrow> mih_result" where
  "send_dereg_response now n ms user mihfid result failure tid s =
     bind_res (peer_session_id s mihfid) (\<lambda>sid.
     bind_res (peer_session s mihfid) (\<lambda>ro.
       let s1 = (if result = 1 then delete_session sid s else s);
           p = mk_mih s mih_dereg_rsp_size MIH_COMMAND_SERVICE MIH_RESPONSE MIH_MSG_DEREGISTRATION tid sid
                 (DeregRsp \<lparr>dr_destID = mihfid, dr_result_code = result, dr_failure_code = failure\<rparr>)
       in send_message now n ms user (p\<lparr>mih_hdr := (mih_hdr p)\<lparr>mihf_id := mihfId s\<rparr>\<rparr>) ro s1))"

end
