(* ===== verification/Mih_Recv.thy ===== *)
theory Mih_Recv
  imports Mih_Commands
begin

text \<open>
  The messages that the media independent handover function receives (nist-2/hsntg/mih.cc). A handler reads the member of
  the payload union that its message has; a payload of another kind, which no sender makes, is the fault
  \<^const>\<open>Uninitialised\<close>. \<open>g\<close> stands for the fields of an event that a handler leaves unset. A subscription changes the event
  list of a MAC, so the MACs are part of the results.
\<close>

type_synonym mih_recv_result = "(macs \<times> mih_agent \<times> mih_out list) res"

definition keep_macs :: "macs \<Rightarrow> mih_result \<Rightarrow> mih_recv_result" where
  "keep_macs ms r = bind_res r (\<lambda>(s, out). Inr (ms, s, out))"

section \<open>Responses and their requests\<close>

text \<open>A response to a request: the user who asked is told, the request is removed.\<close>

definition answer :: "16 word \<Rightarrow> user_call \<Rightarrow> mih_agent \<Rightarrow> mih_result" where
  "answer tid x s =
     bind_res (pending_at s tid) (\<lambda>r. need NullPtr (pr_user r) (\<lambda>u. Inr (clear_request (pr_tid r) s, [ToUser u x])))"

text \<open>The same, when the session of the response is checked first.\<close>

definition session_answer :: "hdr_mih \<Rightarrow> user_call \<Rightarrow> mih_agent \<Rightarrow> mih_result" where
  "session_answer h x s =
     (case get_session s (session_id h) of
        Some _ \<Rightarrow> answer (transaction_id h) x s
      | None \<Rightarrow> bind_res (pending_at s (transaction_id h)) (\<lambda>r. Inr (clear_request (pr_tid r) s, [])))"

text \<open>A response in a session to the message \<open>h\<close>.\<close>

definition reply :: "time \<Rightarrow> net \<Rightarrow> macs \<Rightarrow> hdr_mih \<Rightarrow> sess_ref \<Rightarrow> mih_packet \<Rightarrow> mih_agent \<Rightarrow> mih_result" where
  "reply now n ms h r p s = send_message now n ms None p (Some r) s"

section \<open>Discovery and registration\<close>

text \<open>What a discovery message says of its sender.\<close>

definition describe :: "hdr_mih \<Rightarrow> mih_cap_disc \<Rightarrow> addr \<Rightarrow> mac_ref option \<Rightarrow> mihf_info \<Rightarrow> mihf_info" where
  "describe h c a m f = f\<lparr>mf_id := mihf_id h, mf_address := a, mf_events := supported_event_list c, mf_commands := supported_command_list c,
     mf_transport := supported_transport_list c, mf_query_type := supported_query_type_list c, mf_local_mac := m\<rparr>"

definition blank_mihf :: mihf_info where
  "blank_mihf = \<lparr>mf_id = 0, mf_address = 0, mf_events = 0, mf_commands = 0, mf_transport = 0, mf_query_type = 0, mf_session = None, mf_local_mac = None\<rparr>"

definition add_peer :: "mihf_info \<Rightarrow> mih_agent \<Rightarrow> mih_agent" where
  "add_peer f s = s\<lparr>mihf_at := (mihf_at s)(next_mihf s := f), next_mihf := Suc (next_mihf s), peer_mihfs := peer_mihfs s @ [next_mihf s]\<rparr>"

definition recv_cap_disc_req :: "net \<Rightarrow> macs \<Rightarrow> mih_packet \<Rightarrow> mih_agent \<Rightarrow> mih_result" where
  "recv_cap_disc_req n ms p s =
     (case payload (mih_hdr p) of
        CapDisc c \<Rightarrow>
          let h = mih_hdr p;
              s1 = add_peer (describe h c (saddr p) (get_mac_for_node n ms s (here_addr s)) blank_mihf) s;
              q = mk_mih s mih_cap_disc_size MIH_COMMAND_SERVICE MIH_RESPONSE MIH_MSG_CAPABILITY_DISCOVER (transaction_id h) 0 (own_capabilities s)
          in Inr (s1, [MihSend (mih_target s1) (q\<lparr>daddr := saddr p, dport := sport p, mih_hdr := (mih_hdr q)\<lparr>mihf_id := mihfId s\<rparr>\<rparr>)])
      | _ \<Rightarrow> Inl Uninitialised)"

definition recv_cap_disc_rsp :: "net \<Rightarrow> macs \<Rightarrow> mih_packet \<Rightarrow> mih_agent \<Rightarrow> mih_result" where
  "recv_cap_disc_rsp n ms p s =
     (case payload (mih_hdr p) of
        CapDisc c \<Rightarrow>
          let h = mih_hdr p; m = get_mac_for_node n ms s (daddr p);
              s1 = (case get_mihf_info s (mihf_id h) of
                      Some fr \<Rightarrow> upd_mihf fr (describe h c (saddr p) m) s
                    | None \<Rightarrow> add_peer (describe h c (saddr p) m blank_mihf) s)
          in check AssertFail (m \<noteq> None) (answer (transaction_id h) (CapDiscConf h) s1)
      | _ \<Rightarrow> Inl Uninitialised)"

text \<open>A new session with a peer, by the interface that the message came in.\<close>

definition add_session :: "32 word \<Rightarrow> addr \<Rightarrow> mihf_ref option \<Rightarrow> mih_agent \<Rightarrow> mih_agent" where
  "add_session sid a f s = s\<lparr>sess_at := (sess_at s)(next_sess s := \<lparr>ss_id = sid, ss_macAddr = a, ss_mihf = f, ss_lastTID = - 1\<rparr>),
     next_sess := Suc (next_sess s), sessions := sessions s @ [next_sess s]\<rparr>"

definition recv_reg_req :: "net \<Rightarrow> macs \<Rightarrow> mih_packet \<Rightarrow> mih_agent \<Rightarrow> mih_result" where
  "recv_reg_req n ms p s =
     (case payload (mih_hdr p) of
        RegReq q \<Rightarrow>
          bind_res (session_number (ucast (msb_session q)) (mihfId s)) (\<lambda>sid.
          need NullPtr (get_mac_for_node n ms s (daddr p)) (\<lambda>m.
            Inr (add_session sid (mac_addr ms m) (get_mihf_info s (mihf_id (mih_hdr p))) s,
                 map (\<lambda>u. ToUser u (RegisterInd (mih_hdr p))) (management_users s))))
      | _ \<Rightarrow> Inl Uninitialised)"

definition recv_reg_rsp :: "net \<Rightarrow> macs \<Rightarrow> mih_packet \<Rightarrow> mih_agent \<Rightarrow> mih_result" where
  "recv_reg_rsp n ms p s =
     (case payload (mih_hdr p) of
        RegRsp q \<Rightarrow>
          bind_res
            (if reg_result q = 1 then
               bind_res (session_number (mihfId s) (ucast (lsb_session q))) (\<lambda>sid.
               need NullPtr (get_mac_for_node n ms s (daddr p)) (\<lambda>m.
               need NullPtr (get_mihf_info s (mihf_id (mih_hdr p))) (\<lambda>fr.
                 Inr (upd_mihf fr (\<lambda>f. f\<lparr>mf_session := Some (Some (next_sess s))\<rparr>) (add_session sid (mac_addr ms m) (Some fr) s)))))
             else Inr s)
            (answer (transaction_id (mih_hdr p)) (RegisterConf q))
      | _ \<Rightarrow> Inl Uninitialised)"

definition recv_dereg_req :: "mih_packet \<Rightarrow> mih_agent \<Rightarrow> mih_result" where
  "recv_dereg_req p s = Inr (s, map (\<lambda>u. ToUser u (DeregisterInd (mih_hdr p))) (management_users s))"

definition recv_dereg_rsp :: "mih_packet \<Rightarrow> mih_agent \<Rightarrow> mih_result" where
  "recv_dereg_rsp p s =
     (case payload (mih_hdr p) of
        DeregRsp q \<Rightarrow>
          answer (transaction_id (mih_hdr p)) (DeregisterConf q) (if dr_result_code q = 1 then delete_session (session_id (mih_hdr p)) s else s)
      | _ \<Rightarrow> Inl Uninitialised)"

section \<open>Subscriptions of peers\<close>

definition recv_event_sub_req :: "time \<Rightarrow> net \<Rightarrow> macs \<Rightarrow> mih_packet \<Rightarrow> mih_agent \<Rightarrow> mih_recv_result" where
  "recv_event_sub_req now n ms p s =
     (let h = mih_hdr p in
      case get_session s (session_id h) of
        None \<Rightarrow> Inr (ms, s, [])
      | Some r \<Rightarrow>
          (case payload h of
             EventReq w events \<Rightarrow>
               let l = of_wire w; a = local_end s l
               in need NullPtr (find_iface s a) (\<lambda>i.
                  need NullPtr (mi_mac i) (\<lambda>m.
                    let (ms', status) = link_event_subscribe events m ms;
                        s1 = upd_iface a (remote_event_subscribe r events) s
                    in keep_macs ms' (reply now n ms' h r (mk_mih s mih_event_sub_size MIH_EVENT_SERVICE MIH_RESPONSE MIH_MSG_EVENT_SUBSCRIBE
                         (transaction_id h) (session_id h) (EventRsp (to_wire l) status)) s1)))
           | _ \<Rightarrow> Inl Uninitialised))"

definition recv_event_sub_rsp :: "mih_packet \<Rightarrow> mih_agent \<Rightarrow> mih_result" where
  "recv_event_sub_rsp p s =
     (case payload (mih_hdr p) of EventRsp w events \<Rightarrow> session_answer (mih_hdr p) (EventSubConf w events) s | _ \<Rightarrow> Inl Uninitialised)"

definition recv_event_unsub_req :: "time \<Rightarrow> net \<Rightarrow> macs \<Rightarrow> mih_packet \<Rightarrow> mih_agent \<Rightarrow> mih_result" where
  "recv_event_unsub_req now n ms p s =
     (let h = mih_hdr p in
      case get_session s (session_id h) of
        None \<Rightarrow> Inr (s, [])
      | Some r \<Rightarrow>
          (case payload h of
             EventReq w events \<Rightarrow>
               let l = of_wire w; a = local_end s l
               in need NullPtr (find_iface s a) (\<lambda>i.
                    reply now n ms h r (mk_mih s mih_event_sub_size MIH_EVENT_SERVICE MIH_RESPONSE MIH_MSG_EVENT_UNSUBSCRIBE
                      (transaction_id h) (session_id h) (EventRsp (to_wire l) events)) (upd_iface a (remote_event_unsubscribe r events) s))
           | _ \<Rightarrow> Inl Uninitialised))"

definition recv_event_unsub_rsp :: "mih_packet \<Rightarrow> mih_agent \<Rightarrow> mih_result" where
  "recv_event_unsub_rsp p s =
     (case payload (mih_hdr p) of EventRsp w events \<Rightarrow> session_answer (mih_hdr p) (EventUnsubConf w events) s | _ \<Rightarrow> Inl Uninitialised)"

section \<open>Events of peers\<close>

definition recv_link_up_ind :: "time \<Rightarrow> net \<Rightarrow> macs \<Rightarrow> mih_packet \<Rightarrow> mih_agent \<Rightarrow> mih_result" where
  "recv_link_up_ind now n ms p s =
     (case payload (mih_hdr p) of
        UpInd u \<Rightarrow> mih_process_link_up now n ms \<lparr>lu_link = of_wire (ui_link u), lu_oldAR = eth_to_int (ui_oldAR u), lu_newAR = eth_to_int (ui_newAR u),
          lu_ipRenewal = (ui_ipRenewalFlag u \<noteq> 0), lu_mobility = uint (ui_ipConfigurationMethod u)\<rparr> s
      | _ \<Rightarrow> Inl Uninitialised)"

definition recv_link_down_ind :: "time \<Rightarrow> net \<Rightarrow> macs \<Rightarrow> mih_packet \<Rightarrow> mih_agent \<Rightarrow> mih_result" where
  "recv_link_down_ind now n ms p s =
     (case payload (mih_hdr p) of
        DownInd d \<Rightarrow> mih_process_link_down now n ms \<lparr>ld_link = of_wire (di_link d), ld_oldAR = eth_to_int (di_oldAR d), ld_reason = uint (di_reasonCode d)\<rparr> s
      | _ \<Rightarrow> Inl Uninitialised)"

definition recv_link_going_down_ind :: "time \<Rightarrow> int \<Rightarrow> net \<Rightarrow> macs \<Rightarrow> mih_packet \<Rightarrow> mih_agent \<Rightarrow> mih_result" where
  "recv_link_going_down_ind now g n ms p s =
     (case payload (mih_hdr p) of
        GoingDownInd d \<Rightarrow> mih_process_link_going_down now n ms \<lparr>lg_link = of_wire (gi_link d), lg_interval = ucast (gi_timeInterval d),
          lg_confidence = uint (gi_confidenceLevel d), lg_reason = g, lg_id = ucast (gi_id d)\<rparr> s
      | _ \<Rightarrow> Inl Uninitialised)"

definition recv_link_rollback_ind :: "time \<Rightarrow> net \<Rightarrow> macs \<Rightarrow> mih_packet \<Rightarrow> mih_agent \<Rightarrow> mih_result" where
  "recv_link_rollback_ind now n ms p s =
     (case payload (mih_hdr p) of
        RollbackInd w i \<Rightarrow> mih_process_link_rollback now n ms \<lparr>lr_link = of_wire w, lr_id = ucast i\<rparr> s
      | _ \<Rightarrow> Inl Uninitialised)"

text \<open>The handlers of the other four events, which \<^verbatim>\<open>recv\<close> never calls.\<close>

definition recv_link_detected_ind :: "time \<Rightarrow> net \<Rightarrow> macs \<Rightarrow> mih_packet \<Rightarrow> mih_agent \<Rightarrow> mih_result" where
  "recv_link_detected_ind now n ms p s =
     (case payload (mih_hdr p) of
        DetectedInd w c \<Rightarrow> mih_process_link_detected now n ms \<lparr>lt_link = of_wire w, lt_mihCapability = (c \<noteq> 0)\<rparr> s
      | _ \<Rightarrow> Inl Uninitialised)"

definition recv_link_parameters_report_ind :: "time \<Rightarrow> addr \<Rightarrow> net \<Rightarrow> macs \<Rightarrow> mih_packet \<Rightarrow> mih_agent \<Rightarrow> mih_result" where
  "recv_link_parameters_report_ind now g n ms p s =
     (case payload (mih_hdr p) of
        ParametersInd w ps \<Rightarrow> mih_process_link_parameters_report now g n ms \<lparr>lp_link = of_wire w, lp_list = ps\<rparr> s
      | _ \<Rightarrow> Inl Uninitialised)"

definition recv_link_handover_imminent_ind :: "time \<Rightarrow> net \<Rightarrow> macs \<Rightarrow> mih_packet \<Rightarrow> mih_agent \<Rightarrow> mih_result" where
  "recv_link_handover_imminent_ind now n ms p s =
     (case payload (mih_hdr p) of
        ImminentInd w w' o1 o2 \<Rightarrow> mih_process_link_handover_imminent now n ms
          \<lparr>hi_link = of_wire w, hi_newLink = of_wire w', hi_oldAR = eth_to_int o1, hi_newAR = eth_to_int o2\<rparr> s
      | _ \<Rightarrow> Inl Uninitialised)"

definition recv_link_handover_complete_ind :: "time \<Rightarrow> net \<Rightarrow> macs \<Rightarrow> mih_packet \<Rightarrow> mih_agent \<Rightarrow> mih_result" where
  "recv_link_handover_complete_ind now n ms p s =
     (case payload (mih_hdr p) of
        CompleteInd w o1 o2 \<Rightarrow> mih_process_link_handover_complete now n ms \<lparr>hc_link = of_wire w, hc_oldAR = eth_to_int o1, hc_newAR = eth_to_int o2\<rparr> s
      | _ \<Rightarrow> Inl Uninitialised)"

section \<open>Commands of peers\<close>

text \<open>The response is an addition to the default size of the agent's packets.\<close>

definition recv_mih_get_status_req :: "time \<Rightarrow> net \<Rightarrow> macs \<Rightarrow> mih_packet \<Rightarrow> mih_agent \<Rightarrow> mih_result" where
  "recv_mih_get_status_req now n ms p s =
     (let h = mih_hdr p in
      case get_session s (session_id h) of
        None \<Rightarrow> Inr (s, [])
      | Some r \<Rightarrow>
          need AssertFail (ss_mihf (sess_at s r)) (\<lambda>_.
            case payload h of
              GetStatusReq req \<Rightarrow>
                bind_res (local_links s) (\<lambda>ls.
                  let q = mk_mih s 0 MIH_COMMAND_SERVICE MIH_RESPONSE MIH_MSG_GET_STATUS (transaction_id h) (session_id h)
                            (GetStatusRsp (req AND 0x6) (map (\<lambda>l. \<lparr>gs_operationMode = 0, gs_link = to_wire l\<rparr>) ls))
                  in reply now n ms h r (q\<lparr>ptype := ag_type s, psize := ag_size s + mih_get_status_rsp_size\<rparr>) s)
            | _ \<Rightarrow> Inl Uninitialised))"

definition recv_mih_get_status_res :: "mih_packet \<Rightarrow> mih_agent \<Rightarrow> mih_result" where
  "recv_mih_get_status_res p s = session_answer (mih_hdr p) (GetStatusConf (mih_hdr p)) s"

text \<open>
  A scan request that is being worked on is a duplicate; one that is not newer than the last of its session counts as retransmitted.
\<close>

definition recv_mih_scan_req :: "time \<Rightarrow> net \<Rightarrow> macs \<Rightarrow> mih_packet \<Rightarrow> mih_agent \<Rightarrow> mih_result" where
  "recv_mih_scan_req now n ms p s =
     (let h = mih_hdr p; tid = transaction_id h in
      if \<exists>c \<in> set (scan_reqs s). sc_session c = session_id h \<and> sc_tid c = Some tid then Inr (s, [])
      else need NullPtr (get_session s (session_id h)) (\<lambda>r.
        if ss_lastTID (sess_at s r) \<ge> uint tid then Inr (s, [])
        else
          let s1 = s\<lparr>sess_at := (sess_at s)(r := (sess_at s r)\<lparr>ss_lastTID := uint tid\<rparr>)\<rparr>
          in case payload h of
               ScanReq ws \<Rightarrow>
                 bind_res (new_remote_scan s1 (session_id h) tid ws) (\<lambda>(c, out).
                   let q = mk_mih s1 mih_scan_req_size MIH_COMMAND_SERVICE MIH_RESPONSE MIH_MSG_SCAN tid (session_id h) NoPayload
                   in bind_res (reply now n ms h r (q\<lparr>mih_hdr := (mih_hdr q)\<lparr>ack_rsp := True\<rparr>\<rparr>) (s1\<lparr>scan_reqs := scan_reqs s1 @ [c]\<rparr>)) (\<lambda>(s2, out2).
                        Inr (s2, out @ out2)))
             | _ \<Rightarrow> Inl Uninitialised))"

text \<open>An acknowledgement stops the timer of the request and leaves it pending.\<close>

definition recv_mih_scan_res :: "mih_packet \<Rightarrow> mih_agent \<Rightarrow> mih_result" where
  "recv_mih_scan_res p s =
     (let h = mih_hdr p; tid = transaction_id h in
      if ack_rsp h then
        bind_res (pending_at s tid) (\<lambda>r.
          Inr (s\<lparr>pending_reqs := (pending_reqs s)(tid := Some (r\<lparr>pr_waitAck := Some False, pr_timer := timer_force_cancel (pr_timer r)\<rparr>))\<rparr>, []))
      else case payload h of ScanRsp rs \<Rightarrow> answer tid (ScanConf rs) s | _ \<Rightarrow> Inl Uninitialised)"

text \<open>The link is switched; the response is built but never sent.\<close>

definition recv_mih_switch_req :: "mih_packet \<Rightarrow> mih_agent \<Rightarrow> mih_result" where
  "recv_mih_switch_req p s =
     (let h = mih_hdr p in
      case get_session s (session_id h) of
        None \<Rightarrow> Inr (s, [])
      | Some r \<Rightarrow>
          need AssertFail (ss_mihf (sess_at s r)) (\<lambda>_.
            case payload h of
              SwitchReq mode new old act \<Rightarrow>
                bind_res (mih_get_mac s (eth_to_int (wl_mac old))) (\<lambda>mo. need NullPtr mo (\<lambda>m.
                  Inr (s, if mode = 0 then [MacConnect m (eth_to_int (wl_poa new))]
                          else if mode = 1 then [MacDisconnect m, MacConnect m (eth_to_int (wl_poa new))] else [])))
            | _ \<Rightarrow> Inl Uninitialised))"

section \<open>The dispatch\<close>

definition by_opcode :: "hdr_mih \<Rightarrow> mih_recv_result \<Rightarrow> mih_recv_result \<Rightarrow> mih_recv_result" where
  "by_opcode h req rsp = (case mih_opcode h of MIH_REQUEST \<Rightarrow> req | MIH_RESPONSE \<Rightarrow> rsp | _ \<Rightarrow> Inl ExitProcess)"

definition event_ind :: "hdr_mih \<Rightarrow> mih_recv_result \<Rightarrow> mih_recv_result" where
  "event_ind h k = check AssertFail (mih_service_id h = MIH_EVENT_SERVICE) (check ExitProcess (mih_opcode h = MIH_INDICATION) k)"

definition command_msg :: "hdr_mih \<Rightarrow> mih_recv_result \<Rightarrow> mih_recv_result \<Rightarrow> mih_recv_result" where
  "command_msg h req rsp = check AssertFail (mih_service_id h = MIH_COMMAND_SERVICE) (by_opcode h req rsp)"

definition mih_recv :: "time \<Rightarrow> int \<Rightarrow> net \<Rightarrow> macs \<Rightarrow> mih_packet \<Rightarrow> mih_agent \<Rightarrow> mih_recv_result" where
  "mih_recv now g n ms p s =
     (let h = mih_hdr p; k = keep_macs ms; skip = Inr (ms, s, [])
      in case mih_aid h of
           MIH_MSG_CAPABILITY_DISCOVER \<Rightarrow> by_opcode h (k (recv_cap_disc_req n ms p s)) (k (recv_cap_disc_rsp n ms p s))
         | MIH_MSG_REGISTRATION \<Rightarrow> by_opcode h (k (recv_reg_req n ms p s)) (k (recv_reg_rsp n ms p s))
         | MIH_MSG_DEREGISTRATION \<Rightarrow> by_opcode h (k (recv_dereg_req p s)) (k (recv_dereg_rsp p s))
         | MIH_MSG_EVENT_SUBSCRIBE \<Rightarrow> by_opcode h (recv_event_sub_req now n ms p s) (k (recv_event_sub_rsp p s))
         | MIH_MSG_EVENT_UNSUBSCRIBE \<Rightarrow> by_opcode h (k (recv_event_unsub_req now n ms p s)) (k (recv_event_unsub_rsp p s))
         | MIH_MSG_LINK_UP \<Rightarrow> event_ind h (k (recv_link_up_ind now n ms p s))
         | MIH_MSG_LINK_DOWN \<Rightarrow> event_ind h (k (recv_link_down_ind now n ms p s))
         | MIH_MSG_LINK_GOING_DOWN \<Rightarrow> event_ind h (k (recv_link_going_down_ind now g n ms p s))
         | MIH_MSG_LINK_EVENT_ROLLBACK \<Rightarrow> event_ind h (k (recv_link_rollback_ind now n ms p s))
         | MIH_MSG_HANDOVER_INITIATE \<Rightarrow> command_msg h skip skip
         | MIH_MSG_NETWORK_ADDRESS_INFORMATION \<Rightarrow> command_msg h skip skip
         | MIH_MSG_GET_STATUS \<Rightarrow> command_msg h (k (recv_mih_get_status_req now n ms p s)) (k (recv_mih_get_status_res p s))
         | MIH_MSG_SCAN \<Rightarrow> command_msg h (k (recv_mih_scan_req now n ms p s)) (k (recv_mih_scan_res p s))
         | MIH_MSG_SWITCH \<Rightarrow> command_msg h (k (recv_mih_switch_req p s)) skip
         | _ \<Rightarrow> Inl ExitProcess)"

end
