(* ===== verification/Mih_Invariants.thy ===== *)
theory Mih_Invariants
  imports Mih_Recv
begin

text \<open>
  The media independent handover function as a state machine, and what every step keeps. A locale names the
  updates of which all handlers are made; a predicate that they keep is kept by every run. It is
  interpreted with the well-formedness of the tables and with the configuration of the agent.
\<close>

section \<open>Steps\<close>

datatype mih_input =
    InEvent addr link_event
  | InRecv int mih_packet
  | InTimer "16 word"
  | InStray "16 word"
  | InScanResult mac_ref "addr list" int
  | AddMac "mac_ref option"
  | AddUser "user_ref option"
  | CmdScan "user_ref option" "32 word" "link_id list"
  | CmdConfigure "32 word" mih_configure_req
  | CmdSubscribe "user_ref option" "32 word" link_id "32 word"
  | CmdUnsubscribe "user_ref option" "32 word" link_id "32 word"
  | CmdStatus "user_ref option" "32 word" "32 word"
  | CmdCapDisc "user_ref option" mac_ref
  | CmdSendCapReq
  | CmdRegister "user_ref option" "32 word"
  | CmdRegResponse "32 word" "8 word" "8 word" "32 word" "16 word"
  | CmdDeregister "user_ref option" "32 word"
  | CmdDeregResponse "user_ref option" "32 word" "8 word" "8 word" "16 word"

fun mih_step :: "macs \<times> mih_agent \<Rightarrow> time \<times> net \<times> mih_input \<Rightarrow> ((macs \<times> mih_agent) \<times> mih_out list) res" where
  "mih_step (ms, s) (now, n, i) =
     bind_res
       (case i of
          InEvent g e \<Rightarrow> keep_macs ms (recv_event now g n ms e s)
        | InRecv g p \<Rightarrow> mih_recv now g n ms p s
        | InTimer tid \<Rightarrow> keep_macs ms (request_expire now ms tid s)
        | InStray tid \<Rightarrow> keep_macs ms (stray_expire now ms tid s)
        | InScanResult m data len \<Rightarrow> keep_macs ms (send_scan_result now n ms m data len s)
        | AddMac mo \<Rightarrow> Inr (ms, fst (add_mac ms mo s), [])
        | AddUser uo \<Rightarrow> bind_res (register_management_user uo s) (\<lambda>s'. Inr (ms, s', []))
        | CmdScan u f ls \<Rightarrow> keep_macs ms (mih_scan now n ms u f ls s)
        | CmdConfigure f c \<Rightarrow> bind_res (mih_configure_link s f c) (\<lambda>out. Inr (ms, s, out))
        | CmdSubscribe u f l ev \<Rightarrow> bind_res (mih_event_subscribe now n ms u f l ev s) (\<lambda>(ms', s', _, out). Inr (ms', s', out))
        | CmdUnsubscribe u f l ev \<Rightarrow> bind_res (mih_event_unsubscribe now n ms u f l ev s) (\<lambda>(s', _, out). Inr (ms, s', out))
        | CmdStatus u f q \<Rightarrow> bind_res (mih_get_status now n ms u f q s) (\<lambda>(s', _, out). Inr (ms, s', out))
        | CmdCapDisc u m \<Rightarrow> keep_macs ms (Inr (send_cap_disc_req now n ms u m s))
        | CmdSendCapReq \<Rightarrow> keep_macs ms (send_cap_req now n ms s)
        | CmdRegister u f \<Rightarrow> keep_macs ms (send_reg_request now n ms u f s)
        | CmdRegResponse f r c v tid \<Rightarrow> keep_macs ms (send_reg_response n ms f r c v tid s)
        | CmdDeregister u f \<Rightarrow> keep_macs ms (send_dereg_request now n ms u f s)
        | CmdDeregResponse u f r c tid \<Rightarrow> keep_macs ms (send_dereg_response now n ms u f r c tid s))
       (\<lambda>(ms', s', out). Inr ((ms', s'), out))"

section \<open>Predicates that the updates keep\<close>

text \<open>The requests that are put into the table: not sent again yet, and filed under their transaction.\<close>

definition fresh_request :: "16 word \<Rightarrow> mih_pending_req \<Rightarrow> bool" where
  "fresh_request tid r \<longleftrightarrow> pr_tid r = tid \<and> transaction_id (mih_hdr (pr_pkt r)) = tid \<and> pr_retx r = 0
     \<and> (mih_opcode (mih_hdr (pr_pkt r)) = MIH_REQUEST \<or> ack_req (mih_hdr (pr_pkt r)))"

locale mih_closed =
  fixes I :: "mih_agent \<Rightarrow> bool"
  assumes I_tid: "I s \<Longrightarrow> I (bump_tid s)"
    and I_target: "I s \<Longrightarrow> I (s\<lparr>mih_target := t\<rparr>)"
    and I_scans: "I s \<Longrightarrow> I (s\<lparr>scan_reqs := cs\<rparr>)"
    and I_users: "I s \<Longrightarrow> I (s\<lparr>management_users := us\<rparr>)"
    and I_stray: "I s \<Longrightarrow> I (s\<lparr>stray_timers := ts\<rparr>)"
    and I_status: "I s \<Longrightarrow> I (upd_iface a (setStatus st) s)"
    and I_sub: "I s \<Longrightarrow> I (upd_iface a (event_subscribe u events) s)"
    and I_unsub: "I s \<Longrightarrow> I (upd_iface a (event_unsubscribe u events) s)"
    and I_remote_sub: "I s \<Longrightarrow> r \<in> set (sessions s) \<Longrightarrow> I (upd_iface a (remote_event_subscribe r events) s)"
    and I_remote_unsub: "I s \<Longrightarrow> I (upd_iface a (remote_event_unsubscribe r events) s)"
    and I_add_mac: "I s \<Longrightarrow> I (fst (add_mac ms mo s))"
    and I_insert: "I s \<Longrightarrow> fresh_request tid q \<Longrightarrow> I (insert_request tid q s)"
    and I_clear: "I s \<Longrightarrow> I (clear_request tid s)"
    and I_timer: "I s \<Longrightarrow> pending_reqs s tid = Some q \<Longrightarrow>
      I (s\<lparr>pending_reqs := (pending_reqs s)(tid := Some (q\<lparr>pr_waitAck := w, pr_timer := tm\<rparr>))\<rparr>)"
    and I_retx: "I s \<Longrightarrow> pending_reqs s tid = Some q \<Longrightarrow> pr_retx q < retryLimit (mihmib s) \<Longrightarrow>
      I (s\<lparr>pending_reqs := (pending_reqs s)(tid := Some (q\<lparr>pr_retx := pr_retx q + 1, pr_timer := tm\<rparr>))\<rparr>)"
    and I_add_peer: "I s \<Longrightarrow> I (add_peer f s)"
    and I_upd_mihf: "I s \<Longrightarrow> I (upd_mihf fr k s)"
    and I_add_session: "I s \<Longrightarrow> set_option fo \<subseteq> set (peer_mihfs s) \<Longrightarrow> I (add_session sid a fo s)"
    and I_delete: "I s \<Longrightarrow> I (delete_session sid s)"
    and I_lastTID: "I s \<Longrightarrow> I (s\<lparr>sess_at := (sess_at s)(r := (sess_at s r)\<lparr>ss_lastTID := lt\<rparr>)\<rparr>)"
begin

definition keeps :: "mih_result \<Rightarrow> bool" where
  "keeps m \<longleftrightarrow> ensures (\<lambda>(s, out). I s) m"

lemma keeps_simps [simp]:
  "keeps (Inr (s, out)) \<longleftrightarrow> I s"
  "keeps (Inl e)"
  "keeps (need e x k) \<longleftrightarrow> (\<forall>v. x = Some v \<longrightarrow> keeps (k v))"
  "keeps (check e b m) \<longleftrightarrow> (b \<longrightarrow> keeps m)"
  by (auto simp: keeps_def)

lemma keeps_bind: "keeps m \<Longrightarrow> (\<And>s out. I s \<Longrightarrow> keeps (k (s, out))) \<Longrightarrow> keeps (bind_res m k)"
  by (cases m) (auto simp: keeps_def)

lemma keeps_any: "(\<And>x. m = Inr x \<Longrightarrow> keeps (k x)) \<Longrightarrow> keeps (bind_res m k)"
  by (cases m) (auto simp: keeps_def)

lemma find_mihf_peer: "get_mihf_info s i = Some fr \<Longrightarrow> fr \<in> set (peer_mihfs s)"
  by (auto simp: get_mihf_info_def find_Some_iff)

lemma find_session_member: "get_session s i = Some r \<Longrightarrow> r \<in> set (sessions s)"
  by (auto simp: get_session_def find_Some_iff)

lemma send_keeps:
  assumes "I s" and "send_mih_message now n ms user p session s = Inr (s', p', out)"
  shows "I s'"
  using assms
  by (auto simp: send_mih_message_def Let_def fresh_request_def new_request_def route_l3_def split: if_splits intro!: I_target I_insert)

lemma message_keeps: "I s \<Longrightarrow> keeps (send_message now n ms user p session s)"
  unfolding send_message_def by (rule keeps_any) (auto intro: send_keeps)

lemma notify_keeps:
  assumes "\<And>s r. I s \<Longrightarrow> I (fst (mk s r))"
  shows "I s \<Longrightarrow> keeps (notify_remote now n ms mk again rs s)"
proof (induction rs arbitrary: s)
  case (Cons r rs)
  have I: "I (fst (mk s r))" using assms Cons.prems .
  show ?case unfolding notify_remote.simps Let_def case_prod_unfold
  proof (rule keeps_any)
    fix x assume "send_mih_message now n ms None (snd (mk s r)) (Some r) (fst (mk s r)) = Inr x"
    then have "I (fst x)" using send_keeps [OF I] by (cases x) auto
    then show "keeps (bind_res (notify_remote now n ms mk again rs (fst x)) (\<lambda>y. Inr (fst y,
      snd (snd x) @ (if again then [MihSend (mih_target (fst x)) (fst (snd x))] else []) @ snd y)))"
      by (intro keeps_bind Cons.IH) simp_all
  qed
qed simp

lemma indications_keep: "I s \<Longrightarrow> I (fst (indication len aid pl s r))" "I s \<Longrightarrow> I (fst (bare_indication len aid pl s r))"
  by (simp_all add: indication_def bare_indication_def I_tid)

lemma event_keeps:
  assumes "I s" and "\<And>s r. I s \<Longrightarrow> I (fst (mk s r))"
  shows "keeps (handle_event now n ms l st le ev re mk again s)"
  unfolding handle_event_def Let_def
  using assms by (auto split: option.split intro!: keeps_bind notify_keeps I_status)

lemma recv_event_keeps: "I s \<Longrightarrow> keeps (recv_event now g n ms e s)"
  unfolding recv_event_def event_handlers
  by (auto split: link_event.split intro!: event_keeps indications_keep)

section \<open>Scans, commands and requests\<close>

lemma scan_done_keeps: "I s \<Longrightarrow> keeps (scan_done now n ms c s)"
  unfolding scan_done_def by (auto split: option.split intro: message_keeps)

lemma scan_loop_keeps: "I s \<Longrightarrow> scan_loop now n ms a data len cs s = Inr (cs', s', out) \<Longrightarrow> I s'"
proof (induction cs arbitrary: s cs' s' out)
  case (Cons c cs)
  from Cons.prems(2) obtain c1 fin s1 o1 cs2 o2 where
    1: "(if fin then scan_done now n ms c1 s else Inr (s, [])) = Inr (s1, o1)" and 2: "scan_loop now n ms a data len cs s1 = Inr (cs2, s', o2)"
    by (fastforce simp: case_prod_unfold)
  have "I s1" using 1 Cons.prems(1) scan_done_keeps [OF Cons.prems(1), of now n ms c1] by (auto simp: keeps_def split: if_splits)
  then show ?case using 2 by (rule Cons.IH)
qed simp

lemma scan_result_keeps: "I s \<Longrightarrow> keeps (send_scan_result now n ms m data len s)"
  unfolding send_scan_result_def process_scan_response_def
  by (auto intro!: keeps_any I_scans dest: scan_loop_keeps)

lemma request_keeps: "I s \<Longrightarrow> keeps (request_peer now n ms user f len srv aid src pl s)"
  unfolding request_peer_def Let_def by (intro keeps_any) (auto intro: message_keeps I_tid)

lemma mih_scan_keeps: "I s \<Longrightarrow> keeps (mih_scan now n ms user f ls s)"
  unfolding mih_scan_def by (auto intro!: keeps_any request_keeps I_scans)

lemma timer_step_keeps: "I s \<Longrightarrow> keeps (process_request_timer now ms tid s)"
  unfolding process_request_timer_def pending_at_def
proof (rule keeps_any)
  fix q assume s: "I s" and "need OutOfRange (pending_reqs s tid) Inr = Inr q"
  then have q: "pending_reqs s tid = Some q" by simp
  have "I (s\<lparr>pending_reqs := (pending_reqs s)(tid := Some (q\<lparr>pr_retx := pr_retx q + 1\<rparr>))\<rparr>)" if "pr_retx q < retryLimit (mihmib s)"
    using I_retx [OF s q that, of "pr_timer q"] by simp
  with s q show "keeps (if pr_retx q < retryLimit (mihmib s) then
         (if pr_l2transport q then Inr (s\<lparr>pending_reqs := (pending_reqs s)(tid := Some (q\<lparr>pr_retx := pr_retx q + 1\<rparr>))\<rparr>, [])
          else Inr (s\<lparr>pending_reqs := (pending_reqs s)(tid := Some (q\<lparr>pr_retx := pr_retx q + 1,
                        pr_timer := timer_resched now (cs_timeout (mihmib s)) (pr_timer q)\<rparr>)),
                      mih_target := Some (mac_node ms (pr_mac q))\<rparr>,
                    [MihSend (Some (mac_node ms (pr_mac q))) (pr_pkt q)]))
       else Inr (clear_request tid s, []))"
    by (auto intro!: I_target I_clear I_retx)
qed

lemma set_timer_keeps: "I s \<Longrightarrow> I (set_request_timer tid tm s)"
proof (cases "pending_reqs s tid")
  case None
  moreover assume "I s"
  ultimately show ?thesis by (simp add: set_request_timer_def fun_upd_idem)
next
  case (Some q)
  moreover assume "I s"
  ultimately show ?thesis using I_timer [where q = q and w = "pr_waitAck q" and tm = tm] by (simp add: set_request_timer_def)
qed

lemma request_expire_keeps: "I s \<Longrightarrow> keeps (request_expire now ms tid s)"
  unfolding request_expire_def timer_handle_def
  by (auto intro!: keeps_any [of "timer_begin _"] keeps_bind timer_step_keeps set_timer_keeps)

lemma stray_expire_keeps: "I s \<Longrightarrow> keeps (stray_expire now ms tid s)"
  unfolding stray_expire_def by (intro timer_step_keeps I_stray)

lemma own_request_keeps:
  assumes "I s" and "mih_opcode (mih_hdr p) = MIH_REQUEST"
  shows "I (own_request now user p m s)"
  unfolding own_request_def using assms by (auto intro!: I_insert simp: fresh_request_def new_request_def)

lemma cap_disc_keeps: "I s \<Longrightarrow> I (fst (send_cap_disc_req now n ms user m s))"
  unfolding send_cap_disc_req_def Let_def by (auto intro!: own_request_keeps I_tid simp: from_mac_def mk_mih_def)

lemma send_cap_req_keeps: "I s \<Longrightarrow> keeps (send_cap_req now n ms s)"
  unfolding send_cap_req_def using cap_disc_keeps [of s now n ms None] by (auto simp: keeps_def) (metis fst_conv)

lemma reg_request_keeps: "I s \<Longrightarrow> keeps (send_reg_request now n ms user f s)"
  unfolding send_reg_request_def Let_def by (auto intro!: own_request_keeps I_tid I_target simp: from_mac_def mk_mih_def)

lemma reg_response_keeps: "I s \<Longrightarrow> keeps (send_reg_response n ms f r c v tid s)"
  unfolding send_reg_response_def Let_def by (auto intro!: keeps_any I_delete I_upd_mihf)

lemma dereg_request_keeps: "I s \<Longrightarrow> keeps (send_dereg_request now n ms user f s)"
  unfolding send_dereg_request_def by (auto intro: request_keeps)

lemma dereg_response_keeps: "I s \<Longrightarrow> keeps (send_dereg_response now n ms user f r c tid s)"
  unfolding send_dereg_response_def Let_def by (intro keeps_any) (auto intro!: message_keeps I_delete)

section \<open>Reception\<close>

lemma answer_keeps: "I s \<Longrightarrow> keeps (answer tid x s)"
  unfolding answer_def by (intro keeps_any) (auto intro: I_clear)

lemma session_answer_keeps: "I s \<Longrightarrow> keeps (session_answer h x s)"
  unfolding session_answer_def by (auto split: option.split intro!: answer_keeps keeps_any I_clear)

lemma cap_disc_recv_keeps: "I s \<Longrightarrow> keeps (recv_cap_disc_req n ms p s)" "I s \<Longrightarrow> keeps (recv_cap_disc_rsp n ms p s)"
  unfolding recv_cap_disc_req_def recv_cap_disc_rsp_def Let_def
  by (auto split: mih_payload.split option.split intro!: answer_keeps I_add_peer I_upd_mihf)

lemma reg_req_keeps: "I s \<Longrightarrow> keeps (recv_reg_req n ms p s)"
  unfolding recv_reg_req_def
  by (auto split: mih_payload.split intro!: keeps_any I_add_session dest: find_mihf_peer)

lemma reg_rsp_keeps:
  assumes "I s"
  shows "keeps (recv_reg_rsp n ms p s)"
proof -
  have "keeps (bind_res (if reg_result q = 1 then bind_res (session_number (mihfId s) (ucast (lsb_session q))) (\<lambda>sid.
      need NullPtr (get_mac_for_node n ms s (daddr p)) (\<lambda>m. need NullPtr (get_mihf_info s (mihf_id (mih_hdr p))) (\<lambda>fr.
        Inr (upd_mihf fr (\<lambda>f. f\<lparr>mf_session := Some (Some (next_sess s))\<rparr>) (add_session sid (mac_addr ms m) (Some fr) s)))))
    else Inr s) (answer (transaction_id (mih_hdr p)) (RegisterConf q)))" for q
    by (rule keeps_any) (use assms in \<open>auto split: if_splits intro!: answer_keeps I_upd_mihf I_add_session dest: find_mihf_peer\<close>)
  then show ?thesis unfolding recv_reg_rsp_def by (auto split: mih_payload.split)
qed

lemma dereg_recv_keeps: "I s \<Longrightarrow> keeps (recv_dereg_req p s)" "I s \<Longrightarrow> keeps (recv_dereg_rsp p s)"
  unfolding recv_dereg_req_def recv_dereg_rsp_def by (auto split: mih_payload.split intro!: answer_keeps I_delete)

lemma event_rsp_keeps: "I s \<Longrightarrow> keeps (recv_event_sub_rsp p s)" "I s \<Longrightarrow> keeps (recv_event_unsub_rsp p s)"
  unfolding recv_event_sub_rsp_def recv_event_unsub_rsp_def by (auto split: mih_payload.split intro: session_answer_keeps)

lemma event_unsub_keeps: "I s \<Longrightarrow> keeps (recv_event_unsub_req now n ms p s)"
  unfolding recv_event_unsub_req_def Let_def reply_def
  by (auto split: option.split mih_payload.split intro!: message_keeps I_remote_unsub)

lemma event_ind_keeps:
  "I s \<Longrightarrow> keeps (recv_link_up_ind now n ms p s)" "I s \<Longrightarrow> keeps (recv_link_down_ind now n ms p s)"
  "I s \<Longrightarrow> keeps (recv_link_going_down_ind now g n ms p s)" "I s \<Longrightarrow> keeps (recv_link_rollback_ind now n ms p s)"
  unfolding recv_link_up_ind_def recv_link_down_ind_def recv_link_going_down_ind_def recv_link_rollback_ind_def event_handlers
  by (auto split: mih_payload.split intro!: event_keeps indications_keep)

lemma status_keeps: "I s \<Longrightarrow> keeps (recv_mih_get_status_req now n ms p s)" "I s \<Longrightarrow> keeps (recv_mih_get_status_res p s)"
  unfolding recv_mih_get_status_req_def recv_mih_get_status_res_def Let_def reply_def
  by (auto split: option.split mih_payload.split intro!: message_keeps keeps_any session_answer_keeps)

lemma scan_req_keeps: "I s \<Longrightarrow> keeps (recv_mih_scan_req now n ms p s)"
  unfolding recv_mih_scan_req_def Let_def reply_def
  by (auto split: mih_payload.split intro!: keeps_any [of "new_remote_scan _ _ _ _"] keeps_bind message_keeps I_scans I_lastTID)

lemma scan_res_keeps: "I s \<Longrightarrow> keeps (recv_mih_scan_res p s)"
  unfolding recv_mih_scan_res_def Let_def
  by (auto simp: pending_at_def split: mih_payload.split intro!: keeps_any answer_keeps I_timer)

lemma switch_keeps: "I s \<Longrightarrow> keeps (recv_mih_switch_req p s)"
  unfolding recv_mih_switch_req_def Let_def by (auto split: option.split mih_payload.split intro!: keeps_any)

definition keeps3 :: "mih_recv_result \<Rightarrow> bool" where
  "keeps3 m \<longleftrightarrow> ensures (\<lambda>(ms, s, out). I s) m"

lemma keeps3_simps [simp]:
  "keeps3 (Inr (ms, s, out)) \<longleftrightarrow> I s" "keeps3 (Inl e)"
  "keeps3 (keep_macs ms m) \<longleftrightarrow> keeps m"
  "keeps3 (need e x k) \<longleftrightarrow> (\<forall>v. x = Some v \<longrightarrow> keeps3 (k v))"
  "keeps3 (by_opcode h a b) \<longleftrightarrow> (mih_opcode h = MIH_REQUEST \<longrightarrow> keeps3 a) \<and> (mih_opcode h = MIH_RESPONSE \<longrightarrow> keeps3 b)"
  "keeps3 (event_ind h a) \<longleftrightarrow> (mih_service_id h = MIH_EVENT_SERVICE \<and> mih_opcode h = MIH_INDICATION \<longrightarrow> keeps3 a)"
  "keeps3 (command_msg h a b) \<longleftrightarrow> (mih_service_id h = MIH_COMMAND_SERVICE \<longrightarrow> keeps3 (by_opcode h a b))"
  by (auto simp: keeps3_def keeps_def keep_macs_def by_opcode_def event_ind_def command_msg_def case_prod_unfold split: mih_opcode.split)

lemma event_sub_keeps: "I s \<Longrightarrow> keeps3 (recv_event_sub_req now n ms p s)"
  unfolding recv_event_sub_req_def Let_def reply_def
  by (auto simp: case_prod_unfold split: option.split mih_payload.split intro!: message_keeps I_remote_sub find_session_member)

lemma mih_recv_keeps: "I s \<Longrightarrow> keeps3 (mih_recv now g n ms p s)"
  unfolding mih_recv_def Let_def
  by (cases "mih_aid (mih_hdr p)") (simp_all add: cap_disc_recv_keeps reg_req_keeps reg_rsp_keeps dereg_recv_keeps event_rsp_keeps
      event_sub_keeps event_unsub_keeps event_ind_keeps status_keeps scan_req_keeps scan_res_keeps switch_keeps)

lemma subscribe_keeps:
  assumes "I s"
  shows "mih_event_subscribe now n ms u f l ev s = Inr (ms', s', st, out) \<Longrightarrow> I s'"
    and "mih_event_unsubscribe now n ms u f l ev s = Inr (s', st, out) \<Longrightarrow> I s'"
    and "mih_get_status now n ms u f q s = Inr (s', x, out) \<Longrightarrow> I s'"
  using assms ensuresD [OF request_keeps [OF assms, unfolded keeps_def]]
  by (fastforce simp: mih_event_subscribe_def mih_event_unsubscribe_def mih_get_status_def Let_def case_prod_unfold split: if_splits intro: I_sub I_unsub)+

lemma step_keeps:
  assumes "I s" and "mih_step (ms, s) (now, n, i) = Inr ((ms', s'), out)"
  shows "I s'"
proof -
  have k: "keeps m \<Longrightarrow> keep_macs ms m = Inr (ms', s', out) \<Longrightarrow> I s'" for m by (auto simp: keeps_def keep_macs_def)
  have k3: "keeps3 m \<Longrightarrow> m = Inr (ms', s', out) \<Longrightarrow> I s'" for m by (auto simp: keeps3_def)
  show ?thesis
  proof (cases i)
    case (CmdCapDisc u m)
    then show ?thesis using assms cap_disc_keeps [OF assms(1), of now n ms u m] by (auto simp: keep_macs_def case_prod_unfold)
  next
    case (AddUser uo)
    then show ?thesis using assms by (auto simp: register_management_user_def intro: I_users)
  next
    case (AddMac mo)
    then show ?thesis using assms I_add_mac by auto
  qed (use assms in \<open>auto intro: k [OF recv_event_keeps] k3 [OF mih_recv_keeps] k [OF request_expire_keeps] k [OF stray_expire_keeps] k [OF scan_result_keeps]
      k [OF mih_scan_keeps] subscribe_keeps k [OF send_cap_req_keeps] k [OF reg_request_keeps] k [OF reg_response_keeps] k [OF dereg_request_keeps]
      k [OF dereg_response_keeps]\<close>)
qed

lemma run_keeps:
  "run_steps mih_step (ms, s) is = Inr ((ms', s'), outs) \<Longrightarrow> I s \<Longrightarrow> I s'"
proof (induction "is" arbitrary: ms s outs)
  case (Cons i "is")
  obtain now n j where i: "i = (now, n, j)" by (cases i)
  from Cons.prems(1) obtain ms1 s1 x xs where 1: "mih_step (ms, s) i = Inr ((ms1, s1), x)"
    and 2: "run_steps mih_step (ms1, s1) is = Inr ((ms', s'), xs)" by fastforce
  from 1 have "I s1" using step_keeps Cons.prems(2) unfolding i by blast
  with 2 show ?case by (rule Cons.IH)
qed simp

end

section \<open>Well-formed tables\<close>

text \<open>
  Sessions and peers are filed once; a remote subscriber is a session that exists, and subscribers are not repeated; the
  requests are filed under their transaction and have been repeated at most as often as the limit says.
\<close>

definition wf_iface :: "sess_ref set \<Rightarrow> mih_iface \<Rightarrow> bool" where
  "wf_iface S i \<longleftrightarrow> (\<forall>e. distinct (mi_local i e) \<and> distinct (mi_remote i e) \<and> set (mi_remote i e) \<subseteq> S \<and> (LINK_LAST_EVENT \<le> e \<longrightarrow> mi_remote i e = []))"

definition wf_request :: "int \<Rightarrow> 16 word \<Rightarrow> mih_pending_req \<Rightarrow> bool" where
  "wf_request limit tid q \<longleftrightarrow> pr_tid q = tid \<and> transaction_id (mih_hdr (pr_pkt q)) = tid \<and> 0 \<le> pr_retx q \<and> pr_retx q \<le> max 0 limit
     \<and> (mih_opcode (mih_hdr (pr_pkt q)) = MIH_REQUEST \<or> ack_req (mih_hdr (pr_pkt q)))"

definition mih_wf :: "mih_agent \<Rightarrow> bool" where
  "mih_wf s \<longleftrightarrow> distinct (sessions s) \<and> (\<forall>r \<in> set (sessions s). r < next_sess s \<and> set_option (ss_mihf (sess_at s r)) \<subseteq> set (peer_mihfs s))
     \<and> distinct (peer_mihfs s) \<and> (\<forall>f \<in> set (peer_mihfs s). f < next_mihf s)
     \<and> (\<forall>i \<in> set (ifaces s). wf_iface (set (sessions s)) i)
     \<and> (\<forall>tid q. pending_reqs s tid = Some q \<longrightarrow> wf_request (retryLimit (mihmib s)) tid q)"

lemma upd_first_all: "(\<forall>x \<in> set xs. P x) \<Longrightarrow> (\<And>x. P x \<Longrightarrow> P (f x)) \<Longrightarrow> \<forall>x \<in> set (upd_first Q f xs). P x"
  by (induction xs) auto

lemma wf_upd_iface:
  "mih_wf s \<Longrightarrow> (\<And>i. wf_iface (set (sessions s)) i \<Longrightarrow> wf_iface (set (sessions s)) (f i)) \<Longrightarrow> mih_wf (upd_iface a f s)"
  using upd_first_all [of "ifaces s" "wf_iface (set (sessions s))" f] by (simp add: mih_wf_def upd_iface_def)

lemma wf_iface_status: "wf_iface S i \<Longrightarrow> wf_iface S (setStatus st i)"
  by (simp add: wf_iface_def iface_ops)

lemma wf_iface_sub: "wf_iface S i \<Longrightarrow> wf_iface S (event_subscribe u ev i)" "wf_iface S i \<Longrightarrow> wf_iface S (event_unsubscribe u ev i)"
  by (simp_all add: wf_iface_def iface_ops)

lemma wf_iface_remote_sub: "wf_iface S i \<Longrightarrow> r \<in> S \<Longrightarrow> wf_iface S (remote_event_subscribe r ev i)"
  by (simp add: wf_iface_def iface_ops)

lemma set_remove1_mono: "set xs \<subseteq> S \<Longrightarrow> set (remove1 r xs) \<subseteq> S"
  using set_remove1_subset by (rule subset_trans)

lemma wf_iface_remote_unsub: "wf_iface S i \<Longrightarrow> wf_iface S (remote_event_unsubscribe r ev i)"
  unfolding wf_iface_def iface_ops by (simp add: set_remove1_mono del: set_remove1_eq)

lemma wf_iface_mono: "wf_iface S i \<Longrightarrow> S \<subseteq> T \<Longrightarrow> wf_iface T i"
  unfolding wf_iface_def by (meson subset_trans)

lemmas wf_iface_ops = wf_iface_status wf_iface_sub wf_iface_remote_sub wf_iface_remote_unsub

lemma unsub_all:
  "mi_remote (remote_event_unsubscribe r 0xFFFFFFFF i) e = (if e < LINK_LAST_EVENT then remove1 r (mi_remote i e) else mi_remote i e)"
proof -
  have "(0xFFFFFFFF :: 32 word) = - 1" by simp
  then show ?thesis by (simp only:) (simp add: iface_ops LINK_LAST_EVENT_def)
qed

lemma unsub_all_local: "mi_local (remote_event_unsubscribe r ev i) = mi_local i"
  by (simp add: iface_ops)

lemma wf_iface_unsub_all:
  assumes "wf_iface S i"
  shows "wf_iface (S - {r}) (remote_event_unsubscribe r 0xFFFFFFFF i)"
  unfolding wf_iface_def
proof
  fix e
  have i: "distinct (mi_local i e)" "distinct (mi_remote i e)" "set (mi_remote i e) \<subseteq> S" "LINK_LAST_EVENT \<le> e \<longrightarrow> mi_remote i e = []"
    using assms by (simp_all add: wf_iface_def)
  show "distinct (mi_local (remote_event_unsubscribe r 0xFFFFFFFF i) e) \<and> distinct (mi_remote (remote_event_unsubscribe r 0xFFFFFFFF i) e)
    \<and> set (mi_remote (remote_event_unsubscribe r 0xFFFFFFFF i) e) \<subseteq> S - {r}
    \<and> (LINK_LAST_EVENT \<le> e \<longrightarrow> mi_remote (remote_event_unsubscribe r 0xFFFFFFFF i) e = [])"
    by (cases "e < LINK_LAST_EVENT") (use i in \<open>auto simp: unsub_all unsub_all_local set_remove1_eq\<close>)
qed

interpretation wf: mih_closed mih_wf
proof
  fix s sid assume "mih_wf s"
  show "mih_wf (delete_session sid s)"
  proof (cases "get_session s sid")
    case None
    with \<open>mih_wf s\<close> show ?thesis by (simp add: delete_session_def)
  next
    case (Some r)
    have "distinct (sessions s)" using \<open>mih_wf s\<close> by (simp add: mih_wf_def)
    with \<open>mih_wf s\<close> Some show ?thesis
      by (auto simp: delete_session_def mih_wf_def set_remove1_eq intro!: wf_iface_unsub_all)
  qed
next
  fix s fo sid a assume "mih_wf s" and "set_option fo \<subseteq> set (peer_mihfs s)"
  then show "mih_wf (add_session sid a fo s)"
    by (auto simp: add_session_def mih_wf_def elim!: wf_iface_mono)
qed (auto intro!: wf_upd_iface wf_iface_ops, auto simp: bump_tid_def mih_wf_def add_mac_def new_mac_iface_def insert_request_def clear_request_def
    fresh_request_def wf_request_def add_peer_def upd_mihf_def wf_iface_def [of _ "\<lparr>mi_mac = _, mi_type = _, mi_macAddr = _, mi_macPoA = _, mi_capability = _,
      mi_status = _, mi_local = _, mi_remote = _, mi_sess = _\<rparr>"] split: option.split)

text \<open>The identity, the configuration and the addressing of the agent.\<close>

definition mih_config :: "mih_agent \<Rightarrow> 32 word \<times> mih_mib \<times> addr \<times> addr" where
  "mih_config s = (mihfId s, mihmib s, here_addr s, here_port s)"

interpretation cfg: mih_closed "\<lambda>s. mih_config s = c" for c
  by unfold_locales (auto simp: mih_config_def bump_tid_def upd_iface_def add_mac_def insert_request_def clear_request_def add_peer_def upd_mihf_def
      add_session_def delete_session_def split: option.split)

lemma new_mih_agent_wf: "mih_wf (new_mih_agent s i)"
  by (simp add: new_mih_agent_def mih_wf_def)

section \<open>The invariant\<close>

text \<open>
  C19: Whatever messages, link events, timers, scan results and commands the handover function handles, from its creation on: no
  event is ever sent on a session that has been deleted, because the remote subscribers of every interface are
  existing sessions, each once per event; every session and peer is filed once and sessions belong to known peers; every pending request is filed
  under the transaction of its packet, waits for an answer, and has been sent again at most \<^verbatim>\<open>retryLimit_\<close> times; and the identity and
  configuration of the agent stay.
\<close>

theorem mih_tables_wf:
  assumes "run_steps mih_step (ms, new_mih_agent s i) is = Inr ((ms', s'), outs)"
  shows "mih_wf s' \<and> mih_config s' = mih_config (new_mih_agent s i)"
  using wf.run_keeps [OF assms new_mih_agent_wf] cfg.run_keeps [OF assms refl] by blast

theorem mih_tables_wf_witness:
  "\<exists>ms' s' outs. run_steps mih_step (demo_macs, new_mih_agent (demo_mih 3 0x1801 []) 3)
      [(0, demo_net, AddMac (Some 4)), (0, demo_net, AddUser (Some 9)), (1, demo_net, CmdCapDisc (Some 9) 4), (2, demo_net, InTimer 0)] = Inr ((ms', s'), outs)
    \<and> mih_wf s' \<and> pending_reqs s' 0 \<noteq> None"
proof -
  let ?is = "[(0, demo_net, AddMac (Some 4)), (0, demo_net, AddUser (Some 9)), (1, demo_net, CmdCapDisc (Some 9) 4), (2, demo_net, InTimer 0)]"
  have "\<exists>ms' s' outs. run_steps mih_step (demo_macs, new_mih_agent (demo_mih 3 0x1801 []) 3) ?is = Inr ((ms', s'), outs) \<and> pending_reqs s' 0 \<noteq> None"
    by (simp add: demo_mih_defs add_mac_def register_management_user_def send_cap_disc_req_def own_request_def insert_request_def keep_macs_def Let_def
        new_request_def from_mac_def mk_mih_def request_expire_def timer_handle_def request_timer_def set_request_timer_def timer_begin_def
        process_request_timer_def pending_at_def next_tid_def bump_tid_def timer_resched_def)
  then show ?thesis using mih_tables_wf by blast
qed

end
