(* ===== verification/Mih_Props.thy ===== *)
theory Mih_Props
  imports Mih_Invariants
begin

text \<open>
  What the handover function promises: what a MAC reports after a subscription or a cancellation, that an unanswered request is
  repeated and dropped, when two sessions have the same number, and that two functions that discover each other and register
  end up with the two halves of one session.
\<close>

section \<open>The link layer\<close>

text \<open>
  What a MAC reports. A subscription adds the requested events that the MAC supports; but a cancellation that hits a subscribed
  event ends all reports of the MAC, and one that hits none ends all but link up: the list is masked with a truth value instead of the complement of the cancelled events.
\<close>

theorem link_subscriptions:
  "event_subscribed (fst (link_event_subscribe events m ms)) m e
     = (event_subscribed ms m e \<or> sap_mih (mac_sap ms m) \<and> bit events (event_no e) \<and> bit (eventList (mac_sap ms m)) (event_no e))
   \<and> event_subscribed (fst (link_event_unsubscribe events m ms)) m e
     = (events AND subscribedEventList (mac_sap ms m) = 0 \<and> e = MIH_LINK_UP \<and> event_subscribed ms m e)
   \<and> (m' \<noteq> m \<longrightarrow> event_subscribed (fst (link_event_subscribe events m ms)) m' e = event_subscribed ms m' e
        \<and> event_subscribed (fst (link_event_unsubscribe events m ms)) m' e = event_subscribed ms m' e)"
proof -
  have "event_no e = 0 \<longleftrightarrow> e = MIH_LINK_UP" by (cases e) simp_all
  then show ?thesis
    by (auto simp: event_subscribed_bit link_event_subscribe_def link_event_unsubscribe_def upd_sap_def Let_def bit_or_iff bit_and_iff bit_1_iff)
qed

theorem link_subscriptions_witness:
  "let ms = fst (link_event_subscribe 0x1F9 4 demo_macs); ms' = fst (link_event_unsubscribe 0x100 4 ms)
   in event_subscribed ms 4 MIH_LINK_DETECTED \<and> \<not> event_subscribed ms' 4 MIH_LINK_DETECTED \<and> \<not> event_subscribed ms' 5 MIH_LINK_UP"
  unfolding Let_def
  using link_subscriptions [where events = "0x1F9" and m = 4 and ms = demo_macs and e = MIH_LINK_DETECTED and m' = 5]
    link_subscriptions [where events = "0x100" and m = 4 and ms = "fst (link_event_subscribe 0x1F9 4 demo_macs)" and e = MIH_LINK_DETECTED and m' = 5]
    link_subscriptions [where events = "0x100" and m = 4 and ms = "fst (link_event_subscribe 0x1F9 4 demo_macs)" and e = MIH_LINK_UP and m' = 5]
    link_subscriptions [where events = "0x1F9" and m = 4 and ms = demo_macs and e = MIH_LINK_UP and m' = 5]
  by (simp add: demo_macs_def mac_eventList_def new_link_sap_def event_subscribed_bit bit_numeral_rec)

section \<open>Unanswered requests\<close>

text \<open>The timer of a request goes off each time it is due, and no response comes.\<close>

fun unanswered_request :: "macs \<Rightarrow> nat \<Rightarrow> 16 word \<Rightarrow> mih_agent \<Rightarrow> mih_result" where
  "unanswered_request ms 0 tid s = Inr (s, [])"
| "unanswered_request ms (Suc k) tid s =
     (case request_timer tid s of
        TIMER_PENDING t \<Rightarrow> bind_res (request_expire t ms tid s) (\<lambda>(s1, out). bind_res (unanswered_request ms k tid s1) (\<lambda>(s2, out2). Inr (s2, out @ out2)))
      | _ \<Rightarrow> Inr (s, []))"

lemma expire_retransmits:
  assumes "pending_reqs s tid = Some q" and "pr_timer q = TIMER_PENDING t" and "\<not> pr_l2transport q" and "pr_retx q < retryLimit (mihmib s)"
  shows "request_expire now ms tid s = Inr (s\<lparr>pending_reqs := (pending_reqs s)(tid := Some (q\<lparr>pr_retx := pr_retx q + 1,
      pr_timer := TIMER_PENDING (now + cs_timeout (mihmib s))\<rparr>)), mih_target := Some (mac_node ms (pr_mac q))\<rparr>,
    [MihSend (Some (mac_node ms (pr_mac q))) (pr_pkt q)])"
  using assms by (simp add: request_expire_def timer_handle_def timer_defs request_timer_def set_request_timer_def process_request_timer_def pending_at_def)

lemma expire_gives_up:
  assumes "pending_reqs s tid = Some q" and "pr_timer q = TIMER_PENDING t" and "\<not> pr_retx q < retryLimit (mihmib s)"
  shows "request_expire now ms tid s = Inr (s\<lparr>pending_reqs := (pending_reqs s)(tid := None)\<rparr>, [])"
  using assms by (simp add: request_expire_def timer_handle_def timer_defs request_timer_def set_request_timer_def process_request_timer_def pending_at_def clear_request_def)

lemma unanswered_ends_request:
  assumes "pending_reqs s tid = Some q" and "pr_timer q = TIMER_PENDING t" and "\<not> pr_l2transport q" and "pr_retx q \<le> retryLimit (mihmib s)"
    and "nat (retryLimit (mihmib s) - pr_retx q) < k"
  shows "\<exists>s'. unanswered_request ms k tid s
      = Inr (s', replicate (nat (retryLimit (mihmib s) - pr_retx q)) (MihSend (Some (mac_node ms (pr_mac q))) (pr_pkt q)))
    \<and> pending_reqs s' = (pending_reqs s)(tid := None)"
  using assms
proof (induction k arbitrary: s q t)
  case (Suc k)
  have due: "request_timer tid s = TIMER_PENDING t" using Suc.prems(1,2) by (simp add: request_timer_def)
  show ?case
  proof (cases "pr_retx q < retryLimit (mihmib s)")
    case True
    let ?q = "q\<lparr>pr_retx := pr_retx q + 1, pr_timer := TIMER_PENDING (t + cs_timeout (mihmib s))\<rparr>"
    let ?s = "s\<lparr>pending_reqs := (pending_reqs s)(tid := Some ?q), mih_target := Some (mac_node ms (pr_mac q))\<rparr>"
    have n: "nat (retryLimit (mihmib s) - pr_retx q) = Suc (nat (retryLimit (mihmib s) - (pr_retx q + 1)))" using True by simp
    obtain s' where "unanswered_request ms k tid ?s
        = Inr (s', replicate (nat (retryLimit (mihmib s) - (pr_retx q + 1))) (MihSend (Some (mac_node ms (pr_mac q))) (pr_pkt q)))"
      "pending_reqs s' = (pending_reqs ?s)(tid := None)"
      using Suc.IH [of ?s ?q "t + cs_timeout (mihmib s)"] Suc.prems(3,5) True n by fastforce
    with n show ?thesis using due expire_retransmits [OF Suc.prems(1-3) True, of t ms] by (simp add: fun_eq_iff)
  next
    case False
    then show ?thesis using due Suc.prems(4) expire_gives_up [OF Suc.prems(1,2) False, of t ms]
      by (cases k) (simp_all add: request_timer_def fun_eq_iff)
  qed
qed simp

text \<open>
  C22: A request that goes by the network layer and is never answered is sent again every time its timer goes off, unchanged and by the
  same interface, \<^verbatim>\<open>retryLimit_\<close> times in all after the first, and then dropped; the other requests are not touched. The fuel only has
  to exceed the number of repetitions that are left.
\<close>

theorem request_retransmission:
  assumes "pending_reqs s tid = Some q" and "pr_timer q = TIMER_PENDING t" and "\<not> pr_l2transport q" and "pr_retx q = 0"
    and "0 \<le> retryLimit (mihmib s)" and "nat (retryLimit (mihmib s)) < k"
  shows "\<exists>s'. unanswered_request ms k tid s = Inr (s', replicate (nat (retryLimit (mihmib s))) (MihSend (Some (mac_node ms (pr_mac q))) (pr_pkt q)))
    \<and> pending_reqs s' = (pending_reqs s)(tid := None)"
  using unanswered_ends_request [OF assms(1-3)] assms(4-6) by simp

theorem request_retransmission_witness:
  "\<exists>s' x. unanswered_request demo_macs 5 0 (fst (send_cap_disc_req 1 demo_net demo_macs (Some 9) 4 (demo_mih 3 0x1801 [4]))) = Inr (s', [x, x, x])
     \<and> pending_reqs s' 0 = None"
proof -
  let ?s = "fst (send_cap_disc_req 1 demo_net demo_macs (Some 9) 4 (demo_mih 3 0x1801 [4]))"
  obtain q where q: "pending_reqs ?s 0 = Some q" "pr_timer q = TIMER_PENDING (3 / 2)" "\<not> pr_l2transport q" "pr_retx q = 0" "retryLimit (mihmib ?s) = 3"
    by (simp add: demo_mih_defs send_cap_disc_req_def own_request_def insert_request_def Let_def new_request_def from_mac_def mk_mih_def next_tid_def bump_tid_def)
  then show ?thesis using request_retransmission [OF q(1-4), of 5 demo_macs] by (auto simp: numeral_eq_Suc)
qed

section \<open>Session numbers\<close>

lemma shift_amount:
  fixes b :: "32 word"
  assumes "b < 16"
  shows "unat (16 + b) = 16 + unat b" and "unat b < 16"
proof -
  show "unat b < 16" using assms by (simp add: word_less_nat_alt)
  then show "unat (16 + b) = 16 + unat b" by (simp add: unat_word_ariths)
qed

lemma session_number_ok: "b < 16 \<Longrightarrow> session_number a b = Inr (push_bit (16 + unat b) a)"
  using shift_amount [of b] by (simp add: session_number_def Let_def)

lemma push_bit_eq_iff:
  fixes a a' :: "32 word"
  assumes "k \<le> 32"
  shows "push_bit k a = push_bit k a' \<longleftrightarrow> take_bit (32 - k) a = take_bit (32 - k) a'"
proof
  assume eq: "push_bit k a = push_bit k a'"
  show "take_bit (32 - k) a = take_bit (32 - k) a'"
  proof (rule bit_word_eqI)
    fix n
    have "bit (push_bit k a) (n + k) = bit (push_bit k a') (n + k)" using eq by simp
    then show "bit (take_bit (32 - k) a) n = bit (take_bit (32 - k) a') n" by (auto simp: bit_take_bit_iff bit_push_bit_iff)
  qed
next
  assume eq: "take_bit (32 - k) a = take_bit (32 - k) a'"
  show "push_bit k a = push_bit k a'"
  proof (rule bit_word_eqI)
    fix n assume "n < LENGTH(32)"
    moreover have "bit (take_bit (32 - k) a) (n - k) = bit (take_bit (32 - k) a') (n - k)" using eq by simp
    ultimately show "bit (push_bit k a) n = bit (push_bit k a') n" by (auto simp: bit_take_bit_iff bit_push_bit_iff)
  qed
qed

text \<open>
  The number of a session does not identify its peer. The agent with number \<open>b\<close> below 16 gives the sessions that \<open>a\<close> and \<open>a'\<close> request
  from it the same number exactly when the lowest \<open>16 - b\<close> bits of their numbers agree, and an agent with a number from 16 on
  cannot number a session at all: the shift exceeds the width of the type.
\<close>

theorem session_numbers_collide:
  "(b < 16 \<longrightarrow> (session_number a b = session_number a' b \<longleftrightarrow> take_bit (16 - unat b) a = take_bit (16 - unat b) a'))
   \<and> (16 \<le> b \<and> b < - 16 \<longrightarrow> session_number a b = Inl BadShift)"
proof (intro conjI impI)
  assume b: "b < 16"
  have "32 - (16 + unat b) = 16 - unat b" by simp
  with shift_amount [OF b] push_bit_eq_iff [of "16 + unat b" a a']
  show "session_number a b = session_number a' b \<longleftrightarrow> take_bit (16 - unat b) a = take_bit (16 - unat b) a'"
    by (simp add: session_number_ok [OF b])
next
  assume b: "16 \<le> b \<and> b < - 16"
  have "(- 16 :: 32 word) = 4294967280" by simp
  with b have "16 \<le> unat b" "unat b < 4294967280" by (simp_all add: word_le_nat_alt word_less_nat_alt)
  then have "unat (16 + b) = 16 + unat b" by (simp add: unat_word_ariths)
  with \<open>16 \<le> unat b\<close> show "session_number a b = Inl BadShift" by (simp add: session_number_def Let_def)
qed

theorem session_numbers_collide_witness:
  "session_number 1 15 = session_number 3 15 \<and> session_number 1 15 \<noteq> session_number 2 15 \<and> session_number 1 20 = Inl BadShift"
  using session_numbers_collide [of 15 1 3] session_numbers_collide [of 15 1 2] session_numbers_collide [of 20 1 0]
  by (simp add: take_bit_eq_mod)

section \<open>Peers and sessions\<close>

lemma find_append: "find P (xs @ ys) = (case find P xs of None \<Rightarrow> find P ys | Some x \<Rightarrow> Some x)"
  by (induction xs) auto

lemma find_upd_outside: "r \<notin> set xs \<Longrightarrow> find (\<lambda>x. P ((f(r := v)) x)) xs = find (\<lambda>x. P (f x)) xs"
  by (induction xs) auto

lemma get_mihf_add_peer:
  assumes "mih_wf s" and "get_mihf_info s i = None"
  shows "get_mihf_info (add_peer f s) i = (if mf_id f = i then Some (next_mihf s) else None)"
proof -
  have "next_mihf s \<notin> set (peer_mihfs s)" using assms(1) by (auto simp: mih_wf_def)
  from find_upd_outside [OF this, of "\<lambda>x. mf_id x = i" "mihf_at s" f] assms(2) show ?thesis
    by (simp add: get_mihf_info_def add_peer_def find_append)
qed

lemma get_session_add:
  assumes "mih_wf s" and "get_session s i = None"
  shows "get_session (add_session sid a f s) i = (if sid = i then Some (next_sess s) else None)"
proof -
  let ?v = "\<lparr>ss_id = sid, ss_macAddr = a, ss_mihf = f, ss_lastTID = - 1\<rparr>"
  have "next_sess s \<notin> set (sessions s)" using assms(1) by (auto simp: mih_wf_def)
  from find_upd_outside [OF this, of "\<lambda>x. ss_id x = i" "sess_at s" ?v] assms(2) show ?thesis
    by (simp add: get_session_def add_session_def find_append)
qed

lemma mac_for_node_addr: "get_mac_for_node n ms s a = Some m \<Longrightarrow> node_addr n (mac_node ms m) = a"
  by (auto simp: get_mac_for_node_def find_Some_iff)

lemma get_mac_for_node_cong: "ifaces s = ifaces s' \<Longrightarrow> get_mac_for_node n ms s a = get_mac_for_node n ms s' a"
  by (simp add: get_mac_for_node_def get_local_mac_def)

lemma get_mihf_cong: "peer_mihfs s = peer_mihfs s' \<Longrightarrow> mihf_at s = mihf_at s' \<Longrightarrow> get_mihf_info s i = get_mihf_info s' i"
  by (simp add: get_mihf_info_def)

lemma get_session_cong: "sessions s = sessions s' \<Longrightarrow> sess_at s = sess_at s' \<Longrightarrow> get_session s i = get_session s' i"
  by (simp add: get_session_def)

section \<open>Discovery\<close>

definition cap_request :: "net \<Rightarrow> macs \<Rightarrow> mac_ref \<Rightarrow> mih_agent \<Rightarrow> mih_packet" where
  "cap_request n ms m s = from_mac n ms m 0xFFFFFFFF s
     (mk_mih s mih_cap_disc_size MIH_COMMAND_SERVICE MIH_REQUEST MIH_MSG_CAPABILITY_DISCOVER (next_tid s) 0 (own_capabilities s))"

lemma cap_request_sent:
  "send_cap_disc_req now n ms user m s = (own_request now user (cap_request n ms m s) m (bump_tid s), [MihSchedule (mac_node ms m) (cap_request n ms m s) MIH_CAP_DELAY])"
  by (simp add: send_cap_disc_req_def cap_request_def Let_def)

definition known_as :: "mih_agent \<Rightarrow> addr \<Rightarrow> mac_ref \<Rightarrow> mihf_info" where
  "known_as s a m = describe (zero_mih\<lparr>mihf_id := mihfId s\<rparr>) (case own_capabilities s of CapDisc c \<Rightarrow> c) a (Some m) blank_mihf"

definition cap_response :: "mih_packet \<Rightarrow> mih_agent \<Rightarrow> mih_packet" where
  "cap_response p s = (let q = mk_mih s mih_cap_disc_size MIH_COMMAND_SERVICE MIH_RESPONSE MIH_MSG_CAPABILITY_DISCOVER (transaction_id (mih_hdr p)) 0 (own_capabilities s)
     in q\<lparr>daddr := saddr p, dport := sport p, mih_hdr := (mih_hdr q)\<lparr>mihf_id := mihfId s\<rparr>\<rparr>)"

lemma cap_request_recv:
  assumes "get_mac_for_node n ms t (here_addr t) = Some m'"
  shows "mih_recv now g n ms (cap_request n ms m s) t
    = Inr (ms, add_peer (known_as s (node_addr n (mac_node ms m)) m') t, [MihSend (mih_target t) (cap_response (cap_request n ms m s) t)])"
  using assms by (simp add: mih_recv_def Let_def by_opcode_def cap_request_def from_mac_def mk_mih_def keep_macs_def recv_cap_disc_req_def known_as_def own_capabilities_def
      describe_def cap_response_def add_peer_def)

lemma cap_response_recv:
  assumes "get_mac_for_node n ms s (daddr p) = Some m" and "get_mihf_info s (mihfId t) = None" and "p = cap_response q t"
    and "pending_reqs s (transaction_id (mih_hdr q)) = Some req" and "pr_user req = Some u" and "pr_tid req = transaction_id (mih_hdr q)"
  shows "mih_recv now g n ms p s = Inr (ms, clear_request (transaction_id (mih_hdr q)) (add_peer (known_as t (here_addr t) m) s), [ToUser u (CapDiscConf (mih_hdr p))])"
    and "mihf_id (mih_hdr p) = mihfId t"
  using assms by (simp_all add: mih_recv_def Let_def by_opcode_def mk_mih_def keep_macs_def recv_cap_disc_rsp_def known_as_def own_capabilities_def
      describe_def cap_response_def add_peer_def answer_def pending_at_def mih_alloc_def allocpkt_def packet.defs)

section \<open>Registration\<close>

definition reg_request :: "net \<Rightarrow> macs \<Rightarrow> mac_ref \<Rightarrow> addr \<Rightarrow> 32 word \<Rightarrow> mih_agent \<Rightarrow> mih_packet" where
  "reg_request n ms m a i s = from_mac n ms m a s
     (mk_mih s mih_reg_req_size MIH_COMMAND_SERVICE MIH_REQUEST MIH_MSG_REGISTRATION (next_tid s) 0
       (RegReq \<lparr>rq_destID = i, rq_code = 0, msb_session = ucast (mihfId s)\<rparr>))"

lemma reg_request_sent:
  assumes "get_mihf_info s i = Some fr" and "mf_local_mac (mihf_at s fr) = Some m"
  shows "send_reg_request now n ms user i s = Inr ((own_request now user (reg_request n ms m (mf_address (mihf_at s fr)) i s) m (bump_tid s))\<lparr>mih_target := Some (mac_node ms m)\<rparr>,
    [MihSend (Some (mac_node ms m)) (reg_request n ms m (mf_address (mihf_at s fr)) i s)])"
proof -
  have "mf_id (mihf_at s fr) = i" using assms(1) by (auto simp: get_mihf_info_def find_Some_iff)
  then show ?thesis using assms by (simp add: send_reg_request_def reg_request_def Let_def)
qed

lemma ucast_16: "x < 0x10000 \<Longrightarrow> ucast (ucast x :: 16 word) = x" for x :: "32 word"
proof -
  assume "x < 0x10000"
  then have "unat x < 2 ^ 16" by (simp add: word_less_nat_alt)
  then have "take_bit 16 x = x" by (simp add: word_unat_eq_iff unsigned_take_bit_eq take_bit_nat_eq_self)
  moreover have "ucast (ucast x :: 16 word) = take_bit 16 x" by (rule bit_word_eqI) (auto simp: bit_ucast_iff bit_take_bit_iff)
  ultimately show ?thesis by (simp only:)
qed

lemma reg_request_recv:
  assumes "get_mac_for_node n ms t a = Some m'" and "mihfId t < 16" and "mihfId s < 0x10000"
  shows "mih_recv now g n ms (reg_request n ms m a i s) t
    = Inr (ms, add_session (push_bit (16 + unat (mihfId t)) (mihfId s)) (mac_addr ms m') (get_mihf_info t (mihfId s)) t,
        map (\<lambda>u. ToUser u (RegisterInd (mih_hdr (reg_request n ms m a i s)))) (management_users t))"
  using assms by (simp add: mih_recv_def Let_def by_opcode_def mk_mih_def keep_macs_def recv_reg_req_def reg_request_def from_mac_def
      session_number_ok ucast_16)

definition reg_accept :: "net \<Rightarrow> macs \<Rightarrow> mac_ref \<Rightarrow> addr \<Rightarrow> 32 word \<Rightarrow> 32 word \<Rightarrow> 16 word \<Rightarrow> mih_agent \<Rightarrow> mih_packet" where
  "reg_accept n ms m a i validity tid s = (from_mac n ms m a s
     (mk_mih s mih_reg_rsp_size MIH_COMMAND_SERVICE MIH_RESPONSE MIH_MSG_REGISTRATION tid 0
       (RegRsp \<lparr>rr_destID = i, rr_validity = validity, reg_result = 1, rr_failure_code = 0, lsb_session = ucast (mihfId s)\<rparr>)))\<lparr>sport := here_port s\<rparr>"

lemma reg_accept_sent:
  assumes "get_mihf_info s i = Some fr" and "mf_local_mac (mihf_at s fr) = Some m" and "mihfId s < 16"
  shows "send_reg_response n ms i 1 0 validity tid s
    = Inr (upd_mihf fr (\<lambda>f. f\<lparr>mf_session := Some (get_session s (push_bit (16 + unat (mihfId s)) i))\<rparr>) s,
        [MihSend (mih_target s) (reg_accept n ms m (mf_address (mihf_at s fr)) i validity tid s)])"
  using assms by (simp add: send_reg_response_def reg_accept_def Let_def session_number_ok upd_mihf_def)

lemma reg_accept_recv:
  assumes "get_mac_for_node n ms s a = Some m'" and "mihfId t < 16" and "get_mihf_info s (mihfId t) = Some fr"
    and "pending_reqs s tid = Some req" and "pr_user req = Some u" and "pr_tid req = tid"
  shows "\<exists>r. mih_recv now g n ms (reg_accept n ms m a i validity tid t) s
    = Inr (ms, clear_request tid (upd_mihf fr (\<lambda>f. f\<lparr>mf_session := Some (Some (next_sess s))\<rparr>)
        (add_session (push_bit (16 + unat (mihfId t)) (mihfId s)) (mac_addr ms m') (Some fr) s)), [ToUser u (RegisterConf r)]) \<and> reg_result r = 1"
proof -
  have "mihfId t < 0x10000" using assms(2) by (simp add: word_less_nat_alt)
  then show ?thesis using assms
    by (simp add: mih_recv_def Let_def by_opcode_def mk_mih_def keep_macs_def recv_reg_rsp_def reg_accept_def from_mac_def
      session_number_ok ucast_16 answer_def pending_at_def upd_mihf_def add_session_def)
qed

section \<open>The handshake\<close>

lemma own_request_fields [simp]:
  "ifaces (own_request now u p m s) = ifaces s" "peer_mihfs (own_request now u p m s) = peer_mihfs s" "mihf_at (own_request now u p m s) = mihf_at s"
  "next_mihf (own_request now u p m s) = next_mihf s" "sessions (own_request now u p m s) = sessions s" "sess_at (own_request now u p m s) = sess_at s"
  "next_sess (own_request now u p m s) = next_sess s" "mihfId (own_request now u p m s) = mihfId s" "transactionId (own_request now u p m s) = transactionId s"
  by (simp_all add: own_request_def insert_request_def)

lemma own_request_pending:
  "pending_reqs s (transaction_id (mih_hdr p)) = None \<Longrightarrow>
    \<exists>req. pending_reqs (own_request now u p m s) = (pending_reqs s)(transaction_id (mih_hdr p) := Some req) \<and> pr_user req = u \<and> pr_tid req = transaction_id (mih_hdr p)"
  by (intro exI [of _ "(new_request now u p (cs_timeout (mihmib s)) False m)\<lparr>pr_waitRsp := Some True\<rparr>"])
    (simp add: own_request_def insert_request_def new_request_def)

lemma table_fields [simp]:
  "ifaces (bump_tid s) = ifaces s" "peer_mihfs (bump_tid s) = peer_mihfs s" "mihf_at (bump_tid s) = mihf_at s" "sessions (bump_tid s) = sessions s"
  "sess_at (bump_tid s) = sess_at s" "next_sess (bump_tid s) = next_sess s" "mihfId (bump_tid s) = mihfId s" "pending_reqs (bump_tid s) = pending_reqs s"
  "ifaces (add_peer f s) = ifaces s" "sessions (add_peer f s) = sessions s" "sess_at (add_peer f s) = sess_at s" "next_sess (add_peer f s) = next_sess s"
  "mihfId (add_peer f s) = mihfId s" "pending_reqs (add_peer f s) = pending_reqs s" "management_users (add_peer f s) = management_users s"
  "mihf_at (add_peer f s) (next_mihf s) = f" "here_addr (add_peer f s) = here_addr s" "transactionId (add_peer f s) = transactionId s"
  "ifaces (clear_request tid s) = ifaces s" "peer_mihfs (clear_request tid s) = peer_mihfs s" "mihf_at (clear_request tid s) = mihf_at s"
  "sessions (clear_request tid s) = sessions s" "sess_at (clear_request tid s) = sess_at s" "next_sess (clear_request tid s) = next_sess s"
  "mihfId (clear_request tid s) = mihfId s" "transactionId (clear_request tid s) = transactionId s"
  "ifaces (add_session i a fo s) = ifaces s" "peer_mihfs (add_session i a fo s) = peer_mihfs s" "mihf_at (add_session i a fo s) = mihf_at s"
  "mihfId (add_session i a fo s) = mihfId s" "sess_at (add_session i a fo s) (next_sess s) = \<lparr>ss_id = i, ss_macAddr = a, ss_mihf = fo, ss_lastTID = - 1\<rparr>"
  "pending_reqs (add_session i a fo s) = pending_reqs s"
  by (simp_all add: bump_tid_def add_peer_def clear_request_def add_session_def)

lemma known_as_fields [simp]: "mf_id (known_as s a m) = mihfId s" "mf_address (known_as s a m) = a" "mf_local_mac (known_as s a m) = Some m"
  by (simp_all add: known_as_def describe_def blank_mihf_def)



lemma get_mihf_upd: "(\<And>f. mf_id (h f) = mf_id f) \<Longrightarrow> get_mihf_info (upd_mihf r h s) i = get_mihf_info s i"
  by (simp add: get_mihf_info_def upd_mihf_def) (rule arg_cong [where f = "\<lambda>P. find P (peer_mihfs s)"], auto)

lemma discovery:
  fixes t0 :: time and u :: user_ref
  assumes "mih_wf A" and "get_mihf_info A (mihfId B) = None" and "pending_reqs A (next_tid A) = None"
    and "get_mac_for_node n ms A (node_addr n (mac_node ms m)) = Some m"
  defines "p1 \<equiv> cap_request n ms m A"
  defines "A1 \<equiv> own_request t0 (Some u) p1 m (bump_tid A)"
  defines "A2 \<equiv> clear_request (next_tid A) (add_peer (known_as B (here_addr B) m) A1)"
  shows "mih_recv t2 g n ms (cap_response p1 B) A1 = Inr (ms, A2, [ToUser u (CapDiscConf (mih_hdr (cap_response p1 B)))])"
    and "mihf_id (mih_hdr (cap_response p1 B)) = mihfId B" and "next_tid A2 = next_tid A + 1" and "pending_reqs A2 = pending_reqs A"
    and "get_mihf_info A2 (mihfId B) = Some (next_mihf A)" and "mihf_at A2 (next_mihf A) = known_as B (here_addr B) m"
proof -
  have p1: "transaction_id (mih_hdr p1) = next_tid A" "saddr p1 = node_addr n (mac_node ms m)"
    by (simp_all add: p1_def cap_request_def from_mac_def mk_mih_def)
  have "mih_wf A1" using cap_request_sent wf.cap_disc_keeps [OF assms(1), of t0 n ms "Some u" m] by (simp add: A1_def p1_def)
  have nA: "next_mihf A1 = next_mihf A" by (simp add: A1_def bump_tid_def)
  have kA1: "get_mihf_info A1 (mihfId B) = None" using assms(2) by (simp add: get_mihf_info_def A1_def)
  show "get_mihf_info A2 (mihfId B) = Some (next_mihf A)"
    using get_mihf_add_peer [OF \<open>mih_wf A1\<close> kA1, of "known_as B (here_addr B) m"] nA by (simp add: A2_def get_mihf_info_def)
  show "mihf_at A2 (next_mihf A) = known_as B (here_addr B) m" using nA by (simp add: A2_def add_peer_def)
  show "next_tid A2 = next_tid A + 1" by (simp add: A2_def A1_def next_tid_def) (simp add: bump_tid_def)
  obtain q where q: "pending_reqs A1 = (pending_reqs A)(next_tid A := Some q)" "pr_user q = Some u" "pr_tid q = next_tid A"
    using own_request_pending [of "bump_tid A" p1 t0 "Some u" m] assms(3) p1 by (auto simp: A1_def)
  then show "pending_reqs A2 = pending_reqs A" using assms(3) by (simp add: A2_def clear_request_def) (simp add: fun_upd_idem)
  have "daddr (cap_response p1 B) = node_addr n (mac_node ms m)" by (simp add: cap_response_def Let_def p1)
  moreover have "get_mac_for_node n ms A1 (node_addr n (mac_node ms m)) = Some m"
    using assms(4) get_mac_for_node_cong [of A1 A] by (simp add: A1_def)
  ultimately show "mih_recv t2 g n ms (cap_response p1 B) A1 = Inr (ms, A2, [ToUser u (CapDiscConf (mih_hdr (cap_response p1 B)))])"
    and "mihf_id (mih_hdr (cap_response p1 B)) = mihfId B"
    using cap_response_recv [of n ms A1 "cap_response p1 B" m B p1 q u] kA1 q p1 by (simp_all add: A2_def)
qed

lemma registration:
  assumes "mih_wf B" and "mihfId A < 0x10000" and "mihfId B < 16"
    and "get_mac_for_node n ms A a = Some m" and "get_mac_for_node n ms B (here_addr B) = Some m'"
    and "get_mihf_info A (mihfId B) = Some fa" and "mihf_at A fa = known_as b (here_addr B) m"
    and "get_mihf_info B (mihfId A) = Some fb" and "mihf_at B fb = known_as c a m'"
    and "get_session B (push_bit (16 + unat (mihfId B)) (mihfId A)) = None" and "pending_reqs A (next_tid A) = None"
  shows "\<exists>A3 p3 B2 B3 p4 A4 r sa sb.
      send_reg_request t3 n ms (Some u) (mihfId B) A = Inr (A3, [MihSend (Some (mac_node ms m)) p3])
    \<and> mih_recv t4 g n ms p3 B = Inr (ms, B2, map (\<lambda>v. ToUser v (RegisterInd (mih_hdr p3))) (management_users B))
    \<and> send_reg_response n ms (mihf_id (mih_hdr p3)) 1 0 validity (transaction_id (mih_hdr p3)) B2 = Inr (B3, [MihSend (mih_target B2) p4])
    \<and> mih_recv t5 g n ms p4 A3 = Inr (ms, A4, [ToUser u (RegisterConf r)]) \<and> reg_result r = 1
    \<and> peer_session A4 (mihfId B) = Inr (Some sa) \<and> peer_session B3 (mihfId A) = Inr (Some sb)
    \<and> ss_id (sess_at A4 sa) = ss_id (sess_at B3 sb)
    \<and> map_option (mf_address \<circ> mihf_at A4) (ss_mihf (sess_at A4 sa)) = Some (here_addr B)
    \<and> map_option (mf_address \<circ> mihf_at B3) (ss_mihf (sess_at B3 sb)) = Some a
    \<and> ss_macAddr (sess_at A4 sa) = mac_addr ms m \<and> ss_macAddr (sess_at B3 sb) = mac_addr ms m'
    \<and> pending_reqs A4 = pending_reqs A"
proof -
  let ?sid = "push_bit (16 + unat (mihfId B)) (mihfId A)" and ?t = "next_tid A"
  let ?into = "\<lambda>ref f. f\<lparr>mf_session := Some (Some ref)\<rparr>"
  define p3 where "p3 = reg_request n ms m (here_addr B) (mihfId B) A"
  define A3 where "A3 = (own_request t3 (Some u) p3 m (bump_tid A))\<lparr>mih_target := Some (mac_node ms m)\<rparr>"
  define B2 where "B2 = add_session ?sid (mac_addr ms m') (Some fb) B"
  define B3 where "B3 = upd_mihf fb (?into (next_sess B)) B2"
  define p4 where "p4 = reg_accept n ms m' a (mihfId A) validity ?t B2"
  define A4 where "A4 = clear_request ?t (upd_mihf fa (?into (next_sess A)) (add_session ?sid (mac_addr ms m) (Some fa) A3))"
  have p3: "mihf_id (mih_hdr p3) = mihfId A" "transaction_id (mih_hdr p3) = ?t" by (simp_all add: p3_def reg_request_def from_mac_def mk_mih_def)
  have h4: "send_reg_request t3 n ms (Some u) (mihfId B) A = Inr (A3, [MihSend (Some (mac_node ms m)) p3])"
    using reg_request_sent [OF assms(6), of m] assms(7) by (simp add: A3_def p3_def)
  have h5: "mih_recv t4 g n ms p3 B = Inr (ms, B2, map (\<lambda>v. ToUser v (RegisterInd (mih_hdr p3))) (management_users B))"
    using reg_request_recv [OF assms(5,3,2)] assms(8) by (simp add: p3_def B2_def)
  have kB2: "get_mihf_info B2 (mihfId A) = Some fb" using assms(8) get_mihf_cong [of B2 B] by (simp add: B2_def)
  have h6: "send_reg_response n ms (mihfId A) 1 0 validity ?t B2 = Inr (B3, [MihSend (mih_target B2) p4])"
    using reg_accept_sent [OF kB2, of m' n ms validity ?t] get_session_add [OF assms(1,10), of ?sid "mac_addr ms m'" "Some fb"] assms(3,9)
    by (simp add: B3_def p4_def) (simp add: B2_def)
  obtain q where q: "pending_reqs A3 = (pending_reqs A)(?t := Some q)" "pr_user q = Some u" "pr_tid q = ?t"
    using own_request_pending [of "bump_tid A" p3 t3 "Some u" m] assms(11) p3 by (auto simp: A3_def)
  have kA3: "get_mihf_info A3 (mihfId B) = Some fa" "get_mac_for_node n ms A3 a = Some m" "mihfId A3 = mihfId A" "mihfId B2 = mihfId B" "next_sess A3 = next_sess A"
    using assms(4,6) get_mihf_cong [of A3 A] get_mac_for_node_cong [of A3 A] by (simp_all add: A3_def B2_def)
  obtain r where h7: "mih_recv t5 g n ms p4 A3 = Inr (ms, A4, [ToUser u (RegisterConf r)])" "reg_result r = 1"
    using reg_accept_recv [of n ms A3 a m B2 fa ?t q u t5 g m' "mihfId A" validity] kA3 assms(3) q by (auto simp: p4_def A4_def)
  have pA4: "pending_reqs A4 = pending_reqs A"
    using q assms(11) by (simp add: A4_def clear_request_def upd_mihf_def) (simp add: fun_upd_idem)
  have kA4: "get_mihf_info A4 (mihfId B) = Some fa"
    using kA3(1) get_mihf_cong [of A4 "upd_mihf fa (?into (next_sess A)) A3"] get_mihf_upd [of "?into (next_sess A)" fa A3 "mihfId B"]
    by (simp add: A4_def upd_mihf_def)
  have kB3: "get_mihf_info B3 (mihfId A) = Some fb"
    using kB2 get_mihf_upd [of "?into (next_sess B)" fb B2 "mihfId A"] by (simp add: B3_def)
  have fA4: "mihf_at A4 fa = ?into (next_sess A) (known_as b (here_addr B) m)" using assms(7) by (simp add: A4_def upd_mihf_def A3_def)
  have fB3: "mihf_at B3 fb = ?into (next_sess B) (known_as c a m')" using assms(9) by (simp add: B3_def upd_mihf_def B2_def)
  have "sess_at A4 (next_sess A) = \<lparr>ss_id = ?sid, ss_macAddr = mac_addr ms m, ss_mihf = Some fa, ss_lastTID = - 1\<rparr>"
    using table_fields kA3(5) by (simp add: A4_def upd_mihf_def add_session_def)
  moreover have "sess_at B3 (next_sess B) = \<lparr>ss_id = ?sid, ss_macAddr = mac_addr ms m', ss_mihf = Some fb, ss_lastTID = - 1\<rparr>"
    by (simp add: B3_def upd_mihf_def B2_def)
  ultimately show ?thesis using h4 h5 h6 h7 pA4 kA4 kB3 fA4 fB3 p3
    by (intro exI [of _ A3] exI [of _ p3] exI [of _ B2] exI [of _ B3] exI [of _ p4] exI [of _ A4] exI [of _ r] exI [of _ "next_sess A"] exI [of _ "next_sess B"])
      (simp add: peer_session_def mihf_session_def)
qed

text \<open>
  C10: Two handover functions set up a session. The first, on interface \<open>m\<close>, broadcasts its capabilities; the second records it and answers;
  the first records the second, tells its user, and registers; the second opens a session, tells its users, and, when one of them
  accepts, answers; the first opens its session and tells its user. Then each knows the other by its address, both have a
  session with the same number, which is the one of the other, and no request is left waiting. It is assumed that the number of the second is below 16, that the two did not know each other
  and that the second has no session with that number.
\<close>

theorem session_handshake:
  assumes "mih_wf A" and "mih_wf B" and "mihfId A < 0x10000" and "mihfId B < 16"
    and "get_mac_for_node n ms A (node_addr n (mac_node ms m)) = Some m" and "get_mac_for_node n ms B (here_addr B) = Some m'"
    and "get_mihf_info A (mihfId B) = None" and "get_mihf_info B (mihfId A) = None"
    and "get_session B (push_bit (16 + unat (mihfId B)) (mihfId A)) = None"
    and "pending_reqs A (next_tid A) = None" and "pending_reqs A (next_tid A + 1) = None"
  shows "\<exists>A1 p1 B1 p2 A2 h A3 p3 B2 B3 p4 A4 r sa sb.
      send_cap_disc_req t0 n ms (Some u) m A = (A1, [MihSchedule (mac_node ms m) p1 MIH_CAP_DELAY])
    \<and> mih_recv t1 g n ms p1 B = Inr (ms, B1, [MihSend (mih_target B) p2])
    \<and> mih_recv t2 g n ms p2 A1 = Inr (ms, A2, [ToUser u (CapDiscConf h)])
    \<and> send_reg_request t3 n ms (Some u) (mihf_id h) A2 = Inr (A3, [MihSend (Some (mac_node ms m)) p3])
    \<and> mih_recv t4 g n ms p3 B1 = Inr (ms, B2, map (\<lambda>v. ToUser v (RegisterInd (mih_hdr p3))) (management_users B))
    \<and> send_reg_response n ms (mihf_id (mih_hdr p3)) 1 0 validity (transaction_id (mih_hdr p3)) B2 = Inr (B3, [MihSend (mih_target B2) p4])
    \<and> mih_recv t5 g n ms p4 A3 = Inr (ms, A4, [ToUser u (RegisterConf r)]) \<and> reg_result r = 1
    \<and> peer_session A4 (mihfId B) = Inr (Some sa) \<and> peer_session B3 (mihfId A) = Inr (Some sb)
    \<and> ss_id (sess_at A4 sa) = ss_id (sess_at B3 sb)
    \<and> map_option (mf_address \<circ> mihf_at A4) (ss_mihf (sess_at A4 sa)) = Some (here_addr B)
    \<and> map_option (mf_address \<circ> mihf_at B3) (ss_mihf (sess_at B3 sb)) = Some (node_addr n (mac_node ms m))
    \<and> ss_macAddr (sess_at A4 sa) = mac_addr ms m \<and> ss_macAddr (sess_at B3 sb) = mac_addr ms m'
    \<and> pending_reqs A4 = pending_reqs A"
proof -
  let ?a = "node_addr n (mac_node ms m)"
  define A1 where "A1 = own_request t0 (Some u) (cap_request n ms m A) m (bump_tid A)"
  define A2 where "A2 = clear_request (next_tid A) (add_peer (known_as B (here_addr B) m) A1)"
  define B1 where "B1 = add_peer (known_as A ?a m') B"
  have h1: "send_cap_disc_req t0 n ms (Some u) m A = (A1, [MihSchedule (mac_node ms m) (cap_request n ms m A) MIH_CAP_DELAY])"
    by (simp add: cap_request_sent A1_def)
  have h2: "mih_recv t1 g n ms (cap_request n ms m A) B = Inr (ms, B1, [MihSend (mih_target B) (cap_response (cap_request n ms m A) B)])"
    using cap_request_recv [OF assms(6)] by (simp add: B1_def)
  note known = discovery [OF assms(1,7,10,5)]
  note h3 = known(2) known(1) [where ?t0.0 = t0 and u = u and ?t2.0 = t2 and g = g, folded A1_def, folded A2_def]
    known(3-6) [where ?t0.0 = t0 and u = u, folded A1_def, folded A2_def]
  have B1: "mih_wf B1" "mihfId B1 = mihfId B" "here_addr B1 = here_addr B" "management_users B1 = management_users B"
    "get_mac_for_node n ms B1 (here_addr B) = Some m'" "get_mihf_info B1 (mihfId A) = Some (next_mihf B)" "mihf_at B1 (next_mihf B) = known_as A ?a m'"
    "get_session B1 (push_bit (16 + unat (mihfId B)) (mihfId A)) = None"
    using wf.I_add_peer [OF assms(2)] get_mihf_add_peer [OF assms(2,8), of "known_as A ?a m'"] assms(6,9)
      get_mac_for_node_cong [of B1 B] get_session_cong [of B1 B] by (simp_all add: B1_def)
  have A2: "mihfId A2 = mihfId A" "get_mac_for_node n ms A2 ?a = Some m"
    using assms(5) get_mac_for_node_cong [of A2 A] by (simp_all add: A2_def A1_def)
  have "mihfId A2 < 0x10000" "mihfId B1 < 16" "get_mac_for_node n ms B1 (here_addr B1) = Some m'"
    "get_mihf_info A2 (mihfId B1) = Some (next_mihf A)" "mihf_at A2 (next_mihf A) = known_as B (here_addr B1) m"
    "get_mihf_info B1 (mihfId A2) = Some (next_mihf B)" "get_session B1 (push_bit (16 + unat (mihfId B1)) (mihfId A2)) = None" "pending_reqs A2 (next_tid A2) = None"
    using B1 A2 h3 assms(3,4,11) by simp_all
  note reg = registration [OF B1(1) this(1,2) A2(2) this(3-6) B1(7) this(7,8), where u = u and g = g and validity = validity and ?t3.0 = t3 and ?t4.0 = t4 and ?t5.0 = t5]
  show ?thesis
    by (rule exI [of _ A1], rule exI [of _ "cap_request n ms m A"], rule exI [of _ B1], rule exI [of _ "cap_response (cap_request n ms m A) B"], rule exI [of _ A2],
        rule exI [of _ "mih_hdr (cap_response (cap_request n ms m A) B)"])
      (use reg in \<open>simp only: h1 h2 h3 B1 A2 simp_thms\<close>)
qed

lemma fresh_agent_wf: "mih_wf (demo_mih i a ms)"
  by (simp add: mih_wf_def demo_mih_defs wf_iface_def)

theorem session_handshake_witness:
  "let n = demo_net\<lparr>node_addr := \<lambda>r. if r = 4 then 0x1801 else 0x2001\<rparr>; A = demo_mih 3 0x1801 [4]; B = demo_mih 7 0x2001 [5]
   in \<exists>A1 p1 B1 p2 A2 h A3 p3 B2. send_cap_disc_req 0 n demo_macs (Some 9) 4 A = (A1, [MihSchedule 4 p1 MIH_CAP_DELAY])
    \<and> mih_recv 1 0 n demo_macs p1 B = Inr (demo_macs, B1, [MihSend None p2])
    \<and> mih_recv 2 0 n demo_macs p2 A1 = Inr (demo_macs, A2, [ToUser 9 (CapDiscConf h)])
    \<and> send_reg_request 3 n demo_macs (Some 9) (mihf_id h) A2 = Inr (A3, [MihSend (Some 4) p3])
    \<and> mih_recv 4 0 n demo_macs p3 B1 = Inr (demo_macs, B2, [])"
proof -
  let ?n = "demo_net\<lparr>node_addr := \<lambda>r. if r = 4 then 0x1801 else 0x2001\<rparr>"
  have ids: "mihfId (demo_mih i a ms) = i" "here_addr (demo_mih i a ms) = a" "mih_target (demo_mih i a ms) = None"
    "management_users (demo_mih i a ms) = []" "pending_reqs (demo_mih i a ms) = (\<lambda>_. None)" for i a ms
    by (simp_all add: demo_mih_defs)
  have peers: "get_mihf_info (demo_mih i a ms) j = None" "get_session (demo_mih i a ms) j = None" for i a ms j
    by (simp_all add: demo_mih_defs get_mihf_info_def get_session_def)
  have nodes: "mac_node demo_macs m = m" for m by (simp add: demo_macs_def)
  have macs: "get_mac_for_node ?n demo_macs (demo_mih 3 0x1801 [4]) 0x1801 = Some 4" "get_mac_for_node ?n demo_macs (demo_mih 7 0x2001 [5]) 0x2001 = Some 5"
    by (simp_all add: demo_mih_defs get_mac_for_node_def get_local_mac_def isLocal_def)
  show ?thesis unfolding Let_def
    using session_handshake [where A = "demo_mih 3 0x1801 [4]" and B = "demo_mih 7 0x2001 [5]" and n = ?n and ms = demo_macs and m = 4 and m' = 5 and u = 9 and g = 0
        and validity = 10 and ?t0.0 = 0 and ?t1.0 = 1 and ?t2.0 = 2 and ?t3.0 = 3 and ?t4.0 = 4 and ?t5.0 = 5, OF fresh_agent_wf fresh_agent_wf]
    by (simp add: ids peers nodes macs) blast
qed

end
