(* ===== verification/Mih_Event_Props.thy ===== *)
theory Mih_Event_Props
  imports Mih_Invariants
begin

text \<open>
  What the handover function does with events, scans and responses: the loss of a link is known at both of its ends, four of the
  events cannot be reported to a peer, a scan is reported once, and a response needs a pending request.
\<close>

section \<open>Events of a peer\<close>

lemma find_upd_first:
  "(\<And>x. P (f x) = P x) \<Longrightarrow> find P (upd_first P f xs) = map_option f (find P xs)"
  by (induction xs) auto

lemma find_iface_status: "find_iface (upd_iface a (setStatus st) s) a = map_option (setStatus st) (find_iface s a)"
  unfolding find_iface_def upd_iface_def by (simp add: find_upd_first setStatus_def)

lemma get_mac_status: "mih_get_mac (upd_iface a (setStatus st) s) b = mih_get_mac s b"
proof -
  have "need NullPtr (find (\<lambda>i. mi_macAddr i = b) (upd_first (\<lambda>i. mi_macAddr i = a) (setStatus st) xs)) (\<lambda>i. Inr (mi_mac i))
    = need NullPtr (find (\<lambda>i. mi_macAddr i = b) xs) (\<lambda>i. Inr (mi_mac i))" for xs
    by (induction xs) (auto simp: setStatus_def)
  then show ?thesis by (simp add: mih_get_mac_def find_iface_def upd_iface_def)
qed

lemma upd_iface_fields [simp]:
  "sess_at (upd_iface a f s) = sess_at s" "mihf_at (upd_iface a f s) = mihf_at s" "bump_tid (upd_iface a f s) = upd_iface a f (bump_tid s)"
  by (simp_all add: upd_iface_def bump_tid_def)

lemma subscribers_status [simp]:
  "getRegisteredLocalUser e (setStatus st i) = getRegisteredLocalUser e i" "getRegisteredRemoteUser e (setStatus st i) = getRegisteredRemoteUser e i"
  by (simp_all add: getRegisteredLocalUser_def getRegisteredRemoteUser_def setStatus_def)

text \<open>An event of an interface with one remote subscriber, and one with none.\<close>

lemma handle_event_one:
  assumes "find_iface s (local_end s l) = Some i" and "getRegisteredRemoteUser re i = [r]" and "ss_mihf (sess_at s r) = Some fr"
    and "mih_get_mac s (ss_macAddr (sess_at s r)) = Inr (Some m)" and "\<not> l2_transport MIH_EVENT_SERVICE (mihf_at s fr)"
    and "l3_transport MIH_EVENT_SERVICE (mihf_at s fr)"
  shows "\<exists>s' p. handle_event now n ms l (Some st) le ev re (indication len aid pl) False s
      = Inr (s', map (\<lambda>u. ToUser u (MihEvent ev)) (getRegisteredLocalUser le i) @ [MihSend (Some (mac_node ms m)) p])
    \<and> find_iface s' (local_end s l) = Some (setStatus st i)
    \<and> daddr p = mf_address (mihf_at s fr) \<and> mih_aid (mih_hdr p) = aid \<and> payload (mih_hdr p) = pl
    \<and> mih_service_id (mih_hdr p) = MIH_EVENT_SERVICE \<and> mih_opcode (mih_hdr p) = MIH_INDICATION"
proof -
  let ?s = "upd_iface (local_end s l) (setStatus st) s"
  have "find_iface ((bump_tid ?s)\<lparr>mih_target := t\<rparr>) a = find_iface ?s a" for t a by (simp add: find_iface_def bump_tid_def)
  moreover have "sess_at (bump_tid ?s) = sess_at s" "mihf_at (bump_tid ?s) = mihf_at s"
    "mih_get_mac (bump_tid ?s) (ss_macAddr (sess_at s r)) = Inr (Some m)"
    using assms(4) get_mac_status [of "local_end s l" st s] by (simp_all add: mih_get_mac_def find_iface_def upd_iface_def bump_tid_def)
  ultimately show ?thesis using assms(1-3,5,6)
    by (simp add: handle_event_def Let_def find_iface_status indication_def send_mih_message_def mk_mih_def route_l3_def zero_mih_def del: upd_iface_fields)
qed

lemma handle_event_quiet:
  assumes "find_iface s (local_end s l) = Some i" and "getRegisteredRemoteUser re i = []"
  shows "handle_event now n ms l (Some st) le ev re mk again s
    = Inr (upd_iface (local_end s l) (setStatus st) s, map (\<lambda>u. ToUser u (MihEvent ev)) (getRegisteredLocalUser le i))"
  using assms by (simp add: handle_event_def Let_def find_iface_status)

lemma handle_event_none:
  assumes "find_iface s (local_end s l) = Some i" and "getRegisteredRemoteUser re i = []"
  shows "\<exists>s'. handle_event now n ms l (Some st) le ev re mk again s = Inr (s', map (\<lambda>u. ToUser u (MihEvent ev)) (getRegisteredLocalUser le i))
    \<and> find_iface s' (local_end s l) = Some (setStatus st i)"
  using handle_event_quiet [OF assms] assms(1) by (simp add: find_iface_status)

text \<open>
  C21: The loss of a link is known at both ends. When the terminal's function is told that its link to a point of attachment is
  down, and the point of attachment has subscribed to this by a session over layer 3, then the terminal's interface is marked as down,
  its local subscribers are told, and one indication goes to the peer; when the peer receives it, the interface at its end of the link is
  marked as down, and its local subscribers of the event are told of the same loss: link, old access router and reason.
\<close>

theorem link_down_at_both_ends:
  assumes "is_local_mac A (li_mac (ld_link e))" and "find_iface A (li_mac (ld_link e)) = Some i"
    and "getRegisteredRemoteUser MIH_LINK_DOWN i = [r]" and "ss_mihf (sess_at A r) = Some fr"
    and "mih_get_mac A (ss_macAddr (sess_at A r)) = Inr (Some m)"
    and "\<not> l2_transport MIH_EVENT_SERVICE (mihf_at A fr)" and "l3_transport MIH_EVENT_SERVICE (mihf_at A fr)"
    and "\<not> is_local_mac B (li_mac (ld_link e))" and "find_iface B (li_poa (ld_link e)) = Some j"
    and "getRegisteredRemoteUser MIH_LINK_DOWN j = []" and "0 \<le> ld_reason e" and "ld_reason e < 256"
  shows "\<exists>A' B' p. recv_event t1 x n ms (LinkDown e) A
      = Inr (A', map (\<lambda>u. ToUser u (MihEvent (LinkDown e))) (getRegisteredLocalUser MIH_LINK_DOWN i) @ [MihSend (Some (mac_node ms m)) p])
    \<and> find_iface A' (li_mac (ld_link e)) = Some (setStatus LINK_STATUS_DOWN i) \<and> daddr p = mf_address (mihf_at A fr)
    \<and> mih_recv t2 y n ms p B = Inr (ms, B', map (\<lambda>u. ToUser u (MihEvent (LinkDown e))) (getRegisteredLocalUser MIH_LINK_DOWN j))
    \<and> find_iface B' (li_poa (ld_link e)) = Some (setStatus LINK_STATUS_DOWN j)"
proof -
  have A: "local_end A (ld_link e) = li_mac (ld_link e)" and B: "local_end B (ld_link e) = li_poa (ld_link e)"
    using assms(1,8) by (simp_all add: local_end_def)
  have code: "uint (word_of_int (ld_reason e) :: 8 word) = ld_reason e" using assms(11,12) by (simp add: uint_word_of_int)
  from handle_event_one [of A "ld_link e" i MIH_LINK_DOWN r fr m] assms(2-7) A obtain A' p where
    A': "recv_event t1 x n ms (LinkDown e) A
      = Inr (A', map (\<lambda>u. ToUser u (MihEvent (LinkDown e))) (getRegisteredLocalUser MIH_LINK_DOWN i) @ [MihSend (Some (mac_node ms m)) p])"
    "find_iface A' (li_mac (ld_link e)) = Some (setStatus LINK_STATUS_DOWN i)" "daddr p = mf_address (mihf_at A fr)"
    and p: "mih_aid (mih_hdr p) = MIH_MSG_LINK_DOWN" "mih_service_id (mih_hdr p) = MIH_EVENT_SERVICE" "mih_opcode (mih_hdr p) = MIH_INDICATION"
    "payload (mih_hdr p) = DownInd \<lparr>di_link = to_wire (ld_link e), di_oldAR = int_to_eth (ld_oldAR e), di_reasonCode = word_of_int (ld_reason e)\<rparr>"
    unfolding recv_event_def mih_process_link_down_def by (simp, metis)
  have e: "\<lparr>ld_link = ld_link e, ld_oldAR = ld_oldAR e, ld_reason = ld_reason e\<rparr> = e" by (cases e) simp
  have "mih_recv t2 y n ms p B = keep_macs ms (mih_process_link_down t2 n ms e B)"
    using p code by (simp add: mih_recv_def Let_def event_ind_def recv_link_down_ind_def e)
  moreover obtain B' where "mih_process_link_down t2 n ms e B = Inr (B', map (\<lambda>u. ToUser u (MihEvent (LinkDown e))) (getRegisteredLocalUser MIH_LINK_DOWN j))"
    "find_iface B' (li_poa (ld_link e)) = Some (setStatus LINK_STATUS_DOWN j)"
    using handle_event_none [of B "ld_link e" j MIH_LINK_DOWN] assms(9,10) B unfolding mih_process_link_down_def by (simp, metis)
  ultimately show ?thesis using A' by (auto simp: keep_macs_def)
qed


definition subscribed_mih :: "mih_agent" where
  "subscribed_mih = (demo_mih 3 0x1801 [4])\<lparr>ifaces := [event_subscribe 9 0x1F9 (remote_event_subscribe 0 0x1FF (new_mac_iface demo_macs 4))],
     mihf_at := (\<lambda>_. blank_mihf\<lparr>mf_id := 7, mf_address := 0x2001, mf_transport := 0x02020202\<rparr>), next_mihf := 1, peer_mihfs := [0],
     sess_at := (\<lambda>_. \<lparr>ss_id = 0x1800000, ss_macAddr = 4, ss_mihf = Some 0, ss_lastTID = - 1\<rparr>), next_sess := 1, sessions := [0]\<rparr>"

definition subscribed_iface :: mih_iface where
  "subscribed_iface = event_subscribe 9 0x1F9 (remote_event_subscribe 0 0x1FF (new_mac_iface demo_macs 4))"

lemma subscribed_mih_facts [simp]:
  "find_iface subscribed_mih 4 = Some subscribed_iface" "is_local_mac subscribed_mih 4" "mih_get_mac subscribed_mih 4 = Inr (Some 4)"
  "ss_mihf (sess_at subscribed_mih r) = Some 0" "ss_macAddr (sess_at subscribed_mih r) = 4"
  "\<not> l2_transport MIH_EVENT_SERVICE (mihf_at subscribed_mih fr)" "l3_transport MIH_EVENT_SERVICE (mihf_at subscribed_mih fr)"
  by (simp_all add: subscribed_mih_def subscribed_iface_def demo_mih_defs find_iface_def event_subscribe_def remote_event_subscribe_def is_local_mac_def
      isLocal_def mih_get_mac_def l2_transport_def l3_transport_def blank_mihf_def)

lemma subscribed_iface_users [simp]:
  "getRegisteredRemoteUser MIH_LINK_DOWN subscribed_iface = [0]" "getRegisteredLocalUser MIH_LINK_DOWN subscribed_iface = []"
  "getRegisteredRemoteUser MIH_LINK_DETECTED subscribed_iface = [0]" "getRegisteredLocalUser MIH_LINK_DETECTED subscribed_iface = [9]"
  by (simp_all add: subscribed_iface_def getRegisteredRemoteUser_def getRegisteredLocalUser_def event_subscribe_def remote_event_subscribe_def new_mac_iface_def
      LINK_LAST_EVENT_def bit_numeral_rec)

theorem link_down_at_both_ends_witness:
  "let e = \<lparr>ld_link = \<lparr>li_type = LINK_802_11, li_mac = 4, li_poa = 5\<rparr>, ld_oldAR = 0x2000, ld_reason = 1\<rparr>;
       B = (demo_mih 7 0x2001 [5])\<lparr>ifaces := [event_subscribe 8 2 (new_mac_iface demo_macs 5)]\<rparr>
   in \<exists>A' B' p. recv_event 1 0 demo_net demo_macs (LinkDown e) subscribed_mih = Inr (A', [MihSend (Some 4) p])
    \<and> mih_recv 2 0 demo_net demo_macs p B = Inr (demo_macs, B', [ToUser 8 (MihEvent (LinkDown e))])"
proof -
  let ?e = "\<lparr>ld_link = \<lparr>li_type = LINK_802_11, li_mac = 4, li_poa = 5\<rparr>, ld_oldAR = 0x2000, ld_reason = 1\<rparr> :: link_down_t"
  let ?j = "event_subscribe 8 2 (new_mac_iface demo_macs 5)"
  let ?B = "(demo_mih 7 0x2001 [5])\<lparr>ifaces := [?j]\<rparr>"
  have j: "\<not> is_local_mac ?B 4" "find_iface ?B 5 = Some ?j" "getRegisteredRemoteUser MIH_LINK_DOWN ?j = []" "getRegisteredLocalUser MIH_LINK_DOWN ?j = [8]"
    by (simp_all add: demo_mih_defs find_iface_def is_local_mac_def event_subscribe_def getRegisteredRemoteUser_def getRegisteredLocalUser_def LINK_LAST_EVENT_def bit_numeral_rec)
  show ?thesis unfolding Let_def
    using link_down_at_both_ends [of subscribed_mih ?e subscribed_iface 0 0 4 ?B ?j 1 0 demo_net demo_macs 2 0] j
    by (simp add: demo_macs_def [THEN arg_cong [where f = mac_node]]) blast
qed

section \<open>Indications that are not understood\<close>

lemma send_mih_message_aid:
  assumes "send_mih_message now n ms user p session s = Inr (s', p', out)"
  shows "mih_aid (mih_hdr p') = mih_aid (mih_hdr p)" and "MihSend t q \<in> set out \<Longrightarrow> mih_aid (mih_hdr q) = mih_aid (mih_hdr p)"
  using assms by (auto simp: send_mih_message_def Let_def route_l3_def split: if_splits)

lemma notify_remote_sends:
  assumes "\<And>s r. mih_aid (mih_hdr (snd (mk s r))) = aid"
  shows "notify_remote now n ms mk again rs s = Inr (s', out) \<Longrightarrow> MihSend t q \<in> set out \<Longrightarrow> mih_aid (mih_hdr q) = aid"
proof (induction rs arbitrary: s out)
  case (Cons r rs)
  obtain s1 p where mk: "mk s r = (s1, p)" by fastforce
  with Cons.prems(1) obtain s2 p' o1 o2 where run: "send_mih_message now n ms None p (Some r) s1 = Inr (s2, p', o1)"
    "notify_remote now n ms mk again rs s2 = Inr (s', o2)" "out = o1 @ (if again then [MihSend (mih_target s2) p'] else []) @ o2" by auto
  have "mih_aid (mih_hdr p) = aid" using assms [of s r] mk by simp
  with Cons.prems(2) send_mih_message_aid [OF run(1)] Cons.IH [OF run(2)] run(3) show ?case by (auto split: if_splits)
qed simp

lemma handle_event_sends:
  assumes "\<And>s r. mih_aid (mih_hdr (snd (mk s r))) = aid" and "handle_event now n ms l st le ev re mk again s = Inr (s', out)" and "MihSend t p \<in> set out"
  shows "mih_aid (mih_hdr p) = aid"
proof -
  from assms(2) obtain s1 rs out1 us where n1: "notify_remote now n ms mk again rs s1 = Inr (s', out1)" "out = map (\<lambda>u. ToUser u (MihEvent ev)) us @ out1"
    by (auto simp: handle_event_def Let_def)
  then show ?thesis using notify_remote_sends [OF assms(1) n1(1)] assms(3) by auto
qed

lemma indication_aid: "mih_aid (mih_hdr (snd (indication len aid pl s r))) = aid" "mih_aid (mih_hdr (snd (bare_indication len aid pl s r))) = aid"
  by (simp_all add: indication_def bare_indication_def mk_mih_def)

text \<open>
  C38: Four of the eight events cannot be reported to a peer. Every message that the function sends to the remote subscribers of a
  detected link, of a parameter report, or of an imminent or a complete handover ends the program of whoever receives it: the dispatch has no case for them, although
  there are handlers for all four.
\<close>

theorem unhandled_indications_exit:
  assumes "recv_event now g n ms e s = Inr (s', out)" and "MihSend t p \<in> set out"
    and "case e of LinkDetected x \<Rightarrow> True | LinkParametersReport x \<Rightarrow> True | LinkHandoverImminent x \<Rightarrow> True | LinkHandoverComplete x \<Rightarrow> True | _ \<Rightarrow> False"
  shows "mih_recv now' y n' ms' p s2 = Inl ExitProcess"
proof -
  have "mih_aid (mih_hdr p) \<in> {MIH_MSG_LINK_DETECTED, MIH_MSG_LINK_PARAMETERS_REPORT, MIH_MSG_LINK_HANDOVER_IMMINENT, MIH_MSG_LINK_HANDOVER_COMPLETE}"
    using assms by (cases e) (auto simp: recv_event_def event_handlers dest: handle_event_sends [OF indication_aid(1)] handle_event_sends [OF indication_aid(2)])
  then show ?thesis by (auto simp: mih_recv_def Let_def)
qed

theorem unhandled_indications_exit_witness:
  "\<exists>s' p. recv_event 1 0 demo_net demo_macs (LinkDetected \<lparr>lt_link = \<lparr>li_type = LINK_802_11, li_mac = 4, li_poa = 5\<rparr>, lt_mihCapability = True\<rparr>) subscribed_mih
      = Inr (s', [ToUser 9 (MihEvent (LinkDetected \<lparr>lt_link = \<lparr>li_type = LINK_802_11, li_mac = 4, li_poa = 5\<rparr>, lt_mihCapability = True\<rparr>)), MihSend (Some 4) p])
    \<and> mih_recv 2 0 demo_net demo_macs p (demo_mih 7 0x2001 [5]) = Inl ExitProcess"
proof -
  let ?l = "\<lparr>li_type = LINK_802_11, li_mac = 4, li_poa = 5\<rparr>"
  let ?e = "LinkDetected \<lparr>lt_link = ?l, lt_mihCapability = True\<rparr>"
  have "local_end subscribed_mih ?l = 4" by (simp add: local_end_def)
  moreover have "mac_node demo_macs 4 = 4" by (simp add: demo_macs_def)
  ultimately obtain s' p where run: "recv_event 1 0 demo_net demo_macs ?e subscribed_mih = Inr (s', [ToUser 9 (MihEvent ?e), MihSend (Some 4) p])"
    using handle_event_one [of subscribed_mih ?l subscribed_iface MIH_LINK_DETECTED 0 0 4 1 demo_net demo_macs LINK_STATUS_DOWN MIH_LINK_DETECTED ?e]
    unfolding recv_event_def mih_process_link_detected_def by (simp, metis)
  show ?thesis using run unhandled_indications_exit [OF run, of "Some 4" p 2 0 demo_net demo_macs "demo_mih 7 0x2001 [5]"] by auto
qed

section \<open>Scans\<close>

definition scan_entry :: "macs \<Rightarrow> wire_link list \<Rightarrow> mac_ref \<times> addr list \<times> int \<Rightarrow> mih_scan_rsp_entry" where
  "scan_entry ms ws = (\<lambda>(m, data, len). \<lparr>sr_link = the (find (\<lambda>w. eth_to_int (wl_mac w) = mac_addr ms m) ws), sr_size = word_of_int len, sr_data = data\<rparr>)"

definition requested_result :: "macs \<Rightarrow> wire_link list \<Rightarrow> mac_ref \<times> addr list \<times> int \<Rightarrow> bool" where
  "requested_result ms ws = (\<lambda>(m, data, len). sap_mih (mac_sap ms m) \<and> len \<le> 255 \<and> (\<exists>w \<in> set ws. eth_to_int (wl_mac w) = mac_addr ms m))"

definition result_step :: "time \<Rightarrow> net \<Rightarrow> mac_ref \<times> addr list \<times> int \<Rightarrow> time \<times> net \<times> mih_input" where
  "result_step now n = (\<lambda>(m, data, len). (now, n, InScanResult m data len))"

lemma requested_response:
  assumes "requested_result ms (sc_req c) (m, data, len)" and "length (sc_rsp c) < length (sc_req c)" and "length (sc_req c) \<le> MAX_SCAN_RESULTS"
  defines "c' \<equiv> c\<lparr>sc_rsp := sc_rsp c @ [scan_entry ms (sc_req c) (m, data, len)]\<rparr>"
  shows "scan_response (mac_addr ms m) data len c = Inr (c', length (sc_rsp c') = length (sc_req c'))"
proof -
  from assms(1) have "find (\<lambda>w. eth_to_int (wl_mac w) = mac_addr ms m) (sc_req c) \<noteq> None" by (auto simp: requested_result_def find_None_iff)
  then show ?thesis using assms by (auto simp: scan_response_def scan_entry_def requested_result_def)
qed

lemma result_arrives:
  assumes "scan_reqs s = [c]" and "sc_user c = Some u" and "requested_result ms (sc_req c) x" and "length (sc_rsp c) < length (sc_req c)"
    and "length (sc_req c) \<le> MAX_SCAN_RESULTS"
  defines "c' \<equiv> c\<lparr>sc_rsp := sc_rsp c @ [scan_entry ms (sc_req c) x]\<rparr>"
  shows "mih_step (ms, s) (result_step now n x)
    = (if length (sc_rsp c') = length (sc_req c) then Inr ((ms, s\<lparr>scan_reqs := []\<rparr>), [ToUser u (ScanConf (sc_rsp c'))]) else Inr ((ms, s\<lparr>scan_reqs := [c']\<rparr>), []))"
proof -
  obtain m data len where x: "x = (m, data, len)" by (cases x)
  from requested_response [OF assms(3) [unfolded x] assms(4,5)] assms(1,2,3) show ?thesis
    by (auto simp: x result_step_def send_scan_result_def requested_result_def process_scan_response_def scan_done_def keep_macs_def c'_def)
qed

lemma scan_run:
  assumes "scan_reqs s = [c]" and "sc_user c = Some u" and "\<forall>x \<in> set xs. requested_result ms (sc_req c) x"
    and "length (sc_rsp c) + length xs = length (sc_req c)" and "length (sc_req c) \<le> MAX_SCAN_RESULTS" and "xs \<noteq> []"
  shows "run_steps mih_step (ms, s) (map (result_step now n) xs)
    = Inr ((ms, s\<lparr>scan_reqs := []\<rparr>), replicate (length xs - 1) [] @ [[ToUser u (ScanConf (sc_rsp c @ map (scan_entry ms (sc_req c)) xs))]])"
  using assms
proof (induction xs arbitrary: s c)
  case (Cons x xs)
  let ?c = "c\<lparr>sc_rsp := sc_rsp c @ [scan_entry ms (sc_req c) x]\<rparr>"
  have step: "mih_step (ms, s) (result_step now n x)
    = (if xs = [] then Inr ((ms, s\<lparr>scan_reqs := []\<rparr>), [ToUser u (ScanConf (sc_rsp ?c))]) else Inr ((ms, s\<lparr>scan_reqs := [?c]\<rparr>), []))"
    using result_arrives [of s c u ms x now n] Cons.prems by (cases xs) auto
  show ?case
  proof (cases "xs = []")
    case False
    with Cons.IH [of "s\<lparr>scan_reqs := [?c]\<rparr>" ?c] Cons.prems step show ?thesis
      by (cases xs) (simp_all del: mih_step.simps)
  qed (use step in \<open>simp del: mih_step.simps\<close>)
qed simp

text \<open>
  C23: A local scan ends with one report. When a user asks for a scan of some links, at most as many as a message can hold, and
  then one result per link arrives, each from a MAC of a requested link, the user is told exactly once, at the last result, with all
  results in the order of their arrival, and no scan is left.
\<close>

theorem scan_reported_once:
  assumes "scan_reqs s = []" and "mih_scan now n ms (Some u) (mihfId s) ls s = Inr (s1, out)" and "length xs = length ls" and "ls \<noteq> []"
    and "length ls \<le> MAX_SCAN_RESULTS" and "\<forall>x \<in> set xs. requested_result ms (map to_wire ls) x"
  shows "run_steps mih_step (ms, s1) (map (result_step now n) xs)
    = Inr ((ms, s), replicate (length xs - 1) [] @ [[ToUser u (ScanConf (map (scan_entry ms (map to_wire ls)) xs))]])"
proof -
  let ?c = "\<lparr>sc_user = Some u, sc_req = map to_wire ls, sc_session = - 1, sc_tid = None, sc_rsp = []\<rparr>"
  have s1: "s1 = s\<lparr>scan_reqs := [?c]\<rparr>" using assms(1,2) by (auto simp: mih_scan_def new_local_scan_def)
  have "s\<lparr>scan_reqs := []\<rparr> = s" using assms(1) by (cases s) simp
  moreover have "xs \<noteq> []" using assms(3,4) by auto
  ultimately show ?thesis using scan_run [of s1 ?c u xs ms now n] assms(3-6) s1 by simp
qed

theorem scan_reported_once_witness:
  "let l = \<lparr>li_type = LINK_802_11, li_mac = 4, li_poa = - 1\<rparr>; s = demo_mih 3 0x1801 [4]
   in \<exists>s1. mih_scan 1 demo_net demo_macs (Some 9) 3 [l] s = Inr (s1, [MacScan 4])
    \<and> run_steps mih_step (demo_macs, s1) [result_step 1 demo_net (4, [0x55], 8)]
      = Inr ((demo_macs, s), [[ToUser 9 (ScanConf [scan_entry demo_macs [to_wire l] (4, [0x55], 8)])]])"
proof -
  let ?l = "\<lparr>li_type = LINK_802_11, li_mac = 4, li_poa = - 1\<rparr>" and ?s = "demo_mih 3 0x1801 [4]"
  obtain s1 where s1: "mih_scan 1 demo_net demo_macs (Some 9) 3 [?l] ?s = Inr (s1, [MacScan 4])"
    by (simp add: mih_scan_def new_local_scan_def link_scan_def mih_get_mac_def find_iface_def local_end_def is_local_mac_def isLocal_def demo_mih_defs)
  have "requested_result demo_macs (map to_wire [?l]) (4, [0x55], 8)" by (simp add: requested_result_def demo_macs_def to_wire_def)
  moreover have "scan_reqs ?s = []" "mihfId ?s = 3" by (simp_all add: demo_mih_defs)
  ultimately show ?thesis
    using s1 scan_reported_once [of ?s 1 demo_net demo_macs 9 "[?l]" s1 "[MacScan 4]" "[(4, [0x55], 8)]"]
    by (simp add: MAX_SCAN_RESULTS_def del: run_steps.simps mih_step.simps)
qed

section \<open>Responses that nobody waits for\<close>

lemma answer_needs: "answer tid x s = Inr y \<Longrightarrow> pending_reqs s tid \<noteq> None"
  by (auto simp: answer_def pending_at_def)

lemma session_answer_needs: "session_answer h x s = Inr y \<Longrightarrow> pending_reqs s (transaction_id h) \<noteq> None"
  by (auto simp: session_answer_def pending_at_def dest: answer_needs split: option.splits)

lemma pending_kept [simp]:
  "pending_reqs (upd_mihf r f s) = pending_reqs s" "pending_reqs (add_peer m s) = pending_reqs s" "pending_reqs (add_session i a fo s) = pending_reqs s"
  "pending_reqs (delete_session i s) = pending_reqs s"
  by (simp_all add: upd_mihf_def add_peer_def add_session_def delete_session_def split: option.split)

text \<open>
  A response is only safe while its request is pending. For every message of the command service that has a response, one
  that arrives when no request of its transaction is pending (late, repeated or forged) is a fault of the receiver: the entry of a missing request is read.
\<close>

theorem responses_need_requests:
  assumes "mih_opcode (mih_hdr p) = MIH_RESPONSE" and "pending_reqs s (transaction_id (mih_hdr p)) = None"
    and "mih_aid (mih_hdr p) \<in> {MIH_MSG_CAPABILITY_DISCOVER, MIH_MSG_REGISTRATION, MIH_MSG_DEREGISTRATION, MIH_MSG_EVENT_SUBSCRIBE,
      MIH_MSG_EVENT_UNSUBSCRIBE, MIH_MSG_GET_STATUS, MIH_MSG_SCAN}"
  shows "\<exists>f. mih_recv now g n ms p s = Inl f"
proof (rule ccontr)
  assume "\<nexists>f. mih_recv now g n ms p s = Inl f"
  then obtain y where "mih_recv now g n ms p s = Inr y" by (cases "mih_recv now g n ms p s") auto
  then show False using assms
    by (auto simp: mih_recv_def Let_def by_opcode_def command_msg_def keep_macs_def pending_at_def recv_cap_disc_rsp_def recv_reg_rsp_def recv_dereg_rsp_def
        recv_event_sub_rsp_def recv_event_unsub_rsp_def recv_mih_get_status_res_def recv_mih_scan_res_def
        split: mih_payload.splits option.splits if_splits dest!: answer_needs session_answer_needs)
qed

theorem responses_need_requests_witness:
  "\<exists>f. mih_recv 2 0 demo_net demo_macs (mk_mih (demo_mih 7 0x2001 [5]) mih_cap_disc_size MIH_COMMAND_SERVICE MIH_RESPONSE MIH_MSG_CAPABILITY_DISCOVER 0 0
     (own_capabilities (demo_mih 7 0x2001 [5]))) (demo_mih 3 0x1801 [4]) = Inl f"
  by (rule responses_need_requests) (simp_all add: mk_mih_def demo_mih_defs)

end
