(* ===== verification/Mih_Handover.thy ===== *)
theory Mih_Handover
  imports Mih_Event_Props Handover_1
begin

text \<open>
  A mobile terminal: its handover function and the handover module \<^verbatim>\<open>Handover1\<close>, which is the function's user (nist-2/hsntg/mih-user.cc,
  802_21/handover-1.cc). What the function tells its user is carried out by the module, and what the module asks for is carried out by the
  function, until what is left leaves the terminal. In the code these are nested calls; here the reaction of a user to an
  event comes when the function has finished with the event.
\<close>

section \<open>State\<close>

record terminal =
  tm_user :: user_ref
  tm_mih :: mih_agent
  tm_ho :: handover1
  tm_env :: ho_env

datatype tm_out = TmHost ho_out | TmMih mih_out

type_synonym tm_result = "(terminal \<times> tm_out list) res"

text \<open>The interfaces of the function as its user sees them, and the results of a scan.\<close>

definition iface_view :: "mih_iface \<Rightarrow> iface_info" where
  "iface_view i = \<lparr>if_type = mi_type i, if_macAddr = mi_macAddr i, if_up = (mi_status i = LINK_STATUS_UP), if_mac = mi_mac i\<rparr>"

definition ho_module :: "terminal \<Rightarrow> handover1" where
  "ho_module t = (tm_ho t)\<lparr>ho_ifaces := map iface_view (ifaces (tm_mih t))\<rparr>"

definition scan_view :: "mih_scan_rsp_entry \<Rightarrow> scan_result" where
  "scan_view r = \<lparr>sr_type = wl_type (sr_link r), sr_mac = eth_to_int (wl_mac (sr_link r)), sr_poa = eth_to_int (wl_poa (sr_link r)), sr_found = sr_data r\<rparr>"

section \<open>What the function tells the module\<close>

definition process_mih_event :: "time \<Rightarrow> link_event \<Rightarrow> ho_env \<Rightarrow> handover1 \<Rightarrow> ho_result" where
  "process_mih_event now ev e o1 =
     (case ev of
        LinkUp x \<Rightarrow> process_link_up now e o1 (lu_link x)
      | LinkDown x \<Rightarrow> process_link_down now e o1 (li_mac (ld_link x))
      | LinkGoingDown x \<Rightarrow> process_link_going_down now e o1 (lg_link x) (lg_confidence x)
      | LinkDetected x \<Rightarrow> (let (o2, out) = process_link_detected o1 (lt_link x) in Inr (e, o2, out))
      | _ \<Rightarrow> Inr (e, o1, []))"

text \<open>The other confirmations and indications only print. \<open>g\<close>: see \<^const>\<open>process_scan_conf\<close>.\<close>

definition user_reaction :: "time \<Rightarrow> addr \<Rightarrow> user_call \<Rightarrow> ho_env \<Rightarrow> handover1 \<Rightarrow> ho_result" where
  "user_reaction now g c e o1 =
     (case c of
        MihEvent ev \<Rightarrow> process_mih_event now ev e o1
      | CapDiscConf h \<Rightarrow> Inr (e, o1, process_cap_disc_conf (sint (mihf_id h)))
      | ScanConf rs \<Rightarrow> process_scan_conf now g e o1 (map scan_view rs)
      | _ \<Rightarrow> Inr (e, o1, []))"

section \<open>What the module asks of the function\<close>

text \<open>Only the link of a configuration request is set; its operation mode is not read.\<close>

definition link_request :: "link_id \<Rightarrow> mih_configure_req" where
  "link_request l = \<lparr>information = push_bit (config_no CONFIG_LINK_ID) 1, operationMode = 0, config_link = l\<rparr>"

definition ho_call :: "time \<Rightarrow> ho_out \<Rightarrow> terminal \<Rightarrow> tm_result" where
  "ho_call now x t =
     (let s = tm_mih t; e = tm_env t; n = he_net e; ms = he_macs e; u = Some (tm_user t);
          mih = (\<lambda>r. bind_res r (\<lambda>(s', out). Inr (t\<lparr>tm_mih := s'\<rparr>, map TmMih out)))
      in case x of
           HoSend _ \<Rightarrow> Inr (t, [TmHost x])
         | HoFlow _ \<Rightarrow> Inr (t, [TmHost x])
         | HoConfigure l \<Rightarrow> bind_res (mih_configure_link s (mihfId s) (link_request l)) (\<lambda>out. Inr (t, map TmMih out))
         | HoScan l \<Rightarrow> mih (mih_scan now n ms u (mihfId s) [l] s)
         | HoRegister i \<Rightarrow> mih (send_reg_request now n ms u (word_of_int i) s)
         | HoSubscribe l events \<Rightarrow>
             bind_res (mih_event_subscribe now n ms u (mihfId s) l events s) (\<lambda>(ms', s', status, out).
               check AssertFail (status \<noteq> None) (Inr (t\<lparr>tm_mih := s', tm_env := e\<lparr>he_macs := ms'\<rparr>\<rparr>, map TmMih out))))"

fun ho_calls :: "time \<Rightarrow> ho_out list \<Rightarrow> terminal \<Rightarrow> tm_result" where
  "ho_calls now [] t = Inr (t, [])"
| "ho_calls now (x # xs) t =
     bind_res (ho_call now x t) (\<lambda>(t1, out). bind_res (ho_calls now xs t1) (\<lambda>(t2, out2). Inr (t2, out @ out2)))"

definition module_step :: "time \<Rightarrow> (ho_env \<Rightarrow> handover1 \<Rightarrow> ho_result) \<Rightarrow> terminal \<Rightarrow> tm_result" where
  "module_step now f t = bind_res (f (tm_env t) (ho_module t)) (\<lambda>(e, o1, out). ho_calls now out (t\<lparr>tm_env := e, tm_ho := o1\<rparr>))"

section \<open>The terminal\<close>

fun deliver_outs :: "time \<Rightarrow> addr \<Rightarrow> mih_out list \<Rightarrow> terminal \<Rightarrow> tm_result" where
  "deliver_outs now g [] t = Inr (t, [])"
| "deliver_outs now g (x # xs) t =
     bind_res
       (case x of
          ToUser u c \<Rightarrow> if u = tm_user t then module_step now (user_reaction now g c) t else Inr (t, [TmMih x])
        | _ \<Rightarrow> Inr (t, [TmMih x]))
       (\<lambda>(t1, out). bind_res (deliver_outs now g xs t1) (\<lambda>(t2, out2). Inr (t2, out @ out2)))"

definition mih_inputs :: "time \<Rightarrow> addr \<Rightarrow> mih_input \<Rightarrow> terminal \<Rightarrow> tm_result" where
  "mih_inputs now g i t =
     bind_res (mih_step (he_macs (tm_env t), tm_mih t) (now, he_net (tm_env t), i)) (\<lambda>((ms, s), out).
       deliver_outs now g out (t\<lparr>tm_mih := s, tm_env := (tm_env t)\<lparr>he_macs := ms\<rparr>\<rparr>))"

text \<open>A report of the link layer, which the MAC makes or does not make.\<close>

definition link_report :: "time \<Rightarrow> addr \<Rightarrow> link_event option \<Rightarrow> terminal \<Rightarrow> tm_result" where
  "link_report now g r t = (case r of None \<Rightarrow> Inr (t, []) | Some ev \<Rightarrow> mih_inputs now g (InEvent g ev) t)"

text \<open>\<^verbatim>\<open>register_mih\<close>, when the registration timer of the module goes off\<close>

definition terminal_register :: "time \<Rightarrow> terminal \<Rightarrow> tm_result" where
  "terminal_register now t =
     bind_res (mih_get_status now (he_net (tm_env t)) (he_macs (tm_env t)) (Some (tm_user t)) (mihfId (tm_mih t)) 0x4 (tm_mih t)) (\<lambda>(_, st, _).
       need NullPtr st (\<lambda>(_, links). ho_calls now (register_mih (tm_ho t) links) t))"

definition terminal_nd :: "time \<Rightarrow> nd_event \<Rightarrow> terminal \<Rightarrow> tm_result" where
  "terminal_nd now ev = module_step now (\<lambda>e o1. ho_process_nd_event now e o1 ev)"

definition terminal_scan_timer :: "time \<Rightarrow> terminal \<Rightarrow> tm_result" where
  "terminal_scan_timer now = module_step now (\<lambda>e o1. bind_res (scan_timer_expire o1) (\<lambda>(o2, out). Inr (e, o2, out)))"

text \<open>The steps of a terminal, and the states it gets into.\<close>

inductive terminal_step :: "terminal \<Rightarrow> terminal \<Rightarrow> bool" where
  mih: "mih_inputs now g i t = Inr (t', out) \<Longrightarrow> terminal_step t t'"
| register: "terminal_register now t = Inr (t', out) \<Longrightarrow> terminal_step t t'"
| nd: "terminal_nd now ev t = Inr (t', out) \<Longrightarrow> terminal_step t t'"
| scan: "terminal_scan_timer now t = Inr (t', out) \<Longrightarrow> terminal_step t t'"

inductive terminal_reach :: "terminal \<Rightarrow> terminal \<Rightarrow> bool" where
  start: "terminal_reach t t"
| step: "terminal_reach t t1 \<Longrightarrow> terminal_step t1 t2 \<Longrightarrow> terminal_reach t t2"

inductive_cases terminal_stepE: "terminal_step t t'"


section \<open>Registration\<close>

definition iface_link :: "mih_iface \<Rightarrow> link_id" where
  "iface_link i = \<lparr>li_type = mi_type i, li_mac = mi_macAddr i, li_poa = mi_macPoA i\<rparr>"

definition subscribe_macs :: "32 word \<Rightarrow> mih_iface list \<Rightarrow> macs \<Rightarrow> macs" where
  "subscribe_macs ev = fold (\<lambda>j ms. fst (link_event_subscribe ev (the (mi_mac j)) ms))"

definition subscribe_ifaces :: "user_ref \<Rightarrow> 32 word \<Rightarrow> addr set \<Rightarrow> mih_agent \<Rightarrow> mih_agent" where
  "subscribe_ifaces u ev A s = s\<lparr>ifaces := map (\<lambda>i. if mi_macAddr i \<in> A then event_subscribe u ev i else i) (ifaces s)\<rparr>"

lemma upd_first_map:
  "distinct (map k xs) \<Longrightarrow> upd_first (\<lambda>x. k x = a) f xs = map (\<lambda>x. if k x = a then f x else x) xs"
proof (induction xs)
  case (Cons x xs)
  then have "k x = a \<Longrightarrow> map (\<lambda>x. if k x = a then f x else x) xs = xs" by (intro map_idI) (auto intro: rev_image_eqI)
  with Cons show ?case by auto
qed simp

lemma iface_ops_keys [simp]: "mi_macAddr (event_subscribe u ev i) = mi_macAddr i" "mi_mac (event_subscribe u ev i) = mi_mac i"
  "mi_macAddr (setStatus st i) = mi_macAddr i" "mi_mac (setStatus st i) = mi_mac i"
  by (simp_all add: event_subscribe_def setStatus_def)

lemma find_iface_mem:
  assumes "distinct (map mi_macAddr (ifaces s))" and "i \<in> set (ifaces s)"
  shows "find_iface s (mi_macAddr i) = Some i"
proof -
  have "distinct (map k xs) \<Longrightarrow> x \<in> set xs \<Longrightarrow> find (\<lambda>y. k y = k x) xs = Some x" for k :: "mih_iface \<Rightarrow> addr" and xs x
    by (induction xs) force+
  with assms show ?thesis by (simp add: find_iface_def)
qed

lemma subscribe_link:
  assumes "distinct (map mi_macAddr (ifaces (tm_mih t)))" and "i \<in> set (ifaces (tm_mih t))" and "mi_macAddr i = mi_macAddr j" and "mi_mac i = Some m"
  shows "ho_call now (HoSubscribe (iface_link j) ev) t = Inr (t\<lparr>tm_mih := subscribe_ifaces (tm_user t) ev {mi_macAddr j} (tm_mih t),
    tm_env := (tm_env t)\<lparr>he_macs := fst (link_event_subscribe ev m (he_macs (tm_env t)))\<rparr>\<rparr>, [])"
proof -
  have f: "find_iface (tm_mih t) (mi_macAddr j) = Some i" using find_iface_mem [OF assms(1,2)] assms(3) by simp
  then have "local_end (tm_mih t) (iface_link j) = mi_macAddr j" using assms(4) by (simp add: local_end_def is_local_mac_def isLocal_def iface_link_def)
  then show ?thesis using f assms(4) upd_first_map [OF assms(1)]
    by (simp add: ho_call_def Let_def mih_event_subscribe_def case_prod_unfold upd_iface_def subscribe_ifaces_def)
qed

lemma subscribe_ifaces_keys [simp]: "map mi_macAddr (ifaces (subscribe_ifaces u ev A s)) = map mi_macAddr (ifaces s)"
  by (simp add: subscribe_ifaces_def)

lemma subscribe_ifaces_again: "A \<inter> B = {} \<Longrightarrow> subscribe_ifaces u ev A (subscribe_ifaces u ev B s) = subscribe_ifaces u ev (A \<union> B) s"
proof -
  assume "A \<inter> B = {}"
  then have "map (\<lambda>i. if mi_macAddr i \<in> A then event_subscribe u ev i else i) (map (\<lambda>i. if mi_macAddr i \<in> B then event_subscribe u ev i else i) xs)
    = map (\<lambda>i. if mi_macAddr i \<in> A \<union> B then event_subscribe u ev i else i) xs" for xs
    by (induction xs) auto
  from this [of "ifaces s"] show ?thesis unfolding subscribe_ifaces_def by simp
qed

lemma subscribe_ifaces_mem: "i \<in> set (ifaces s) \<Longrightarrow> \<exists>i' \<in> set (ifaces (subscribe_ifaces u ev A s)). mi_macAddr i' = mi_macAddr i \<and> mi_mac i' = mi_mac i"
  by (rule bexI [of _ "if mi_macAddr i \<in> A then event_subscribe u ev i else i"]) (auto simp: subscribe_ifaces_def)

lemma subscribe_links:
  assumes "distinct (map mi_macAddr (ifaces (tm_mih t)))" and "distinct (map mi_macAddr js)"
    and "\<forall>j \<in> set js. isLocal j \<and> (\<exists>i \<in> set (ifaces (tm_mih t)). mi_macAddr i = mi_macAddr j \<and> mi_mac i = mi_mac j)"
  shows "ho_calls now (map (\<lambda>j. HoSubscribe (iface_link j) ev) js) t = Inr (t\<lparr>tm_mih := subscribe_ifaces (tm_user t) ev (mi_macAddr ` set js) (tm_mih t),
    tm_env := (tm_env t)\<lparr>he_macs := subscribe_macs ev js (he_macs (tm_env t))\<rparr>\<rparr>, [])"
  using assms
proof (induction js arbitrary: t)
  case Nil
  then show ?case by (simp add: subscribe_ifaces_def subscribe_macs_def)
next
  case (Cons j js)
  from Cons.prems(3) obtain i m where i: "i \<in> set (ifaces (tm_mih t))" "mi_macAddr i = mi_macAddr j" "mi_mac i = Some m" "mi_mac j = Some m"
    by (auto simp: isLocal_def)
  let ?t = "t\<lparr>tm_mih := subscribe_ifaces (tm_user t) ev {mi_macAddr j} (tm_mih t), tm_env := (tm_env t)\<lparr>he_macs := fst (link_event_subscribe ev m (he_macs (tm_env t)))\<rparr>\<rparr>"
  have "\<forall>j \<in> set js. isLocal j \<and> (\<exists>i \<in> set (ifaces (tm_mih ?t)). mi_macAddr i = mi_macAddr j \<and> mi_mac i = mi_mac j)"
    using Cons.prems(3) subscribe_ifaces_mem [of _ "tm_mih t" "tm_user t" ev "{mi_macAddr j}"] by fastforce
  with Cons.IH [of ?t] Cons.prems(1,2) show ?case
    using subscribe_link [OF Cons.prems(1) i(1-3), of now ev] i(4) subscribe_ifaces_again [of "mi_macAddr ` set js" "{mi_macAddr j}"]
    by (auto simp: subscribe_macs_def)
qed

lemma terminal_register_done:
  assumes "distinct (map mi_macAddr (ifaces (tm_mih t)))" and "length (filter isLocal (ifaces (tm_mih t))) \<le> MAX_INTERFACE_PER_NODE"
  shows "terminal_register now t = Inr (t\<lparr>tm_mih := subscribe_ifaces (tm_user t) (ho_events (ho_case (tm_ho t))) (mi_macAddr ` set (filter isLocal (ifaces (tm_mih t)))) (tm_mih t),
    tm_env := (tm_env t)\<lparr>he_macs := subscribe_macs (ho_events (ho_case (tm_ho t))) (filter isLocal (ifaces (tm_mih t))) (he_macs (tm_env t))\<rparr>\<rparr>, [])"
proof -
  let ?js = "filter isLocal (ifaces (tm_mih t))"
  have "distinct (map mi_macAddr ?js)" using assms(1) by (simp add: distinct_map_filter)
  note sub = subscribe_links [OF assms(1) this, of now "ho_events (ho_case (tm_ho t))"]
  have "local_links (tm_mih t) = Inr (map iface_link ?js)" using assms(2) by (simp add: local_links_def Let_def iface_link_def [abs_def])
  then have "terminal_register now t = ho_calls now (map (\<lambda>j. HoSubscribe (iface_link j) (ho_events (ho_case (tm_ho t)))) ?js) t"
    by (simp add: terminal_register_def mih_get_status_def register_mih_def comp_def)
  also note sub
  finally show ?thesis by auto
qed

lemma subscribe_macs_fields [simp]: "mac_node (subscribe_macs ev js ms) = mac_node ms" "mac_type (subscribe_macs ev js ms) = mac_type ms" "mac_addr (subscribe_macs ev js ms) = mac_addr ms"
  by (induction js arbitrary: ms) (simp_all add: subscribe_macs_def link_event_subscribe_def upd_sap_def Let_def)

lemma subscribe_macs_report:
  "event_subscribed (subscribe_macs ev js ms) m e
    \<longleftrightarrow> event_subscribed ms m e \<or> m \<in> (the \<circ> mi_mac) ` set js \<and> sap_mih (mac_sap ms m) \<and> bit ev (event_no e) \<and> bit (eventList (mac_sap ms m)) (event_no e)"
proof (induction js arbitrary: ms)
  case (Cons j js)
  have "sap_mih (mac_sap (fst (link_event_subscribe ev k ms)) m) = sap_mih (mac_sap ms m)" "eventList (mac_sap (fst (link_event_subscribe ev k ms)) m) = eventList (mac_sap ms m)"
    "event_subscribed (fst (link_event_subscribe ev k ms)) m e \<longleftrightarrow> event_subscribed ms m e
      \<or> m = k \<and> sap_mih (mac_sap ms m) \<and> bit ev (event_no e) \<and> bit (eventList (mac_sap ms m)) (event_no e)" for k
    by (auto simp: event_subscribed_bit link_event_subscribe_def upd_sap_def Let_def bit_or_iff bit_and_iff)
  with Cons.IH [of "fst (link_event_subscribe ev (the (mi_mac j)) ms)"] show ?case by (auto simp: subscribe_macs_def)
qed (simp add: subscribe_macs_def)

end
