(* ===== verification/Mih_Handover_Props.thy ===== *)
theory Mih_Handover_Props
  imports Mih_Handover Handover_Props
begin

text \<open>
  A terminal as a whole: what becomes of a report of the link layer once the handover module has registered with the handover
  function, and what holds in every state that a terminal gets into.
\<close>

section \<open>From the link layer to the module\<close>

lemma bind_res_Inr_id [simp]: "bind_res r Inr = r"
  by (cases r) auto

lemma get_interface_view: "get_interface (ho_module t) a = map_option iface_view (find_iface (tm_mih t) a)"
proof -
  have "find (\<lambda>i. if_macAddr i = a) (map iface_view xs) = map_option iface_view (find (\<lambda>i. mi_macAddr i = a) xs)" for xs
    by (induction xs) (auto simp: iface_view_def)
  then show ?thesis by (simp add: get_interface_def find_iface_def ho_module_def)
qed

lemma get_mac_view: "find_iface (tm_mih t) a = Some i \<Longrightarrow> get_mac (ho_module t) a = Inr (mi_mac i)"
  by (simp add: get_mac_def get_interface_view iface_view_def)

lemma module_fields [simp]: "ho_host (ho_module t) = ho_host (tm_ho t)" "ho_case (ho_module t) = ho_case (tm_ho t)" "connectingMac (ho_module t) = connectingMac (tm_ho t)"
  by (simp_all add: ho_module_def)

lemma module_told:
  assumes "recv_event now g (he_net (tm_env t)) (he_macs (tm_env t)) ev (tm_mih t) = Inr (s', [ToUser (tm_user t) (MihEvent ev)])"
  shows "mih_inputs now g (InEvent g ev) t = module_step now (process_mih_event now ev) (t\<lparr>tm_mih := s'\<rparr>)"
  using assms by (simp add: mih_inputs_def keep_macs_def user_reaction_def [abs_def])

text \<open>Interfaces to which nobody has subscribed, and whose MAC, which is one of the wireless ones, reports nothing yet.\<close>

definition fresh_iface :: "macs \<Rightarrow> mih_iface \<Rightarrow> mac_ref \<Rightarrow> bool" where
  "fresh_iface ms i m \<longleftrightarrow> mi_mac i = Some m \<and> (\<forall>e. mi_local i e = [] \<and> mi_remote i e = []) \<and> sap_mih (mac_sap ms m)
     \<and> subscribedEventList (mac_sap ms m) = 0 \<and> eventList (mac_sap ms m) = mac_eventList"

definition plain_terminal :: "terminal \<Rightarrow> bool" where
  "plain_terminal t \<longleftrightarrow> distinct (map mi_macAddr (ifaces (tm_mih t))) \<and> length (filter isLocal (ifaces (tm_mih t))) \<le> MAX_INTERFACE_PER_NODE"

lemma event_no_bound: "event_no e < LINK_LAST_EVENT"
  by (cases e) (simp_all add: LINK_LAST_EVENT_def)

lemma registered_iface:
  assumes "plain_terminal t" and "i \<in> set (ifaces (tm_mih t))" and "fresh_iface (he_macs (tm_env t)) i m" and "terminal_register t0 t = Inr (t1, out)"
  defines "ev \<equiv> ho_events (ho_case (tm_ho t))"
  shows "find_iface (tm_mih t1) (mi_macAddr i) = Some (event_subscribe (tm_user t) ev i)"
    and "e \<noteq> MIH_LINK_SDU_TRANSMIT_STATUS \<Longrightarrow> event_subscribed (he_macs (tm_env t1)) m e \<longleftrightarrow> bit ev (event_no e)"
    and "getRegisteredLocalUser e (event_subscribe (tm_user t) ev i) = (if bit ev (event_no e) then [tm_user t] else [])"
    and "getRegisteredRemoteUser e (event_subscribe (tm_user t) ev i) = []"
    and "tm_user t1 = tm_user t" "tm_ho t1 = tm_ho t" "mac_node (he_macs (tm_env t1)) = mac_node (he_macs (tm_env t))" "he_net (tm_env t1) = he_net (tm_env t)"
    "mac_type (he_macs (tm_env t1)) = mac_type (he_macs (tm_env t))" "mihfId (tm_mih t1) = mihfId (tm_mih t)"
proof -
  have d: "distinct (map mi_macAddr (ifaces (tm_mih t)))" and len: "length (filter isLocal (ifaces (tm_mih t))) \<le> MAX_INTERFACE_PER_NODE"
    using assms(1) by (auto simp: plain_terminal_def)
  let ?js = "filter isLocal (ifaces (tm_mih t))"
  from terminal_register_done [OF d len, of t0] assms(4) have t1: "t1 = t\<lparr>tm_mih := subscribe_ifaces (tm_user t) ev (mi_macAddr ` set ?js) (tm_mih t),
    tm_env := (tm_env t)\<lparr>he_macs := subscribe_macs ev ?js (he_macs (tm_env t))\<rparr>\<rparr>" by (simp add: ev_def)
  then show "tm_user t1 = tm_user t" "tm_ho t1 = tm_ho t" "mac_node (he_macs (tm_env t1)) = mac_node (he_macs (tm_env t))" "he_net (tm_env t1) = he_net (tm_env t)"
    "mac_type (he_macs (tm_env t1)) = mac_type (he_macs (tm_env t))" "mihfId (tm_mih t1) = mihfId (tm_mih t)" by (simp_all add: subscribe_ifaces_def)
  have j: "i \<in> set ?js" using assms(2,3) by (simp add: fresh_iface_def isLocal_def)
  then have "event_subscribe (tm_user t) ev i \<in> set (ifaces (tm_mih t1))" using assms(2) by (auto simp: t1 subscribe_ifaces_def image_iff)
  moreover have "distinct (map mi_macAddr (ifaces (tm_mih t1)))" using d by (simp add: t1)
  ultimately show "find_iface (tm_mih t1) (mi_macAddr i) = Some (event_subscribe (tm_user t) ev i)" using find_iface_mem by fastforce
  have "m \<in> (the \<circ> mi_mac) ` set ?js" using j assms(3) by (force simp: fresh_iface_def)
  moreover have "\<not> event_subscribed (he_macs (tm_env t)) m e" using assms(3) by (simp add: event_subscribed_bit fresh_iface_def)
  moreover have "e \<noteq> MIH_LINK_SDU_TRANSMIT_STATUS \<Longrightarrow> bit mac_eventList (event_no e)" by (cases e) (simp_all add: mac_eventList_def bit_numeral_rec)
  ultimately show "e \<noteq> MIH_LINK_SDU_TRANSMIT_STATUS \<Longrightarrow> event_subscribed (he_macs (tm_env t1)) m e \<longleftrightarrow> bit ev (event_no e)"
    using assms(3) by (simp add: t1 subscribe_macs_report fresh_iface_def)
  show "getRegisteredLocalUser e (event_subscribe (tm_user t) ev i) = (if bit ev (event_no e) then [tm_user t] else [])"
    "getRegisteredRemoteUser e (event_subscribe (tm_user t) ev i) = []"
    using assms(3) event_no_bound [of e] by (auto simp: fresh_iface_def getRegisteredLocalUser_def getRegisteredRemoteUser_def event_subscribe_def)
qed

lemma host_outputs: "ho_calls now (map HoSend out) t = Inr (t, map (TmHost \<circ> HoSend) out)"
  by (induction out) (simp_all add: ho_call_def)

lemma ho_events_down: "bit (ho_events c) (event_no MIH_LINK_DOWN) \<longleftrightarrow> c = 2 \<or> c = 3"
  by (simp add: ho_events_def bit_numeral_rec)

text \<open>
  Whether the loss of a link moves a host to another network depends on the case. After the module has registered with the handover
  function, a MAC that reports its link down makes, in the cases 2 and 3, the SIP or MIPv6 agent re-home from the node of that MAC, once, and the interface is
  marked as down; in every other case the events that the module asks for do not contain the loss of a link, so the MAC does not report it and
  nothing happens.
\<close>

lemma link_loss_rehomes:
  assumes "plain_terminal t" and "i \<in> set (ifaces (tm_mih t))" and "fresh_iface (he_macs (tm_env t)) i m" and "terminal_register t0 t = Inr (t1, out1)"
  shows "let r = send_link_down (he_macs (tm_env t1)) m (mi_macAddr i) oldAR reason; c = ho_case (tm_ho t) in
      (c \<noteq> 2 \<and> c \<noteq> 3 \<longrightarrow> link_report now g r t1 = Inr (t1, []))
    \<and> ((c = 2 \<or> c = 3) \<and> host_re_homing now (he_net (tm_env t)) (ho_host (tm_ho t)) (mac_node (he_macs (tm_env t)) m) = Inr (n', h', out) \<longrightarrow>
         (\<exists>t2. link_report now g r t1 = Inr (t2, map (TmHost \<circ> HoSend) out) \<and> ho_host (tm_ho t2) = h' \<and> he_net (tm_env t2) = n'
           \<and> map_option mi_status (find_iface (tm_mih t2) (mi_macAddr i)) = Some LINK_STATUS_DOWN))"
proof -
  note reg = registered_iface [OF assms]
  let ?i = "event_subscribe (tm_user t) (ho_events (ho_case (tm_ho t))) i" and ?l = "sap_link (he_macs (tm_env t1)) m (mi_macAddr i) oldAR"
  let ?e = "\<lparr>ld_link = ?l, ld_oldAR = oldAR, ld_reason = reason\<rparr>"
  have r: "send_link_down (he_macs (tm_env t1)) m (mi_macAddr i) oldAR reason = (if ho_case (tm_ho t) = 2 \<or> ho_case (tm_ho t) = 3 then Some (LinkDown ?e) else None)"
    using reg(2) [of MIH_LINK_DOWN] ho_events_down by (simp add: send_link_down_def report_def)
  have "local_end (tm_mih t1) ?l = mi_macAddr i"
    using reg(1) assms(3) by (simp add: local_end_def sap_link_def is_local_mac_def isLocal_def fresh_iface_def)
  with handle_event_none [of "tm_mih t1" ?l ?i MIH_LINK_DOWN] reg(1,4) obtain s' where s':
    "recv_event now g (he_net (tm_env t1)) (he_macs (tm_env t1)) (LinkDown ?e) (tm_mih t1) = Inr (s', map (\<lambda>u. ToUser u (MihEvent (LinkDown ?e))) (getRegisteredLocalUser MIH_LINK_DOWN ?i))"
    "find_iface s' (mi_macAddr i) = Some (setStatus LINK_STATUS_DOWN ?i)"
    unfolding recv_event_def mih_process_link_down_def by (simp, metis)
  have "get_mac (ho_module (t1\<lparr>tm_mih := s'\<rparr>)) (mi_macAddr i) = Inr (Some m)"
    using get_mac_view [of "t1\<lparr>tm_mih := s'\<rparr>"] s'(2) assms(3) by (simp add: fresh_iface_def)
  with s' reg(3) [of MIH_LINK_DOWN] reg(5-8) ho_events_down [of "ho_case (tm_ho t)"] show ?thesis
    by (auto simp: r Let_def link_report_def module_told module_step_def process_mih_event_def process_link_down_def sap_link_def on_host_def host_outputs
        put_net_def setStatus_def)
qed


section \<open>Attachment\<close>

lemma ho_events_up: "bit (ho_events c) (event_no MIH_LINK_UP)" "bit (ho_events c) (event_no MIH_LINK_DETECTED)"
  by (simp_all add: ho_events_def bit_numeral_rec)

lemma configure_connects:
  assumes "find_iface (tm_mih t) (li_mac l) = Some i" and "mi_mac i = Some m" and "li_poa l \<noteq> - 1"
  shows "ho_calls now [HoConfigure l] t = Inr (t, [TmMih (MacConnect m (li_poa l))])"
  using assms by (simp add: ho_call_def Let_def mih_configure_link_def link_request_def configured_def mih_get_mac_def bit_numeral_rec)

lemma link_up_ends_wait:
  fixes poa oldPoA :: addr
  assumes "find_iface (tm_mih t) a = Some i" and "mi_mac i = Some m" and "getRegisteredLocalUser MIH_LINK_UP i = [tm_user t]" and "getRegisteredRemoteUser MIH_LINK_UP i = []"
    and "event_subscribed (he_macs (tm_env t)) m MIH_LINK_UP" and "connectingMac (tm_ho t) = a"
  defines "r \<equiv> send_link_up (he_macs (tm_env t)) m a poa oldPoA"
  shows "ho_case (tm_ho t) \<notin> {2, 3} \<Longrightarrow> \<exists>t'. link_report now g r t = Inr (t', []) \<and> connectingMac (tm_ho t') = - 1
      \<and> map_option mi_status (find_iface (tm_mih t') a) = Some LINK_STATUS_UP"
    and "ho_case (tm_ho t) \<in> {2, 3} \<Longrightarrow> mip_send_rs now (he_net (tm_env t)) (ho_agent (tm_ho t)) (he_nds (tm_env t)) (Some m) = Inr (nds, out) \<Longrightarrow>
      \<exists>t'. link_report now g r t = Inr (t', map (TmHost \<circ> HoSend) out) \<and> connectingMac (tm_ho t') = - 1 \<and> he_nds (tm_env t') = nds
      \<and> map_option mi_status (find_iface (tm_mih t') a) = Some LINK_STATUS_UP"
proof -
  let ?l = "sap_link (he_macs (tm_env t)) m a poa" and ?s = "upd_iface a (setStatus LINK_STATUS_UP) (tm_mih t)"
  let ?e = "\<lparr>lu_link = ?l, lu_oldAR = oldPoA, lu_newAR = poa, lu_ipRenewal = False, lu_mobility = 0\<rparr>"
  have "local_end (tm_mih t) ?l = a" using assms(1,2) by (simp add: local_end_def sap_link_def is_local_mac_def isLocal_def)
  then have told: "recv_event now g (he_net (tm_env t)) (he_macs (tm_env t)) (LinkUp ?e) (tm_mih t) = Inr (?s, [ToUser (tm_user t) (MihEvent (LinkUp ?e))])"
    using handle_event_quiet [of "tm_mih t" ?l i MIH_LINK_UP] assms(1,3,4) by (simp add: recv_event_def mih_process_link_up_def)
  have i: "find_iface ?s a = Some (setStatus LINK_STATUS_UP i)" using assms(1) by (simp add: find_iface_status)
  then have "get_mac (ho_module (t\<lparr>tm_mih := ?s\<rparr>)) a = Inr (Some m)"
    using get_mac_view [of "t\<lparr>tm_mih := ?s\<rparr>" a] assms(2) by simp
  then have mac: "get_mac ((ho_module (t\<lparr>tm_mih := ?s\<rparr>))\<lparr>connectingMac := - 1\<rparr>) a = Inr (Some m)" by (simp add: get_mac_def get_interface_def)
  have up: "link_report now g r t = module_step now (process_mih_event now (LinkUp ?e)) (t\<lparr>tm_mih := ?s\<rparr>)"
    using module_told [OF told] assms(5) by (simp add: r_def link_report_def send_link_up_def report_def)
  have agent: "ho_agent (ho_module t') = ho_agent (tm_ho t')" for t' by (simp add: ho_module_def)
  show "ho_case (tm_ho t) \<notin> {2, 3} \<Longrightarrow> \<exists>t'. link_report now g r t = Inr (t', []) \<and> connectingMac (tm_ho t') = - 1
      \<and> map_option mi_status (find_iface (tm_mih t') a) = Some LINK_STATUS_UP"
    using i assms(6) by (simp add: up module_step_def process_mih_event_def process_link_up_def Let_def sap_link_def setStatus_def)
  show "ho_case (tm_ho t) \<in> {2, 3} \<Longrightarrow> mip_send_rs now (he_net (tm_env t)) (ho_agent (tm_ho t)) (he_nds (tm_env t)) (Some m) = Inr (nds, out) \<Longrightarrow>
      \<exists>t'. link_report now g r t = Inr (t', map (TmHost \<circ> HoSend) out) \<and> connectingMac (tm_ho t') = - 1 \<and> he_nds (tm_env t') = nds
      \<and> map_option mi_status (find_iface (tm_mih t') a) = Some LINK_STATUS_UP"
    using i mac assms(6) by (auto simp: up agent module_step_def process_mih_event_def process_link_up_def Let_def sap_link_def setStatus_def host_outputs)
qed

lemma registered_nds: "plain_terminal t \<Longrightarrow> terminal_register t0 t = Inr (t1, out) \<Longrightarrow> he_nds (tm_env t1) = he_nds (tm_env t)"
  using terminal_register_done [of t t0] by (auto simp: plain_terminal_def)

text \<open>
  C12: A terminal attaches to a point of attachment that it hears. After the registration of the module, in every case, a
  MAC that reports a detected wireless link is told to connect to it, and the module waits for that MAC; when the MAC then reports that the
  link is up, the interface is marked as up and the module waits no longer, and in the cases 2 and 3 a router is solicited at
  once by the neighbour discovery agent of that MAC (if it has one that can), in the others nothing is sent. The module is the first user of the interface, whose MAC reports the events that the constructors of the
  wireless MACs set; the terminal has interfaces of different addresses, as many as the function can report on.
\<close>

theorem detected_link_attaches:
  assumes "plain_terminal t" and "i \<in> set (ifaces (tm_mih t))" and "fresh_iface (he_macs (tm_env t)) i m" and "terminal_register t0 t = Inr (t1, out1)"
    and "mac_type (he_macs (tm_env t)) m \<in> {LINK_802_11, LINK_802_16}" and "poa \<noteq> - 1"
  shows "\<exists>t2. link_report now g (send_link_detected (he_macs (tm_env t1)) m (mi_macAddr i) poa cap) t1 = Inr (t2, [TmMih (MacConnect m poa)])
    \<and> connectingMac (tm_ho t2) = mi_macAddr i
    \<and> (let r = send_link_up (he_macs (tm_env t2)) m (mi_macAddr i) poa oldPoA; c = ho_case (tm_ho t) in
        (c \<noteq> 2 \<and> c \<noteq> 3 \<longrightarrow> (\<exists>t3. link_report now' g r t2 = Inr (t3, []) \<and> connectingMac (tm_ho t3) = - 1
          \<and> map_option mi_status (find_iface (tm_mih t3) (mi_macAddr i)) = Some LINK_STATUS_UP))
      \<and> ((c = 2 \<or> c = 3) \<and> mip_send_rs now' (he_net (tm_env t)) (ho_agent (tm_ho t)) (he_nds (tm_env t)) (Some m) = Inr (nds, out) \<longrightarrow>
          (\<exists>t3. link_report now' g r t2 = Inr (t3, map (TmHost \<circ> HoSend) out) \<and> connectingMac (tm_ho t3) = - 1 \<and> he_nds (tm_env t3) = nds
          \<and> map_option mi_status (find_iface (tm_mih t3) (mi_macAddr i)) = Some LINK_STATUS_UP)))"
proof -
  note reg = registered_iface [OF assms(1-4)]
  let ?i = "event_subscribe (tm_user t) (ho_events (ho_case (tm_ho t))) i" and ?a = "mi_macAddr i"
  let ?l = "sap_link (he_macs (tm_env t1)) m ?a poa"
  let ?e = "\<lparr>lt_link = ?l, lt_mihCapability = cap\<rparr>" and ?s = "upd_iface ?a (setStatus LINK_STATUS_DOWN) (tm_mih t1)"
  let ?t = "t1\<lparr>tm_mih := ?s\<rparr>"
  have mac: "mi_mac i = Some m" using assms(3) by (simp add: fresh_iface_def)
  have "local_end (tm_mih t1) ?l = ?a" using reg(1) mac by (simp add: local_end_def sap_link_def is_local_mac_def isLocal_def)
  then have told: "recv_event now g (he_net (tm_env t1)) (he_macs (tm_env t1)) (LinkDetected ?e) (tm_mih t1) = Inr (?s, [ToUser (tm_user t1) (MihEvent (LinkDetected ?e))])"
    using handle_event_quiet [of "tm_mih t1" ?l ?i MIH_LINK_DETECTED] reg(1,4,5) reg(3) [of MIH_LINK_DETECTED] ho_events_up(2) [of "ho_case (tm_ho t)"]
    by (simp add: recv_event_def mih_process_link_detected_def)
  have i2: "find_iface ?s ?a = Some (setStatus LINK_STATUS_DOWN ?i)" using reg(1) by (simp add: find_iface_status)
  let ?t2 = "?t\<lparr>tm_ho := (ho_module ?t)\<lparr>connectingMac := ?a\<rparr>\<rparr>"
  have "link_report now g (send_link_detected (he_macs (tm_env t1)) m ?a poa cap) t1 = Inr (?t2, [TmMih (MacConnect m poa)])"
    using reg(2) [of MIH_LINK_DETECTED] ho_events_up(2) [of "ho_case (tm_ho t)"] module_told [OF told] configure_connects [of ?t2 ?l "setStatus LINK_STATUS_DOWN ?i" m now] i2 mac assms(5,6) reg(9)
    by (auto simp: link_report_def send_link_detected_def report_def module_step_def process_mih_event_def process_link_detected_def sap_link_def)
  moreover have "getRegisteredLocalUser MIH_LINK_UP (setStatus LINK_STATUS_DOWN ?i) = [tm_user t]" "getRegisteredRemoteUser MIH_LINK_UP (setStatus LINK_STATUS_DOWN ?i) = []"
    "event_subscribed (he_macs (tm_env t1)) m MIH_LINK_UP"
    using reg(2-4) [of MIH_LINK_UP] ho_events_up(1) [of "ho_case (tm_ho t)"] by simp_all
  moreover have "ho_agent (ho_module ?t) = ho_agent (tm_ho t)" "he_nds (tm_env t1) = he_nds (tm_env t)" using reg(6) registered_nds [OF assms(1,4)] by (simp_all add: ho_module_def)
  ultimately show ?thesis
    using link_up_ends_wait [where t = ?t2 and a = ?a and i = "setStatus LINK_STATUS_DOWN ?i" and m = m and poa = poa and oldPoA = oldPoA and now = now' and g = g] i2 mac reg(5,6,8)
    by (intro exI [of _ ?t2]) (simp add: Let_def)
qed

section \<open>What every step of a terminal keeps\<close>

context mih_closed
begin

lemma keepsD: "keeps m \<Longrightarrow> m = Inr (s, out) \<Longrightarrow> I s"
  by simp

lemma ho_call_keeps:
  assumes "I (tm_mih t)" and "ho_call now x t = Inr (t', out)"
  shows "I (tm_mih t')"
proof (cases x)
  case (HoSubscribe l ev)
  then show ?thesis using assms subscribe_keeps(1) [OF assms(1)] by (auto simp: ho_call_def Let_def)
qed (use assms in \<open>auto simp: ho_call_def Let_def dest: keepsD [OF mih_scan_keeps [OF assms(1)]] keepsD [OF reg_request_keeps [OF assms(1)]]\<close>)

lemma ho_calls_keeps: "I (tm_mih t) \<Longrightarrow> ho_calls now xs t = Inr (t', out) \<Longrightarrow> I (tm_mih t')"
proof (induction xs arbitrary: t out)
  case (Cons x xs)
  then show ?case using ho_call_keeps by fastforce
qed simp

lemma module_step_keeps: "I (tm_mih t) \<Longrightarrow> module_step now f t = Inr (t', out) \<Longrightarrow> I (tm_mih t')"
  by (auto simp: module_step_def intro: ho_calls_keeps [rotated])

lemma deliver_outs_keeps: "I (tm_mih t) \<Longrightarrow> deliver_outs now g xs t = Inr (t', out) \<Longrightarrow> I (tm_mih t')"
proof (induction xs arbitrary: t out)
  case (Cons x xs)
  from Cons.prems(2) obtain t1 o1 o2 where 1: "deliver_outs now g xs t1 = Inr (t', o2)"
    and "t1 = t \<or> (\<exists>f. module_step now f t = Inr (t1, o1))"
    by (cases x) (auto split: if_splits)
  then have "I (tm_mih t1)" using Cons.prems(1) module_step_keeps by blast
  with 1 Cons.IH show ?case by blast
qed simp

lemma terminal_step_keeps: "terminal_step t t' \<Longrightarrow> I (tm_mih t) \<Longrightarrow> I (tm_mih t')"
proof (induction rule: terminal_step.induct)
  case (mih now g i t t' out)
  then obtain ms s xs where "mih_step (he_macs (tm_env t), tm_mih t) (now, he_net (tm_env t), i) = Inr ((ms, s), xs)"
    "deliver_outs now g xs (t\<lparr>tm_mih := s, tm_env := (tm_env t)\<lparr>he_macs := ms\<rparr>\<rparr>) = Inr (t', out)"
    unfolding mih_inputs_def by (auto simp del: mih_step.simps)
  with mih(2) show ?case using step_keeps deliver_outs_keeps [of "t\<lparr>tm_mih := s, tm_env := (tm_env t)\<lparr>he_macs := ms\<rparr>\<rparr>"] by fastforce
next
  case (register now t t' out)
  then show ?case by (auto simp: terminal_register_def intro: ho_calls_keeps)
next
  case (nd now ev t t' out)
  then show ?case by (auto simp: terminal_nd_def intro: module_step_keeps)
next
  case (scan now t t' out)
  then show ?case by (auto simp: terminal_scan_timer_def intro: module_step_keeps)
qed

lemma terminal_reach_keeps: "terminal_reach t t' \<Longrightarrow> I (tm_mih t) \<Longrightarrow> I (tm_mih t')"
  by (induction rule: terminal_reach.induct) (auto intro: terminal_step_keeps)

end

text \<open>The interfaces that exist stay, with their addresses and MACs.\<close>

definition iface_keys :: "mih_agent \<Rightarrow> (addr \<times> mac_ref option) set" where
  "iface_keys s = (\<lambda>i. (mi_macAddr i, mi_mac i)) ` set (ifaces s)"

lemma find_iface_key: "find_iface s a = Some i \<Longrightarrow> (a, mi_mac i) \<in> iface_keys s"
  by (auto simp: iface_keys_def find_iface_def find_Some_iff intro: image_eqI [OF _ nth_mem])

lemma upd_first_image: "(\<And>x. k (f x) = k x) \<Longrightarrow> k ` set (upd_first P f xs) = k ` set xs"
  by (induction xs) auto

lemma iface_keys_upd: "(\<And>i. mi_macAddr (f i) = mi_macAddr i \<and> mi_mac (f i) = mi_mac i) \<Longrightarrow> iface_keys (upd_iface a f s) = iface_keys s"
  unfolding iface_keys_def upd_iface_def by (simp add: upd_first_image)

lemma iface_op_keys [simp]:
  "mi_macAddr (event_unsubscribe u ev i) = mi_macAddr i" "mi_mac (event_unsubscribe u ev i) = mi_mac i"
  "mi_macAddr (remote_event_subscribe r ev i) = mi_macAddr i" "mi_mac (remote_event_subscribe r ev i) = mi_mac i"
  "mi_macAddr (remote_event_unsubscribe r ev i) = mi_macAddr i" "mi_mac (remote_event_unsubscribe r ev i) = mi_mac i"
  by (simp_all add: event_unsubscribe_def remote_event_subscribe_def remote_event_unsubscribe_def)

interpretation keys: mih_closed "\<lambda>s. K \<subseteq> iface_keys s" for K
  by unfold_locales (simp_all add: iface_keys_upd, auto simp: iface_keys_def bump_tid_def add_mac_def insert_request_def clear_request_def add_peer_def upd_mihf_def
      add_session_def delete_session_def image_image split: option.split)

section \<open>Whom the module waits for\<close>

definition own_wait :: "terminal \<Rightarrow> bool" where
  "own_wait t \<longleftrightarrow> connectingMac (tm_ho t) = - 1 \<or> (\<exists>m. (connectingMac (tm_ho t), Some m) \<in> iface_keys (tm_mih t))"

text \<open>A reaction of the module leaves it waiting as before, for nobody, or for a MAC that it asks to be connected.\<close>

definition waits :: "addr \<Rightarrow> handover1 \<Rightarrow> ho_out list \<Rightarrow> bool" where
  "waits a o2 out \<longleftrightarrow> connectingMac o2 = a \<or> connectingMac o2 = - 1 \<or> (\<exists>l. HoConfigure l \<in> set out \<and> connectingMac o2 = li_mac l)"

lemma scan_all_waits: "scan_all rs o1 = (o2, out) \<Longrightarrow> waits (connectingMac o1) o2 out \<and> (out = [] \<longrightarrow> connectingMac o2 = connectingMac o1)"
proof (induction rs arbitrary: o1 out)
  case (Cons r rs)
  obtain o' x where 1: "scan_one r o1 = (o', x)" by fastforce
  obtain y where 2: "scan_all rs o' = (o2, y)" "out = x @ y" using Cons.prems 1 by (auto simp: Let_def split: prod.splits)
  from 1 have "waits (connectingMac o1) o' x \<and> (x = [] \<longrightarrow> connectingMac o' = connectingMac o1)"
    by (auto simp: scan_one_def waits_def Let_def split: if_splits option.splits)
  with Cons.IH [OF 2(1)] 2(2) show ?case by (auto simp: waits_def)
qed (simp add: waits_def)

lemma on_host_waits: "on_host e o1 r = Inr (e', o2, out) \<Longrightarrow> connectingMac o2 = connectingMac o1"
  by (auto simp: on_host_def)

lemma link_down_waits: "process_link_down now e o1 a = Inr (e', o2, out) \<Longrightarrow> connectingMac o2 = connectingMac o1"
  by (auto simp: process_link_down_def dest: on_host_waits)

lemma event_waits: "process_mih_event now ev e o1 = Inr (e', o2, out) \<Longrightarrow> waits (connectingMac o1) o2 out"
  by (cases ev) (auto simp: process_mih_event_def process_link_up_def process_link_going_down_def process_link_detected_def waits_def Let_def
      dest: link_down_waits split: if_splits)

lemma scan_conf_waits: "process_scan_conf now g e o1 rs = Inr (e', o2, out) \<Longrightarrow> waits (connectingMac o1) o2 out"
proof -
  assume run: "process_scan_conf now g e o1 rs = Inr (e', o2, out)"
  obtain o' x where "scan_all rs o1 = (o', x)" by fastforce
  with run scan_all_waits [OF this] show ?thesis
    by (auto simp: process_scan_conf_def start_scan_timer_def Let_def waits_def split: if_splits)
qed

lemma reaction_waits: "user_reaction now g c e o1 = Inr (e', o2, out) \<Longrightarrow> waits (connectingMac o1) o2 out"
  by (cases c) (auto simp: user_reaction_def dest: event_waits scan_conf_waits, auto simp: waits_def)

lemma nd_waits: "ho_process_nd_event now e o1 ev = Inr (e', o2, out) \<Longrightarrow> waits (connectingMac o1) o2 out"
  by (cases ev) (auto simp: ho_process_nd_event_def ho_process_new_prefix_def ho_process_exp_prefix_def Let_def waits_def
      dest: on_host_waits link_down_waits split: if_splits)

lemma scan_timer_waits: "scan_timer_expire o1 = Inr (o2, out) \<Longrightarrow> waits (connectingMac o1) o2 out"
  by (auto simp: scan_timer_expire_def timer_handle_def process_scanTimer_def waits_def Let_def split: if_splits timer.splits)

lemma ho_calls_module:
  "ho_calls now xs t = Inr (t', out) \<Longrightarrow> tm_ho t' = tm_ho t \<and> tm_user t' = tm_user t
     \<and> (\<forall>l. HoConfigure l \<in> set xs \<longrightarrow> (\<exists>m. (li_mac l, Some m) \<in> iface_keys (tm_mih t')))"
proof (induction xs arbitrary: t out)
  case (Cons x xs)
  from Cons.prems obtain t1 o1 o2 where 1: "ho_call now x t = Inr (t1, o1)" "ho_calls now xs t1 = Inr (t', o2)" by auto
  have "tm_ho t1 = tm_ho t \<and> tm_user t1 = tm_user t" using 1(1) by (cases x) (auto simp: ho_call_def Let_def)
  moreover have "\<exists>m. (li_mac l, Some m) \<in> iface_keys (tm_mih t')" if x: "x = HoConfigure l" for l
  proof -
    from 1(1) obtain i m where "find_iface (tm_mih t) (li_mac l) = Some i" "mi_mac i = Some m" "t1 = t"
      by (auto simp: x ho_call_def Let_def mih_configure_link_def link_request_def configured_def mih_get_mac_def bit_numeral_rec)
    then have "{(li_mac l, Some m)} \<subseteq> iface_keys (tm_mih t1)" using find_iface_key by force
    from keys.ho_calls_keeps [OF this 1(2)] show ?thesis by blast
  qed
  ultimately show ?case using Cons.IH [OF 1(2)] by auto
qed simp

lemma module_step_waits:
  assumes "own_wait t" and "module_step now f t = Inr (t', out)" and "\<And>e o1 e' o2 out. f e o1 = Inr (e', o2, out) \<Longrightarrow> waits (connectingMac o1) o2 out"
  shows "own_wait t' \<and> tm_user t' = tm_user t"
proof -
  from assms(2) obtain e o1 xs where 1: "f (tm_env t) (ho_module t) = Inr (e, o1, xs)" "ho_calls now xs (t\<lparr>tm_env := e, tm_ho := o1\<rparr>) = Inr (t', out)"
    by (auto simp: module_step_def)
  have w: "waits (connectingMac (tm_ho t)) o1 xs" using assms(3) [OF 1(1)] by (simp add: ho_module_def)
  have t': "tm_ho t' = o1" "tm_user t' = tm_user t" using ho_calls_module [OF 1(2)] by simp_all
  have "own_wait t'"
  proof (cases "connectingMac o1 = connectingMac (tm_ho t) \<and> connectingMac o1 \<noteq> - 1")
    case True
    then obtain m where "{(connectingMac o1, Some m)} \<subseteq> iface_keys (tm_mih (t\<lparr>tm_env := e, tm_ho := o1\<rparr>))" using assms(1) by (auto simp: own_wait_def)
    from keys.ho_calls_keeps [OF this 1(2)] t' show ?thesis by (auto simp: own_wait_def)
  next
    case False
    then show ?thesis using w ho_calls_module [OF 1(2)] by (auto simp: own_wait_def waits_def)
  qed
  with t' show ?thesis by blast
qed


lemma deliver_outs_waits: "own_wait t \<Longrightarrow> deliver_outs now g xs t = Inr (t', out) \<Longrightarrow> own_wait t' \<and> tm_user t' = tm_user t"
proof (induction xs arbitrary: t out)
  case (Cons x xs)
  from Cons.prems(2) obtain t1 o1 o2 where 1: "deliver_outs now g xs t1 = Inr (t', o2)"
    and 2: "t1 = t \<or> (\<exists>c. module_step now (user_reaction now g c) t = Inr (t1, o1))"
    by (cases x) (auto split: if_splits)
  have "own_wait t1 \<and> tm_user t1 = tm_user t" if "module_step now (user_reaction now g c) t = Inr (t1, o1)" for c
    using module_step_waits [OF Cons.prems(1) that] reaction_waits by blast
  with 2 Cons.prems(1) have "own_wait t1 \<and> tm_user t1 = tm_user t" by blast
  with 1 Cons.IH show ?case by force
qed simp

lemma terminal_step_waits: "terminal_step t t' \<Longrightarrow> own_wait t \<Longrightarrow> own_wait t' \<and> tm_user t' = tm_user t"
proof (induction rule: terminal_step.induct)
  case (mih now g i t t' out)
  then obtain ms s xs where s: "mih_step (he_macs (tm_env t), tm_mih t) (now, he_net (tm_env t), i) = Inr ((ms, s), xs)"
    "deliver_outs now g xs (t\<lparr>tm_mih := s, tm_env := (tm_env t)\<lparr>he_macs := ms\<rparr>\<rparr>) = Inr (t', out)"
    unfolding mih_inputs_def by (auto simp del: mih_step.simps)
  have "iface_keys (tm_mih t) \<subseteq> iface_keys s" using keys.step_keeps [OF order_refl s(1)] .
  then have "own_wait (t\<lparr>tm_mih := s, tm_env := (tm_env t)\<lparr>he_macs := ms\<rparr>\<rparr>)" using mih(2) by (auto simp: own_wait_def)
  from deliver_outs_waits [OF this s(2)] show ?case by simp
next
  case (register now t t' out)
  then obtain xs where xs: "ho_calls now xs t = Inr (t', out)" by (auto simp: terminal_register_def)
  have "iface_keys (tm_mih t) \<subseteq> iface_keys (tm_mih t')" using keys.ho_calls_keeps [OF order_refl xs] .
  with register(2) ho_calls_module [OF xs] show ?case by (auto simp: own_wait_def)
next
  case (nd now ev t t' out)
  then show ?case using module_step_waits [of t now _ t' out] nd_waits by (fastforce simp: terminal_nd_def)
next
  case (scan now t t' out)
  then show ?case using module_step_waits [of t now _ t' out] scan_timer_waits by (fastforce simp: terminal_scan_timer_def)
qed

text \<open>
  C20: In every state that a terminal gets into, by messages, link events, timers, scan results, advertisements and expired prefixes in any order: the
  tables of its handover function are well formed, the function keeps its identity and configuration, its interfaces stay, and the
  module waits for the connection of nobody or of one of its own interfaces.
\<close>

theorem terminal_waits_for_own:
  assumes "terminal_reach t t'" and "mih_wf (tm_mih t)" and "own_wait t"
  shows "mih_wf (tm_mih t') \<and> mih_config (tm_mih t') = mih_config (tm_mih t) \<and> iface_keys (tm_mih t) \<subseteq> iface_keys (tm_mih t') \<and> own_wait t'"
proof -
  have "own_wait t'" using assms(1,3) by (induction rule: terminal_reach.induct) (auto dest: terminal_step_waits)
  then show ?thesis using wf.terminal_reach_keeps [OF assms(1,2)] cfg.terminal_reach_keeps [OF assms(1) refl] keys.terminal_reach_keeps [OF assms(1) order_refl] by blast
qed

section \<open>A sample terminal\<close>

definition demo_terminal :: "int \<Rightarrow> terminal" where
  "demo_terminal c = \<lparr>tm_user = 9, tm_mih = demo_mih 3 0x1801 [4, 5], tm_ho = (demo_handover demo_router_host)\<lparr>ho_case := c\<rparr>, tm_env = demo_env\<rparr>"

lemma demo_terminal_fields [simp]:
  "tm_user (demo_terminal c) = 9" "ho_case (tm_ho (demo_terminal c)) = c" "ho_host (tm_ho (demo_terminal c)) = demo_router_host"
  "he_macs (tm_env (demo_terminal c)) = demo_macs" "he_net (tm_env (demo_terminal c)) = demo_faces" "mac_node demo_macs m = m" "mac_type demo_macs m = LINK_802_11"
  "mi_macAddr (new_mac_iface demo_macs m) = word_of_nat m"
  by (simp_all add: demo_terminal_def demo_handover_defs new_mac_iface_def)

lemma demo_terminal_plain: "plain_terminal (demo_terminal c)" "new_mac_iface demo_macs 4 \<in> set (ifaces (tm_mih (demo_terminal c)))"
  by (simp_all add: plain_terminal_def demo_terminal_def demo_mih_defs isLocal_def MAX_INTERFACE_PER_NODE_def)

lemma demo_terminal_fresh: "fresh_iface (he_macs (tm_env (demo_terminal c))) (new_mac_iface demo_macs 4) 4"
  by (simp add: fresh_iface_def) (simp add: demo_macs_def new_mac_iface_def new_link_sap_def)

lemma demo_terminal_registers: "\<exists>t1. terminal_register 0 (demo_terminal c) = Inr (t1, [])"
  using terminal_register_done [of "demo_terminal c" 0] demo_terminal_plain(1) by (auto simp: plain_terminal_def)

lemma demo_terminal_rehomes: "\<exists>h'. host_re_homing 1 demo_faces demo_router_host 4 = Inr (demo_faces, h', [])"
proof -
  obtain s' where "sip_re_homing 1 demo_faces (mipv6_of demo_router_host (h_mip demo_router_host)) (demo_router 2) 4 = Inr (s', [])"
    using re_homing_step [of "demo_router 2" demo_faces 4 3 "demo_mr_ha 0x1801 4 0x2800" 1 "mipv6_of demo_router_host (h_mip demo_router_host)"]
    by (auto simp: demo_mr_ha_def new_SIPEntry_def)
  then show ?thesis by (simp add: host_re_homing_def) (simp add: demo_router_host_def)
qed

theorem detected_link_attaches_witness:
  "\<exists>t1 t2 t3. terminal_register 0 (demo_terminal 1) = Inr (t1, [])
    \<and> link_report 1 0 (send_link_detected (he_macs (tm_env t1)) 4 4 0x55 True) t1 = Inr (t2, [TmMih (MacConnect 4 0x55)]) \<and> connectingMac (tm_ho t2) = 4
    \<and> link_report 2 0 (send_link_up (he_macs (tm_env t2)) 4 4 0x55 0) t2 = Inr (t3, []) \<and> connectingMac (tm_ho t3) = - 1"
proof -
  obtain t1 where t1: "terminal_register 0 (demo_terminal 1) = Inr (t1, [])" using demo_terminal_registers by blast
  show ?thesis
    using detected_link_attaches [OF demo_terminal_plain demo_terminal_fresh t1, where poa = "0x55" and now = 1 and g = 0 and cap = True and oldPoA = 0 and now' = 2] t1
    by (auto simp: Let_def)
qed

theorem terminal_waits_for_own_witness:
  "\<exists>t1. terminal_register 0 (demo_terminal 1) = Inr (t1, []) \<and> mih_wf (tm_mih t1) \<and> own_wait t1"
proof -
  obtain t1 where t1: "terminal_register 0 (demo_terminal 1) = Inr (t1, [])" using demo_terminal_registers by blast
  have "terminal_reach (demo_terminal 1) t1" using terminal_reach.step [OF terminal_reach.start terminal_step.register [OF t1]] .
  moreover have "mih_wf (tm_mih (demo_terminal 1))" by (simp add: demo_terminal_def mih_wf_def demo_mih_defs wf_iface_def)
  moreover have "own_wait (demo_terminal 1)" by (simp add: own_wait_def demo_terminal_def demo_handover_defs)
  ultimately show ?thesis using t1 terminal_waits_for_own by blast
qed

end
