(* ===== verification/Handover_2.thy ===== *)
theory Handover_2
  imports Mih_Handover
begin

text \<open>
  The handover module \<^verbatim>\<open>Handover2\<close> (nist-2/hsntg/802_21/handover-2.cc, handover-2.h), which ranks its interfaces: it moves all
  flows to the best interface that is up, and switches the interface of the wide area network off and on. What it has in common
  with \<^verbatim>\<open>Handover1\<close>, of which its source is a copy, is taken from there: the scan timer and its handler, the pending scans, the
  search of scan results and the subscription. The inherited agents of the host take no part.
\<close>

section \<open>State\<close>

record handover2 =
  h2_ho :: handover1
  redirectMac :: addr
  shutdown_on_ack :: bool

definition new_handover2 :: "handover2 \<Rightarrow> handover2" where
  "new_handover2 h = h\<lparr>h2_ho := (new_handover1 (h2_ho h))\<lparr>ho_case := 3\<rparr>, redirectMac := - 1\<rparr>"

text \<open>\<^verbatim>\<open>mih_operation_mode_t\<close>\<close>

definition NORMAL_MODE :: int where "NORMAL_MODE = 0"

definition POWER_DOWN :: int where "POWER_DOWN = 2"

datatype h2_out =
    H2 ho_out
  | H2Mode link_id int
  | H2CapDisc mac_ref

type_synonym h2_result = "(ho_env \<times> handover2 \<times> h2_out list) res"

definition lift_h2 :: "handover2 \<Rightarrow> ho_result \<Rightarrow> h2_result" where
  "lift_h2 h r = bind_res r (\<lambda>(e, o1, out). Inr (e, h\<lparr>h2_ho := o1\<rparr>, map H2 out))"

section \<open>The ranking of interfaces\<close>

definition better :: "link_type \<Rightarrow> link_type \<Rightarrow> bool" where
  "better t best_type \<longleftrightarrow>
     best_type = LINK_802_11 \<and> t = LINK_ETHERNET
     \<or> best_type = LINK_802_16 \<and> (t = LINK_802_11 \<or> t = LINK_ETHERNET)
     \<or> best_type = LINK_UMTS \<and> (t = LINK_802_16 \<or> t = LINK_802_11 \<or> t = LINK_ETHERNET)"

definition usable :: "addr \<Rightarrow> iface_info \<Rightarrow> bool" where
  "usable lost i \<longleftrightarrow> if_macAddr i \<noteq> lost \<and> if_up i"

text \<open>The first interface that is usable, and the loop that looks for a better one.\<close>

fun best_loop :: "addr \<Rightarrow> iface_info \<Rightarrow> iface_info list \<Rightarrow> iface_info" where
  "best_loop lost b [] = b"
| "best_loop lost b (i # is) = best_loop lost (if usable lost i \<and> better (if_type i) (if_type b) then i else b) is"

definition best_iface :: "addr \<Rightarrow> iface_info list \<Rightarrow> iface_info option" where
  "best_iface lost is = (case dropWhile (\<lambda>i. \<not> usable lost i) is of [] \<Rightarrow> None | i # js \<Rightarrow> Some (best_loop lost i js))"

section \<open>Link events\<close>

text \<open>Is there an interface, in use or about to be, that a new link of type \<open>t\<close> is not preferred to?\<close>

definition in_use :: "handover1 \<Rightarrow> iface_info \<Rightarrow> bool" where
  "in_use o1 i \<longleftrightarrow> if_up i \<or> connectingMac o1 = if_macAddr i"

definition has_better :: "handover1 \<Rightarrow> link_type \<Rightarrow> bool" where
  "has_better o1 t \<longleftrightarrow> (\<exists>i \<in> set (ho_ifaces o1). in_use o1 i \<and> (if_type i = LINK_ETHERNET \<or> if_type i = LINK_802_11 \<and> t \<noteq> LINK_ETHERNET))"

definition h2_link_detected :: "handover2 \<Rightarrow> link_id \<Rightarrow> handover2 \<times> h2_out list" where
  "h2_link_detected h l =
     (if has_better (h2_ho h) (li_type l) then (h, [])
      else if li_type l = LINK_802_11 \<or> li_type l = LINK_802_16
      then (h\<lparr>h2_ho := (h2_ho h)\<lparr>connectingMac := li_mac l\<rparr>\<rparr>, [H2 (HoConfigure l)]) else (h, []))"

definition h2_link_up :: "time \<Rightarrow> ho_env \<Rightarrow> handover2 \<Rightarrow> link_id \<Rightarrow> h2_result" where
  "h2_link_up now e h l = lift_h2 h (process_link_up now e (h2_ho h) l)"

text \<open>The loop that moves every flow that does not use the node \<open>new\<close> to it.\<close>

fun redirect_others :: "node_ref \<Rightarrow> flow_agent \<Rightarrow> flow_ref list \<Rightarrow> world \<Rightarrow> (world \<times> flow_out list) res" where
  "redirect_others new s [] w = Inr (w, [])"
| "redirect_others new s (f # fs) w =
     (if fl_iface (flow_at w f) \<noteq> new then
        let w1 = w\<lparr>ag_target := (ag_target w)(fl_local (flow_at w f) := new)\<rparr>
        in bind_res (send_update_msg w1 s [fl_remote (flow_at w f)] new) (\<lambda>out.
           bind_res (redirect_others new s fs (upd_flow f (fl_iface_update (\<lambda>_. new)) w1)) (\<lambda>(w2, out2). Inr (w2, out @ out2)))
      else redirect_others new s fs w)"

text \<open>\<open>g\<close> is the field \<^verbatim>\<open>macPoA\<close> of the request that switches an interface on, which is left unset.\<close>

definition wake_16 :: "addr \<Rightarrow> iface_info list \<Rightarrow> h2_out list" where
  "wake_16 g is = map (\<lambda>i. H2Mode \<lparr>li_type = if_type i, li_mac = if_macAddr i, li_poa = g\<rparr> NORMAL_MODE)
     (filter (\<lambda>i. if_type i = LINK_802_16 \<and> \<not> if_up i) is)"

definition scan_lost :: "link_id \<Rightarrow> handover2 \<Rightarrow> handover2 \<times> h2_out list" where
  "scan_lost l h =
     (if (li_type l = LINK_802_16 \<or> li_type l = LINK_802_11) \<and> li_mac l \<notin> pending_scan (h2_ho h)
      then (h\<lparr>h2_ho := (h2_ho h)\<lparr>pending_scan := insert (li_mac l) (pending_scan (h2_ho h))\<rparr>\<rparr>, [H2 (HoScan l)]) else (h, []))"

definition h2_link_down :: "addr \<Rightarrow> ho_env \<Rightarrow> handover2 \<Rightarrow> link_id \<Rightarrow> h2_result" where
  "h2_link_down g e h l =
     (if connectingMac (h2_ho h) \<noteq> - 1 then Inr (e, h, [])
      else
        bind_res
          (case best_iface (li_mac l) (ho_ifaces (h2_ho h)) of
             Some i \<Rightarrow>
               need NullPtr (if_mac i) (\<lambda>m.
               bind_res (redirect_others (mac_node (he_macs e) m) (ho_agent (h2_ho h)) (get_flows (ho_agent (h2_ho h))) (he_world e)) (\<lambda>(w, out).
                 Inr (e\<lparr>he_world := w\<rparr>, if out = [] then h else h\<lparr>redirectMac := mac_addr (he_macs e) m\<rparr>, map (H2 \<circ> HoFlow) out)))
           | None \<Rightarrow> Inr (e, h, if li_type l = LINK_802_11 then wake_16 g (ho_ifaces (h2_ho h)) else []))
          (\<lambda>(e1, h1, out). let (h2, out2) = scan_lost l h1 in Inr (e1, h2, out @ out2)))"

definition h2_link_going_down :: "addr \<Rightarrow> ho_env \<Rightarrow> handover2 \<Rightarrow> link_id \<Rightarrow> int \<Rightarrow> h2_result" where
  "h2_link_going_down g e h l confidenceLevel =
     (if real_of_int confidenceLevel > confidence_th (h2_ho h) then h2_link_down g e h l else Inr (e, h, []))"

section \<open>Neighbour discovery\<close>

text \<open>\<open>g'\<close> is the field \<^verbatim>\<open>macPoA\<close> of the event that is made up, which is left unset.\<close>

definition h2_exp_prefix :: "addr \<Rightarrow> addr \<Rightarrow> ho_env \<Rightarrow> handover2 \<Rightarrow> addr \<Rightarrow> node_ref \<Rightarrow> h2_result" where
  "h2_exp_prefix g g' e h pfx i =
     (if node_addr (he_net e) i AND 0xFFFFF800 = pfx
      then let m = node_mac (he_macs e) i
           in h2_link_down g e h \<lparr>li_type = mac_type (he_macs e) m, li_mac = mac_addr (he_macs e) m, li_poa = g'\<rparr>
      else Inr (e, h, []))"

text \<open>
  Do the flows of an interface go to the new one? \<open>config\<close> is what the handover function has of the MAC of the new one, a pointer
  that is read only for three types.
\<close>

definition gives_way :: "iface_info option \<Rightarrow> mac_ref \<Rightarrow> iface_info \<Rightarrow> bool res" where
  "gives_way config m i =
     (if if_type i = LINK_UMTS \<or> if_type i = LINK_802_16 \<or> if_type i = LINK_802_11
      then need NullPtr config (\<lambda>c. Inr (better (if_type c) (if_type i) \<or> if_mac i = Some m))
      else Inr (if_mac i = Some m))"

fun move_flows :: "node_ref \<Rightarrow> node_ref \<Rightarrow> flow_ref list \<Rightarrow> world \<Rightarrow> world \<times> agent_ref list" where
  "move_flows old new [] w = (w, [])"
| "move_flows old new (f # fs) w =
     (if fl_iface (flow_at w f) = old then
        let w1 = upd_flow f (fl_iface_update (\<lambda>_. new)) (w\<lparr>ag_target := (ag_target w)(fl_local (flow_at w f) := new)\<rparr>);
            (w2, rs) = move_flows old new fs w1
        in (w2, fl_remote (flow_at w f) # rs)
      else move_flows old new fs w)"

fun collect_flows :: "macs \<Rightarrow> iface_info option \<Rightarrow> mac_ref \<Rightarrow> node_ref \<Rightarrow> flow_ref list \<Rightarrow> iface_info list \<Rightarrow> world \<Rightarrow> (world \<times> agent_ref list) res" where
  "collect_flows ms config m new fs [] w = Inr (w, [])"
| "collect_flows ms config m new fs (i # is) w =
     bind_res (gives_way config m i) (\<lambda>b.
       if b then
         need NullPtr (if_mac i) (\<lambda>m'.
           let (w1, rs) = move_flows (mac_node ms m') new fs w
           in bind_res (collect_flows ms config m new fs is w1) (\<lambda>(w2, rs2). Inr (w2, rs @ rs2)))
       else collect_flows ms config m new fs is w)"

definition h2_new_prefix :: "ho_env \<Rightarrow> handover2 \<Rightarrow> addr \<Rightarrow> node_ref \<Rightarrow> h2_result" where
  "h2_new_prefix e h pfx i =
     (let o1 = h2_ho h; s = ho_agent o1; ms = he_macs e; m = node_mac ms i
      in bind_res (ho_compute_new_address (he_net e) pfx i) (\<lambda>n1.
           let e1 = put_net n1 e
           in bind_res (collect_flows ms (get_interface o1 (mac_addr ms m)) m i (get_flows s) (ho_ifaces o1) (he_world e1)) (\<lambda>(w, rs).
                if rs = [] then Inr (e1\<lparr>he_world := w\<rparr>, h, [H2CapDisc m])
                else bind_res (send_update_msg w s rs i) (\<lambda>out.
                       Inr (e1\<lparr>he_world := w\<rparr>, h\<lparr>redirectMac := mac_addr ms m\<rparr>, H2CapDisc m # map (H2 \<circ> HoFlow) out)))))"

text \<open>The event for the prefix of a mobile network is not overridden.\<close>

definition h2_process_nd_event :: "addr \<Rightarrow> addr \<Rightarrow> ho_env \<Rightarrow> handover2 \<Rightarrow> nd_event \<Rightarrow> h2_result" where
  "h2_process_nd_event g g' e h ev =
     (case ev of
        ND_NEW_PREFIX pfx i bs \<Rightarrow> h2_new_prefix e h pfx i
      | ND_PREFIX_EXPIRED pfx i \<Rightarrow> h2_exp_prefix g g' e h pfx i
      | ND_MR pfx i bs \<Rightarrow> lift_h2 h (on_host e (h2_ho h) (process_mr (he_net e) (ho_host (h2_ho h)) pfx i)))"

section \<open>Scanning\<close>

text \<open>As \<^const>\<open>redirect_up\<close>, and the address of the MAC that got the last flow is recorded in \<open>a\<close>.\<close>

fun h2_redirect_up :: "macs \<Rightarrow> node_ref \<Rightarrow> iface_info list \<Rightarrow> flow_agent \<Rightarrow> addr \<Rightarrow> world \<Rightarrow> (addr \<times> world \<times> flow_out list) res" where
  "h2_redirect_up ms node [] s a w = Inr (a, w, [])"
| "h2_redirect_up ms node (i # is) s a w =
     (if if_up i \<and> (\<exists>f \<in> set (get_flows s). fl_iface (flow_at w f) = node) then
        need NullPtr (if_mac i) (\<lambda>m.
        bind_res (redirect_first node (mac_node ms m) s w) (\<lambda>(w1, out).
        bind_res (h2_redirect_up ms node is s (mac_addr ms m) w1) (\<lambda>(a2, w2, out2). Inr (a2, w2, out @ out2))))
      else h2_redirect_up ms node is s a w)"

definition h2_scan_conf :: "time \<Rightarrow> addr \<Rightarrow> ho_env \<Rightarrow> handover2 \<Rightarrow> scan_result list \<Rightarrow> h2_result" where
  "h2_scan_conf now g e h rs =
     (let (o2, out) = scan_all rs (h2_ho h)
      in if out \<noteq> [] then Inr (e, h\<lparr>h2_ho := o2\<rparr>, map H2 out)
         else check OutOfRange (rs \<noteq> [])
           (bind_res (get_mac o2 (sr_mac (hd rs))) (\<lambda>r.
            need NullPtr r (\<lambda>m.
              let node = mac_node (he_macs e) m;
                  o3 = (if sr_type (hd rs) = LINK_802_11
                        then start_scan_timer now \<lparr>li_type = LINK_802_11, li_mac = sr_mac (hd rs), li_poa = g\<rparr> o2 else o2)
              in bind_res (h2_redirect_up (he_macs e) node (ho_ifaces o3) (ho_agent o3) (redirectMac h) (he_world e)) (\<lambda>(a, w, out2).
                   Inr (e\<lparr>he_world := w\<rparr>, h\<lparr>h2_ho := o3, redirectMac := a\<rparr>, map (H2 \<circ> HoFlow) out2))))))"

definition h2_scan_timer :: "handover2 \<Rightarrow> (handover2 \<times> h2_out list) res" where
  "h2_scan_timer h = bind_res (scan_timer_expire (h2_ho h)) (\<lambda>(o1, out). Inr (h\<lparr>h2_ho := o1\<rparr>, map H2 out))"

section \<open>Acknowledgements of redirections\<close>

text \<open>The links that \<^verbatim>\<open>mih_get_status\<close> reports, as \<^const>\<open>local_links\<close>; without one of a type its variable is unset.\<close>

definition last_link :: "link_type \<Rightarrow> link_id list \<Rightarrow> link_id option" where
  "last_link t links = fold (\<lambda>l acc. if li_type l = t then Some l else acc) links None"

definition recv_redirect_ack :: "link_id list res \<Rightarrow> handover2 \<Rightarrow> (handover2 \<times> h2_out list) res" where
  "recv_redirect_ack status h =
     bind_res
       (if shutdown_on_ack h then
          bind_res status (\<lambda>links.
          need Uninitialised (last_link LINK_802_11 links) (\<lambda>id11.
            if redirectMac h = li_mac id11 then need Uninitialised (last_link LINK_802_16 links) (\<lambda>id16. Inr [H2Mode id16 POWER_DOWN])
            else Inr []))
        else Inr [])
       (\<lambda>out. Inr (h\<lparr>redirectMac := - 1\<rparr>, out))"

text \<open>The messages about flows that the module receives; the others are those of the agent.\<close>

definition h2_recv :: "link_id list res \<Rightarrow> ho_env \<Rightarrow> handover2 \<Rightarrow> flow_packet \<Rightarrow> h2_result" where
  "h2_recv status e h p =
     (let agent_recv = bind_res (flow_recv (he_world e) (ho_agent (h2_ho h)) p) (\<lambda>(w, s, out).
            Inr (e\<lparr>he_world := w\<rparr>, h\<lparr>h2_ho := (h2_ho h)\<lparr>ho_agent := s\<rparr>\<rparr>, map (H2 \<circ> HoFlow) out))
      in case fp_msg p of
           RRED _ _ ak \<Rightarrow>
             if ptype p = PT_RRED \<and> ak then bind_res (recv_redirect_ack status h) (\<lambda>(h1, out). Inr (e, h1, out)) else agent_recv
         | _ \<Rightarrow> agent_recv)"

section \<open>The module in a terminal\<close>

text \<open>
  The handover function with this module as its user. The fields that the two modules share are those of \<^typ>\<open>terminal\<close>.
\<close>

record terminal2 =
  tm2 :: terminal
  tm2_redirectMac :: addr
  tm2_shutdown :: bool

type_synonym tm2_result = "(terminal2 \<times> tm_out list) res"

definition h2_module :: "terminal2 \<Rightarrow> handover2" where
  "h2_module t = \<lparr>h2_ho = ho_module (tm2 t), redirectMac = tm2_redirectMac t, shutdown_on_ack = tm2_shutdown t\<rparr>"

definition mode_request :: "link_id \<Rightarrow> int \<Rightarrow> mih_configure_req" where
  "mode_request l mode = \<lparr>information = push_bit (config_no CONFIG_OPERATION_MODE) 1, operationMode = mode, config_link = l\<rparr>"

definition h2_call :: "time \<Rightarrow> h2_out \<Rightarrow> terminal \<Rightarrow> tm_result" where
  "h2_call now x t =
     (let s = tm_mih t in
      case x of
        H2 y \<Rightarrow> ho_call now y t
      | H2Mode l mode \<Rightarrow> bind_res (mih_configure_link s (mihfId s) (mode_request l mode)) (\<lambda>out. Inr (t, map TmMih out))
      | H2CapDisc m \<Rightarrow>
          (let (s', out) = send_cap_disc_req now (he_net (tm_env t)) (he_macs (tm_env t)) (Some (tm_user t)) m s
           in Inr (t\<lparr>tm_mih := s'\<rparr>, map TmMih out)))"

fun h2_calls :: "time \<Rightarrow> h2_out list \<Rightarrow> terminal \<Rightarrow> tm_result" where
  "h2_calls now [] t = Inr (t, [])"
| "h2_calls now (x # xs) t =
     bind_res (h2_call now x t) (\<lambda>(t1, out). bind_res (h2_calls now xs t1) (\<lambda>(t2, out2). Inr (t2, out @ out2)))"

definition h2_step :: "time \<Rightarrow> (ho_env \<Rightarrow> handover2 \<Rightarrow> h2_result) \<Rightarrow> terminal2 \<Rightarrow> tm2_result" where
  "h2_step now f t =
     bind_res (f (tm_env (tm2 t)) (h2_module t)) (\<lambda>(e, h, out).
     bind_res (h2_calls now out ((tm2 t)\<lparr>tm_env := e, tm_ho := h2_ho h\<rparr>)) (\<lambda>(t', out').
       Inr (t\<lparr>tm2 := t', tm2_redirectMac := redirectMac h\<rparr>, out')))"

text \<open>What the function tells the module. The confirmations of registration and deregistration only print.\<close>

definition h2_reaction :: "time \<Rightarrow> addr \<Rightarrow> user_call \<Rightarrow> ho_env \<Rightarrow> handover2 \<Rightarrow> h2_result" where
  "h2_reaction now g c e h =
     (case c of
        MihEvent (LinkUp x) \<Rightarrow> h2_link_up now e h (lu_link x)
      | MihEvent (LinkDown x) \<Rightarrow> h2_link_down g e h (ld_link x)
      | MihEvent (LinkGoingDown x) \<Rightarrow> h2_link_going_down g e h (lg_link x) (lg_confidence x)
      | MihEvent (LinkDetected x) \<Rightarrow> (let (h', out) = h2_link_detected h (lt_link x) in Inr (e, h', out))
      | CapDiscConf k \<Rightarrow> Inr (e, h, map H2 (process_cap_disc_conf (sint (mihf_id k))))
      | ScanConf rs \<Rightarrow> h2_scan_conf now g e h (map scan_view rs)
      | _ \<Rightarrow> Inr (e, h, []))"

fun h2_deliver :: "time \<Rightarrow> addr \<Rightarrow> mih_out list \<Rightarrow> terminal2 \<Rightarrow> tm2_result" where
  "h2_deliver now g [] t = Inr (t, [])"
| "h2_deliver now g (x # xs) t =
     bind_res
       (case x of
          ToUser u c \<Rightarrow> if u = tm_user (tm2 t) then h2_step now (h2_reaction now g c) t else Inr (t, [TmMih x])
        | _ \<Rightarrow> Inr (t, [TmMih x]))
       (\<lambda>(t1, out). bind_res (h2_deliver now g xs t1) (\<lambda>(t2, out2). Inr (t2, out @ out2)))"

definition h2_inputs :: "time \<Rightarrow> addr \<Rightarrow> mih_input \<Rightarrow> terminal2 \<Rightarrow> tm2_result" where
  "h2_inputs now g i t =
     (let t1 = tm2 t in
      bind_res (mih_step (he_macs (tm_env t1), tm_mih t1) (now, he_net (tm_env t1), i)) (\<lambda>((ms, s), out).
        h2_deliver now g out (t\<lparr>tm2 := t1\<lparr>tm_mih := s, tm_env := (tm_env t1)\<lparr>he_macs := ms\<rparr>\<rparr>\<rparr>)))"

definition h2_report :: "time \<Rightarrow> addr \<Rightarrow> link_event option \<Rightarrow> terminal2 \<Rightarrow> tm2_result" where
  "h2_report now g r t = (case r of None \<Rightarrow> Inr (t, []) | Some ev \<Rightarrow> h2_inputs now g (InEvent g ev) t)"

definition h2_register :: "time \<Rightarrow> terminal2 \<Rightarrow> tm2_result" where
  "h2_register now t = bind_res (terminal_register now (tm2 t)) (\<lambda>(t', out). Inr (t\<lparr>tm2 := t'\<rparr>, out))"

definition h2_receive :: "time \<Rightarrow> flow_packet \<Rightarrow> terminal2 \<Rightarrow> tm2_result" where
  "h2_receive now p t = h2_step now (\<lambda>e h. h2_recv (local_links (tm_mih (tm2 t))) e h p) t"

definition h2_nd :: "time \<Rightarrow> addr \<Rightarrow> addr \<Rightarrow> nd_event \<Rightarrow> terminal2 \<Rightarrow> tm2_result" where
  "h2_nd now g g' ev = h2_step now (\<lambda>e h. h2_process_nd_event g g' e h ev)"

end
