(* ===== verification/Handover_2_Props.thy ===== *)
theory Handover_2_Props
  imports Handover_2 Mih_Handover_Props Flow_Props
begin

text \<open>
  Properties of the handover module \<^verbatim>\<open>Handover2\<close> in a terminal: which interface takes over when a link is lost, and the handover from the
  wide area network to a wireless LAN, up to the switching off of the former.
\<close>

section \<open>The best interface\<close>

lemma better_trans: "better t u \<Longrightarrow> better u v \<Longrightarrow> better t v"
  by (auto simp: better_def)

lemma better_irrefl: "\<not> better t t"
  by (auto simp: better_def)

lemma best_loop_step: "best_loop lost b is = b \<or> better (if_type (best_loop lost b is)) (if_type b)"
proof (induction "is" arbitrary: b)
  case (Cons i "is")
  from Cons.IH [of i] Cons.IH [of b] show ?case by simp (metis better_trans)
qed simp

lemma best_loop_best:
  assumes "usable lost b"
  shows "usable lost (best_loop lost b is) \<and> best_loop lost b is \<in> insert b (set is)
    \<and> (\<forall>j \<in> insert b (set is). usable lost j \<longrightarrow> \<not> better (if_type j) (if_type (best_loop lost b is)))"
  using assms
proof (induction "is" arbitrary: b)
  case Nil
  then show ?case by (simp add: better_irrefl)
next
  case (Cons i "is")
  show ?case
  proof (cases "usable lost i \<and> better (if_type i) (if_type b)")
    case True
    with Cons.IH [of i] best_loop_step [of lost i "is"] show ?thesis by simp (metis better_trans)
  next
    case False
    then have "best_loop lost b (i # is) = best_loop lost b is" by auto
    with False Cons.IH [OF Cons.prems] best_loop_step [of lost b "is"] show ?thesis by simp (metis better_trans)
  qed
qed

lemma best_iface_best:
  "best_iface lost is = Some i \<Longrightarrow> i \<in> set is \<and> usable lost i \<and> (\<forall>j \<in> set is. usable lost j \<longrightarrow> \<not> better (if_type j) (if_type i))"
  "best_iface lost is = None \<longleftrightarrow> (\<forall>j \<in> set is. \<not> usable lost j)"
proof -
  have "best_iface lost is = None \<longleftrightarrow> dropWhile (\<lambda>i. \<not> usable lost i) is = []"
    by (cases "dropWhile (\<lambda>i. \<not> usable lost i) is") (simp_all only: best_iface_def list.case option.distinct list.distinct simp_thms)
  then show "best_iface lost is = None \<longleftrightarrow> (\<forall>j \<in> set is. \<not> usable lost j)" by (simp only: dropWhile_eq_Nil_conv)
  assume "best_iface lost is = Some i"
  then obtain b js where b: "dropWhile (\<lambda>i. \<not> usable lost i) is = b # js" "i = best_loop lost b js" by (auto simp: best_iface_def split: list.splits)
  then have "is = takeWhile (\<lambda>i. \<not> usable lost i) is @ b # js" by (metis takeWhile_dropWhile_id)
  then have s: "set is = set (takeWhile (\<lambda>i. \<not> usable lost i) is) \<union> insert b (set js)" by (metis set_append list.simps(15))
  have "usable lost b" using hd_dropWhile [of "\<lambda>i. \<not> usable lost i" "is"] b(1) by simp
  from best_loop_best [OF this, of js] b(2) s show "i \<in> set is \<and> usable lost i \<and> (\<forall>j \<in> set is. usable lost j \<longrightarrow> \<not> better (if_type j) (if_type i))"
    by (auto dest: set_takeWhileD)
qed

section \<open>Moving flows\<close>

text \<open>The world when the flows of a set have gone to an interface, before their correspondents know.\<close>

definition moved_to :: "node_ref \<Rightarrow> flow_ref set \<Rightarrow> world \<Rightarrow> world" where
  "moved_to new A w = w\<lparr>flow_at := (\<lambda>f. if f \<in> A then (flow_at w f)\<lparr>fl_iface := new\<rparr> else flow_at w f),
     ag_target := (\<lambda>a. if a \<in> fl_local ` flow_at w ` A then new else ag_target w a)\<rparr>"

lemma moved_empty [simp]: "moved_to new {} w = w"
  by (simp add: moved_to_def)

lemma moved_one: "upd_flow f (fl_iface_update (\<lambda>_. new)) (w\<lparr>ag_target := (ag_target w)(fl_local (flow_at w f) := new)\<rparr>) = moved_to new {f} w"
  by (auto simp: moved_to_def upd_flow_def fun_eq_iff)

lemma moved_at [simp]:
  "flow_at (moved_to new A w) f = (if f \<in> A then (flow_at w f)\<lparr>fl_iface := new\<rparr> else flow_at w f)"
  "iface_addr (moved_to new A w) = iface_addr w" "ag_addr (moved_to new A w) = ag_addr w" "ag_dst_addr (moved_to new A w) = ag_dst_addr w"
  "ag_target (moved_to new A w) a = (if a \<in> fl_local ` flow_at w ` A then new else ag_target w a)"
  by (simp_all add: moved_to_def)

lemma moved_moved: "moved_to new A (moved_to new B w) = moved_to new (A \<union> B) w"
proof (rule world.equality)
  have "fl_local (flow_at (moved_to new B w) f) = fl_local (flow_at w f)" for f by simp
  then have "fl_local ` flow_at (moved_to new B w) ` A = fl_local ` flow_at w ` A" by (simp only: image_image)
  then show "ag_target (moved_to new A (moved_to new B w)) = ag_target (moved_to new (A \<union> B) w)" by (simp add: fun_eq_iff image_Un del: moved_at(1))
  show "flow_at (moved_to new A (moved_to new B w)) = flow_at (moved_to new (A \<union> B) w)" by (simp add: fun_eq_iff)
qed (simp_all add: moved_to_def)

lemma redirect_others_moves:
  "distinct fs \<Longrightarrow> redirect_others new s fs w = Inr (moved_to new {f \<in> set fs. fl_iface (flow_at w f) \<noteq> new} w, map (rred_to w s new) (filter (\<lambda>f. fl_iface (flow_at w f) \<noteq> new) fs))"
proof (induction fs arbitrary: w)
  case (Cons f fs)
  show ?case
  proof (cases "fl_iface (flow_at w f) = new")
    case True
    then have "{g \<in> set (f # fs). fl_iface (flow_at w g) \<noteq> new} = {g \<in> set fs. fl_iface (flow_at w g) \<noteq> new}" by auto
    with True Cons show ?thesis by simp
  next
    case False
    let ?w = "moved_to new {f} w"
    have "{g \<in> set fs. fl_iface (flow_at ?w g) \<noteq> new} \<union> {f} = {g \<in> set (f # fs). fl_iface (flow_at w g) \<noteq> new}"
      "filter (\<lambda>g. fl_iface (flow_at ?w g) \<noteq> new) fs = filter (\<lambda>g. fl_iface (flow_at w g) \<noteq> new) fs"
      using False Cons.prems by (auto intro: filter_cong)
    moreover have "rred_to ?w s new = rred_to w s new" by (auto simp: rred_to_def fun_eq_iff)
    moreover have "send_update_msg (w\<lparr>ag_target := x\<rparr>) s [fl_remote (flow_at w f)] new = Inr [rred_to w s new f]" for x
      by (simp add: send_update_msg_def rred_to_def)
    ultimately show ?thesis using False Cons.IH [of ?w] Cons.prems by (simp add: Let_def moved_one moved_moved)
  qed
qed simp

lemma redirected_flows_move:
  assumes "set L = A"
  shows "\<exists>w' acks. deliver c (moved_to new A w) (map (rred_to w s new) L) = Inr (w', acks) \<and> length acks = length L \<and> flows_moved w w' L new"
proof -
  obtain w' acks where d: "deliver c (moved_to new A w) (map (rred_to w s new) L) = Inr (w', acks)" "length acks = length L"
    "flow_at w' = flow_at (moved_to new A w)" "ag_target w' = ag_target (moved_to new A w)"
    "ag_dst_addr w' = (\<lambda>a. if a \<in> fl_remote ` flow_at w ` set L then iface_addr w new else ag_dst_addr (moved_to new A w) a)"
    using deliver_redirects [of c "moved_to new A w" w s new L] by blast
  have "flows_moved w w' L new" using assms by (auto simp: flows_moved_def d(3-5))
  with d(1,2) show ?thesis by blast
qed

lemma move_flows_moves:
  "distinct fs \<Longrightarrow> move_flows old new fs w
    = (moved_to new {f \<in> set fs. fl_iface (flow_at w f) = old} w, map (\<lambda>f. fl_remote (flow_at w f)) (filter (\<lambda>f. fl_iface (flow_at w f) = old) fs))"
proof (induction fs arbitrary: w)
  case (Cons f fs)
  show ?case
  proof (cases "fl_iface (flow_at w f) = old")
    case False
    then have "{g \<in> set (f # fs). fl_iface (flow_at w g) = old} = {g \<in> set fs. fl_iface (flow_at w g) = old}" by auto
    with False Cons show ?thesis by simp
  next
    case True
    let ?w = "moved_to new {f} w"
    have "{g \<in> set fs. fl_iface (flow_at ?w g) = old} \<union> {f} = {g \<in> set (f # fs). fl_iface (flow_at w g) = old}"
      "filter (\<lambda>g. fl_iface (flow_at ?w g) = old) fs = filter (\<lambda>g. fl_iface (flow_at w g) = old) fs"
      using True Cons.prems by (auto intro: filter_cong)
    moreover have "fl_remote (flow_at ?w g) = fl_remote (flow_at w g)" for g by simp
    ultimately show ?thesis using True Cons.IH [of ?w] Cons.prems by (simp add: Let_def moved_one moved_moved)
  qed
qed simp

text \<open>The nodes whose flows go to a new interface.\<close>

definition yielding :: "macs \<Rightarrow> iface_info option \<Rightarrow> mac_ref \<Rightarrow> iface_info list \<Rightarrow> node_ref set" where
  "yielding ms config m is = {mac_node ms m' | i m'. i \<in> set is \<and> gives_way config m i = Inr True \<and> if_mac i = Some m'}"

lemma collect_flows_moves:
  assumes "distinct fs" and "\<forall>i \<in> set is. if_mac i \<noteq> None" and "config \<noteq> None"
  shows "\<exists>rs. collect_flows ms config m new fs is w = Inr (moved_to new {f \<in> set fs. fl_iface (flow_at w f) \<in> yielding ms config m is} w, rs)
    \<and> set rs = (\<lambda>f. fl_remote (flow_at w f)) ` {f \<in> set fs. fl_iface (flow_at w f) \<in> yielding ms config m is}"
  using assms(2)
proof (induction "is" arbitrary: w)
  case Nil
  then show ?case by (simp add: yielding_def)
next
  case (Cons i "is")
  have "\<exists>b. gives_way config m i = Inr b" using assms(3) by (cases config) (auto simp: gives_way_def split: if_split)
  then obtain b where b: "gives_way config m i = Inr b" ..
  obtain k where k: "if_mac i = Some k" using Cons.prems by auto
  have y: "yielding ms config m (i # is) = (if b then {mac_node ms k} else {}) \<union> yielding ms config m is" using b k unfolding yielding_def by (cases b) auto
  let ?A = "{f \<in> set fs. fl_iface (flow_at w f) = mac_node ms k}" and ?B = "\<lambda>w. {f \<in> set fs. fl_iface (flow_at w f) \<in> yielding ms config m is}"
  show ?case
  proof (cases b)
    case True
    let ?w = "moved_to new ?A w"
    from Cons.IH [of ?w] Cons.prems obtain rs where rs: "collect_flows ms config m new fs is ?w = Inr (moved_to new (?B ?w) ?w, rs)" "set rs = (\<lambda>f. fl_remote (flow_at ?w f)) ` ?B ?w" by auto
    have u: "?B ?w \<union> ?A = {f \<in> set fs. fl_iface (flow_at w f) \<in> yielding ms config m (i # is)}" using True by (auto simp: y split: if_splits)
    have "(\<lambda>f. fl_remote (flow_at ?w f)) = (\<lambda>f. fl_remote (flow_at w f))" by (simp add: fun_eq_iff)
    then have "set rs = (\<lambda>f. fl_remote (flow_at w f)) ` ?B ?w" using rs(2) by (simp only:)
    then have "set (map (\<lambda>f. fl_remote (flow_at w f)) (filter (\<lambda>f. fl_iface (flow_at w f) = mac_node ms k) fs) @ rs)
        = (\<lambda>f. fl_remote (flow_at w f)) ` (?B ?w \<union> ?A)" by auto
    with rs(1) b k True show ?thesis unfolding u by (simp add: move_flows_moves [OF assms(1)] moved_moved u del: moved_at)
  next
    case False
    with Cons.IH [of w] Cons.prems b show ?thesis by (simp add: y)
  qed
qed

section \<open>The requests of the module\<close>

lemma h2_calls_append:
  "h2_calls now (xs @ ys) t = bind_res (h2_calls now xs t) (\<lambda>(t1, o1). bind_res (h2_calls now ys t1) (\<lambda>(t2, o2). Inr (t2, o1 @ o2)))"
proof (induction xs arbitrary: t)
  case Nil
  then show ?case by (cases "h2_calls now ys t") auto
next
  case (Cons x xs)
  show ?case
  proof (cases "h2_call now x t")
    case (Inr p)
    obtain t1 o1 where "p = (t1, o1)" by fastforce
    with Inr Cons.IH [of t1] show ?thesis
      by (cases "h2_calls now xs t1"; cases "h2_calls now ys (fst (projr (h2_calls now xs t1)))") auto
  qed simp
qed

lemma h2_calls_flows: "h2_calls now (map (H2 \<circ> HoFlow) out) t = Inr (t, map (TmHost \<circ> HoFlow) out)"
  by (induction out) (simp_all add: h2_call_def ho_call_def Let_def)

lemma mode_call:
  assumes "find_iface (tm_mih t) (li_mac l) = Some i" and "mi_mac i = Some m"
  shows "h2_call now (H2Mode l mode) t = Inr (t, [TmMih (MacSetMode m mode)])"
  using assms by (simp add: h2_call_def Let_def mih_configure_link_def mode_request_def configured_def mih_get_mac_def)

lemma h2_calls_modes:
  assumes "\<forall>j \<in> set js. find_iface (tm_mih t) (mi_macAddr j) = Some j \<and> isLocal j"
  shows "h2_calls now (map (\<lambda>j. H2Mode \<lparr>li_type = mi_type j, li_mac = mi_macAddr j, li_poa = g\<rparr> mode) js) t
    = Inr (t, map (\<lambda>j. TmMih (MacSetMode (the (mi_mac j)) mode)) js)"
  using assms
proof (induction js)
  case (Cons j js)
  then obtain m where "mi_mac j = Some m" by (auto simp: isLocal_def)
  with Cons mode_call [of t "\<lparr>li_type = mi_type j, li_mac = mi_macAddr j, li_poa = g\<rparr>" j m] show ?case by simp
qed simp

lemma h2_calls_scan:
  assumes "find_iface (tm_mih t) (li_mac l) = Some i" and "mi_mac i = Some m" and "li_type l \<in> {LINK_802_11, LINK_802_16}"
  shows "\<exists>cs. h2_calls now [H2 (HoScan l)] t = Inr (t\<lparr>tm_mih := (tm_mih t)\<lparr>scan_reqs := cs\<rparr>\<rparr>, [TmMih (MacScan m)])"
proof -
  have "local_end (tm_mih t) l = li_mac l" using assms(1,2) by (simp add: local_end_def is_local_mac_def isLocal_def)
  then have "scan_links (tm_mih t) [l] = Inr [MacScan m]" using assms by (auto simp: link_scan_def mih_get_mac_def)
  then show ?thesis by (simp add: h2_call_def ho_call_def Let_def mih_scan_def new_local_scan_def) (rule exI, rule refl)
qed

section \<open>The loss of a link\<close>

lemma best_iface_filter: "best_iface lost (filter (usable lost) is) = best_iface lost is"
proof -
  have loop: "best_loop lost b (filter (usable lost) js) = best_loop lost b js" for b js by (induction js arbitrary: b) auto
  show ?thesis by (induction "is") (auto simp: best_iface_def loop)
qed

text \<open>The status of the lost interface does not matter.\<close>

lemma best_iface_status:
  "best_iface a (map iface_view (ifaces (upd_iface a (setStatus st) s))) = best_iface a (map iface_view (ifaces s))"
proof -
  have "filter (usable a) (map iface_view (upd_first (\<lambda>i. mi_macAddr i = a) (setStatus st) xs)) = filter (usable a) (map iface_view xs)" for xs
    by (induction xs) (simp_all add: usable_def iface_view_def)
  from this [of "ifaces s"] show ?thesis
    using best_iface_filter [of a "map iface_view (ifaces s)"] best_iface_filter [of a "map iface_view (ifaces (upd_iface a (setStatus st) s))"]
    by (simp add: upd_iface_def)
qed

text \<open>The module is the only one that is told of an event of an interface, and the MAC of the interface reports it.\<close>

definition watches :: "terminal \<Rightarrow> mih_iface \<Rightarrow> mac_ref \<Rightarrow> mih_event_t \<Rightarrow> bool" where
  "watches t i m ev \<longleftrightarrow> find_iface (tm_mih t) (mi_macAddr i) = Some i \<and> mi_mac i = Some m \<and> getRegisteredLocalUser ev i = [tm_user t]
     \<and> getRegisteredRemoteUser ev i = [] \<and> event_subscribed (he_macs (tm_env t)) m ev"

lemma report_reaches_module:
  fixes oldAR :: addr
  assumes "watches (tm2 t) i m MIH_LINK_DOWN" and "a = mi_macAddr i"
  defines "l \<equiv> sap_link (he_macs (tm_env (tm2 t))) m a oldAR"
  shows "h2_report now g (send_link_down (he_macs (tm_env (tm2 t))) m a oldAR reason) t
    = h2_step now (\<lambda>e h. h2_link_down g e h l) (t\<lparr>tm2 := (tm2 t)\<lparr>tm_mih := upd_iface a (setStatus LINK_STATUS_DOWN) (tm_mih (tm2 t))\<rparr>\<rparr>)"
proof -
  let ?e = "\<lparr>ld_link = l, ld_oldAR = oldAR, ld_reason = reason\<rparr>" and ?s = "tm_mih (tm2 t)"
  have "local_end ?s l = a" using assms(1,2) by (simp add: l_def watches_def local_end_def sap_link_def is_local_mac_def isLocal_def)
  then have "recv_event now g n ms (LinkDown ?e) ?s
      = Inr (upd_iface a (setStatus LINK_STATUS_DOWN) ?s, [ToUser (tm_user (tm2 t)) (MihEvent (LinkDown ?e))])" for n ms
    using handle_event_quiet [of ?s l i MIH_LINK_DOWN] assms(1,2) by (simp add: watches_def recv_event_def mih_process_link_down_def)
  moreover have "send_link_down (he_macs (tm_env (tm2 t))) m a oldAR reason = Some (LinkDown ?e)"
    using assms(1) by (simp add: watches_def send_link_down_def report_def l_def)
  ultimately show ?thesis
    by (simp add: h2_report_def h2_inputs_def keep_macs_def h2_reaction_def [abs_def] Let_def)
qed

text \<open>What the module makes of the event, and what the handover function makes of that.\<close>

lemma module_link_down:
  assumes "connectingMac (h2_ho h) = - 1" and "distinct (fList (ho_agent (h2_ho h)))" and "\<forall>j \<in> set (ho_ifaces (h2_ho h)). if_mac j \<noteq> None"
    and "li_type l \<in> {LINK_802_11, LINK_802_16}" and "li_mac l \<notin> pending_scan (h2_ho h)"
  defines "o' \<equiv> (h2_ho h)\<lparr>pending_scan := insert (li_mac l) (pending_scan (h2_ho h))\<rparr>"
  shows "best_iface (li_mac l) (ho_ifaces (h2_ho h)) = None \<Longrightarrow>
      h2_link_down g e h l = Inr (e, h\<lparr>h2_ho := o'\<rparr>, (if li_type l = LINK_802_11 then wake_16 g (ho_ifaces (h2_ho h)) else []) @ [H2 (HoScan l)])"
    and "best_iface (li_mac l) (ho_ifaces (h2_ho h)) = Some b \<Longrightarrow> if_mac b = Some k \<Longrightarrow>
      h2_link_down g e h l =
        (let new = mac_node (he_macs e) k; L = filter (\<lambda>f. fl_iface (flow_at (he_world e) f) \<noteq> new) (fList (ho_agent (h2_ho h)))
         in Inr (e\<lparr>he_world := moved_to new (set L) (he_world e)\<rparr>, h\<lparr>h2_ho := o', redirectMac := (if L = [] then redirectMac h else mac_addr (he_macs e) k)\<rparr>,
           map (H2 \<circ> HoFlow) (map (rred_to (he_world e) (ho_agent (h2_ho h)) new) L) @ [H2 (HoScan l)]))"
proof -
  have scan: "scan_lost l h' = (h'\<lparr>h2_ho := (h2_ho h')\<lparr>pending_scan := insert (li_mac l) (pending_scan (h2_ho h'))\<rparr>\<rparr>, [H2 (HoScan l)])" if "pending_scan (h2_ho h') = pending_scan (h2_ho h)" for h'
    using assms(4,5) that by (auto simp: scan_lost_def)
  show "best_iface (li_mac l) (ho_ifaces (h2_ho h)) = None \<Longrightarrow>
      h2_link_down g e h l = Inr (e, h\<lparr>h2_ho := o'\<rparr>, (if li_type l = LINK_802_11 then wake_16 g (ho_ifaces (h2_ho h)) else []) @ [H2 (HoScan l)])"
    using assms(1) by (simp add: h2_link_down_def scan o'_def)
  assume b: "best_iface (li_mac l) (ho_ifaces (h2_ho h)) = Some b" "if_mac b = Some k"
  have "{f \<in> set (fList (ho_agent (h2_ho h))). fl_iface (flow_at (he_world e) f) \<noteq> new} = set (filter (\<lambda>f. fl_iface (flow_at (he_world e) f) \<noteq> new) (fList (ho_agent (h2_ho h))))" for new
    by simp
  with b assms(1,2) show "h2_link_down g e h l =
        (let new = mac_node (he_macs e) k; L = filter (\<lambda>f. fl_iface (flow_at (he_world e) f) \<noteq> new) (fList (ho_agent (h2_ho h)))
         in Inr (e\<lparr>he_world := moved_to new (set L) (he_world e)\<rparr>, h\<lparr>h2_ho := o', redirectMac := (if L = [] then redirectMac h else mac_addr (he_macs e) k)\<rparr>,
           map (H2 \<circ> HoFlow) (map (rred_to (he_world e) (ho_agent (h2_ho h)) new) L) @ [H2 (HoScan l)]))"
    by (simp add: h2_link_down_def get_flows_def redirect_others_moves Let_def scan o'_def)
qed

lemma step_of_module:
  assumes "f (tm_env (tm2 t)) (h2_module t) = Inr (e, h, xs @ [H2 (HoScan l)])" and "h2_calls now xs ((tm2 t)\<lparr>tm_env := e, tm_ho := h2_ho h\<rparr>) = Inr ((tm2 t)\<lparr>tm_env := e, tm_ho := h2_ho h\<rparr>, out)"
    and "find_iface (tm_mih (tm2 t)) (li_mac l) = Some i" and "mi_mac i = Some m" and "li_type l \<in> {LINK_802_11, LINK_802_16}"
  shows "\<exists>t'. h2_step now f t = Inr (t', out @ [TmMih (MacScan m)]) \<and> tm_env (tm2 t') = e \<and> tm2_redirectMac t' = redirectMac h
    \<and> ifaces (tm_mih (tm2 t')) = ifaces (tm_mih (tm2 t)) \<and> tm_ho (tm2 t') = h2_ho h"
proof -
  let ?t = "(tm2 t)\<lparr>tm_env := e, tm_ho := h2_ho h\<rparr>"
  obtain cs where "h2_calls now [H2 (HoScan l)] ?t = Inr (?t\<lparr>tm_mih := (tm_mih ?t)\<lparr>scan_reqs := cs\<rparr>\<rparr>, [TmMih (MacScan m)])"
    using h2_calls_scan [of ?t l i m now] assms(3-5) by auto
  with assms(1,2) show ?thesis by (simp add: h2_step_def h2_calls_append del: h2_calls.simps)
qed

lemma wake_16_view:
  "wake_16 g (map iface_view xs) = map (\<lambda>j. H2Mode \<lparr>li_type = mi_type j, li_mac = mi_macAddr j, li_poa = g\<rparr> NORMAL_MODE)
    (filter (\<lambda>j. mi_type j = LINK_802_16 \<and> mi_status j \<noteq> LINK_STATUS_UP) xs)"
  by (induction xs) (simp_all add: wake_16_def iface_view_def)

lemma usable_view: "usable a (iface_view j) \<longleftrightarrow> mi_macAddr j \<noteq> a \<and> mi_status j = LINK_STATUS_UP"
  by (simp add: usable_def iface_view_def)

lemma sleeping_16:
  assumes "distinct (map mi_macAddr xs)" and "i \<in> set xs" and "mi_type i \<noteq> LINK_802_16" and "filter (\<lambda>j. mi_macAddr j \<noteq> mi_macAddr i \<and> mi_status j = LINK_STATUS_UP) xs = []"
  shows "filter (\<lambda>j. mi_type j = LINK_802_16 \<and> mi_status j \<noteq> LINK_STATUS_UP) (upd_first (\<lambda>j. mi_macAddr j = mi_macAddr i) (setStatus LINK_STATUS_DOWN) xs)
    = filter (\<lambda>j. mi_type j = LINK_802_16) xs"
proof -
  have eq: "mi_macAddr j = mi_macAddr i \<Longrightarrow> j \<in> set xs \<Longrightarrow> j = i" for j using assms(1,2) by (auto simp: distinct_map inj_on_def)
  have "filter (\<lambda>j. mi_type j = LINK_802_16 \<and> mi_status j \<noteq> LINK_STATUS_UP) (map (\<lambda>j. if mi_macAddr j = mi_macAddr i then setStatus LINK_STATUS_DOWN j else j) ys)
      = filter (\<lambda>j. mi_type j = LINK_802_16) ys" if "set ys \<subseteq> set xs" for ys
    using that eq assms(3,4) by (induction ys) (auto simp: setStatus_def filter_empty_conv)
  then show ?thesis by (simp add: upd_first_map [OF assms(1)])
qed

lemma status_others:
  assumes "distinct (map mi_macAddr (ifaces s))" and "j \<in> set (ifaces s)" and "mi_macAddr j \<noteq> a"
  shows "find_iface (upd_iface a (setStatus st) s) (mi_macAddr j) = Some j"
proof -
  let ?s = "upd_iface a (setStatus st) s"
  have m: "ifaces ?s = map (\<lambda>i. if mi_macAddr i = a then setStatus st i else i) (ifaces s)"
    using upd_first_map [OF assms(1)] by (simp add: upd_iface_def)
  have "map mi_macAddr (ifaces ?s) = map mi_macAddr (ifaces s)" unfolding m by (simp add: comp_def)
  moreover have "j \<in> set (ifaces ?s)" using assms(2,3) unfolding m by (auto simp: image_iff)
  ultimately show ?thesis using assms(1) find_iface_mem [of ?s j] by metis
qed

lemma wake_calls:
  assumes "distinct (map mi_macAddr (ifaces s))" and "\<forall>j \<in> set (ifaces s). isLocal j" and "i \<in> set (ifaces s)" and "\<forall>j \<in> set (ifaces s). \<not> usable (mi_macAddr i) (iface_view j)"
    and "tm_mih t = upd_iface (mi_macAddr i) (setStatus LINK_STATUS_DOWN) s"
  shows "h2_calls now (if mi_type i = LINK_802_11 then wake_16 g (map iface_view (ifaces (tm_mih t))) else []) t
    = Inr (t, if mi_type i = LINK_802_11 then map (\<lambda>j. TmMih (MacSetMode (the (mi_mac j)) NORMAL_MODE)) (filter (\<lambda>j. mi_type j = LINK_802_16) (ifaces s)) else [])"
proof (cases "mi_type i = LINK_802_11")
  case True
  let ?js = "filter (\<lambda>j. mi_type j = LINK_802_16) (ifaces s)"
  have eq: "mi_macAddr j = mi_macAddr i \<Longrightarrow> j \<in> set (ifaces s) \<Longrightarrow> j = i" for j using assms(1,3) by (auto simp: distinct_map inj_on_def)
  have "filter (\<lambda>j. mi_type j = LINK_802_16 \<and> mi_status j \<noteq> LINK_STATUS_UP) (ifaces (tm_mih t)) = ?js"
    using sleeping_16 [OF assms(1,3)] True assms(4,5) by (simp add: usable_view upd_iface_def filter_empty_conv)
  moreover have "\<forall>j \<in> set ?js. find_iface (tm_mih t) (mi_macAddr j) = Some j \<and> isLocal j"
    using status_others [OF assms(1)] eq assms(2,5) True by fastforce
  ultimately show ?thesis using True h2_calls_modes [of ?js t now g NORMAL_MODE] by (simp add: wake_16_view)
qed simp

text \<open>A terminal that is attached by a wireless link, sets up no other connection and does not scan that link.\<close>

definition settled :: "terminal2 \<Rightarrow> mih_iface \<Rightarrow> mac_ref \<Rightarrow> bool" where
  "settled t i m \<longleftrightarrow> (\<forall>j \<in> set (ifaces (tm_mih (tm2 t))). isLocal j) \<and> distinct (map mi_macAddr (ifaces (tm_mih (tm2 t))))
     \<and> mi_type i = mac_type (he_macs (tm_env (tm2 t))) m \<and> mi_type i \<in> {LINK_802_11, LINK_802_16}
     \<and> connectingMac (tm_ho (tm2 t)) = - 1 \<and> mi_macAddr i \<notin> pending_scan (tm_ho (tm2 t)) \<and> distinct (fList (ho_agent (tm_ho (tm2 t))))"

lemma lost_link_report:
  fixes oldAR :: addr and reason :: int and t :: terminal2 and m :: mac_ref and i :: mih_iface
  defines "s \<equiv> tm_mih (tm2 t)" and "ms \<equiv> he_macs (tm_env (tm2 t))" and "w \<equiv> he_world (tm_env (tm2 t))" and "ag \<equiv> ho_agent (tm_ho (tm2 t))"
    and "r \<equiv> send_link_down (he_macs (tm_env (tm2 t))) m (mi_macAddr i) oldAR reason"
  assumes "watches (tm2 t) i m MIH_LINK_DOWN" and "settled t i m"
  shows "\<forall>j \<in> set (ifaces s). \<not> usable (mi_macAddr i) (iface_view j) \<Longrightarrow>
      \<exists>t'. h2_report now g r t = Inr (t', (if mi_type i = LINK_802_11 then map (\<lambda>j. TmMih (MacSetMode (the (mi_mac j)) NORMAL_MODE))
          (filter (\<lambda>j. mi_type j = LINK_802_16) (ifaces s)) else []) @ [TmMih (MacScan m)]) \<and> he_world (tm_env (tm2 t')) = w
        \<and> ifaces (tm_mih (tm2 t')) = ifaces (upd_iface (mi_macAddr i) (setStatus LINK_STATUS_DOWN) s)" (is "_ \<Longrightarrow> ?none")
    and "best_iface (mi_macAddr i) (map iface_view (ifaces s)) = Some b \<Longrightarrow> if_mac b = Some k \<Longrightarrow>
      let L = filter (\<lambda>f. fl_iface (flow_at w f) \<noteq> mac_node ms k) (fList ag) in
      \<exists>t'. h2_report now g r t = Inr (t', map (TmHost \<circ> HoFlow) (map (rred_to w ag (mac_node ms k)) L) @ [TmMih (MacScan m)])
        \<and> he_world (tm_env (tm2 t')) = moved_to (mac_node ms k) (set L) w \<and> (L \<noteq> [] \<longrightarrow> tm2_redirectMac t' = mac_addr ms k)
        \<and> ifaces (tm_mih (tm2 t')) = ifaces (upd_iface (mi_macAddr i) (setStatus LINK_STATUS_DOWN) s)" (is "_ \<Longrightarrow> _ \<Longrightarrow> ?some")
proof -
  let ?a = "mi_macAddr i" and ?l = "sap_link ms m (mi_macAddr i) oldAR"
  let ?s = "upd_iface ?a (setStatus LINK_STATUS_DOWN) s" and ?t = "t\<lparr>tm2 := (tm2 t)\<lparr>tm_mih := upd_iface (mi_macAddr i) (setStatus LINK_STATUS_DOWN) s\<rparr>\<rparr>"
  let ?f = "\<lambda>e h. h2_link_down g e h ?l" and ?h = "h2_module ?t"
  have env: "tm_env (tm2 ?t) = tm_env (tm2 t)" by simp
  have d: "distinct (map mi_macAddr (ifaces s))" "\<forall>j \<in> set (ifaces s). isLocal j" and ty: "mi_type i = mac_type ms m"
    using assms(7) by (simp_all add: settled_def s_def ms_def)
  have r: "h2_report now g r t = h2_step now ?f ?t" using report_reaches_module [OF assms(6) refl] by (simp add: r_def s_def ms_def)
  have i: "find_iface s ?a = Some i" "mi_mac i = Some m" "i \<in> set (ifaces s)" using assms(6) by (auto simp: watches_def s_def find_iface_def find_Some_iff)
  then have i': "find_iface (tm_mih (tm2 ?t)) (li_mac ?l) = Some (setStatus LINK_STATUS_DOWN i)" "mi_mac (setStatus LINK_STATUS_DOWN i) = Some m"
    by (simp_all add: find_iface_status sap_link_def)
  have l: "li_mac ?l = ?a" "li_type ?l = mi_type i" using ty by (simp_all add: sap_link_def)
  have ifs: "ho_ifaces (h2_ho ?h) = map iface_view (ifaces ?s)" "ho_agent (h2_ho ?h) = ag" by (simp_all add: h2_module_def ho_module_def ag_def)
  have best: "best_iface ?a (ho_ifaces (h2_ho ?h)) = best_iface ?a (map iface_view (ifaces s))" using best_iface_status by (simp add: ifs)
  have h: "connectingMac (h2_ho ?h) = - 1" "distinct (fList ag)" "\<forall>j \<in> set (ho_ifaces (h2_ho ?h)). if_mac j \<noteq> None" "li_type ?l \<in> {LINK_802_11, LINK_802_16}" "?a \<notin> pending_scan (h2_ho ?h)"
    using assms(7) d(2) l by (auto simp: settled_def ag_def h2_module_def ho_module_def s_def upd_iface_def upd_first_map [OF d(1) [unfolded s_def]] iface_view_def isLocal_def)
  note down = module_link_down [where h = ?h and l = ?l and e = "tm_env (tm2 t)" and g = g, unfolded l(1) best ifs(2), OF h]
  { assume none: "\<forall>j \<in> set (ifaces s). \<not> usable ?a (iface_view j)"
    then have "best_iface ?a (map iface_view (ifaces s)) = None" by (simp add: best_iface_best(2))
    note dn = down(1) [OF this]
    have "?f (tm_env (tm2 ?t)) ?h = Inr (tm_env (tm2 t), ?h\<lparr>h2_ho := (h2_ho ?h)\<lparr>pending_scan := insert ?a (pending_scan (h2_ho ?h))\<rparr>\<rparr>,
        (if li_type ?l = LINK_802_11 then wake_16 g (map iface_view (ifaces ?s)) else []) @ [H2 (HoScan ?l)])" using dn by (simp add: ifs)
    note st = step_of_module [where f = ?f and t = ?t, OF this _ i' h(4)]
    have "h2_calls now (if li_type ?l = LINK_802_11 then wake_16 g (map iface_view (ifaces ?s)) else []) t1
        = Inr (t1, if mi_type i = LINK_802_11 then map (\<lambda>j. TmMih (MacSetMode (the (mi_mac j)) NORMAL_MODE)) (filter (\<lambda>j. mi_type j = LINK_802_16) (ifaces s)) else [])"
      if "tm_mih t1 = ?s" for t1 using wake_calls [OF d(1,2) i(3) none that, of now g] unfolding that l .
    from st [OF this] show ?none unfolding r w_def by auto }
  { assume b: "best_iface ?a (map iface_view (ifaces s)) = Some b" "if_mac b = Some k"
    from down(2) [OF b] have "?f (tm_env (tm2 ?t)) ?h = (let new = mac_node ms k; L = filter (\<lambda>f. fl_iface (flow_at w f) \<noteq> new) (fList ag)
         in Inr ((tm_env (tm2 t))\<lparr>he_world := moved_to new (set L) w\<rparr>, ?h\<lparr>h2_ho := (h2_ho ?h)\<lparr>pending_scan := insert ?a (pending_scan (h2_ho ?h))\<rparr>,
            redirectMac := (if L = [] then redirectMac ?h else mac_addr ms k)\<rparr>, map (H2 \<circ> HoFlow) (map (rred_to w ag new) L) @ [H2 (HoScan ?l)]))" unfolding env w_def ms_def .
    from step_of_module [where f = ?f and t = ?t, OF this [unfolded Let_def] h2_calls_flows i' h(4), of now] show ?some unfolding r Let_def by auto }
qed

text \<open>
  C13: When a wireless link is lost and no connection is being set up, every flow goes to the best interface that is left: one that is up and of which no other that is up is
  of a better type (cable before wireless LAN, before the wide area network, before the cellular one). Each flow that was not there is then sent by its node, its correspondent is told once
  and sends to its address when the redirections have arrived, and nothing else moves. If no other interface is up no flow moves; if the lost link is one of a wireless
  LAN every interface of the wide area network is switched on. In both cases the interface is marked as down and scanned.
\<close>

theorem link_loss_best_interface:
  assumes "watches (tm2 t) i m MIH_LINK_DOWN" and "settled t i m"
  shows "let s = tm_mih (tm2 t); ms = he_macs (tm_env (tm2 t)); w = he_world (tm_env (tm2 t)); r = send_link_down ms m (mi_macAddr i) oldAR reason;
         others = filter (\<lambda>j. mi_macAddr j \<noteq> mi_macAddr i \<and> mi_status j = LINK_STATUS_UP) (ifaces s);
         down = (\<lambda>t'. map_option mi_status (find_iface (tm_mih (tm2 t')) (mi_macAddr i)) = Some LINK_STATUS_DOWN) in
      (others \<noteq> [] \<longrightarrow> (\<exists>b \<in> set others. (\<forall>j \<in> set others. \<not> better (mi_type j) (mi_type b)) \<and>
         (let new = mac_node ms (the (mi_mac b)); L = filter (\<lambda>f. fl_iface (flow_at w f) \<noteq> new) (fList (ho_agent (tm_ho (tm2 t)))) in
          \<exists>t' reds w' acks. h2_report now g r t = Inr (t', map (TmHost \<circ> HoFlow) reds @ [TmMih (MacScan m)]) \<and> down t'
            \<and> deliver c (he_world (tm_env (tm2 t'))) reds = Inr (w', acks) \<and> length acks = length L \<and> flows_moved w w' L new
            \<and> (L \<noteq> [] \<longrightarrow> tm2_redirectMac t' = mac_addr ms (the (mi_mac b))))))
    \<and> (others = [] \<longrightarrow> (\<exists>t'. h2_report now g r t = Inr (t', (if mi_type i = LINK_802_11 then map (\<lambda>j. TmMih (MacSetMode (the (mi_mac j)) NORMAL_MODE))
             (filter (\<lambda>j. mi_type j = LINK_802_16) (ifaces s)) else []) @ [TmMih (MacScan m)]) \<and> down t' \<and> he_world (tm_env (tm2 t')) = w))"
proof -
  let ?a = "mi_macAddr i" and ?s = "tm_mih (tm2 t)"
  let ?others = "filter (\<lambda>j. mi_macAddr j \<noteq> ?a \<and> mi_status j = LINK_STATUS_UP) (ifaces ?s)"
  note rep = lost_link_report [OF assms]
  have down: "map_option mi_status (find_iface (tm_mih (tm2 t')) ?a) = Some LINK_STATUS_DOWN"
    if "ifaces (tm_mih (tm2 t')) = ifaces (upd_iface ?a (setStatus LINK_STATUS_DOWN) ?s)" for t'
    using that find_iface_status [of ?a LINK_STATUS_DOWN ?s] assms(1) by (simp add: watches_def find_iface_def setStatus_def)
  show ?thesis
  proof (cases "?others = []")
    case True
    then have "\<forall>j \<in> set (ifaces ?s). \<not> usable ?a (iface_view j)" by (auto simp: usable_view filter_empty_conv)
    from rep(1) [OF this] True down show ?thesis unfolding Let_def by blast
  next
    case False
    then obtain b' where b': "best_iface ?a (map iface_view (ifaces ?s)) = Some b'"
      using best_iface_best(2) [of ?a "map iface_view (ifaces ?s)"] by (auto simp: usable_view filter_empty_conv)
    from best_iface_best(1) [OF b'] obtain b where b: "b' = iface_view b" "b \<in> set ?others" "\<forall>j \<in> set ?others. \<not> better (mi_type j) (mi_type b)"
      by (auto simp: usable_view) (auto simp: iface_view_def)
    then obtain k where k: "mi_mac b = Some k" using assms(2) by (auto simp: settled_def isLocal_def)
    let ?ms = "he_macs (tm_env (tm2 t))" and ?w = "he_world (tm_env (tm2 t))" and ?ag = "ho_agent (tm_ho (tm2 t))"
    have bk: "if_mac b' = Some k" using b(1) k by (simp add: iface_view_def)
    let ?L = "filter (\<lambda>f. fl_iface (flow_at ?w f) \<noteq> mac_node ?ms k) (fList ?ag)"
    obtain t' where t': "h2_report now g (send_link_down ?ms m ?a oldAR reason) t = Inr (t', map (TmHost \<circ> HoFlow) (map (rred_to ?w ?ag (mac_node ?ms k)) ?L) @ [TmMih (MacScan m)])"
      "he_world (tm_env (tm2 t')) = moved_to (mac_node ?ms k) (set ?L) ?w" "?L \<noteq> [] \<longrightarrow> tm2_redirectMac t' = mac_addr ?ms k"
      "ifaces (tm_mih (tm2 t')) = ifaces (upd_iface ?a (setStatus LINK_STATUS_DOWN) ?s)"
      using rep(2) [OF b' bk, of now g oldAR reason] unfolding Let_def by blast
    obtain w' acks where w': "deliver c (he_world (tm_env (tm2 t'))) (map (rred_to ?w ?ag (mac_node ?ms k)) ?L) = Inr (w', acks)" "length acks = length ?L" "flows_moved ?w w' ?L (mac_node ?ms k)"
      using redirected_flows_move [OF refl, of c "mac_node ?ms k" ?L ?w ?ag] t'(2) by auto
    show ?thesis unfolding Let_def
      by (intro conjI impI bexI [of _ b] exI) (use False b(2,3) k t' w' down [OF t'(4)] in auto)
  qed
qed

section \<open>The handover to a wireless LAN\<close>

lemma fold_fun_upd: "fold (\<lambda>a d. d(a := v)) as d = (\<lambda>a. if a \<in> set as then v else d a)"
  by (induction as arbitrary: d) auto

lemma last_link_single: "filter (\<lambda>l. li_type l = ty) ls = [l] \<Longrightarrow> last_link ty ls = Some l"
proof -
  have "fold (\<lambda>l acc. if li_type l = ty then Some l else acc) ls acc
      = (if filter (\<lambda>l. li_type l = ty) ls = [] then acc else Some (last (filter (\<lambda>l. li_type l = ty) ls)))" for acc
    by (induction ls arbitrary: acc) auto
  then show "filter (\<lambda>l. li_type l = ty) ls = [l] \<Longrightarrow> last_link ty ls = Some l" by (simp add: last_link_def)
qed

text \<open>The redirection of several flows in one message, and its acknowledgement.\<close>

lemma joint_redirect:
  assumes "rs \<noteq> []" and "set rs = (\<lambda>f. fl_remote (flow_at w f)) ` A" and "set L = A"
  shows "\<exists>red w' q. send_update_msg (moved_to new A w) s rs new = Inr [red] \<and> deliver c (moved_to new A w) [red] = Inr (w', [FSend q])
    \<and> flows_moved w w' L new \<and> ptype q = PT_RRED \<and> fp_msg q = RRED rs (iface_addr w new) True \<and> daddr q = iface_addr w new"
proof -
  let ?w = "moved_to new A w"
  obtain p where p: "send_update_msg ?w s rs new = Inr [FSendVia new p]" "ptype p = PT_RRED" "fp_msg p = RRED rs (iface_addr w new) False" "saddr p = iface_addr w new"
    using assms(1) by (simp add: send_update_msg_def packet.defs)
  then obtain q where q: "flow_recv ?w (c (daddr p)) p = Inr (?w\<lparr>ag_dst_addr := fold (\<lambda>a d. d(a := iface_addr w new)) rs (ag_dst_addr ?w)\<rparr>, c (daddr p), [FSend q])"
    "ptype q = PT_RRED" "fp_msg q = RRED rs (iface_addr w new) True" "daddr q = iface_addr w new"
    by (simp add: flow_recv_def recv_redirect_def packet.defs)
  have "flows_moved w (?w\<lparr>ag_dst_addr := fold (\<lambda>a d. d(a := iface_addr w new)) rs (ag_dst_addr ?w)\<rparr>) L new"
    using assms(2,3) by (auto simp: flows_moved_def fold_fun_upd image_image)
  with p(1) q show ?thesis by auto
qed

lemma cap_disc_call:
  "\<exists>s' p. h2_call now (H2CapDisc m) t = Inr (t\<lparr>tm_mih := s'\<rparr>, [TmMih (MihSchedule (mac_node (he_macs (tm_env t)) m) p MIH_CAP_DELAY)])
    \<and> ifaces s' = ifaces (tm_mih t) \<and> mihfId s' = mihfId (tm_mih t)"
proof -
  have "ifaces (own_request now u p m (bump_tid s)) = ifaces s \<and> mihfId (own_request now u p m (bump_tid s)) = mihfId s" for u p s
    by (simp add: own_request_def insert_request_def bump_tid_def)
  then show ?thesis unfolding h2_call_def send_cap_disc_req_def Let_def by (auto intro!: exI)
qed

lemma if_mac_view: "if_mac (iface_view j) = mi_mac j"
  by (simp add: iface_view_def)

lemma yielding_view:
  assumes "\<forall>j \<in> set js. isLocal j"
  shows "yielding ms (Some (iface_view i)) m (map iface_view js)
    = {mac_node ms (the (mi_mac j)) | j. j \<in> set js \<and> (better (mi_type i) (mi_type j) \<or> mi_mac j = Some m)}"
proof -
  have g: "gives_way (Some (iface_view i)) m (iface_view j) = Inr (better (mi_type i) (mi_type j) \<or> mi_mac j = Some m)" for j
    by (auto simp: gives_way_def iface_view_def better_def)
  have "yielding ms (Some (iface_view i)) m (map iface_view js)
      = {mac_node ms k | j k. j \<in> set js \<and> (better (mi_type i) (mi_type j) \<or> mi_mac j = Some m) \<and> mi_mac j = Some k}"
    unfolding yielding_def by (auto simp: g if_mac_view) (metis g if_mac_view image_eqI)+
  also have "\<dots> = {mac_node ms (the (mi_mac j)) | j. j \<in> set js \<and> (better (mi_type i) (mi_type j) \<or> mi_mac j = Some m)}"
    using assms by (auto simp: isLocal_def) force+
  finally show ?thesis .
qed

lemma new_prefix_step:
  fixes t :: terminal2 and n :: node_ref
  defines "s \<equiv> tm_mih (tm2 t)" and "ms \<equiv> he_macs (tm_env (tm2 t))" and "ag \<equiv> ho_agent (tm_ho (tm2 t))" and "m \<equiv> node_mac (he_macs (tm_env (tm2 t))) n"
  assumes "ho_compute_new_address (he_net (tm_env (tm2 t))) pfx n = Inr n1" and "find_iface s (mac_addr ms m) = Some i" and "mac_node ms m = n"
    and "\<forall>j \<in> set (ifaces s). isLocal j" and "distinct (fList ag)"
  defines "w \<equiv> he_world (put_net n1 (tm_env (tm2 t)))"
    and "L \<equiv> filter (\<lambda>f. fl_iface (flow_at (he_world (put_net n1 (tm_env (tm2 t)))) f) \<in> {mac_node (he_macs (tm_env (tm2 t))) (the (mi_mac j)) | j.
        j \<in> set (ifaces (tm_mih (tm2 t))) \<and> (better (mi_type i) (mi_type j) \<or> mi_mac j = Some (node_mac (he_macs (tm_env (tm2 t))) n))}) (fList (ho_agent (tm_ho (tm2 t))))"
  assumes "L \<noteq> []"
  shows "\<exists>t1 p red w' q rs. h2_nd now g g' (ND_NEW_PREFIX pfx n bs) t = Inr (t1, [TmMih (MihSchedule n p MIH_CAP_DELAY), TmHost (HoFlow red)])
    \<and> deliver c (he_world (tm_env (tm2 t1))) [red] = Inr (w', [FSend q]) \<and> flows_moved w w' L n
    \<and> ptype q = PT_RRED \<and> fp_msg q = RRED rs (iface_addr w n) True \<and> daddr q = node_addr n1 n \<and> tm2_redirectMac t1 = mac_addr ms m
    \<and> ifaces (tm_mih (tm2 t1)) = ifaces s \<and> mihfId (tm_mih (tm2 t1)) = mihfId s \<and> tm2_shutdown t1 = tm2_shutdown t"
proof -
  let ?h = "h2_module t" and ?e1 = "put_net n1 (tm_env (tm2 t))" and ?is = "map iface_view (ifaces s)" and ?c = "Some (iface_view i)"
  let ?A = "{f \<in> set (fList ag). fl_iface (flow_at w f) \<in> yielding ms ?c m ?is}"
  have h: "ho_ifaces (h2_ho ?h) = ?is" "ho_agent (h2_ho ?h) = ag" "get_interface (h2_ho ?h) (mac_addr ms m) = ?c"
    using get_interface_view [of "tm2 t"] assms(6) by (simp_all add: h2_module_def s_def ag_def) (simp_all add: ho_module_def)
  have L: "set L = ?A" unfolding yielding_view [OF assms(8)] by (simp add: L_def w_def ag_def ms_def m_def s_def)
  have "\<forall>j \<in> set ?is. if_mac j \<noteq> None" using assms(8) by (auto simp: iface_view_def isLocal_def)
  from collect_flows_moves [OF assms(9) this, of ?c ms m n w] obtain rs where
    rs: "collect_flows ms ?c m n (fList ag) ?is w = Inr (moved_to n ?A w, rs)" "set rs = (\<lambda>f. fl_remote (flow_at w f)) ` ?A" by blast
  have "set L \<noteq> {}" using assms(12) by simp
  then have ne: "rs \<noteq> []" using rs(2) L by auto
  from joint_redirect [OF ne rs(2) L, of n ag c] obtain red w' q where red: "send_update_msg (moved_to n ?A w) ag rs n = Inr [red]" "deliver c (moved_to n ?A w) [red] = Inr (w', [FSend q])"
    "flows_moved w w' L n" "ptype q = PT_RRED" "fp_msg q = RRED rs (iface_addr w n) True" "daddr q = iface_addr w n" by blast
  have nm: "node_mac ms n = m" by (simp add: ms_def m_def)
  have np: "h2_new_prefix (tm_env (tm2 t)) ?h pfx n = Inr (?e1\<lparr>he_world := moved_to n ?A w\<rparr>, ?h\<lparr>redirectMac := mac_addr ms m\<rparr>, [H2CapDisc m, H2 (HoFlow red)])"
    using assms(5) rs(1) ne red(1) h by (simp add: h2_new_prefix_def Let_def get_flows_def w_def [symmetric] ms_def [symmetric] nm)
  let ?t = "(tm2 t)\<lparr>tm_env := ?e1\<lparr>he_world := moved_to n ?A w\<rparr>, tm_ho := h2_ho ?h\<rparr>"
  have macs: "he_macs ?e1 = ms" "iface_addr w n = node_addr n1 n" by (simp_all add: put_net_def ms_def w_def)
  obtain s' p where call: "h2_call now (H2CapDisc m) ?t = Inr (?t\<lparr>tm_mih := s'\<rparr>, [TmMih (MihSchedule n p MIH_CAP_DELAY)])" "ifaces s' = ifaces s" "mihfId s' = mihfId s"
    using cap_disc_call [of now m ?t] assms(7) macs(1) by (auto simp: s_def)
  have "h2_nd now g g' (ND_NEW_PREFIX pfx n bs) t = Inr (t\<lparr>tm2 := ?t\<lparr>tm_mih := s'\<rparr>, tm2_redirectMac := mac_addr ms m\<rparr>, [TmMih (MihSchedule n p MIH_CAP_DELAY), TmHost (HoFlow red)])"
    using call(1) np by (simp add: h2_nd_def h2_step_def h2_process_nd_event_def) (simp add: h2_call_def ho_call_def Let_def)
  with red(2-6) call(2,3) macs(2) show ?thesis by auto
qed

text \<open>
  C14: The handover from the wide area network to a wireless LAN, at a terminal with one interface of either kind, perhaps others, all its own. When the wireless LAN gets a new prefix, it asks for
  handover functions in the new network, and
  all flows of the cellular and wide area networks and of the interface itself, if there are any, go to it with one redirection: they are sent by
  its node, and when the redirection has arrived their correspondents send to its new address, which the answer goes to; nothing else moves. When
  that answer arrives the interface of the wide area network is switched off if the terminal is configured so (\<^verbatim>\<open>shutdown_on_ack_\<close>), and otherwise no interface is; the redirection is over in both cases.
\<close>

theorem wlan_takes_over:
  fixes t :: terminal2 and n :: node_ref
  defines "s \<equiv> tm_mih (tm2 t)" and "ms \<equiv> he_macs (tm_env (tm2 t))" and "m \<equiv> node_mac (he_macs (tm_env (tm2 t))) n"
  assumes "ho_compute_new_address (he_net (tm_env (tm2 t))) pfx n = Inr n1" and "mac_node ms m = n" and "mi_mac i = Some m" and "mi_macAddr i = mac_addr ms m"
    and "\<forall>j \<in> set (ifaces s). isLocal j" and "distinct (map mi_macAddr (ifaces s))" and "length (ifaces s) \<le> MAX_INTERFACE_PER_NODE"
    and "filter (\<lambda>j. mi_type j = LINK_802_11) (ifaces s) = [i]" and "filter (\<lambda>j. mi_type j = LINK_802_16) (ifaces s) = [k]"
    and "distinct (fList (ho_agent (tm_ho (tm2 t))))"
  defines "w \<equiv> he_world (put_net n1 (tm_env (tm2 t)))"
    and "L \<equiv> filter (\<lambda>f. fl_iface (flow_at (he_world (tm_env (tm2 t))) f) \<in> {mac_node (he_macs (tm_env (tm2 t))) (the (mi_mac j)) | j.
        j \<in> set (ifaces (tm_mih (tm2 t))) \<and> (mi_type j \<in> {LINK_UMTS, LINK_802_16} \<or> mi_mac j = Some (node_mac (he_macs (tm_env (tm2 t))) n))}) (fList (ho_agent (tm_ho (tm2 t))))"
  assumes "L \<noteq> []"
  shows "\<exists>t1 p red w' q t2. h2_nd now g g' (ND_NEW_PREFIX pfx n bs) t = Inr (t1, [TmMih (MihSchedule n p MIH_CAP_DELAY), TmHost (HoFlow red)])
    \<and> deliver c (he_world (tm_env (tm2 t1))) [red] = Inr (w', [FSend q]) \<and> flows_moved w w' L n \<and> daddr q = node_addr n1 n
    \<and> h2_receive now' q (t1\<lparr>tm2 := (tm2 t1)\<lparr>tm_env := (tm_env (tm2 t1))\<lparr>he_world := w'\<rparr>\<rparr>\<rparr>) = Inr (t2, if tm2_shutdown t then [TmMih (MacSetMode (the (mi_mac k)) POWER_DOWN)] else [])
    \<and> tm2_redirectMac t2 = - 1"
proof -
  have "i \<in> set (filter (\<lambda>j. mi_type j = LINK_802_11) (ifaces s))" "k \<in> set (filter (\<lambda>j. mi_type j = LINK_802_16) (ifaces s))" unfolding assms(11,12) by simp_all
  then have i: "i \<in> set (ifaces s)" "mi_type i = LINK_802_11" "k \<in> set (ifaces s)" by simp_all
  then have fi: "find_iface s (mac_addr ms m) = Some i" using find_iface_mem [OF assms(9)] assms(7) by metis
  have "better LINK_802_11 ty \<longleftrightarrow> ty \<in> {LINK_UMTS, LINK_802_16}" for ty by (auto simp: better_def)
  then have L: "filter (\<lambda>f. fl_iface (flow_at (he_world (put_net n1 (tm_env (tm2 t)))) f) \<in> {mac_node (he_macs (tm_env (tm2 t))) (the (mi_mac j)) | j.
        j \<in> set (ifaces (tm_mih (tm2 t))) \<and> (better (mi_type i) (mi_type j) \<or> mi_mac j = Some (node_mac (he_macs (tm_env (tm2 t))) n))}) (fList (ho_agent (tm_ho (tm2 t)))) = L"
    unfolding i(2) L_def by (simp add: put_net_def)
  from new_prefix_step [OF assms(4) fi [unfolded s_def ms_def m_def] assms(5) [unfolded ms_def m_def] assms(8) [unfolded s_def] assms(13), unfolded L, OF assms(16), of now g g' bs c]
  obtain t1 p red w' q rs where 1: "h2_nd now g g' (ND_NEW_PREFIX pfx n bs) t = Inr (t1, [TmMih (MihSchedule n p MIH_CAP_DELAY), TmHost (HoFlow red)])"
    "deliver c (he_world (tm_env (tm2 t1))) [red] = Inr (w', [FSend q])" "flows_moved w w' L n" "daddr q = node_addr n1 n"
    "ptype q = PT_RRED" "fp_msg q = RRED rs (iface_addr w n) True" "tm2_redirectMac t1 = mac_addr ms m"
    "ifaces (tm_mih (tm2 t1)) = ifaces s" "mihfId (tm_mih (tm2 t1)) = mihfId s" "tm2_shutdown t1 = tm2_shutdown t"
    unfolding w_def s_def ms_def m_def by blast
  let ?t = "t1\<lparr>tm2 := (tm2 t1)\<lparr>tm_env := (tm_env (tm2 t1))\<lparr>he_world := w'\<rparr>\<rparr>\<rparr>" and ?ls = "map iface_link (ifaces s)"
  have links: "local_links (tm_mih (tm2 ?t)) = Inr ?ls" using assms(8,10) 1(8) by (simp add: local_links_def Let_def iface_link_def [abs_def])
  have "filter (\<lambda>l. li_type l = ty) ?ls = map iface_link (filter (\<lambda>j. mi_type j = ty) (ifaces s))" for ty by (simp add: filter_map comp_def iface_link_def)
  then have ids: "last_link LINK_802_11 ?ls = Some (iface_link i)" "last_link LINK_802_16 ?ls = Some (iface_link k)" using assms(11,12) by (simp_all add: last_link_single)
  have rec: "recv_redirect_ack (Inr ?ls) (h2_module ?t) = Inr ((h2_module ?t)\<lparr>redirectMac := - 1\<rparr>, if tm2_shutdown t then [H2Mode (iface_link k) POWER_DOWN] else [])"
    using ids 1(7,10) assms(7) by (simp add: recv_redirect_ack_def h2_module_def iface_link_def)
  obtain mk where mk: "mi_mac k = Some mk" using i(3) assms(8) by (auto simp: isLocal_def)
  have "find_iface (tm_mih (tm2 ?t)) (li_mac (iface_link k)) = Some k" using find_iface_mem [OF assms(9) i(3)] 1(8) by (simp add: find_iface_def iface_link_def)
  from mode_call [OF _ mk, of _ "iface_link k"] this have "h2_calls now' [H2Mode (iface_link k) POWER_DOWN] ((tm2 ?t)\<lparr>tm_ho := x\<rparr>) = Inr ((tm2 ?t)\<lparr>tm_ho := x\<rparr>, [TmMih (MacSetMode mk POWER_DOWN)])" for x
    by simp
  then have "h2_calls now' (if tm2_shutdown t then [H2Mode (iface_link k) POWER_DOWN] else []) ((tm2 ?t)\<lparr>tm_ho := x\<rparr>)
      = Inr ((tm2 ?t)\<lparr>tm_ho := x\<rparr>, if tm2_shutdown t then [TmMih (MacSetMode mk POWER_DOWN)] else [])" for x
    by simp
  then have "\<exists>t2. h2_receive now' q ?t = Inr (t2, if tm2_shutdown t then [TmMih (MacSetMode mk POWER_DOWN)] else []) \<and> tm2_redirectMac t2 = - 1"
    using links rec 1(5,6) by (simp add: h2_receive_def h2_step_def h2_recv_def del: h2_calls.simps)
  with 1(1-4) mk show ?thesis by (metis option.sel)
qed

section \<open>A sample terminal\<close>

text \<open>A wireless LAN at node 4 and a wide area network at node 5, with the two flows at one of them.\<close>

definition demo_macs2 :: macs where
  "demo_macs2 = demo_macs\<lparr>mac_type := (\<lambda>m. if m = 5 then LINK_802_16 else LINK_802_11), mac_sap := (\<lambda>_. new_link_sap\<lparr>eventList := mac_eventList, subscribedEventList := mac_eventList, sap_mih := True\<rparr>)\<rparr>"

definition demo_lan :: mih_iface where
  "demo_lan = setStatus LINK_STATUS_UP (event_subscribe 9 0x1FF (new_mac_iface demo_macs2 4))"

definition demo_man :: "interface_status_t \<Rightarrow> mih_iface" where
  "demo_man st = setStatus st (event_subscribe 9 0x1FF (new_mac_iface demo_macs2 5))"

definition demo_t2 :: "interface_status_t \<Rightarrow> node_ref \<Rightarrow> terminal2" where
  "demo_t2 st n = \<lparr>tm2 = \<lparr>tm_user = 9, tm_mih = (demo_mih 3 0x1801 [])\<lparr>ifaces := [demo_lan, demo_man st]\<rparr>, tm_ho = h2_ho (new_handover2 \<lparr>h2_ho = demo_handover demo_router_host, redirectMac = 0, shutdown_on_ack = True\<rparr>),
     tm_env = demo_env\<lparr>he_macs := demo_macs2, he_world := (he_world demo_env)\<lparr>flow_at := (\<lambda>f. new_FlowEntry (f + 2) (f + 4) 0 100 n)\<rparr>\<rparr>\<rparr>,
     tm2_redirectMac = - 1, tm2_shutdown = True\<rparr>"

lemma demo_t2_fields [simp]:
  "ifaces (tm_mih (tm2 (demo_t2 st n))) = [demo_lan, demo_man st]" "he_macs (tm_env (tm2 (demo_t2 st n))) = demo_macs2" "tm_user (tm2 (demo_t2 st n)) = 9"
  "connectingMac (tm_ho (tm2 (demo_t2 st n))) = - 1" "pending_scan (tm_ho (tm2 (demo_t2 st n))) = {}" "fList (ho_agent (tm_ho (tm2 (demo_t2 st n)))) = [1, 2]"
  "flow_at (he_world (tm_env (tm2 (demo_t2 st n)))) f = new_FlowEntry (f + 2) (f + 4) 0 100 n" "tm2_shutdown (demo_t2 st n)" "he_net (tm_env (tm2 (demo_t2 st n))) = demo_faces"
  by (simp_all add: demo_t2_def new_handover2_def demo_handover_defs)

lemma demo_ifaces [simp]:
  "mi_macAddr demo_lan = 4" "mi_macAddr (demo_man st) = 5" "mi_mac demo_lan = Some 4" "mi_mac (demo_man st) = Some 5" "mi_type demo_lan = LINK_802_11" "mi_type (demo_man st) = LINK_802_16"
  "mi_status demo_lan = LINK_STATUS_UP" "mi_status (demo_man st) = st" "isLocal demo_lan" "isLocal (demo_man st)"
  "mac_node demo_macs2 m = m" "node_mac demo_macs2 m = m" "mac_addr demo_macs2 m = word_of_nat m" "mac_type demo_macs2 4 = LINK_802_11"
  by (simp_all add: demo_lan_def demo_man_def setStatus_def event_subscribe_def new_mac_iface_def demo_macs2_def demo_macs_def isLocal_def)

lemma demo_t2_watches: "watches (tm2 (demo_t2 st n)) demo_lan 4 MIH_LINK_DOWN" "settled (demo_t2 st n) demo_lan 4"
proof -
  have "getRegisteredLocalUser MIH_LINK_DOWN demo_lan = [9]" "getRegisteredRemoteUser MIH_LINK_DOWN demo_lan = []" "event_subscribed demo_macs2 4 MIH_LINK_DOWN"
    by (simp_all add: getRegisteredLocalUser_def getRegisteredRemoteUser_def demo_lan_def setStatus_def event_subscribe_def new_mac_iface_def demo_macs2_def LINK_LAST_EVENT_def mac_eventList_def
        event_subscribed_bit bit_numeral_rec)
  then show "watches (tm2 (demo_t2 st n)) demo_lan 4 MIH_LINK_DOWN" "settled (demo_t2 st n) demo_lan 4"
    by (simp_all add: watches_def settled_def find_iface_def)
qed

theorem link_loss_best_interface_witness:
  "(\<exists>t' reds w'. h2_report 1 0 (send_link_down demo_macs2 4 4 0x1800 0) (demo_t2 LINK_STATUS_UP 4) = Inr (t', map (TmHost \<circ> HoFlow) reds @ [TmMih (MacScan 4)])
      \<and> flows_moved (he_world (tm_env (tm2 (demo_t2 LINK_STATUS_UP 4)))) w' [1, 2] 5 \<and> tm2_redirectMac t' = 5)
   \<and> (\<exists>t'. h2_report 1 0 (send_link_down demo_macs2 4 4 0x1800 0) (demo_t2 LINK_STATUS_DOWN 4) = Inr (t', [TmMih (MacSetMode 5 NORMAL_MODE), TmMih (MacScan 4)]))"
  using link_loss_best_interface [OF demo_t2_watches [of LINK_STATUS_UP 4], where oldAR = "0x1800" and reason = 0 and now = 1 and g = 0 and c = "\<lambda>_. demo_flow_agent 0x3000"]
    link_loss_best_interface [OF demo_t2_watches [of LINK_STATUS_DOWN 4], where oldAR = "0x1800" and reason = 0 and now = 1 and g = 0 and c = "\<lambda>_. demo_flow_agent 0x3000"]
  by (auto simp: Let_def new_FlowEntry_def)

theorem wlan_takes_over_witness:
  "\<exists>t1 p red w' q t2. h2_nd 1 0 0 (ND_NEW_PREFIX 0x2000 4 0) (demo_t2 LINK_STATUS_UP 5) = Inr (t1, [TmMih (MihSchedule 4 p MIH_CAP_DELAY), TmHost (HoFlow red)])
    \<and> deliver (\<lambda>_. demo_flow_agent 0x3000) (he_world (tm_env (tm2 t1))) [red] = Inr (w', [FSend q]) \<and> daddr q = 0x2001
    \<and> h2_receive 2 q (t1\<lparr>tm2 := (tm2 t1)\<lparr>tm_env := (tm_env (tm2 t1))\<lparr>he_world := w'\<rparr>\<rparr>\<rparr>) = Inr (t2, [TmMih (MacSetMode 5 POWER_DOWN)])"
proof -
  let ?t = "demo_t2 LINK_STATUS_UP 5" and ?n1 = "demo_faces\<lparr>node_addr := (node_addr demo_faces)(4 := 0x2001), base_stn := (base_stn demo_faces)(4 := 0x2000)\<rparr>"
  have "wf_layout (layout demo_faces)" by (simp add: demo_faces_def default_layout_wf_layout)
  then have n1: "ho_compute_new_address (he_net (tm_env (tm2 ?t))) 0x2000 4 = Inr ?n1"
    by (simp add: ho_compute_new_address_def get_nodeaddr_id new_address_def) (simp add: demo_faces_def)
  have "\<exists>j. the (mi_mac j) = (5 :: nat) \<and> (j = demo_lan \<or> j = demo_man LINK_STATUS_UP) \<and> (mi_type j = LINK_UMTS \<or> mi_type j = LINK_802_16 \<or> mi_mac j = Some 4)"
    by (intro exI [of _ "demo_man LINK_STATUS_UP"]) simp
  then show ?thesis
    using wlan_takes_over [OF n1, where i = demo_lan and k = "demo_man LINK_STATUS_UP" and now = 1 and g = 0 and g' = 0 and bs = 0 and c = "\<lambda>_. demo_flow_agent 0x3000" and now' = 2]
    by (simp add: new_FlowEntry_def MAX_INTERFACE_PER_NODE_def) blast
qed

end
