(* ===== verification/Handover_Simple.thy ===== *)
theory Handover_Simple
  imports Mih_Handover
begin

text \<open>
  The handover modules \<^verbatim>\<open>SimpleHandover\<close> of a terminal and \<^verbatim>\<open>SimpleHandoverAP\<close> of an access point (nist-2/hsntg/handover-simple.cc,
  handover-simpleAP.cc), each as the user of the handover function of its node. Their reactions call the function, so they are
  operations on the node; what they print is left out. The handlers that only print and free are the last case of a reaction.
\<close>

section \<open>State\<close>

text \<open>\<open>scan\<close> is the flag of the access point, which its constructor sets.\<close>

record simple_node =
  sn_user :: user_ref
  sn_mih :: mih_agent
  sn_agent :: flow_agent
  sn_env :: ho_env
  sn_scan :: bool

type_synonym sn_result = "(simple_node \<times> tm_out list) res"

definition new_simple_node :: "simple_node \<Rightarrow> simple_node" where
  "new_simple_node t = t\<lparr>sn_scan := True\<rparr>"

text \<open>A call of the handover function.\<close>

definition on_mih :: "(net \<Rightarrow> macs \<Rightarrow> user_ref option \<Rightarrow> mih_agent \<Rightarrow> mih_result) \<Rightarrow> simple_node \<Rightarrow> sn_result" where
  "on_mih f t = bind_res (f (he_net (sn_env t)) (he_macs (sn_env t)) (Some (sn_user t)) (sn_mih t)) (\<lambda>(s, out). Inr (t\<lparr>sn_mih := s\<rparr>, map TmMih out))"

definition then_do :: "sn_result \<Rightarrow> (simple_node \<Rightarrow> sn_result) \<Rightarrow> sn_result" where
  "then_do r f = bind_res r (\<lambda>(t, out). bind_res (f t) (\<lambda>(t', out'). Inr (t', out @ out')))"

section \<open>The terminal\<close>

text \<open>A subscription of the user, whose result must not be NULL when \<open>sync\<close>.\<close>

definition sn_subscribe :: "time \<Rightarrow> bool \<Rightarrow> 32 word \<Rightarrow> link_id \<Rightarrow> 32 word \<Rightarrow> simple_node \<Rightarrow> sn_result" where
  "sn_subscribe now sync f l events t =
     (let e = sn_env t in
      bind_res (mih_event_subscribe now (he_net e) (he_macs e) (Some (sn_user t)) f l events (sn_mih t)) (\<lambda>(ms, s, status, out).
        check AssertFail (sync \<longrightarrow> status \<noteq> None) (Inr (t\<lparr>sn_mih := s, sn_env := e\<lparr>he_macs := ms\<rparr>\<rparr>, map TmMih out))))"

text \<open>The loop over the links of the status: of the events \<open>0x2F\<close> those that the link has.\<close>

fun register_links :: "time \<Rightarrow> link_id list \<Rightarrow> simple_node \<Rightarrow> sn_result" where
  "register_links now [] t = Inr (t, [])"
| "register_links now (l # ls) t =
     bind_res (mih_capability_discover (he_macs (sn_env t)) (sn_mih t) (mihfId (sn_mih t)) l) (\<lambda>co.
     need NullPtr co (\<lambda>(_, cap).
     need Uninitialised cap (\<lambda>(events, _).
       then_do (sn_subscribe now True (mihfId (sn_mih t)) l (0x2F AND events) t) (register_links now ls))))"

definition simple_register :: "time \<Rightarrow> simple_node \<Rightarrow> sn_result" where
  "simple_register now t =
     bind_res (mih_get_status now (he_net (sn_env t)) (he_macs (sn_env t)) (Some (sn_user t)) (mihfId (sn_mih t)) 0x4 (sn_mih t)) (\<lambda>(_, st, _).
       need NullPtr st (\<lambda>(_, links). register_links now links t))"

definition simple_link_detected :: "link_id \<Rightarrow> simple_node \<Rightarrow> sn_result" where
  "simple_link_detected l t =
     (if li_type l = LINK_802_11 \<or> li_type l = LINK_802_16
      then bind_res (mih_configure_link (sn_mih t) (mihfId (sn_mih t)) (link_request l)) (\<lambda>out. Inr (t, map TmMih out)) else Inr (t, []))"

definition simple_link_up :: "time \<Rightarrow> link_id \<Rightarrow> simple_node \<Rightarrow> sn_result" where
  "simple_link_up now l t =
     (if li_type l = LINK_802_11 \<or> li_type l = LINK_802_16 then
        bind_res (mih_get_mac (sn_mih t) (li_mac l)) (\<lambda>m.
        bind_res (mip_send_rs now (he_net (sn_env t)) (sn_agent t) (he_nds (sn_env t)) m) (\<lambda>(nds, out).
          Inr (t\<lparr>sn_env := (sn_env t)\<lparr>he_nds := nds\<rparr>\<rparr>, map (TmHost \<circ> HoSend) out)))
      else Inr (t, []))"

definition simple_link_rollback :: "time \<Rightarrow> link_id \<Rightarrow> simple_node \<Rightarrow> sn_result" where
  "simple_link_rollback now l t =
     bind_res (mih_event_unsubscribe now (he_net (sn_env t)) (he_macs (sn_env t)) (Some (sn_user t)) (mihfId (sn_mih t)) l
         (push_bit (event_no MIH_LINK_GOING_DOWN) 1) (sn_mih t)) (\<lambda>(s, status, out).
       check AssertFail (status \<noteq> None) (Inr (t\<lparr>sn_mih := s\<rparr>, map TmMih out)))"

definition simple_new_prefix :: "time \<Rightarrow> addr \<Rightarrow> node_ref \<Rightarrow> simple_node \<Rightarrow> sn_result" where
  "simple_new_prefix now pfx i t =
     bind_res (ho_compute_new_address (he_net (sn_env t)) pfx i) (\<lambda>n1.
       on_mih (\<lambda>n ms u s. Inr (send_cap_disc_req now n ms u (node_mac ms i) s)) (t\<lparr>sn_env := put_net n1 (sn_env t)\<rparr>))"

definition simple_cap_disc_conf :: "time \<Rightarrow> hdr_mih \<Rightarrow> simple_node \<Rightarrow> sn_result" where
  "simple_cap_disc_conf now h = on_mih (\<lambda>n ms u. send_reg_request now n ms u (mihf_id h))"

definition simple_reaction :: "time \<Rightarrow> user_call \<Rightarrow> simple_node \<Rightarrow> sn_result" where
  "simple_reaction now c t =
     (case c of
        MihEvent (LinkDetected x) \<Rightarrow> simple_link_detected (lt_link x) t
      | MihEvent (LinkUp x) \<Rightarrow> simple_link_up now (lu_link x) t
      | MihEvent (LinkRollback x) \<Rightarrow> simple_link_rollback now (lr_link x) t
      | CapDiscConf h \<Rightarrow> simple_cap_disc_conf now h t
      | _ \<Rightarrow> Inr (t, []))"

section \<open>The access point\<close>

definition ap_register :: "time \<Rightarrow> simple_node \<Rightarrow> sn_result" where
  "ap_register now t = bind_res (register_management_user (Some (sn_user t)) (sn_mih t)) (\<lambda>s. simple_register now (t\<lparr>sn_mih := s\<rparr>))"

text \<open>The identifier of the terminal's function is the constant 1.\<close>

definition ap_link_going_down :: "time \<Rightarrow> link_id \<Rightarrow> simple_node \<Rightarrow> sn_result" where
  "ap_link_going_down now l t =
     (if li_type l = LINK_802_11 \<and> sn_scan t
      then bind_res (on_mih (\<lambda>n ms u. mih_scan now n ms u 1 [l]) t) (\<lambda>(t', out). Inr (t'\<lparr>sn_scan := False\<rparr>, out)) else Inr (t, []))"

definition ap_register_ind :: "time \<Rightarrow> hdr_mih \<Rightarrow> simple_node \<Rightarrow> sn_result" where
  "ap_register_ind now h t =
     then_do (on_mih (\<lambda>n ms u. send_reg_response n ms (mihf_id h) 1 0 20 (transaction_id h)) t)
       (on_mih (\<lambda>n ms u s. bind_res (mih_get_status now n ms u (mihf_id h) 0x4 s) (\<lambda>(s', _, out). Inr (s', out))))"

definition ap_deregister_ind :: "time \<Rightarrow> hdr_mih \<Rightarrow> simple_node \<Rightarrow> sn_result" where
  "ap_deregister_ind now h = on_mih (\<lambda>n ms u. send_dereg_response now n ms u (mihf_id h) 1 0 (transaction_id h))"

fun subscribe_peer :: "time \<Rightarrow> 32 word \<Rightarrow> link_id list \<Rightarrow> simple_node \<Rightarrow> sn_result" where
  "subscribe_peer now f [] t = Inr (t, [])"
| "subscribe_peer now f (l # ls) t = then_do (sn_subscribe now False f l (push_bit (event_no MIH_LINK_GOING_DOWN) 1) t) (subscribe_peer now f ls)"

definition ap_get_status_conf :: "time \<Rightarrow> hdr_mih \<Rightarrow> simple_node \<Rightarrow> sn_result" where
  "ap_get_status_conf now h t =
     (case payload h of
        GetStatusRsp _ es \<Rightarrow> bind_res (getMihfId (sn_mih t) (session_id h)) (\<lambda>f. subscribe_peer now f (map (of_wire \<circ> gs_link) es) t)
      | _ \<Rightarrow> Inl Uninitialised)"

definition ap_reaction :: "time \<Rightarrow> user_call \<Rightarrow> simple_node \<Rightarrow> sn_result" where
  "ap_reaction now c t =
     (case c of
        MihEvent (LinkDetected x) \<Rightarrow> simple_link_detected (lt_link x) t
      | MihEvent (LinkGoingDown x) \<Rightarrow> ap_link_going_down now (lg_link x) t
      | RegisterInd h \<Rightarrow> ap_register_ind now h t
      | DeregisterInd h \<Rightarrow> ap_deregister_ind now h t
      | GetStatusConf h \<Rightarrow> ap_get_status_conf now h t
      | _ \<Rightarrow> Inr (t, []))"

section \<open>A node\<close>

text \<open>The handover function with one of the modules, \<open>react\<close>, as its user.\<close>

fun sn_deliver :: "(user_call \<Rightarrow> simple_node \<Rightarrow> sn_result) \<Rightarrow> mih_out list \<Rightarrow> simple_node \<Rightarrow> sn_result" where
  "sn_deliver react [] t = Inr (t, [])"
| "sn_deliver react (x # xs) t =
     then_do
       (case x of ToUser u c \<Rightarrow> if u = sn_user t then react c t else Inr (t, [TmMih x]) | _ \<Rightarrow> Inr (t, [TmMih x]))
       (sn_deliver react xs)"

definition sn_input :: "time \<Rightarrow> (time \<Rightarrow> user_call \<Rightarrow> simple_node \<Rightarrow> sn_result) \<Rightarrow> mih_input \<Rightarrow> simple_node \<Rightarrow> sn_result" where
  "sn_input now react i t =
     bind_res (mih_step (he_macs (sn_env t), sn_mih t) (now, he_net (sn_env t), i)) (\<lambda>((ms, s), out).
       sn_deliver (react now) out (t\<lparr>sn_mih := s, sn_env := (sn_env t)\<lparr>he_macs := ms\<rparr>\<rparr>))"

end
