(* ===== verification/Handover_Simple_Props.thy ===== *)
theory Handover_Simple_Props
  imports Handover_Simple Mih_Props Handover_Props
begin

text \<open>
  A terminal and its access point: once the terminal has a session with the access point, the latter asks for the terminal's links and
  subscribes to the event that one of them is about to be lost, and the first such event makes it have the terminal scan for other access points.
\<close>

section \<open>Messages of a session\<close>

text \<open>A session over layer 3 by the MAC \<open>m\<close> to the address \<open>dst\<close>.\<close>

definition session_up :: "mih_agent \<Rightarrow> 32 word \<Rightarrow> sess_ref \<Rightarrow> mac_ref \<Rightarrow> addr \<Rightarrow> bool" where
  "session_up s sid r m dst \<longleftrightarrow> get_session s sid = Some r \<and> mih_get_mac s (ss_macAddr (sess_at s r)) = Inr (Some m)
     \<and> (\<exists>fr. ss_mihf (sess_at s r) = Some fr \<and> mf_address (mihf_at s fr) = dst
          \<and> (\<forall>srv \<in> {MIH_EVENT_SERVICE, MIH_COMMAND_SERVICE}. \<not> l2_transport srv (mihf_at s fr) \<and> l3_transport srv (mihf_at s fr)))"

lemma session_up_id: "session_up s sid r m dst \<Longrightarrow> ss_id (sess_at s r) = sid"
  by (auto simp: session_up_def get_session_def find_Some_iff)

lemma session_send:
  assumes "session_up s sid r m dst" and "mih_service_id (mih_hdr p) \<in> {MIH_EVENT_SERVICE, MIH_COMMAND_SERVICE}" and "\<not> ack_req (mih_hdr p)"
    and "mih_opcode (mih_hdr p) = MIH_REQUEST \<Longrightarrow> user \<noteq> None"
  shows "\<exists>q req. send_message now n ms user p (Some r) s
      = Inr ((if mih_opcode (mih_hdr p) = MIH_REQUEST then insert_request (transaction_id (mih_hdr p)) req s else s)\<lparr>mih_target := Some (mac_node ms m)\<rparr>, [MihSend (Some (mac_node ms m)) q])
    \<and> mih_hdr q = mih_hdr p \<and> daddr q = dst \<and> pr_user req = user \<and> pr_tid req = transaction_id (mih_hdr p)"
proof -
  obtain fr where fr: "ss_mihf (sess_at s r) = Some fr" "mf_address (mihf_at s fr) = dst" "\<not> l2_transport (mih_service_id (mih_hdr p)) (mihf_at s fr)"
    "l3_transport (mih_service_id (mih_hdr p)) (mihf_at s fr)" "mih_get_mac s (ss_macAddr (sess_at s r)) = Inr (Some m)"
    using assms(1,2) by (auto simp: session_up_def)
  let ?q = "route_l3 n ms s (mihf_at s fr) m p"
  let ?req = "(new_request now user ?q (service_timeout (mih_service_id (mih_hdr p)) (mihmib s)) False m)\<lparr>pr_session := Some r, pr_waitAck := None, pr_waitRsp := Some True\<rparr>"
  have "send_message now n ms user p (Some r) s
      = Inr ((if mih_opcode (mih_hdr p) = MIH_REQUEST then insert_request (transaction_id (mih_hdr p)) ?req s else s)\<lparr>mih_target := Some (mac_node ms m)\<rparr>, [MihSend (Some (mac_node ms m)) ?q])"
    using fr assms(3,4) by (auto simp: send_message_def send_mih_message_def Let_def)
  moreover have "mih_hdr ?q = mih_hdr p" "daddr ?q = dst" "pr_user ?req = user" "pr_tid ?req = transaction_id (mih_hdr p)"
    using fr(2) by (simp_all add: route_l3_def new_request_def)
  ultimately show ?thesis by blast
qed

text \<open>A session does not depend on requests, transactions, scans and subscriptions.\<close>

lemma session_up_cong:
  assumes "sessions s' = sessions s" and "mihf_at s' = mihf_at s" and "map (\<lambda>i. (mi_macAddr i, mi_mac i)) (ifaces s') = map (\<lambda>i. (mi_macAddr i, mi_mac i)) (ifaces s)"
    and "\<And>r. ss_id (sess_at s' r) = ss_id (sess_at s r) \<and> ss_macAddr (sess_at s' r) = ss_macAddr (sess_at s r) \<and> ss_mihf (sess_at s' r) = ss_mihf (sess_at s r)"
  shows "session_up s' sid r m dst = session_up s sid r m dst"
proof -
  have find: "map_option snd (find (\<lambda>x. fst x = a) (map (\<lambda>i. (mi_macAddr i, mi_mac i)) xs)) = map_option mi_mac (find (\<lambda>i. mi_macAddr i = a) xs)" for xs a
    by (induction xs) auto
  have need: "need NullPtr (map_option f x) Inr = need NullPtr x (\<lambda>i. Inr (f i))" for f :: "mih_iface \<Rightarrow> mac_ref option" and x by (cases x) auto
  have "mih_get_mac s' a = mih_get_mac s a" for a
    using find [of a "ifaces s'"] find [of a "ifaces s"] need [of mi_mac "find_iface s' a"] need [of mi_mac "find_iface s a"] assms(3) by (simp add: mih_get_mac_def find_iface_def)
  then show ?thesis using assms(1,2,4) by (simp add: session_up_def get_session_def)
qed

lemma iface_upd_keys:
  "(\<And>i. mi_macAddr (f i) = mi_macAddr i \<and> mi_mac (f i) = mi_mac i) \<Longrightarrow> map (\<lambda>i. (mi_macAddr i, mi_mac i)) (ifaces (upd_iface a f s)) = map (\<lambda>i. (mi_macAddr i, mi_mac i)) (ifaces s)"
proof -
  assume k: "\<And>i. mi_macAddr (f i) = mi_macAddr i \<and> mi_mac (f i) = mi_mac i"
  have "map (\<lambda>i. (mi_macAddr i, mi_mac i)) (upd_first P f xs) = map (\<lambda>i. (mi_macAddr i, mi_mac i)) xs" for P xs by (induction xs) (simp_all add: k)
  then show ?thesis by (simp add: upd_iface_def)
qed

lemma session_up_upd [simp]:
  "session_up (insert_request tid q s) sid r m dst = session_up s sid r m dst"
  "session_up (s\<lparr>mih_target := x\<rparr>) sid r m dst = session_up s sid r m dst"
  "session_up (bump_tid s) sid r m dst = session_up s sid r m dst"
  "session_up (clear_request tid s) sid r m dst = session_up s sid r m dst"
  "session_up (s\<lparr>scan_reqs := cs\<rparr>) sid r m dst = session_up s sid r m dst"
  "session_up (s\<lparr>sess_at := (sess_at s)(k := (sess_at s k)\<lparr>ss_lastTID := lt\<rparr>)\<rparr>) sid r m dst = session_up s sid r m dst"
  by (rule session_up_cong; simp add: insert_request_def bump_tid_def clear_request_def)+

lemma session_up_iface:
  assumes "\<And>i. mi_macAddr (f i) = mi_macAddr i \<and> mi_mac (f i) = mi_mac i"
  shows "session_up (upd_iface a f s) sid r m dst = session_up s sid r m dst"
  by (rule session_up_cong) (use iface_upd_keys [OF assms] in \<open>simp_all add: upd_iface_def\<close>)

lemma session_up_iface_ops [simp]:
  "session_up (upd_iface a (setStatus st) s) sid r m dst = session_up s sid r m dst"
  "session_up (upd_iface a (remote_event_subscribe k ev) s) sid r m dst = session_up s sid r m dst"
  by (rule session_up_iface; simp add: remote_event_subscribe_def)+

text \<open>A request to a peer.\<close>

lemma session_request:
  assumes "session_up s sid r m dst" and "peer_session s f = Inr (Some r)" and "srv \<in> {MIH_EVENT_SERVICE, MIH_COMMAND_SERVICE}"
  shows "\<exists>q req. request_peer now n ms (Some u) f len srv aid src pl s
      = Inr ((insert_request (next_tid s) req (bump_tid s))\<lparr>mih_target := Some (mac_node ms m)\<rparr>, [MihSend (Some (mac_node ms m)) q])
    \<and> mih_aid (mih_hdr q) = aid \<and> payload (mih_hdr q) = pl \<and> session_id (mih_hdr q) = sid \<and> transaction_id (mih_hdr q) = next_tid s
    \<and> mih_service_id (mih_hdr q) = srv \<and> mih_opcode (mih_hdr q) = MIH_REQUEST \<and> daddr q = dst \<and> pr_user req = Some u \<and> pr_tid req = next_tid s"
proof -
  let ?p = "mk_mih s len srv MIH_REQUEST aid (next_tid s) sid pl" let ?p' = "?p\<lparr>mih_hdr := (mih_hdr ?p)\<lparr>mihf_id := src\<rparr>\<rparr>"
  have h: "mih_service_id (mih_hdr ?p') = srv" "mih_opcode (mih_hdr ?p') = MIH_REQUEST" "transaction_id (mih_hdr ?p') = next_tid s" "\<not> ack_req (mih_hdr ?p')"
    "mih_aid (mih_hdr ?p') = aid" "payload (mih_hdr ?p') = pl" "session_id (mih_hdr ?p') = sid" by (simp_all add: mk_mih_def zero_mih_def)
  have "request_peer now n ms (Some u) f len srv aid src pl s = send_message now n ms (Some u) ?p' (Some r) (bump_tid s)"
    using assms(2) session_up_id [OF assms(1)] by (simp add: request_peer_def peer_session_id_def Let_def)
  moreover obtain q req where "send_message now n ms (Some u) ?p' (Some r) (bump_tid s) = Inr ((insert_request (next_tid s) req (bump_tid s))\<lparr>mih_target := Some (mac_node ms m)\<rparr>, [MihSend (Some (mac_node ms m)) q])"
    "mih_hdr q = mih_hdr ?p'" "daddr q = dst" "pr_user req = Some u" "pr_tid req = next_tid s"
    using session_send [of "bump_tid s" sid r m dst ?p' "Some u" now n ms] assms(1,3) h(1-4) by (simp del: packet.simps) metis
  ultimately show ?thesis using h by auto
qed

text \<open>An event of an interface with one session among its subscribers.\<close>

lemma session_event:
  assumes "session_up s sid r m dst" and "find_iface s (local_end s l) = Some i" and "getRegisteredRemoteUser re i = [r]"
  shows "\<exists>q. handle_event now n ms l (Some st) le ev re (indication len aid pl) False s
      = Inr ((bump_tid (upd_iface (local_end s l) (setStatus st) s))\<lparr>mih_target := Some (mac_node ms m)\<rparr>,
          map (\<lambda>u. ToUser u (MihEvent ev)) (getRegisteredLocalUser le i) @ [MihSend (Some (mac_node ms m)) q])
    \<and> daddr q = dst \<and> mih_aid (mih_hdr q) = aid \<and> payload (mih_hdr q) = pl \<and> mih_service_id (mih_hdr q) = MIH_EVENT_SERVICE \<and> mih_opcode (mih_hdr q) = MIH_INDICATION"
proof -
  let ?s = "upd_iface (local_end s l) (setStatus st) s" and ?p = "snd (indication len aid pl (upd_iface (local_end s l) (setStatus st) s) r)"
  have h: "mih_service_id (mih_hdr ?p) = MIH_EVENT_SERVICE" "mih_opcode (mih_hdr ?p) = MIH_INDICATION" "\<not> ack_req (mih_hdr ?p)" "mih_aid (mih_hdr ?p) = aid" "payload (mih_hdr ?p) = pl"
    by (simp_all add: indication_def mk_mih_def zero_mih_def)
  from session_send [of "bump_tid ?s" sid r m dst ?p None now n ms] assms(1) h(1-3) obtain q where
    q: "send_message now n ms None ?p (Some r) (bump_tid ?s) = Inr ((bump_tid ?s)\<lparr>mih_target := Some (mac_node ms m)\<rparr>, [MihSend (Some (mac_node ms m)) q])" "mih_hdr q = mih_hdr ?p" "daddr q = dst"
    by (auto simp del: upd_iface_fields)
  then obtain p' where "send_mih_message now n ms None ?p (Some r) (bump_tid ?s) = Inr ((bump_tid ?s)\<lparr>mih_target := Some (mac_node ms m)\<rparr>, p', [MihSend (Some (mac_node ms m)) q])"
    by (auto simp: send_message_def simp del: upd_iface_fields)
  moreover have "fst (indication len aid pl ?s r) = bump_tid ?s" by (simp add: indication_def)
  ultimately have "handle_event now n ms l (Some st) le ev re (indication len aid pl) False s
      = Inr ((bump_tid ?s)\<lparr>mih_target := Some (mac_node ms m)\<rparr>, map (\<lambda>u. ToUser u (MihEvent ev)) (getRegisteredLocalUser le i) @ [MihSend (Some (mac_node ms m)) q])"
    using assms(2,3) by (simp add: handle_event_def Let_def find_iface_status case_prod_unfold del: upd_iface_fields)
  with q(2,3) h show ?thesis by auto
qed

section \<open>A link that is going down\<close>

lemma then_do_end [simp]: "then_do r (sn_deliver react []) = r"
proof -
  have "(\<lambda>(t, out). Inr (t, out)) = (Inr :: simple_node \<times> tm_out list \<Rightarrow> sn_result)" by auto
  then show ?thesis by (cases r) (auto simp: then_do_def)
qed

lemma own_event:
  assumes "find_iface s (local_end s (lg_link e)) = Some j" and "getRegisteredLocalUser MIH_LINK_GOING_DOWN j = [u]" and "getRegisteredRemoteUser MIH_LINK_GOING_DOWN j = []"
  shows "mih_process_link_going_down now n ms e s
    = Inr (upd_iface (local_end s (lg_link e)) (setStatus LINK_STATUS_GOING_DOWN) s, [ToUser u (MihEvent (LinkGoingDown e))])"
  using handle_event_quiet [OF assms(1,3)] assms(2) by (simp add: mih_process_link_going_down_def)

text \<open>What an access point makes of the indication of a terminal.\<close>

lemma ap_told:
  fixes l :: link_id
  assumes "mih_aid (mih_hdr p) = MIH_MSG_LINK_GOING_DOWN" and "payload (mih_hdr p) = GoingDownInd d" and "gi_link d = to_wire l"
    and "mih_service_id (mih_hdr p) = MIH_EVENT_SERVICE" and "mih_opcode (mih_hdr p) = MIH_INDICATION"
    and "find_iface (sn_mih b) (local_end (sn_mih b) l) = Some j" and "getRegisteredLocalUser MIH_LINK_GOING_DOWN j = [sn_user b]" and "getRegisteredRemoteUser MIH_LINK_GOING_DOWN j = []"
  shows "sn_input now ap_reaction (InRecv g p) b
    = ap_link_going_down now l (b\<lparr>sn_mih := upd_iface (local_end (sn_mih b) l) (setStatus LINK_STATUS_GOING_DOWN) (sn_mih b)\<rparr>)"
proof -
  let ?e = "\<lparr>lg_link = l, lg_interval = ucast (gi_timeInterval d), lg_confidence = uint (gi_confidenceLevel d), lg_reason = g, lg_id = ucast (gi_id d)\<rparr>"
  have l: "of_wire (to_wire l) = l" by (simp add: of_wire_def to_wire_def)
  have "mih_recv now g n ms p (sn_mih b) = keep_macs ms (mih_process_link_going_down now n ms ?e (sn_mih b))" for n ms
    using assms(1-5) by (simp add: mih_recv_def Let_def event_ind_def recv_link_going_down_ind_def l)
  then have "mih_recv now g n ms p (sn_mih b) = Inr (ms, upd_iface (local_end (sn_mih b) l) (setStatus LINK_STATUS_GOING_DOWN) (sn_mih b), [ToUser (sn_user b) (MihEvent (LinkGoingDown ?e))])" for n ms
    using own_event [of "sn_mih b" ?e j "sn_user b" now n ms] assms(6-8) by (simp add: keep_macs_def)
  then show ?thesis by (simp add: sn_input_def ap_reaction_def)
qed

text \<open>What a terminal makes of a request to scan one of its own links.\<close>

lemma scan_request_recv:
  assumes "session_up s sid r m dst" and "mih_aid (mih_hdr p) = MIH_MSG_SCAN" and "payload (mih_hdr p) = ScanReq [to_wire l]" and "session_id (mih_hdr p) = sid"
    and "mih_service_id (mih_hdr p) = MIH_COMMAND_SERVICE" and "mih_opcode (mih_hdr p) = MIH_REQUEST"
    and "ss_lastTID (sess_at s r) < uint (transaction_id (mih_hdr p))" and "\<forall>c \<in> set (scan_reqs s). sc_session c \<noteq> sid"
    and "find_iface s (li_mac l) = Some i" and "mi_mac i = Some k" and "li_type l \<in> {LINK_802_11, LINK_802_16}"
  shows "\<exists>s' q. mih_recv now g n ms p s = Inr (ms, s', [MacScan k, MihSend (Some (mac_node ms m)) q])
    \<and> scan_reqs s' = scan_reqs s @ [\<lparr>sc_user = None, sc_req = [to_wire l], sc_session = sid, sc_tid = Some (transaction_id (mih_hdr p)), sc_rsp = []\<rparr>]
    \<and> daddr q = dst \<and> ack_rsp (mih_hdr q)"
proof -
  let ?tid = "transaction_id (mih_hdr p)"
  let ?s1 = "s\<lparr>sess_at := (sess_at s)(r := (sess_at s r)\<lparr>ss_lastTID := uint ?tid\<rparr>)\<rparr>"
  let ?c = "\<lparr>sc_user = None, sc_req = [to_wire l], sc_session = sid, sc_tid = Some ?tid, sc_rsp = []\<rparr>"
  let ?q = "mk_mih ?s1 mih_scan_req_size MIH_COMMAND_SERVICE MIH_RESPONSE MIH_MSG_SCAN ?tid sid NoPayload" let ?q' = "?q\<lparr>mih_hdr := (mih_hdr ?q)\<lparr>ack_rsp := True\<rparr>\<rparr>"
  have l: "of_wire (to_wire l) = l" by (simp add: of_wire_def to_wire_def)
  have "local_end ?s1 l = li_mac l" "mih_get_mac ?s1 (li_mac l) = Inr (Some k)"
    using assms(9,10) by (simp_all add: local_end_def is_local_mac_def isLocal_def mih_get_mac_def find_iface_def)
  then have scan: "new_remote_scan ?s1 sid ?tid [to_wire l] = Inr (?c, [MacScan k])" using assms(11) by (auto simp: new_remote_scan_def l link_scan_def)
  obtain q where q: "send_message now n ms None ?q' (Some r) (?s1\<lparr>scan_reqs := scan_reqs s @ [?c]\<rparr>)
      = Inr (?s1\<lparr>scan_reqs := scan_reqs s @ [?c], mih_target := Some (mac_node ms m)\<rparr>, [MihSend (Some (mac_node ms m)) q])" "mih_hdr q = mih_hdr ?q'" "daddr q = dst"
    using session_send [of "?s1\<lparr>scan_reqs := scan_reqs s @ [?c]\<rparr>" sid r m dst ?q' None now n ms] assms(1) by (auto simp: mk_mih_def zero_mih_def)
  have gs: "get_session s sid = Some r" using assms(1) by (simp add: session_up_def)
  have "recv_mih_scan_req now n ms p s = Inr (?s1\<lparr>scan_reqs := scan_reqs s @ [?c], mih_target := Some (mac_node ms m)\<rparr>, [MacScan k, MihSend (Some (mac_node ms m)) q])"
    using assms(3,4,7,8) gs scan q(1) by (simp add: recv_mih_scan_req_def Let_def reply_def)
  then show ?thesis using assms(2,5,6) q(2,3) by (simp add: mih_recv_def Let_def command_msg_def by_opcode_def keep_macs_def)
qed

lemma upd_iface_more [simp]:
  "next_tid (upd_iface a f s) = next_tid s" "mihfId (upd_iface a f s) = mihfId s" "peer_session (upd_iface a f s) x = peer_session s x"
  by (simp_all add: upd_iface_def next_tid_def peer_session_def get_mihf_info_def mihf_session_def)

lemma find_iface_bump: "find_iface ((bump_tid s)\<lparr>mih_target := x\<rparr>) a = find_iface s a"
  by (simp add: find_iface_def bump_tid_def)

lemma mi_status_set [simp]: "mi_status (setStatus st i) = st"
  by (simp add: setStatus_def)

lemma iface_upd_local: "is_local_mac (upd_iface a (setStatus st) s) x = is_local_mac s x"
proof (cases "x = a")
  case True
  then show ?thesis using find_iface_status [of a st s] by (auto simp: is_local_mac_def isLocal_def split: option.split)
next
  case False
  then have "find (\<lambda>i. mi_macAddr i = x) (upd_first (\<lambda>i. mi_macAddr i = a) (setStatus st) xs) = find (\<lambda>i. mi_macAddr i = x) xs" for xs
    by (induction xs) auto
  then show ?thesis by (simp add: is_local_mac_def find_iface_def upd_iface_def)
qed

text \<open>
  C24: An access point has a terminal scan once, when its wireless link is about to be lost. Let the function of a terminal, which has the identifier 1,
  have a session with an access point that has subscribed to the event and is told of the events of its own end of the link. When the terminal's MAC reports that the link is
  going down, the terminal tells its own users and sends one indication by the session; the access point answers it with one request to scan the
  link, and the terminal scans with the MAC of that link and acknowledges the request. An indication after that makes the access point do nothing more than mark its interface.
\<close>

theorem going_down_scanned_once:
  fixes b :: simple_node and A :: mih_agent and e :: link_going_down_t
  defines "B \<equiv> sn_mih b" and "n \<equiv> he_net (sn_env b)" and "ms \<equiv> he_macs (sn_env b)" and "l \<equiv> lg_link e"
  assumes "session_up A sid ra ma (here_addr B)" and "session_up B sid rb mb dstA" and "peer_session B 1 = Inr (Some rb)" and "mihfId B \<noteq> 1"
    and "li_type l = LINK_802_11" and "find_iface A (li_mac l) = Some i" and "mi_mac i = Some m" and "getRegisteredRemoteUser MIH_LINK_GOING_DOWN i = [ra]"
    and "\<not> is_local_mac B (li_mac l)" and "find_iface B (li_poa l) = Some j" and "getRegisteredLocalUser MIH_LINK_GOING_DOWN j = [sn_user b]" and "getRegisteredRemoteUser MIH_LINK_GOING_DOWN j = []"
    and "sn_scan b" and "ss_lastTID (sess_at A ra) < uint (next_tid B)" and "\<forall>c \<in> set (scan_reqs A). sc_session c \<noteq> sid"
  shows "\<exists>A1 p1 b1 p2 A2 p3 b2. recv_event t1 x n ms (LinkGoingDown e) A
      = Inr (A1, map (\<lambda>u. ToUser u (MihEvent (LinkGoingDown e))) (getRegisteredLocalUser MIH_LINK_GOING_DOWN i) @ [MihSend (Some (mac_node ms ma)) p1]) \<and> daddr p1 = here_addr B
    \<and> sn_input t2 ap_reaction (InRecv y p1) b = Inr (b1, [TmMih (MihSend (Some (mac_node ms mb)) p2)]) \<and> daddr p2 = dstA
    \<and> mih_recv t3 z n ms p2 A1 = Inr (ms, A2, [MacScan m, MihSend (Some (mac_node ms ma)) p3]) \<and> daddr p3 = here_addr B
    \<and> sn_input t4 ap_reaction (InRecv y' p1) b1 = Inr (b2, [])
    \<and> map_option mi_status (find_iface (sn_mih b2) (li_poa l)) = Some LINK_STATUS_GOING_DOWN"
proof -
  have lA: "local_end A l = li_mac l" and lB: "local_end B l = li_poa l" using assms(10,11,13) by (simp_all add: local_end_def is_local_mac_def isLocal_def)
  let ?A1 = "(bump_tid (upd_iface (li_mac l) (setStatus LINK_STATUS_GOING_DOWN) A))\<lparr>mih_target := Some (mac_node ms ma)\<rparr>"
  let ?d = "\<lparr>gi_link = to_wire l, gi_timeInterval = ucast (lg_interval e div 1000), gi_confidenceLevel = word_of_int (lg_confidence e), gi_id = ucast (lg_id e)\<rparr>"
  have ev: "recv_event t1 x n ms (LinkGoingDown e) A = handle_event t1 n ms l (Some LINK_STATUS_GOING_DOWN) MIH_LINK_GOING_DOWN (LinkGoingDown e) MIH_LINK_GOING_DOWN
      (indication mih_link_going_down_ind_size MIH_MSG_LINK_GOING_DOWN (GoingDownInd ?d)) False A"
    by (simp add: recv_event_def mih_process_link_going_down_def l_def)
  have "find_iface A (local_end A l) = Some i" using lA assms(10) by simp
  from session_event [OF assms(5) this assms(12)] obtain p1 where p1:
    "recv_event t1 x n ms (LinkGoingDown e) A = Inr (?A1, map (\<lambda>u. ToUser u (MihEvent (LinkGoingDown e))) (getRegisteredLocalUser MIH_LINK_GOING_DOWN i) @ [MihSend (Some (mac_node ms ma)) p1])"
    "daddr p1 = here_addr B" "mih_aid (mih_hdr p1) = MIH_MSG_LINK_GOING_DOWN" "payload (mih_hdr p1) = GoingDownInd ?d" "mih_service_id (mih_hdr p1) = MIH_EVENT_SERVICE" "mih_opcode (mih_hdr p1) = MIH_INDICATION"
    unfolding ev lA by blast
  note told = ap_told [OF p1(3,4) _ p1(5,6), of l]
  let ?B = "upd_iface (li_poa l) (setStatus LINK_STATUS_GOING_DOWN) B" let ?b = "b\<lparr>sn_mih := ?B\<rparr>"
  have "session_up ?B sid rb mb dstA" "peer_session ?B 1 = Inr (Some rb)" using assms(6,7) by simp_all
  from session_request [OF this, of MIH_COMMAND_SERVICE t2 n ms "sn_user b" mih_event_sub_size MIH_MSG_SCAN 0 "ScanReq [to_wire l]"] obtain p2 req where req:
    "request_peer t2 n ms (Some (sn_user b)) 1 mih_event_sub_size MIH_COMMAND_SERVICE MIH_MSG_SCAN 0 (ScanReq [to_wire l]) ?B
      = Inr ((insert_request (next_tid ?B) req (bump_tid ?B))\<lparr>mih_target := Some (mac_node ms mb)\<rparr>, [MihSend (Some (mac_node ms mb)) p2])"
    and p2: "mih_aid (mih_hdr p2) = MIH_MSG_SCAN" "payload (mih_hdr p2) = ScanReq [to_wire l]" "session_id (mih_hdr p2) = sid" "transaction_id (mih_hdr p2) = next_tid ?B"
    "mih_service_id (mih_hdr p2) = MIH_COMMAND_SERVICE" "mih_opcode (mih_hdr p2) = MIH_REQUEST" "daddr p2 = dstA" by blast
  let ?B1 = "(insert_request (next_tid ?B) req (bump_tid ?B))\<lparr>mih_target := Some (mac_node ms mb)\<rparr>" let ?b1 = "b\<lparr>sn_mih := ?B1, sn_scan := False\<rparr>"
  have b1: "sn_input t2 ap_reaction (InRecv y p1) b = Inr (?b1, [TmMih (MihSend (Some (mac_node ms mb)) p2)])"
    using told [of b j t2 y] lB assms(8,9,14-17) req by (simp add: ap_link_going_down_def on_mih_def B_def n_def ms_def mih_scan_def MAX_SCAN_RESULTS_def del: upd_iface_fields)
  have A1: "session_up ?A1 sid ra ma (here_addr B)" "find_iface ?A1 (li_mac l) = Some (setStatus LINK_STATUS_GOING_DOWN i)" "mi_mac (setStatus LINK_STATUS_GOING_DOWN i) = Some m"
    "ss_lastTID (sess_at ?A1 ra) < uint (transaction_id (mih_hdr p2))" "\<forall>c \<in> set (scan_reqs ?A1). sc_session c \<noteq> sid" "li_type l \<in> {LINK_802_11, LINK_802_16}"
    using assms(5,9-11,18,19) p2(4) by (simp_all add: find_iface_bump find_iface_status del: upd_iface_fields) (simp_all add: upd_iface_def bump_tid_def)
  obtain A2 p3 where p3: "mih_recv t3 z n ms p2 ?A1 = Inr (ms, A2, [MacScan m, MihSend (Some (mac_node ms ma)) p3])" "daddr p3 = here_addr B"
    using scan_request_recv [OF A1(1) p2(1-3,5,6) A1(4,5,2,3,6), of t3 z n ms] by blast
  have find: "find_iface ?B1 a = find_iface ?B a" for a by (simp add: find_iface_def insert_request_def bump_tid_def)
  have "is_local_mac ?B (li_mac l) = is_local_mac B (li_mac l)"
    using iface_upd_local by blast
  then have B1: "local_end ?B1 l = li_poa l" "find_iface ?B1 (li_poa l) = Some (setStatus LINK_STATUS_GOING_DOWN j)"
    using assms(13,14) find by (simp_all add: local_end_def is_local_mac_def find_iface_status)
  with told [of ?b1 _ t4 y'] assms(15,16) have "\<exists>b2. sn_input t4 ap_reaction (InRecv y' p1) ?b1 = Inr (b2, []) \<and> map_option mi_status (find_iface (sn_mih b2) (li_poa l)) = Some LINK_STATUS_GOING_DOWN"
    by (simp add: ap_link_going_down_def find_iface_status)
  with p1(1,2) b1 p2(7) p3 show ?thesis by blast
qed

section \<open>Watching a terminal\<close>

abbreviation going_down :: "32 word" where
  "going_down \<equiv> push_bit (event_no MIH_LINK_GOING_DOWN) 1"

text \<open>A request to subscribe to the event for a link.\<close>

definition asks_for :: "32 word \<Rightarrow> addr \<Rightarrow> link_id \<Rightarrow> mih_packet \<Rightarrow> bool" where
  "asks_for sid dst l q \<longleftrightarrow> mih_aid (mih_hdr q) = MIH_MSG_EVENT_SUBSCRIBE \<and> payload (mih_hdr q) = EventReq (to_wire l) going_down \<and> session_id (mih_hdr q) = sid
     \<and> mih_opcode (mih_hdr q) = MIH_REQUEST \<and> daddr q = dst"

lemma peer_session_upd [simp]:
  "peer_session (insert_request tid q s) f = peer_session s f" "peer_session (bump_tid s) f = peer_session s f" "peer_session (s\<lparr>mih_target := x\<rparr>) f = peer_session s f"
  "peer_session (clear_request tid s) f = peer_session s f"
  "mihfId (insert_request tid q s) = mihfId s" "mihfId (bump_tid s) = mihfId s" "mihfId (clear_request tid s) = mihfId s"
  by (simp_all add: insert_request_def bump_tid_def clear_request_def peer_session_def get_mihf_info_def mihf_session_def)

lemma subscribe_peer_sends:
  assumes "session_up (sn_mih b) sid r m dst" and "peer_session (sn_mih b) f = Inr (Some r)" and "f \<noteq> mihfId (sn_mih b)"
  shows "\<exists>b' reqs. subscribe_peer now f ls b = Inr (b', map (\<lambda>q. TmMih (MihSend (Some (mac_node (he_macs (sn_env b)) m)) q)) reqs) \<and> list_all2 (asks_for sid dst) ls reqs"
  using assms
proof (induction ls arbitrary: b)
  case (Cons l ls)
  let ?B = "sn_mih b" and ?n = "he_net (sn_env b)" and ?ms = "he_macs (sn_env b)"
  from session_request [OF Cons.prems(1,2), of MIH_EVENT_SERVICE now ?n ?ms "sn_user b" mih_event_sub_size MIH_MSG_EVENT_SUBSCRIBE 0 "EventReq (to_wire l) going_down"] obtain q req where
    q: "request_peer now ?n ?ms (Some (sn_user b)) f mih_event_sub_size MIH_EVENT_SERVICE MIH_MSG_EVENT_SUBSCRIBE 0 (EventReq (to_wire l) going_down) ?B
      = Inr ((insert_request (next_tid ?B) req (bump_tid ?B))\<lparr>mih_target := Some (mac_node ?ms m)\<rparr>, [MihSend (Some (mac_node ?ms m)) q])" "asks_for sid dst l q"
    unfolding asks_for_def by blast
  let ?b = "b\<lparr>sn_mih := (insert_request (next_tid ?B) req (bump_tid ?B))\<lparr>mih_target := Some (mac_node ?ms m)\<rparr>\<rparr>"
  have step: "sn_subscribe now False f l going_down b = Inr (?b, [TmMih (MihSend (Some (mac_node ?ms m)) q)])"
    using q(1) Cons.prems(2,3) by (simp add: sn_subscribe_def mih_event_subscribe_def setMIHSession_def Let_def)
  from Cons.IH [of ?b] Cons.prems obtain b' reqs where "subscribe_peer now f ls ?b = Inr (b', map (\<lambda>q. TmMih (MihSend (Some (mac_node ?ms m)) q)) reqs)" "list_all2 (asks_for sid dst) ls reqs"
    by auto
  with step q(2) show ?case by (intro exI [of _ b'] exI [of _ "q # reqs"]) (simp add: then_do_def)
qed simp

lemma sub_request_recv:
  assumes "session_up A sid r m dst" and "asks_for sid d l q" and "find_iface A (li_mac l) = Some i" and "mi_mac i = Some k"
  shows "\<exists>p. mih_step (ms, A) (now, n, InRecv g q)
    = Inr ((fst (link_event_subscribe going_down k ms), (upd_iface (li_mac l) (remote_event_subscribe r going_down) A)\<lparr>mih_target := Some (mac_node ms m)\<rparr>), [MihSend (Some (mac_node ms m)) p])"
proof -
  have l: "of_wire (to_wire l) = l" by (simp add: of_wire_def to_wire_def)
  have le: "local_end A l = li_mac l" using assms(3,4) by (simp add: local_end_def is_local_mac_def isLocal_def)
  let ?ms = "fst (link_event_subscribe going_down k ms)" and ?st = "snd (link_event_subscribe going_down k ms)" and ?A = "upd_iface (li_mac l) (remote_event_subscribe r going_down) A"
  let ?p = "mk_mih A mih_event_sub_size MIH_EVENT_SERVICE MIH_RESPONSE MIH_MSG_EVENT_SUBSCRIBE (transaction_id (mih_hdr q)) sid (EventRsp (to_wire l) ?st)"
  have mn: "mac_node ?ms = mac_node ms" by (simp add: link_event_subscribe_def upd_sap_def Let_def)
  obtain p where p: "send_message now n ?ms None ?p (Some r) ?A = Inr (?A\<lparr>mih_target := Some (mac_node ms m)\<rparr>, [MihSend (Some (mac_node ms m)) p])"
    using session_send [of ?A sid r m dst ?p None now n ?ms] assms(1) mn by (auto simp: mk_mih_def zero_mih_def)
  have "get_session A sid = Some r" using assms(1) by (simp add: session_up_def)
  then have "recv_event_sub_req now n ms q A = Inr (?ms, ?A\<lparr>mih_target := Some (mac_node ms m)\<rparr>, [MihSend (Some (mac_node ms m)) p])"
    using assms(2-4) l le p by (simp add: recv_event_sub_req_def asks_for_def Let_def reply_def keep_macs_def case_prod_unfold)
  then show ?thesis using assms(2) by (simp add: asks_for_def mih_recv_def Let_def by_opcode_def)
qed

lemma sub_requests_recv:
  assumes "session_up A sid r m dst" and "distinct (map mi_macAddr (ifaces A))" and "distinct (map mi_macAddr js)"
    and "\<forall>j \<in> set js. isLocal j \<and> (\<exists>i \<in> set (ifaces A). mi_macAddr i = mi_macAddr j \<and> mi_mac i = mi_mac j)"
    and "list_all2 (asks_for sid d) (map iface_link js) reqs"
  shows "\<exists>A' outs. run_steps mih_step (ms, A) (map (\<lambda>q. (now, n, InRecv g q)) reqs) = Inr ((subscribe_macs going_down js ms, A'), outs) \<and> length outs = length reqs
    \<and> ifaces A' = map (\<lambda>i. if mi_macAddr i \<in> mi_macAddr ` set js then remote_event_subscribe r going_down i else i) (ifaces A)"
  using assms
proof (induction js arbitrary: A ms reqs)
  case Nil
  then show ?case by (simp add: subscribe_macs_def)
next
  case (Cons j js)
  from Cons.prems(5) obtain q qs where q: "reqs = q # qs" "asks_for sid d (iface_link j) q" "list_all2 (asks_for sid d) (map iface_link js) qs" by (auto simp: list_all2_Cons1)
  from Cons.prems(4) obtain i k where i: "i \<in> set (ifaces A)" "mi_macAddr i = mi_macAddr j" "mi_mac i = Some k" "mi_mac j = Some k" by (auto simp: isLocal_def)
  have "find_iface A (li_mac (iface_link j)) = Some i" using find_iface_mem [OF Cons.prems(2) i(1)] i(2) by (simp add: iface_link_def)
  from sub_request_recv [OF Cons.prems(1) q(2) this i(3), of ms now n g] obtain p where step: "mih_step (ms, A) (now, n, InRecv g q)
      = Inr ((fst (link_event_subscribe going_down k ms), (upd_iface (mi_macAddr j) (remote_event_subscribe r going_down) A)\<lparr>mih_target := Some (mac_node ms m)\<rparr>), [MihSend (Some (mac_node ms m)) p])"
    by (auto simp: iface_link_def simp del: mih_step.simps)
  let ?A = "(upd_iface (mi_macAddr j) (remote_event_subscribe r going_down) A)\<lparr>mih_target := Some (mac_node ms m)\<rparr>" and ?ms = "fst (link_event_subscribe going_down k ms)"
  have ifs: "ifaces ?A = map (\<lambda>i. if mi_macAddr i = mi_macAddr j then remote_event_subscribe r going_down i else i) (ifaces A)"
    using upd_first_map [OF Cons.prems(2)] by (simp add: upd_iface_def)
  have keys: "mi_macAddr (remote_event_subscribe r ev i) = mi_macAddr i" "mi_mac (remote_event_subscribe r ev i) = mi_mac i" for r ev i by (simp_all add: remote_event_subscribe_def)
  have "map mi_macAddr (ifaces ?A) = map mi_macAddr (ifaces A)" unfolding ifs by (simp add: keys)
  then have d: "distinct (map mi_macAddr (ifaces ?A))" using Cons.prems(2) by simp
  have "\<exists>i \<in> set (ifaces ?A). mi_macAddr i = a \<and> mi_mac i = mm" if "\<exists>i \<in> set (ifaces A). mi_macAddr i = a \<and> mi_mac i = mm" for a mm
  proof -
    from that obtain i where "i \<in> set (ifaces A)" "mi_macAddr i = a" "mi_mac i = mm" by blast
    then show ?thesis unfolding ifs set_map
      by (intro bexI [of _ "if mi_macAddr i = mi_macAddr j then remote_event_subscribe r going_down i else i"] image_eqI [of _ _ i]) (simp_all add: keys)
  qed
  then have "\<forall>j \<in> set js. isLocal j \<and> (\<exists>i \<in> set (ifaces ?A). mi_macAddr i = mi_macAddr j \<and> mi_mac i = mi_mac j)" using Cons.prems(4) by simp
  from Cons.IH [OF _ d _ this q(3), of ?ms] Cons.prems(1,3) obtain A' outs where IH: "run_steps mih_step (?ms, ?A) (map (\<lambda>q. (now, n, InRecv g q)) qs) = Inr ((subscribe_macs going_down js ?ms, A'), outs)"
    "length outs = length qs" "ifaces A' = map (\<lambda>i. if mi_macAddr i \<in> mi_macAddr ` set js then remote_event_subscribe r going_down i else i) (ifaces ?A)" by auto
  have "ifaces A' = map (\<lambda>i. if mi_macAddr i \<in> mi_macAddr ` set (j # js) then remote_event_subscribe r going_down i else i) (ifaces A)"
    using Cons.prems(3) unfolding IH(3) ifs by (auto simp: keys)
  moreover have "subscribe_macs going_down (j # js) ms = subscribe_macs going_down js ?ms" using i(4) by (simp add: subscribe_macs_def)
  ultimately show ?case using step IH(1,2) q(1) by (simp del: mih_step.simps)
qed

text \<open>The answer of a terminal to the question which links it has.\<close>

lemma status_request_recv:
  assumes "session_up A sid r m dst" and "length (filter isLocal (ifaces A)) \<le> MAX_INTERFACE_PER_NODE" and "mih_aid (mih_hdr p) = MIH_MSG_GET_STATUS" and "payload (mih_hdr p) = GetStatusReq req"
    and "session_id (mih_hdr p) = sid" and "mih_service_id (mih_hdr p) = MIH_COMMAND_SERVICE" and "mih_opcode (mih_hdr p) = MIH_REQUEST"
  shows "\<exists>q. mih_recv now g n ms p A = Inr (ms, A\<lparr>mih_target := Some (mac_node ms m)\<rparr>, [MihSend (Some (mac_node ms m)) q]) \<and> daddr q = dst
    \<and> mih_aid (mih_hdr q) = MIH_MSG_GET_STATUS \<and> mih_service_id (mih_hdr q) = MIH_COMMAND_SERVICE \<and> mih_opcode (mih_hdr q) = MIH_RESPONSE
    \<and> transaction_id (mih_hdr q) = transaction_id (mih_hdr p) \<and> session_id (mih_hdr q) = sid
    \<and> payload (mih_hdr q) = GetStatusRsp (req AND 0x6) (map (\<lambda>j. \<lparr>gs_operationMode = 0, gs_link = to_wire (iface_link j)\<rparr>) (filter isLocal (ifaces A)))"
proof -
  let ?ls = "map iface_link (filter isLocal (ifaces A))"
  let ?q0 = "mk_mih A 0 MIH_COMMAND_SERVICE MIH_RESPONSE MIH_MSG_GET_STATUS (transaction_id (mih_hdr p)) sid (GetStatusRsp (req AND 0x6) (map (\<lambda>l. \<lparr>gs_operationMode = 0, gs_link = to_wire l\<rparr>) ?ls))"
  let ?q = "?q0\<lparr>ptype := ag_type A, psize := ag_size A + mih_get_status_rsp_size\<rparr>"
  have h: "mih_hdr ?q = mih_hdr ?q0" "mih_aid (mih_hdr ?q) = MIH_MSG_GET_STATUS" "mih_service_id (mih_hdr ?q) = MIH_COMMAND_SERVICE" "mih_opcode (mih_hdr ?q) = MIH_RESPONSE" "\<not> ack_req (mih_hdr ?q)"
    "transaction_id (mih_hdr ?q) = transaction_id (mih_hdr p)" "session_id (mih_hdr ?q) = sid"
    "payload (mih_hdr ?q) = GetStatusRsp (req AND 0x6) (map (\<lambda>l. \<lparr>gs_operationMode = 0, gs_link = to_wire l\<rparr>) ?ls)"
    by (simp_all add: mk_mih_def zero_mih_def)
  obtain q where q: "send_message now n ms None ?q (Some r) A = Inr (A\<lparr>mih_target := Some (mac_node ms m)\<rparr>, [MihSend (Some (mac_node ms m)) q])" "mih_hdr q = mih_hdr ?q" "daddr q = dst"
    using session_send [OF assms(1), of ?q None now n ms] h(3-5) by (auto simp del: packet.simps)
  have "local_links A = Inr ?ls" using assms(2) by (simp add: local_links_def Let_def iface_link_def [abs_def])
  moreover have "get_session A sid = Some r" "ss_mihf (sess_at A r) \<noteq> None" using assms(1) by (auto simp: session_up_def)
  ultimately have "recv_mih_get_status_req now n ms p A = Inr (A\<lparr>mih_target := Some (mac_node ms m)\<rparr>, [MihSend (Some (mac_node ms m)) q])"
    using assms(4,5) q(1) by (auto simp: recv_mih_get_status_req_def Let_def reply_def)
  then have "mih_recv now g n ms p A = Inr (ms, A\<lparr>mih_target := Some (mac_node ms m)\<rparr>, [MihSend (Some (mac_node ms m)) q])"
    using assms(3,6,7) by (simp add: mih_recv_def Let_def command_msg_def by_opcode_def keep_macs_def)
  with q(2,3) h(2-8) show ?thesis by (intro exI [of _ q]) (simp add: comp_def)
qed

text \<open>What the access point makes of that answer.\<close>

lemma status_answer_recv:
  assumes "session_up (sn_mih b) sid r m dst" and "peer_session (sn_mih b) f = Inr (Some r)" and "f \<noteq> mihfId (sn_mih b)" and "getMihfId (sn_mih b) sid = Inr f"
    and "pending_reqs (sn_mih b) (transaction_id (mih_hdr p)) = Some req" and "pr_user req = Some (sn_user b)" and "pr_tid req = transaction_id (mih_hdr p)"
    and "mih_aid (mih_hdr p) = MIH_MSG_GET_STATUS" and "mih_service_id (mih_hdr p) = MIH_COMMAND_SERVICE" and "mih_opcode (mih_hdr p) = MIH_RESPONSE" and "session_id (mih_hdr p) = sid"
    and "payload (mih_hdr p) = GetStatusRsp st (map (\<lambda>j. \<lparr>gs_operationMode = 0, gs_link = to_wire (iface_link j)\<rparr>) js)"
  shows "\<exists>b' reqs. sn_input now ap_reaction (InRecv g p) b = Inr (b', map (\<lambda>q. TmMih (MihSend (Some (mac_node (he_macs (sn_env b)) m)) q)) reqs)
    \<and> list_all2 (asks_for sid dst) (map iface_link js) reqs"
proof -
  let ?B = "clear_request (transaction_id (mih_hdr p)) (sn_mih b)" let ?b = "b\<lparr>sn_mih := ?B\<rparr>"
  have "get_session (sn_mih b) sid = Some r" using assms(1) by (simp add: session_up_def)
  then have told: "mih_recv now g n ms p (sn_mih b) = Inr (ms, ?B, [ToUser (sn_user b) (GetStatusConf (mih_hdr p))])" for n ms
    using assms(5-11) by (simp add: mih_recv_def Let_def command_msg_def by_opcode_def recv_mih_get_status_res_def session_answer_def answer_def pending_at_def keep_macs_def)
  have up: "session_up (sn_mih ?b) sid r m dst" "peer_session (sn_mih ?b) f = Inr (Some r)" "f \<noteq> mihfId (sn_mih ?b)" using assms(1-3) by simp_all
  have "getMihfId ?B sid = Inr f" using assms(4) by (simp add: getMihfId_def get_session_def clear_request_def)
  moreover have "of_wire (to_wire l) = l" for l by (simp add: of_wire_def to_wire_def)
  ultimately have "ap_get_status_conf now (mih_hdr p) ?b = subscribe_peer now f (map iface_link js) ?b"
    using assms(11,12) by (simp add: ap_get_status_conf_def comp_def)
  then have "sn_input now ap_reaction (InRecv g p) b = subscribe_peer now f (map iface_link js) ?b" using told by (simp add: sn_input_def ap_reaction_def)
  with subscribe_peer_sends [OF up, of now "map iface_link js"] show ?thesis by simp
qed

text \<open>
  C25: An access point comes to watch the links of a terminal that has a session with it. It asks for the status of the terminal, the terminal answers with all its local links, and the access point sends one request
  for each of them. When the terminal has handled these, the session of the access point is among the remote subscribers of the event that the link is
  going down, for every local interface and for no other, no other subscription has changed, and every MAC of the terminal that supports the event reports it.
\<close>

theorem access_point_watches:
  fixes b :: simple_node and A :: mih_agent
  defines "B \<equiv> sn_mih b" and "n \<equiv> he_net (sn_env b)" and "ms \<equiv> he_macs (sn_env b)" and "js \<equiv> filter isLocal (ifaces A)"
  assumes "session_up A sid ra ma dstB" and "session_up B sid rb mb dstA" and "peer_session B f = Inr (Some rb)" and "getMihfId B sid = Inr f" and "f \<noteq> mihfId B"
    and "pending_reqs B (next_tid B) = None" and "distinct (map mi_macAddr (ifaces A))" and "length js \<le> MAX_INTERFACE_PER_NODE"
  shows "\<exists>B1 p1 A1 p2 b1 reqs A2 outs. mih_get_status t1 n ms (Some (sn_user b)) f 0x4 B = Inr (B1, None, [MihSend (Some (mac_node ms mb)) p1]) \<and> daddr p1 = dstA
    \<and> mih_recv t2 x n ms p1 A = Inr (ms, A1, [MihSend (Some (mac_node ms ma)) p2]) \<and> daddr p2 = dstB
    \<and> sn_input t3 ap_reaction (InRecv y p2) (b\<lparr>sn_mih := B1\<rparr>) = Inr (b1, map (\<lambda>q. TmMih (MihSend (Some (mac_node ms mb)) q)) reqs) \<and> length reqs = length js
    \<and> run_steps mih_step (ms, A1) (map (\<lambda>q. (t4, n, InRecv z q)) reqs) = Inr ((subscribe_macs going_down js ms, A2), outs)
    \<and> ifaces A2 = map (\<lambda>i. if isLocal i then remote_event_subscribe ra going_down i else i) (ifaces A)
    \<and> (\<forall>i \<in> set (ifaces A2). isLocal i \<longrightarrow> ra \<in> set (getRegisteredRemoteUser MIH_LINK_GOING_DOWN i))
    \<and> (\<forall>i \<in> set js. sap_mih (mac_sap ms (the (mi_mac i))) \<and> bit (eventList (mac_sap ms (the (mi_mac i)))) (event_no MIH_LINK_GOING_DOWN)
         \<longrightarrow> event_subscribed (subscribe_macs going_down js ms) (the (mi_mac i)) MIH_LINK_GOING_DOWN)"
proof -
  from session_request [OF assms(6,7), of MIH_COMMAND_SERVICE t1 n ms "sn_user b" mih_reg_req_size MIH_MSG_GET_STATUS 0 "GetStatusReq 0x4"] obtain p1 req where p1:
    "request_peer t1 n ms (Some (sn_user b)) f mih_reg_req_size MIH_COMMAND_SERVICE MIH_MSG_GET_STATUS 0 (GetStatusReq 0x4) B
      = Inr ((insert_request (next_tid B) req (bump_tid B))\<lparr>mih_target := Some (mac_node ms mb)\<rparr>, [MihSend (Some (mac_node ms mb)) p1])"
    "mih_aid (mih_hdr p1) = MIH_MSG_GET_STATUS" "payload (mih_hdr p1) = GetStatusReq 0x4" "session_id (mih_hdr p1) = sid" "transaction_id (mih_hdr p1) = next_tid B"
    "mih_service_id (mih_hdr p1) = MIH_COMMAND_SERVICE" "mih_opcode (mih_hdr p1) = MIH_REQUEST" "daddr p1 = dstA" and req: "pr_user req = Some (sn_user b)" "pr_tid req = next_tid B" by blast
  let ?B1 = "(insert_request (next_tid B) req (bump_tid B))\<lparr>mih_target := Some (mac_node ms mb)\<rparr>" and ?A1 = "A\<lparr>mih_target := Some (mac_node ms ma)\<rparr>"
  have 1: "mih_get_status t1 n ms (Some (sn_user b)) f 0x4 B = Inr (?B1, None, [MihSend (Some (mac_node ms mb)) p1])"
    using p1(1) assms(9) by (simp add: mih_get_status_def)
  from status_request_recv [OF assms(5) assms(12) [unfolded js_def] p1(2-4,6,7), of t2 x n ms] obtain p2 where p2: "mih_recv t2 x n ms p1 A = Inr (ms, ?A1, [MihSend (Some (mac_node ms ma)) p2])" "daddr p2 = dstB"
    "mih_aid (mih_hdr p2) = MIH_MSG_GET_STATUS" "mih_service_id (mih_hdr p2) = MIH_COMMAND_SERVICE" "mih_opcode (mih_hdr p2) = MIH_RESPONSE" "transaction_id (mih_hdr p2) = next_tid B"
    "session_id (mih_hdr p2) = sid" "payload (mih_hdr p2) = GetStatusRsp (0x4 AND 0x6) (map (\<lambda>j. \<lparr>gs_operationMode = 0, gs_link = to_wire (iface_link j)\<rparr>) js)"
    unfolding js_def p1(5) by blast
  have B1: "session_up (sn_mih (b\<lparr>sn_mih := ?B1\<rparr>)) sid rb mb dstA" "peer_session (sn_mih (b\<lparr>sn_mih := ?B1\<rparr>)) f = Inr (Some rb)" "f \<noteq> mihfId (sn_mih (b\<lparr>sn_mih := ?B1\<rparr>))"
    "getMihfId (sn_mih (b\<lparr>sn_mih := ?B1\<rparr>)) sid = Inr f" "pending_reqs (sn_mih (b\<lparr>sn_mih := ?B1\<rparr>)) (transaction_id (mih_hdr p2)) = Some req"
    "pr_user req = Some (sn_user (b\<lparr>sn_mih := ?B1\<rparr>))" "pr_tid req = transaction_id (mih_hdr p2)"
    using assms(6-10) p2(6) req by (simp_all) (simp_all add: getMihfId_def get_session_def insert_request_def bump_tid_def)
  from status_answer_recv [OF B1 p2(3-5,7,8), of t3 y] obtain b1 reqs where reqs: "list_all2 (asks_for sid dstA) (map iface_link js) reqs"
    and 3: "sn_input t3 ap_reaction (InRecv y p2) (b\<lparr>sn_mih := ?B1\<rparr>) = Inr (b1, map (\<lambda>q. TmMih (MihSend (Some (mac_node ms mb)) q)) reqs)"
    by (auto simp: ms_def)
  have js: "distinct (map mi_macAddr js)" "\<forall>j \<in> set js. isLocal j \<and> (\<exists>i \<in> set (ifaces ?A1). mi_macAddr i = mi_macAddr j \<and> mi_mac i = mi_mac j)"
    using assms(11) by (auto simp: js_def distinct_map_filter)
  have "session_up ?A1 sid ra ma dstB" "distinct (map mi_macAddr (ifaces ?A1))" using assms(5,11) by simp_all
  from sub_requests_recv [OF this js reqs, of ms t4 n z] obtain A2 outs where A2: "run_steps mih_step (ms, ?A1) (map (\<lambda>q. (t4, n, InRecv z q)) reqs) = Inr ((subscribe_macs going_down js ms, A2), outs)"
    "ifaces A2 = map (\<lambda>i. if mi_macAddr i \<in> mi_macAddr ` set js then remote_event_subscribe ra going_down i else i) (ifaces A)" by auto
  have "mi_macAddr i \<in> mi_macAddr ` set js \<longleftrightarrow> isLocal i" if "i \<in> set (ifaces A)" for i
    using that assms(11) by (auto simp: js_def distinct_map inj_on_def)
  then have ifs: "ifaces A2 = map (\<lambda>i. if isLocal i then remote_event_subscribe ra going_down i else i) (ifaces A)" unfolding A2(2) by (auto intro: map_cong)
  then have "\<forall>i \<in> set (ifaces A2). isLocal i \<longrightarrow> ra \<in> set (getRegisteredRemoteUser MIH_LINK_GOING_DOWN i)"
    by (auto simp: getRegisteredRemoteUser_def remote_event_subscribe_def isLocal_def LINK_LAST_EVENT_def bit_numeral_rec)
  moreover have "sap_mih (mac_sap ms (the (mi_mac i))) \<and> bit (eventList (mac_sap ms (the (mi_mac i)))) (event_no MIH_LINK_GOING_DOWN)
      \<longrightarrow> event_subscribed (subscribe_macs going_down js ms) (the (mi_mac i)) MIH_LINK_GOING_DOWN" if "i \<in> set js" for i
    using that by (auto simp: subscribe_macs_report bit_numeral_rec)
  moreover have "length reqs = length js" using list_all2_lengthD [OF reqs] by simp
  ultimately show ?thesis using 1 p1(8) p2(1,2) 3 A2(1) ifs by blast
qed

section \<open>A sample terminal and access point\<close>

definition demo_paired :: "32 word \<Rightarrow> addr \<Rightarrow> mac_ref \<Rightarrow> 32 word \<Rightarrow> addr \<Rightarrow> mih_iface list \<Rightarrow> mih_agent" where
  "demo_paired own a m peer dst is = (demo_mih own a [])\<lparr>ifaces := is, mihf_at := (\<lambda>_. blank_mihf\<lparr>mf_id := peer, mf_address := dst, mf_transport := 0x02020202, mf_session := Some (Some 0)\<rparr>),
     next_mihf := 1, peer_mihfs := [0], sess_at := (\<lambda>_. \<lparr>ss_id = 0x800000, ss_macAddr = word_of_nat m, ss_mihf = Some 0, ss_lastTID = - 1\<rparr>), next_sess := 1, sessions := [0]\<rparr>"

definition demo_ap :: simple_node where
  "demo_ap = new_simple_node \<lparr>sn_user = 8, sn_mih = demo_paired 7 0x2001 5 1 0x1801 [event_subscribe 8 0x2F (new_mac_iface demo_macs 5)],
     sn_agent = ho_agent (demo_handover demo_router_host), sn_env = demo_env, sn_scan = False\<rparr>"

lemma demo_paired_facts [simp]:
  "session_up (demo_paired own a m peer dst is) 0x800000 0 k dst' \<longleftrightarrow> dst' = dst \<and> (\<exists>i. find (\<lambda>i. mi_macAddr i = word_of_nat m) is = Some i \<and> mi_mac i = Some k)"
  "peer_session (demo_paired own a m peer dst is) f = (if f = peer then Inr (Some 0) else Inl NullPtr)" "mihfId (demo_paired own a m peer dst is) = own"
  "getMihfId (demo_paired own a m peer dst is) 0x800000 = Inr peer" "pending_reqs (demo_paired own a m peer dst is) tid = None" "ifaces (demo_paired own a m peer dst is) = is"
  "here_addr (demo_paired own a m peer dst is) = a" "scan_reqs (demo_paired own a m peer dst is) = []" "next_tid (demo_paired own a m peer dst is) = 0"
  "ss_lastTID (sess_at (demo_paired own a m peer dst is) r) = - 1"
  by (auto simp: demo_paired_def session_up_def get_session_def mih_get_mac_def find_iface_def blank_mihf_def l2_transport_def l3_transport_def peer_session_def mihf_session_def get_mihf_info_def
      getMihfId_def demo_mih_defs next_tid_def split: option.splits)

lemma demo_ap_facts [simp]:
  "sn_user demo_ap = 8" "sn_scan demo_ap" "sn_env demo_ap = demo_env" "sn_mih demo_ap = demo_paired 7 0x2001 5 1 0x1801 [event_subscribe 8 0x2F (new_mac_iface demo_macs 5)]"
  "he_macs demo_env = demo_macs"
  by (simp_all add: demo_ap_def new_simple_node_def demo_env_def)

lemma demo_mac_iface [simp]: "mi_macAddr (new_mac_iface demo_macs m) = word_of_nat m" "mi_mac (new_mac_iface demo_macs m) = Some m" "isLocal (new_mac_iface demo_macs m)" "mac_node demo_macs m = m"
  by (simp_all add: new_mac_iface_def demo_macs_def isLocal_def)

theorem going_down_scanned_once_witness:
  "let e = \<lparr>lg_link = \<lparr>li_type = LINK_802_11, li_mac = 4, li_poa = 5\<rparr>, lg_interval = 2000, lg_confidence = 80, lg_reason = 0, lg_id = 1\<rparr>;
       A = demo_paired 1 0x1801 4 7 0x2001 [remote_event_subscribe 0 4 (new_mac_iface demo_macs 4)]
   in \<exists>A1 p1 b1 p2 A2 p3. recv_event 1 0 demo_faces demo_macs (LinkGoingDown e) A = Inr (A1, [MihSend (Some 4) p1])
     \<and> sn_input 2 ap_reaction (InRecv 0 p1) demo_ap = Inr (b1, [TmMih (MihSend (Some 5) p2)])
     \<and> mih_recv 3 0 demo_faces demo_macs p2 A1 = Inr (demo_macs, A2, [MacScan 4, MihSend (Some 4) p3])"
proof -
  let ?e = "\<lparr>lg_link = \<lparr>li_type = LINK_802_11, li_mac = 4, li_poa = 5\<rparr>, lg_interval = 2000, lg_confidence = 80, lg_reason = 0, lg_id = 1\<rparr> :: link_going_down_t"
  let ?i = "remote_event_subscribe 0 4 (new_mac_iface demo_macs 4)" and ?j = "event_subscribe 8 0x2F (new_mac_iface demo_macs 5)"
  let ?A = "demo_paired 1 0x1801 4 7 0x2001 [?i]"
  have i: "mi_macAddr ?i = 4" "mi_mac ?i = Some 4" "getRegisteredRemoteUser MIH_LINK_GOING_DOWN ?i = [0]" "getRegisteredLocalUser MIH_LINK_GOING_DOWN ?i = []"
    "mi_macAddr ?j = 5" "mi_mac ?j = Some 5" "getRegisteredLocalUser MIH_LINK_GOING_DOWN ?j = [8]" "getRegisteredRemoteUser MIH_LINK_GOING_DOWN ?j = []"
    by (simp_all add: getRegisteredRemoteUser_def getRegisteredLocalUser_def event_subscribe_def remote_event_subscribe_def new_mac_iface_def demo_macs_def LINK_LAST_EVENT_def bit_numeral_rec)
  have "find_iface ?A 4 = Some ?i" "find_iface (sn_mih demo_ap) 5 = Some ?j" "\<not> is_local_mac (sn_mih demo_ap) 4" "he_net demo_env = demo_faces"
    using i by (simp_all add: find_iface_def is_local_mac_def) (simp add: demo_env_def)
  then show ?thesis
    using going_down_scanned_once [where b = demo_ap and A = ?A and e = ?e and sid = "0x800000" and ra = 0 and ma = 4 and rb = 0 and mb = 5 and dstA = "0x1801" and i = ?i and m = 4 and j = ?j
        and ?t1.0 = 1 and ?t2.0 = 2 and ?t3.0 = 3 and ?t4.0 = 4 and x = 0 and y = 0 and z = 0 and y' = 0] i
    by (simp add: Let_def) blast
qed

theorem access_point_watches_witness:
  "\<exists>B1 p1 A1 p2 b1 q A2 outs. let A = demo_paired 1 0x1801 4 7 0x2001 [new_mac_iface demo_macs 4] in
     mih_get_status 1 demo_faces demo_macs (Some 8) 1 0x4 (sn_mih demo_ap) = Inr (B1, None, [MihSend (Some 5) p1])
     \<and> mih_recv 2 0 demo_faces demo_macs p1 A = Inr (demo_macs, A1, [MihSend (Some 4) p2])
     \<and> sn_input 3 ap_reaction (InRecv 0 p2) (demo_ap\<lparr>sn_mih := B1\<rparr>) = Inr (b1, [TmMih (MihSend (Some 5) q)])
     \<and> run_steps mih_step (demo_macs, A1) [(4, demo_faces, InRecv 0 q)] = Inr ((subscribe_macs going_down [new_mac_iface demo_macs 4] demo_macs, A2), outs)
     \<and> event_subscribed (subscribe_macs going_down [new_mac_iface demo_macs 4] demo_macs) 4 MIH_LINK_GOING_DOWN"
proof -
  let ?A = "demo_paired 1 0x1801 4 7 0x2001 [new_mac_iface demo_macs 4]" and ?j = "event_subscribe 8 0x2F (new_mac_iface demo_macs 5)"
  have j: "mi_macAddr ?j = 5" "mi_mac ?j = Some 5" by simp_all
  have sap: "sap_mih (mac_sap demo_macs 4)" "bit (eventList (mac_sap demo_macs 4)) 2" by (simp_all add: demo_macs_def mac_eventList_def bit_numeral_rec)
  have net: "he_net demo_env = demo_faces" by (simp add: demo_env_def)
  show ?thesis
    using access_point_watches [where b = demo_ap and A = ?A and sid = "0x800000" and ra = 0 and ma = 4 and rb = 0 and mb = 5 and dstA = "0x1801" and dstB = "0x2001" and f = 1
        and ?t1.0 = 1 and ?t2.0 = 2 and ?t3.0 = 3 and ?t4.0 = 4 and x = 0 and y = 0 and z = 0] j sap net
    by (simp add: MAX_INTERFACE_PER_NODE_def length_Suc_conv del: mih_step.simps run_steps.simps push_bit_of_1) (auto simp del: mih_step.simps run_steps.simps)
qed

end
