(* ===== verification/Mac_Stats.thy ===== *)
theory Mac_Stats
  imports Prelude
begin

text \<open>
  Statistics of a MAC (ns-2.29-ori/mac/mac-stats.h): a weighted average of samples with thresholds, and one for a throughput.
  A quotient by 0, which the code computes as an infinite \<^verbatim>\<open>double\<close>, is 0 here. The timer of a watch is never started.
\<close>

section \<open>StatWatch\<close>

datatype threshold_action_t = NO_ACTION_TH | INIT_ACTION_TH | ROLLBACK_ACTION_TH | EXEC_ACTION_TH

record stat_watch =
  sw_alpha :: real
  sw_current :: real
  sw_average :: real
  sw_old_average :: real
  sw_instant :: real
  sw_total :: real
  sw_sample_number :: int
  sw_pos_gradient :: bool
  sw_delay :: real
  sw_pending :: threshold_action_t
  sw_ts :: time
  sw_th_set :: bool
  sw_init_sent :: bool
  sw_init_th :: real
  sw_rollback_th :: real
  sw_exec_th :: real

text \<open>The constructor leaves \<^verbatim>\<open>old_average_\<close> and \<^verbatim>\<open>ts_\<close> unset; they are written before they are read.\<close>

definition new_stat_watch :: "stat_watch \<Rightarrow> stat_watch" where
  "new_stat_watch w = w\<lparr>sw_alpha := 1, sw_pos_gradient := True, sw_current := 0, sw_average := 0, sw_instant := 0, sw_total := 0,
     sw_sample_number := 0, sw_th_set := False, sw_init_sent := False, sw_init_th := 0, sw_rollback_th := 0, sw_exec_th := 0,
     sw_pending := NO_ACTION_TH, sw_delay := 0\<rparr>"

definition set_thresholds :: "real \<Rightarrow> real \<Rightarrow> real \<Rightarrow> stat_watch \<Rightarrow> stat_watch res" where
  "set_thresholds init_th rollback_th exec_th w =
     check AssertFail (sw_pos_gradient w \<and> rollback_th \<le> init_th \<and> init_th \<le> exec_th \<or> \<not> sw_pos_gradient w \<and> rollback_th \<ge> init_th \<and> init_th \<ge> exec_th)
       (Inr (w\<lparr>sw_init_th := init_th, sw_rollback_th := rollback_th, sw_exec_th := exec_th, sw_th_set := True\<rparr>))"

text \<open>The comparison of values in the direction of the gradient: the code has every condition twice, with the inequalities reversed.\<close>

definition before :: "stat_watch \<Rightarrow> real \<Rightarrow> real \<Rightarrow> bool" where
  "before w x y \<longleftrightarrow> (if sw_pos_gradient w then x < y else y < x)"

definition crossed_action :: "stat_watch \<Rightarrow> threshold_action_t" where
  "crossed_action w =
     (if before w (sw_rollback_th w) (sw_old_average w) \<and> \<not> before w (sw_rollback_th w) (sw_average w) \<and> sw_init_sent w then ROLLBACK_ACTION_TH
      else if before w (sw_old_average w) (sw_exec_th w) \<and> \<not> before w (sw_average w) (sw_exec_th w) then EXEC_ACTION_TH
      else if before w (sw_old_average w) (sw_init_th w) \<and> \<not> before w (sw_average w) (sw_init_th w) then INIT_ACTION_TH
      else NO_ACTION_TH)"

definition action_cancelled :: "stat_watch \<Rightarrow> bool" where
  "action_cancelled w \<longleftrightarrow>
     sw_pending w = ROLLBACK_ACTION_TH \<and> before w (sw_rollback_th w) (sw_average w)
     \<or> sw_pending w = EXEC_ACTION_TH \<and> before w (sw_average w) (sw_exec_th w)
     \<or> sw_pending w = INIT_ACTION_TH \<and> before w (sw_average w) (sw_init_th w)"

definition evaluate_thresholds :: "time \<Rightarrow> stat_watch \<Rightarrow> stat_watch \<times> threshold_action_t" where
  "evaluate_thresholds now w =
     (if sw_th_set w then
        let w1 = (if crossed_action w \<noteq> NO_ACTION_TH then w\<lparr>sw_pending := crossed_action w, sw_ts := now + sw_delay w\<rparr>
                  else if action_cancelled w then w\<lparr>sw_pending := NO_ACTION_TH\<rparr> else w)
        in if sw_pending w1 \<noteq> NO_ACTION_TH \<and> now \<ge> sw_ts w1 then (w1\<lparr>sw_pending := NO_ACTION_TH\<rparr>, sw_pending w1) else (w1, NO_ACTION_TH)
      else (w, NO_ACTION_TH))"

definition sw_update :: "time \<Rightarrow> real \<Rightarrow> stat_watch \<Rightarrow> stat_watch \<times> threshold_action_t" where
  "sw_update now v w =
     evaluate_thresholds now (w\<lparr>sw_old_average := sw_average w, sw_average := sw_alpha w * v + (1 - sw_alpha w) * sw_average w,
       sw_total := sw_total w + v, sw_sample_number := sw_sample_number w + 1, sw_instant := v\<rparr>)"

section \<open>ThroughputWatch\<close>

record throughput_watch =
  tw_watch :: stat_watch
  tw_size :: stat_watch
  tw_time :: stat_watch

definition new_throughput_watch :: "throughput_watch \<Rightarrow> throughput_watch" where
  "new_throughput_watch w = \<lparr>tw_watch = new_stat_watch (tw_watch w), tw_size = new_stat_watch (tw_size w), tw_time = new_stat_watch (tw_time w)\<rparr>"

definition tw_set_alpha :: "real \<Rightarrow> throughput_watch \<Rightarrow> throughput_watch" where
  "tw_set_alpha a w = w\<lparr>tw_size := (tw_size w)\<lparr>sw_alpha := a\<rparr>, tw_time := (tw_time w)\<lparr>sw_alpha := a\<rparr>\<rparr>"

definition tw_update :: "time \<Rightarrow> real \<Rightarrow> throughput_watch \<Rightarrow> throughput_watch \<times> threshold_action_t" where
  "tw_update now len w =
     (let s = fst (sw_update now len (tw_size w));
          t = fst (sw_update now (now - sw_current (tw_time w)) (tw_time w));
          (b, a) = evaluate_thresholds now ((tw_watch w)\<lparr>sw_old_average := sw_average (tw_watch w), sw_average := sw_average s / sw_average t\<rparr>)
      in (\<lparr>tw_watch = b, tw_size = s, tw_time = t\<lparr>sw_current := now\<rparr>\<rparr>, a))"

section \<open>Averages and thresholds\<close>

lemma evaluate_keeps [simp]:
  "sw_average (fst (evaluate_thresholds now w)) = sw_average w" "sw_alpha (fst (evaluate_thresholds now w)) = sw_alpha w"
  "sw_current (fst (evaluate_thresholds now w)) = sw_current w" "sw_pos_gradient (fst (evaluate_thresholds now w)) = sw_pos_gradient w"
  "sw_instant (fst (evaluate_thresholds now w)) = sw_instant w" "sw_old_average (fst (evaluate_thresholds now w)) = sw_old_average w"
  by (simp_all add: evaluate_thresholds_def Let_def)

lemma sw_update_average: "sw_average (fst (sw_update now v w)) = sw_alpha w * v + (1 - sw_alpha w) * sw_average w"
  by (simp add: sw_update_def)

lemma sw_update_keeps [simp]:
  "sw_alpha (fst (sw_update now v w)) = sw_alpha w" "sw_current (fst (sw_update now v w)) = sw_current w"
  by (simp_all add: sw_update_def)

text \<open>An average stays in every interval that it started in and that contains the samples.\<close>

definition sw_run :: "(time \<times> real) list \<Rightarrow> stat_watch \<Rightarrow> stat_watch" where
  "sw_run = fold (\<lambda>(now, v) w. fst (sw_update now v w))"

lemma sw_run_keeps: "sw_alpha (sw_run vs w) = sw_alpha w"
  by (induction vs arbitrary: w) (auto simp: sw_run_def)

lemma sw_run_bounds:
  assumes "0 \<le> sw_alpha w" "sw_alpha w \<le> 1" "lo \<le> sw_average w" "sw_average w \<le> hi" "\<forall>(t, v) \<in> set vs. lo \<le> v \<and> v \<le> hi"
  shows "lo \<le> sw_average (sw_run vs w) \<and> sw_average (sw_run vs w) \<le> hi"
  using assms
proof (induction vs arbitrary: w)
  case Nil
  then show ?case by (simp add: sw_run_def)
next
  case (Cons p vs)
  obtain t v where p: "p = (t, v)" by fastforce
  let ?w = "fst (sw_update t v w)"
  have "lo \<le> v" "v \<le> hi" using Cons.prems(5) p by auto
  then have "lo \<le> sw_alpha w * v + (1 - sw_alpha w) * sw_average w" "sw_alpha w * v + (1 - sw_alpha w) * sw_average w \<le> hi"
    using convex_bound_le [of v hi "sw_average w" "sw_alpha w" "1 - sw_alpha w"] convex_bound_le [of "- v" "- lo" "- sw_average w" "sw_alpha w" "1 - sw_alpha w"] Cons.prems(1-4)
    by (simp_all add: algebra_simps)
  then have "lo \<le> sw_average ?w" "sw_average ?w \<le> hi" "sw_alpha ?w = sw_alpha w" by (simp_all add: sw_update_average)
  with Cons.IH [of ?w] Cons.prems show ?case by (simp add: sw_run_def p)
qed

end
