(* ===== verification/Mac_Timers.thy ===== *)
theory Mac_Timers
  imports Prelude
begin

text \<open>
  The timers of the 802.11 MAC (ns-2.29-ori/mac/mac-timers.cc, mac-timers.h). A busy timer that is not paused has an event at the
  sum of its start time, its remaining time and, for the backoff, the wait before the countdown. What a timer calls when it goes off is
  in the MAC.
\<close>

record mac_timer =
  mt_busy :: bool
  mt_paused :: bool
  mt_stime :: time
  mt_rtime :: time
  mt_difs_wait :: time

definition new_mac_timer :: mac_timer where
  "new_mac_timer = \<lparr>mt_busy = False, mt_paused = False, mt_stime = 0, mt_rtime = 0, mt_difs_wait = 0\<rparr>"

definition mt_start :: "time \<Rightarrow> time \<Rightarrow> mac_timer \<Rightarrow> mac_timer res" where
  "mt_start now t m = check AssertFail (\<not> mt_busy m \<and> t \<ge> 0) (Inr (m\<lparr>mt_busy := True, mt_paused := False, mt_stime := now, mt_rtime := t\<rparr>))"

definition mt_stop :: "mac_timer \<Rightarrow> mac_timer res" where
  "mt_stop m = check AssertFail (mt_busy m) (Inr (m\<lparr>mt_busy := False, mt_paused := False, mt_stime := 0, mt_rtime := 0\<rparr>))"

definition mt_expire :: "time \<Rightarrow> mac_timer \<Rightarrow> time" where
  "mt_expire now m = mt_stime m + mt_rtime m - now"

text \<open>The first part of \<^verbatim>\<open>handle\<close>; for the other timers than the backoff \<^verbatim>\<open>difs_wait\<close> is 0 at all times.\<close>

definition mt_handle :: "mac_timer \<Rightarrow> mac_timer" where
  "mt_handle m = new_mac_timer"

text \<open>\<open>r\<close> is the value of \<^verbatim>\<open>Random::random()\<close>.\<close>

definition bo_start :: "time \<Rightarrow> time \<Rightarrow> nat \<Rightarrow> 32 word \<Rightarrow> bool \<Rightarrow> mac_timer \<Rightarrow> mac_timer res" where
  "bo_start now slot r window idle m =
     check AssertFail (\<not> mt_busy m \<and> (idle \<longrightarrow> real (r mod (unat window + 1)) * slot \<ge> 0))
       (Inr (m\<lparr>mt_busy := True, mt_paused := \<not> idle, mt_stime := now, mt_rtime := real (r mod (unat window + 1)) * slot, mt_difs_wait := 0\<rparr>))"

definition idle_slots :: "time \<Rightarrow> time \<Rightarrow> mac_timer \<Rightarrow> int" where
  "idle_slots now slot m = max 0 \<lfloor>(now - (mt_stime m + mt_difs_wait m)) / slot\<rfloor>"

definition bo_pause :: "time \<Rightarrow> time \<Rightarrow> mac_timer \<Rightarrow> mac_timer res" where
  "bo_pause now slot m =
     (let rt = mt_rtime m - of_int (idle_slots now slot m) * slot
      in check AssertFail (mt_busy m \<and> \<not> mt_paused m \<and> rt \<ge> 0) (Inr (m\<lparr>mt_paused := True, mt_rtime := rt, mt_difs_wait := 0\<rparr>)))"

definition bo_resume :: "time \<Rightarrow> time \<Rightarrow> mac_timer \<Rightarrow> mac_timer res" where
  "bo_resume now difs m =
     check AssertFail (mt_busy m \<and> mt_paused m \<and> mt_rtime m + difs \<ge> 0) (Inr (m\<lparr>mt_paused := False, mt_stime := now, mt_difs_wait := difs\<rparr>))"

text \<open>The time at which the event of a running timer is due.\<close>

definition mt_due :: "mac_timer \<Rightarrow> time" where
  "mt_due m = mt_stime m + mt_difs_wait m + mt_rtime m"

definition mt_running :: "mac_timer \<Rightarrow> bool" where
  "mt_running m \<longleftrightarrow> mt_busy m \<and> \<not> mt_paused m"

lemmas mt_defs = mt_start_def mt_stop_def mt_handle_def new_mac_timer_def bo_start_def bo_pause_def bo_resume_def

lemma mt_start_idle [simp]: "\<not> mt_busy m \<Longrightarrow> 0 \<le> t \<Longrightarrow> mt_start now t m = Inr (m\<lparr>mt_busy := True, mt_paused := False, mt_stime := now, mt_rtime := t\<rparr>)"
  by (simp add: mt_start_def)

lemma mt_stop_busy [simp]: "mt_busy m \<Longrightarrow> mt_stop m = Inr (m\<lparr>mt_busy := False, mt_paused := False, mt_stime := 0, mt_rtime := 0\<rparr>)"
  by (simp add: mt_stop_def)

lemma new_mac_timer_simps [simp]: "\<not> mt_busy new_mac_timer" "\<not> mt_paused new_mac_timer" "mt_difs_wait new_mac_timer = 0" "mt_rtime new_mac_timer = 0" "mt_stime new_mac_timer = 0"
  by (simp_all add: new_mac_timer_def)

text \<open>
  A countdown that is interrupted before it is due can be paused; what is left of it is what was not counted down yet, rounded up to whole
  slots, and it is taken up again after the wait.
\<close>

lemma bo_pause_resume:
  assumes "mt_running m" and "0 < slot" and "0 \<le> mt_rtime m" and "now \<le> mt_due m" and "0 \<le> difs"
  defines "left \<equiv> mt_rtime m - max 0 (now - (mt_stime m + mt_difs_wait m))"
  shows "\<exists>m1 m2. bo_pause now slot m = Inr m1 \<and> bo_resume now' difs m1 = Inr m2 \<and> mt_running m2 \<and> 0 \<le> mt_rtime m2 \<and> mt_rtime m2 \<le> mt_rtime m
    \<and> left \<le> mt_rtime m2 \<and> mt_rtime m2 < left + slot \<and> mt_due m2 = now' + difs + mt_rtime m2"
proof -
  let ?d = "now - (mt_stime m + mt_difs_wait m)" and ?k = "idle_slots now slot m"
  have "of_int \<lfloor>?d / slot\<rfloor> * slot \<le> ?d" "?d < (of_int \<lfloor>?d / slot\<rfloor> + 1) * slot"
    using assms(2) by (metis floor_divide_lower, metis floor_divide_upper)
  moreover have "0 \<le> \<lfloor>?d / slot\<rfloor> \<longleftrightarrow> 0 \<le> ?d" using assms(2) by (simp add: zero_le_divide_iff)
  ultimately have k: "of_int ?k * slot \<le> max 0 ?d" "max 0 ?d < of_int ?k * slot + slot" "0 \<le> of_int ?k * slot"
    using assms(2) by (cases "0 \<le> ?d"; simp add: idle_slots_def max_def distrib_right)+
  have "0 \<le> mt_rtime m - of_int ?k * slot" using k(1) assms(3,4) by (simp add: mt_due_def)
  then show ?thesis using assms(1,5) k by (auto simp: bo_pause_def bo_resume_def mt_running_def mt_due_def Let_def left_def)
qed

end
