(* ===== verification/Wlan_State.thy ===== *)
theory Wlan_State
  imports Mac_Link Timers Mac_Stats Mac_Timers
begin

text \<open>
  The 802.11 MAC (nist-2/mac/mac-802_11.cc; mac-802_11.h is that of ns-2.29-ori): frames, the state of the class \<^verbatim>\<open>Mac802_11\<close>, and the
  routines that the others are made of. A pointer to a packet is the frame, which carries an identity that stands for the pointer. The queue of
  management frames is a list. The interface queue above is the list of packets that it hands down, one at each call of the callback. An
  operation returns the new state and what it passes to the channel, to the layer above, to the handover function and to the drop
  target. Reports to the handover function are outputs: what it asks of the MAC in return is done after the operation. There is no energy
  model; the macro \<^verbatim>\<open>RETX_TRIGGER\<close> is not defined.
\<close>

section \<open>Frames\<close>

datatype frame_type = MAC_Type_Management | MAC_Type_Control | MAC_Type_Data | MAC_Type_Reserved

abbreviation (input) MAC_Subtype_RTS :: nat where "MAC_Subtype_RTS \<equiv> 0x0B"
abbreviation (input) MAC_Subtype_CTS :: nat where "MAC_Subtype_CTS \<equiv> 0x0C"
abbreviation (input) MAC_Subtype_ACK :: nat where "MAC_Subtype_ACK \<equiv> 0x0D"
abbreviation (input) MAC_Subtype_Data :: nat where "MAC_Subtype_Data \<equiv> 0x00"
abbreviation (input) MAC_Subtype_AssocReq :: nat where "MAC_Subtype_AssocReq \<equiv> 0x00"
abbreviation (input) MAC_Subtype_AssocRes :: nat where "MAC_Subtype_AssocRes \<equiv> 0x01"
abbreviation (input) MAC_Subtype_ProbeReq :: nat where "MAC_Subtype_ProbeReq \<equiv> 0x04"
abbreviation (input) MAC_Subtype_ProbeRes :: nat where "MAC_Subtype_ProbeRes \<equiv> 0x05"
abbreviation (input) MAC_Subtype_Beacon2 :: nat where "MAC_Subtype_Beacon2 \<equiv> 0x08"

abbreviation (input) MAC_BROADCAST :: addr where "MAC_BROADCAST \<equiv> - 1"
abbreviation (input) IBSS_ID :: addr where "IBSS_ID \<equiv> MAC_BROADCAST"

text \<open>The 802.11 header with the fields of the management frames that overlay its end, the common header and the radio information.\<close>

record frame =
  fr_id :: nat
  fc_type :: frame_type
  fc_subtype :: nat
  fc_retry :: bool
  dh_duration :: "16 word"
  dh_ra :: addr
  dh_ta :: addr
  dh_3a :: addr
  dh_scontrol :: "16 word"
  dh_txprob :: real
  supported_rate :: "8 word"
  assoc_status :: bool
  fr_body :: "8 word list"
  ch_size :: int
  ch_txtime :: time
  ch_error :: bool
  ch_message :: bool
  ch_xmit_failure :: bool
  ch_l2timestamp :: time
  ch_next_hop :: addr
  ch_down :: bool
  RxPr :: real
  CPThresh :: real

definition blank_frame :: "nat \<Rightarrow> frame" where
  "blank_frame r = \<lparr>fr_id = r, fc_type = MAC_Type_Management, fc_subtype = 0, fc_retry = False, dh_duration = 0, dh_ra = 0, dh_ta = 0, dh_3a = 0,
     dh_scontrol = 0, dh_txprob = 0, supported_rate = 0, assoc_status = False, fr_body = [], ch_size = 0, ch_txtime = 0, ch_error = False,
     ch_message = False, ch_xmit_failure = False, ch_l2timestamp = 0, ch_next_hop = 0, ch_down = False, RxPr = 0, CPThresh = 0\<rparr>"

text \<open>The cast of a size to \<^verbatim>\<open>u_int32_t\<close>\<close>

definition u32 :: "int \<Rightarrow> int" where
  "u32 x = x mod 2 ^ 32"

section \<open>Management information bases\<close>

record phy_mib =
  CWMin :: "32 word"
  CWMax :: "32 word"
  SlotTime :: time
  SIFSTime :: time
  PreambleLength :: nat
  PLCPHeaderLength :: nat
  PLCPDataRate :: real

record mac_mib =
  RTSThreshold :: int
  ShortRetryLimit :: nat
  LongRetryLimit :: nat
  FailedCount :: int
  RTSFailureCount :: int
  ACKFailureCount :: int

definition getDIFS :: "phy_mib \<Rightarrow> time" where "getDIFS b = SIFSTime b + 2 * SlotTime b"

definition getPLCPhdrLen :: "phy_mib \<Rightarrow> int" where "getPLCPhdrLen b = int ((PreambleLength b + PLCPHeaderLength b) div 8)"

text \<open>The sizes of the frame structures: 32 for \<^verbatim>\<open>hdr_mac802_11\<close> and 4 for the check sequence, and so on.\<close>

definition getHdrLen11 :: "phy_mib \<Rightarrow> int" where "getHdrLen11 b = getPLCPhdrLen b + 32 + 4"
definition getRTSlen :: "phy_mib \<Rightarrow> int" where "getRTSlen b = getPLCPhdrLen b + 20"
definition getCTSlen :: "phy_mib \<Rightarrow> int" where "getCTSlen b = getPLCPhdrLen b + 14"
definition getACKlen :: "phy_mib \<Rightarrow> int" where "getACKlen b = getPLCPhdrLen b + 14"
definition getAssocResplen :: "phy_mib \<Rightarrow> int" where "getAssocResplen b = getPLCPhdrLen b + 20"
definition getAssocReqlen :: "phy_mib \<Rightarrow> int" where "getAssocReqlen b = getPLCPhdrLen b + 20"
definition getBeaconlen :: "phy_mib \<Rightarrow> int" where "getBeaconlen b = getPLCPhdrLen b + 24 + 16"
definition getProbeReqlen :: "phy_mib \<Rightarrow> int" where "getProbeReqlen b = getPLCPhdrLen b + 24"

definition getEIFS :: "phy_mib \<Rightarrow> time" where
  "getEIFS b = SIFSTime b + getDIFS b + real_of_int (8 * getACKlen b) / PLCPDataRate b"

section \<open>State\<close>

datatype mac_state = MAC_IDLE | MAC_POLLING | MAC_RECV | MAC_SEND | MAC_RTS | MAC_CTS | MAC_ACK | MAC_COLL

datatype handover_state = MAC_CONNECTED | MAC_DISCONNECTED | MAC_BEING_CONNECTED

datatype client_status = CLIENT_PENDING | CLIENT_ASSOCIATED

record client =
  cl_id :: addr
  cl_pkt :: "nat option"
  cl_status :: client_status
  cl_timer :: timer
  cl_lifetime :: time
  cl_pkt_pr :: real
  cl_going_down :: bool
  cl_dataRate :: real
  cl_txprob :: stat_watch
  cl_framesize :: stat_watch
  cl_txprob_success :: real
  cl_lastupdate :: time
  cl_rxp :: stat_watch

record bandwidth_info =
  bi_id :: addr
  bi_nb_pkts :: int
  bi_size_pkts :: int
  bi_bw :: real

datatype scan_action = SCAN_ALL | STOP_FIRST

datatype scan_step = SCAN_NONE | SCAN_WAITING | SCAN_ACTIVE

record scan_request =
  rq_action :: scan_action
  rq_probeDelay :: time
  rq_channels :: "int list"
  rq_minChannelTime :: time
  rq_maxChannelTime :: time

record bss_description =
  bd_bss_id :: addr
  bd_beacon_period :: time
  bd_channel :: int

text \<open>The number of channels of a request is the length of its list. A request that was freed is \<^const>\<open>None\<close>.\<close>

record scan_status =
  sc_step :: scan_step
  sc_req :: "scan_request option"
  sc_minTimer :: timer
  sc_maxTimer :: timer
  sc_resp :: "bss_description list option"
  sc_index :: nat
  sc_recvd_response :: bool
  sc_orig_ch :: int

datatype stat_name =
    W_retx | W_rtt | W_rxp | W_numtx | W_numrx | W_qlen | W_pktloss | W_qwait | W_collsize | W_txerror | W_txloss | W_txprob
  | W_occupiedbw | W_txframesize | W_delay | W_jitter

datatype tput_name = W_rxtp | W_txtp | W_rxbw | W_txbw | W_rxsucc | W_txsucc | W_rxcoll | W_txcoll

record mac =
  index :: addr
  bss_id :: addr
  old_bss_id :: addr
  phymib :: phy_mib
  macmib :: mac_mib
  basicRate :: real
  dataRate :: real
  nav :: time
  rx_state :: mac_state
  tx_state :: mac_state
  tx_active :: bool
  hdv_state :: handover_state
  handover :: bool
  pktRx :: "frame option"
  pktTx :: "frame option"
  pktRTS :: "frame option"
  pktCTRL :: "frame option"
  pktManagement :: "frame option"
  managementQueue :: "frame list"
  pktBeacon :: "frame option"
  pktRetransmit :: "nat option"
  last_tx :: "nat option"
  tmpPacket :: "frame option"
  eotPacket :: "frame option"
  EOTtarget :: bool
  tap :: bool
  callback :: bool
  ifq :: "frame list"
  contention :: "32 word"
  ssrc :: nat
  slrc :: nat
  mhIF :: mac_timer
  mhNav :: mac_timer
  mhRecv :: mac_timer
  mhSend :: mac_timer
  mhDefer :: mac_timer
  mhBackoff :: mac_timer
  bssTimer :: timer
  bwTimer :: timer
  beaconTimer :: timer
  probeTimer :: timer
  sta_seqno :: "16 word"
  cache_seqno :: "addr \<Rightarrow> 32 word"
  cache_node_count :: "32 word"
  chan :: int
  channelIDAfterScan :: "addr \<Rightarrow> int"
  RXThreshold :: real
  pr_limit :: real
  bss_timeout :: time
  bw_timeout :: time
  max_beacon_loss :: int
  beacon_interval :: time
  client_lifetime :: time
  minChannelTime :: time
  maxChannelTime :: time
  going_down :: bool
  first_lgd :: bool
  first_datatx :: bool
  eventId :: "32 word"
  nb_error :: int
  nbAccepted :: int
  prev_pr :: real
  prevDelay :: "time option"
  overhead_duration :: time
  coll_overhead_duration :: time
  stats :: "stat_name \<Rightarrow> stat_watch"
  tputs :: "tput_name \<Rightarrow> throughput_watch"
  clients :: "client list"
  collector_bw :: "bandwidth_info list"
  base_station_bw :: real
  scan :: scan_status
  randoms :: "nat \<Rightarrow> nat"
  next_frame :: nat

datatype mac_out =
    MacTx frame
  | MacUp frame
  | MacDrop frame string
  | MacFreq real
  | MacEvent link_event
  | MacScanResult "bss_description list"
  | MacXmitFailure frame string
  | MacEot frame
  | MacTap frame

type_synonym mac_result = "(mac \<times> mac_out list) res"

text \<open>
  The time, the MACs of the host and which of them this is, the reception threshold that the radio has on a channel, and the bytes of a \<^verbatim>\<open>double\<close>.
\<close>

record mac_ctx =
  cx_now :: time
  cx_macs :: macs
  cx_self :: mac_ref
  cx_RXThresh :: "int \<Rightarrow> real"
  cx_bytes :: "real \<Rightarrow> param_value"

section \<open>Statements\<close>

text \<open>A list of statements, each of which sees the state that the one before has left.\<close>

fun stmts :: "(mac \<Rightarrow> mac_result) list \<Rightarrow> mac \<Rightarrow> mac_result" where
  "stmts [] m = Inr (m, [])"
| "stmts (f # fs) m = bind_res (f m) (\<lambda>(m1, out). bind_res (stmts fs m1) (\<lambda>(m2, out2). Inr (m2, out @ out2)))"

definition skip :: "mac \<Rightarrow> mac_result" where
  "skip m = Inr (m, [])"

definition assign :: "(mac \<Rightarrow> mac) \<Rightarrow> mac \<Rightarrow> mac_result" where
  "assign f m = Inr (f m, [])"

definition emit :: "mac_out list \<Rightarrow> mac \<Rightarrow> mac_result" where
  "emit out m = Inr (m, out)"

definition cond :: "(mac \<Rightarrow> bool) \<Rightarrow> (mac \<Rightarrow> mac_result) \<Rightarrow> (mac \<Rightarrow> mac_result) \<Rightarrow> mac \<Rightarrow> mac_result" where
  "cond b f g m = (if b m then f m else g m)"

definition assert_mac :: "(mac \<Rightarrow> bool) \<Rightarrow> mac \<Rightarrow> mac_result" where
  "assert_mac b m = check AssertFail (b m) (Inr (m, []))"

definition with_pkt :: "(mac \<Rightarrow> frame option) \<Rightarrow> (frame \<Rightarrow> mac \<Rightarrow> mac_result) \<Rightarrow> mac \<Rightarrow> mac_result" where
  "with_pkt get f m = need NullPtr (get m) (\<lambda>p. f p m)"

definition set_mac_timer :: "(mac \<Rightarrow> mac_timer res) \<Rightarrow> (mac_timer \<Rightarrow> mac \<Rightarrow> mac) \<Rightarrow> mac \<Rightarrow> mac_result" where
  "set_mac_timer f put m = bind_res (f m) (\<lambda>t. Inr (put t m, []))"

definition report_event :: "link_event option \<Rightarrow> mac \<Rightarrow> mac_result" where
  "report_event e m = Inr (m, case e of None \<Rightarrow> [] | Some x \<Rightarrow> [MacEvent x])"

section \<open>Timers\<close>

definition start_defer :: "mac_ctx \<Rightarrow> (phy_mib \<Rightarrow> time) \<Rightarrow> mac \<Rightarrow> mac_result" where
  "start_defer c t = set_mac_timer (\<lambda>m. mt_start (cx_now c) (t (phymib m)) (mhDefer m)) (\<lambda>x m. m\<lparr>mhDefer := x\<rparr>)"

definition stop_defer :: "mac \<Rightarrow> mac_result" where
  "stop_defer = set_mac_timer (\<lambda>m. mt_stop (mhDefer m)) (\<lambda>x m. m\<lparr>mhDefer := x\<rparr>)"

definition start_send :: "mac_ctx \<Rightarrow> time \<Rightarrow> mac \<Rightarrow> mac_result" where
  "start_send c t = set_mac_timer (\<lambda>m. mt_start (cx_now c) t (mhSend m)) (\<lambda>x m. m\<lparr>mhSend := x\<rparr>)"

definition stop_send :: "mac \<Rightarrow> mac_result" where
  "stop_send = set_mac_timer (\<lambda>m. mt_stop (mhSend m)) (\<lambda>x m. m\<lparr>mhSend := x\<rparr>)"

definition start_recv :: "mac_ctx \<Rightarrow> time \<Rightarrow> mac \<Rightarrow> mac_result" where
  "start_recv c t = set_mac_timer (\<lambda>m. mt_start (cx_now c) t (mhRecv m)) (\<lambda>x m. m\<lparr>mhRecv := x\<rparr>)"

definition stop_recv :: "mac \<Rightarrow> mac_result" where
  "stop_recv = set_mac_timer (\<lambda>m. mt_stop (mhRecv m)) (\<lambda>x m. m\<lparr>mhRecv := x\<rparr>)"

definition start_IF :: "mac_ctx \<Rightarrow> time \<Rightarrow> mac \<Rightarrow> mac_result" where
  "start_IF c t = set_mac_timer (\<lambda>m. mt_start (cx_now c) t (mhIF m)) (\<lambda>x m. m\<lparr>mhIF := x\<rparr>)"

definition is_idle :: "time \<Rightarrow> mac \<Rightarrow> bool" where
  "is_idle now m \<longleftrightarrow> rx_state m = MAC_IDLE \<and> tx_state m = MAC_IDLE \<and> nav m \<le> now"

definition start_backoff :: "mac_ctx \<Rightarrow> mac \<Rightarrow> mac_result" where
  "start_backoff c = stmts [
     set_mac_timer (\<lambda>m. bo_start (cx_now c) (SlotTime (phymib m)) (randoms m 0) (contention m) (is_idle (cx_now c) m) (mhBackoff m)) (\<lambda>x m. m\<lparr>mhBackoff := x\<rparr>),
     assign (\<lambda>m. m\<lparr>randoms := randoms m \<circ> Suc\<rparr>)]"

definition stop_backoff :: "mac \<Rightarrow> mac_result" where
  "stop_backoff = set_mac_timer (\<lambda>m. mt_stop (mhBackoff m)) (\<lambda>x m. m\<lparr>mhBackoff := x\<rparr>)"

definition resume_backoff :: "mac_ctx \<Rightarrow> mac \<Rightarrow> mac_result" where
  "resume_backoff c = set_mac_timer (\<lambda>m. bo_resume (cx_now c) (getDIFS (phymib m)) (mhBackoff m)) (\<lambda>x m. m\<lparr>mhBackoff := x\<rparr>)"

definition pause_backoff :: "mac_ctx \<Rightarrow> mac \<Rightarrow> mac_result" where
  "pause_backoff c = set_mac_timer (\<lambda>m. bo_pause (cx_now c) (SlotTime (phymib m)) (mhBackoff m)) (\<lambda>x m. m\<lparr>mhBackoff := x\<rparr>)"

abbreviation when_mac :: "(mac \<Rightarrow> bool) \<Rightarrow> (mac \<Rightarrow> mac_result) \<Rightarrow> mac \<Rightarrow> mac_result" where
  "when_mac b f \<equiv> cond b f skip"

definition checkBackoffTimer :: "mac_ctx \<Rightarrow> mac \<Rightarrow> mac_result" where
  "checkBackoffTimer c = stmts [
     when_mac (\<lambda>m. is_idle (cx_now c) m \<and> mt_paused (mhBackoff m)) (resume_backoff c),
     when_mac (\<lambda>m. \<not> is_idle (cx_now c) m \<and> mt_busy (mhBackoff m) \<and> \<not> mt_paused (mhBackoff m)) (pause_backoff c)]"

definition setRxState :: "mac_ctx \<Rightarrow> mac_state \<Rightarrow> mac \<Rightarrow> mac_result" where
  "setRxState c s = stmts [assign (\<lambda>m. m\<lparr>rx_state := s\<rparr>), checkBackoffTimer c]"

definition setTxState :: "mac_ctx \<Rightarrow> mac_state \<Rightarrow> mac \<Rightarrow> mac_result" where
  "setTxState c s = stmts [assign (\<lambda>m. m\<lparr>tx_state := s\<rparr>), checkBackoffTimer c]"

section \<open>Times and sizes\<close>

definition sec :: "real \<Rightarrow> time" where "sec t = t / 10 ^ 6"

definition usec :: "time \<Rightarrow> 16 word" where "usec t = word_of_int \<lfloor>t * 10 ^ 6 + 1 / 2\<rfloor>"

definition txtime :: "phy_mib \<Rightarrow> real \<Rightarrow> real \<Rightarrow> time" where
  "txtime b psz drt = real_of_int (8 * getPLCPhdrLen b) / PLCPDataRate b + real_of_int (8 * (let d = psz - getPLCPhdrLen b in if d < 0 then \<lceil>d\<rceil> else \<lfloor>d\<rfloor>)) / drt"

definition txtime_pkt :: "frame \<Rightarrow> time res" where
  "txtime_pkt p = check ExitProcess (ch_txtime p \<ge> 0) (Inr (ch_txtime p))"

abbreviation basic_txtime :: "mac \<Rightarrow> (phy_mib \<Rightarrow> int) \<Rightarrow> time" where
  "basic_txtime m len \<equiv> txtime (phymib m) (real_of_int (len (phymib m))) (basicRate m)"

definition set_nav :: "mac_ctx \<Rightarrow> 16 word \<Rightarrow> mac \<Rightarrow> mac_result" where
  "set_nav c us =
     (let t = real (unat us) / 10 ^ 6 in
      when_mac (\<lambda>m. cx_now c + t > nav m) (stmts [
        assign (\<lambda>m. m\<lparr>nav := cx_now c + t\<rparr>),
        when_mac (\<lambda>m. mt_busy (mhNav m)) (set_mac_timer (\<lambda>m. mt_stop (mhNav m)) (\<lambda>x m. m\<lparr>mhNav := x\<rparr>)),
        set_mac_timer (\<lambda>m. mt_start (cx_now c) t (mhNav m)) (\<lambda>x m. m\<lparr>mhNav := x\<rparr>)]))"

definition inc_cw :: "mac \<Rightarrow> mac" where
  "inc_cw m = (let w = push_bit 1 (contention m) + 1 in m\<lparr>contention := (if w > CWMax (phymib m) then CWMax (phymib m) else w)\<rparr>)"

definition rst_cw :: "mac \<Rightarrow> mac" where
  "rst_cw m = m\<lparr>contention := CWMin (phymib m)\<rparr>"

section \<open>Statistics\<close>

definition upd_stat :: "mac_ctx \<Rightarrow> stat_name \<Rightarrow> real \<Rightarrow> mac \<Rightarrow> mac" where
  "upd_stat c n v m = m\<lparr>stats := (stats m)(n := fst (sw_update (cx_now c) v (stats m n)))\<rparr>"

definition set_current :: "stat_name \<Rightarrow> real \<Rightarrow> mac \<Rightarrow> mac" where
  "set_current n v m = m\<lparr>stats := (stats m)(n := (stats m n)\<lparr>sw_current := v\<rparr>)\<rparr>"

definition upd_tput :: "mac_ctx \<Rightarrow> tput_name \<Rightarrow> real \<Rightarrow> mac \<Rightarrow> mac" where
  "upd_tput c n v m = m\<lparr>tputs := (tputs m)(n := fst (tw_update (cx_now c) v (tputs m n)))\<rparr>"

text \<open>The parameter that a watch reports; the other watches are not updated with a report.\<close>

fun stat_parameter :: "stat_name \<Rightarrow> int" where
  "stat_parameter W_delay = 5"
| "stat_parameter W_jitter = 6"
| "stat_parameter _ = 2"

fun tput_parameter :: "tput_name \<Rightarrow> int" where
  "tput_parameter W_rxtp = 7"
| "tput_parameter W_rxbw = 8"
| "tput_parameter W_txtp = 9"
| "tput_parameter _ = 10"

definition parameters_report :: "mac_ctx \<Rightarrow> int \<Rightarrow> threshold_action_t \<Rightarrow> stat_watch \<Rightarrow> mac \<Rightarrow> mac_result" where
  "parameters_report c par a w m =
     (if a = NO_ACTION_TH then skip m
      else report_event (send_link_parameters_report (cx_macs c) (cx_self c) (index m) (bss_id m) LINK_GENERIC par (cx_bytes c (sw_old_average w)) (cx_bytes c (sw_average w))) m)"

definition update_watch :: "mac_ctx \<Rightarrow> stat_name \<Rightarrow> real \<Rightarrow> mac \<Rightarrow> mac_result" where
  "update_watch c n v m =
     (let (w, a) = sw_update (cx_now c) v (stats m n)
      in parameters_report c (stat_parameter n) a w (m\<lparr>stats := (stats m)(n := w)\<rparr>))"

definition update_throughput :: "mac_ctx \<Rightarrow> tput_name \<Rightarrow> real \<Rightarrow> mac \<Rightarrow> mac_result" where
  "update_throughput c n v m =
     (let (w, a) = tw_update (cx_now c) v (tputs m n)
      in parameters_report c (tput_parameter n) a (tw_watch w) (m\<lparr>tputs := (tputs m)(n := w)\<rparr>))"

definition queue_packet_loss :: "mac_ctx \<Rightarrow> mac \<Rightarrow> mac_result" where
  "queue_packet_loss c = update_watch c W_txloss 1"

definition update_queue_stats :: "mac_ctx \<Rightarrow> int \<Rightarrow> mac \<Rightarrow> mac" where
  "update_queue_stats c len m = upd_stat c W_qlen (real_of_int (len + (if pktTx m = None then 0 else 1))) m"

text \<open>The probability that the station sends in a slot\<close>

definition calculate_txprob :: "mac_ctx \<Rightarrow> mac \<Rightarrow> real" where
  "calculate_txprob c m =
     (let q = sw_average (stats m W_txerror); slot = SlotTime (phymib m); wait = sw_average (stats m W_qwait) in
      if first_datatx m \<and> cx_now c - sw_current (stats m W_txerror) \<le> 1 then
        let l = (if wait < slot then 1 else slot / wait); d = 2 * (1 - 2 * q) * (1 - q) in
        if d \<noteq> 0 then
          let n = (1 - 2 * q) * real (unat (CWMin (phymib m) + 1)) + q * real (unat (CWMin (phymib m))) * (1 - (2 * q) powi (int (ShortRetryLimit (macmib m)) - 1));
              f = (1 - q) * (1 / l - 1)
          in 1 / (n / d + f)
        else 0
      else 0)"

section \<open>Dropping\<close>

definition discard :: "frame \<Rightarrow> string \<Rightarrow> mac \<Rightarrow> mac_result" where
  "discard p why m =
     (if ch_error p then skip m
      else case fc_type p of
        MAC_Type_Management \<Rightarrow> emit [MacDrop p why] m
      | MAC_Type_Control \<Rightarrow>
          if fc_subtype p \<in> {MAC_Subtype_RTS, MAC_Subtype_CTS, MAC_Subtype_ACK}
          then if fc_subtype p = MAC_Subtype_RTS \<and> dh_ta p = index m \<or> dh_ra p = index m then emit [MacDrop p why] m else skip m
          else Inl ExitProcess
      | MAC_Type_Data \<Rightarrow>
          if fc_subtype p = MAC_Subtype_Data
          then if dh_ra p = index m \<or> dh_ta p = index m \<or> dh_ra p = MAC_BROADCAST then emit [MacDrop p why] m else skip m
          else Inl ExitProcess
      | MAC_Type_Reserved \<Rightarrow> Inl ExitProcess)"

definition capture :: "mac_ctx \<Rightarrow> frame \<Rightarrow> mac \<Rightarrow> mac_result" where
  "capture c p m = bind_res (txtime_pkt p) (\<lambda>t. set_nav c (usec (getEIFS (phymib m) + t)) m)"

definition collision :: "mac_ctx \<Rightarrow> frame \<Rightarrow> mac \<Rightarrow> mac_result" where
  "collision c p m =
     (if rx_state m = MAC_RECV \<or> rx_state m = MAC_COLL then
        stmts [
          when_mac (\<lambda>m. rx_state m = MAC_RECV) (setRxState c MAC_COLL),
          assert_mac (\<lambda>m. pktRx m \<noteq> None \<and> mt_busy (mhRecv m)),
          (\<lambda>m. bind_res (txtime_pkt p) (\<lambda>t.
             if t > mt_expire (cx_now c) (mhRecv m)
             then stmts [stop_recv, with_pkt pktRx (\<lambda>q. discard q ''COL''), assign (\<lambda>m. m\<lparr>pktRx := Some p\<rparr>), start_recv c t] m
             else discard p ''COL'' m))] m
      else Inl AssertFail)"

definition rx_resume :: "mac_ctx \<Rightarrow> mac \<Rightarrow> mac_result" where
  "rx_resume c = stmts [assert_mac (\<lambda>m. pktRx m = None \<and> \<not> mt_busy (mhRecv m)), setRxState c MAC_IDLE]"

section \<open>Headers\<close>

definition hdr_dst :: "mac \<Rightarrow> addr \<Rightarrow> frame \<Rightarrow> frame" where
  "hdr_dst m dst p =
     (if sint dst > - 2 then
        if bss_id m = IBSS_ID \<or> index m = bss_id m then p\<lparr>dh_ra := dst\<rparr> else p\<lparr>dh_ra := bss_id m, dh_3a := dst\<rparr>
      else p)"

definition hdr_src :: "addr \<Rightarrow> frame \<Rightarrow> frame" where
  "hdr_src src p = (if sint src > - 2 then p\<lparr>dh_ta := src\<rparr> else p)"

definition getTxDatarate :: "mac \<Rightarrow> frame \<Rightarrow> real" where
  "getTxDatarate m p =
     (if index m = bss_id m \<and> dh_ra p \<noteq> MAC_BROADCAST
      then case find (\<lambda>n. cl_id n = dh_ra p) (clients m) of Some n \<Rightarrow> cl_dataRate n | None \<Rightarrow> dataRate m
      else dataRate m)"

section \<open>Leaving a network\<close>

definition stop_timer :: "mac_timer \<Rightarrow> mac_timer" where
  "stop_timer t = (if mt_busy t then t\<lparr>mt_busy := False, mt_paused := False, mt_stime := 0, mt_rtime := 0\<rparr> else t)"

definition clear_tx_rx :: "mac \<Rightarrow> mac" where
  "clear_tx_rx m = m\<lparr>nav := 0, tx_state := MAC_IDLE, rx_state := MAC_IDLE, tx_active := False, pktRTS := None, pktCTRL := None, pktRx := None, pktTx := None,
     pktManagement := None, managementQueue := [], contention := CWMin (phymib m), ssrc := 0, slrc := 0,
     mhRecv := stop_timer (mhRecv m), mhDefer := stop_timer (mhDefer m), mhSend := stop_timer (mhSend m), mhBackoff := stop_timer (mhBackoff m),
     mhIF := stop_timer (mhIF m), mhNav := stop_timer (mhNav m),
     scan := (scan m)\<lparr>sc_maxTimer := timer_force_cancel (sc_maxTimer (scan m)), sc_minTimer := timer_force_cancel (sc_minTimer (scan m))\<rparr>\<rparr>"

definition LD_RC_EXPLICIT_DISCONNECT :: int where "LD_RC_EXPLICIT_DISCONNECT = 1"
definition LD_RC_PACKET_TIMEOUT :: int where "LD_RC_PACKET_TIMEOUT = 2"
definition LGD_RC_LINK_PARAM_DEGRADING :: int where "LGD_RC_LINK_PARAM_DEGRADING = 1"

definition link_disconnect :: "mac_ctx \<Rightarrow> int \<Rightarrow> mac \<Rightarrow> mac_result" where
  "link_disconnect c reason m =
     (let m1 = clear_tx_rx (m\<lparr>bssTimer := timer_force_cancel (bssTimer m), old_bss_id := bss_id m, bss_id := IBSS_ID, going_down := False, hdv_state := MAC_DISCONNECTED\<rparr>)
      in if old_bss_id m1 \<noteq> IBSS_ID
         then report_event (send_link_down (cx_macs c) (cx_self c) (index m) (old_bss_id m1) reason) (m1\<lparr>first_lgd := False, handover := False\<rparr>)
         else skip m1)"

section \<open>The constructor\<close>

text \<open>The four watches for which a falling value is the alarming one\<close>

definition falling :: "tput_name \<Rightarrow> throughput_watch \<Rightarrow> throughput_watch" where
  "falling n w = (if n \<in> {W_rxtp, W_txtp, W_rxbw, W_txbw} then w\<lparr>tw_watch := (tw_watch w)\<lparr>sw_pos_gradient := False\<rparr>\<rparr> else w)"

text \<open>Fields that are not named are bound to variables of the simulation, or unset; \<open>alpha\<close> and \<open>beta\<close> are the weights of the averages.\<close>

definition new_mac :: "(stat_name \<Rightarrow> real) \<Rightarrow> (tput_name \<Rightarrow> real) \<Rightarrow> mac \<Rightarrow> mac" where
  "new_mac alpha beta m = m\<lparr>bss_id := IBSS_ID, nav := 0, tx_state := MAC_IDLE, rx_state := MAC_IDLE, tx_active := False, hdv_state := MAC_DISCONNECTED, handover := False,
     pktRx := None, pktTx := None, pktRTS := None, pktCTRL := None, pktManagement := None, managementQueue := [], pktBeacon := None, pktRetransmit := None,
     tmpPacket := None, eotPacket := None, EOTtarget := False, tap := False, callback := False, contention := CWMin (phymib m), ssrc := 0, slrc := 0,
     mhIF := new_mac_timer, mhNav := new_mac_timer, mhRecv := new_mac_timer, mhSend := new_mac_timer, mhDefer := new_mac_timer, mhBackoff := new_mac_timer,
     bssTimer := TIMER_IDLE, bwTimer := TIMER_IDLE, beaconTimer := TIMER_IDLE, probeTimer := TIMER_IDLE, sta_seqno := 1, cache_node_count := 0, chan := 1,
     channelIDAfterScan := (\<lambda>_. 0), bss_timeout := 1 / 2, going_down := False, first_lgd := True, first_datatx := False, eventId := 0, nb_error := 0, nbAccepted := 0,
     prev_pr := 0, prevDelay := None, overhead_duration := SIFSTime (phymib m) + getDIFS (phymib m) + basic_txtime m getACKlen,
     coll_overhead_duration := getDIFS (phymib m),
     stats := (\<lambda>n. (new_stat_watch (stats m n))\<lparr>sw_alpha := alpha n\<rparr>), tputs := (\<lambda>n. falling n (tw_set_alpha (beta n) (new_throughput_watch (tputs m n)))),
     clients := [], collector_bw := [],
     scan := (scan m)\<lparr>sc_step := SCAN_NONE, sc_minTimer := TIMER_IDLE, sc_maxTimer := TIMER_IDLE\<rparr>\<rparr>"

end
