(* ===== verification/Wlan_Tx.thy ===== *)
theory Wlan_Tx
  imports Wlan_State
begin

text \<open>
  The sending side of the 802.11 MAC: the frames it makes, the access to the medium by deferring and backing off, retransmission, and the handlers of
  the timers for sending.
\<close>

section \<open>Making frames\<close>

definition alloc_frame :: "(frame \<Rightarrow> frame) \<Rightarrow> (frame \<Rightarrow> mac \<Rightarrow> mac_result) \<Rightarrow> mac \<Rightarrow> mac_result" where
  "alloc_frame f k m = k (f (blank_frame (next_frame m))) (m\<lparr>next_frame := Suc (next_frame m)\<rparr>)"

definition rts_needed :: "mac \<Rightarrow> frame \<Rightarrow> addr \<Rightarrow> bool" where
  "rts_needed m p dst \<longleftrightarrow> \<not> (u32 (ch_size p) < RTSThreshold (macmib m) \<or> dst = MAC_BROADCAST)"

definition sendRTS :: "addr \<Rightarrow> mac \<Rightarrow> mac_result" where
  "sendRTS dst = stmts [
     assert_mac (\<lambda>m. pktTx m \<noteq> None \<and> pktRTS m = None),
     with_pkt pktTx (\<lambda>d m.
       if rts_needed m d dst then
         bind_res (txtime_pkt d) (\<lambda>t.
           alloc_frame (\<lambda>p. p\<lparr>ch_size := getRTSlen (phymib m), fc_type := MAC_Type_Control, fc_subtype := MAC_Subtype_RTS, dh_ra := dst, dh_ta := index m,
               ch_txtime := basic_txtime m getRTSlen,
               dh_duration := usec (SIFSTime (phymib m) + basic_txtime m getCTSlen + SIFSTime (phymib m) + t + SIFSTime (phymib m) + basic_txtime m getACKlen)\<rparr>)
             (\<lambda>p. assign (\<lambda>m. m\<lparr>pktRTS := Some p\<rparr>)) m)
       else skip m)]"

definition sendCTS :: "addr \<Rightarrow> real \<Rightarrow> mac \<Rightarrow> mac_result" where
  "sendCTS dst rts_duration m =
     alloc_frame (\<lambda>p. p\<lparr>ch_size := getCTSlen (phymib m), fc_type := MAC_Type_Control, fc_subtype := MAC_Subtype_CTS, dh_ra := dst, ch_txtime := basic_txtime m getCTSlen,
         dh_duration := usec (sec rts_duration - SIFSTime (phymib m) - basic_txtime m getCTSlen)\<rparr>)
       (\<lambda>p. stmts [assert_mac (\<lambda>m. pktCTRL m = None), assign (\<lambda>m. m\<lparr>pktCTRL := Some p\<rparr>)]) m"

definition sendACK :: "addr \<Rightarrow> mac \<Rightarrow> mac_result" where
  "sendACK dst m =
     alloc_frame (\<lambda>p. p\<lparr>ch_size := getACKlen (phymib m), fc_type := MAC_Type_Control, fc_subtype := MAC_Subtype_ACK, dh_ra := dst, ch_txtime := basic_txtime m getACKlen\<rparr>)
       (\<lambda>p. stmts [assert_mac (\<lambda>m. pktCTRL m = None), assign (\<lambda>m. m\<lparr>pktCTRL := Some p\<rparr>)]) m"

definition data_header :: "mac \<Rightarrow> frame \<Rightarrow> frame" where
  "data_header m p =
     (let n = ch_size p + getHdrLen11 (phymib m); uni = (dh_ra p \<noteq> MAC_BROADCAST)
      in p\<lparr>ch_size := n, fc_type := MAC_Type_Data, fc_subtype := MAC_Subtype_Data, fc_retry := False,
           ch_txtime := txtime (phymib m) (real_of_int n) (if uni then getTxDatarate m p else basicRate m),
           dh_duration := (if uni then usec (basic_txtime m getACKlen + SIFSTime (phymib m)) else 0)\<rparr>)"

text \<open>A station tells the access point the probability with which it sends.\<close>

definition tell_txprob :: "mac \<Rightarrow> frame \<Rightarrow> frame" where
  "tell_txprob m p = (if index m \<noteq> bss_id m then p\<lparr>dh_txprob := sw_instant (stats m W_txprob)\<rparr> else p)"

definition sendDATA :: "mac_ctx \<Rightarrow> frame \<Rightarrow> mac \<Rightarrow> mac_result" where
  "sendDATA c p = stmts [
     assert_mac (\<lambda>m. pktTx m = None),
     when_mac (\<lambda>m. index m \<noteq> bss_id m) (assign (\<lambda>m. upd_stat c W_txprob (calculate_txprob c m) m)),
     assign (\<lambda>m. (upd_stat c W_txframesize (real_of_int (ch_size (data_header m p))) m)\<lparr>first_datatx := True, pktTx := Some (tell_txprob m (data_header m p))\<rparr>)]"

section \<open>Access to the medium\<close>

definition transmit :: "mac_ctx \<Rightarrow> frame \<Rightarrow> time \<Rightarrow> mac \<Rightarrow> mac_result" where
  "transmit c p timeout = stmts [
     assign (\<lambda>m. m\<lparr>tx_active := True\<rparr>),
     when_mac EOTtarget (stmts [assert_mac (\<lambda>m. eotPacket m = None), assign (\<lambda>m. m\<lparr>eotPacket := Some p\<rparr>)]),
     when_mac (\<lambda>m. rx_state m \<noteq> MAC_IDLE) (stmts [assert_mac (\<lambda>m. pktRx m \<noteq> None), assign (\<lambda>m. m\<lparr>pktRx := map_option (\<lambda>q. q\<lparr>ch_error := True\<rparr>) (pktRx m)\<rparr>)]),
     assign (\<lambda>m. set_current W_numtx (cx_now c) (upd_stat c W_numtx (cx_now c - sw_current (stats m W_numtx)) m)),
     emit [MacTx p],
     start_send c timeout,
     (\<lambda>m. bind_res (txtime_pkt p) (\<lambda>t. start_IF c t m)),
     assign (\<lambda>m. m\<lparr>last_tx := Some (fr_id p)\<rparr>)]"

text \<open>If the medium is idle wait for DIFS, otherwise back off; not when one of the timers is running already.\<close>

definition contend :: "mac_ctx \<Rightarrow> mac \<Rightarrow> mac_result" where
  "contend c = when_mac (\<lambda>m. \<not> mt_busy (mhBackoff m))
     (cond (is_idle (cx_now c)) (when_mac (\<lambda>m. \<not> mt_busy (mhDefer m)) (start_defer c getDIFS)) (start_backoff c))"

definition DSSS_MaxPropagationDelay :: time where
  "DSSS_MaxPropagationDelay = 2 / 10 ^ 6"

definition answer_timeout :: "mac \<Rightarrow> time \<Rightarrow> (phy_mib \<Rightarrow> int) \<Rightarrow> time" where
  "answer_timeout m t len = t + DSSS_MaxPropagationDelay + SIFSTime (phymib m) + basic_txtime m len + DSSS_MaxPropagationDelay"

text \<open>
  The routines \<^verbatim>\<open>check_pkt*\<close>, which return \<open>-1\<close> (here \<^const>\<open>None\<close>) when they have nothing to send.
\<close>

type_synonym mac_check = "mac \<Rightarrow> (mac \<times> mac_out list) option res"

definition done_check :: "(mac \<Rightarrow> mac_result) \<Rightarrow> mac_check" where
  "done_check f m = bind_res (f m) (\<lambda>r. Inr (Some r))"

definition check_pktCTRL :: "mac_ctx \<Rightarrow> mac_check" where
  "check_pktCTRL c m =
     (case pktCTRL m of
        None \<Rightarrow> Inr None
      | Some p \<Rightarrow>
          if tx_state m = MAC_CTS \<or> tx_state m = MAC_ACK then Inr None
          else if fc_subtype p = MAC_Subtype_CTS then
            if \<not> is_idle (cx_now c) m then done_check (stmts [discard p ''BSY'', assign (\<lambda>m. m\<lparr>pktCTRL := None\<rparr>)]) m
            else done_check (stmts [setTxState c MAC_CTS,
              (\<lambda>m. transmit c p (basic_txtime m getCTSlen + DSSS_MaxPropagationDelay + sec (real (unat (dh_duration p))) + DSSS_MaxPropagationDelay
                 - SIFSTime (phymib m) - basic_txtime m getACKlen) m)]) m
          else if fc_subtype p = MAC_Subtype_ACK then
            done_check (stmts [setTxState c MAC_ACK, (\<lambda>m. transmit c p (basic_txtime m getACKlen) m)]) m
          else Inl ExitProcess)"

definition traffic_stats :: "mac_ctx \<Rightarrow> frame \<Rightarrow> mac \<Rightarrow> mac_result" where
  "traffic_stats c p = stmts [
     (\<lambda>m. update_throughput c W_txbw ((ch_txtime p + overhead_duration m) * dataRate m) m),
     assign (\<lambda>m. upd_tput c W_txsucc ((ch_txtime p + overhead_duration m) * dataRate m) m)]"

definition check_pktBeacon :: "mac_ctx \<Rightarrow> mac_check" where
  "check_pktBeacon c m =
     check AssertFail (\<not> mt_busy (mhBackoff m))
       (case pktBeacon m of
          None \<Rightarrow> Inr None
        | Some p \<Rightarrow>
            if \<not> is_idle (cx_now c) m then done_check (start_defer c getDIFS) m
            else done_check (stmts [setTxState c MAC_SEND,
              (\<lambda>m. bind_res (txtime_pkt p) (\<lambda>t. stmts [traffic_stats c p, transmit c p t] m))]) m)"

definition busy_backoff :: "mac_ctx \<Rightarrow> mac \<Rightarrow> mac_result" where
  "busy_backoff c = stmts [assign inc_cw, start_backoff c]"

definition check_pktManagement :: "mac_ctx \<Rightarrow> mac_check" where
  "check_pktManagement c m =
     check AssertFail (\<not> mt_busy (mhBackoff m))
       (case pktManagement m of
          None \<Rightarrow> Inr None
        | Some p \<Rightarrow>
            if fc_subtype p \<in> {MAC_Subtype_AssocReq, MAC_Subtype_AssocRes, MAC_Subtype_ProbeRes, MAC_Subtype_ProbeReq} then
              if \<not> is_idle (cx_now c) m then done_check (busy_backoff c) m
              else done_check (stmts [setTxState c MAC_SEND,
                (\<lambda>m. bind_res (txtime_pkt p) (\<lambda>t. stmts [
                   (if dh_ra p \<noteq> MAC_BROADCAST then assign (set_current W_rtt (cx_now c)) else traffic_stats c p),
                   (\<lambda>m. transmit c p (answer_timeout m t getACKlen) m)] m))]) m
            else Inl ExitProcess)"

definition check_pktRTS :: "mac_ctx \<Rightarrow> mac_check" where
  "check_pktRTS c m =
     check AssertFail (\<not> mt_busy (mhBackoff m))
       (case pktRTS m of
          None \<Rightarrow> Inr None
        | Some p \<Rightarrow>
            if fc_subtype p = MAC_Subtype_RTS then
              if \<not> is_idle (cx_now c) m then done_check (busy_backoff c) m
              else done_check (stmts [setTxState c MAC_RTS, (\<lambda>m. transmit c p (answer_timeout m (basic_txtime m getRTSlen) getCTSlen) m)]) m
            else Inl ExitProcess)"

definition check_pktTx :: "mac_ctx \<Rightarrow> mac_check" where
  "check_pktTx c m =
     check AssertFail (\<not> mt_busy (mhBackoff m))
       (case pktTx m of
          None \<Rightarrow> Inr None
        | Some p \<Rightarrow>
            if fc_subtype p = MAC_Subtype_Data then
              if \<not> is_idle (cx_now c) m then done_check (stmts [sendRTS (dh_ra p), busy_backoff c]) m
              else done_check (stmts [setTxState c MAC_SEND,
                (\<lambda>m. bind_res (txtime_pkt p) (\<lambda>t. stmts [
                   (if dh_ra p \<noteq> MAC_BROADCAST then assign (set_current W_rtt (cx_now c)) else traffic_stats c p),
                   (\<lambda>m. transmit c p (if dh_ra p \<noteq> MAC_BROADCAST then answer_timeout m t getACKlen else t) m)] m))]) m
            else Inl ExitProcess)"

text \<open>The first routine that has something to send.\<close>

fun first_check :: "mac_check list \<Rightarrow> mac \<Rightarrow> mac_result" where
  "first_check [] m = Inr (m, [])"
| "first_check (f # fs) m = bind_res (f m) (\<lambda>r. case r of Some x \<Rightarrow> Inr x | None \<Rightarrow> first_check fs m)"

definition backoffHandler :: "mac_ctx \<Rightarrow> mac \<Rightarrow> mac_result" where
  "backoffHandler c m =
     (if pktCTRL m \<noteq> None then check AssertFail (mt_busy (mhSend m) \<or> mt_busy (mhDefer m)) (skip m)
      else first_check [check_pktBeacon c, check_pktManagement c, check_pktRTS c, check_pktTx c] m)"

text \<open>A data frame after an RTS, for which a SIFS was enough.\<close>

definition waited_sifs :: "mac \<Rightarrow> bool res" where
  "waited_sifs m =
     (if pktManagement m = None \<and> pktRTS m = None
      then need NullPtr (pktTx m) (\<lambda>p. Inr (u32 (ch_size p) > RTSThreshold (macmib m) \<and> dh_ra p \<noteq> MAC_BROADCAST)) else Inr False)"

definition deferHandler :: "mac_ctx \<Rightarrow> mac \<Rightarrow> mac_result" where
  "deferHandler c m =
     check AssertFail (pktCTRL m \<noteq> None \<or> pktBeacon m \<noteq> None \<or> pktManagement m \<noteq> None \<or> pktRTS m \<noteq> None \<or> pktTx m \<noteq> None)
       (first_check [check_pktCTRL c, check_pktBeacon c,
          (\<lambda>m. check AssertFail (\<not> mt_busy (mhBackoff m)) (bind_res (waited_sifs m) (\<lambda>b. if b then check_pktTx c m else Inr None))),
          done_check (start_backoff c)] m)"

section \<open>Resuming transmission\<close>

text \<open>
  The interframe space before the next frame: none when the MAC is scanning. The condition tells whether there is a frame at all; otherwise the queue above
  is asked for one.
\<close>

definition defer_next :: "mac_ctx \<Rightarrow> mac \<Rightarrow> mac_result" where
  "defer_next c m =
     (if pktCTRL m \<noteq> None then start_defer c SIFSTime m
      else if pktBeacon m \<noteq> None \<or> pktManagement m \<noteq> None then when_mac (\<lambda>m. \<not> mt_busy (mhBackoff m)) (start_defer c getDIFS) m
      else if sc_step (scan m) \<noteq> SCAN_NONE then skip m
      else if pktRTS m \<noteq> None then when_mac (\<lambda>m. \<not> mt_busy (mhBackoff m)) (start_defer c getDIFS) m
      else case pktTx m of
        Some p \<Rightarrow> when_mac (\<lambda>m. \<not> mt_busy (mhBackoff m))
          (cond (\<lambda>m. u32 (ch_size p) < RTSThreshold (macmib m) \<or> dh_ra p = MAC_BROADCAST) (start_defer c getDIFS) (start_defer c SIFSTime)) m
      | None \<Rightarrow> skip m)"

definition wants_packet :: "mac \<Rightarrow> bool" where
  "wants_packet m \<longleftrightarrow> pktCTRL m = None \<and> pktBeacon m = None \<and> pktManagement m = None \<and> sc_step (scan m) = SCAN_NONE \<and> pktRTS m = None \<and> pktTx m = None \<and> callback m"

text \<open>\<^verbatim>\<open>send\<close>, without the case of an access point that has no associated station\<close>

definition unassociated :: "mac \<Rightarrow> frame \<Rightarrow> bool" where
  "unassociated m p \<longleftrightarrow> index m = bss_id m \<and> dh_ra p \<noteq> MAC_BROADCAST \<and> (\<forall>n \<in> set (clients m). cl_status n \<noteq> CLIENT_ASSOCIATED)"

definition send_frame :: "mac_ctx \<Rightarrow> frame \<Rightarrow> mac \<Rightarrow> mac_result" where
  "send_frame c p m =
     (if pktManagement m \<noteq> None \<or> pktBeacon m \<noteq> None then assign (\<lambda>m. m\<lparr>tmpPacket := Some p, callback := True\<rparr>) m
      else stmts [
        assign (\<lambda>m. m\<lparr>callback := True\<rparr>),
        sendDATA c p,
        sendRTS (dh_ra p),
        assign (\<lambda>m. m\<lparr>pktTx := map_option (\<lambda>q. q\<lparr>dh_scontrol := sta_seqno m\<rparr>) (pktTx m), sta_seqno := sta_seqno m + 1\<rparr>),
        contend c] m)"

text \<open>With it; \<open>resume\<close> is \<^verbatim>\<open>tx_resume\<close>, which calls \<^verbatim>\<open>send\<close> in turn.\<close>

definition send_with :: "(mac \<Rightarrow> mac_result option) \<Rightarrow> mac_ctx \<Rightarrow> frame \<Rightarrow> mac \<Rightarrow> mac_result option" where
  "send_with resume c p m =
     (if unassociated m p then
        (case discard p ''NAS'' m of
           Inl e \<Rightarrow> Some (Inl e)
         | Inr (m1, out) \<Rightarrow>
             let m2 = m1\<lparr>callback := True\<rparr> in
             if \<not> mt_busy (mhBackoff m2) \<and> \<not> mt_busy (mhDefer m2) \<and> \<not> mt_busy (mhSend m2)
             then Option.bind (resume m2) (\<lambda>r. Some (bind_res r (\<lambda>(m3, out2). Inr (m3, out @ out2)))) else Some (Inr (m2, out)))
      else Some (send_frame c p m))"

lemma send_with_mono [partial_function_mono]:
  assumes "\<And>m. mono_option (\<lambda>f. B f m)"
  shows "mono_option (\<lambda>f. send_with (B f) c p m)"
proof (cases "unassociated m p")
  case False
  then show ?thesis by (simp add: send_with_def option.const_mono)
next
  case True
  show ?thesis
  proof (cases "discard p ''NAS'' m")
    case (Inl e)
    with True show ?thesis by (simp add: send_with_def option.const_mono)
  next
    case (Inr r)
    obtain m1 out where "r = (m1, out)" by fastforce
    with True Inr show ?thesis by (simp add: send_with_def Let_def) (intro partial_function_mono assms)
  qed
qed

text \<open>
  \<^verbatim>\<open>tx_resume\<close>; the callback of the queue hands down its next packet by \<^verbatim>\<open>recv\<close>. A call that never returns is \<^const>\<open>None\<close>.
\<close>

definition after_send :: "mac_ctx \<Rightarrow> (mac \<Rightarrow> mac) \<Rightarrow> mac_result \<Rightarrow> mac_result" where
  "after_send c f r = bind_res r (\<lambda>(m, out). bind_res (setTxState c MAC_IDLE (f m)) (\<lambda>(m', out'). Inr (m', out @ out')))"

partial_function (option) tx_loop :: "mac_ctx \<Rightarrow> mac \<Rightarrow> mac_result option" where
  "tx_loop c m =
     (if mt_busy (mhSend m) \<or> mt_busy (mhDefer m) then Some (Inl AssertFail)
      else if \<not> wants_packet m then Some (stmts [defer_next c, setTxState c MAC_IDLE] m)
      else case tmpPacket m of
        Some p \<Rightarrow> Option.bind (send_with (\<lambda>m'. tx_loop c m') c p m) (\<lambda>r. Some (after_send c (\<lambda>m. m\<lparr>tmpPacket := None\<rparr>) r))
      | None \<Rightarrow>
          (let m1 = set_current W_qwait (cx_now c) (m\<lparr>callback := False\<rparr>) in
           case ifq m1 of
             [] \<Rightarrow> Some (setTxState c MAC_IDLE m1)
           | p # ps \<Rightarrow>
               Option.bind (send_with (\<lambda>m'. tx_loop c m') c p (upd_stat c W_qwait (cx_now c - sw_current (stats m1 W_qwait)) (m1\<lparr>ifq := ps\<rparr>)))
                 (\<lambda>r. Some (after_send c id r))))"

definition returned :: "mac_result option \<Rightarrow> mac_result" where
  "returned r = (case r of None \<Rightarrow> Inl NoReturn | Some x \<Rightarrow> x)"

definition tx_resume :: "mac_ctx \<Rightarrow> mac \<Rightarrow> mac_result" where
  "tx_resume c m = returned (tx_loop c m)"

definition mac_send :: "mac_ctx \<Rightarrow> frame \<Rightarrow> mac \<Rightarrow> mac_result" where
  "mac_send c p m = returned (send_with (tx_loop c) c p m)"

section \<open>Retransmission\<close>

text \<open>The count of repetitions is recorded and starts again.\<close>

definition record_retx :: "mac_ctx \<Rightarrow> mac \<Rightarrow> mac" where
  "record_retx c m = set_current W_retx 0 (upd_stat c W_retx (sw_current (stats m W_retx)) m)"

definition count_retx :: "mac \<Rightarrow> mac" where
  "count_retx m = set_current W_retx (sw_current (stats m W_retx) + 1) m"

definition fail_data :: "string \<Rightarrow> frame \<Rightarrow> mac \<Rightarrow> mac_result" where
  "fail_data reason p = stmts [emit [MacXmitFailure p reason], discard p ''RET'']"

definition give_up_data :: "string \<Rightarrow> mac \<Rightarrow> mac_result" where
  "give_up_data reason = stmts [
     with_pkt pktTx (\<lambda>p m.
       if ch_xmit_failure p then fail_data reason (p\<lparr>ch_size := ch_size p - getHdrLen11 (phymib m)\<rparr>) m
       else discard p ''RET'' m),
     assign (\<lambda>m. m\<lparr>pktTx := None\<rparr>)]"

definition mark_retry :: "frame \<Rightarrow> frame" where
  "mark_retry p = p\<lparr>fc_retry := True\<rparr>"

definition RetransmitRTS :: "mac_ctx \<Rightarrow> mac \<Rightarrow> mac_result" where
  "RetransmitRTS c = stmts [
     assert_mac (\<lambda>m. pktTx m \<noteq> None \<and> pktRTS m \<noteq> None \<and> \<not> mt_busy (mhBackoff m)),
     assign (\<lambda>m. m\<lparr>macmib := (macmib m)\<lparr>RTSFailureCount := RTSFailureCount (macmib m) + 1\<rparr>, ssrc := ssrc m + 1\<rparr>),
     cond (\<lambda>m. ssrc m \<ge> ShortRetryLimit (macmib m))
       (stmts [
          with_pkt pktRTS (\<lambda>p. discard p ''RET''), assign (\<lambda>m. m\<lparr>pktRTS := None\<rparr>),
          give_up_data ''RTS'',
          assign (\<lambda>m. record_retx c (rst_cw (m\<lparr>ssrc := 0\<rparr>)))])
       (stmts [
          assign (\<lambda>m. inc_cw (m\<lparr>pktRTS := map_option mark_retry (pktRTS m)\<rparr>)),
          start_backoff c,
          assign count_retx])]"

text \<open>Which of the two counters a data frame uses depends on its size.\<close>

definition short_frame :: "mac \<Rightarrow> frame \<Rightarrow> bool" where
  "short_frame m p \<longleftrightarrow> u32 (ch_size p) \<le> RTSThreshold (macmib m)"

definition count_failure :: "frame \<Rightarrow> mac \<Rightarrow> mac" where
  "count_failure p m = (if short_frame m p then m\<lparr>ssrc := ssrc m + 1\<rparr> else m\<lparr>slrc := slrc m + 1\<rparr>)"

definition reset_count :: "frame \<Rightarrow> mac \<Rightarrow> mac" where
  "reset_count p m = (if short_frame m p then m\<lparr>ssrc := 0\<rparr> else m\<lparr>slrc := 0\<rparr>)"

definition limit_reached :: "frame \<Rightarrow> mac \<Rightarrow> bool" where
  "limit_reached p m \<longleftrightarrow> (if short_frame m p then ssrc m \<ge> ShortRetryLimit (macmib m) else slrc m \<ge> LongRetryLimit (macmib m))"

definition note_error :: "mac_ctx \<Rightarrow> frame \<Rightarrow> mac \<Rightarrow> mac_result" where
  "note_error c p = stmts [
     assign (\<lambda>m. set_current W_txerror (cx_now c) (upd_stat c W_txerror 1 m)),
     when_mac (\<lambda>m. fc_retry p) (stmts [
       assign (\<lambda>m. upd_tput c W_txcoll ((ch_txtime p + coll_overhead_duration m) * dataRate m) m),
       (\<lambda>m. update_throughput c W_txbw ((ch_txtime p + coll_overhead_duration m) * dataRate m) m),
       when_mac (\<lambda>m. bss_id m = index m) (assign (\<lambda>m. set_current W_collsize (cx_now c) (upd_stat c W_collsize (real_of_int (ch_size p)) m)))])]"

definition drop_data :: "mac_ctx \<Rightarrow> frame \<Rightarrow> mac \<Rightarrow> mac_result" where
  "drop_data c p = stmts [
     assign (\<lambda>m. m\<lparr>macmib := (macmib m)\<lparr>FailedCount := FailedCount (macmib m) + 1\<rparr>\<rparr>),
     give_up_data ''ACK'',
     assign (\<lambda>m. record_retx c (rst_cw (reset_count p m))),
     update_watch c W_txloss 1]"

definition repeat_data :: "mac_ctx \<Rightarrow> frame \<Rightarrow> mac \<Rightarrow> mac_result" where
  "repeat_data c p = stmts [
     assign (\<lambda>m. m\<lparr>pktTx := map_option mark_retry (pktTx m)\<rparr>),
     sendRTS (dh_ra p),
     assign inc_cw,
     start_backoff c,
     assign count_retx]"

definition RetransmitDATA :: "mac_ctx \<Rightarrow> mac \<Rightarrow> mac_result" where
  "RetransmitDATA c = stmts [
     assert_mac (\<lambda>m. \<not> mt_busy (mhBackoff m) \<and> pktTx m \<noteq> None \<and> pktRTS m = None),
     with_pkt pktTx (\<lambda>p. stmts [
       note_error c p,
       (if dh_ra p = MAC_BROADCAST then stmts [assign (\<lambda>m. rst_cw (m\<lparr>pktTx := None\<rparr>)), start_backoff c]
        else stmts [
          assign (\<lambda>m. count_failure p (m\<lparr>macmib := (macmib m)\<lparr>ACKFailureCount := ACKFailureCount (macmib m) + 1\<rparr>\<rparr>)),
          cond (limit_reached p) (drop_data c p) (repeat_data c p)])])]"

text \<open>\<^verbatim>\<open>managementQueue_->deque()\<close>\<close>

definition next_management :: "mac \<Rightarrow> mac" where
  "next_management m = (case managementQueue m of [] \<Rightarrow> m\<lparr>pktManagement := None\<rparr> | p # ps \<Rightarrow> m\<lparr>pktManagement := Some p, managementQueue := ps\<rparr>)"

text \<open>\<^verbatim>\<open>remove_entry\<close> of the first client that satisfies a condition\<close>

fun remove_client :: "(client \<Rightarrow> bool) \<Rightarrow> client list \<Rightarrow> client list" where
  "remove_client P [] = []"
| "remove_client P (n # ns) = (if P n then ns else n # remove_client P ns)"

text \<open>
  The timer of a client that is removed is cancelled; it is gone with the client here. \<^verbatim>\<open>cancel\<close> aborts if it is not pending.
\<close>

definition drop_client :: "nat \<Rightarrow> mac \<Rightarrow> mac_result" where
  "drop_client r m =
     (case find (\<lambda>n. cl_pkt n = Some r) (clients m) of
        None \<Rightarrow> skip m
      | Some n \<Rightarrow> bind_res (timer_cancel (cl_timer n)) (\<lambda>_. assign (\<lambda>m. m\<lparr>clients := remove_client (\<lambda>n. cl_pkt n = Some r) (clients m)\<rparr>) m))"

definition RetransmitManagement :: "mac_ctx \<Rightarrow> mac \<Rightarrow> mac_result" where
  "RetransmitManagement c = stmts [
     assert_mac (\<lambda>m. \<not> mt_busy (mhBackoff m) \<and> pktManagement m \<noteq> None),
     with_pkt pktManagement (\<lambda>p.
       if dh_ra p = MAC_BROADCAST then stmts [assign (rst_cw \<circ> next_management), start_backoff c]
       else stmts [
         assign (\<lambda>m. m\<lparr>macmib := (macmib m)\<lparr>ACKFailureCount := ACKFailureCount (macmib m) + 1\<rparr>, ssrc := ssrc m + 1\<rparr>),
         cond (\<lambda>m. ssrc m \<ge> ShortRetryLimit (macmib m))
           (stmts [
              drop_client (fr_id p),
              (if fc_type p = MAC_Type_Management \<and> fc_subtype p = MAC_Subtype_AssocReq then link_disconnect c LD_RC_EXPLICIT_DISCONNECT else skip),
              assign (record_retx c \<circ> next_management)])
           (stmts [
              assign (\<lambda>m. inc_cw (m\<lparr>pktManagement := map_option mark_retry (pktManagement m)\<rparr>)),
              start_backoff c,
              assign count_retx])])]"

section \<open>Timers\<close>

definition frame_is :: "frame option \<Rightarrow> nat option \<Rightarrow> bool" where
  "frame_is p r \<longleftrightarrow> map_option fr_id p = r"

text \<open>The frame that was sent was not acknowledged. A beacon goes first; what it displaced is repeated after it.\<close>

definition retransmit_last :: "mac_ctx \<Rightarrow> mac \<Rightarrow> mac_result" where
  "retransmit_last c m =
     (if frame_is (pktManagement m) (last_tx m) then
        if pktBeacon m \<noteq> None then assign (\<lambda>m. m\<lparr>pktRetransmit := map_option fr_id (pktManagement m)\<rparr>) m else RetransmitManagement c m
      else if frame_is (pktTx m) (last_tx m) then
        if pktBeacon m \<noteq> None then assign (\<lambda>m. m\<lparr>pktRetransmit := map_option fr_id (pktTx m)\<rparr>) m else RetransmitDATA c m
      else skip m)"

definition send_timeout :: "mac_ctx \<Rightarrow> mac \<Rightarrow> mac_result" where
  "send_timeout c m =
     (if frame_is (pktBeacon m) (last_tx m) then
        if pktRetransmit m \<noteq> None then stmts [assign (\<lambda>m. m\<lparr>pktBeacon := None, last_tx := pktRetransmit m, pktRetransmit := None\<rparr>), retransmit_last c] m
        else assign (\<lambda>m. m\<lparr>pktBeacon := None\<rparr>) m
      else retransmit_last c m)"

definition send_timer :: "mac_ctx \<Rightarrow> mac \<Rightarrow> mac_result" where
  "send_timer c = stmts [
     (\<lambda>m. case tx_state m of
        MAC_RTS \<Rightarrow> RetransmitRTS c m
      | MAC_CTS \<Rightarrow> stmts [assert_mac (\<lambda>m. pktCTRL m \<noteq> None), assign (\<lambda>m. m\<lparr>pktCTRL := None\<rparr>)] m
      | MAC_SEND \<Rightarrow> send_timeout c m
      | MAC_ACK \<Rightarrow> stmts [assert_mac (\<lambda>m. pktCTRL m \<noteq> None), assign (\<lambda>m. m\<lparr>pktCTRL := None\<rparr>)] m
      | MAC_IDLE \<Rightarrow> skip m
      | _ \<Rightarrow> Inl AssertFail),
     tx_resume c]"

definition navHandler :: "mac_ctx \<Rightarrow> mac \<Rightarrow> mac_result" where
  "navHandler c = when_mac (\<lambda>m. is_idle (cx_now c) m \<and> mt_paused (mhBackoff m)) (resume_backoff c)"

definition txHandler :: "mac \<Rightarrow> mac_result" where
  "txHandler = stmts [
     when_mac EOTtarget (stmts [assert_mac (\<lambda>m. eotPacket m \<noteq> None), with_pkt eotPacket (\<lambda>p. emit [MacEot p]), assign (\<lambda>m. m\<lparr>eotPacket := None\<rparr>)]),
     assign (\<lambda>m. m\<lparr>tx_active := False\<rparr>)]"

text \<open>\<^verbatim>\<open>handle\<close> of the timers\<close>

definition defer_expire :: "mac_ctx \<Rightarrow> mac \<Rightarrow> mac_result" where
  "defer_expire c m = deferHandler c (m\<lparr>mhDefer := mt_handle (mhDefer m)\<rparr>)"

definition nav_expire :: "mac_ctx \<Rightarrow> mac \<Rightarrow> mac_result" where
  "nav_expire c m = navHandler c (m\<lparr>mhNav := mt_handle (mhNav m)\<rparr>)"

definition send_expire :: "mac_ctx \<Rightarrow> mac \<Rightarrow> mac_result" where
  "send_expire c m = send_timer c (m\<lparr>mhSend := mt_handle (mhSend m)\<rparr>)"

definition if_expire :: "mac \<Rightarrow> mac_result" where
  "if_expire m = txHandler (m\<lparr>mhIF := mt_handle (mhIF m)\<rparr>)"

definition backoff_expire :: "mac_ctx \<Rightarrow> mac \<Rightarrow> mac_result" where
  "backoff_expire c m = backoffHandler c (m\<lparr>mhBackoff := mt_handle (mhBackoff m)\<rparr>)"

end
