(* ===== verification/Wlan_Link.thy ===== *)
theory Wlan_Link
  imports Wlan_Tx
begin

text \<open>
  Association and scanning of the 802.11 MAC: the management frames, the commands of the handover function to connect and to scan, beacons, and the
  timers that go with them.
\<close>

section \<open>Management frames\<close>

definition calFreq :: "int \<Rightarrow> real" where
  "calFreq ch = 2412 * 10 ^ 6 + 5 * 10 ^ 6 * real_of_int (ch - 1)"

definition set_channel :: "mac_ctx \<Rightarrow> int \<Rightarrow> mac \<Rightarrow> mac_result" where
  "set_channel c ch = stmts [
     assert_mac (\<lambda>m. 0 < ch \<and> ch \<le> 11),
     assign (\<lambda>m. m\<lparr>chan := ch, RXThreshold := cx_RXThresh c ch\<rparr>),
     emit [MacFreq (calFreq ch)]]"

definition rate_code :: "real \<Rightarrow> 8 word" where
  "rate_code r = (if r = 1000000 then 1 else if r = 2000000 then 2 else if r = 5500000 then 3 else if r = 11000000 then 4 else 0)"

definition code_rate :: "real \<Rightarrow> 8 word \<Rightarrow> real res" where
  "code_rate own k =
     (if k = 1 then Inr 1000000 else if k = 2 then Inr 2000000 else if k = 3 then Inr 5500000 else if k = 4 then Inr 11000000
      else check AssertFail (k = 0) (Inr own))"

definition ack_duration :: "mac \<Rightarrow> 16 word" where
  "ack_duration m = usec (basic_txtime m getACKlen + SIFSTime (phymib m))"

definition beacon_duration :: "mac \<Rightarrow> 16 word" where
  "beacon_duration m = usec (basic_txtime m getBeaconlen + SIFSTime (phymib m))"

text \<open>The rate of the request is looked up before its destination is relevant: a station uses its own.\<close>

definition sendAssocRequest :: "mac_ctx \<Rightarrow> addr \<Rightarrow> mac \<Rightarrow> mac_result" where
  "sendAssocRequest c dst = stmts [
     assign (\<lambda>m. m\<lparr>hdv_state := MAC_BEING_CONNECTED\<rparr>),
     (\<lambda>m. alloc_frame (\<lambda>p. (hdr_src (index m) p)\<lparr>ch_size := getAssocReqlen (phymib m), fc_type := MAC_Type_Management, fc_subtype := MAC_Subtype_AssocReq, dh_ra := dst\<rparr>)
       (\<lambda>p. stmts [
          assert_mac (\<lambda>m. pktManagement m = None),
          assign (\<lambda>m. m\<lparr>pktManagement := Some (p\<lparr>ch_txtime := txtime (phymib m) (real_of_int (ch_size p)) (getTxDatarate m p),
             dh_duration := ack_duration m, supported_rate := rate_code (dataRate m)\<rparr>)\<rparr>)]) m),
     contend c]"

text \<open>A frame goes into the slot of the next management frame, or behind those that wait.\<close>

definition queue_management :: "frame \<Rightarrow> mac \<Rightarrow> mac" where
  "queue_management p m = (if pktManagement m = None then m\<lparr>pktManagement := Some p\<rparr> else m\<lparr>managementQueue := managementQueue m @ [p]\<rparr>)"

text \<open>The response for a client, which is returned with the frame noted and as pending.\<close>

definition sendAssocResponse :: "addr \<Rightarrow> client \<Rightarrow> mac \<Rightarrow> client \<times> mac" where
  "sendAssocResponse dst cl m =
     (let p = (hdr_dst m dst (hdr_src (index m) (blank_frame (next_frame m))))\<lparr>ch_size := getAssocResplen (phymib m), assoc_status := True,
                fc_type := MAC_Type_Management, fc_subtype := MAC_Subtype_AssocRes, dh_ra := dst\<rparr>;
          q = p\<lparr>ch_txtime := txtime (phymib m) (real_of_int (ch_size p)) (getTxDatarate m p), dh_duration := ack_duration m\<rparr>
      in (cl\<lparr>cl_pkt := Some (fr_id q), cl_status := CLIENT_PENDING\<rparr>,
          queue_management q (m\<lparr>next_frame := Suc (next_frame m), nbAccepted := nbAccepted m + 1\<rparr>)))"

definition sendProbeRequest :: "mac_ctx \<Rightarrow> mac \<Rightarrow> mac_result" where
  "sendProbeRequest c m =
     (if pktManagement m \<noteq> None then skip (m\<lparr>next_frame := Suc (next_frame m)\<rparr>)
      else alloc_frame (\<lambda>p. hdr_dst m MAC_BROADCAST ((hdr_src (index m) p)\<lparr>ch_size := getProbeReqlen (phymib m), fc_type := MAC_Type_Management,
             fc_subtype := MAC_Subtype_ProbeReq\<rparr>))
        (\<lambda>p. stmts [
           assign (\<lambda>m. m\<lparr>pktManagement := Some (p\<lparr>ch_txtime := txtime (phymib m) (real_of_int (ch_size p)) (basicRate m), dh_duration := beacon_duration m\<rparr>)\<rparr>),
           contend c]) m)"

definition sendProbeResponse :: "addr \<Rightarrow> mac \<Rightarrow> mac_result" where
  "sendProbeResponse dst m =
     alloc_frame (\<lambda>p. hdr_dst m dst ((hdr_src (index m) p)\<lparr>ch_size := getProbeReqlen (phymib m), fc_type := MAC_Type_Management, fc_subtype := MAC_Subtype_ProbeRes\<rparr>))
       (\<lambda>p. assign (\<lambda>m. queue_management (p\<lparr>ch_txtime := txtime (phymib m) (real_of_int (ch_size p)) (basicRate m), dh_duration := beacon_duration m\<rparr>) m)) m"

text \<open>The body of a beacon: the skipped time stamp, whose bytes are not written (\<open>g\<close>), and the interval in milliseconds.\<close>

definition beacon_body :: "8 word list \<Rightarrow> time \<Rightarrow> 8 word list" where
  "beacon_body g t = (let b = word_of_int \<lfloor>t * 1000\<rfloor> :: 32 word in g @ [ucast (drop_bit 8 b AND 0xFF), ucast (b AND 0xFF)])"

definition sendBeacon :: "mac_ctx \<Rightarrow> 8 word list \<Rightarrow> mac \<Rightarrow> mac_result" where
  "sendBeacon c g = stmts [
     assert_mac (\<lambda>m. pktBeacon m = None),
     (\<lambda>m. alloc_frame (\<lambda>p. hdr_dst m MAC_BROADCAST ((hdr_src (index m) p)\<lparr>fr_body := beacon_body g (beacon_interval m), ch_size := getBeaconlen (phymib m),
             fc_type := MAC_Type_Management, fc_subtype := MAC_Subtype_Beacon2\<rparr>))
       (\<lambda>p. assign (\<lambda>m. m\<lparr>beaconTimer := timer_resched (cx_now c) (beacon_interval m) (beaconTimer m),
          pktBeacon := Some (p\<lparr>ch_txtime := txtime (phymib m) (real_of_int (ch_size p)) (basicRate m), dh_duration := beacon_duration m\<rparr>)\<rparr>)) m),
     when_mac (\<lambda>m. mt_busy (mhBackoff m)) stop_backoff,
     when_mac (\<lambda>m. pktCTRL m = None)
       (cond (\<lambda>m. mt_busy (mhDefer m)) (stmts [stop_defer, tx_resume c]) (when_mac (\<lambda>m. \<not> mt_busy (mhSend m)) (tx_resume c)))]"

definition beacon_expire :: "mac_ctx \<Rightarrow> 8 word list \<Rightarrow> mac \<Rightarrow> mac_result" where
  "beacon_expire c g = timer_handle beaconTimer (\<lambda>t m. m\<lparr>beaconTimer := t\<rparr>) (sendBeacon c g)"

section \<open>Connecting\<close>

text \<open>The command with a channel does not connect: the call is commented out.\<close>

definition link_connect_channel :: "mac_ctx \<Rightarrow> int \<Rightarrow> mac \<Rightarrow> mac_result" where
  "link_connect_channel c ch = stmts [set_channel c ch, assign clear_tx_rx]"

definition link_connect :: "mac_ctx \<Rightarrow> addr \<Rightarrow> mac \<Rightarrow> mac_result" where
  "link_connect c macPoA = stmts [
     cond (\<lambda>m. bss_id m \<noteq> IBSS_ID \<and> macPoA \<noteq> bss_id m)
       (stmts [
          link_disconnect c LD_RC_EXPLICIT_DISCONNECT,
          assign (\<lambda>m. m\<lparr>handover := True\<rparr>),
          (\<lambda>m. report_event (send_link_handover_imminent (cx_macs c) (cx_self c) (index m) (bss_id m) macPoA) m)])
       (assign (\<lambda>m. (clear_tx_rx m)\<lparr>old_bss_id := bss_id m\<rparr>)),
     (\<lambda>m. set_channel c (channelIDAfterScan m macPoA) m),
     assign (\<lambda>m. m\<lparr>scan := (scan m)\<lparr>sc_step := SCAN_NONE\<rparr>\<rparr>),
     assert_mac (\<lambda>m. case sc_minTimer (scan m) of TIMER_PENDING _ \<Rightarrow> False | _ \<Rightarrow> True),
     assign (\<lambda>m. m\<lparr>scan := (scan m)\<lparr>sc_maxTimer := timer_force_cancel (sc_maxTimer (scan m))\<rparr>, bss_id := macPoA\<rparr>),
     sendAssocRequest c macPoA]"

definition bss_expired :: "mac_ctx \<Rightarrow> mac \<Rightarrow> mac_result" where
  "bss_expired c = link_disconnect c LD_RC_EXPLICIT_DISCONNECT"

definition bss_expire :: "mac_ctx \<Rightarrow> mac \<Rightarrow> mac_result" where
  "bss_expire c = timer_handle bssTimer (\<lambda>t m. m\<lparr>bssTimer := t\<rparr>) (when_mac (\<lambda>m. bss_id m \<noteq> IBSS_ID) (bss_expired c))"

text \<open>
  The strength of the signal of the access point decides whether the link is lost, about to be lost or back. \<^verbatim>\<open>(int)\<close> truncates a number that is not negative.
\<close>

definition signal_power :: "mac \<Rightarrow> real" where
  "signal_power m = 10 powr (sw_average (stats m W_rxp) / 10) / 1000"

definition ms_rxp_handover :: "mac_ctx \<Rightarrow> mac \<Rightarrow> mac_result" where
  "ms_rxp_handover c m =
     (let avg = signal_power m; lim = pr_limit m * RXThreshold m in
      if avg < RXThreshold m then link_disconnect c LD_RC_EXPLICIT_DISCONNECT m
      else if avg < lim then
        report_event (send_link_going_down (cx_macs c) (cx_self c) (index m) (bss_id m) (- 1) \<lfloor>100 * ((lim - avg) / (lim - RXThreshold m))\<rfloor> LGD_RC_LINK_PARAM_DEGRADING (eventId m))
          (m\<lparr>eventId := eventId m + 1, going_down := True, first_lgd := False\<rparr>)
      else if going_down m then
        report_event (send_link_rollback (cx_macs c) (cx_self c) (index m) (bss_id m) (eventId m - 1)) (m\<lparr>going_down := False\<rparr>)
      else skip m)"

definition client_expired :: "mac_ctx \<Rightarrow> addr \<Rightarrow> mac \<Rightarrow> mac_result" where
  "client_expired c a m =
     (if \<exists>n \<in> set (clients m). cl_id n = a
      then report_event (send_link_down (cx_macs c) (cx_self c) a (index m) LD_RC_PACKET_TIMEOUT) (m\<lparr>clients := remove_client (\<lambda>n. cl_id n = a) (clients m)\<rparr>)
      else skip m)"

section \<open>Scanning\<close>

definition pref_ch :: "scan_request \<Rightarrow> nat \<Rightarrow> int res" where
  "pref_ch r k = check OutOfRange (k < length (rq_channels r)) (Inr (rq_channels r ! k))"

text \<open>The timers of a channel\<close>

definition start_channel :: "mac_ctx \<Rightarrow> scan_request \<Rightarrow> mac \<Rightarrow> mac" where
  "start_channel c r m = m\<lparr>scan := (scan m)\<lparr>sc_minTimer := timer_resched (cx_now c) (rq_minChannelTime r) (sc_minTimer (scan m)),
       sc_maxTimer := timer_resched (cx_now c) (rq_maxChannelTime r) (sc_maxTimer (scan m))\<rparr>,
     probeTimer := timer_resched (cx_now c) (rq_probeDelay r) (probeTimer m)\<rparr>"

definition link_scan_req :: "mac_ctx \<Rightarrow> scan_request option \<Rightarrow> mac \<Rightarrow> mac_result" where
  "link_scan_req c req m =
     need AssertFail req (\<lambda>r.
       if sc_step (scan m) \<noteq> SCAN_NONE then skip m
       else bind_res (pref_ch r 0) (\<lambda>ch. stmts [
         assign (\<lambda>m. m\<lparr>scan := (scan m)\<lparr>sc_req := Some r, sc_index := 0, sc_step := SCAN_WAITING, sc_resp := Some [], sc_orig_ch := chan m, sc_recvd_response := False\<rparr>\<rparr>),
         when_mac (\<lambda>m. sc_orig_ch (scan m) \<noteq> ch) (stmts [set_channel c ch, assign clear_tx_rx]),
         assign (start_channel c r),
         assign (\<lambda>m. m\<lparr>hdv_state := MAC_DISCONNECTED, old_bss_id := bss_id m, bss_id := IBSS_ID, bssTimer := timer_force_cancel (bssTimer m)\<rparr>)] m))"

definition cancel_scan_timers :: "mac \<Rightarrow> mac" where
  "cancel_scan_timers m = m\<lparr>scan := (scan m)\<lparr>sc_maxTimer := timer_force_cancel (sc_maxTimer (scan m)), sc_minTimer := timer_force_cancel (sc_minTimer (scan m))\<rparr>\<rparr>"

definition has_mih :: "mac_ctx \<Rightarrow> bool" where
  "has_mih c \<longleftrightarrow> sap_mih (mac_sap (cx_macs c) (cx_self c))"

definition report_scan :: "mac_ctx \<Rightarrow> mac \<Rightarrow> mac_result" where
  "report_scan c m = need NullPtr (sc_resp (scan m)) (\<lambda>bs. emit (if has_mih c then [MacScanResult bs] else []) m)"

definition nextScan :: "mac_ctx \<Rightarrow> mac \<Rightarrow> mac_result" where
  "nextScan c m =
     need NullPtr (sc_req (scan m)) (\<lambda>r. stmts [
       (if rq_action r = STOP_FIRST \<and> sc_recvd_response (scan m) then
          stmts [assign cancel_scan_timers, report_scan c, assign (\<lambda>m. m\<lparr>scan := (scan m)\<lparr>sc_req := None\<rparr>\<rparr>)]
        else if Suc (sc_index (scan m)) < length (rq_channels r) then
          stmts [
            assign (\<lambda>m. m\<lparr>scan := (scan m)\<lparr>sc_index := Suc (sc_index (scan m)), sc_maxTimer := timer_force_cancel (sc_maxTimer (scan m))\<rparr>\<rparr>),
            (\<lambda>m. bind_res (pref_ch r (sc_index (scan m))) (\<lambda>ch. set_channel c ch m)),
            assign clear_tx_rx,
            assign (start_channel c r)]
        else
          stmts [
            (\<lambda>m. set_channel c (sc_orig_ch (scan m)) m),
            assign (\<lambda>m. cancel_scan_timers (m\<lparr>scan := (scan m)\<lparr>sc_index := Suc (sc_index (scan m)), sc_step := SCAN_NONE\<rparr>, bss_id := old_bss_id m\<rparr>)),
            assign clear_tx_rx,
            assign (\<lambda>m. m\<lparr>hdv_state := MAC_CONNECTED, bssTimer := timer_resched (cx_now c) (bss_timeout m) (bssTimer m)\<rparr>),
            (\<lambda>m. need NullPtr (sc_resp (scan m)) (\<lambda>bs. assign (\<lambda>m. m\<lparr>channelIDAfterScan := fold (\<lambda>b f. f(bd_bss_id b := bd_channel b)) bs (channelIDAfterScan m)\<rparr>) m)),
            report_scan c,
            assign (\<lambda>m. m\<lparr>scan := (scan m)\<lparr>sc_resp := None, sc_req := None\<rparr>\<rparr>)]),
       assign (\<lambda>m. m\<lparr>scan := (scan m)\<lparr>sc_recvd_response := False\<rparr>\<rparr>)] m)"

definition start_autoscan :: "mac_ctx \<Rightarrow> mac \<Rightarrow> mac_result" where
  "start_autoscan c m = link_scan_req c (Some \<lparr>rq_action = STOP_FIRST, rq_probeDelay = 2 / 1000, rq_channels = map int [1 ..< 12],
     rq_minChannelTime = minChannelTime m, rq_maxChannelTime = maxChannelTime m\<rparr>) m"

definition probe_expire :: "mac_ctx \<Rightarrow> mac \<Rightarrow> mac_result" where
  "probe_expire c = timer_handle probeTimer (\<lambda>t m. m\<lparr>probeTimer := t\<rparr>) (sendProbeRequest c)"

definition min_scan_expire :: "mac_ctx \<Rightarrow> mac \<Rightarrow> mac_result" where
  "min_scan_expire c = timer_handle (\<lambda>m. sc_minTimer (scan m)) (\<lambda>t m. m\<lparr>scan := (scan m)\<lparr>sc_minTimer := t\<rparr>\<rparr>)
     (cond (\<lambda>m. \<not> sc_recvd_response (scan m)) (nextScan c)
       (stmts [
          (\<lambda>m. need NullPtr (sc_req (scan m)) (\<lambda>r. assign (\<lambda>m. m\<lparr>scan := (scan m)\<lparr>sc_minTimer := timer_resched (cx_now c) (rq_minChannelTime r) (sc_minTimer (scan m))\<rparr>\<rparr>) m)),
          sendProbeRequest c]))"

definition max_scan_expire :: "mac_ctx \<Rightarrow> mac \<Rightarrow> mac_result" where
  "max_scan_expire c = timer_handle (\<lambda>m. sc_maxTimer (scan m)) (\<lambda>t m. m\<lparr>scan := (scan m)\<lparr>sc_maxTimer := t\<rparr>\<rparr>) (nextScan c)"

section \<open>Thresholds and commands\<close>

text \<open>The watches that thresholds can be set for; \<open>ok\<close> is the status of a parameter.\<close>

datatype watch_ref = StatRef stat_name | TputRef tput_name

fun watch_of :: "int \<Rightarrow> watch_ref option" where
  "watch_of k = (if k = 2 then Some (StatRef W_txloss) else if k = 5 then Some (StatRef W_delay) else if k = 6 then Some (StatRef W_jitter)
     else if k = 7 then Some (TputRef W_rxtp) else if k = 8 then Some (TputRef W_rxbw) else if k = 9 then Some (TputRef W_txtp)
     else if k = 10 then Some (TputRef W_txbw) else None)"

fun link_configure_thresholds :: "(link_type \<times> int \<times> real \<times> real \<times> real) list \<Rightarrow> mac \<Rightarrow> (mac \<times> bool list) res" where
  "link_configure_thresholds [] m = Inr (m, [])"
| "link_configure_thresholds ((lt, par, ini, rb, ex) # ts) m =
     bind_res
       (if lt \<noteq> LINK_GENERIC \<and> lt \<noteq> LINK_802_11 then Inr (m, False)
        else case watch_of par of
          None \<Rightarrow> Inr (m, False)
        | Some (StatRef n) \<Rightarrow> bind_res (set_thresholds ini rb ex (stats m n)) (\<lambda>w. Inr (m\<lparr>stats := (stats m)(n := w)\<rparr>, True))
        | Some (TputRef n) \<Rightarrow> bind_res (set_thresholds ini rb ex (tw_watch (tputs m n))) (\<lambda>w. Inr (m\<lparr>tputs := (tputs m)(n := (tputs m n)\<lparr>tw_watch := w\<rparr>)\<rparr>, True)))
       (\<lambda>(m1, ok). bind_res (link_configure_thresholds ts m1) (\<lambda>(m2, oks). Inr (m2, ok # oks)))"

datatype mac_cmd = EnableBeacon real | DisableBeacon | Autoscan | BssId addr | SetChannel int

text \<open>The number is the value of \<^verbatim>\<open>Random::uniform(0, beacon_interval_)\<close>.\<close>

definition mac_command :: "mac_ctx \<Rightarrow> mac_cmd \<Rightarrow> mac \<Rightarrow> mac_result" where
  "mac_command c k =
     (case k of
        EnableBeacon u \<Rightarrow> when_mac (\<lambda>m. beaconTimer m = TIMER_IDLE) (assign (\<lambda>m. m\<lparr>beaconTimer := timer_resched (cx_now c) (u + beacon_interval m) (beaconTimer m)\<rparr>))
      | DisableBeacon \<Rightarrow> assign (\<lambda>m. m\<lparr>beaconTimer := timer_force_cancel (beaconTimer m)\<rparr>)
      | Autoscan \<Rightarrow> start_autoscan c
      | BssId b \<Rightarrow> stmts [when_mac (\<lambda>m. bss_id m \<noteq> IBSS_ID) (link_disconnect c LD_RC_EXPLICIT_DISCONNECT),
          assign (\<lambda>m. m\<lparr>old_bss_id := bss_id m, hdv_state := MAC_CONNECTED, bss_id := b\<rparr>)]
      | SetChannel ch \<Rightarrow> stmts [assert_mac (\<lambda>m. 0 < ch \<and> ch \<le> 11), assign (\<lambda>m. m\<lparr>chan := ch\<rparr>), emit [MacFreq (calFreq ch)]])"

end
