(* ===== verification/Wlan_Rx.thy ===== *)
theory Wlan_Rx
  imports Wlan_Link
begin

text \<open>
  The receiving side of the 802.11 MAC: what each kind of frame does when its last bit has arrived, the statistics of an access point, and the inputs of
  the MAC as a step relation.
\<close>

section \<open>Clients of an access point\<close>

fun upd_client :: "(client \<Rightarrow> bool) \<Rightarrow> (client \<Rightarrow> client) \<Rightarrow> client list \<Rightarrow> client list" where
  "upd_client P f [] = []"
| "upd_client P f (n # ns) = (if P n then f n # ns else n # upd_client P f ns)"

definition decibel :: "real \<Rightarrow> real" where
  "decibel x = 10 * log 10 (x * 1000)"

definition refresh_client :: "mac_ctx \<Rightarrow> frame \<Rightarrow> client \<Rightarrow> client" where
  "refresh_client c p n = n\<lparr>cl_timer := timer_resched (cx_now c) (cl_lifetime n) (cl_timer n), cl_rxp := fst (sw_update (cx_now c) (decibel (RxPr p)) (cl_rxp n))\<rparr>"

text \<open>The constructor of \<^verbatim>\<open>Client\<close>; \<open>g\<close> has what it leaves unset.\<close>

definition new_client :: "mac_ctx \<Rightarrow> client \<Rightarrow> addr \<Rightarrow> time \<Rightarrow> client" where
  "new_client c g a lifetime = g\<lparr>cl_id := a, cl_pkt := None, cl_status := CLIENT_PENDING, cl_lifetime := lifetime, cl_timer := timer_resched (cx_now c) lifetime TIMER_IDLE,
     cl_pkt_pr := 0, cl_going_down := False, cl_lastupdate := cx_now c,
     cl_txprob := new_stat_watch (cl_txprob g), cl_framesize := new_stat_watch (cl_framesize g), cl_rxp := new_stat_watch (cl_rxp g)\<rparr>"

definition client_expire :: "mac_ctx \<Rightarrow> addr \<Rightarrow> mac \<Rightarrow> mac_result" where
  "client_expire c a m = need NullPtr (find (\<lambda>n. cl_id n = a) (clients m)) (\<lambda>n. bind_res (timer_begin (cl_timer n)) (\<lambda>_. client_expired c a m))"

text \<open>The signal of an associated client decides whether its link is about to be lost or back.\<close>

fun watch_clients :: "mac_ctx \<Rightarrow> frame \<Rightarrow> mac \<Rightarrow> client list \<Rightarrow> 32 word \<Rightarrow> client list \<times> 32 word \<times> mac_out list" where
  "watch_clients c p m [] ev = ([], ev, [])"
| "watch_clients c p m (n # ns) ev =
     (if cl_id n = dh_ta p \<and> cl_status n = CLIENT_ASSOCIATED then
        let lim = pr_limit m * RXThreshold m;
            (n1, ev1, r) = (if RxPr p < lim \<and> RxPr p < cl_pkt_pr n
              then (n\<lparr>cl_going_down := True\<rparr>, ev + 1, send_link_going_down (cx_macs c) (cx_self c) (dh_ta p) (index m) (- 1)
                      \<lfloor>100 * (1 - (RxPr p - RXThreshold m) / (lim - RXThreshold m))\<rfloor> LGD_RC_LINK_PARAM_DEGRADING ev)
              else if cl_going_down n then (n\<lparr>cl_going_down := False\<rparr>, ev, send_link_rollback (cx_macs c) (cx_self c) (dh_ta p) (bss_id m) (ev - 1))
              else (n, ev, None));
            (ns', ev', out) = watch_clients c p m ns ev1
        in (n1\<lparr>cl_pkt_pr := RxPr p\<rparr> # ns', ev', (case r of None \<Rightarrow> [] | Some x \<Rightarrow> [MacEvent x]) @ out)
      else let (ns', ev', out) = watch_clients c p m ns ev in (n # ns', ev', out))"

section \<open>Statistics of an access point\<close>

fun collect_bw :: "frame \<Rightarrow> bandwidth_info list \<Rightarrow> bandwidth_info list option" where
  "collect_bw p [] = None"
| "collect_bw p (b # bs) =
     (if bi_id b = dh_ta p then Some (b\<lparr>bi_nb_pkts := bi_nb_pkts b + 1, bi_size_pkts := bi_size_pkts b + ch_size p\<rparr> # bs) else map_option (Cons b) (collect_bw p bs))"

definition ap_collect :: "mac_ctx \<Rightarrow> frame \<Rightarrow> mac \<Rightarrow> mac" where
  "ap_collect c p m = m\<lparr>bwTimer := (if bwTimer m = TIMER_IDLE then timer_resched (cx_now c) (bw_timeout m) (bwTimer m) else bwTimer m),
     collector_bw := (case collect_bw p (collector_bw m) of
        Some bs \<Rightarrow> bs
      | None \<Rightarrow> \<lparr>bi_id = dh_ta p, bi_nb_pkts = 1, bi_size_pkts = ch_size p, bi_bw = 0\<rparr> # collector_bw m)\<rparr>"

definition bw_update :: "mac_ctx \<Rightarrow> mac \<Rightarrow> mac" where
  "bw_update c m =
     (let bs = map (\<lambda>b. b\<lparr>bi_bw := real_of_int (bi_size_pkts b) / bw_timeout m, bi_size_pkts := 0, bi_nb_pkts := 0\<rparr>) (collector_bw m)
      in m\<lparr>collector_bw := bs, base_station_bw := sum_list (map bi_bw bs), bwTimer := timer_resched (cx_now c) (bw_timeout m) (bwTimer m)\<rparr>)"

definition bw_expire :: "mac_ctx \<Rightarrow> mac \<Rightarrow> mac_result" where
  "bw_expire c = timer_handle bwTimer (\<lambda>t m. m\<lparr>bwTimer := t\<rparr>) (assign (bw_update c))"

text \<open>The share of the bandwidth that is in use, from the probabilities with which the stations send in a slot\<close>

definition client_ptx :: "mac_ctx \<Rightarrow> client \<Rightarrow> real" where
  "client_ptx c n = (if cx_now c - cl_lastupdate n \<le> 1 then sw_average (cl_txprob n) else 0)"

definition predict_bw_used :: "mac_ctx \<Rightarrow> mac \<Rightarrow> mac" where
  "predict_bw_used c m0 =
     (let m = upd_stat c W_txprob (calculate_txprob c m0) m0;
          ap = sw_average (stats m W_txprob);
          idle = prod_list (map (\<lambda>n. 1 - client_ptx c n) (clients m)) * (1 - ap);
          succ = (\<lambda>n. client_ptx c n * idle / (1 - client_ptx c n));
          dur = (\<lambda>w. txtime (phymib m) (sw_average w) (dataRate m));
          prob_ap = ap * idle / (1 - ap);
          prob_success = sum_list (map succ (clients m)) + prob_ap;
          success_duration = sum_list (map (\<lambda>n. succ n * (dur (cl_framesize n) + overhead_duration m)) (clients m)) + prob_ap * (dur (stats m W_txframesize) + overhead_duration m);
          coll_duration = dur (stats m W_collsize) + coll_overhead_duration m;
          prob_collision = 1 - idle - prob_success;
          d = prob_collision * coll_duration + idle * SlotTime (phymib m) + success_duration;
          occupied = (if d > 0 then (success_duration + prob_collision * coll_duration) / d * dataRate m else 0)
      in upd_stat c W_occupiedbw (occupied / 1000000) (m\<lparr>clients := map (\<lambda>n. n\<lparr>cl_txprob_success := succ n\<rparr>) (clients m)\<rparr>))"

section \<open>Control frames\<close>

definition recvRTS :: "mac_ctx \<Rightarrow> frame \<Rightarrow> mac \<Rightarrow> mac_result" where
  "recvRTS c p m =
     (if tx_state m \<noteq> MAC_IDLE \<or> pktCTRL m \<noteq> None then discard p ''BSY'' m
      else stmts [sendCTS (dh_ta p) (real (unat (dh_duration p))), when_mac (\<lambda>m. mt_busy (mhDefer m)) stop_defer, tx_resume c] m)"

definition recvCTS :: "mac_ctx \<Rightarrow> frame \<Rightarrow> mac \<Rightarrow> mac_result" where
  "recvCTS c p m =
     (if tx_state m \<noteq> MAC_RTS then discard p ''STA'' m
      else stmts [
        assert_mac (\<lambda>m. pktRTS m \<noteq> None), assign (\<lambda>m. m\<lparr>pktRTS := None\<rparr>), assert_mac (\<lambda>m. pktTx m \<noteq> None),
        stop_send, assign (\<lambda>m. m\<lparr>ssrc := 0\<rparr>), tx_resume c] m)"

text \<open>The acknowledgement of a data frame\<close>

definition jitter :: "time \<Rightarrow> time \<Rightarrow> time" where
  "jitter old new = (if new - old < 0 then old - new else new - old)"

definition data_acked :: "mac_ctx \<Rightarrow> frame \<Rightarrow> mac \<Rightarrow> mac_result" where
  "data_acked c p = with_pkt pktTx (\<lambda>d m.
     let l2delay = cx_now c - ch_l2timestamp d; prev = (case prevDelay m of None \<Rightarrow> l2delay | Some x \<Rightarrow> x) in
     stmts [
       assign (reset_count d),
       when_mac (\<lambda>m. bss_id m = index m) (assign (\<lambda>m. m\<lparr>clients := upd_client (\<lambda>n. cl_id n = dh_ra d) (refresh_client c p) (clients m)\<rparr>)),
       update_watch c W_delay l2delay,
       update_watch c W_jitter (jitter prev l2delay),
       assign (\<lambda>m. m\<lparr>prevDelay := Some l2delay\<rparr>),
       update_throughput c W_txtp (real_of_int (ch_size d * 8)),
       assign (\<lambda>m. rst_cw m\<lparr>pktTx := None\<rparr>)] m)"

text \<open>The acknowledgement of a management frame; that of an association response makes the client associated.\<close>

definition association_acked :: "mac_ctx \<Rightarrow> frame \<Rightarrow> frame \<Rightarrow> mac \<Rightarrow> mac_result" where
  "association_acked c p q m =
     (case find (\<lambda>n. cl_pkt n = Some (fr_id q)) (clients m) of
        None \<Rightarrow> Inl AssertFail
      | Some n \<Rightarrow> stmts [
          (if cl_status n \<noteq> CLIENT_ASSOCIATED then report_event (send_link_up (cx_macs c) (cx_self c) (dh_ra q) (index m) (- 1)) else skip),
          assign (\<lambda>m. m\<lparr>clients := upd_client (\<lambda>n. cl_pkt n = Some (fr_id q)) (\<lambda>n. refresh_client c p (n\<lparr>cl_status := CLIENT_ASSOCIATED\<rparr>)) (clients m)\<rparr>)] m)"

definition management_acked :: "mac_ctx \<Rightarrow> frame \<Rightarrow> mac \<Rightarrow> mac_result" where
  "management_acked c p = stmts [
     assert_mac (\<lambda>m. frame_is (pktManagement m) (last_tx m)),
     with_pkt pktManagement (\<lambda>q. stmts [
       (if fc_subtype q = MAC_Subtype_AssocRes then association_acked c p q else skip),
       when_mac (\<lambda>m. bss_id m = index m) (assign (\<lambda>m. m\<lparr>clients := upd_client (\<lambda>n. cl_id n = dh_ra q) (refresh_client c p) (clients m)\<rparr>)),
       assign (next_management \<circ> rst_cw \<circ> reset_count q)])]"

definition recvACK :: "mac_ctx \<Rightarrow> frame \<Rightarrow> mac \<Rightarrow> mac_result" where
  "recvACK c p m =
     (if tx_state m \<noteq> MAC_SEND then discard p ''STA'' m
      else stmts [
        assert_mac (\<lambda>m. pktTx m \<noteq> None \<or> pktManagement m \<noteq> None),
        stop_send,
        assign (\<lambda>m. upd_stat c W_rtt (cx_now c - sw_current (stats m W_rtt)) m),
        assign (record_retx c),
        assign (\<lambda>m. set_current W_txerror (cx_now c) (upd_stat c W_txerror 0 m)),
        update_watch c W_txloss 0,
        (\<lambda>m. need NullPtr (if frame_is (pktTx m) (last_tx m) then pktTx m else pktManagement m) (\<lambda>q. traffic_stats c q m)),
        cond (\<lambda>m. frame_is (pktTx m) (last_tx m)) (data_acked c p) (management_acked c p),
        assert_mac (\<lambda>m. \<not> mt_busy (mhBackoff m)),
        when_mac (\<lambda>m. pktBeacon m = None) (start_backoff c),
        tx_resume c] m)"

section \<open>Data frames\<close>

text \<open>A frame that was received before is dropped; an access point sends what is for another station back down.\<close>

definition deliver_data :: "mac_ctx \<Rightarrow> frame \<Rightarrow> mac \<Rightarrow> mac_result" where
  "deliver_data c p m =
     (if dh_ra p \<noteq> MAC_BROADCAST \<and> dh_ta p < cache_node_count m \<and> cache_seqno m (dh_ta p) \<noteq> 0 \<and> cache_seqno m (dh_ta p) = ucast (dh_scontrol p)
      then discard p ''DUP'' m
      else stmts [
        when_mac (\<lambda>m. dh_ra p \<noteq> MAC_BROADCAST \<and> dh_ta p < cache_node_count m) (assign (\<lambda>m. m\<lparr>cache_seqno := (cache_seqno m)(dh_ta p := ucast (dh_scontrol p))\<rparr>)),
        (\<lambda>m. emit (if bss_id m = index m \<and> dh_ra p \<noteq> MAC_BROADCAST \<and> dh_3a p \<noteq> index m
           then (if dh_3a p = MAC_BROADCAST then [MacUp p] else []) @ [MacUp (p\<lparr>ch_next_hop := dh_3a p, dh_3a := dh_ta p, ch_down := True\<rparr>)]
           else [MacUp p]) m)] m)"

definition data_from_client :: "mac_ctx \<Rightarrow> frame \<Rightarrow> int \<Rightarrow> mac \<Rightarrow> mac" where
  "data_from_client c p len m =
     (if bss_id m = index m then
        predict_bw_used c (m\<lparr>clients := upd_client (\<lambda>n. cl_id n = dh_ta p)
          (\<lambda>n. (refresh_client c p n)\<lparr>cl_txprob := fst (sw_update (cx_now c) (dh_txprob p) (cl_txprob n)),
             cl_framesize := fst (sw_update (cx_now c) (real_of_int len) (cl_framesize n)), cl_lastupdate := cx_now c\<rparr>) (clients m)\<rparr>)
      else m)"

definition recvDATA :: "mac_ctx \<Rightarrow> frame \<Rightarrow> mac \<Rightarrow> mac_result" where
  "recvDATA c p0 m =
     (let p = p0\<lparr>ch_size := ch_size p0 - getHdrLen11 (phymib m)\<rparr>; up = [assign (data_from_client c p (u32 (ch_size p0))), deliver_data c p] in
      if dh_ra p \<noteq> MAC_BROADCAST then
        if u32 (ch_size p0) \<ge> RTSThreshold (macmib m) then
          if tx_state m = MAC_CTS then
            stmts ([assert_mac (\<lambda>m. pktCTRL m \<noteq> None), assign (\<lambda>m. m\<lparr>pktCTRL := None\<rparr>), stop_send, sendACK (dh_ta p), tx_resume c] @ up) m
          else discard p ''BSY'' m
        else if pktCTRL m \<noteq> None then discard p ''BSY'' m
        else stmts ([sendACK (dh_ta p), when_mac (\<lambda>m. \<not> mt_busy (mhSend m)) (stmts [when_mac (\<lambda>m. mt_busy (mhDefer m)) stop_defer, tx_resume c])] @ up) m
      else stmts up m)"

section \<open>Management frames\<close>

definition recvAssocRequest :: "mac_ctx \<Rightarrow> client \<Rightarrow> frame \<Rightarrow> mac \<Rightarrow> mac_result" where
  "recvAssocRequest c g p m =
     check AssertFail (index m = bss_id m)
       (if pktCTRL m \<noteq> None then discard p ''BSY'' m
        else stmts [
          sendACK (dh_ta p),
          when_mac (\<lambda>m. mt_busy (mhDefer m)) stop_defer,
          when_mac (\<lambda>m. \<not> mt_busy (mhSend m)) (tx_resume c),
          (\<lambda>m. case find (\<lambda>n. cl_id n = dh_ta p) (clients m) of
             None \<Rightarrow> bind_res (code_rate (dataRate m) (supported_rate p)) (\<lambda>r.
               let (n, m1) = sendAssocResponse (dh_ta p) ((new_client c g (dh_ta p) (client_lifetime m))\<lparr>cl_dataRate := r\<rparr>) m
               in assign (\<lambda>m. m\<lparr>clients := n # clients m\<rparr>) m1)
           | Some n \<Rightarrow>
               if cl_status n = CLIENT_ASSOCIATED then
                 let (n1, m1) = sendAssocResponse (dh_ta p) n m
                 in assign (\<lambda>m. m\<lparr>clients := upd_client (\<lambda>n. cl_id n = dh_ta p) (\<lambda>_. n1) (clients m)\<rparr>) m1
               else skip m)] m)"

definition recvAssocResponse :: "mac_ctx \<Rightarrow> frame \<Rightarrow> mac \<Rightarrow> mac_result" where
  "recvAssocResponse c p m =
     (if pktCTRL m \<noteq> None then discard p ''BSY'' m
      else stmts [
        sendACK (dh_ta p),
        when_mac (\<lambda>m. \<not> mt_busy (mhSend m)) (tx_resume c),
        (\<lambda>m. if dh_ta p = bss_id m \<and> hdv_state m = MAC_CONNECTED then discard p ''DUP'' m
          else if assoc_status p then stmts [
            assign (\<lambda>m. m\<lparr>bss_id := dh_ta p, hdv_state := MAC_CONNECTED\<rparr>),
            (\<lambda>m. if handover m then report_event (send_link_handover_complete (cx_macs c) (cx_self c) (index m) (old_bss_id m) (bss_id m)) m else skip m),
            assign (\<lambda>m. m\<lparr>handover := False\<rparr>),
            (\<lambda>m. report_event (send_link_up (cx_macs c) (cx_self c) (index m) (dh_ta p) (old_bss_id m)) m)] m
          else link_disconnect c LD_RC_EXPLICIT_DISCONNECT (m\<lparr>bss_id := IBSS_ID\<rparr>))] m)"

text \<open>An access point that a scan finds is noted once, with the channel that is being scanned.\<close>

definition note_bss :: "addr \<Rightarrow> mac \<Rightarrow> mac_result" where
  "note_bss a m =
     need NullPtr (sc_resp (scan m)) (\<lambda>bs.
       if \<exists>b \<in> set bs. bd_bss_id b = a then skip m
       else need NullPtr (sc_req (scan m)) (\<lambda>r. bind_res (pref_ch r (sc_index (scan m))) (\<lambda>ch.
         assign (\<lambda>m. m\<lparr>scan := (scan m)\<lparr>sc_resp := Some (\<lparr>bd_bss_id = a, bd_beacon_period = 1 / 10, bd_channel = ch\<rparr> # bs)\<rparr>\<rparr>) m)))"

definition beacon_bytes :: "frame \<Rightarrow> nat res" where
  "beacon_bytes p = check OutOfRange (length (fr_body p) > 9) (Inr (256 * unat (fr_body p ! 8) + unat (fr_body p ! 9)))"

definition recvBeacon :: "mac_ctx \<Rightarrow> frame \<Rightarrow> mac \<Rightarrow> mac_result" where
  "recvBeacon c p m =
     (let src = dh_ta p in
      if index m = bss_id m then skip m
      else if src = bss_id m then
        bind_res (beacon_bytes p) (\<lambda>bint.
          let t = real_of_int (max_beacon_loss m) * (real bint / 1000)
          in assign (\<lambda>m. m\<lparr>bss_timeout := t, bssTimer := timer_resched (cx_now c) t (bssTimer m)\<rparr>) m)
      else if sc_step (scan m) \<noteq> SCAN_NONE then stmts [note_bss src, assign (\<lambda>m. m\<lparr>scan := (scan m)\<lparr>sc_recvd_response := True\<rparr>\<rparr>)] m
      else if hdv_state m = MAC_DISCONNECTED then stmts [
        assign (\<lambda>m. m\<lparr>channelIDAfterScan := (channelIDAfterScan m)(src := chan m)\<rparr>),
        (\<lambda>m. if has_mih c then
           if RxPr p > pr_limit m * RXThreshold m then report_event (send_link_detected (cx_macs c) (cx_self c) (index m) src True) m else skip m
         else link_connect c src m)] m
      else skip m)"

definition recvProbeRequest :: "mac_ctx \<Rightarrow> frame \<Rightarrow> mac \<Rightarrow> mac_result" where
  "recvProbeRequest c p m =
     (if index m \<noteq> bss_id m then skip m
      else stmts [sendProbeResponse (dh_ta p), when_mac (\<lambda>m. mt_busy (mhDefer m)) stop_defer, when_mac (\<lambda>m. \<not> mt_busy (mhSend m)) (tx_resume c)] m)"

definition recvProbeResponse :: "mac_ctx \<Rightarrow> frame \<Rightarrow> mac \<Rightarrow> mac_result" where
  "recvProbeResponse c p = stmts [
     assign (\<lambda>m. m\<lparr>scan := (scan m)\<lparr>sc_recvd_response := True\<rparr>\<rparr>),
     (\<lambda>m. if pktCTRL m \<noteq> None then discard p ''BSY'' m
       else stmts [
         sendACK (dh_ta p),
         when_mac (\<lambda>m. \<not> mt_busy (mhSend m)) (tx_resume c),
         (\<lambda>m. if sc_step (scan m) = SCAN_NONE then skip m else check AssertFail (sc_resp (scan m) \<noteq> None) (note_bss (dh_ta p) m))] m)]"

section \<open>The end of a reception\<close>

definition has_source :: "frame \<Rightarrow> bool" where
  "has_source p \<longleftrightarrow> \<not> (fc_type p = MAC_Type_Control \<and> (fc_subtype p = MAC_Subtype_CTS \<or> fc_subtype p = MAC_Subtype_ACK))"

definition link_watch :: "mac_ctx \<Rightarrow> frame \<Rightarrow> mac \<Rightarrow> mac_result" where
  "link_watch c p m =
     (if \<not> has_source p then skip m
      else if dh_ta p = bss_id m \<and> index m \<noteq> bss_id m then
        stmts [assign (\<lambda>m. m\<lparr>nb_error := 0\<rparr>), ms_rxp_handover c, when_mac (\<lambda>m. pktRx m \<noteq> None) (assign (\<lambda>m. m\<lparr>prev_pr := RxPr p\<rparr>))] m
      else if index m = bss_id m then
        let (ns, ev, out) = watch_clients c p m (clients m) (eventId m) in Inr (m\<lparr>clients := ns, eventId := ev\<rparr>, out)
      else skip m)"

definition reception_stats :: "mac_ctx \<Rightarrow> frame \<Rightarrow> mac \<Rightarrow> mac_result" where
  "reception_stats c p = stmts [
     (if fc_type p = MAC_Type_Data \<and> fc_subtype p = MAC_Subtype_Data then update_throughput c W_rxtp (real_of_int (ch_size p * 8)) else skip),
     (\<lambda>m. if fc_type p = MAC_Type_Control then skip m
       else let v = (ch_txtime p + (if dh_ra p \<noteq> MAC_BROADCAST then overhead_duration m else getDIFS (phymib m))) * dataRate m
            in stmts [update_throughput c W_rxbw v, assign (upd_tput c W_rxsucc v)] m),
     when_mac (\<lambda>m. bss_id m = index m \<and> fc_retry p) (assign (\<lambda>m. set_current W_collsize (cx_now c) (upd_stat c W_collsize (real_of_int (ch_size p)) m)))]"

definition dispatch :: "mac_ctx \<Rightarrow> client \<Rightarrow> frame \<Rightarrow> mac \<Rightarrow> mac_result" where
  "dispatch c g p m =
     (case fc_type p of
        MAC_Type_Management \<Rightarrow>
          if fc_subtype p = MAC_Subtype_AssocReq then recvAssocRequest c g p m
          else if fc_subtype p = MAC_Subtype_AssocRes then recvAssocResponse c p m
          else if fc_subtype p = MAC_Subtype_Beacon2 then recvBeacon c p m
          else if fc_subtype p = MAC_Subtype_ProbeReq then recvProbeRequest c p m
          else if fc_subtype p = MAC_Subtype_ProbeRes then recvProbeResponse c p m
          else discard p ''ERR'' m
      | MAC_Type_Control \<Rightarrow>
          if fc_subtype p = MAC_Subtype_RTS then recvRTS c p m
          else if fc_subtype p = MAC_Subtype_CTS then recvCTS c p m
          else if fc_subtype p = MAC_Subtype_ACK then recvACK c p m
          else Inl ExitProcess
      | MAC_Type_Data \<Rightarrow>
          if \<not> ch_message p \<and> index m \<noteq> bss_id m \<and> (dh_ta p \<noteq> bss_id m \<or> hdv_state m \<noteq> MAC_CONNECTED) then discard p ''NCO'' m
          else if fc_subtype p = MAC_Subtype_Data then recvDATA c p m
          else Inl ExitProcess
      | MAC_Type_Reserved \<Rightarrow> Inl ExitProcess)"

definition recv_done :: "mac_ctx \<Rightarrow> mac \<Rightarrow> mac_result" where
  "recv_done c = stmts [assign (\<lambda>m. m\<lparr>pktRx := None\<rparr>), rx_resume c]"

text \<open>A frame that arrived without error; unless it made the station leave its access point, when the state has been cleared.\<close>

definition recv_good :: "mac_ctx \<Rightarrow> client \<Rightarrow> frame \<Rightarrow> mac \<Rightarrow> mac_result" where
  "recv_good c g p = stmts [
     assign (upd_stat c W_pktloss 0),
     link_watch c p,
     when_mac (\<lambda>m. pktRx m \<noteq> None) (stmts [
       when_mac (\<lambda>m. dh_ra p \<noteq> index m) (set_nav c (dh_duration p)),
       when_mac (\<lambda>m. tap m \<and> fc_type p = MAC_Type_Data \<and> fc_subtype p = MAC_Subtype_Data) (emit [MacTap p]),
       cond (\<lambda>m. dh_ra p \<noteq> index m \<and> dh_ra p \<noteq> MAC_BROADCAST) (discard p ''---'') (stmts [reception_stats c p, dispatch c g p]),
       recv_done c])]"

definition recv_timer :: "mac_ctx \<Rightarrow> client \<Rightarrow> mac \<Rightarrow> mac_result" where
  "recv_timer c g = with_pkt pktRx (\<lambda>p. stmts [
     assert_mac (\<lambda>m. rx_state m = MAC_RECV \<or> rx_state m = MAC_COLL),
     assign (\<lambda>m. set_current W_numrx (cx_now c) (upd_stat c W_numrx (cx_now c - sw_current (stats m W_numrx)) m)),
     (\<lambda>m. if tx_active m then recv_done c m
       else if rx_state m = MAC_COLL then stmts [
         assign (upd_stat c W_pktloss 1),
         (\<lambda>m. let v = (ch_txtime p + coll_overhead_duration m) * dataRate m in stmts [assign (upd_tput c W_rxcoll v), update_throughput c W_rxbw v] m),
         discard p ''COL'',
         (\<lambda>m. set_nav c (usec (getEIFS (phymib m))) m),
         recv_done c] m
       else stmts [
         assign (upd_stat c W_rxp (decibel (RxPr p))),
         when_mac (\<lambda>m. index m = bss_id m) (assign (ap_collect c p)),
         (if ch_error p then stmts [
            when_mac (\<lambda>m. has_source p \<and> hdv_state m = MAC_CONNECTED \<and> dh_ta p = bss_id m \<and> index m \<noteq> bss_id m) (assign (\<lambda>m. m\<lparr>nb_error := nb_error m + 1\<rparr>)),
            (\<lambda>m. set_nav c (usec (getEIFS (phymib m))) m),
            assign (upd_stat c W_pktloss 1),
            recv_done c]
          else recv_good c g p)] m)])"

definition recv_expire :: "mac_ctx \<Rightarrow> client \<Rightarrow> mac \<Rightarrow> mac_result" where
  "recv_expire c g m = recv_timer c g (m\<lparr>mhRecv := mt_handle (mhRecv m)\<rparr>)"

section \<open>Inputs\<close>

text \<open>\<^verbatim>\<open>recv\<close>: a packet from the queue above, or the first bit of a frame from the channel\<close>

definition mac_recv :: "mac_ctx \<Rightarrow> frame \<Rightarrow> mac \<Rightarrow> mac_result" where
  "mac_recv c p m =
     (if ch_down p then mac_send c p (upd_stat c W_qwait (cx_now c - sw_current (stats m W_qwait)) m)
      else
        let q = (if tx_active m then p\<lparr>ch_error := True\<rparr> else p) in
        if rx_state m = MAC_IDLE then
          stmts [setRxState c MAC_RECV, assign (\<lambda>m. m\<lparr>pktRx := Some q\<rparr>), (\<lambda>m. bind_res (txtime_pkt q) (\<lambda>t. start_recv c t m))] m
        else need NullPtr (pktRx m) (\<lambda>r. if RxPr r / RxPr q \<ge> CPThresh q then capture c q m else collision c q m))"

datatype mac_input =
    InFrame frame
  | DeferTimer | BackoffTimer | NavTimer | RxTimer client | TxTimer | IFTimer
  | BSSTimer | BWTimer | BeaconTimer "8 word list" | ProbeDelayTimer | MinScanTimer | MaxScanTimer | ClientTimer addr
  | Connect addr | ConnectChannel int | Disconnect int | Scan "scan_request option" | Command mac_cmd

fun mac_handle :: "mac_ctx \<Rightarrow> mac_input \<Rightarrow> mac \<Rightarrow> mac_result" where
  "mac_handle c (InFrame p) = mac_recv c p"
| "mac_handle c DeferTimer = defer_expire c"
| "mac_handle c BackoffTimer = backoff_expire c"
| "mac_handle c NavTimer = nav_expire c"
| "mac_handle c (RxTimer g) = recv_expire c g"
| "mac_handle c TxTimer = send_expire c"
| "mac_handle c IFTimer = if_expire"
| "mac_handle c BSSTimer = bss_expire c"
| "mac_handle c BWTimer = bw_expire c"
| "mac_handle c (BeaconTimer g) = beacon_expire c g"
| "mac_handle c ProbeDelayTimer = probe_expire c"
| "mac_handle c MinScanTimer = min_scan_expire c"
| "mac_handle c MaxScanTimer = max_scan_expire c"
| "mac_handle c (ClientTimer a) = client_expire c a"
| "mac_handle c (Connect a) = link_connect c a"
| "mac_handle c (ConnectChannel ch) = link_connect_channel c ch"
| "mac_handle c (Disconnect r) = link_disconnect c r"
| "mac_handle c (Scan r) = link_scan_req c r"
| "mac_handle c (Command k) = mac_command c k"

text \<open>A timer of the MAC goes off only when it runs.\<close>

fun mac_enabled :: "mac_input \<Rightarrow> mac \<Rightarrow> bool" where
  "mac_enabled DeferTimer m = mt_running (mhDefer m)"
| "mac_enabled BackoffTimer m = mt_running (mhBackoff m)"
| "mac_enabled NavTimer m = mt_running (mhNav m)"
| "mac_enabled (RxTimer g) m = mt_running (mhRecv m)"
| "mac_enabled TxTimer m = mt_running (mhSend m)"
| "mac_enabled IFTimer m = mt_running (mhIF m)"
| "mac_enabled _ m = True"

inductive mac_reach :: "mac \<Rightarrow> mac \<Rightarrow> bool" for m0 :: mac where
  start: "mac_reach m0 m0"
| step: "mac_reach m0 m \<Longrightarrow> mac_enabled i m \<Longrightarrow> mac_handle c i m = Inr (m', out) \<Longrightarrow> mac_reach m0 m'"

end
