(* ===== verification/Wlan_Preserve.thy ===== *)
theory Wlan_Preserve
  imports Wlan_Rx
begin

text \<open>
  Invariants of the 802.11 MAC over all its runs, and the termination of \<^verbatim>\<open>tx_resume\<close>.
\<close>

section \<open>Operations that keep a property\<close>

definition preserves :: "(mac \<Rightarrow> bool) \<Rightarrow> (mac \<Rightarrow> mac_result) \<Rightarrow> bool" where
  "preserves P f \<longleftrightarrow> (\<forall>m m' out. P m \<longrightarrow> f m = Inr (m', out) \<longrightarrow> P m')"

named_theorems preserves_intros \<open>operations of the MAC keep its invariant\<close>

lemma preservesI: "(\<And>m m' out. P m \<Longrightarrow> f m = Inr (m', out) \<Longrightarrow> P m') \<Longrightarrow> preserves P f"
  by (simp add: preserves_def)

lemma preservesD: "preserves P f \<Longrightarrow> P m \<Longrightarrow> f m = Inr (m', out) \<Longrightarrow> P m'"
  unfolding preserves_def by blast

lemma preserves_Nil [preserves_intros]: "preserves P (stmts [])"
  by (simp add: preserves_def)

lemma preserves_Cons [preserves_intros]: "preserves P f \<Longrightarrow> preserves P (stmts fs) \<Longrightarrow> preserves P (stmts (f # fs))"
  by (rule preservesI) (simp only: stmts.simps bind_res_Inr split_paired_Ex prod.case sum.inject prod.inject, blast dest: preservesD)

lemma preserves_skip [preserves_intros]: "preserves P skip"
  by (simp add: preserves_def skip_def)

lemma preserves_emit [preserves_intros]: "preserves P (emit out)"
  by (simp add: preserves_def emit_def)

lemma preserves_assert [preserves_intros]: "preserves P (assert_mac b)"
  by (simp add: preserves_def assert_mac_def)

lemma preserves_report [preserves_intros]: "preserves P (report_event e)"
  by (simp add: preserves_def report_event_def)

lemma preserves_assign: "(\<And>m. P m \<Longrightarrow> P (f m)) \<Longrightarrow> preserves P (assign f)"
  by (simp add: preserves_def assign_def)

lemma preserves_cond [preserves_intros]: "preserves P f \<Longrightarrow> preserves P g \<Longrightarrow> preserves P (cond b f g)"
  unfolding preserves_def cond_def by metis

lemma preserves_if [preserves_intros]: "preserves P f \<Longrightarrow> preserves P g \<Longrightarrow> preserves P (if b then f else g)"
  by simp

lemma preserves_If [preserves_intros]: "preserves P f \<Longrightarrow> preserves P g \<Longrightarrow> preserves P (\<lambda>m. if b m then f m else g m)"
  unfolding preserves_def by metis

lemma preserves_discard [preserves_intros]: "preserves P (discard p why)"
  by (cases "fc_type p") (simp_all add: preserves_def discard_def skip_def emit_def)

lemma preserves_with: "(\<And>p m m' out. P m \<Longrightarrow> get m = Some p \<Longrightarrow> f p m = Inr (m', out) \<Longrightarrow> P m') \<Longrightarrow> preserves P (with_pkt get f)"
  unfolding preserves_def with_pkt_def need_Inr by blast

lemma preserves_with_pkt [preserves_intros]: "(\<And>p. preserves P (f p)) \<Longrightarrow> preserves P (with_pkt get f)"
  by (rule preserves_with) (rule preservesD)

lemma preserves_bind [preserves_intros]: "(\<And>x. preserves P (g x)) \<Longrightarrow> preserves P (\<lambda>m. bind_res (h m) (\<lambda>x. g x m))"
  unfolding preserves_def bind_res_Inr by blast

lemma preserves_need [preserves_intros]: "(\<And>x. preserves P (g x)) \<Longrightarrow> preserves P (\<lambda>m. need e (h m) (\<lambda>x. g x m))"
  unfolding preserves_def need_Inr by blast

lemma preserves_slot [preserves_intros]: "(\<And>p. preserves P (f p)) \<Longrightarrow> preserves P g \<Longrightarrow> preserves P (\<lambda>m. case get m of None \<Rightarrow> g m | Some p \<Rightarrow> f p m)"
  unfolding preserves_def by (metis option.case_eq_if)

lemma preserves_check [preserves_intros]: "preserves P f \<Longrightarrow> preserves P (\<lambda>m. check e (b m) (f m))"
  unfolding preserves_def check_Inr by blast

lemma preserves_timer: "(\<And>m t. P m \<Longrightarrow> f m = Inr t \<Longrightarrow> P (put t m)) \<Longrightarrow> preserves P (set_mac_timer f put)"
  unfolding preserves_def set_mac_timer_def bind_res_Inr by blast

lemma preserves_alloc: "(\<And>p m. P m \<Longrightarrow> P (m\<lparr>next_frame := Suc (next_frame m)\<rparr>)) \<Longrightarrow> (\<And>r. preserves P (k (f (blank_frame r)))) \<Longrightarrow> preserves P (alloc_frame f k)"
  unfolding preserves_def alloc_frame_def by blast

section \<open>The invariant\<close>

definition ctrl_frame :: "frame \<Rightarrow> bool" where
  "ctrl_frame p \<longleftrightarrow> fc_type p = MAC_Type_Control \<and> fc_subtype p \<in> {MAC_Subtype_CTS, MAC_Subtype_ACK}"

definition rts_frame :: "frame \<Rightarrow> bool" where
  "rts_frame p \<longleftrightarrow> fc_type p = MAC_Type_Control \<and> fc_subtype p = MAC_Subtype_RTS"

definition data_frame :: "frame \<Rightarrow> bool" where
  "data_frame p \<longleftrightarrow> fc_type p = MAC_Type_Data \<and> fc_subtype p = MAC_Subtype_Data"

definition beacon_frame :: "frame \<Rightarrow> bool" where
  "beacon_frame p \<longleftrightarrow> fc_type p = MAC_Type_Management \<and> fc_subtype p = MAC_Subtype_Beacon2"

definition mgmt_frame :: "frame \<Rightarrow> bool" where
  "mgmt_frame p \<longleftrightarrow> fc_type p = MAC_Type_Management \<and> fc_subtype p \<in> {MAC_Subtype_AssocReq, MAC_Subtype_AssocRes, MAC_Subtype_ProbeReq, MAC_Subtype_ProbeRes}"

lemmas frame_defs = ctrl_frame_def rts_frame_def data_frame_def beacon_frame_def mgmt_frame_def

text \<open>
  The contention window is between its bounds, each slot holds frames of its kind, management frames wait only behind one that is being sent, the clients are
  distinct, a scan has a response to write into, with distinct access points, and a paused backoff is busy.
\<close>

definition mac_wf :: "mac \<Rightarrow> bool" where
  "mac_wf m \<longleftrightarrow> CWMin (phymib m) \<le> contention m \<and> contention m \<le> CWMax (phymib m) \<and> CWMin (phymib m) \<le> CWMax (phymib m) \<and> CWMax (phymib m) < 2 ^ 31
     \<and> pred_option ctrl_frame (pktCTRL m) \<and> pred_option rts_frame (pktRTS m) \<and> pred_option data_frame (pktTx m) \<and> pred_option beacon_frame (pktBeacon m)
     \<and> pred_option mgmt_frame (pktManagement m) \<and> (\<forall>p \<in> set (managementQueue m). mgmt_frame p) \<and> (pktManagement m = None \<longrightarrow> managementQueue m = [])
     \<and> distinct (map cl_id (clients m)) \<and> (sc_step (scan m) \<noteq> SCAN_NONE \<longrightarrow> (\<exists>bs. sc_resp (scan m) = Some bs \<and> distinct (map bd_bss_id bs)))
     \<and> (mt_paused (mhBackoff m) \<longrightarrow> mt_busy (mhBackoff m))"

abbreviation wf_op :: "(mac \<Rightarrow> mac_result) \<Rightarrow> bool" where
  "wf_op f \<equiv> preserves mac_wf f"

named_theorems wf_ops \<open>operations of the MAC keep \<open>mac_wf\<close>\<close>

lemma wf_inc_cw: "mac_wf m \<Longrightarrow> mac_wf (inc_cw m)"
proof -
  assume wf: "mac_wf m"
  let ?b = "phymib m" and ?w = "contention m * 2 + 1"
  have "unat (contention m) < 2 ^ 31" using wf unat_mono [of "CWMax ?b" "2 ^ 31"] by (simp add: mac_wf_def word_le_nat_alt)
  then have "unat ?w = 2 * unat (contention m) + 1" by (simp add: unat_word_ariths)
  then have "CWMin ?b \<le> ?w" using wf by (simp add: mac_wf_def word_le_nat_alt)
  with wf show ?thesis by (simp add: inc_cw_def mac_wf_def Let_def not_less)
qed

lemma wf_rst_cw: "mac_wf m \<Longrightarrow> mac_wf (rst_cw m)"
  by (simp add: rst_cw_def mac_wf_def)

lemma wf_stats [simp]:
  "mac_wf (upd_stat c n v m) = mac_wf m" "mac_wf (set_current n x m) = mac_wf m" "mac_wf (upd_tput c k v m) = mac_wf m"
  "mac_wf (record_retx c m) = mac_wf m" "mac_wf (count_retx m) = mac_wf m" "mac_wf (reset_count p m) = mac_wf m" "mac_wf (count_failure p m) = mac_wf m"
  by (simp_all add: upd_stat_def set_current_def upd_tput_def record_retx_def count_retx_def reset_count_def count_failure_def mac_wf_def)

lemma wf_clear: "mac_wf m \<Longrightarrow> mac_wf (clear_tx_rx m)"
  by (cases "mt_busy (mhBackoff m)") (simp_all add: clear_tx_rx_def mac_wf_def stop_timer_def)

lemma wf_next_management: "mac_wf m \<Longrightarrow> mac_wf (next_management m)"
  by (cases "managementQueue m") (simp_all add: next_management_def mac_wf_def)

section \<open>Timers, statistics and leaving\<close>

lemma wf_timers [wf_ops]:
  "wf_op (start_defer c f)" "wf_op stop_defer" "wf_op (start_send c t)" "wf_op stop_send" "wf_op (start_recv c t)" "wf_op stop_recv" "wf_op (start_IF c t)"
  unfolding start_defer_def stop_defer_def start_send_def stop_send_def start_recv_def stop_recv_def start_IF_def
  by (intro preserves_timer; simp add: mac_wf_def)+

lemma wf_backoff [wf_ops]: "wf_op (start_backoff c)" "wf_op stop_backoff" "wf_op (resume_backoff c)" "wf_op (pause_backoff c)"
  unfolding start_backoff_def stop_backoff_def resume_backoff_def pause_backoff_def
  by (intro preserves_intros preserves_assign preserves_timer; simp add: mac_wf_def mt_defs Let_def; elim conjE; simp)+

lemma wf_states [wf_ops]: "wf_op (setRxState c s)" "wf_op (setTxState c s)"
  unfolding setRxState_def setTxState_def checkBackoffTimer_def
  by (intro preserves_intros preserves_assign wf_ops; simp add: mac_wf_def)+

lemma wf_set_nav [wf_ops]: "wf_op (set_nav c us)"
  unfolding set_nav_def Let_def by (intro preserves_intros preserves_assign preserves_timer; simp add: mac_wf_def)

lemma wf_set_nav_of [wf_ops]: "wf_op (\<lambda>m. set_nav c (us m) m)"
  using wf_set_nav unfolding preserves_def by blast

lemma wf_parameters_report: "parameters_report c par a w m = Inr (m', out) \<Longrightarrow> m' = m"
  by (simp add: parameters_report_def skip_def report_event_def split: if_splits)

lemma wf_watch [wf_ops]: "wf_op (\<lambda>m. update_watch c n (v m) m)" "wf_op (\<lambda>m. update_throughput c k (v m) m)"
proof -
  show "wf_op (\<lambda>m. update_watch c n (v m) m)"
    by (rule preservesI; simp only: update_watch_def Let_def case_prod_unfold; drule wf_parameters_report; simp add: mac_wf_def)
  show "wf_op (\<lambda>m. update_throughput c k (v m) m)"
    by (rule preservesI; simp only: update_throughput_def Let_def case_prod_unfold; drule wf_parameters_report; simp add: mac_wf_def)
qed

lemma wf_watch_const [wf_ops]: "wf_op (update_watch c n v)" "wf_op (update_throughput c k v)"
  using wf_watch [where v = "\<lambda>_. v"] by simp_all

lemma wf_link_disconnect [wf_ops]: "wf_op (link_disconnect c r)"
proof (rule preservesI)
  fix m m' out assume "mac_wf m" and d: "link_disconnect c r m = Inr (m', out)"
  let ?m = "clear_tx_rx (m\<lparr>bssTimer := timer_force_cancel (bssTimer m), old_bss_id := bss_id m, bss_id := - 1, going_down := False, hdv_state := MAC_DISCONNECTED\<rparr>)"
  have "mac_wf ?m" using \<open>mac_wf m\<close> by (intro wf_clear) (simp add: mac_wf_def)
  moreover have "m' = ?m \<or> m' = ?m\<lparr>first_lgd := False, handover := False\<rparr>"
    using d by (simp add: link_disconnect_def Let_def report_event_def skip_def split: if_splits)
  ultimately show "mac_wf m'" by (elim disjE) (simp_all add: mac_wf_def)
qed

section \<open>Sending\<close>

lemmas wf_unfold = mac_wf_def upd_stat_def set_current_def upd_tput_def

lemma wf_next_frame: "mac_wf m \<Longrightarrow> mac_wf (m\<lparr>next_frame := r\<rparr>)"
  by (simp add: mac_wf_def)

lemma preserves_args: "(\<And>x. preserves P (g x)) \<Longrightarrow> preserves P (\<lambda>m. g (e m) m)"
  unfolding preserves_def by blast

lemma wf_alloc: "(\<And>x r. wf_op (k (f x (blank_frame r)))) \<Longrightarrow> wf_op (\<lambda>m. alloc_frame (f m) k m)"
  unfolding preserves_def alloc_frame_def using wf_next_frame by blast

lemma wf_sendRTS [wf_ops]: "wf_op (sendRTS dst)"
  unfolding sendRTS_def by (intro preserves_intros wf_alloc preserves_assign; simp add: mac_wf_def frame_defs)

lemma wf_sendCTS [wf_ops]: "wf_op (sendCTS dst d)"
  unfolding sendCTS_def by (intro preserves_intros wf_alloc preserves_assign; simp add: mac_wf_def frame_defs)

lemma wf_sendACK [wf_ops]: "wf_op (sendACK dst)"
  unfolding sendACK_def by (intro preserves_intros wf_alloc preserves_assign; simp add: mac_wf_def frame_defs)

lemma preserves_let [preserves_intros]: "preserves P (\<lambda>m. f (e m) m) \<Longrightarrow> preserves P (\<lambda>m. let x = e m in f x m)"
  by (simp add: Let_def)

lemma data_header_frame: "data_frame (tell_txprob m (data_header m p))"
  by (simp add: tell_txprob_def data_header_def data_frame_def Let_def)

lemma wf_sendDATA [wf_ops]: "wf_op (sendDATA c p)"
  unfolding sendDATA_def by (intro preserves_intros preserves_assign; simp add: wf_unfold data_header_frame)

lemma wf_transmit [wf_ops]: "wf_op (transmit c p t)"
  unfolding transmit_def by (intro preserves_intros preserves_assign wf_ops; simp add: wf_unfold)

lemma wf_transmit_of [wf_ops]: "wf_op (\<lambda>m. transmit c p (t m) m)"
  by (rule preserves_args) (rule wf_ops)

lemma wf_contend [wf_ops]: "wf_op (contend c)"
  unfolding contend_def by (intro preserves_intros wf_ops)

lemma wf_traffic [wf_ops]: "wf_op (traffic_stats c p)"
  unfolding traffic_stats_def by (intro preserves_intros preserves_assign wf_ops; simp)

lemma wf_busy_backoff [wf_ops]: "wf_op (busy_backoff c)"
  unfolding busy_backoff_def by (intro preserves_intros preserves_assign wf_ops wf_inc_cw)

definition preserves_check :: "(mac \<Rightarrow> bool) \<Rightarrow> mac_check \<Rightarrow> bool" where
  "preserves_check P f \<longleftrightarrow> (\<forall>m m' out. P m \<longrightarrow> f m = Inr (Some (m', out)) \<longrightarrow> P m')"

named_theorems check_intros \<open>composition of the routines that look for a frame to send\<close>

lemma preserves_done [check_intros]: "preserves P f \<Longrightarrow> preserves_check P (\<lambda>m. done_check f m)"
  unfolding preserves_def preserves_check_def done_check_def by simp

lemma preserves_done_const [check_intros]: "preserves P f \<Longrightarrow> preserves_check P (done_check f)"
  using preserves_done by simp

lemma preserves_none [check_intros]: "preserves_check P (\<lambda>m. Inr None)" "preserves_check P (\<lambda>m. Inl e)"
  by (simp_all add: preserves_check_def)

lemma preserves_check_if [check_intros]: "preserves_check P f \<Longrightarrow> preserves_check P g \<Longrightarrow> preserves_check P (\<lambda>m. if b m then f m else g m)"
  unfolding preserves_check_def by metis

lemma preserves_check_slot [check_intros]: "(\<And>p. preserves_check P (f p)) \<Longrightarrow> preserves_check P (\<lambda>m. case get m of None \<Rightarrow> Inr None | Some p \<Rightarrow> f p m)"
  unfolding preserves_check_def by (metis option.case_eq_if option.distinct(1) sum.inject(2) option.exhaust_sel)

lemma preserves_check_check [check_intros]: "preserves_check P f \<Longrightarrow> preserves_check P (\<lambda>m. check e (b m) (f m))"
  unfolding preserves_check_def check_Inr by blast

lemma preserves_check_bind [check_intros]: "(\<And>x. preserves_check P (g x)) \<Longrightarrow> preserves_check P (\<lambda>m. bind_res (h m) (\<lambda>x. g x m))"
  unfolding preserves_check_def bind_res_Inr by blast

lemma preserves_first:
  assumes "\<forall>f \<in> set fs. preserves_check P f"
  shows "preserves P (first_check fs)"
proof (rule preservesI)
  fix m m' out assume "P m" "first_check fs m = Inr (m', out)"
  with assms show "P m'"
  proof (induction fs)
    case (Cons f fs)
    then obtain r where r: "f m = Inr r" "(case r of None \<Rightarrow> first_check fs m | Some x \<Rightarrow> Inr x) = Inr (m', out)" by (cases "f m") simp_all
    show ?case
    proof (cases r)
      case None
      with r Cons show ?thesis by simp
    next
      case (Some x)
      with r Cons.prems show ?thesis unfolding preserves_check_def by simp
    qed
  qed simp
qed

lemma wf_checks:
  "preserves_check mac_wf (check_pktCTRL c)" "preserves_check mac_wf (check_pktBeacon c)" "preserves_check mac_wf (check_pktManagement c)"
  "preserves_check mac_wf (check_pktRTS c)" "preserves_check mac_wf (check_pktTx c)"
  unfolding check_pktCTRL_def check_pktBeacon_def check_pktManagement_def check_pktRTS_def check_pktTx_def
  by (intro check_intros preserves_intros preserves_assign wf_ops; simp add: wf_unfold)+

lemma wf_backoffHandler [wf_ops]: "wf_op (backoffHandler c)"
  unfolding backoffHandler_def by (intro preserves_intros preserves_first) (simp add: wf_checks)

lemma wf_deferHandler [wf_ops]: "wf_op (deferHandler c)"
proof -
  have "preserves_check mac_wf (\<lambda>m. check AssertFail (\<not> mt_busy (mhBackoff m)) (bind_res (waited_sifs m) (\<lambda>b. if b then check_pktTx c m else Inr None)))"
    by (intro check_intros wf_checks)
  then show ?thesis unfolding deferHandler_def by (intro preserves_intros preserves_first) (simp add: wf_checks preserves_done_const wf_backoff)
qed

lemma wf_defer_next [wf_ops]: "wf_op (defer_next c)"
  unfolding defer_next_def by (intro preserves_intros wf_ops)

lemma wf_send_frame [wf_ops]: "wf_op (send_frame c p)"
  unfolding send_frame_def by (intro preserves_intros preserves_assign wf_ops; simp add: wf_unfold option.pred_map comp_def) (simp add: data_frame_def [abs_def])

text \<open>The recursion of \<^verbatim>\<open>tx_resume\<close>\<close>

lemma wf_send_with:
  assumes "\<And>m m' out. mac_wf m \<Longrightarrow> resume m = Some (Inr (m', out)) \<Longrightarrow> mac_wf m'"
  shows "mac_wf m \<Longrightarrow> send_with resume c p m = Some (Inr (m', out)) \<Longrightarrow> mac_wf m'"
proof -
  assume wf: "mac_wf m" and s: "send_with resume c p m = Some (Inr (m', out))"
  show "mac_wf m'"
  proof (cases "unassociated m p")
    case False
    with s have "send_frame c p m = Inr (m', out)" by (simp add: send_with_def)
    with wf wf_send_frame show ?thesis by (metis preservesD)
  next
    case True
    with s obtain m1 o1 where d: "discard p ''NAS'' m = Inr (m1, o1)" by (cases "discard p ''NAS'' m") (simp_all add: send_with_def split_paired_all)
    then have m1: "mac_wf (m1\<lparr>callback := True\<rparr>)" using preservesD [of mac_wf, OF preserves_discard wf d] by (simp add: mac_wf_def)
    show ?thesis
    proof (cases "\<not> mt_busy (mhBackoff m1) \<and> \<not> mt_busy (mhDefer m1) \<and> \<not> mt_busy (mhSend m1)")
      case True
      with s d \<open>unassociated m p\<close> obtain o2 where "resume (m1\<lparr>callback := True\<rparr>) = Some (Inr (m', o2))"
        by (simp add: send_with_def Let_def bind_eq_Some_conv split_paired_Ex) blast
      with assms m1 show ?thesis by blast
    next
      case False
      with s d \<open>unassociated m p\<close> have "m' = m1\<lparr>callback := True\<rparr>" by (simp add: send_with_def Let_def split: if_splits)
      with m1 show ?thesis by simp
    qed
  qed
qed

lemma wf_after_send:
  assumes "\<And>m' out. r = Inr (m', out) \<Longrightarrow> mac_wf (f m')"
  shows "after_send c f r = Inr (m', out) \<Longrightarrow> mac_wf m'"
  using assms wf_states(2) by (simp add: after_send_def split_paired_Ex) (metis preservesD)

definition tx_body :: "(mac \<Rightarrow> mac_result option) \<Rightarrow> mac_ctx \<Rightarrow> mac \<Rightarrow> mac_result option" where
  "tx_body f c m =
     (if mt_busy (mhSend m) \<or> mt_busy (mhDefer m) then Some (Inl AssertFail)
      else if \<not> wants_packet m then Some (stmts [defer_next c, setTxState c MAC_IDLE] m)
      else case tmpPacket m of
        Some p \<Rightarrow> Option.bind (send_with f c p m) (\<lambda>r. Some (after_send c (\<lambda>m. m\<lparr>tmpPacket := None\<rparr>) r))
      | None \<Rightarrow>
          (let m1 = set_current W_qwait (cx_now c) (m\<lparr>callback := False\<rparr>) in
           case ifq m1 of
             [] \<Rightarrow> Some (setTxState c MAC_IDLE m1)
           | p # ps \<Rightarrow>
               Option.bind (send_with f c p (upd_stat c W_qwait (cx_now c - sw_current (stats m1 W_qwait)) (m1\<lparr>ifq := ps\<rparr>)))
                 (\<lambda>r. Some (after_send c id r))))"

lemma tx_loop_body: "tx_loop c m = tx_body (tx_loop c) c m"
  by (subst tx_loop.simps) (simp only: tx_body_def)

lemma wf_tx_body:
  assumes f: "\<And>m m' out. mac_wf m \<Longrightarrow> f m = Some (Inr (m', out)) \<Longrightarrow> mac_wf m'" and wf: "mac_wf m" and b: "tx_body f c m = Some (Inr (m', out))"
  shows "mac_wf m'"
proof -
  define m1 where "m1 = set_current W_qwait (cx_now c) (m\<lparr>callback := False\<rparr>)"
  have m1: "mac_wf m1" using wf by (simp add: wf_unfold m1_def)
  show ?thesis
  proof (cases "mt_busy (mhSend m) \<or> mt_busy (mhDefer m)")
    case True
    with b show ?thesis by (simp only: tx_body_def if_True option.inject sum.distinct)
  next
    case idle: False
    show ?thesis
    proof (cases "wants_packet m")
      case False
      with b idle have "stmts [defer_next c, setTxState c MAC_IDLE] m = Inr (m', out)" by (simp only: tx_body_def if_False simp_thms if_True option.inject)
      moreover have "wf_op (stmts [defer_next c, setTxState c MAC_IDLE])" by (intro preserves_intros wf_ops)
      ultimately show ?thesis using wf by (metis preservesD)
    next
      case wants: True
      show ?thesis
      proof (cases "tmpPacket m")
        case (Some p)
        with b idle wants obtain s where s: "send_with f c p m = Some s" "after_send c (\<lambda>m. m\<lparr>tmpPacket := None\<rparr>) s = Inr (m', out)"
          by (simp only: tx_body_def if_False simp_thms option.case bind_eq_Some_conv option.inject) blast
        have "mac_wf (m2\<lparr>tmpPacket := None\<rparr>)" if "s = Inr (m2, o2)" for m2 o2
          using wf_send_with [of f m c p m2 o2, OF f wf] s(1) that by (simp add: mac_wf_def)
        from wf_after_send [OF this s(2)] show ?thesis .
      next
        case None
        show ?thesis
        proof (cases "ifq m1")
          case Nil
          with None b idle wants have "setTxState c MAC_IDLE m1 = Inr (m', out)"
            by (simp only: tx_body_def if_False simp_thms option.case Let_def m1_def [symmetric] list.case option.inject)
          with m1 wf_states(2) show ?thesis by (metis preservesD)
        next
          case (Cons p ps)
          define m2 where "m2 = upd_stat c W_qwait (cx_now c - sw_current (stats m1 W_qwait)) (m1\<lparr>ifq := ps\<rparr>)"
          have m2: "mac_wf m2" using m1 by (simp add: wf_unfold m2_def)
          from None Cons b idle wants obtain s where s: "send_with f c p m2 = Some s" "after_send c id s = Inr (m', out)"
            by (simp only: tx_body_def if_False simp_thms option.case Let_def m1_def [symmetric] list.case m2_def [symmetric] bind_eq_Some_conv option.inject) blast
          have "mac_wf (id m3)" if "s = Inr (m3, o3)" for m3 o3 using wf_send_with [of f m2 c p m3 o3, OF f m2] s(1) that by simp
          from wf_after_send [OF this s(2)] show ?thesis .
        qed
      qed
    qed
  qed
qed

lemma wf_tx_loop: "tx_loop c m = Some r \<Longrightarrow> mac_wf m \<longrightarrow> (\<forall>m' out. r = Inr (m', out) \<longrightarrow> mac_wf m')"
proof (erule tx_loop.raw_induct [rotated], fold tx_body_def, intro impI allI)
  fix f c m r m' out
  assume "\<And>c m r. f c m = Some r \<Longrightarrow> mac_wf m \<longrightarrow> (\<forall>m' out. r = Inr (m', out) \<longrightarrow> mac_wf m')" "tx_body (f c) c m = Some r" "mac_wf m" "r = Inr (m', out)"
  then show "mac_wf m'" using wf_tx_body [of "f c" m c m' out] by blast
qed

lemma wf_tx_resume [wf_ops]: "wf_op (tx_resume c)"
  unfolding preserves_def tx_resume_def returned_def using wf_tx_loop by (metis option.case_eq_if option.collapse sum.distinct(1))

lemma wf_mac_send [wf_ops]: "wf_op (mac_send c p)"
proof (rule preservesI)
  fix m m' out assume "mac_wf m" and s: "mac_send c p m = Inr (m', out)"
  then have "send_with (tx_loop c) c p m = Some (Inr (m', out))" by (simp add: mac_send_def returned_def split: option.splits)
  with \<open>mac_wf m\<close> show "mac_wf m'" using wf_send_with [of "tx_loop c"] wf_tx_loop by blast
qed

section \<open>Retransmission\<close>

lemmas wf_all = wf_unfold record_retx_def count_retx_def reset_count_def count_failure_def rst_cw_def next_management_def mark_retry_def

lemma wf_retry:
  "pred_option rts_frame p \<Longrightarrow> pred_option rts_frame (map_option mark_retry p)" "pred_option data_frame p \<Longrightarrow> pred_option data_frame (map_option mark_retry p)"
  "pred_option mgmt_frame p \<Longrightarrow> pred_option mgmt_frame (map_option mark_retry p)"
  by (cases p; simp add: mark_retry_def frame_defs)+

lemma wf_fail_of [wf_ops]: "wf_op (\<lambda>m. fail_data r (q m) m)"
  by (rule preserves_args, unfold fail_data_def) (intro preserves_intros)

lemma wf_give_up [wf_ops]: "wf_op (give_up_data why)"
  unfolding give_up_data_def by (intro preserves_intros preserves_assign wf_ops; simp add: mac_wf_def)

lemma wf_RetransmitRTS [wf_ops]: "wf_op (RetransmitRTS c)"
  unfolding RetransmitRTS_def by (intro preserves_intros preserves_assign wf_ops wf_inc_cw; simp add: wf_all wf_retry)

lemma wf_RetransmitDATA [wf_ops]: "wf_op (RetransmitDATA c)"
  unfolding RetransmitDATA_def note_error_def drop_data_def repeat_data_def by (intro preserves_intros preserves_assign wf_ops wf_inc_cw; simp add: wf_all wf_retry)

lemma wf_drop_client [wf_ops]: "wf_op (drop_client r)"
proof -
  have "set (remove_client P ns) \<subseteq> set ns" for P ns by (induction ns) (simp_all, blast)
  then have "distinct (map cl_id ns) \<Longrightarrow> distinct (map cl_id (remove_client P ns))" for P ns by (induction ns) (simp_all, blast)
  then show ?thesis unfolding drop_client_def by (intro preserves_intros preserves_assign; simp add: mac_wf_def)
qed

lemma wf_RetransmitManagement [wf_ops]: "wf_op (RetransmitManagement c)"
proof -
  have n: "wf_op (assign (rst_cw \<circ> next_management))" "wf_op (assign (record_retx c \<circ> next_management))"
    by (rule preserves_assign, simp add: wf_rst_cw wf_next_management)+
  show ?thesis unfolding RetransmitManagement_def
    by (intro preserves_intros n preserves_assign wf_ops wf_inc_cw; simp add: wf_all wf_retry)
qed

lemma wf_send_timer [wf_ops]: "wf_op (send_timer c)"
proof -
  have "wf_op (retransmit_last c)" unfolding retransmit_last_def by (intro preserves_intros preserves_assign wf_ops; simp add: mac_wf_def)
  then have t: "wf_op (send_timeout c)" unfolding send_timeout_def by (intro preserves_intros preserves_assign; simp add: mac_wf_def)
  have ctrl: "wf_op (stmts [assert_mac (\<lambda>m. pktCTRL m \<noteq> None), assign (\<lambda>m. m\<lparr>pktCTRL := None\<rparr>)])"
    by (intro preserves_intros preserves_assign; simp add: mac_wf_def)
  have "wf_op (case s of MAC_RTS \<Rightarrow> RetransmitRTS c | MAC_CTS \<Rightarrow> stmts [assert_mac (\<lambda>m. pktCTRL m \<noteq> None), assign (\<lambda>m. m\<lparr>pktCTRL := None\<rparr>)]
      | MAC_SEND \<Rightarrow> send_timeout c | MAC_ACK \<Rightarrow> stmts [assert_mac (\<lambda>m. pktCTRL m \<noteq> None), assign (\<lambda>m. m\<lparr>pktCTRL := None\<rparr>)]
      | MAC_IDLE \<Rightarrow> skip | _ \<Rightarrow> (\<lambda>_. Inl AssertFail))" for s
    by (cases s) (simp_all only: mac_state.case t ctrl wf_RetransmitRTS preserves_skip, simp_all add: preserves_def)
  from preserves_args [OF this, of tx_state] have "wf_op (\<lambda>m. case tx_state m of MAC_RTS \<Rightarrow> RetransmitRTS c m
      | MAC_CTS \<Rightarrow> stmts [assert_mac (\<lambda>m. pktCTRL m \<noteq> None), assign (\<lambda>m. m\<lparr>pktCTRL := None\<rparr>)] m
      | MAC_SEND \<Rightarrow> send_timeout c m
      | MAC_ACK \<Rightarrow> stmts [assert_mac (\<lambda>m. pktCTRL m \<noteq> None), assign (\<lambda>m. m\<lparr>pktCTRL := None\<rparr>)] m
      | MAC_IDLE \<Rightarrow> skip m | _ \<Rightarrow> Inl AssertFail)" unfolding preserves_def by (simp only: mac_state.case_distrib [where h = "\<lambda>f. f _"])
  then show ?thesis unfolding send_timer_def by (intro preserves_intros wf_ops)
qed

end
