(* ===== verification/Wlan_Demo.thy ===== *)
theory Wlan_Demo
  imports Wlan_Rx
begin

text \<open>
  A sample 802.11 MAC, with the parameters of direct sequence spread spectrum.
\<close>

definition demo_phy :: phy_mib where
  "demo_phy = \<lparr>CWMin = 31, CWMax = 1023, SlotTime = 20 / 10 ^ 6, SIFSTime = 10 / 10 ^ 6, PreambleLength = 144, PLCPHeaderLength = 48, PLCPDataRate = 1000000\<rparr>"

definition demo_mac_mib :: mac_mib where
  "demo_mac_mib = \<lparr>RTSThreshold = 3000, ShortRetryLimit = 3, LongRetryLimit = 4, FailedCount = 0, RTSFailureCount = 0, ACKFailureCount = 0\<rparr>"

definition demo_watch :: stat_watch where
  "demo_watch = \<lparr>sw_alpha = 1, sw_current = 0, sw_average = 0, sw_old_average = 0, sw_instant = 0, sw_total = 0, sw_sample_number = 0, sw_pos_gradient = True,
     sw_delay = 0, sw_pending = NO_ACTION_TH, sw_ts = 0, sw_th_set = False, sw_init_sent = False, sw_init_th = 0, sw_rollback_th = 0, sw_exec_th = 0\<rparr>"

definition demo_tput :: throughput_watch where
  "demo_tput = \<lparr>tw_watch = demo_watch, tw_size = demo_watch, tw_time = demo_watch\<rparr>"

definition demo_scan :: scan_status where
  "demo_scan = \<lparr>sc_step = SCAN_NONE, sc_req = None, sc_minTimer = TIMER_IDLE, sc_maxTimer = TIMER_IDLE, sc_resp = None, sc_index = 0, sc_recvd_response = False, sc_orig_ch = 0\<rparr>"

definition demo_wlan :: "addr \<Rightarrow> mac" where
  "demo_wlan a = \<lparr>index = a, bss_id = - 1, old_bss_id = - 1, phymib = demo_phy, macmib = demo_mac_mib, basicRate = 1000000, dataRate = 11000000, nav = 0,
     rx_state = MAC_IDLE, tx_state = MAC_IDLE, tx_active = False, hdv_state = MAC_DISCONNECTED, handover = False, pktRx = None, pktTx = None, pktRTS = None,
     pktCTRL = None, pktManagement = None, managementQueue = [], pktBeacon = None, pktRetransmit = None, last_tx = None, tmpPacket = None, eotPacket = None,
     EOTtarget = False, tap = False, callback = False, ifq = [], contention = 0, ssrc = 0, slrc = 0, mhIF = new_mac_timer, mhNav = new_mac_timer,
     mhRecv = new_mac_timer, mhSend = new_mac_timer, mhDefer = new_mac_timer, mhBackoff = new_mac_timer, bssTimer = TIMER_IDLE, bwTimer = TIMER_IDLE,
     beaconTimer = TIMER_IDLE, probeTimer = TIMER_IDLE, sta_seqno = 0, cache_seqno = (\<lambda>_. 0), cache_node_count = 0, chan = 1,
     channelIDAfterScan = (\<lambda>_. 0), RXThreshold = 0, pr_limit = 1, bss_timeout = 0, bw_timeout = 1, max_beacon_loss = 3, beacon_interval = 1 / 10,
     client_lifetime = 10, minChannelTime = 20 / 1000, maxChannelTime = 60 / 1000, going_down = False, first_lgd = False, first_datatx = False, eventId = 0,
     nb_error = 0, nbAccepted = 0, prev_pr = 0, prevDelay = None, overhead_duration = 0, coll_overhead_duration = 0, stats = (\<lambda>_. demo_watch),
     tputs = (\<lambda>_. demo_tput), clients = [], collector_bw = [], base_station_bw = 0, scan = demo_scan, randoms = (\<lambda>_. 0), next_frame = 0\<rparr>"

text \<open>The MAC that the constructor makes of it\<close>

definition demo_station :: "addr \<Rightarrow> mac" where
  "demo_station a = new_mac (\<lambda>_. 1) (\<lambda>_. 1) (demo_wlan a)"

definition demo_ctx :: "time \<Rightarrow> mac_ctx" where
  "demo_ctx t = \<lparr>cx_now = t, cx_macs = demo_macs, cx_self = 4, cx_RXThresh = (\<lambda>_. 0), cx_bytes = (\<lambda>_. 0)\<rparr>"

definition demo_client :: client where
  "demo_client = \<lparr>cl_id = 0, cl_pkt = None, cl_status = CLIENT_PENDING, cl_timer = TIMER_IDLE, cl_lifetime = 0, cl_pkt_pr = 0, cl_going_down = False, cl_dataRate = 0,
     cl_txprob = demo_watch, cl_framesize = demo_watch, cl_txprob_success = 0, cl_lastupdate = 0, cl_rxp = demo_watch\<rparr>"

lemma demo_ctx_now [simp]: "cx_now (demo_ctx t) = t" "has_mih (demo_ctx t)" "cx_self (demo_ctx t) = 4"
  by (simp_all add: demo_ctx_def has_mih_def demo_macs_def)

lemma demo_station_config [simp]:
  "phymib (demo_station a) = demo_phy" "macmib (demo_station a) = demo_mac_mib" "index (demo_station a) = a" "bss_id (demo_station a) = - 1" "chan (demo_station a) = 1"
  "basicRate (demo_station a) = 1000000" "dataRate (demo_station a) = 11000000" "max_beacon_loss (demo_station a) = 3"
  by (simp_all add: demo_station_def new_mac_def demo_wlan_def)

definition demo_request :: scan_request where
  "demo_request = \<lparr>rq_action = SCAN_ALL, rq_probeDelay = 2 / 1000, rq_channels = [6, 11], rq_minChannelTime = 20 / 1000, rq_maxChannelTime = 60 / 1000\<rparr>"

definition demo_beacon :: "addr \<Rightarrow> frame" where
  "demo_beacon a = (blank_frame 8)\<lparr>fc_subtype := MAC_Subtype_Beacon2, dh_ra := MAC_BROADCAST, dh_ta := a, fr_body := beacon_body (replicate 8 0) (1 / 10)\<rparr>"

end
