(* ===== verification/Wlan_Invariants.thy ===== *)
theory Wlan_Invariants
  imports Wlan_Preserve Wlan_Demo
begin

text \<open>
  The invariant of the 802.11 MAC holds after every run of its inputs.
\<close>

section \<open>Timers\<close>

lemma wf_put_timer: "preserves mac_wf f \<Longrightarrow> (\<And>m. mac_wf m \<Longrightarrow> mac_wf (g m)) \<Longrightarrow> preserves mac_wf (\<lambda>m. f (g m))"
  unfolding preserves_def by metis

lemma wf_expire [wf_ops]: "wf_op (defer_expire c)" "wf_op (nav_expire c)" "wf_op (send_expire c)" "wf_op if_expire" "wf_op (backoff_expire c)"
proof -
  show "wf_op (defer_expire c)" unfolding defer_expire_def [abs_def] by (rule wf_put_timer) (intro wf_ops, simp add: mac_wf_def)
  show "wf_op (nav_expire c)" unfolding nav_expire_def [abs_def] navHandler_def by (rule wf_put_timer) (intro preserves_intros wf_ops, simp add: mac_wf_def)
  show "wf_op (send_expire c)" unfolding send_expire_def [abs_def] by (rule wf_put_timer) (intro wf_ops, simp add: mac_wf_def)
  have "wf_op txHandler" unfolding txHandler_def by (intro preserves_intros preserves_assign; simp add: mac_wf_def)
  then show "wf_op if_expire" unfolding if_expire_def [abs_def] by (rule wf_put_timer) (simp add: mac_wf_def)
  show "wf_op (backoff_expire c)" unfolding backoff_expire_def [abs_def] by (rule wf_put_timer) (intro wf_ops, simp add: mac_wf_def mt_defs)
qed

lemma preserves_timer_handle:
  assumes put: "\<And>m t. P m \<Longrightarrow> P (put t m)" and f: "preserves P f"
  shows "preserves P (timer_handle get put f)"
proof (rule preservesI)
  fix m m' out assume "P m" "timer_handle get put f m = Inr (m', out)"
  then obtain t m1 o1 where "f (put t m) = Inr (m1, o1)" "m' = put (timer_end (get m1)) m1"
    unfolding timer_handle_def bind_res_Inr by (metis (no_types, lifting) old.prod.case prod.collapse prod.inject sum.inject(2))
  with \<open>P m\<close> show "P m'" using preservesD [OF f] put by blast
qed

lemma preserves_report_of [preserves_intros]: "preserves P (\<lambda>m. report_event (e m) m)"
  by (rule preserves_args) (rule preserves_report)

lemma preserves_emit_of [preserves_intros]: "preserves P (\<lambda>m. emit (e m) m)"
  by (rule preserves_args) (rule preserves_emit)

text \<open>Fields that the invariant does not read\<close>

lemma wf_fields:
  "mac_wf (m\<lparr>old_bss_id := a\<rparr>) = mac_wf m" "mac_wf (m\<lparr>bss_id := a\<rparr>) = mac_wf m" "mac_wf (m\<lparr>hdv_state := h\<rparr>) = mac_wf m" "mac_wf (m\<lparr>bssTimer := t\<rparr>) = mac_wf m"
  "mac_wf (m\<lparr>scan := (scan m)\<lparr>sc_maxTimer := t\<rparr>\<rparr>) = mac_wf m" "mac_wf (m\<lparr>handover := b\<rparr>) = mac_wf m"
  by (simp_all add: mac_wf_def)

section \<open>Association\<close>

lemma wf_set_channel [wf_ops]: "wf_op (set_channel c ch)" "wf_op (\<lambda>m. set_channel c (k m) m)"
proof -
  show "wf_op (set_channel c ch)" for ch unfolding set_channel_def by (intro preserves_intros preserves_assign; simp add: mac_wf_def)
  then show "wf_op (\<lambda>m. set_channel c (k m) m)" by (rule preserves_args)
qed

lemma wf_sendAssocRequest [wf_ops]: "wf_op (sendAssocRequest c dst)"
  unfolding sendAssocRequest_def by (intro preserves_intros wf_alloc preserves_assign wf_ops; simp add: mac_wf_def frame_defs)

lemma wf_queue_management: "mac_wf m \<Longrightarrow> mgmt_frame p \<Longrightarrow> mac_wf (queue_management p m)"
  by (cases "pktManagement m") (simp_all add: queue_management_def mac_wf_def)

lemma wf_sendAssocResponse: "mac_wf m \<Longrightarrow> mac_wf (snd (sendAssocResponse dst cl m))"
  unfolding sendAssocResponse_def Let_def snd_conv by (rule wf_queue_management) (simp_all add: mac_wf_def mgmt_frame_def)

lemma sendAssocResponse_client [simp]: "cl_id (fst (sendAssocResponse dst cl m)) = cl_id cl" "clients (snd (sendAssocResponse dst cl m)) = clients m"
  by (simp_all add: sendAssocResponse_def Let_def queue_management_def)

lemma hdr_dst_kind [simp]: "fc_type (hdr_dst m a p) = fc_type p" "fc_subtype (hdr_dst m a p) = fc_subtype p"
  by (simp_all add: hdr_dst_def)

lemma wf_probes [wf_ops]: "wf_op (sendProbeRequest c)" "wf_op (sendProbeResponse dst)"
proof -
  have "wf_op (\<lambda>m. skip (m\<lparr>next_frame := Suc (next_frame m)\<rparr>))" by (simp add: preserves_def skip_def wf_next_frame)
  then show "wf_op (sendProbeRequest c)" unfolding sendProbeRequest_def [abs_def]
    by (intro preserves_intros wf_alloc preserves_assign wf_ops; simp add: mac_wf_def mgmt_frame_def)
  show "wf_op (sendProbeResponse dst)" unfolding sendProbeResponse_def [abs_def]
    by (intro wf_alloc preserves_assign wf_queue_management; simp add: mgmt_frame_def)
qed

lemma wf_beacon [wf_ops]: "wf_op (beacon_expire c g)"
proof -
  have "wf_op (sendBeacon c g)" unfolding sendBeacon_def
    by (intro preserves_intros wf_alloc preserves_assign wf_ops; simp add: mac_wf_def beacon_frame_def)
  then show ?thesis unfolding beacon_expire_def by (intro preserves_timer_handle; simp add: mac_wf_def)
qed

lemma wf_link_connect [wf_ops]: "wf_op (link_connect c a)" "wf_op (link_connect_channel c ch)"
  unfolding link_connect_def link_connect_channel_def
  by (intro preserves_intros preserves_assign wf_ops wf_clear; (simp add: wf_fields wf_clear | simp add: mac_wf_def))+

section \<open>Leaving and scanning\<close>

lemma wf_bss_expire [wf_ops]: "wf_op (bss_expire c)"
  unfolding bss_expire_def bss_expired_def by (intro preserves_timer_handle preserves_intros wf_ops; simp add: mac_wf_def)

lemma preserves_skip_of [preserves_intros]: "(\<And>m. P m \<Longrightarrow> P (g m)) \<Longrightarrow> preserves P (\<lambda>m. skip (g m))"
  by (simp add: preserves_def skip_def)

lemma preserves_report_upd: "(\<And>m. P m \<Longrightarrow> P (g m)) \<Longrightarrow> preserves P (\<lambda>m. report_event (e m) (g m))"
  by (simp add: preserves_def report_event_def)

lemma wf_ms_rxp_handover [wf_ops]: "wf_op (ms_rxp_handover c)"
  unfolding ms_rxp_handover_def [abs_def] by (intro preserves_intros wf_ops preserves_report_upd; simp add: mac_wf_def)

lemma distinct_remove_client: "distinct (map cl_id ns) \<Longrightarrow> distinct (map cl_id (remove_client P ns))"
proof (induction ns)
  case (Cons n ns)
  have "set (remove_client P ns) \<subseteq> set ns" for ns by (induction ns) (simp_all, blast)
  with Cons show ?case by (simp, blast)
qed simp

lemma distinct_upd_client: "(\<And>n. cl_id (f n) = cl_id n) \<Longrightarrow> map cl_id (upd_client P f ns) = map cl_id ns"
  by (induction ns) simp_all

lemma wf_client_expired [wf_ops]: "wf_op (client_expire c a)"
proof -
  have "wf_op (client_expired c a)" unfolding client_expired_def [abs_def]
    by (intro preserves_intros preserves_report_upd; simp add: mac_wf_def distinct_remove_client)
  then show ?thesis unfolding client_expire_def [abs_def] by (intro preserves_intros)
qed

lemma wf_start_channel: "mac_wf m \<Longrightarrow> mac_wf (start_channel c r m)"
  by (simp add: start_channel_def mac_wf_def)

lemma wf_link_scan [wf_ops]: "wf_op (link_scan_req c req)"
  unfolding link_scan_req_def [abs_def] by (intro preserves_intros preserves_assign wf_ops wf_clear wf_start_channel; simp add: mac_wf_def)

lemma wf_autoscan [wf_ops]: "wf_op (start_autoscan c)"
  unfolding start_autoscan_def [abs_def] by (rule preserves_args) (rule wf_link_scan)

lemma wf_report_scan [wf_ops]: "wf_op (report_scan c)"
  unfolding report_scan_def [abs_def] by (intro preserves_intros)

lemma preserves_stmts_of: "(\<And>x. preserves P (stmts (F x))) \<Longrightarrow> preserves P (\<lambda>m. stmts (F m) m)"
  by (rule preserves_args)

text \<open>Statements that establish a condition for those after them\<close>

definition leads :: "(mac \<Rightarrow> bool) \<Rightarrow> (mac \<Rightarrow> mac_result) \<Rightarrow> (mac \<Rightarrow> bool) \<Rightarrow> bool" where
  "leads P f Q \<longleftrightarrow> (\<forall>m m' out. P m \<longrightarrow> f m = Inr (m', out) \<longrightarrow> Q m')"

lemma leads_preserves: "leads P f P \<Longrightarrow> preserves P f"
  by (simp only: leads_def preserves_def)

lemma preserves_leads: "preserves P f \<Longrightarrow> leads P f P"
  by (simp only: leads_def preserves_def)

lemma preserves_weaken: "preserves Q f \<Longrightarrow> (\<And>m. Q m \<Longrightarrow> R m) \<Longrightarrow> leads Q f R"
  unfolding leads_def preserves_def by blast

lemma leads_Cons: "leads P f Q \<Longrightarrow> leads Q (stmts fs) R \<Longrightarrow> leads P (stmts (f # fs)) R"
  unfolding leads_def stmts.simps bind_res_Inr split_paired_Ex prod.case sum.inject prod.inject by blast

lemma leads_assign: "(\<And>m. P m \<Longrightarrow> Q (f m)) \<Longrightarrow> leads P (assign f) Q"
  by (simp add: leads_def assign_def)

definition scan_over :: "mac \<Rightarrow> bool" where
  "scan_over m \<longleftrightarrow> mac_wf m \<and> sc_step (scan m) = SCAN_NONE"

lemma scan_over_clear: "scan_over m \<Longrightarrow> scan_over (clear_tx_rx m)"
  by (simp add: scan_over_def wf_clear) (simp add: clear_tx_rx_def)

lemma scan_over_rest: "preserves scan_over (stmts [
      assign clear_tx_rx,
      assign (\<lambda>m. m\<lparr>hdv_state := MAC_CONNECTED, bssTimer := timer_resched (cx_now c) (bss_timeout m) (bssTimer m)\<rparr>),
      (\<lambda>m. need NullPtr (sc_resp (scan m)) (\<lambda>bs. assign (\<lambda>m. m\<lparr>channelIDAfterScan := fold (\<lambda>b f. f(bd_bss_id b := bd_channel b)) bs (channelIDAfterScan m)\<rparr>) m)),
      report_scan c,
      assign (\<lambda>m. m\<lparr>scan := (scan m)\<lparr>sc_resp := None, sc_req := None\<rparr>\<rparr>)])"
proof -
  have "preserves scan_over (report_scan c)" unfolding report_scan_def [abs_def] by (intro preserves_intros)
  then show ?thesis by (intro preserves_Cons preserves_Nil preserves_need preserves_assign scan_over_clear; simp add: scan_over_def mac_wf_def)
qed

lemma wf_scan_end: "wf_op (stmts [
      (\<lambda>m. set_channel c (sc_orig_ch (scan m)) m),
      assign (\<lambda>m. cancel_scan_timers (m\<lparr>scan := (scan m)\<lparr>sc_index := Suc (sc_index (scan m)), sc_step := SCAN_NONE\<rparr>, bss_id := old_bss_id m\<rparr>)),
      assign clear_tx_rx,
      assign (\<lambda>m. m\<lparr>hdv_state := MAC_CONNECTED, bssTimer := timer_resched (cx_now c) (bss_timeout m) (bssTimer m)\<rparr>),
      (\<lambda>m. need NullPtr (sc_resp (scan m)) (\<lambda>bs. assign (\<lambda>m. m\<lparr>channelIDAfterScan := fold (\<lambda>b f. f(bd_bss_id b := bd_channel b)) bs (channelIDAfterScan m)\<rparr>) m)),
      report_scan c,
      assign (\<lambda>m. m\<lparr>scan := (scan m)\<lparr>sc_resp := None, sc_req := None\<rparr>\<rparr>)])"
proof (rule leads_preserves, rule leads_Cons [where Q = mac_wf], rule preserves_leads, rule wf_set_channel(2), rule leads_Cons [where Q = scan_over])
  show "leads mac_wf (assign (\<lambda>m. cancel_scan_timers (m\<lparr>scan := (scan m)\<lparr>sc_index := Suc (sc_index (scan m)), sc_step := SCAN_NONE\<rparr>, bss_id := old_bss_id m\<rparr>))) scan_over"
    by (rule leads_assign) (simp add: scan_over_def cancel_scan_timers_def mac_wf_def)
qed (rule preserves_weaken [OF scan_over_rest], simp only: scan_over_def)

lemma wf_nextScan [wf_ops]: "wf_op (nextScan c)"
proof -
  have chan: "wf_op (\<lambda>m. bind_res (pref_ch r (sc_index (scan m))) (\<lambda>ch. set_channel c ch m))" for r
    by (intro preserves_bind wf_ops)
  show ?thesis unfolding nextScan_def [abs_def]
    by (rule preserves_need, rule preserves_stmts_of)
       (intro preserves_Cons preserves_Nil preserves_if wf_scan_end wf_report_scan chan preserves_assign wf_clear wf_start_channel; simp add: mac_wf_def cancel_scan_timers_def)
qed

lemma wf_scan_timers [wf_ops]: "wf_op (probe_expire c)" "wf_op (min_scan_expire c)" "wf_op (max_scan_expire c)"
  unfolding probe_expire_def min_scan_expire_def max_scan_expire_def
  by (intro preserves_timer_handle preserves_intros preserves_assign wf_ops; simp add: mac_wf_def)+

lemma wf_mac_command [wf_ops]: "wf_op (mac_command c k)"
  unfolding mac_command_def
  by (cases k; simp only: mac_cmd.case; intro preserves_intros preserves_assign wf_ops; simp add: mac_wf_def)

section \<open>Receiving\<close>

lemma wf_recv_ctrl [wf_ops]: "wf_op (recvRTS c p)" "wf_op (recvCTS c p)"
  unfolding recvRTS_def [abs_def] recvCTS_def [abs_def] by (intro preserves_intros preserves_assign wf_ops; simp add: mac_wf_def)+

lemma wf_clients: "mac_wf m \<Longrightarrow> map cl_id ns = map cl_id (clients m) \<Longrightarrow> mac_wf (m\<lparr>clients := ns\<rparr>)"
  by (simp add: mac_wf_def)

lemma cl_id_refresh [simp]: "cl_id (refresh_client c p n) = cl_id n"
  by (simp add: refresh_client_def)

lemma wf_upd_client: "mac_wf m \<Longrightarrow> (\<And>n. cl_id (f n) = cl_id n) \<Longrightarrow> mac_wf (m\<lparr>clients := upd_client Q f (clients m)\<rparr>)"
  by (rule wf_clients) (simp_all add: distinct_upd_client)

lemma preserves_error [preserves_intros]: "preserves P (\<lambda>m. Inl e)"
  by (simp add: preserves_def)

lemma wf_data_acked [wf_ops]: "wf_op (data_acked c p)"
  unfolding data_acked_def Let_def
  by (rule preserves_with_pkt, rule preserves_stmts_of) (intro preserves_intros preserves_assign wf_watch_const wf_upd_client; simp add: wf_all)

lemma wf_association_acked [wf_ops]: "wf_op (association_acked c p q)"
  unfolding association_acked_def [abs_def]
  by (rule preserves_slot, rule preserves_stmts_of) (intro preserves_intros preserves_assign wf_upd_client; simp)+

lemma wf_reset_count: "mac_wf m \<Longrightarrow> mac_wf ((next_management \<circ> rst_cw \<circ> reset_count q) m)"
  by (simp add: wf_next_management wf_rst_cw)

lemma wf_management_acked [wf_ops]: "wf_op (management_acked c p)"
  unfolding management_acked_def
  by (intro preserves_intros preserves_assign wf_ops wf_upd_client wf_reset_count; simp)

lemma wf_recvACK [wf_ops]: "wf_op (recvACK c p)"
  unfolding recvACK_def [abs_def]
  by (intro preserves_intros preserves_assign wf_ops; simp)

text \<open>Data\<close>

lemma wf_predict: "mac_wf m \<Longrightarrow> mac_wf (predict_bw_used c m)"
  by (simp add: predict_bw_used_def Let_def mac_wf_def upd_stat_def comp_def)

lemma wf_data_from_client: "mac_wf m \<Longrightarrow> mac_wf (data_from_client c p len m)"
  unfolding data_from_client_def by (simp, intro impI wf_predict wf_upd_client) simp_all

lemma wf_deliver [wf_ops]: "wf_op (deliver_data c p)"
  unfolding deliver_data_def [abs_def] by (intro preserves_intros preserves_assign; simp add: mac_wf_def)

lemma preserves_let_of: "(\<And>x. preserves P (f x)) \<Longrightarrow> preserves P (\<lambda>m. let x = e m in f x m)"
  unfolding preserves_def Let_def by blast

lemma wf_recvDATA [wf_ops]: "wf_op (recvDATA c p)"
  unfolding recvDATA_def [abs_def]
  by (rule preserves_let_of, unfold Let_def append_Cons append_Nil) (intro preserves_intros preserves_assign wf_data_from_client wf_ops; simp add: mac_wf_def)

text \<open>Management frames\<close>

lemma wf_accept:
  assumes "mac_wf m" "find (\<lambda>n. cl_id n = a) (clients m) = None" "cl_id n = a"
  shows "mac_wf ((snd (sendAssocResponse a n m))\<lparr>clients := fst (sendAssocResponse a n m) # clients (snd (sendAssocResponse a n m))\<rparr>)"
proof -
  have "mac_wf (snd (sendAssocResponse a n m))" using assms(1) by (rule wf_sendAssocResponse)
  moreover have "cl_id n \<notin> cl_id ` set (clients m)" using assms(2,3) by (simp add: find_None_iff) blast
  ultimately show ?thesis by (simp add: mac_wf_def)
qed

lemma cl_id_new [simp]: "cl_id (new_client c g a t) = a"
  by (simp add: new_client_def)

lemma wf_reassociate:
  assumes "mac_wf m" "find (\<lambda>n. cl_id n = a) (clients m) = Some n"
  shows "mac_wf ((snd (sendAssocResponse a n m))\<lparr>clients := upd_client (\<lambda>n. cl_id n = a) (\<lambda>_. fst (sendAssocResponse a n m)) (clients (snd (sendAssocResponse a n m)))\<rparr>)"
proof (rule wf_clients [OF wf_sendAssocResponse [OF assms(1)]])
  have "cl_id n = a" using assms(2) by (simp only: find_Some_iff) blast
  moreover have "cl_id n' = a \<Longrightarrow> map cl_id (upd_client (\<lambda>n. cl_id n = a) (\<lambda>_. n') ns) = map cl_id ns" for n' ns by (induction ns) simp_all
  ultimately show "map cl_id (upd_client (\<lambda>n. cl_id n = a) (\<lambda>_. fst (sendAssocResponse a n m)) (clients (snd (sendAssocResponse a n m)))) = map cl_id (clients (snd (sendAssocResponse a n m)))"
    by simp
qed

lemma wf_recvAssocRequest [wf_ops]: "wf_op (recvAssocRequest c g p)"
proof -
  have "wf_op (\<lambda>m. case find (\<lambda>n. cl_id n = dh_ta p) (clients m) of
             None \<Rightarrow> bind_res (code_rate (dataRate m) (supported_rate p)) (\<lambda>r.
               let (n, m1) = sendAssocResponse (dh_ta p) ((new_client c g (dh_ta p) (client_lifetime m))\<lparr>cl_dataRate := r\<rparr>) m
               in assign (\<lambda>m. m\<lparr>clients := n # clients m\<rparr>) m1)
           | Some n \<Rightarrow>
               if cl_status n = CLIENT_ASSOCIATED then
                 let (n1, m1) = sendAssocResponse (dh_ta p) n m
                 in assign (\<lambda>m. m\<lparr>clients := upd_client (\<lambda>n. cl_id n = dh_ta p) (\<lambda>_. n1) (clients m)\<rparr>) m1
               else skip m)" (is "wf_op ?f")
  proof (rule preservesI)
    fix m m' out assume wf: "mac_wf m" and e: "?f m = Inr (m', out)"
    show "mac_wf m'"
    proof (cases "find (\<lambda>n. cl_id n = dh_ta p) (clients m)")
      case None
      obtain r where "m' = (snd (sendAssocResponse (dh_ta p) ((new_client c g (dh_ta p) (client_lifetime m))\<lparr>cl_dataRate := r\<rparr>) m))
          \<lparr>clients := fst (sendAssocResponse (dh_ta p) ((new_client c g (dh_ta p) (client_lifetime m))\<lparr>cl_dataRate := r\<rparr>) m)
             # clients (snd (sendAssocResponse (dh_ta p) ((new_client c g (dh_ta p) (client_lifetime m))\<lparr>cl_dataRate := r\<rparr>) m))\<rparr>"
        using e None by (simp only: option.case bind_res_Inr Let_def case_prod_unfold assign_def sum.inject prod.inject) blast
      moreover have "cl_id ((new_client c g (dh_ta p) (client_lifetime m))\<lparr>cl_dataRate := r\<rparr>) = dh_ta p" by simp
      ultimately show ?thesis using wf_accept [OF wf None] by metis
    next
      case (Some n)
      show ?thesis
      proof (cases "cl_status n = CLIENT_ASSOCIATED")
        case True
        then have "m' = (snd (sendAssocResponse (dh_ta p) n m))\<lparr>clients := upd_client (\<lambda>n. cl_id n = dh_ta p) (\<lambda>_. fst (sendAssocResponse (dh_ta p) n m)) (clients (snd (sendAssocResponse (dh_ta p) n m)))\<rparr>"
          using e Some by (simp only: option.case if_True refl Let_def case_prod_unfold assign_def sum.inject prod.inject)
        then show ?thesis using wf_reassociate [OF wf Some] by (simp only:)
      next
        case False
        then show ?thesis using e Some wf by (simp only: option.case if_False skip_def sum.inject prod.inject)
      qed
    qed
  qed
  then show ?thesis unfolding recvAssocRequest_def [abs_def] by (intro preserves_Cons preserves_Nil preserves_check preserves_If preserves_discard preserves_cond preserves_skip wf_sendACK wf_timers wf_tx_resume)
qed

lemma wf_recvAssocResponse [wf_ops]: "wf_op (recvAssocResponse c p)"
proof -
  have d: "wf_op (\<lambda>m. link_disconnect c LD_RC_EXPLICIT_DISCONNECT (m\<lparr>bss_id := IBSS_ID\<rparr>))"
    by (rule wf_put_timer) (intro wf_ops, simp add: mac_wf_def)
  show ?thesis unfolding recvAssocResponse_def [abs_def]
    by (intro d preserves_Cons preserves_Nil preserves_If preserves_discard preserves_cond preserves_skip preserves_assign preserves_report_of wf_sendACK wf_tx_resume;
        simp add: mac_wf_def)
qed

lemma wf_note_bss [wf_ops]: "wf_op (note_bss a)"
proof (rule preservesI)
  fix m m' out assume wf: "mac_wf m" and e: "note_bss a m = Inr (m', out)"
  then obtain bs where bs: "sc_resp (scan m) = Some bs" by (simp only: note_bss_def need_Inr) blast
  show "mac_wf m'"
  proof (cases "\<exists>b \<in> set bs. bd_bss_id b = a")
    case True
    with e bs wf show ?thesis by (simp only: note_bss_def need_Inr option.inject if_True skip_def sum.inject prod.inject ex_simps simp_thms)
  next
    case False
    with e bs obtain ch where "m' = m\<lparr>scan := (scan m)\<lparr>sc_resp := Some (\<lparr>bd_bss_id = a, bd_beacon_period = 1 / 10, bd_channel = ch\<rparr> # bs)\<rparr>\<rparr>"
      by (simp only: note_bss_def need_Inr option.inject if_False bind_res_Inr assign_def sum.inject prod.inject ex_simps simp_thms) blast
    moreover have "a \<notin> bd_bss_id ` set bs" using False by blast
    ultimately show ?thesis using wf bs by (simp add: mac_wf_def)
  qed
qed

lemma preserves_assign_of: "(\<And>m. P m \<Longrightarrow> P (f m m)) \<Longrightarrow> preserves P (\<lambda>m. assign (f m) m)"
  by (simp add: preserves_def assign_def)

lemma wf_recvBeacon [wf_ops]: "wf_op (recvBeacon c p)"
  unfolding recvBeacon_def [abs_def] Let_def
  by (intro preserves_assign_of preserves_Cons preserves_Nil preserves_If preserves_bind preserves_if preserves_skip preserves_assign preserves_report_of wf_note_bss wf_link_connect;
      simp add: mac_wf_def)

lemma wf_recv_probes [wf_ops]: "wf_op (recvProbeRequest c p)" "wf_op (recvProbeResponse c p)"
  unfolding recvProbeRequest_def [abs_def] recvProbeResponse_def [abs_def]
  by (intro preserves_intros preserves_assign wf_ops; simp add: mac_wf_def)+

section \<open>The end of a reception\<close>

lemma watch_clients_id: "map cl_id (fst (watch_clients c p m ns ev)) = map cl_id ns"
  by (induction ns arbitrary: ev) (simp_all add: Let_def case_prod_unfold)

lemma wf_link_watch [wf_ops]: "wf_op (link_watch c p)"
proof -
  have "wf_op (\<lambda>m. let (ns, ev, out) = watch_clients c p m (clients m) (eventId m) in Inr (m\<lparr>clients := ns, eventId := ev\<rparr>, out))"
    by (rule preservesI) (simp add: Let_def case_prod_unfold mac_wf_def, elim conjE, simp add: watch_clients_id)
  then show ?thesis unfolding link_watch_def [abs_def]
    by (intro preserves_Cons preserves_Nil preserves_If preserves_if preserves_skip preserves_cond preserves_assign wf_ms_rxp_handover; simp add: mac_wf_def)
qed

lemma wf_reception_stats [wf_ops]: "wf_op (reception_stats c p)"
proof -
  have "wf_op (stmts [update_throughput c W_rxbw v, assign (upd_tput c W_rxsucc v)])" for v
    by (intro preserves_intros preserves_assign wf_watch_const; simp)
  then have "wf_op (\<lambda>m. let v = (ch_txtime p + (if dh_ra p \<noteq> MAC_BROADCAST then overhead_duration m else getDIFS (phymib m))) * dataRate m
            in stmts [update_throughput c W_rxbw v, assign (upd_tput c W_rxsucc v)] m)" by (rule preserves_let_of)
  then show ?thesis unfolding reception_stats_def
    by (intro preserves_Cons preserves_Nil preserves_If preserves_if preserves_skip preserves_cond preserves_assign wf_watch_const; simp)
qed

lemma wf_dispatch [wf_ops]: "wf_op (dispatch c g p)"
  unfolding dispatch_def [abs_def]
  by (cases "fc_type p"; simp only: frame_type.case) (intro preserves_If preserves_if preserves_discard preserves_error wf_ops)+

lemma wf_recv_done [wf_ops]: "wf_op (recv_done c)"
  unfolding recv_done_def rx_resume_def by (intro preserves_intros preserves_assign wf_ops; simp add: mac_wf_def)

lemma wf_recv_good [wf_ops]: "wf_op (recv_good c g p)"
  unfolding recv_good_def by (intro preserves_intros preserves_assign wf_ops; simp)

lemma wf_ap_collect: "mac_wf m \<Longrightarrow> mac_wf (ap_collect c p m)"
  by (simp add: ap_collect_def mac_wf_def)

lemma wf_bw_expire [wf_ops]: "wf_op (bw_expire c)"
  unfolding bw_expire_def by (intro preserves_timer_handle preserves_assign; simp add: bw_update_def Let_def mac_wf_def)

lemma wf_recv_timer [wf_ops]: "wf_op (recv_timer c g)"
proof -
  have "wf_op (stmts [assign (upd_tput c W_rxcoll v), update_throughput c W_rxbw v])" for v
    by (intro preserves_intros preserves_assign wf_watch_const; simp)
  then have coll: "wf_op (\<lambda>m. let v = (ch_txtime p + coll_overhead_duration m) * dataRate m in stmts [assign (upd_tput c W_rxcoll v), update_throughput c W_rxbw v] m)" for p
    by (rule preserves_let_of)
  show ?thesis unfolding recv_timer_def
    by (intro coll preserves_Cons preserves_Nil preserves_with_pkt preserves_assert preserves_If preserves_if preserves_discard preserves_cond preserves_skip
          preserves_assign wf_ap_collect wf_set_nav_of wf_recv_done wf_recv_good; simp add: mac_wf_def upd_stat_def set_current_def)
qed

lemma wf_recv_expire [wf_ops]: "wf_op (recv_expire c g)"
  unfolding recv_expire_def [abs_def] by (rule wf_put_timer) (intro wf_ops, simp add: mac_wf_def)

lemma wf_mac_recv [wf_ops]: "wf_op (mac_recv c p)"
proof -
  have "wf_op (\<lambda>m. mac_send c p (upd_stat c W_qwait (cx_now c - sw_current (stats m W_qwait)) m))"
    by (rule wf_put_timer) (intro wf_ops, simp)
  moreover have "wf_op (\<lambda>m. if rx_state m = MAC_IDLE then
      stmts [setRxState c MAC_RECV, assign (\<lambda>m. m\<lparr>pktRx := Some q\<rparr>), (\<lambda>m. bind_res (txtime_pkt q) (\<lambda>t. start_recv c t m))] m
    else need NullPtr (pktRx m) (\<lambda>r. if RxPr r / RxPr q \<ge> CPThresh q then capture c q m else collision c q m))" for q
    unfolding capture_def collision_def
    by (intro preserves_intros preserves_assign wf_states wf_timers wf_set_nav_of; simp add: mac_wf_def)
  ultimately show ?thesis unfolding mac_recv_def [abs_def] by (rule preserves_If [OF _ preserves_let_of])
qed

section \<open>Runs\<close>

lemma wf_mac_handle: "wf_op (mac_handle c i)"
  by (cases i; simp only: mac_handle.simps; rule wf_ops)

lemma wf_new_mac: "CWMin (phymib m) \<le> CWMax (phymib m) \<Longrightarrow> CWMax (phymib m) < 2 ^ 31 \<Longrightarrow> mac_wf (new_mac alpha beta m)"
  by (simp add: new_mac_def mac_wf_def new_mac_timer_def)

lemma mac_reach_wf: "mac_reach m0 m \<Longrightarrow> mac_wf m0 \<Longrightarrow> mac_wf m"
  by (induction rule: mac_reach.induct) (use wf_mac_handle in \<open>blast dest: preservesD\<close>)+

text \<open>
  C17: In every state that an 802.11 MAC gets into from its constructor, by packets, frames, timers and commands in any order: the contention window is between
  its bounds, which no doubling gets over, each slot for a frame holds a frame of its kind, management frames are queued only behind one that is being sent, the clients of an access
  point have different addresses, a scan that is under way has a response to write into whose access points are different, and a backoff that is paused is a
  backoff that was started.
\<close>

theorem mac_runs_wf:
  assumes "CWMin (phymib m0) \<le> CWMax (phymib m0)" and "CWMax (phymib m0) < 2 ^ 31" and "mac_reach (new_mac alpha beta m0) m"
  shows "mac_wf m"
  using mac_reach_wf [OF assms(3) wf_new_mac [OF assms(1,2)]] .

theorem mac_runs_wf_witness: "\<exists>m. mac_reach (demo_station 4) m \<and> sc_step (scan m) = SCAN_WAITING \<and> chan m = 6 \<and> mac_wf m"
proof -
  obtain m out where m: "mac_handle (demo_ctx 1) (Scan (Some demo_request)) (demo_station 4) = Inr (m, out)" "sc_step (scan m) = SCAN_WAITING" "chan m = 6"
    by (simp add: link_scan_req_def demo_request_def pref_ch_def assign_def cond_def set_channel_def assert_mac_def emit_def clear_tx_rx_def start_channel_def
        demo_station_def new_mac_def demo_wlan_def demo_scan_def)
  have "mac_reach (demo_station 4) m" using mac_reach.step [OF mac_reach.start _ m(1)] by simp
  moreover from this have "mac_wf m"
    by (intro mac_runs_wf [of "demo_wlan 4" "\<lambda>_. 1" "\<lambda>_. 1"]) (simp_all add: demo_station_def demo_wlan_def demo_phy_def)
  ultimately show ?thesis using m(2,3) by blast
qed

end
