(* ===== verification/Wlan_Returns.thy ===== *)
theory Wlan_Returns
  imports Wlan_Preserve
begin

text \<open>
  When \<^verbatim>\<open>tx_resume\<close> of the 802.11 MAC, which calls itself by way of \<^verbatim>\<open>send\<close>, returns.
\<close>

section \<open>When \<^verbatim>\<open>tx_resume\<close> returns\<close>

definition stuck :: "mac \<Rightarrow> bool" where
  "stuck m \<longleftrightarrow> \<not> mt_busy (mhSend m) \<and> \<not> mt_busy (mhDefer m) \<and> \<not> mt_busy (mhBackoff m) \<and> wants_packet m
     \<and> (\<exists>p r. tmpPacket m = Some p \<and> unassociated m p \<and> discard p ''NAS'' m = Inr r)"

lemma discard_state: "discard p why m = Inr (m', out) \<Longrightarrow> m' = m"
  by (cases "fc_type p"; simp add: discard_def skip_def emit_def split: if_splits)

lemma set_callback: "callback m \<Longrightarrow> m\<lparr>callback := True\<rparr> = m"
  by (cases m) simp

lemma stuck_resumes:
  assumes "stuck m" and b: "tx_body f c m = Some r"
  shows "f m \<noteq> None"
proof -
  from assms(1) obtain p out where p: "tmpPacket m = Some p" "unassociated m p" "discard p ''NAS'' m = Inr (m, out)"
    unfolding stuck_def by (metis discard_state prod.collapse)
  have "callback m" "\<not> (mt_busy (mhSend m) \<or> mt_busy (mhDefer m))" "\<not> mt_busy (mhBackoff m)" "wants_packet m"
    using assms(1) by (simp_all add: stuck_def wants_packet_def)
  with b p have "send_with f c p m \<noteq> None"
    by (simp only: tx_body_def if_False simp_thms option.case bind_eq_Some_conv) blast
  with p \<open>callback m\<close> \<open>\<not> (mt_busy (mhSend m) \<or> mt_busy (mhDefer m))\<close> \<open>\<not> mt_busy (mhBackoff m)\<close>
  show ?thesis by (cases "f m") (simp_all add: send_with_def Let_def set_callback)
qed

lemma stuck_never_returns: "tx_loop c m = Some r \<Longrightarrow> \<not> stuck m"
proof (erule tx_loop.raw_induct [rotated], fold tx_body_def)
  fix f c m r
  assume "\<And>c m r. f c m = Some r \<Longrightarrow> \<not> stuck m" "tx_body (f c) c m = Some r"
  then show "\<not> stuck m" using stuck_resumes [of m "f c" c r] by blast
qed

lemma send_with_returns:
  assumes "\<And>r. unassociated m p \<Longrightarrow> \<not> mt_busy (mhBackoff m) \<and> \<not> mt_busy (mhDefer m) \<and> \<not> mt_busy (mhSend m) \<Longrightarrow> discard p ''NAS'' m = Inr r
    \<Longrightarrow> resume (m\<lparr>callback := True\<rparr>) \<noteq> None"
  shows "send_with resume c p m \<noteq> None"
proof (cases "unassociated m p")
  case False
  then show ?thesis by (simp add: send_with_def)
next
  case un: True
  show ?thesis
  proof (cases "discard p ''NAS'' m")
    case (Inl e)
    with un show ?thesis by (simp add: send_with_def)
  next
    case (Inr r)
    then obtain out where d: "discard p ''NAS'' m = Inr (m, out)" by (metis discard_state prod.collapse)
    show ?thesis
    proof (cases "\<not> mt_busy (mhBackoff m) \<and> \<not> mt_busy (mhDefer m) \<and> \<not> mt_busy (mhSend m)")
      case True
      with assms un d have "resume (m\<lparr>callback := True\<rparr>) \<noteq> None" by blast
      then obtain x where "resume (m\<lparr>callback := True\<rparr>) = Some x" by blast
      with un d show ?thesis by (simp add: send_with_def Let_def)
    next
      case False
      with un d show ?thesis by (simp add: send_with_def Let_def) blast
    qed
  qed
qed

text \<open>Packets of the queue are dropped one after the other until one can be sent, or none is left.\<close>

lemma queue_returns: "tmpPacket m = None \<Longrightarrow> tx_loop c m \<noteq> None"
proof (induction "length (ifq m)" arbitrary: m rule: less_induct)
  case less
  define m1 where "m1 = set_current W_qwait (cx_now c) (m\<lparr>callback := False\<rparr>)"
  consider "mt_busy (mhSend m) \<or> mt_busy (mhDefer m)" | "\<not> (mt_busy (mhSend m) \<or> mt_busy (mhDefer m))" "\<not> wants_packet m"
    | "\<not> (mt_busy (mhSend m) \<or> mt_busy (mhDefer m))" "wants_packet m" by blast
  then show ?case
  proof cases
    case 3
    show ?thesis
    proof (cases "ifq m1")
      case Nil
      with 3 less.prems show ?thesis
        by (subst tx_loop_body) (simp only: tx_body_def if_False simp_thms option.case Let_def m1_def [symmetric] list.case option.distinct)
    next
      case (Cons p ps)
      define m2 where "m2 = upd_stat c W_qwait (cx_now c - sw_current (stats m1 W_qwait)) (m1\<lparr>ifq := ps\<rparr>)"
      have "length (ifq (m2\<lparr>callback := True\<rparr>)) < length (ifq m)" "tmpPacket (m2\<lparr>callback := True\<rparr>) = None"
        using Cons less.prems by (simp_all add: m1_def m2_def set_current_def upd_stat_def)
      from less.hyps [OF this] obtain s where "send_with (tx_loop c) c p m2 = Some s" using send_with_returns [where resume = "tx_loop c"] by blast
      with 3 less.prems Cons show ?thesis
        by (subst tx_loop_body)
           (simp only: tx_body_def if_False simp_thms option.case Let_def m1_def [symmetric] list.case m2_def [symmetric] Option.bind.bind_lunit option.distinct)
    qed
  qed (subst tx_loop_body, simp add: tx_body_def)+
qed

lemma buffered_returns: "tmpPacket m = Some p \<Longrightarrow> \<not> stuck m \<Longrightarrow> tx_loop c m \<noteq> None"
proof -
  assume p: "tmpPacket m = Some p" and n: "\<not> stuck m"
  consider "mt_busy (mhSend m) \<or> mt_busy (mhDefer m)" | "\<not> (mt_busy (mhSend m) \<or> mt_busy (mhDefer m))" "\<not> wants_packet m"
    | "\<not> (mt_busy (mhSend m) \<or> mt_busy (mhDefer m))" "wants_packet m" by blast
  then show ?thesis
  proof cases
    case 3
    with p n have "send_with (tx_loop c) c p m \<noteq> None" using send_with_returns [where resume = "tx_loop c"] unfolding stuck_def by blast
    then obtain s where "send_with (tx_loop c) c p m = Some s" by blast
    with 3 p show ?thesis by (subst tx_loop_body) (simp only: tx_body_def if_False simp_thms option.case Option.bind.bind_lunit option.distinct)
  qed (subst tx_loop_body, simp add: tx_body_def)+
qed

text \<open>
  C18: \<^verbatim>\<open>tx_resume\<close> and \<^verbatim>\<open>send\<close> call each other: an access point without an associated station drops the packets of its queue one after the
  other. The recursion ends for every queue, except in one situation, in which it never ends: no timer for sending runs, nothing else is to be sent, and the packet that was put
  aside while a management frame or beacon was being sent is not a broadcast, at an access point that has no associated station any more. The packet is dropped then and
  taken up again.
\<close>

theorem tx_resume_returns: "tx_loop c m = None \<longleftrightarrow>
    \<not> mt_busy (mhSend m) \<and> \<not> mt_busy (mhDefer m) \<and> \<not> mt_busy (mhBackoff m) \<and> wants_packet m
      \<and> (\<exists>p r. tmpPacket m = Some p \<and> unassociated m p \<and> discard p ''NAS'' m = Inr r)"
  using stuck_never_returns queue_returns buffered_returns unfolding stuck_def [symmetric] by (metis not_None_eq)

end
