(* ===== verification/Wlan_Triples.thy ===== *)
theory Wlan_Triples
  imports Wlan_Preserve
begin

text \<open>
  Runs of the 802.11 MAC, and triples for what its statements do: they succeed, lead from one condition to another, and give the outputs that an observer sees.
\<close>

section \<open>Runs\<close>

fun mac_run :: "(mac_ctx \<times> mac_input) list \<Rightarrow> mac \<Rightarrow> mac_result" where
  "mac_run [] m = Inr (m, [])"
| "mac_run ((c, i) # is) m = check AssertFail (mac_enabled i m) (bind_res (mac_handle c i m) (\<lambda>(m1, o1). bind_res (mac_run is m1) (\<lambda>(m2, o2). Inr (m2, o1 @ o2))))"

lemma mac_run_append: "mac_run (is @ js) m = bind_res (mac_run is m) (\<lambda>(m1, o1). bind_res (mac_run js m1) (\<lambda>(m2, o2). Inr (m2, o1 @ o2)))"
proof (induction "is" arbitrary: m)
  case Nil
  then show ?case by (cases "mac_run js m") (simp_all add: case_prod_unfold)
next
  case (Cons x xs)
  obtain c i where "x = (c, i)" by (cases x)
  have assoc: "bind_res (bind_res r f) g = bind_res r (\<lambda>x. bind_res (f x) g)" for r :: mac_result and f g by (cases r) simp_all
  show ?case using \<open>x = (c, i)\<close> by (cases "mac_handle c i m") (simp_all add: Cons.IH check_def case_prod_unfold assoc)
qed

section \<open>Triples\<close>

text \<open>
  \<open>view\<close> is what is observed of the outputs.
\<close>

definition does :: "(mac_out list \<Rightarrow> 'o list) \<Rightarrow> (mac \<Rightarrow> bool) \<Rightarrow> (mac \<Rightarrow> mac_result) \<Rightarrow> 'o list \<Rightarrow> (mac \<Rightarrow> bool) \<Rightarrow> bool" where
  "does view P f xs Q \<longleftrightarrow> (\<forall>m. P m \<longrightarrow> (\<exists>m' out. f m = Inr (m', out) \<and> view out = xs \<and> Q m'))"

lemma doesD: "does view P f xs Q \<Longrightarrow> P m \<Longrightarrow> \<exists>m' out. f m = Inr (m', out) \<and> view out = xs \<and> Q m'"
  unfolding does_def by blast

lemma does_then: "(\<And>m. P m \<Longrightarrow> b m) \<Longrightarrow> does view P f xs Q \<Longrightarrow> does view P (cond b f g) xs Q"
  by (simp add: does_def cond_def)

lemma does_else: "(\<And>m. P m \<Longrightarrow> \<not> b m) \<Longrightarrow> does view P g xs Q \<Longrightarrow> does view P (cond b f g) xs Q"
  by (simp add: does_def cond_def)

lemma does_cond: "does view P f xs Q \<Longrightarrow> does view P g xs Q \<Longrightarrow> does view P (cond b f g) xs Q"
  unfolding does_def cond_def by metis

lemma does_pkt: "(\<And>m. P m \<Longrightarrow> get m = Some p) \<Longrightarrow> does view P (f p) xs Q \<Longrightarrow> does view P (with_pkt get f) xs Q"
  by (simp add: does_def with_pkt_def)

lemma does_weaken: "does view P f xs Q \<Longrightarrow> (\<And>m. P' m \<Longrightarrow> P m) \<Longrightarrow> (\<And>m. Q m \<Longrightarrow> Q' m) \<Longrightarrow> does view P' f xs Q'"
  unfolding does_def by blast

lemma does_args: "(\<And>x. does view P (g x) xs Q) \<Longrightarrow> does view P (\<lambda>m. g (e m) m) xs Q"
  by (simp add: does_def)

lemma does_case: "(\<And>m. P m \<Longrightarrow> f m = g m) \<Longrightarrow> does view P g xs Q \<Longrightarrow> does view P f xs Q"
  by (simp add: does_def)

lemma does_timer:
  assumes f: "does view P' f xs Q'" and p: "\<And>m. P m \<Longrightarrow> \<exists>d. get m = TIMER_PENDING d" and b: "\<And>m. P m \<Longrightarrow> P' (put TIMER_HANDLING m)"
    and e: "\<And>m. Q' m \<Longrightarrow> Q (put (timer_end (get m)) m)"
  shows "does view P (timer_handle get put f) xs Q"
  unfolding does_def
proof (intro allI impI)
  fix m assume "P m"
  then obtain d where "get m = TIMER_PENDING d" using p by blast
  moreover obtain m1 out where "f (put TIMER_HANDLING m) = Inr (m1, out)" "view out = xs" "Q' m1" using doesD [OF f b [OF \<open>P m\<close>]] by blast
  ultimately show "\<exists>m' out. timer_handle get put f m = Inr (m', out) \<and> view out = xs \<and> Q m'" using e by (simp add: timer_handle_def timer_begin_def)
qed

text \<open>An observer sees the outputs one after the other, and not the reports about parameters of the link.\<close>

locale observer =
  fixes view :: "mac_out list \<Rightarrow> 'o list"
  assumes view_Nil: "view [] = []"
    and view_append: "view (xs @ ys) = view xs @ view ys"
    and view_event: "view [MacEvent e] = []"
begin

lemma does_Cons:
  assumes "does view P f xs Q" "does view Q (stmts fs) ys R"
  shows "does view P (stmts (f # fs)) (xs @ ys) R"
  unfolding does_def
proof (intro allI impI)
  fix m assume "P m"
  then obtain m1 o1 where f: "f m = Inr (m1, o1)" "view o1 = xs" "Q m1" using assms(1) unfolding does_def by blast
  then obtain m2 o2 where "stmts fs m1 = Inr (m2, o2)" "view o2 = ys" "R m2" using assms(2) unfolding does_def by blast
  with f show "\<exists>m' out. stmts (f # fs) m = Inr (m', out) \<and> view out = xs @ ys \<and> R m'" by (simp add: view_append)
qed

lemma does_quiet: "does view P f [] Q \<Longrightarrow> does view Q (stmts fs) xs R \<Longrightarrow> does view P (stmts (f # fs)) xs R"
  using does_Cons [of P f "[]"] by simp

lemma does_last: "does view P f xs Q \<Longrightarrow> does view Q (stmts fs) [] R \<Longrightarrow> does view P (stmts (f # fs)) xs R"
  using does_Cons [of P f xs Q fs "[]"] by simp

lemma does_Nil: "does view P (stmts []) [] P"
  by (simp add: does_def view_Nil)

lemma does_assign: "(\<And>m. P m \<Longrightarrow> Q (f m)) \<Longrightarrow> does view P (assign f) [] Q"
  by (simp add: does_def assign_def view_Nil)

lemma does_assert: "(\<And>m. P m \<Longrightarrow> b m) \<Longrightarrow> does view P (assert_mac b) [] P"
  by (simp add: does_def assert_mac_def view_Nil)

lemma does_skip: "does view P skip [] P"
  by (simp add: does_def skip_def view_Nil)

lemma keeps_Cons: "does view P f [] P \<Longrightarrow> does view P (stmts fs) [] P \<Longrightarrow> does view P (stmts (f # fs)) [] P"
  by (rule does_quiet)

lemma parameters_report_eq: "\<exists>out. parameters_report c par a w m = Inr (m, out) \<and> view out = []"
  by (simp add: parameters_report_def skip_def report_event_def view_Nil view_event split: option.split)

lemma does_throughput: "(\<And>m. P m \<Longrightarrow> Q (upd_tput c k (v m) m)) \<Longrightarrow> does view P (\<lambda>m. update_throughput c k (v m) m) [] Q"
  unfolding does_def update_throughput_def Let_def case_prod_unfold upd_tput_def using parameters_report_eq by blast

lemma does_watch: "(\<And>m. P m \<Longrightarrow> Q (upd_stat c k v m)) \<Longrightarrow> does view P (update_watch c k v) [] Q"
  unfolding does_def update_watch_def Let_def case_prod_unfold upd_stat_def using parameters_report_eq by blast

lemma does_run:
  assumes e: "\<And>m. P m \<Longrightarrow> mac_enabled i m" and f: "does view P (mac_handle c i) xs Q" and r: "does view Q (mac_run is) ys R"
  shows "does view P (mac_run ((c, i) # is)) (xs @ ys) R"
proof -
  have "does view P (stmts [mac_handle c i, mac_run is]) (xs @ ys) R" using does_Cons [OF f does_last [OF r does_Nil]] .
  then show ?thesis unfolding does_def using e by (simp add: case_prod_unfold)
qed

lemma does_run_Nil: "does view P (mac_run []) [] P"
  by (simp add: does_def view_Nil)

lemma does_runs:
  assumes "does view P (mac_run is) xs Q" and "does view Q (mac_run js) ys R"
  shows "does view P (mac_run (is @ js)) (xs @ ys) R"
  unfolding does_def
proof (intro allI impI)
  fix m assume "P m"
  then obtain m1 o1 where f: "mac_run is m = Inr (m1, o1)" "view o1 = xs" "Q m1" using assms(1) unfolding does_def by blast
  then obtain m2 o2 where "mac_run js m1 = Inr (m2, o2)" "view o2 = ys" "R m2" using assms(2) unfolding does_def by blast
  with f show "\<exists>m' out. mac_run (is @ js) m = Inr (m', out) \<and> view out = xs @ ys \<and> R m'" by (simp add: view_append mac_run_append)
qed

end

end
