(* ===== verification/Wlan_Retry.thy ===== *)
theory Wlan_Retry
  imports Wlan_Triples Wlan_Demo
begin

text \<open>
  What the 802.11 MAC does with a packet that gets no answer: the data frame, or the RTS before it, is sent again, marked, until the limit is reached.
\<close>

datatype traffic_item = Sent frame | Dropped nat string

fun traffic :: "mac_out list \<Rightarrow> traffic_item list" where
  "traffic [] = []"
| "traffic (MacTx p # out) = Sent p # traffic out"
| "traffic (MacDrop p why # out) = Dropped (fr_id p) why # traffic out"
| "traffic (_ # out) = traffic out"

lemma traffic_append: "traffic (xs @ ys) = traffic xs @ traffic ys"
  by (induction xs rule: traffic.induct) simp_all

interpretation tr: observer traffic
  by unfold_locales (simp_all add: traffic_append)

section \<open>A data frame that nobody acknowledges\<close>

definition waits_alone :: "bool \<Rightarrow> time \<Rightarrow> nat \<Rightarrow> frame \<Rightarrow> nat \<Rightarrow> mac \<Rightarrow> bool" where
  "waits_alone b T L p n m \<longleftrightarrow> pktTx m = Some p \<and> fc_type p = MAC_Type_Data \<and> fc_subtype p = MAC_Subtype_Data \<and> dh_ra p \<noteq> MAC_BROADCAST \<and> dh_ta p = index m
     \<and> \<not> ch_error p \<and> 0 \<le> ch_txtime p \<and> (u32 (ch_size p) < RTSThreshold (macmib m) \<longleftrightarrow> b) \<and> ssrc m = n \<and> ShortRetryLimit (macmib m) = L
     \<and> pktCTRL m = None \<and> pktBeacon m = None \<and> pktManagement m = None \<and> pktRTS m = None \<and> tmpPacket m = None \<and> ifq m = [] \<and> sc_step (scan m) = SCAN_NONE
     \<and> rx_state m = MAC_IDLE \<and> nav m \<le> T \<and> \<not> EOTtarget m \<and> \<not> mt_busy (mhDefer m)
     \<and> 0 \<le> answer_timeout m (ch_txtime p) getACKlen \<and> 0 \<le> SlotTime (phymib m) \<and> 0 \<le> getDIFS (phymib m)
     \<and> 0 \<le> SIFSTime (phymib m) \<and> 0 \<le> basic_txtime m getRTSlen \<and> 0 \<le> basic_txtime m getCTSlen"

definition on_air :: "time \<Rightarrow> nat \<Rightarrow> frame \<Rightarrow> nat \<Rightarrow> mac \<Rightarrow> bool" where
  "on_air T L p n m \<longleftrightarrow> waits_alone True T L p n m \<and> tx_state m = MAC_SEND \<and> last_tx m = Some (fr_id p) \<and> mt_running (mhSend m) \<and> mt_running (mhIF m) \<and> \<not> mt_busy (mhBackoff m) \<and> \<not> mt_paused (mhBackoff m)"

definition off_air :: "time \<Rightarrow> nat \<Rightarrow> frame \<Rightarrow> nat \<Rightarrow> mac \<Rightarrow> bool" where
  "off_air T L p n m \<longleftrightarrow> waits_alone True T L p n m \<and> tx_state m = MAC_SEND \<and> last_tx m = Some (fr_id p) \<and> mt_running (mhSend m) \<and> \<not> mt_busy (mhIF m) \<and> \<not> mt_busy (mhBackoff m) \<and> \<not> mt_paused (mhBackoff m)"

definition backs_off :: "time \<Rightarrow> nat \<Rightarrow> frame \<Rightarrow> nat \<Rightarrow> mac \<Rightarrow> bool" where
  "backs_off T L p n m \<longleftrightarrow> waits_alone True T L p n m \<and> tx_state m = MAC_IDLE \<and> \<not> mt_busy (mhSend m) \<and> \<not> mt_busy (mhIF m) \<and> mt_running (mhBackoff m)"

lemma if_step: "on_air T L p n m \<Longrightarrow> mac_enabled IFTimer m \<and> (\<exists>m'. mac_handle c IFTimer m = Inr (m', []) \<and> off_air T L p n m')"
  unfolding on_air_def off_air_def waits_alone_def
  by (simp add: if_expire_def txHandler_def cond_def skip_def assign_def mt_handle_def answer_timeout_def)

lemma bind_res_right [simp]: "bind_res r Inr = r"
  by (cases r) simp_all

lemma tx_resume_backing: "waits_alone True T L p n m \<Longrightarrow> \<not> mt_busy (mhSend m) \<Longrightarrow> mt_busy (mhBackoff m) \<Longrightarrow> tx_resume c m = setTxState c MAC_IDLE m"
  unfolding tx_resume_def waits_alone_def
  by (subst tx_loop_body) (simp add: tx_body_def wants_packet_def returned_def defer_next_def cond_def skip_def case_prod_unfold)

definition unacked :: "time \<Rightarrow> nat \<Rightarrow> frame \<Rightarrow> nat \<Rightarrow> mac \<Rightarrow> bool" where
  "unacked T L p n m \<longleftrightarrow> waits_alone True T L p n m \<and> tx_state m = MAC_SEND \<and> \<not> mt_busy (mhSend m) \<and> \<not> mt_busy (mhIF m) \<and> \<not> mt_busy (mhBackoff m) \<and> \<not> mt_paused (mhBackoff m)"

definition to_repeat :: "time \<Rightarrow> nat \<Rightarrow> frame \<Rightarrow> nat \<Rightarrow> mac \<Rightarrow> bool" where
  "to_repeat T L p n m \<longleftrightarrow> waits_alone True T L p n m \<and> tx_state m = MAC_SEND \<and> \<not> mt_busy (mhSend m) \<and> \<not> mt_busy (mhIF m) \<and> mt_busy (mhBackoff m) \<and> mt_paused (mhBackoff m)
     \<and> 0 \<le> mt_rtime (mhBackoff m)"

lemmas retry_defs = unacked_def to_repeat_def waits_alone_def answer_timeout_def upd_stat_def set_current_def upd_tput_def

lemma unacked_error: "does traffic (unacked T L p n) (note_error c p) [] (unacked T L p n)"
  unfolding note_error_def by (intro tr.keeps_Cons does_cond tr.does_throughput tr.does_assign tr.does_Nil tr.does_skip; simp add: retry_defs)

lemma short_alone: "waits_alone True T L p n m \<Longrightarrow> short_frame m p"
  by (simp add: waits_alone_def short_frame_def)

lemma no_rts: "waits_alone True T L p n m \<Longrightarrow> sendRTS (dh_ra p) m = Inr (m, [])"
  by (simp add: waits_alone_def sendRTS_def with_pkt_def assert_mac_def rts_needed_def skip_def)

lemma mark_retry_simps [simp]: "fr_id (mark_retry p) = fr_id p" "fc_type (mark_retry p) = fc_type p" "fc_subtype (mark_retry p) = fc_subtype p" "dh_ra (mark_retry p) = dh_ra p"
  "dh_ta (mark_retry p) = dh_ta p" "ch_error (mark_retry p) = ch_error p" "ch_txtime (mark_retry p) = ch_txtime p" "ch_size (mark_retry p) = ch_size p"
  by (simp_all add: mark_retry_def)

lemma repeat_backoff: "does traffic (unacked T L p n) (start_backoff c) [] (to_repeat T L p n)"
  unfolding does_def
  by (simp add: start_backoff_def set_mac_timer_def bo_start_def is_idle_def assign_def retry_defs)

lemma does_repeat: "does traffic (unacked T L p n) (repeat_data c p) [] (to_repeat T L (mark_retry p) n)"
proof -
  have mark: "does traffic (unacked T L p n) (assign (\<lambda>m. m\<lparr>pktTx := map_option mark_retry (pktTx m)\<rparr>)) [] (unacked T L (mark_retry p) n)"
    by (rule tr.does_assign) (simp add: retry_defs)
  have rts: "does traffic (unacked T L (mark_retry p) n) (sendRTS (dh_ra p)) [] (unacked T L (mark_retry p) n)"
    unfolding does_def unacked_def using no_rts [of T L "mark_retry p" n] by simp
  have cw: "does traffic (unacked T L (mark_retry p) n) (assign inc_cw) [] (unacked T L (mark_retry p) n)"
    by (rule tr.does_assign) (simp add: inc_cw_def Let_def retry_defs)
  have count: "does traffic (to_repeat T L (mark_retry p) n) (assign count_retx) [] (to_repeat T L (mark_retry p) n)"
    by (rule tr.does_assign) (simp add: count_retx_def retry_defs)
  show ?thesis unfolding repeat_data_def
    by (rule tr.does_quiet [OF mark], rule tr.does_quiet [OF rts], rule tr.does_quiet [OF cw], rule tr.does_quiet [OF repeat_backoff], rule tr.does_quiet [OF count tr.does_Nil])
qed

definition given_up :: "mac \<Rightarrow> bool" where
  "given_up m \<longleftrightarrow> pktTx m = None \<and> contention m = CWMin (phymib m) \<and> ssrc m = 0
     \<and> pktCTRL m = None \<and> pktBeacon m = None \<and> pktManagement m = None \<and> pktRTS m = None \<and> tmpPacket m = None \<and> ifq m = [] \<and> sc_step (scan m) = SCAN_NONE
     \<and> \<not> mt_busy (mhDefer m) \<and> \<not> mt_busy (mhSend m) \<and> \<not> mt_busy (mhIF m) \<and> \<not> mt_busy (mhBackoff m) \<and> \<not> mt_paused (mhBackoff m)"

lemma does_drop: "does traffic (unacked T L p n) (drop_data c p) [Dropped (fr_id p) ''RET''] given_up"
proof -
  let ?R = "\<lambda>m. given_up (m\<lparr>contention := CWMin (phymib m), ssrc := 0\<rparr>) \<and> short_frame m p"
  have count: "does traffic (unacked T L p n) (assign (\<lambda>m. m\<lparr>macmib := (macmib m)\<lparr>FailedCount := FailedCount (macmib m) + 1\<rparr>\<rparr>)) [] (unacked T L p n)"
    by (rule tr.does_assign) (simp add: retry_defs)
  have drop: "does traffic (unacked T L p n) (give_up_data ''ACK'') [Dropped (fr_id p) ''RET''] ?R"
    unfolding does_def by (simp add: give_up_data_def with_pkt_def fail_data_def emit_def assign_def discard_def retry_defs given_up_def short_frame_def)
  have reset: "does traffic ?R (assign (\<lambda>m. record_retx c (rst_cw (reset_count p m)))) [] given_up"
    by (rule tr.does_assign) (simp add: record_retx_def reset_count_def rst_cw_def given_up_def set_current_def upd_stat_def)
  have watch: "does traffic given_up (update_watch c W_txloss 1) [] given_up"
    by (rule tr.does_watch) (simp add: given_up_def upd_stat_def)
  show ?thesis unfolding drop_data_def
    by (rule tr.does_quiet [OF count], rule tr.does_last [OF drop], rule tr.does_quiet [OF reset], rule tr.does_quiet [OF watch], rule tr.does_Nil)
qed

lemma does_count: "does traffic (unacked T L p n) (assign (\<lambda>m. count_failure p (m\<lparr>macmib := (macmib m)\<lparr>ACKFailureCount := ACKFailureCount (macmib m) + 1\<rparr>\<rparr>))) [] (unacked T L p (Suc n))"
  by (rule tr.does_assign) (simp add: count_failure_def short_frame_def retry_defs)

lemma does_retransmit:
  assumes "does traffic (unacked T L p (Suc n)) (cond (limit_reached p) (drop_data c p) (repeat_data c p)) xs Q"
  shows "does traffic (unacked T L p n) (RetransmitDATA c) xs Q"
proof -
  have "does traffic (unacked T L p n) (stmts [assign (\<lambda>m. count_failure p (m\<lparr>macmib := (macmib m)\<lparr>ACKFailureCount := ACKFailureCount (macmib m) + 1\<rparr>\<rparr>)),
      cond (limit_reached p) (drop_data c p) (repeat_data c p)]) xs Q"
    by (rule tr.does_quiet [OF does_count], rule tr.does_last [OF assms tr.does_Nil])
  then have "does traffic (unacked T L p n) (if dh_ra p = MAC_BROADCAST then f else stmts [assign (\<lambda>m. count_failure p (m\<lparr>macmib := (macmib m)\<lparr>ACKFailureCount := ACKFailureCount (macmib m) + 1\<rparr>\<rparr>)),
      cond (limit_reached p) (drop_data c p) (repeat_data c p)]) xs Q" for f
    unfolding does_def by (simp add: retry_defs)
  note step = tr.does_last [OF this tr.does_Nil]
  have alone: "\<not> mt_busy (mhBackoff m) \<and> pktTx m \<noteq> None \<and> pktRTS m = None" "pktTx m = Some p" if "unacked T L p n m" for m
    using that by (simp_all add: retry_defs)
  show ?thesis unfolding RetransmitDATA_def
  proof (rule tr.does_quiet [OF tr.does_assert [OF alone(1)]], assumption, rule tr.does_last [OF does_pkt [where p = p, OF alone(2)] tr.does_Nil], assumption)
  qed (rule tr.does_quiet [OF unacked_error step])
qed

lemma limit_alone: "unacked T L p n m \<Longrightarrow> limit_reached p m \<longleftrightarrow> L \<le> n"
  by (simp add: limit_reached_def retry_defs short_frame_def)

lemma retransmit_repeats: "Suc n < L \<Longrightarrow> does traffic (unacked T L p n) (RetransmitDATA c) [] (to_repeat T L (mark_retry p) (Suc n))"
  by (intro does_retransmit does_else does_repeat) (simp add: limit_alone)

lemma retransmit_drops: "L \<le> Suc n \<Longrightarrow> does traffic (unacked T L p n) (RetransmitDATA c) [Dropped (fr_id p) ''RET''] given_up"
  by (intro does_retransmit does_then does_drop) (simp add: limit_alone)

text \<open>The handler of the timer for the acknowledgement\<close>

lemma send_timer_alone:
  assumes "does traffic (unacked T L p n) (RetransmitDATA c) xs Q" and "does traffic Q (tx_resume c) [] R"
  shows "does traffic (off_air T L p n) (mac_handle c TxTimer) xs R"
proof -
  have "does traffic (\<lambda>m. unacked T L p n m \<and> last_tx m = Some (fr_id p)) (send_timer c) xs R"
    unfolding send_timer_def
  proof (rule tr.does_last [where Q = Q], unfold does_def, intro allI impI)
    fix m assume m: "unacked T L p n m \<and> last_tx m = Some (fr_id p)"
    then have "tx_state m = MAC_SEND" "send_timeout c m = RetransmitDATA c m"
      by (simp_all add: send_timeout_def retransmit_last_def frame_is_def retry_defs)
    then show "\<exists>m' out. (case tx_state m of MAC_RTS \<Rightarrow> RetransmitRTS c m
        | MAC_CTS \<Rightarrow> stmts [assert_mac (\<lambda>m. pktCTRL m \<noteq> None), assign (\<lambda>m. m\<lparr>pktCTRL := None\<rparr>)] m | MAC_SEND \<Rightarrow> send_timeout c m
        | MAC_ACK \<Rightarrow> stmts [assert_mac (\<lambda>m. pktCTRL m \<noteq> None), assign (\<lambda>m. m\<lparr>pktCTRL := None\<rparr>)] m | MAC_IDLE \<Rightarrow> skip m | _ \<Rightarrow> Inl AssertFail) = Inr (m', out)
        \<and> traffic out = xs \<and> Q m'"
      using m assms(1) unfolding does_def by (simp only: mac_state.case)
  next
    show "\<forall>m. Q m \<longrightarrow> (\<exists>m' out. stmts [tx_resume c] m = Inr (m', out) \<and> traffic out = [] \<and> R m')"
      using tr.does_last [OF assms(2) tr.does_Nil] unfolding does_def .
  qed
  moreover have "unacked T L p n (m\<lparr>mhSend := mt_handle (mhSend m)\<rparr>) \<and> last_tx (m\<lparr>mhSend := mt_handle (mhSend m)\<rparr>) = Some (fr_id p)" if "off_air T L p n m" for m
    using that by (simp add: off_air_def retry_defs mt_handle_def)
  ultimately show ?thesis unfolding does_def mac_handle.simps send_expire_def by blast
qed

lemma resume_repeat: "T \<le> cx_now c \<Longrightarrow> does traffic (to_repeat T L p n) (tx_resume c) [] (backs_off T L p n)"
  unfolding does_def
proof (intro allI impI)
  fix m assume T: "T \<le> cx_now c" and m: "to_repeat T L p n m"
  then have "tx_resume c m = setTxState c MAC_IDLE m" by (intro tx_resume_backing [of T L p n]) (simp_all add: to_repeat_def)
  with T m show "\<exists>m' out. tx_resume c m = Inr (m', out) \<and> traffic out = [] \<and> backs_off T L p n m'"
    by (simp add: setTxState_def checkBackoffTimer_def assign_def cond_def is_idle_def resume_backoff_def set_mac_timer_def bo_resume_def skip_def
        retry_defs backs_off_def mt_running_def)
qed

lemma resume_given_up: "does traffic given_up (tx_resume c) [] (\<lambda>m. given_up m \<and> tx_state m = MAC_IDLE)"
  unfolding does_def tx_resume_def
proof (intro allI impI)
  fix m assume "given_up m"
  then show "\<exists>m' out. returned (tx_loop c m) = Inr (m', out) \<and> traffic out = [] \<and> given_up m' \<and> tx_state m' = MAC_IDLE"
    by (subst tx_loop_body)
       (simp add: tx_body_def wants_packet_def given_up_def returned_def defer_next_def skip_def setTxState_def checkBackoffTimer_def assign_def cond_def set_current_def)
qed

text \<open>The end of the backoff\<close>

lemma done_first: "bind_res (done_check f m) (\<lambda>r. case r of None \<Rightarrow> g | Some x \<Rightarrow> Inr x) = f m"
  by (cases "f m") (simp_all add: done_check_def)

lemma backoff_step:
  assumes "T \<le> cx_now c"
  shows "does traffic (backs_off T L p n) (mac_handle c BackoffTimer) [Sent p] (on_air T L p n)"
  unfolding does_def mac_handle.simps backoff_expire_def
proof (intro allI impI)
  fix m assume m: "backs_off T L p n m"
  let ?m = "m\<lparr>mhBackoff := mt_handle (mhBackoff m)\<rparr>"
  have "backoffHandler c ?m = stmts [setTxState c MAC_SEND,
                (\<lambda>m. bind_res (txtime_pkt p) (\<lambda>t. stmts [assign (set_current W_rtt (cx_now c)), (\<lambda>m. transmit c p (answer_timeout m t getACKlen) m)] m))] ?m"
    using assms m by (simp add: backs_off_def waits_alone_def backoffHandler_def mt_handle_def check_pktBeacon_def check_pktManagement_def check_pktRTS_def check_pktTx_def is_idle_def done_first del: stmts.simps)
  then show "\<exists>m' out. backoffHandler c ?m = Inr (m', out) \<and> traffic out = [Sent p] \<and> on_air T L p n m'"
    using m by (simp add: backs_off_def on_air_def waits_alone_def setTxState_def checkBackoffTimer_def assign_def cond_def skip_def mt_handle_def txtime_pkt_def
        transmit_def emit_def start_send_def start_IF_def set_mac_timer_def set_current_def upd_stat_def mt_running_def answer_timeout_def)
qed

section \<open>The whole life of the frame\<close>

lemma does_if: "does traffic (on_air T L p n) (mac_handle c IFTimer) [] (off_air T L p n)"
  unfolding does_def using if_step by fastforce

lemma enabled_stages: "on_air T L p n m \<Longrightarrow> mac_enabled IFTimer m" "off_air T L p n m \<Longrightarrow> mac_enabled TxTimer m" "backs_off T L p n m \<Longrightarrow> mac_enabled BackoffTimer m"
  by (simp_all add: on_air_def off_air_def backs_off_def)

text \<open>The end of the transmission, the end of the wait for the acknowledgement, and of the backoff\<close>

fun again :: "mac_ctx \<times> mac_ctx \<times> mac_ctx \<Rightarrow> (mac_ctx \<times> mac_input) list" where
  "again (a, b, c) = [(a, IFTimer), (b, TxTimer), (c, BackoffTimer)]"

lemma mark_retry_twice [simp]: "mark_retry (mark_retry p) = mark_retry p"
  by (simp add: mark_retry_def)

lemma repeats_until_limit:
  assumes "L = Suc (n + length cs)" and "\<forall>(a, b, c) \<in> set cs. T \<le> cx_now b \<and> T \<le> cx_now c"
  shows "does traffic (on_air T L p n) (mac_run (concat (map again cs) @ [(d, IFTimer), (e, TxTimer)]))
     (replicate (length cs) (Sent (mark_retry p)) @ [Dropped (fr_id p) ''RET'']) (\<lambda>m. given_up m \<and> tx_state m = MAC_IDLE)"
  using assms
proof (induction cs arbitrary: n p)
  case Nil
  let ?D = "[Dropped (fr_id p) ''RET'']" and ?G = "\<lambda>m. given_up m \<and> tx_state m = MAC_IDLE"
  have tx: "does traffic (off_air T L p n) (mac_handle e TxTimer) ?D ?G"
    using Nil by (intro send_timer_alone [OF retransmit_drops resume_given_up]) simp
  have "does traffic (on_air T L p n) (mac_run [(d, IFTimer), (e, TxTimer)]) ([] @ ?D @ []) ?G"
    by (rule tr.does_run [OF _ does_if tr.does_run [OF _ tx tr.does_run_Nil]]; rule enabled_stages; assumption)
  then show ?case by (simp del: mac_run.simps)
next
  case (Cons x cs)
  let ?D = "replicate (length cs) (Sent (mark_retry p)) @ [Dropped (fr_id p) ''RET'']" and ?G = "\<lambda>m. given_up m \<and> tx_state m = MAC_IDLE"
  obtain a b c where x: "x = (a, b, c)" by (cases x)
  with Cons.prems have t: "T \<le> cx_now b" "T \<le> cx_now c" "Suc n < L" by simp_all
  let ?rest = "concat (map again cs) @ [(d, IFTimer), (e, TxTimer)]"
  have tx: "does traffic (off_air T L p n) (mac_handle b TxTimer) [] (backs_off T L (mark_retry p) (Suc n))"
    by (rule send_timer_alone [OF retransmit_repeats [OF t(3)] resume_repeat [OF t(1)]])
  have rest: "does traffic (on_air T L (mark_retry p) (Suc n)) (mac_run ?rest) ?D ?G"
    using Cons.IH [of "Suc n" "mark_retry p"] Cons.prems by simp
  have "does traffic (on_air T L p n) (mac_run ((a, IFTimer) # (b, TxTimer) # (c, BackoffTimer) # ?rest)) ([] @ [] @ [Sent (mark_retry p)] @ ?D) ?G"
    by (rule tr.does_run [OF _ does_if tr.does_run [OF _ tx tr.does_run [OF _ backoff_step [OF t(2)] rest]]]; rule enabled_stages; assumption)
  then show ?case using x by (simp del: mac_run.simps)
qed

text \<open>A MAC that has nothing to do, and a packet for it to send\<close>

definition resting :: "time \<Rightarrow> nat \<Rightarrow> mac \<Rightarrow> bool" where
  "resting T L m \<longleftrightarrow> pktTx m = None \<and> ssrc m = 0 \<and> ShortRetryLimit (macmib m) = L
     \<and> pktCTRL m = None \<and> pktBeacon m = None \<and> pktManagement m = None \<and> pktRTS m = None \<and> tmpPacket m = None \<and> ifq m = [] \<and> sc_step (scan m) = SCAN_NONE
     \<and> rx_state m = MAC_IDLE \<and> tx_state m = MAC_IDLE \<and> nav m \<le> T \<and> \<not> EOTtarget m
     \<and> \<not> mt_busy (mhDefer m) \<and> \<not> mt_busy (mhSend m) \<and> \<not> mt_busy (mhIF m) \<and> \<not> mt_busy (mhBackoff m)
     \<and> 0 \<le> SIFSTime (phymib m) \<and> 0 \<le> SlotTime (phymib m) \<and> 0 \<le> basic_txtime m getACKlen \<and> 0 \<le> basic_txtime m getRTSlen \<and> 0 \<le> basic_txtime m getCTSlen"

definition sendable :: "bool \<Rightarrow> frame \<Rightarrow> mac \<Rightarrow> bool" where
  "sendable b p m \<longleftrightarrow> ch_down p \<and> dh_ra p \<noteq> MAC_BROADCAST \<and> dh_ta p = index m \<and> \<not> ch_error p \<and> \<not> unassociated m p
     \<and> (u32 (ch_size p + getHdrLen11 (phymib m)) < RTSThreshold (macmib m) \<longleftrightarrow> b)
     \<and> 0 \<le> txtime (phymib m) (real_of_int (ch_size p + getHdrLen11 (phymib m))) (getTxDatarate m p)"

definition deferring :: "time \<Rightarrow> nat \<Rightarrow> frame \<Rightarrow> nat \<Rightarrow> mac \<Rightarrow> bool" where
  "deferring T L p n m \<longleftrightarrow> waits_alone True T L p n (m\<lparr>mhDefer := new_mac_timer\<rparr>) \<and> tx_state m = MAC_IDLE \<and> \<not> mt_busy (mhSend m) \<and> \<not> mt_busy (mhIF m) \<and> \<not> mt_busy (mhBackoff m)
     \<and> mt_running (mhDefer m)"

lemma defer_step:
  assumes "T \<le> cx_now c"
  shows "does traffic (deferring T L p n) (mac_handle c DeferTimer) [] (backs_off T L p n)"
  using assms unfolding does_def mac_handle.simps defer_expire_def
  by (simp add: deferring_def backs_off_def waits_alone_def deferHandler_def mt_handle_def check_pktCTRL_def check_pktBeacon_def waited_sifs_def done_check_def
      start_backoff_def set_mac_timer_def bo_start_def is_idle_def assign_def mt_running_def answer_timeout_def)

text \<open>The packet has become a data frame.\<close>

definition framed :: "bool \<Rightarrow> time \<Rightarrow> nat \<Rightarrow> frame \<Rightarrow> mac \<Rightarrow> bool" where
  "framed b T L p m \<longleftrightarrow> (\<exists>q. fr_id q = fr_id p \<and> dh_ra q = dh_ra p \<and> \<not> fc_retry q \<and> waits_alone b T L q 0 m)
     \<and> tx_state m = MAC_IDLE \<and> \<not> mt_busy (mhSend m) \<and> \<not> mt_busy (mhIF m) \<and> \<not> mt_busy (mhBackoff m)"

lemma config_upd:
  "unassociated (upd_stat c k v m) p = unassociated m p" "unassociated (m\<lparr>callback := b\<rparr>) p = unassociated m p"
  "getTxDatarate (upd_stat c k v m) p = getTxDatarate m p" "getTxDatarate (m\<lparr>callback := b\<rparr>) p = getTxDatarate m p"
  by (simp_all add: unassociated_def getTxDatarate_def upd_stat_def cong: option.case_cong if_cong)

lemma rest_upd:
  "resting T L (upd_stat c k v m) = resting T L m" "resting T L (m\<lparr>callback := b\<rparr>) = resting T L m"
  "sendable s p (upd_stat c k v m) = sendable s p m" "sendable s p (m\<lparr>callback := b\<rparr>) = sendable s p m"
  unfolding sendable_def config_upd by (simp_all add: resting_def upd_stat_def)

lemma framing:
  assumes "resting T L m \<and> sendable b p m"
  shows "framed b T L p ((upd_stat c k v m)\<lparr>first_datatx := True, pktTx := Some (tell_txprob m (data_header m p))\<rparr>)"
proof -
  let ?q = "tell_txprob m (data_header m p)"
  have q: "fr_id ?q = fr_id p" "\<not> fc_retry ?q" "fc_type ?q = MAC_Type_Data" "fc_subtype ?q = MAC_Subtype_Data" "dh_ra ?q = dh_ra p" "dh_ta ?q = dh_ta p" "ch_error ?q = ch_error p"
    "ch_size ?q = ch_size p + getHdrLen11 (phymib m)"
    "dh_ra p \<noteq> MAC_BROADCAST \<Longrightarrow> ch_txtime ?q = txtime (phymib m) (real_of_int (ch_size p + getHdrLen11 (phymib m))) (getTxDatarate m p)"
    by (simp_all add: tell_txprob_def data_header_def Let_def)
  have "waits_alone b T L ?q 0 ((upd_stat c k v m)\<lparr>first_datatx := True, pktTx := Some ?q\<rparr>)"
    unfolding waits_alone_def using assms q
    by (simp add: resting_def sendable_def upd_stat_def answer_timeout_def DSSS_MaxPropagationDelay_def getDIFS_def)
  moreover have "tx_state m = MAC_IDLE" "\<not> mt_busy (mhSend m)" "\<not> mt_busy (mhIF m)" "\<not> mt_busy (mhBackoff m)" using assms by (simp_all add: resting_def)
  ultimately show ?thesis using q(1,2,5) by (simp add: framed_def upd_stat_def) blast
qed

lemma does_sendDATA: "does traffic (\<lambda>m. resting T L m \<and> sendable b p m) (sendDATA c p) [] (framed b T L p)"
proof -
  let ?P = "\<lambda>m. resting T L m \<and> sendable b p m"
  have free: "does traffic ?P (assert_mac (\<lambda>m. pktTx m = None)) [] ?P" by (rule tr.does_assert) (simp add: resting_def)
  have prob: "does traffic ?P (when_mac (\<lambda>m. index m \<noteq> bss_id m) (assign (\<lambda>m. upd_stat c W_txprob (calculate_txprob c m) m))) [] ?P"
    by (intro does_cond tr.does_assign tr.does_skip) (simp add: rest_upd)
  show ?thesis unfolding sendDATA_def by (rule tr.does_quiet [OF free], rule tr.does_quiet [OF prob], rule tr.does_last [OF tr.does_assign tr.does_Nil], erule framing)
qed

text \<open>The frame gets its sequence number.\<close>

definition number_frame :: "mac \<Rightarrow> mac" where
  "number_frame m = m\<lparr>pktTx := map_option (\<lambda>q. q\<lparr>dh_scontrol := sta_seqno m\<rparr>) (pktTx m), sta_seqno := sta_seqno m + 1\<rparr>"

lemma does_accept:
  assumes "does traffic (framed b T L p) (stmts [sendRTS (dh_ra p), assign number_frame, contend c]) [] Q"
  shows "does traffic (\<lambda>m. resting T L m \<and> sendable b p m) (mac_handle c (InFrame p)) [] Q"
proof -
  let ?P = "\<lambda>m. resting T L m \<and> sendable b p m"
  have cb: "does traffic ?P (assign (\<lambda>m. m\<lparr>callback := True\<rparr>)) [] ?P" by (rule tr.does_assign) (simp add: rest_upd)
  have run: "does traffic ?P (stmts [assign (\<lambda>m. m\<lparr>callback := True\<rparr>), sendDATA c p, sendRTS (dh_ra p), assign number_frame, contend c]) [] Q" (is "does traffic ?P (stmts ?fs) [] Q")
    by (rule tr.does_quiet [OF cb], rule tr.does_quiet [OF does_sendDATA assms])
  have eq: "mac_handle c (InFrame p) m = stmts ?fs (upd_stat c W_qwait (cx_now c - sw_current (stats m W_qwait)) m)" if "?P m" for m
  proof -
    let ?m = "upd_stat c W_qwait (cx_now c - sw_current (stats m W_qwait)) m"
    have "pktManagement ?m = None" "pktBeacon ?m = None" using that by (simp_all add: upd_stat_def resting_def)
    moreover have "ch_down p" "\<not> unassociated ?m p" using that by (simp_all add: config_upd sendable_def)
    ultimately show ?thesis by (simp add: mac_recv_def mac_send_def send_with_def returned_def send_frame_def number_frame_def [abs_def] del: stmts.simps)
  qed
  show ?thesis unfolding does_def
  proof (intro allI impI)
    fix m assume m: "?P m"
    then have "?P (upd_stat c W_qwait (cx_now c - sw_current (stats m W_qwait)) m)" by (simp only: rest_upd)
    then show "\<exists>m' out. mac_handle c (InFrame p) m = Inr (m', out) \<and> traffic out = [] \<and> Q m'"
      using run unfolding eq [OF m] does_def by blast
  qed
qed

lemma number_waits: "waits_alone b T L q n m \<Longrightarrow> waits_alone b T L (q\<lparr>dh_scontrol := sta_seqno m\<rparr>) n (number_frame m)"
  by (simp add: waits_alone_def number_frame_def answer_timeout_def)

lemma does_number: "does traffic (framed b T L p) (assign number_frame) [] (framed b T L p)"
proof (rule tr.does_assign)
  fix m assume "framed b T L p m"
  then obtain q where q: "fr_id q = fr_id p" "dh_ra q = dh_ra p" "\<not> fc_retry q" "waits_alone b T L q 0 m" "tx_state m = MAC_IDLE" "\<not> mt_busy (mhSend m)" "\<not> mt_busy (mhIF m)" "\<not> mt_busy (mhBackoff m)"
    unfolding framed_def by blast
  moreover have "fr_id (q\<lparr>dh_scontrol := sta_seqno m\<rparr>) = fr_id p" "dh_ra (q\<lparr>dh_scontrol := sta_seqno m\<rparr>) = dh_ra p" "\<not> fc_retry (q\<lparr>dh_scontrol := sta_seqno m\<rparr>)" using q by simp_all
  moreover have "tx_state (number_frame m) = tx_state m" "mhSend (number_frame m) = mhSend m" "mhIF (number_frame m) = mhIF m" "mhBackoff (number_frame m) = mhBackoff m" by (simp_all add: number_frame_def)
  ultimately show "framed b T L p (number_frame m)" unfolding framed_def using number_waits [OF q(4)] by (intro conjI exI) simp_all
qed

lemma accept_short:
  assumes "T \<le> cx_now c"
  shows "does traffic (\<lambda>m. resting T L m \<and> sendable True p m) (mac_handle c (InFrame p)) [] (\<lambda>m. \<exists>q. fr_id q = fr_id p \<and> \<not> fc_retry q \<and> deferring T L q 0 m)"
proof (rule does_accept)
  let ?Q = "\<lambda>m. \<exists>q. fr_id q = fr_id p \<and> \<not> fc_retry q \<and> deferring T L q 0 m"
  have rts: "does traffic (framed True T L p) (sendRTS (dh_ra p)) [] (framed True T L p)"
    unfolding does_def framed_def using no_rts by fastforce
  have wait: "does traffic (framed True T L p) (contend c) [] ?Q"
    unfolding does_def
  proof (intro allI impI)
    fix m assume "framed True T L p m"
    then obtain q where q: "fr_id q = fr_id p" "\<not> fc_retry q" "waits_alone True T L q 0 m" "tx_state m = MAC_IDLE" "\<not> mt_busy (mhSend m)" "\<not> mt_busy (mhIF m)" "\<not> mt_busy (mhBackoff m)"
      unfolding framed_def by blast
    let ?t = "mhDefer m\<lparr>mt_busy := True, mt_paused := False, mt_stime := cx_now c, mt_rtime := getDIFS (phymib m)\<rparr>"
    have "contend c m = Inr (m\<lparr>mhDefer := ?t\<rparr>, [])"
      using q assms by (simp add: contend_def cond_def is_idle_def start_defer_def set_mac_timer_def waits_alone_def)
    moreover have "deferring T L q 0 (m\<lparr>mhDefer := ?t\<rparr>)"
      using q by (simp add: deferring_def waits_alone_def mt_running_def answer_timeout_def)
    ultimately show "\<exists>m' out. contend c m = Inr (m', out) \<and> traffic out = [] \<and> ?Q m'" using q(1,2) by (metis traffic.simps(1))
  qed
  show "does traffic (framed True T L p) (stmts [sendRTS (dh_ra p), assign number_frame, contend c]) [] ?Q"
    by (rule tr.does_quiet [OF rts], rule tr.does_quiet [OF does_number], rule tr.does_last [OF wait tr.does_Nil])
qed

section \<open>A request to send that nobody answers\<close>

text \<open>A frame that is not short is preceded by an RTS: the same stages, with the RTS on the air and the data frame behind it.\<close>

definition rts_ready :: "frame \<Rightarrow> mac \<Rightarrow> bool" where
  "rts_ready q m \<longleftrightarrow> pktRTS m = Some q \<and> fc_type q = MAC_Type_Control \<and> fc_subtype q = MAC_Subtype_RTS \<and> dh_ta q = index m \<and> \<not> ch_error q \<and> 0 \<le> ch_txtime q
     \<and> 0 \<le> answer_timeout m (basic_txtime m getRTSlen) getCTSlen"

definition requests :: "time \<Rightarrow> nat \<Rightarrow> frame \<Rightarrow> nat \<Rightarrow> frame \<Rightarrow> mac \<Rightarrow> bool" where
  "requests T L p n q m \<longleftrightarrow> waits_alone False T L p n (m\<lparr>pktRTS := None, mhDefer := new_mac_timer\<rparr>) \<and> rts_ready q m"

lemmas request_defs = requests_def rts_ready_def waits_alone_def answer_timeout_def upd_stat_def set_current_def upd_tput_def new_mac_timer_def

definition rts_on_air :: "time \<Rightarrow> nat \<Rightarrow> frame \<Rightarrow> nat \<Rightarrow> frame \<Rightarrow> mac \<Rightarrow> bool" where
  "rts_on_air T L p n q m \<longleftrightarrow> requests T L p n q m \<and> \<not> mt_busy (mhDefer m) \<and> tx_state m = MAC_RTS \<and> mt_running (mhSend m) \<and> mt_running (mhIF m) \<and> \<not> mt_busy (mhBackoff m) \<and> \<not> mt_paused (mhBackoff m)"

definition rts_off_air :: "time \<Rightarrow> nat \<Rightarrow> frame \<Rightarrow> nat \<Rightarrow> frame \<Rightarrow> mac \<Rightarrow> bool" where
  "rts_off_air T L p n q m \<longleftrightarrow> requests T L p n q m \<and> \<not> mt_busy (mhDefer m) \<and> tx_state m = MAC_RTS \<and> mt_running (mhSend m) \<and> \<not> mt_busy (mhIF m) \<and> \<not> mt_busy (mhBackoff m) \<and> \<not> mt_paused (mhBackoff m)"

definition rts_unanswered :: "time \<Rightarrow> nat \<Rightarrow> frame \<Rightarrow> nat \<Rightarrow> frame \<Rightarrow> mac \<Rightarrow> bool" where
  "rts_unanswered T L p n q m \<longleftrightarrow> requests T L p n q m \<and> \<not> mt_busy (mhDefer m) \<and> tx_state m = MAC_RTS \<and> \<not> mt_busy (mhSend m) \<and> \<not> mt_busy (mhIF m) \<and> \<not> mt_busy (mhBackoff m) \<and> \<not> mt_paused (mhBackoff m)"

definition rts_to_repeat :: "time \<Rightarrow> nat \<Rightarrow> frame \<Rightarrow> nat \<Rightarrow> frame \<Rightarrow> mac \<Rightarrow> bool" where
  "rts_to_repeat T L p n q m \<longleftrightarrow> requests T L p n q m \<and> \<not> mt_busy (mhDefer m) \<and> tx_state m = MAC_RTS \<and> \<not> mt_busy (mhSend m) \<and> \<not> mt_busy (mhIF m) \<and> mt_busy (mhBackoff m) \<and> mt_paused (mhBackoff m)
     \<and> 0 \<le> mt_rtime (mhBackoff m)"

definition rts_backs_off :: "time \<Rightarrow> nat \<Rightarrow> frame \<Rightarrow> nat \<Rightarrow> frame \<Rightarrow> mac \<Rightarrow> bool" where
  "rts_backs_off T L p n q m \<longleftrightarrow> requests T L p n q m \<and> \<not> mt_busy (mhDefer m) \<and> tx_state m = MAC_IDLE \<and> \<not> mt_busy (mhSend m) \<and> \<not> mt_busy (mhIF m) \<and> mt_running (mhBackoff m)"

definition rts_deferring :: "time \<Rightarrow> nat \<Rightarrow> frame \<Rightarrow> nat \<Rightarrow> frame \<Rightarrow> mac \<Rightarrow> bool" where
  "rts_deferring T L p n q m \<longleftrightarrow> requests T L p n q m \<and> tx_state m = MAC_IDLE \<and> \<not> mt_busy (mhSend m) \<and> \<not> mt_busy (mhIF m) \<and> \<not> mt_busy (mhBackoff m) \<and> mt_running (mhDefer m)"

lemma rts_if: "does traffic (rts_on_air T L p n q) (mac_handle c IFTimer) [] (rts_off_air T L p n q)"
  unfolding does_def rts_on_air_def rts_off_air_def
  by (simp add: if_expire_def txHandler_def cond_def skip_def assign_def mt_handle_def request_defs)

lemma rts_defer:
  assumes "T \<le> cx_now c"
  shows "does traffic (rts_deferring T L p n q) (mac_handle c DeferTimer) [] (rts_backs_off T L p n q)"
  using assms unfolding does_def mac_handle.simps defer_expire_def rts_deferring_def rts_backs_off_def
  by (simp add: deferHandler_def mt_handle_def check_pktCTRL_def check_pktBeacon_def waited_sifs_def done_check_def
      start_backoff_def set_mac_timer_def bo_start_def is_idle_def assign_def mt_running_def request_defs)

lemma rts_backoff:
  assumes "T \<le> cx_now c"
  shows "does traffic (rts_backs_off T L p n q) (mac_handle c BackoffTimer) [Sent q] (rts_on_air T L p n q)"
  unfolding does_def mac_handle.simps backoff_expire_def
proof (intro allI impI)
  fix m assume m: "rts_backs_off T L p n q m"
  let ?m = "m\<lparr>mhBackoff := mt_handle (mhBackoff m)\<rparr>"
  have "backoffHandler c ?m = stmts [setTxState c MAC_RTS, (\<lambda>m. transmit c q (answer_timeout m (basic_txtime m getRTSlen) getCTSlen) m)] ?m"
    using assms m by (simp add: rts_backs_off_def requests_def rts_ready_def waits_alone_def backoffHandler_def mt_handle_def check_pktBeacon_def check_pktManagement_def check_pktRTS_def is_idle_def done_first
        del: stmts.simps)
  then show "\<exists>m' out. backoffHandler c ?m = Inr (m', out) \<and> traffic out = [Sent q] \<and> rts_on_air T L p n q m'"
    using m by (simp add: rts_backs_off_def rts_on_air_def setTxState_def checkBackoffTimer_def assign_def cond_def skip_def mt_handle_def txtime_pkt_def
        transmit_def emit_def start_send_def start_IF_def set_mac_timer_def mt_running_def request_defs)
qed

lemma rts_repeats:
  assumes "Suc n < L"
  shows "does traffic (rts_unanswered T L p n q) (RetransmitRTS c) [] (rts_to_repeat T L p (Suc n) (mark_retry q))"
  using assms unfolding does_def rts_unanswered_def rts_to_repeat_def
  by (simp add: RetransmitRTS_def assert_mac_def assign_def cond_def inc_cw_def Let_def start_backoff_def set_mac_timer_def bo_start_def is_idle_def count_retx_def request_defs)

lemma rts_drops:
  assumes "L \<le> Suc n"
  shows "does traffic (rts_unanswered T L p n q) (RetransmitRTS c) [Dropped (fr_id q) ''RET'', Dropped (fr_id p) ''RET''] given_up"
  using assms unfolding does_def rts_unanswered_def given_up_def
  by (simp add: RetransmitRTS_def assert_mac_def assign_def cond_def with_pkt_def discard_def emit_def give_up_data_def fail_data_def record_retx_def rst_cw_def request_defs)

lemma rts_timer:
  assumes "does traffic (rts_unanswered T L p n q) (RetransmitRTS c) xs Q" and "does traffic Q (tx_resume c) [] R"
  shows "does traffic (rts_off_air T L p n q) (mac_handle c TxTimer) xs R"
proof -
  have run: "does traffic (rts_unanswered T L p n q) (stmts [RetransmitRTS c, tx_resume c]) xs R"
    by (rule tr.does_last [OF assms(1)], rule tr.does_quiet [OF assms(2) tr.does_Nil])
  have "does traffic (rts_unanswered T L p n q) (send_timer c) xs R"
    by (rule does_case [OF _ run]) (simp add: send_timer_def rts_unanswered_def)
  moreover have "rts_unanswered T L p n q (m\<lparr>mhSend := mt_handle (mhSend m)\<rparr>)" if "rts_off_air T L p n q m" for m
    using that by (simp add: rts_off_air_def rts_unanswered_def request_defs mt_handle_def)
  ultimately show ?thesis unfolding does_def mac_handle.simps send_expire_def by blast
qed

lemma rts_resume: "T \<le> cx_now c \<Longrightarrow> does traffic (rts_to_repeat T L p n q) (tx_resume c) [] (rts_backs_off T L p n q)"
  unfolding does_def
proof (intro allI impI)
  fix m assume T: "T \<le> cx_now c" and m: "rts_to_repeat T L p n q m"
  then have "tx_resume c m = setTxState c MAC_IDLE m"
    unfolding tx_resume_def rts_to_repeat_def requests_def rts_ready_def waits_alone_def
    by (subst tx_loop_body) (simp add: tx_body_def wants_packet_def returned_def defer_next_def cond_def skip_def case_prod_unfold)
  with T m show "\<exists>m' out. tx_resume c m = Inr (m', out) \<and> traffic out = [] \<and> rts_backs_off T L p n q m'"
    by (simp add: setTxState_def checkBackoffTimer_def assign_def cond_def is_idle_def resume_backoff_def set_mac_timer_def bo_resume_def skip_def
        rts_to_repeat_def rts_backs_off_def mt_running_def request_defs)
qed

lemma rts_stages: "rts_on_air T L p n q m \<Longrightarrow> mac_enabled IFTimer m" "rts_off_air T L p n q m \<Longrightarrow> mac_enabled TxTimer m" "rts_backs_off T L p n q m \<Longrightarrow> mac_enabled BackoffTimer m"
  "rts_deferring T L p n q m \<Longrightarrow> mac_enabled DeferTimer m"
  by (simp_all add: rts_on_air_def rts_off_air_def rts_backs_off_def rts_deferring_def)

lemma rts_until_limit:
  assumes "L = Suc (n + length cs)" and "\<forall>(a, b, c) \<in> set cs. T \<le> cx_now b \<and> T \<le> cx_now c"
  shows "does traffic (rts_on_air T L p n q) (mac_run (concat (map again cs) @ [(d, IFTimer), (e, TxTimer)]))
     (replicate (length cs) (Sent (mark_retry q)) @ [Dropped (fr_id q) ''RET'', Dropped (fr_id p) ''RET'']) (\<lambda>m. given_up m \<and> tx_state m = MAC_IDLE)"
  using assms
proof (induction cs arbitrary: n q)
  case Nil
  let ?D = "[Dropped (fr_id q) ''RET'', Dropped (fr_id p) ''RET'']" and ?G = "\<lambda>m. given_up m \<and> tx_state m = MAC_IDLE"
  have tx: "does traffic (rts_off_air T L p n q) (mac_handle e TxTimer) ?D ?G"
    using Nil by (intro rts_timer [OF rts_drops resume_given_up]) simp
  have "does traffic (rts_on_air T L p n q) (mac_run [(d, IFTimer), (e, TxTimer)]) ([] @ ?D @ []) ?G"
    by (rule tr.does_run [OF _ rts_if tr.does_run [OF _ tx tr.does_run_Nil]]; rule rts_stages; assumption)
  then show ?case by (simp del: mac_run.simps)
next
  case (Cons x cs)
  let ?D = "replicate (length cs) (Sent (mark_retry q)) @ [Dropped (fr_id q) ''RET'', Dropped (fr_id p) ''RET'']" and ?G = "\<lambda>m. given_up m \<and> tx_state m = MAC_IDLE"
  obtain a b c where x: "x = (a, b, c)" by (cases x)
  with Cons.prems have t: "T \<le> cx_now b" "T \<le> cx_now c" "Suc n < L" by simp_all
  let ?rest = "concat (map again cs) @ [(d, IFTimer), (e, TxTimer)]"
  have tx: "does traffic (rts_off_air T L p n q) (mac_handle b TxTimer) [] (rts_backs_off T L p (Suc n) (mark_retry q))"
    by (rule rts_timer [OF rts_repeats [OF t(3)] rts_resume [OF t(1)]])
  have rest: "does traffic (rts_on_air T L p (Suc n) (mark_retry q)) (mac_run ?rest) ?D ?G"
    using Cons.IH [of "Suc n" "mark_retry q"] Cons.prems by simp
  have "does traffic (rts_on_air T L p n q) (mac_run ((a, IFTimer) # (b, TxTimer) # (c, BackoffTimer) # ?rest)) ([] @ [] @ [Sent (mark_retry q)] @ ?D) ?G"
    by (rule tr.does_run [OF _ rts_if tr.does_run [OF _ tx tr.does_run [OF _ rts_backoff [OF t(2)] rest]]]; rule rts_stages; assumption)
  then show ?case using x by (simp del: mac_run.simps)
qed

text \<open>The request to send is made before the frame is numbered.\<close>

definition rts_for :: "time \<Rightarrow> nat \<Rightarrow> frame \<Rightarrow> mac \<Rightarrow> bool" where
  "rts_for T L p m \<longleftrightarrow> (\<exists>d q. fr_id d = fr_id p \<and> \<not> fc_retry q \<and> dh_ra q = dh_ra p \<and> requests T L d 0 q m)
     \<and> \<not> mt_busy (mhDefer m) \<and> tx_state m = MAC_IDLE \<and> \<not> mt_busy (mhSend m) \<and> \<not> mt_busy (mhIF m) \<and> \<not> mt_busy (mhBackoff m)"

lemma rts_made:
  assumes "waits_alone False T L d 0 m"
  shows "\<exists>q k. sendRTS (dh_ra d) m = Inr (m\<lparr>next_frame := k, pktRTS := Some q\<rparr>, []) \<and> \<not> fc_retry q \<and> dh_ra q = dh_ra d \<and> requests T L d 0 q (m\<lparr>next_frame := k, pktRTS := Some q\<rparr>)"
proof -
  let ?q = "(blank_frame (next_frame m))\<lparr>ch_size := getRTSlen (phymib m), fc_type := MAC_Type_Control, fc_subtype := MAC_Subtype_RTS, dh_ra := dh_ra d, dh_ta := index m,
      ch_txtime := basic_txtime m getRTSlen,
      dh_duration := usec (SIFSTime (phymib m) + basic_txtime m getCTSlen + SIFSTime (phymib m) + ch_txtime d + SIFSTime (phymib m) + basic_txtime m getACKlen)\<rparr>"
  let ?m = "m\<lparr>next_frame := Suc (next_frame m), pktRTS := Some ?q\<rparr>"
  have d: "pktTx m = Some d" "pktRTS m = None" "\<not> u32 (ch_size d) < RTSThreshold (macmib m)" "dh_ra d \<noteq> MAC_BROADCAST" "0 \<le> ch_txtime d"
    "0 \<le> SIFSTime (phymib m)" "0 \<le> basic_txtime m getRTSlen" "0 \<le> basic_txtime m getCTSlen"
    using assms by (simp_all add: waits_alone_def)
  have "sendRTS (dh_ra d) m = Inr (?m, [])"
    using d(1-5) by (simp add: sendRTS_def assert_mac_def with_pkt_def rts_needed_def txtime_pkt_def alloc_frame_def assign_def)
  moreover have "rts_ready ?q ?m" using d(6-8) by (simp add: rts_ready_def blank_frame_def answer_timeout_def DSSS_MaxPropagationDelay_def)
  moreover have "waits_alone False T L d 0 (?m\<lparr>pktRTS := None, mhDefer := new_mac_timer\<rparr>)" using assms by (simp add: waits_alone_def answer_timeout_def new_mac_timer_def)
  moreover have "\<not> fc_retry ?q" "dh_ra ?q = dh_ra d" by (simp_all add: blank_frame_def)
  ultimately show ?thesis unfolding requests_def by blast
qed

lemma accept_long:
  assumes "T \<le> cx_now c"
  shows "does traffic (\<lambda>m. resting T L m \<and> sendable False p m) (mac_handle c (InFrame p)) []
    (\<lambda>m. \<exists>d q. fr_id d = fr_id p \<and> \<not> fc_retry q \<and> dh_ra q = dh_ra p \<and> rts_deferring T L d 0 q m)"
proof (rule does_accept)
  let ?Q = "\<lambda>m. \<exists>d q. fr_id d = fr_id p \<and> \<not> fc_retry q \<and> dh_ra q = dh_ra p \<and> rts_deferring T L d 0 q m"
  have rts: "does traffic (framed False T L p) (sendRTS (dh_ra p)) [] (rts_for T L p)"
    unfolding does_def
  proof (intro allI impI)
    fix m assume "framed False T L p m"
    then obtain d where d: "fr_id d = fr_id p" "dh_ra d = dh_ra p" "waits_alone False T L d 0 m" "tx_state m = MAC_IDLE" "\<not> mt_busy (mhSend m)" "\<not> mt_busy (mhIF m)" "\<not> mt_busy (mhBackoff m)"
      unfolding framed_def by blast
    from rts_made [OF d(3)] obtain q k where q: "sendRTS (dh_ra p) m = Inr (m\<lparr>next_frame := k, pktRTS := Some q\<rparr>, [])" "\<not> fc_retry q" "dh_ra q = dh_ra p"
      "requests T L d 0 q (m\<lparr>next_frame := k, pktRTS := Some q\<rparr>)" unfolding d(2) by blast
    have "\<not> mt_busy (mhDefer m)" using d(3) by (simp add: waits_alone_def)
    then have "rts_for T L p (m\<lparr>next_frame := k, pktRTS := Some q\<rparr>)" unfolding rts_for_def using d q(2-4) by (intro conjI exI) simp_all
    with q(1) show "\<exists>m' out. sendRTS (dh_ra p) m = Inr (m', out) \<and> traffic out = [] \<and> rts_for T L p m'" by (metis traffic.simps(1))
  qed
  have number: "does traffic (rts_for T L p) (assign number_frame) [] (rts_for T L p)"
  proof (rule tr.does_assign)
    fix m assume "rts_for T L p m"
    then obtain d q where d: "fr_id d = fr_id p" "\<not> fc_retry q" "dh_ra q = dh_ra p" "requests T L d 0 q m" "\<not> mt_busy (mhDefer m)" "tx_state m = MAC_IDLE" "\<not> mt_busy (mhSend m)"
      "\<not> mt_busy (mhIF m)" "\<not> mt_busy (mhBackoff m)" unfolding rts_for_def by blast
    have "requests T L (d\<lparr>dh_scontrol := sta_seqno m\<rparr>) 0 q (number_frame m)" "fr_id (d\<lparr>dh_scontrol := sta_seqno m\<rparr>) = fr_id p"
      using d(1,4) by (simp_all add: number_frame_def request_defs)
    moreover have "mhDefer (number_frame m) = mhDefer m" "tx_state (number_frame m) = tx_state m" "mhSend (number_frame m) = mhSend m" "mhIF (number_frame m) = mhIF m"
      "mhBackoff (number_frame m) = mhBackoff m" by (simp_all add: number_frame_def)
    ultimately show "rts_for T L p (number_frame m)" unfolding rts_for_def using d by (intro conjI exI) simp_all
  qed
  have wait: "does traffic (rts_for T L p) (contend c) [] ?Q"
    unfolding does_def
  proof (intro allI impI)
    fix m assume "rts_for T L p m"
    then obtain d q where d: "fr_id d = fr_id p" "\<not> fc_retry q" "dh_ra q = dh_ra p" "requests T L d 0 q m" "\<not> mt_busy (mhDefer m)" "tx_state m = MAC_IDLE" "\<not> mt_busy (mhSend m)"
      "\<not> mt_busy (mhIF m)" "\<not> mt_busy (mhBackoff m)" unfolding rts_for_def by blast
    let ?t = "mhDefer m\<lparr>mt_busy := True, mt_paused := False, mt_stime := cx_now c, mt_rtime := getDIFS (phymib m)\<rparr>"
    have "contend c m = Inr (m\<lparr>mhDefer := ?t\<rparr>, [])"
      using d assms by (simp add: contend_def cond_def is_idle_def start_defer_def set_mac_timer_def requests_def waits_alone_def)
    moreover have "rts_deferring T L d 0 q (m\<lparr>mhDefer := ?t\<rparr>)"
      using d by (simp add: rts_deferring_def mt_running_def request_defs)
    ultimately show "\<exists>m' out. contend c m = Inr (m', out) \<and> traffic out = [] \<and> ?Q m'" using d(1-3) by (metis traffic.simps(1))
  qed
  show "does traffic (framed False T L p) (stmts [sendRTS (dh_ra p), assign number_frame, contend c]) [] ?Q"
    by (rule tr.does_quiet [OF rts], rule tr.does_quiet [OF number], rule tr.does_last [OF wait tr.does_Nil])
qed

section \<open>The whole life of a packet\<close>

lemma short_dropped:
  assumes "resting T L m" "sendable True p m" and L: "L = Suc (length cs)"
    and later: "T \<le> cx_now ca" "T \<le> cx_now cb" "T \<le> cx_now cc" "\<forall>(a, b, c) \<in> set cs. T \<le> cx_now b \<and> T \<le> cx_now c"
  shows "\<exists>m' out q. mac_run ([(ca, InFrame p), (cb, DeferTimer), (cc, BackoffTimer)] @ concat (map again cs) @ [(d, IFTimer), (e, TxTimer)]) m = Inr (m', out)
    \<and> fr_id q = fr_id p \<and> \<not> fc_retry q \<and> traffic out = Sent q # replicate (L - 1) (Sent (q\<lparr>fc_retry := True\<rparr>)) @ [Dropped (fr_id p) ''RET'']
    \<and> given_up m' \<and> tx_state m' = MAC_IDLE"
proof -
  let ?rest = "concat (map again cs) @ [(d, IFTimer), (e, TxTimer)]" and ?G = "\<lambda>m. given_up m \<and> tx_state m = MAC_IDLE"
  obtain m1 o1 q where m1: "mac_handle ca (InFrame p) m = Inr (m1, o1)" "traffic o1 = []" "fr_id q = fr_id p" "\<not> fc_retry q" "deferring T L q 0 m1"
    using accept_short [OF later(1), of L p] assms(1,2) unfolding does_def by blast
  have "does traffic (deferring T L q 0) (mac_run ((cb, DeferTimer) # (cc, BackoffTimer) # ?rest))
      ([] @ [Sent q] @ (replicate (length cs) (Sent (mark_retry q)) @ [Dropped (fr_id q) ''RET''])) ?G"
    by (rule tr.does_run [OF _ defer_step [OF later(2)] tr.does_run [OF _ backoff_step [OF later(3)] repeats_until_limit]])
       (use L later(4) in \<open>simp_all add: deferring_def backs_off_def\<close>)
  from doesD [OF this m1(5)] obtain m2 o2 where "mac_run ((cb, DeferTimer) # (cc, BackoffTimer) # ?rest) m1 = Inr (m2, o2)"
    "traffic o2 = Sent q # replicate (length cs) (Sent (mark_retry q)) @ [Dropped (fr_id q) ''RET'']" "?G m2" by (auto simp del: mac_run.simps)
  with m1 L show ?thesis by (intro exI [of _ m2] exI [of _ "o1 @ o2"] exI [of _ q]) (simp add: traffic_append mark_retry_def)
qed

lemma long_dropped:
  assumes "resting T L m" "sendable False p m" and L: "L = Suc (length cs)"
    and later: "T \<le> cx_now ca" "T \<le> cx_now cb" "T \<le> cx_now cc" "\<forall>(a, b, c) \<in> set cs. T \<le> cx_now b \<and> T \<le> cx_now c"
  shows "\<exists>m' out q. mac_run ([(ca, InFrame p), (cb, DeferTimer), (cc, BackoffTimer)] @ concat (map again cs) @ [(d, IFTimer), (e, TxTimer)]) m = Inr (m', out)
    \<and> fc_type q = MAC_Type_Control \<and> fc_subtype q = MAC_Subtype_RTS \<and> dh_ra q = dh_ra p \<and> \<not> fc_retry q
    \<and> traffic out = Sent q # replicate (L - 1) (Sent (q\<lparr>fc_retry := True\<rparr>)) @ [Dropped (fr_id q) ''RET'', Dropped (fr_id p) ''RET'']
    \<and> given_up m' \<and> tx_state m' = MAC_IDLE"
proof -
  let ?rest = "concat (map again cs) @ [(d, IFTimer), (e, TxTimer)]" and ?G = "\<lambda>m. given_up m \<and> tx_state m = MAC_IDLE"
  obtain m1 o1 f q where m1: "mac_handle ca (InFrame p) m = Inr (m1, o1)" "traffic o1 = []" "fr_id f = fr_id p" "\<not> fc_retry q" "dh_ra q = dh_ra p" "rts_deferring T L f 0 q m1"
    using accept_long [OF later(1), of L p] assms(1,2) unfolding does_def by blast
  have q: "fc_type q = MAC_Type_Control" "fc_subtype q = MAC_Subtype_RTS" using m1(6) by (simp_all add: rts_deferring_def requests_def rts_ready_def)
  have "does traffic (rts_deferring T L f 0 q) (mac_run ((cb, DeferTimer) # (cc, BackoffTimer) # ?rest))
      ([] @ [Sent q] @ (replicate (length cs) (Sent (mark_retry q)) @ [Dropped (fr_id q) ''RET'', Dropped (fr_id f) ''RET''])) ?G"
    by (rule tr.does_run [OF _ rts_defer [OF later(2)] tr.does_run [OF _ rts_backoff [OF later(3)] rts_until_limit]])
       (use L later(4) rts_stages in \<open>simp_all del: mac_enabled.simps\<close>)
  from doesD [OF this m1(6)] obtain m2 o2 where "mac_run ((cb, DeferTimer) # (cc, BackoffTimer) # ?rest) m1 = Inr (m2, o2)"
    "traffic o2 = Sent q # replicate (length cs) (Sent (mark_retry q)) @ [Dropped (fr_id q) ''RET'', Dropped (fr_id f) ''RET'']" "?G m2" by (auto simp del: mac_run.simps)
  with m1 L q show ?thesis by (intro exI [of _ m2] exI [of _ "o1 @ o2"] exI [of _ q]) (simp add: traffic_append mark_retry_def)
qed

text \<open>
  C16: A packet for one station that gets no answer at all is given up after \<open>ShortRetryLimit\<close> tries. From a MAC at rest a packet from above becomes a data frame. If the frame is shorter than
  \<open>RTSThreshold\<close> it is sent after DIFS and a backoff; otherwise (with the default threshold of 0, always) an RTS to its receiver is sent instead, and the data frame waits behind it. Whenever the time for
  the acknowledgement or the CTS is over that same frame is sent again after another backoff, marked as repeated, so that it is on the air \<open>ShortRetryLimit\<close> times in all; then the RTS, if there was one, and
  the packet are reported as dropped, once; the contention window and the count start again and the MAC is idle. The assertions of the code hold all along. The packet is not
  a broadcast, and at an access point some station is associated.
\<close>

theorem unacknowledged_data_dropped:
  assumes rest: "resting T L m" "sendable b p m" and L: "L = Suc (length cs)"
    and later: "T \<le> cx_now ca" "T \<le> cx_now cb" "T \<le> cx_now cc" "\<forall>(a, b, c) \<in> set cs. T \<le> cx_now b \<and> T \<le> cx_now c"
  shows "\<exists>m' out q. mac_run ([(ca, InFrame p), (cb, DeferTimer), (cc, BackoffTimer)] @ concat (map again cs) @ [(d, IFTimer), (e, TxTimer)]) m = Inr (m', out)
    \<and> (if u32 (ch_size p + getHdrLen11 (phymib m)) < RTSThreshold (macmib m) then fr_id q = fr_id p
       else fc_type q = MAC_Type_Control \<and> fc_subtype q = MAC_Subtype_RTS \<and> dh_ra q = dh_ra p)
    \<and> \<not> fc_retry q \<and> traffic out = Sent q # replicate (L - 1) (Sent (q\<lparr>fc_retry := True\<rparr>))
        @ (if u32 (ch_size p + getHdrLen11 (phymib m)) < RTSThreshold (macmib m) then [] else [Dropped (fr_id q) ''RET'']) @ [Dropped (fr_id p) ''RET'']
    \<and> pktTx m' = None \<and> pktRTS m' = None \<and> contention m' = CWMin (phymib m') \<and> ssrc m' = 0 \<and> tx_state m' = MAC_IDLE"
proof (cases b)
  case True
  then have s: "sendable True p m" "u32 (ch_size p + getHdrLen11 (phymib m)) < RTSThreshold (macmib m)" using rest(2) by (simp_all add: sendable_def)
  from short_dropped [OF rest(1) s(1) L later, of d e] s(2) show ?thesis unfolding given_up_def by (simp del: mac_run.simps) blast
next
  case False
  then have s: "sendable False p m" "\<not> u32 (ch_size p + getHdrLen11 (phymib m)) < RTSThreshold (macmib m)" using rest(2) by (simp_all add: sendable_def)
  from long_dropped [OF rest(1) s(1) L later, of d e] s(2) show ?thesis unfolding given_up_def by (simp del: mac_run.simps) blast
qed

section \<open>A sample packet\<close>

definition demo_packet :: "int \<Rightarrow> frame" where
  "demo_packet n = (blank_frame 7)\<lparr>ch_down := True, ch_size := n, dh_ra := 9, dh_ta := 4\<rparr>"

lemma demo_resting: "resting 0 3 (demo_station 4)"
  by (simp add: resting_def) (simp add: demo_station_def new_mac_def demo_wlan_def demo_scan_def demo_phy_def demo_mac_mib_def txtime_def getPLCPhdrLen_def getACKlen_def getRTSlen_def getCTSlen_def)

lemma demo_sendable: "sendable True (demo_packet 100) (demo_station 4)" "sendable False (demo_packet 5000) (demo_station 4)"
  by (simp_all add: sendable_def unassociated_def getTxDatarate_def demo_packet_def blank_frame_def u32_def getHdrLen11_def getPLCPhdrLen_def txtime_def demo_phy_def demo_mac_mib_def)

theorem unacknowledged_data_dropped_witness:
  "(\<exists>m' out q. mac_run [(demo_ctx 1, InFrame (demo_packet 100)), (demo_ctx 2, DeferTimer), (demo_ctx 3, BackoffTimer),
      (demo_ctx 4, IFTimer), (demo_ctx 5, TxTimer), (demo_ctx 6, BackoffTimer), (demo_ctx 7, IFTimer), (demo_ctx 8, TxTimer), (demo_ctx 9, BackoffTimer),
      (demo_ctx 10, IFTimer), (demo_ctx 11, TxTimer)] (demo_station 4) = Inr (m', out)
    \<and> traffic out = [Sent q, Sent (q\<lparr>fc_retry := True\<rparr>), Sent (q\<lparr>fc_retry := True\<rparr>), Dropped 7 ''RET''] \<and> fr_id q = 7 \<and> pktTx m' = None)
   \<and> (\<exists>m' out q. mac_run [(demo_ctx 1, InFrame (demo_packet 5000)), (demo_ctx 2, DeferTimer), (demo_ctx 3, BackoffTimer),
      (demo_ctx 4, IFTimer), (demo_ctx 5, TxTimer), (demo_ctx 6, BackoffTimer), (demo_ctx 7, IFTimer), (demo_ctx 8, TxTimer), (demo_ctx 9, BackoffTimer),
      (demo_ctx 10, IFTimer), (demo_ctx 11, TxTimer)] (demo_station 4) = Inr (m', out)
    \<and> traffic out = [Sent q, Sent (q\<lparr>fc_retry := True\<rparr>), Sent (q\<lparr>fc_retry := True\<rparr>), Dropped (fr_id q) ''RET'', Dropped 7 ''RET''] \<and> dh_ra q = 9 \<and> pktTx m' = None)"
proof -
  let ?cs = "[(demo_ctx 4, demo_ctx 5, demo_ctx 6), (demo_ctx 7, demo_ctx 8, demo_ctx 9)]"
  have cs: "3 = Suc (length ?cs)" "0 \<le> cx_now (demo_ctx 1)" "0 \<le> cx_now (demo_ctx 2)" "0 \<le> cx_now (demo_ctx 3)" "\<forall>(a, b, c) \<in> set ?cs. 0 \<le> cx_now b \<and> 0 \<le> cx_now c" by simp_all
  have f: "fr_id (demo_packet n) = 7" "dh_ra (demo_packet n) = 9" for n by (simp_all add: demo_packet_def blank_frame_def)
  have s: "u32 (ch_size (demo_packet 100) + getHdrLen11 (phymib (demo_station 4))) < RTSThreshold (macmib (demo_station 4))"
    "\<not> u32 (ch_size (demo_packet 5000) + getHdrLen11 (phymib (demo_station 4))) < RTSThreshold (macmib (demo_station 4))"
    using demo_sendable by (simp_all only: sendable_def simp_thms)
  have r: "replicate (3 - 1) x = [x, x]" for x :: traffic_item by (simp add: numeral_2_eq_2)
  show ?thesis
    using unacknowledged_data_dropped [OF demo_resting demo_sendable(1) cs, of "demo_ctx 10" "demo_ctx 11"]
      unacknowledged_data_dropped [OF demo_resting demo_sendable(2) cs, of "demo_ctx 10" "demo_ctx 11"]
    unfolding f r if_P [OF s(1)] if_not_P [OF s(2)] by (simp del: mac_run.simps) blast
qed

end
