(* ===== verification/Wlan_Scan.thy ===== *)
theory Wlan_Scan
  imports Wlan_Triples Wlan_Demo
begin

text \<open>
  What a scan of the 802.11 MAC does: it visits the requested channels in order, notes the access points it hears, and returns to where it was.
\<close>

datatype scan_item = Tuned real | Found "bss_description list"

fun scan_log :: "mac_out list \<Rightarrow> scan_item list" where
  "scan_log [] = []"
| "scan_log (MacFreq f # out) = Tuned f # scan_log out"
| "scan_log (MacScanResult bs # out) = Found bs # scan_log out"
| "scan_log (_ # out) = scan_log out"

lemma scan_log_append: "scan_log (xs @ ys) = scan_log xs @ scan_log ys"
  by (induction xs rule: scan_log.induct) simp_all

interpretation sv: observer scan_log
  by unfold_locales (simp_all add: scan_log_append)

section \<open>The state of a scan\<close>

definition radio_free :: "mac \<Rightarrow> bool" where
  "radio_free m \<longleftrightarrow> rx_state m = MAC_IDLE \<and> pktRx m = None \<and> \<not> mt_busy (mhRecv m) \<and> \<not> mt_busy (mhBackoff m) \<and> \<not> mt_paused (mhBackoff m) \<and> \<not> tx_active m"

definition pending :: "timer \<Rightarrow> bool" where
  "pending t \<longleftrightarrow> (\<exists>d. t = TIMER_PENDING d)"

definition scanning :: "scan_request \<Rightarrow> int \<Rightarrow> addr \<Rightarrow> nat \<Rightarrow> bool \<Rightarrow> bss_description list \<Rightarrow> mac \<Rightarrow> bool" where
  "scanning r orig old k heard bs m \<longleftrightarrow> radio_free m \<and> sc_req (scan m) = Some r \<and> sc_index (scan m) = k \<and> k < length (rq_channels r) \<and> sc_step (scan m) \<noteq> SCAN_NONE
     \<and> sc_resp (scan m) = Some bs \<and> sc_orig_ch (scan m) = orig \<and> sc_recvd_response (scan m) = heard \<and> pending (sc_minTimer (scan m)) \<and> pending (sc_maxTimer (scan m))
     \<and> bss_id m = IBSS_ID \<and> old_bss_id m = old \<and> index m \<noteq> IBSS_ID"

definition noted :: "int \<Rightarrow> bss_description list \<Rightarrow> addr \<Rightarrow> bss_description list" where
  "noted ch bs a = (if \<exists>b \<in> set bs. bd_bss_id b = a then bs else \<lparr>bd_bss_id = a, bd_beacon_period = 1 / 10, bd_channel = ch\<rparr> # bs)"

definition beacon :: "frame \<Rightarrow> bool" where
  "beacon p \<longleftrightarrow> fc_type p = MAC_Type_Management \<and> fc_subtype p = MAC_Subtype_Beacon2 \<and> dh_ra p = MAC_BROADCAST \<and> dh_ta p \<noteq> IBSS_ID \<and> \<not> ch_error p \<and> \<not> ch_down p \<and> 0 \<le> ch_txtime p"

section \<open>Hearing a beacon\<close>

definition receiving :: "scan_request \<Rightarrow> int \<Rightarrow> addr \<Rightarrow> nat \<Rightarrow> bool \<Rightarrow> bss_description list \<Rightarrow> frame \<Rightarrow> mac \<Rightarrow> bool" where
  "receiving r orig old k heard bs p m \<longleftrightarrow> scanning r orig old k heard bs (m\<lparr>rx_state := MAC_IDLE, pktRx := None, mhRecv := new_mac_timer\<rparr>)
     \<and> rx_state m = MAC_RECV \<and> pktRx m = Some p \<and> mt_running (mhRecv m)"

lemma first_bit: "beacon p \<Longrightarrow> does scan_log (scanning r orig old k heard bs) (mac_handle c (InFrame p)) [] (receiving r orig old k heard bs p)"
  unfolding does_def mac_handle.simps
  by (simp add: mac_recv_def beacon_def scanning_def radio_free_def receiving_def setRxState_def checkBackoffTimer_def assign_def cond_def skip_def txtime_pkt_def
      start_recv_def set_mac_timer_def mt_running_def Let_def)

lemma scan_stat:
  "scanning r orig old k heard bs (upd_stat c n v m) = scanning r orig old k heard bs m" "scanning r orig old k heard bs (upd_tput c t v m) = scanning r orig old k heard bs m"
  "scanning r orig old k heard bs (set_current n v m) = scanning r orig old k heard bs m"
  by (simp_all add: scanning_def radio_free_def upd_stat_def upd_tput_def set_current_def)

text \<open>The last bit has arrived: the timer for the reception is over, but the frame is still there.\<close>

definition received :: "scan_request \<Rightarrow> int \<Rightarrow> addr \<Rightarrow> nat \<Rightarrow> bool \<Rightarrow> bss_description list \<Rightarrow> frame \<Rightarrow> mac \<Rightarrow> bool" where
  "received r orig old k heard bs p m \<longleftrightarrow> scanning r orig old k heard bs (m\<lparr>rx_state := MAC_IDLE, pktRx := None\<rparr>) \<and> rx_state m = MAC_RECV \<and> pktRx m = Some p"

lemmas received_defs = received_def scanning_def radio_free_def upd_stat_def upd_tput_def set_current_def

lemma unsigned_nonneg: "(0 :: real) \<le> unsigned (w :: 16 word)"
  by (metis of_nat_0_le_iff of_nat_unat)

lemma does_nav: "does scan_log (received r orig old k heard bs p) (set_nav c us) [] (received r orig old k heard bs p)"
  unfolding does_def set_nav_def Let_def
  by (simp add: cond_def skip_def set_mac_timer_def assign_def received_def scanning_def radio_free_def mt_start_def mt_stop_def unsigned_nonneg)

lemma does_stats: "does scan_log (received r orig old k heard bs p) (reception_stats c p) [] (received r orig old k heard bs p)"
proof -
  have v: "does scan_log (received r orig old k heard bs p) (stmts [update_throughput c W_rxbw v, assign (upd_tput c W_rxsucc v)]) [] (received r orig old k heard bs p)" for v
    by (intro sv.keeps_Cons sv.does_throughput sv.does_assign sv.does_Nil; simp add: received_defs)
  have "does scan_log (received r orig old k heard bs p) (\<lambda>m. let v = (ch_txtime p + (if dh_ra p \<noteq> MAC_BROADCAST then overhead_duration m else getDIFS (phymib m))) * dataRate m
      in stmts [update_throughput c W_rxbw v, assign (upd_tput c W_rxsucc v)] m) [] (received r orig old k heard bs p)"
    unfolding Let_def by (rule does_args) (rule v)
  then have "does scan_log (received r orig old k heard bs p) (\<lambda>m. if fc_type p = MAC_Type_Control then skip m
       else let v = (ch_txtime p + (if dh_ra p \<noteq> MAC_BROADCAST then overhead_duration m else getDIFS (phymib m))) * dataRate m
            in stmts [update_throughput c W_rxbw v, assign (upd_tput c W_rxsucc v)] m) [] (received r orig old k heard bs p)"
    using sv.does_skip by (cases "fc_type p = MAC_Type_Control") (simp_all only: if_True if_False simp_thms)
  then show ?thesis unfolding reception_stats_def
    by (intro sv.keeps_Cons does_cond sv.does_throughput sv.does_assign sv.does_skip sv.does_Nil; simp add: received_defs; (intro impI conjI sv.does_throughput sv.does_skip)?; simp add: received_defs)
qed

lemma does_note:
  "does scan_log (received r orig old k heard bs p) (stmts [note_bss a, assign (\<lambda>m. m\<lparr>scan := (scan m)\<lparr>sc_recvd_response := True\<rparr>\<rparr>)]) []
     (received r orig old k True (noted (rq_channels r ! k) bs a) p)"
  unfolding does_def
  by (simp add: note_bss_def received_def scanning_def radio_free_def noted_def skip_def assign_def pref_ch_def)

lemma does_beacon: "beacon p \<Longrightarrow> does scan_log (received r orig old k heard bs p) (dispatch c g p) [] (received r orig old k True (noted (rq_channels r ! k) bs (dh_ta p)) p)"
proof (rule does_case)
  fix m assume "beacon p" "received r orig old k heard bs p m"
  then show "dispatch c g p m = stmts [note_bss (dh_ta p), assign (\<lambda>m. m\<lparr>scan := (scan m)\<lparr>sc_recvd_response := True\<rparr>\<rparr>)] m"
    by (simp add: beacon_def dispatch_def recvBeacon_def received_def scanning_def Let_def)
qed (rule does_note)

lemma does_done: "does scan_log (received r orig old k heard bs p) (recv_done c) [] (scanning r orig old k heard bs)"
  unfolding does_def recv_done_def rx_resume_def
  by (simp add: received_def scanning_def radio_free_def assign_def assert_mac_def setRxState_def checkBackoffTimer_def cond_def skip_def)

lemma does_good:
  assumes "beacon p"
  shows "does scan_log (received r orig old k heard bs p) (recv_good c g p) [] (scanning r orig old k True (noted (rq_channels r ! k) bs (dh_ta p)))"
proof -
  let ?R = "received r orig old k heard bs p" and ?N = "noted (rq_channels r ! k) bs (dh_ta p)"
  have loss: "does scan_log ?R (assign (upd_stat c W_pktloss 0)) [] ?R" by (rule sv.does_assign) (simp add: received_defs)
  have watch: "does scan_log ?R (link_watch c p) [] ?R"
    by (rule does_case [OF _ sv.does_skip]) (use assms in \<open>simp add: link_watch_def received_def scanning_def beacon_def\<close>)
  have nav: "does scan_log ?R (when_mac (\<lambda>m. dh_ra p \<noteq> index m) (set_nav c (dh_duration p))) [] ?R"
    by (intro does_cond does_nav sv.does_skip)
  have tap: "does scan_log ?R (when_mac (\<lambda>m. tap m \<and> fc_type p = MAC_Type_Data \<and> fc_subtype p = MAC_Subtype_Data) (emit [MacTap p])) [] ?R"
    by (rule does_else [OF _ sv.does_skip]) (use assms in \<open>simp add: beacon_def\<close>)
  have take: "does scan_log ?R (cond (\<lambda>m. dh_ra p \<noteq> index m \<and> dh_ra p \<noteq> MAC_BROADCAST) (discard p ''---'') (stmts [reception_stats c p, dispatch c g p])) []
      (received r orig old k True ?N p)"
    by (rule does_else, use assms in \<open>simp add: beacon_def\<close>, rule sv.does_quiet [OF does_stats], rule sv.does_last [OF does_beacon [OF assms] sv.does_Nil])
  have "does scan_log ?R (when_mac (\<lambda>m. pktRx m \<noteq> None) (stmts [
       when_mac (\<lambda>m. dh_ra p \<noteq> index m) (set_nav c (dh_duration p)),
       when_mac (\<lambda>m. tap m \<and> fc_type p = MAC_Type_Data \<and> fc_subtype p = MAC_Subtype_Data) (emit [MacTap p]),
       cond (\<lambda>m. dh_ra p \<noteq> index m \<and> dh_ra p \<noteq> MAC_BROADCAST) (discard p ''---'') (stmts [reception_stats c p, dispatch c g p]),
       recv_done c])) [] (scanning r orig old k True ?N)"
    by (rule does_then, simp add: received_def, rule sv.does_quiet [OF nav], rule sv.does_quiet [OF tap], rule sv.does_quiet [OF take], rule sv.does_last [OF does_done sv.does_Nil])
  then show ?thesis unfolding recv_good_def by (intro sv.does_quiet [OF loss] sv.does_quiet [OF watch] sv.does_last [OF _ sv.does_Nil])
qed

lemma last_bit:
  assumes "beacon p"
  shows "does scan_log (receiving r orig old k heard bs p) (mac_handle c (RxTimer g)) [] (scanning r orig old k True (noted (rq_channels r ! k) bs (dh_ta p)))"
proof -
  let ?R = "received r orig old k heard bs p" and ?Q = "scanning r orig old k True (noted (rq_channels r ! k) bs (dh_ta p))"
  have state: "does scan_log ?R (assert_mac (\<lambda>m. rx_state m = MAC_RECV \<or> rx_state m = MAC_COLL)) [] ?R" by (rule sv.does_assert) (simp add: received_def)
  have num: "does scan_log ?R (assign (\<lambda>m. set_current W_numrx (cx_now c) (upd_stat c W_numrx (cx_now c - sw_current (stats m W_numrx)) m))) [] ?R"
    by (rule sv.does_assign) (simp add: received_defs)
  have rxp: "does scan_log ?R (assign (upd_stat c W_rxp (decibel (RxPr p)))) [] ?R" by (rule sv.does_assign) (simp add: received_defs)
  have ap: "does scan_log ?R (when_mac (\<lambda>m. index m = bss_id m) (assign (ap_collect c p))) [] ?R"
    by (rule does_else [OF _ sv.does_skip]) (simp add: received_def scanning_def)
  have good: "does scan_log ?R (stmts [assign (upd_stat c W_rxp (decibel (RxPr p))), when_mac (\<lambda>m. index m = bss_id m) (assign (ap_collect c p)),
      (if ch_error p then f else recv_good c g p)]) [] ?Q" for f
    using does_good [OF assms] assms by (intro sv.does_quiet [OF rxp] sv.does_quiet [OF ap] sv.does_last [OF _ sv.does_Nil]) (simp add: beacon_def)
  have pkt: "pktRx m = Some p" if "?R m" for m using that by (simp add: received_def)
  have "does scan_log ?R (recv_timer c g) [] ?Q"
    unfolding recv_timer_def
    by (rule does_pkt [where p = p, OF pkt], assumption, rule sv.does_quiet [OF state], rule sv.does_quiet [OF num], rule sv.does_last [OF does_case [OF _ good] sv.does_Nil])
       (simp add: received_def scanning_def radio_free_def del: stmts.simps)
  moreover have "?R (m\<lparr>mhRecv := mt_handle (mhRecv m)\<rparr>)" if "receiving r orig old k heard bs p m" for m
    using that by (simp add: receiving_def received_def scanning_def radio_free_def mt_handle_def)
  ultimately show ?thesis unfolding does_def mac_handle.simps recv_expire_def by blast
qed

section \<open>Changing channels\<close>

text \<open>The state while one of the timers of the channel is being handled\<close>

definition changing :: "scan_request \<Rightarrow> int \<Rightarrow> addr \<Rightarrow> nat \<Rightarrow> bool \<Rightarrow> bss_description list \<Rightarrow> mac \<Rightarrow> bool" where
  "changing r orig old k heard bs m \<longleftrightarrow> sc_req (scan m) = Some r \<and> sc_index (scan m) = k \<and> sc_step (scan m) \<noteq> SCAN_NONE \<and> sc_resp (scan m) = Some bs
     \<and> sc_orig_ch (scan m) = orig \<and> sc_recvd_response (scan m) = heard \<and> bss_id m = IBSS_ID \<and> old_bss_id m = old \<and> index m \<noteq> IBSS_ID \<and> (mt_paused (mhBackoff m) \<longrightarrow> mt_busy (mhBackoff m))"

definition valid_channel :: "int \<Rightarrow> bool" where
  "valid_channel ch \<longleftrightarrow> 0 < ch \<and> ch \<le> 11"

definition complete_scan :: "scan_request \<Rightarrow> bool" where
  "complete_scan r \<longleftrightarrow> rq_action r \<noteq> STOP_FIRST \<and> rq_channels r \<noteq> [] \<and> (\<forall>ch \<in> set (rq_channels r). valid_channel ch)"

lemma does_next:
  assumes "complete_scan r" "Suc k < length (rq_channels r)"
  shows "does scan_log (changing r orig old k heard bs) (nextScan c) [Tuned (calFreq (rq_channels r ! Suc k))] (scanning r orig old (Suc k) False bs)"
proof -
  have "valid_channel (rq_channels r ! Suc k)" using assms by (simp add: complete_scan_def)
  then show ?thesis using assms unfolding does_def
    by (simp add: changing_def nextScan_def complete_scan_def assign_def pref_ch_def set_channel_def assert_mac_def emit_def valid_channel_def clear_tx_rx_def start_channel_def
        scanning_def radio_free_def stop_timer_def pending_def timer_resched_def)
qed

text \<open>The end\<close>

definition scan_ended :: "int \<Rightarrow> addr \<Rightarrow> bss_description list \<Rightarrow> mac \<Rightarrow> bool" where
  "scan_ended orig old bs m \<longleftrightarrow> chan m = orig \<and> bss_id m = old \<and> sc_step (scan m) = SCAN_NONE \<and> sc_req (scan m) = None \<and> sc_resp (scan m) = None
     \<and> hdv_state m = MAC_CONNECTED \<and> pending (bssTimer m) \<and> (\<forall>b \<in> set bs. channelIDAfterScan m (bd_bss_id b) = bd_channel b)"

lemma channels_noted:
  assumes "distinct (map bd_bss_id bs)" "b \<in> set bs"
  shows "fold (\<lambda>b f. f(bd_bss_id b := bd_channel b)) bs f (bd_bss_id b) = bd_channel b"
proof -
  have other: "a \<notin> bd_bss_id ` set bs \<Longrightarrow> fold (\<lambda>b f. f(bd_bss_id b := bd_channel b)) bs f a = f a" for a bs and f :: "addr \<Rightarrow> int"
    by (induction bs arbitrary: f) simp_all
  from assms show ?thesis by (induction bs arbitrary: f) (auto simp: other)
qed

lemma does_end:
  assumes "complete_scan r" "Suc k = length (rq_channels r)" "valid_channel orig" "distinct (map bd_bss_id bs)" "has_mih c"
  shows "does scan_log (changing r orig old k heard bs) (nextScan c) [Tuned (calFreq orig), Found bs] (scan_ended orig old bs)"
  using assms channels_noted [OF assms(4)] unfolding does_def
  by (simp add: changing_def nextScan_def complete_scan_def assign_def set_channel_def assert_mac_def emit_def valid_channel_def clear_tx_rx_def cancel_scan_timers_def
      scan_ended_def pending_def timer_resched_def report_scan_def)

text \<open>A channel is left when its maximum time is over, or after its minimum time when nobody was heard.\<close>

lemma leave_step:
  assumes "does scan_log (changing r orig old k heard bs) (nextScan c) xs Q" and "\<And>m t. Q m \<Longrightarrow> Q (m\<lparr>scan := (scan m)\<lparr>sc_minTimer := timer_end (sc_minTimer (scan m))\<rparr>\<rparr>)"
    and "\<And>m t. Q m \<Longrightarrow> Q (m\<lparr>scan := (scan m)\<lparr>sc_maxTimer := timer_end (sc_maxTimer (scan m))\<rparr>\<rparr>)"
  shows "does scan_log (scanning r orig old k heard bs) (mac_handle c (if heard then MaxScanTimer else MinScanTimer)) xs Q"
proof (cases heard)
  case True
  have "does scan_log (scanning r orig old k heard bs) (max_scan_expire c) xs Q" unfolding max_scan_expire_def
    by (rule does_timer [OF assms(1)]) (simp_all add: scanning_def pending_def changing_def radio_free_def assms(3))
  with True show ?thesis by simp
next
  case False
  have "does scan_log (scanning r orig old k heard bs) (min_scan_expire c) xs Q" unfolding min_scan_expire_def
    by (rule does_timer [OF does_then [OF _ assms(1)]]) (use False in \<open>simp_all add: scanning_def pending_def changing_def radio_free_def assms(2)\<close>)
  with False show ?thesis by simp
qed

lemma step_next:
  assumes "complete_scan r" "Suc k < length (rq_channels r)"
  shows "does scan_log (scanning r orig old k heard bs) (mac_handle c (if heard then MaxScanTimer else MinScanTimer)) [Tuned (calFreq (rq_channels r ! Suc k))] (scanning r orig old (Suc k) False bs)"
  by (rule leave_step [OF does_next [OF assms]]) (simp add: scanning_def radio_free_def pending_def, elim conjE exE, simp add: timer_end_def)+

lemma step_end:
  assumes "complete_scan r" "Suc k = length (rq_channels r)" "valid_channel orig" "distinct (map bd_bss_id bs)" "has_mih c"
  shows "does scan_log (scanning r orig old k heard bs) (mac_handle c (if heard then MaxScanTimer else MinScanTimer)) [Tuned (calFreq orig), Found bs] (scan_ended orig old bs)"
  by (rule leave_step [OF does_end [OF assms]]) (simp_all add: scan_ended_def)

section \<open>A whole scan\<close>

fun hearing :: "mac_ctx \<times> mac_ctx \<times> client \<times> frame \<Rightarrow> (mac_ctx \<times> mac_input) list" where
  "hearing (a, b, g, p) = [(a, InFrame p), (b, RxTimer g)]"

fun heard_frame :: "mac_ctx \<times> mac_ctx \<times> client \<times> frame \<Rightarrow> frame" where
  "heard_frame (a, b, g, p) = p"

definition sources :: "(mac_ctx \<times> mac_ctx \<times> client \<times> frame) list \<Rightarrow> addr list" where
  "sources ps = map (\<lambda>x. dh_ta (heard_frame x)) ps"

lemma does_hear:
  assumes "\<forall>x \<in> set ps. beacon (heard_frame x)"
  shows "does scan_log (scanning r orig old k heard bs) (mac_run (concat (map hearing ps))) []
    (scanning r orig old k (heard \<or> ps \<noteq> []) (foldl (noted (rq_channels r ! k)) bs (sources ps)))"
  using assms
proof (induction ps arbitrary: heard bs)
  case Nil
  then show ?case using sv.does_run_Nil by (simp add: sources_def del: mac_run.simps)
next
  case (Cons x ps)
  obtain a b g p where x: "x = (a, b, g, p)" by (cases x)
  with Cons.prems have p: "beacon p" by simp
  let ?bs = "noted (rq_channels r ! k) bs (dh_ta p)" and ?F = "foldl (noted (rq_channels r ! k))"
  have rest: "does scan_log (scanning r orig old k True ?bs) (mac_run (concat (map hearing ps))) [] (scanning r orig old k True (?F ?bs (sources ps)))"
    using Cons.IH [of True ?bs] Cons.prems by simp
  have "does scan_log (scanning r orig old k heard bs) (mac_run ((a, InFrame p) # (b, RxTimer g) # concat (map hearing ps))) ([] @ [] @ []) (scanning r orig old k True (?F ?bs (sources ps)))"
    by (rule sv.does_run [OF _ first_bit [OF p] sv.does_run [OF _ last_bit [OF p] rest]]) (simp_all add: receiving_def)
  then show ?case using x by (simp add: sources_def del: mac_run.simps)
qed

text \<open>What is heard on each channel\<close>

fun found :: "int list \<Rightarrow> addr list list \<Rightarrow> bss_description list \<Rightarrow> bss_description list" where
  "found (ch # chs) (as # ass) bs = found chs ass (foldl (noted ch) bs as)"
| "found _ _ bs = bs"

lemma distinct_noted: "distinct (map bd_bss_id bs) \<Longrightarrow> distinct (map bd_bss_id (foldl (noted ch) bs as))"
proof (induction as arbitrary: bs)
  case (Cons a as)
  then have "distinct (map bd_bss_id (noted ch bs a))" by (auto simp: noted_def)
  then show ?case by (simp add: Cons.IH)
qed simp

text \<open>The beacons that are heard on a channel, and the timer that ends it\<close>

fun visit :: "(mac_ctx \<times> mac_ctx \<times> client \<times> frame) list \<times> mac_ctx \<Rightarrow> (mac_ctx \<times> mac_input) list" where
  "visit (ps, c) = concat (map hearing ps) @ [(c, if ps = [] then MinScanTimer else MaxScanTimer)]"

definition visit_ok :: "(mac_ctx \<times> mac_ctx \<times> client \<times> frame) list \<times> mac_ctx \<Rightarrow> bool" where
  "visit_ok v \<longleftrightarrow> has_mih (snd v) \<and> (\<forall>x \<in> set (fst v). beacon (heard_frame x))"

lemma does_visit:
  assumes "visit_ok v" and "\<And>heard bs'. bs' = foldl (noted (rq_channels r ! k)) bs (sources (fst v)) \<Longrightarrow>
      does scan_log (scanning r orig old k heard bs') (mac_handle (snd v) (if heard then MaxScanTimer else MinScanTimer)) xs Q"
  shows "does scan_log (scanning r orig old k False bs) (mac_run (visit v)) xs Q"
proof -
  obtain ps c where v: "v = (ps, c)" by (cases v)
  have "does scan_log (scanning r orig old k False bs) (mac_run (concat (map hearing ps))) [] (scanning r orig old k (ps \<noteq> []) (foldl (noted (rq_channels r ! k)) bs (sources (fst v))))"
    using does_hear [of ps r orig old k False bs] assms(1) v by (simp add: visit_ok_def)
  moreover have "does scan_log (scanning r orig old k (ps \<noteq> []) (foldl (noted (rq_channels r ! k)) bs (sources (fst v)))) (mac_run [(c, if ps = [] then MinScanTimer else MaxScanTimer)]) (xs @ []) Q"
    by (rule sv.does_run [OF _ _ sv.does_run_Nil]) (use assms(2) [OF refl, of "ps \<noteq> []"] v in \<open>simp_all split: if_splits\<close>)
  ultimately have "does scan_log (scanning r orig old k False bs) (mac_run (concat (map hearing ps) @ [(c, if ps = [] then MinScanTimer else MaxScanTimer)])) ([] @ xs @ []) Q"
    by (rule sv.does_runs)
  then show ?thesis using v by simp
qed

lemma does_visits:
  assumes "complete_scan r" "valid_channel orig" "\<forall>v \<in> set vs. visit_ok v" "k < length (rq_channels r)" "length vs = length (rq_channels r) - k" "distinct (map bd_bss_id bs)"
  shows "does scan_log (scanning r orig old k False bs) (mac_run (concat (map visit vs)))
    (map (\<lambda>ch. Tuned (calFreq ch)) (drop (Suc k) (rq_channels r)) @ [Tuned (calFreq orig), Found (found (drop k (rq_channels r)) (map (\<lambda>v. sources (fst v)) vs) bs)])
    (scan_ended orig old (found (drop k (rq_channels r)) (map (\<lambda>v. sources (fst v)) vs) bs))"
  using assms(3-)
proof (induction vs arbitrary: k bs)
  case (Cons v vs)
  let ?ch = "rq_channels r ! k" and ?bs = "foldl (noted (rq_channels r ! k)) bs (sources (fst v))"
  have d: "drop k (rq_channels r) = ?ch # drop (Suc k) (rq_channels r)" using Cons.prems(2) by (simp add: Cons_nth_drop_Suc)
  have dist: "distinct (map bd_bss_id ?bs)" using Cons.prems(4) by (rule distinct_noted)
  show ?case
  proof (cases "Suc k < length (rq_channels r)")
    case True
    have "does scan_log (scanning r orig old k False bs) (mac_run (visit v)) [Tuned (calFreq (rq_channels r ! Suc k))] (scanning r orig old (Suc k) False ?bs)"
      by (rule does_visit) (use Cons.prems(1) step_next [OF assms(1) True] in simp_all)
    moreover have "does scan_log (scanning r orig old (Suc k) False ?bs) (mac_run (concat (map visit vs)))
      (map (\<lambda>ch. Tuned (calFreq ch)) (drop (Suc (Suc k)) (rq_channels r)) @ [Tuned (calFreq orig), Found (found (drop (Suc k) (rq_channels r)) (map (\<lambda>v. sources (fst v)) vs) ?bs)])
      (scan_ended orig old (found (drop (Suc k) (rq_channels r)) (map (\<lambda>v. sources (fst v)) vs) ?bs))"
      using Cons True dist by (intro Cons.IH) simp_all
    ultimately have "does scan_log (scanning r orig old k False bs) (mac_run (visit v @ concat (map visit vs))) ([Tuned (calFreq (rq_channels r ! Suc k))]
        @ (map (\<lambda>ch. Tuned (calFreq ch)) (drop (Suc (Suc k)) (rq_channels r)) @ [Tuned (calFreq orig), Found (found (drop (Suc k) (rq_channels r)) (map (\<lambda>v. sources (fst v)) vs) ?bs)]))
        (scan_ended orig old (found (drop (Suc k) (rq_channels r)) (map (\<lambda>v. sources (fst v)) vs) ?bs))"
      by (rule sv.does_runs)
    moreover have "drop (Suc k) (rq_channels r) = (rq_channels r ! Suc k) # drop (Suc (Suc k)) (rq_channels r)" using True by (simp add: Cons_nth_drop_Suc)
    ultimately show ?thesis using d by simp
  next
    case False
    then have k: "Suc k = length (rq_channels r)" using Cons.prems(2) by simp
    with Cons.prems(3) have "Suc (length vs) = Suc 0" by (metis Suc_diff_Suc diff_self_eq_0 lessI list.size(4) add.right_neutral add_Suc_right)
    then have "vs = []" by simp
    have "does scan_log (scanning r orig old k False bs) (mac_run (visit v)) [Tuned (calFreq orig), Found ?bs] (scan_ended orig old ?bs)"
      by (rule does_visit) (use Cons.prems(1) step_end [OF assms(1) k assms(2) dist] in \<open>simp_all add: visit_ok_def\<close>)
    then show ?thesis using k d \<open>vs = []\<close> by simp
  qed
qed simp

text \<open>The request\<close>

lemma does_request:
  assumes "complete_scan r" "radio_free m" "sc_step (scan m) = SCAN_NONE" "index m \<noteq> IBSS_ID"
  shows "does scan_log (\<lambda>x. x = m) (mac_handle c (Scan (Some r))) (if chan m = hd (rq_channels r) then [] else [Tuned (calFreq (hd (rq_channels r)))])
    (scanning r (chan m) (bss_id m) 0 False [])"
proof -
  obtain ch chs where r: "rq_channels r = ch # chs" using assms(1) by (cases "rq_channels r") (simp_all add: complete_scan_def)
  have "valid_channel ch" using assms(1) r by (simp add: complete_scan_def)
  then show ?thesis using assms r unfolding does_def
    by (simp add: link_scan_req_def pref_ch_def assign_def cond_def skip_def set_channel_def assert_mac_def emit_def valid_channel_def clear_tx_rx_def start_channel_def
        scanning_def radio_free_def stop_timer_def pending_def timer_resched_def)
qed



end
