(* ===== verification/Wlan_Handover.thy ===== *)
theory Wlan_Handover
  imports Mih_Handover_Props Wlan_Demo
begin

text \<open>
  The loss of an 802.11 link as the handover function sees it: beacons carry the interval after which the station misses them, and the report of the
  lost link makes the terminal re-home.
\<close>

section \<open>The interval that a beacon carries\<close>

lemma byte_of: "unat (ucast (w AND 0xFF) :: 8 word) = unat w mod 256" for w :: "32 word"
proof -
  have "w AND 0xFF = take_bit 8 w" by (simp add: take_bit_eq_mask mask_eq_exp_minus_1 and.commute)
  then show ?thesis by (simp add: unsigned_ucast_eq unsigned_take_bit_eq take_bit_eq_mod unat_mod_distrib)
qed

lemma beacon_interval_carried:
  assumes "fr_body p = beacon_body g t" "length g = 8" "0 \<le> t" "t * 1000 < 65536"
  shows "beacon_bytes p = Inr (nat \<lfloor>t * 1000\<rfloor>)"
proof -
  define b where "b = (word_of_int \<lfloor>t * 1000\<rfloor> :: 32 word)"
  have f: "0 \<le> \<lfloor>t * 1000\<rfloor>" "\<lfloor>t * 1000\<rfloor> < 65536" using assms(3,4) by (simp_all add: floor_less_iff)
  then have b: "unat b = nat \<lfloor>t * 1000\<rfloor>" by (simp add: b_def unat_eq_nat_uint uint_word_of_int)
  have "unat (drop_bit 8 b) = unat b div 256" by (simp add: unat_drop_bit_eq drop_bit_eq_div unat_div_distrib)
  moreover have "unat b div 256 < 256" using b f by (simp add: div_less_iff_less_mult nat_less_iff)
  ultimately have "256 * unat (ucast (drop_bit 8 b AND 0xFF) :: 8 word) + unat (ucast (b AND 0xFF) :: 8 word) = unat b" by (simp only: byte_of) simp
  then show ?thesis using assms(1,2) b by (simp add: beacon_bytes_def beacon_body_def b_def Let_def nth_append)
qed

section \<open>The end of a link\<close>

lemma link_lost:
  assumes "mac.bss_id w \<noteq> IBSS_ID" "bssTimer w = TIMER_PENDING d"
  shows "\<exists>w'. mac_handle c BSSTimer w = Inr (w', case send_link_down (cx_macs c) (cx_self c) (index w) (mac.bss_id w) LD_RC_EXPLICIT_DISCONNECT of None \<Rightarrow> [] | Some e \<Rightarrow> [MacEvent e])
    \<and> hdv_state w' = MAC_DISCONNECTED \<and> mac.bss_id w' = IBSS_ID \<and> old_bss_id w' = mac.bss_id w \<and> bssTimer w' = TIMER_IDLE \<and> pktTx w' = None \<and> pktRTS w' = None \<and> pktManagement w' = None"
  using assms by (simp add: bss_expire_def timer_handle_def timer_begin_def cond_def bss_expired_def link_disconnect_def Let_def report_event_def clear_tx_rx_def timer_end_def
      timer_force_cancel_def)

lemma beacon_restarts:
  assumes "dh_ta p = mac.bss_id w" "index w \<noteq> mac.bss_id w" "beacon_bytes p = Inr n"
  shows "recvBeacon c p w = Inr (w\<lparr>bss_timeout := real_of_int (max_beacon_loss w) * (real n / 1000),
    bssTimer := TIMER_PENDING (cx_now c + real_of_int (max_beacon_loss w) * (real n / 1000))\<rparr>, [])"
  using assms by (simp add: recvBeacon_def Let_def assign_def timer_resched_def)

text \<open>
  C11: From a missing beacon to a new home agent. A beacon of its access point makes a station expect the next for \<^verbatim>\<open>max_beacon_loss\<close> times the interval that the access point has
  written into it (in milliseconds, of 16 bits). When that time is over the station leaves: its frames are dropped and it is disconnected. After the module has registered with the handover function, as
  the first user of the interface, in the cases
  2 and 3, that is reported as one lost link, upon which the SIP or MIPv6 agent re-homes from the node of that MAC, once, with the result that its re-homing has if it succeeds, and the interface is marked as
  down; in every other
  case nothing is reported. The terminal has interfaces of different addresses, as many as the function can report on, and the MAC reports the events that its constructor sets.
\<close>

theorem beacon_loss_rehomes:
  assumes "plain_terminal t" and "i \<in> set (ifaces (tm_mih t))" and "fresh_iface (he_macs (tm_env t)) i m" and "terminal_register t0 t = Inr (t1, out1)"
    and station: "index w = mi_macAddr i" "index w \<noteq> mac.bss_id w" "mac.bss_id w \<noteq> IBSS_ID" "dh_ta p = mac.bss_id w"
    and body: "fr_body p = beacon_body gb iv" "length gb = 8" "0 \<le> iv" "iv * 1000 < 65536"
    and ctx: "cx_macs c = he_macs (tm_env t1)" "cx_self c = m"
  shows "\<exists>w1 w2 out. recvBeacon cb p w = Inr (w1, []) \<and> bssTimer w1 = TIMER_PENDING (cx_now cb + real_of_int (max_beacon_loss w) * (real_of_int \<lfloor>iv * 1000\<rfloor> / 1000))
    \<and> mac_handle c BSSTimer w1 = Inr (w2, out) \<and> hdv_state w2 = MAC_DISCONNECTED \<and> mac.bss_id w2 = IBSS_ID \<and> old_bss_id w2 = mac.bss_id w \<and> bssTimer w2 = TIMER_IDLE \<and> pktTx w2 = None
    \<and> (ho_case (tm_ho t) \<noteq> 2 \<and> ho_case (tm_ho t) \<noteq> 3 \<longrightarrow> out = [])
    \<and> ((ho_case (tm_ho t) = 2 \<or> ho_case (tm_ho t) = 3)
        \<and> host_re_homing (cx_now c) (he_net (tm_env t)) (ho_host (tm_ho t)) (mac_node (he_macs (tm_env t)) m) = Inr (n', h', sent) \<longrightarrow>
         (\<exists>e t2. out = [MacEvent e] \<and> link_report (cx_now c) g (Some e) t1 = Inr (t2, map (TmHost \<circ> HoSend) sent) \<and> ho_host (tm_ho t2) = h' \<and> he_net (tm_env t2) = n'
           \<and> map_option mi_status (find_iface (tm_mih t2) (mi_macAddr i)) = Some LINK_STATUS_DOWN))"
proof -
  let ?t = "real_of_int (max_beacon_loss w) * (real (nat \<lfloor>iv * 1000\<rfloor>) / 1000)"
  let ?w1 = "w\<lparr>bss_timeout := ?t, bssTimer := TIMER_PENDING (cx_now cb + ?t)\<rparr>" and ?r = "send_link_down (he_macs (tm_env t1)) m (mi_macAddr i) (mac.bss_id w) LD_RC_EXPLICIT_DISCONNECT"
  have b: "recvBeacon cb p w = Inr (?w1, [])" using beacon_restarts [OF station(4,2) beacon_interval_carried [OF body]] .
  obtain w2 where w2: "mac_handle c BSSTimer ?w1 = Inr (w2, case ?r of None \<Rightarrow> [] | Some e \<Rightarrow> [MacEvent e])" "hdv_state w2 = MAC_DISCONNECTED" "mac.bss_id w2 = IBSS_ID"
      "old_bss_id w2 = mac.bss_id w" "bssTimer w2 = TIMER_IDLE" "pktTx w2 = None"
    using link_lost [of ?w1 _ c] station(1,3) ctx by (simp del: mac_handle.simps) blast
  have n: "real (nat \<lfloor>iv * 1000\<rfloor>) = real_of_int \<lfloor>iv * 1000\<rfloor>" using body(3) by simp
  have r: "?r = (if ho_case (tm_ho t) = 2 \<or> ho_case (tm_ho t) = 3 then ?r else None)" "ho_case (tm_ho t) = 2 \<or> ho_case (tm_ho t) = 3 \<Longrightarrow> ?r \<noteq> None"
    using registered_iface(2) [OF assms(1-4), of MIH_LINK_DOWN] ho_events_down by (simp_all add: send_link_down_def report_def)
  note loss = link_loss_rehomes [OF assms(1-4), where oldAR = "mac.bss_id w" and reason = LD_RC_EXPLICIT_DISCONNECT and now = "cx_now c" and g = g and n' = n' and h' = h' and out = sent]
  show ?thesis
  proof (intro exI conjI)
    show "ho_case (tm_ho t) \<noteq> 2 \<and> ho_case (tm_ho t) \<noteq> 3 \<longrightarrow> (case ?r of None \<Rightarrow> [] | Some e \<Rightarrow> [MacEvent e]) = []" using r(1) by (metis option.simps(4))
    show "(ho_case (tm_ho t) = 2 \<or> ho_case (tm_ho t) = 3)
        \<and> host_re_homing (cx_now c) (he_net (tm_env t)) (ho_host (tm_ho t)) (mac_node (he_macs (tm_env t)) m) = Inr (n', h', sent) \<longrightarrow>
         (\<exists>e t2. (case ?r of None \<Rightarrow> [] | Some e \<Rightarrow> [MacEvent e]) = [MacEvent e] \<and> link_report (cx_now c) g (Some e) t1 = Inr (t2, map (TmHost \<circ> HoSend) sent)
           \<and> ho_host (tm_ho t2) = h' \<and> he_net (tm_env t2) = n' \<and> map_option mi_status (find_iface (tm_mih t2) (mi_macAddr i)) = Some LINK_STATUS_DOWN)"
    proof
      assume a: "(ho_case (tm_ho t) = 2 \<or> ho_case (tm_ho t) = 3)
        \<and> host_re_homing (cx_now c) (he_net (tm_env t)) (ho_host (tm_ho t)) (mac_node (he_macs (tm_env t)) m) = Inr (n', h', sent)"
      then obtain e where e: "?r = Some e" using r(2) by blast
      with loss a show "\<exists>e t2. (case ?r of None \<Rightarrow> [] | Some e \<Rightarrow> [MacEvent e]) = [MacEvent e] \<and> link_report (cx_now c) g (Some e) t1 = Inr (t2, map (TmHost \<circ> HoSend) sent)
           \<and> ho_host (tm_ho t2) = h' \<and> he_net (tm_env t2) = n' \<and> map_option mi_status (find_iface (tm_mih t2) (mi_macAddr i)) = Some LINK_STATUS_DOWN"
        by (simp only: Let_def e option.case) blast
    qed
  qed (use b w2 n in \<open>simp_all del: mac_handle.simps\<close>)
qed

theorem beacon_loss_rehomes_witness:
  "\<exists>t1 t2 w1 w2 e. terminal_register 0 (demo_terminal 2) = Inr (t1, []) \<and> recvBeacon (demo_ctx 1) (demo_beacon 9) ((demo_station 4)\<lparr>mac.bss_id := 9\<rparr>) = Inr (w1, [])
    \<and> bssTimer w1 = TIMER_PENDING (13 / 10)
    \<and> mac_handle ((demo_ctx 1)\<lparr>cx_macs := he_macs (tm_env t1)\<rparr>) BSSTimer w1 = Inr (w2, [MacEvent e]) \<and> link_report 1 0 (Some e) t1 = Inr (t2, [])
    \<and> map_option mi_status (find_iface (tm_mih t2) 4) = Some LINK_STATUS_DOWN"
proof -
  obtain t1 h' where t1: "terminal_register 0 (demo_terminal 2) = Inr (t1, [])" "host_re_homing 1 demo_faces demo_router_host 4 = Inr (demo_faces, h', [])"
    using demo_terminal_registers demo_terminal_rehomes by blast
  show ?thesis
    using beacon_loss_rehomes [OF demo_terminal_plain demo_terminal_fresh t1(1), where w = "(demo_station 4)\<lparr>mac.bss_id := 9\<rparr>" and p = "demo_beacon 9" and gb = "replicate 8 0" and iv = "1 / 10"
        and c = "(demo_ctx 1)\<lparr>cx_macs := he_macs (tm_env t1)\<rparr>" and cb = "demo_ctx 1" and n' = demo_faces and h' = h' and sent = "[]" and g = 0] t1
    by (simp add: demo_beacon_def del: mac_handle.simps) blast
qed

end
