(* ===== verification/Spec2Isabelle.thy ===== *)
theory Spec2Isabelle
  imports Mip6_Paths App_Props Mobility_Props Flow_Props Queue_Props Handover_Props Mih_Props Mih_Handover_Props
    Handover_2_Props Handover_Simple_Props Wlan_Invariants Wlan_Returns Wlan_Retry Wlan_Scan Wlan_Handover
begin

text \<open>
  Verification of the mobility agents of the repository: network mobility for the ns-2 simulator, with
  Mobile IPv6 and with SIP (src/nist-2), on the base simulator src/ns-2.29-ori.

  \<^bold>\<open>The program.\<close> A node of a simulation is a mobile node (MN), a mobile router (MR), a home agent (MR_HA,
  MN_HA), a correspondent (CN), a base station (BS) or a router base station (MR_BS). Each node runs:

  \<^item> a neighbour discovery agent (hsntg/nd.cc) that advertises, solicits and caches prefixes and tells
    the interface manager what appears and expires;
  \<^item> an interface manager with the flows of the node (hsntg/if-mngmt.cc), of which the MIPv6 agent and
    the handover modules are subclasses;
  \<^item> a MIPv6 agent (hsntg/mip6.cc) with the binding update list, the tunnels of the data path, and the
    requests that move flows to another interface;
  \<^item> where the scenario uses SIP, a SIP agent (sip/udp-mysip.cc) with its table of contacts and its
    policies for spreading mobile nodes over the home agents of a router, and an application
    (sip/mysip-app.cc) that sets up sessions, serves redirections and counts losses;
  \<^item> NEMO agents (nemo/nemo.cc) by which a router sends on a given interface;
  \<^item> interface queues (hsntg/drop-tail-hsntg.cc, hsntg/priqueue-hsntg.cc) on the packet queue of the
    simulator;
  \<^item> the IEEE 802.11 MAC of a station or of an access point (mac/mac-802_11.cc), with its timers and statistics
    (ns-2.29-ori/mac/mac-timers.cc, mac-stats.h): it sends frames with acknowledgements and retries, associates, watches
    the beacons, scans channels and predicts the loss of its link;
  \<^item> what all MACs share, the reports of link events (ns-2.29-ori/mac/mac.cc), and the media independent handover function of
    IEEE 802.21 (hsntg/mih.cc, mih-iface.cc, mih-scan.cc), which hands the events to its local users and, by
    sessions, to the functions of other nodes, collects scans and configures the MACs;
  \<^item> the handover module Handover1 (hsntg/802_21/handover-1.cc), a user of that function, which reacts to link
    events, prefixes and scan results and calls the agents above; in other experiments the module Handover2
    (802_21/handover-2.cc), which ranks the interfaces of a terminal, or the simple modules of a terminal and of an access
    point (handover-simple.cc, handover-simpleAP.cc).

  A new prefix makes the agents register a care-of address with a home agent; the home agents then
  tunnel (MIPv6) or redirect (SIP) what is sent to the home address; a lost prefix or link makes a
  router move its nodes to another of its home agents.

  \<^bold>\<open>Theories and sources.\<close>

  \<^item> Prelude: faults as values, the BSD lists, runs of a step function, and the locales \<^verbatim>\<open>simulation\<close> and
    \<^verbatim>\<open>data_refinement\<close>. Bindings: the locale of a binding table and of one with unique keys.
  \<^item> Addresses: ns-2.29-ori/routing/address.cc. Timers: ns-2.29-ori/common/timer-handler.cc.
  \<^item> Packets: hdr_cmn, hdr_ip, hdr_nemo, hdr_mysip and the tunnels of mip6.h and mip6.cc; Agent of
    common/agent.cc. Nemo: nemo.cc, and the store \<^verbatim>\<open>net\<close> of nodes and agents that pointers refer to.
  \<^item> Mip6_State, Mip6_Send, Mip6_Recv, Mip6_Tunnel: MIPV6Agent, in the order table, messages it
    originates, recv_nemo, tunneling. Mip6_Invariants, Mip6_Props, Mip6_Paths: its properties.
  \<^item> Sip_State, Sip_Select, Sip_Send, Sip_Recv: UdpmysipAgent, in the order table, policies, messages it
    originates, recv and sendmsg. Sip_Policies, Sip_Props, Sip_Messages: its properties.
  \<^item> Mysip_App, App_Props: mysipApp.
  \<^item> Nd, Nd_Props: NDAgent. Mobility, Mobility_Props: what a host does at an event of neighbour discovery.
  \<^item> Packet_Queue: PacketQueue of ns-2.29-ori/queue/queue.h and queue.cc; Drop_Tail: Queue and
    DropTailHSNTG; Pri_Queue: PriQueueHSNTG; Queue_Props: their properties.
  \<^item> Flows, Flow_Props: IFMNGMTAgent and the flow messages of MIPV6Agent.
  \<^item> Mac_Link: the events of hsntg/mih-types.h and the link service access point of ns-2.29-ori/mac/mac.cc.
  \<^item> Mih_Iface: MIHInterfaceInfo. Mih_State, Mih_Events, Mih_Commands, Mih_Recv: MIHAgent and MIHScan, in the
    order tables and transport, link events and scans, commands, messages received. Mih_Invariants, Mih_Props,
    Mih_Event_Props: their properties.
  \<^item> Handover_1, Handover_Props: Handover1 and Handover::compute_new_address.
  \<^item> Mih_Handover, Mih_Handover_Props: MIHUserAgent::process_mih_event and a terminal, that is MIHAgent with Handover1
    as its user.
  \<^item> Handover_2, Handover_2_Props: Handover2 and a terminal that runs it. Handover_Simple, Handover_Simple_Props:
    SimpleHandover and SimpleHandoverAP, each with the handover function of its node.
  \<^item> Mac_Stats: StatWatch and ThroughputWatch. Mac_Timers: MacTimer and BackoffTimer. Wlan_State, Wlan_Tx, Wlan_Link, Wlan_Rx: Mac802_11, in the order
    state and elementary steps, frames it sends and repeats, connection and scanning, frames it receives and the
    handlers of all its timers, composed in \<^verbatim>\<open>mac_handle\<close>. Wlan_Preserve and Wlan_Triples: rules for invariants and for
    what an operation shows of its outputs; Wlan_Demo: concrete stations; Wlan_Invariants, Wlan_Returns, Wlan_Retry,
    Wlan_Scan, Wlan_Handover: the properties.

  \<^bold>\<open>How code corresponds to definitions.\<close> A class is a record of the same fields, a subclass extends the
  record; an object that others point to lives in a store under a reference (entries of the binding
  tables, nodes, flows, queued packets); a method is a function from the state to the next state and
  the list of what it sends. An assertion, a null pointer, an access out of range, a division by
  zero, an abort and the read of a field that nothing has set are values of the type \<^typ>\<open>fault\<close>, so
  every operation either returns \<^verbatim>\<open>Inr\<close> or says how it fails. Fields that the code leaves unset are
  arguments called \<open>g\<close> where their value is carried on.

  Addresses and masks are 32 bit words. Counters that the code declares int are of type int or nat without
  a bound, times are reals. Random draws come from a stream in the state. Tunnels of a packet are
  a list with the newest last. Packets are values, except in the packet queue, where they are linked
  through a store. Output for people (debug, printf, trace and log files) is left out.
  Packets that a method sends are returned and not delivered by it: the theorems on paths hand each to
  the next agent. What the handover function tells its users, and what a user asks of it, are outputs of the two
  agents; the terminal of Mih_Handover carries them out one after the other.

  \<^bold>\<open>Loops and bounds.\<close> Loops over a list are structural recursions. Loops over the linked queue, the
  shrinking and draining of a queue and its filters are \<^verbatim>\<open>partial_function (option)\<close>; a call that does not
  return would be the fault \<^verbatim>\<open>NoReturn\<close>, and it is shown that a well-formed queue never gives it. The
  repetitions of an unanswered solicitation and of an unanswered request of the handover function are driven by a fuel argument, and any
  fuel above the number of tries that are left gives the same run. No other definition has fuel. The mutual recursion of
  tx_resume and send in the MAC is a \<^verbatim>\<open>partial_function (option)\<close>, and it is shown exactly when it does not return.

  \<^bold>\<open>What is shown.\<close>

  \<^item> Encapsulation: tunnels nest (Packets); the detour through a router base station is undone.
  \<^item> Refinement: the home agents of both protocols implement a map from identities to their last
    care-of address or contact, over all sequences of messages; the neighbour discovery agent
    implements a cache of prefixes with their times of expiry; the linked queue implements a list.
  \<^item> Paths: data, binding updates, calls and re-homing from end to end through the agents of several
    nodes, each hop a lemma on one agent.
  \<^item> Handover function: well-formed tables over all runs, the handshake of two functions up to a common session, the
    repetition of unanswered requests, events known at both ends of a link, scans reported once, subscriptions as
    sets; and where the code goes wrong: session numbers that collide, cancellations that cancel everything, indications and
    responses that end the receiver.
  \<^item> Terminal: from the report of a MAC by the handover function and the handover module to the agents, attachment
    and loss of a link, and an invariant of all reachable states, by rule induction. With Handover2, the best interface
    takes over when a link is lost, and a wireless LAN takes over from the wide area network, which is switched off.
  \<^item> 802.11 MAC: an invariant of all runs (contention window between its bounds, frames in the slots of their kind, clients listed once), the
    number of transmissions of a frame that is never acknowledged, the order in which a scan visits
    its channels and what it reports, the end of the recursion of tx_resume; and, with the handover function, the handover module and the agents above it,
    how the silence of an access point makes a router re-home its nodes.
  \<^item> Access point: it subscribes to the links of a terminal that registers, and has the terminal scan when a link is
    about to be lost.
  \<^item> Composition: an advertisement makes a node register; an expired prefix makes the handover module
    re-home a router's nodes; flows move from interface to interface by request and answer, or after
    a scan without result.
  \<^item> Policies: soundness of the four ways of choosing a home agent, fairness of round robin, what the
    four ways of re-homing move, and the overrun of the second weighted one.
  \<^item> Invariants of runs: stability of binding entries, uniqueness of home addresses, the books of a
    queue (each packet is queued or has left once), what the interface manager has been told, the
    ranges of the application's counters.
  \<^item> Bounds, termination and round trips: segmentation and re-assembly of messages, utilisation between
    0 and 1, shrinking of a queue, retries and delays of neighbour discovery, printing and reading of
    addresses, exact loss counts.

  \<^bold>\<open>Interfaces.\<close> Each contract is a locale, interpreted on the definitions above in the theory of the
  component that provides them: \<^verbatim>\<open>binding_table\<close> and \<^verbatim>\<open>unique_binding_table\<close> (the tables of MIPv6, SIP and
  the application), \<^verbatim>\<open>encapsulation\<close> (tunnels), \<^verbatim>\<open>selector\<close>, \<^verbatim>\<open>rehome_policy\<close> and \<^verbatim>\<open>renew_policy\<close> (the policies of
  the SIP router), \<^verbatim>\<open>handler_relation\<close> (what every handler of the MIPv6 agent keeps), \<^verbatim>\<open>simulation\<close> (runs of
  neighbour discovery and of the queue), \<^verbatim>\<open>data_refinement\<close> (the linked queue), \<^verbatim>\<open>subscription_table\<close> (the local
  and the remote subscribers of an interface), \<^verbatim>\<open>mih_closed\<close> (the updates of which all handlers of the handover function
  and of a terminal are made), \<^verbatim>\<open>observer\<close> (a view of the outputs of the MAC that its silent steps do not change, interpreted for the frames
  put on the air and for what a scan shows).

  \<^bold>\<open>Not modelled.\<close> The handover modules handover-infocom.cc, 802_21/handover-qos.cc and
  call_admission/handover21-3.cc: they are written against an earlier interface of the handover function
  (event_register, mih_interface_info) that hsntg/mih.h does not have any more. The log files and averages of the application. Of the MAC: link_get_parameters, which fills
  a report and changes nothing, ms_retx_handover, which is compiled with RETX_TRIGGER only, the energy model, tracing and logging, and the
  commands that attach log and trace objects; the radio and the channel are an argument of each step (its context) and frames put on the air are outputs. The earlier prototype of the SIP agent (src/ns-2.33/sip). The rest of the base
  simulator: scheduler, links, routing and the other protocols. The OTcl scenarios, which
  are configuration and data.
\<close>

end
